(* ===== verification/Prelude.thy ===== *)
theory Prelude
  imports Main "HOL-Library.Char_ord" "HOL-Library.List_Lexorder" "HOL-Library.Sublist"
begin

text \<open>
  Shared ground of the development: Go strings as byte lists, fallible results as sums, the
  first-row query of a table, and the generic list lemmas the components use.

  A Go \<open>string\<close> is a sequence of bytes, which is what \<^typ>\<open>string\<close> (a list of
  8-bit characters) is; \<open>length\<close> is Go's \<open>len\<close>. The order of \<open>List_Lexorder\<close> over
  \<open>Char_ord\<close> is Go's byte-wise string order, so \<open>sort\<close> is \<open>sort.Strings\<close>.
\<close>

named_theorems store_simps "unfolding rules of the store operations"
named_theorems go_string_simps "facts about the modelled string functions"

section \<open>Fallible results\<close>

text \<open>\<open>Inl\<close> carries the error of a Go \<open>(T, error)\<close> pair, \<open>Inr\<close> its value.\<close>

definition bind_sum :: "'e + 'a \<Rightarrow> ('a \<Rightarrow> 'e + 'b) \<Rightarrow> 'e + 'b" where
  "bind_sum r f = (case r of Inl e \<Rightarrow> Inl e | Inr x \<Rightarrow> f x)"

declare bind_sum_def [code_unfold]

lemma bind_sum_simps [simp]:
  "bind_sum (Inl e) f = Inl e"
  "bind_sum (Inr x) f = f x"
  by (simp_all add: bind_sum_def)

lemma bind_sum_Inr_iff: "bind_sum r f = Inr y \<longleftrightarrow> (\<exists>x. r = Inr x \<and> f x = Inr y)"
  by (cases r) auto

lemma bind_sum_InrE:
  assumes "bind_sum r f = Inr y"
  obtains x where "r = Inr x" and "f x = Inr y"
  using assms by (auto simp: bind_sum_Inr_iff)

lemma bind_sum_cong [fundef_cong]:
  "r = r' \<Longrightarrow> (\<And>x. r' = Inr x \<Longrightarrow> f x = f' x) \<Longrightarrow> bind_sum r f = bind_sum r' f'"
  by (cases r') auto

definition is_ok :: "'e + 'a \<Rightarrow> bool" where
  "is_ok r = (case r of Inl _ \<Rightarrow> False | Inr _ \<Rightarrow> True)"

lemma is_ok_simps [simp]: "is_ok (Inr x)" "\<not> is_ok (Inl e)"
  by (simp_all add: is_ok_def)

lemma is_ok_iff: "is_ok r \<longleftrightarrow> (\<exists>x. r = Inr x)"
  by (cases r) auto

section \<open>Optional columns\<close>

text \<open>\<open>COALESCE(a, b)\<close> on a nullable column, and \<open>NULLIF(s, '')\<close>.\<close>

definition coalesce :: "'a option \<Rightarrow> 'a \<Rightarrow> 'a option" where
  "coalesce c v = (case c of None \<Rightarrow> Some v | Some x \<Rightarrow> Some x)"

definition nullif_empty :: "string \<Rightarrow> string option" where
  "nullif_empty s = (if s = [] then None else Some s)"

lemma coalesce_simps [simp]:
  "coalesce None v = Some v"
  "coalesce (Some x) v = Some x"
  by (simp_all add: coalesce_def)

lemma coalesce_not_None [simp]: "coalesce c v \<noteq> None"
  by (cases c) auto

lemma nullif_empty_simps [simp]:
  "nullif_empty [] = None"
  "nullif_empty (c # cs) = Some (c # cs)"
  by (simp_all add: nullif_empty_def)

lemma nullif_empty_eq_Some: "nullif_empty s = Some t \<longleftrightarrow> s = t \<and> s \<noteq> []"
  by (auto simp: nullif_empty_def)

section \<open>Tables as lists of rows\<close>

text \<open>An update of the rows that match, as SQL's \<open>UPDATE ... SET ... WHERE\<close>.\<close>

definition update_where :: "('r \<Rightarrow> bool) \<Rightarrow> ('r \<Rightarrow> 'r) \<Rightarrow> 'r list \<Rightarrow> 'r list" where
  "update_where p f rs = map (\<lambda>r. if p r then f r else r) rs"

lemma update_where_simps [simp]:
  "update_where p f [] = []"
  "update_where p f (r # rs) = (if p r then f r else r) # update_where p f rs"
  by (simp_all add: update_where_def)

lemma update_where_append [simp]:
  "update_where p f (rs @ ss) = update_where p f rs @ update_where p f ss"
  by (simp add: update_where_def)

lemma length_update_where [simp]: "length (update_where p f rs) = length rs"
  by (simp add: update_where_def)

lemma set_update_where: "set (update_where p f rs) = (\<lambda>r. if p r then f r else r) ` set rs"
  by (simp add: update_where_def)

lemma in_update_where_iff:
  "x \<in> set (update_where p f rs) \<longleftrightarrow>
     (\<exists>r\<in>set rs. (p r \<and> x = f r) \<or> (\<not> p r \<and> x = r))"
  by (auto simp: set_update_where)

lemma map_update_where:
  assumes "\<And>r. g (f r) = g r"
  shows "map g (update_where p f rs) = map g rs"
  using assms by (induction rs) auto

lemma filter_update_where:
  assumes "\<And>r. q (f r) = q r"
  shows "filter q (update_where p f rs) = update_where p f (filter q rs)"
  using assms by (induction rs) auto

lemma find_update_where:
  assumes "\<And>r. q (f r) = q r"
  shows "find q (update_where p f rs) =
           map_option (\<lambda>r. if p r then f r else r) (find q rs)"
  by (induction rs) (simp_all add: assms)

lemma find_SomeD: "find p rs = Some r \<Longrightarrow> r \<in> set rs \<and> p r"
  by (induction rs) (auto split: if_splits)

lemma find_None_iff': "find p rs = None \<longleftrightarrow> (\<forall>r\<in>set rs. \<not> p r)"
  by (induction rs) auto

lemma find_append:
  "find p (xs @ ys) = (case find p xs of Some r \<Rightarrow> Some r | None \<Rightarrow> find p ys)"
  by (induction xs) auto

lemma find_unique:
  assumes "r \<in> set rs" and "p r" and "\<And>s. s \<in> set rs \<Longrightarrow> p s \<Longrightarrow> s = r"
  shows "find p rs = Some r"
proof (cases "find p rs")
  case None
  with assms(1,2) show ?thesis by (auto simp: find_None_iff')
next
  case (Some s)
  then have "s \<in> set rs" and "p s" by (auto dest: find_SomeD)
  then have "s = r" by (rule assms(3))
  with Some show ?thesis by simp
qed

lemma distinct_map_eq:
  "distinct (map f xs) \<Longrightarrow> x \<in> set xs \<Longrightarrow> y \<in> set xs \<Longrightarrow> f x = f y \<Longrightarrow> x = y"
  by (auto simp: distinct_map inj_on_def)

lemma find_key:
  assumes "distinct (map k rs)" and "r \<in> set rs"
  shows "find (\<lambda>s. k s = k r) rs = Some r"
proof (rule find_unique)
  show "r \<in> set rs" by (rule assms(2))
  show "k r = k r" by simp
  show "s = r" if "s \<in> set rs" and "k s = k r" for s
    using distinct_map_eq [OF assms(1) that(1) assms(2) that(2)] .
qed

text \<open>A table that has only grown at its end, each old row replaced by a related one.\<close>

definition table_le :: "('r \<Rightarrow> 'r \<Rightarrow> bool) \<Rightarrow> 'r list \<Rightarrow> 'r list \<Rightarrow> bool" where
  "table_le R xs ys \<longleftrightarrow> length xs \<le> length ys \<and> list_all2 R xs (take (length xs) ys)"

lemma table_leI: "list_all2 R xs ys \<Longrightarrow> table_le R xs (ys @ zs)"
  by (simp add: table_le_def list_all2_lengthD)

lemma table_leE:
  assumes "table_le R xs ys"
  obtains us vs where "ys = us @ vs" and "list_all2 R xs us"
  using assms unfolding table_le_def by (metis append_take_drop_id)

lemma table_le_refl: "(\<And>x. R x x) \<Longrightarrow> table_le R xs xs"
  by (simp add: table_le_def list.rel_refl)

lemma table_le_trans:
  assumes "table_le R xs ys" and "table_le R ys zs"
    and R: "\<And>x y z. R x y \<Longrightarrow> R y z \<Longrightarrow> R x z"
  shows "table_le R xs zs"
proof -
  from assms(1) obtain us vs where ys: "ys = us @ vs" and xu: "list_all2 R xs us" by (rule table_leE)
  from assms(2) obtain ws qs where zs: "zs = ws @ qs" and yw: "list_all2 R (us @ vs) ws"
    unfolding ys by (rule table_leE)
  from yw obtain w1 w2 where w: "ws = w1 @ w2" and uw: "list_all2 R us w1"
    by (auto simp: list_all2_append1)
  have "list_all2 R xs w1"
    by (rule list_all2_trans [OF _ xu uw]) (rule R)
  then show ?thesis unfolding zs w append_assoc by (rule table_leI)
qed

lemma table_le_update:
  assumes "\<And>x. R x x" and "\<And>x. x \<in> set xs \<Longrightarrow> p x \<Longrightarrow> R x (f x)"
  shows "table_le R xs (update_where p f xs @ ys)"
  by (rule table_leI) (use assms in \<open>induction xs; auto\<close>)

lemma table_le_append: "(\<And>x. R x x) \<Longrightarrow> table_le R xs (xs @ ys)"
  by (rule table_leI) (simp add: list.rel_refl)

lemma table_le_member:
  assumes "table_le R xs ys" and "x \<in> set xs"
  shows "\<exists>y\<in>set ys. R x y"
proof -
  from assms(1) obtain us vs where ys: "ys = us @ vs" and R: "list_all2 R xs us"
    by (rule table_leE)
  from assms(2) obtain i where "i < length xs" and "x = xs ! i" by (auto simp: in_set_conv_nth)
  then show ?thesis
    using R unfolding ys list_all2_conv_all_nth by (intro bexI [of _ "us ! i"]) auto
qed

section \<open>Consecutive numbering\<close>

text \<open>
  \<open>numbered ns\<close>: the list is 1, 2, ..., n, the shape of the attempt numbers of a task and of
  the sequence numbers of an attempt.
\<close>

definition numbered :: "int list \<Rightarrow> bool" where
  "numbered ns \<longleftrightarrow> ns = map int [1..<Suc (length ns)]"

lemma numbered_Nil [simp]: "numbered []"
  by (simp add: numbered_def)

lemma numbered_snoc: "numbered ns \<Longrightarrow> n = int (length ns) + 1 \<Longrightarrow> numbered (ns @ [n])"
  by (simp add: numbered_def)

lemma numbered_snoc_iff: "numbered (ns @ [n]) \<longleftrightarrow> numbered ns \<and> n = int (length ns) + 1"
  by (auto simp: numbered_def)

lemma numbered_le:
  assumes "numbered ns" and "n \<in> set ns"
  shows "1 \<le> n \<and> n \<le> int (length ns)"
proof -
  from assms have "n \<in> set (map int [1..<Suc (length ns)])"
    unfolding numbered_def by simp
  then show ?thesis by auto
qed

lemma numbered_distinct: "numbered ns \<Longrightarrow> distinct ns"
  unfolding numbered_def by (metis distinct_map distinct_upt inj_on_of_nat)

definition max_list :: "int list \<Rightarrow> int" where
  "max_list ns = foldr max ns 0"

lemma max_list_numbered: "numbered ns \<Longrightarrow> max_list ns = int (length ns)"
proof (induction ns rule: rev_induct)
  case Nil
  then show ?case by (simp add: max_list_def)
next
  case (snoc n ns)
  have fold: "foldr max ns m = max m (foldr max ns 0)" if "0 \<le> m" for m
    using that by (induction ns) auto
  from snoc.prems have "numbered ns" and n: "n = int (length ns) + 1"
    by (simp_all add: numbered_snoc_iff)
  with snoc.IH have "max_list ns = int (length ns)" by simp
  then show ?case using n fold [of n] by (simp add: max_list_def)
qed

end
