(* ===== verification/TaskStatus.thy ===== *)
theory TaskStatus
  imports Prelude
begin

text \<open>
  \<open>internal/task/status.go\<close>: the task state machine. \<open>Status\<close> is a string type in Go; its
  thirteen named values are constructors and \<open>StatusOther\<close> is any other string.
\<close>

datatype status =
    StatusCreated | StatusQueued | StatusProvisioning | StatusPlanning | StatusExecuting
  | StatusValidating | StatusPublishing | StatusAwaitingReview | StatusRevisionRequested
  | StatusCompleted | StatusFailed | StatusCancelled | StatusTimedOut
  | StatusOther string

datatype phase = PhasePending | PhaseRunning | PhaseReview | PhaseTerminal

fun status_string :: "status \<Rightarrow> string" where
  "status_string StatusCreated = ''created''"
| "status_string StatusQueued = ''queued''"
| "status_string StatusProvisioning = ''provisioning''"
| "status_string StatusPlanning = ''planning''"
| "status_string StatusExecuting = ''executing''"
| "status_string StatusValidating = ''validating''"
| "status_string StatusPublishing = ''publishing''"
| "status_string StatusAwaitingReview = ''awaiting_review''"
| "status_string StatusRevisionRequested = ''revision_requested''"
| "status_string StatusCompleted = ''completed''"
| "status_string StatusFailed = ''failed''"
| "status_string StatusCancelled = ''cancelled''"
| "status_string StatusTimedOut = ''timed_out''"
| "status_string (StatusOther s) = s"

definition AllStatuses :: "status list" where
  "AllStatuses = [StatusCreated, StatusQueued, StatusProvisioning, StatusPlanning,
     StatusExecuting, StatusValidating, StatusPublishing,
     StatusAwaitingReview, StatusRevisionRequested,
     StatusCompleted, StatusFailed, StatusCancelled, StatusTimedOut]"

fun Valid :: "status \<Rightarrow> bool" where
  "Valid (StatusOther s) = False"
| "Valid s = True"

fun Terminal :: "status \<Rightarrow> bool" where
  "Terminal StatusCompleted = True"
| "Terminal StatusFailed = True"
| "Terminal StatusCancelled = True"
| "Terminal StatusTimedOut = True"
| "Terminal s = False"

fun Phase :: "status \<Rightarrow> phase" where
  "Phase StatusCreated = PhasePending"
| "Phase StatusQueued = PhasePending"
| "Phase StatusProvisioning = PhaseRunning"
| "Phase StatusPlanning = PhaseRunning"
| "Phase StatusExecuting = PhaseRunning"
| "Phase StatusValidating = PhaseRunning"
| "Phase StatusPublishing = PhaseRunning"
| "Phase StatusAwaitingReview = PhaseReview"
| "Phase StatusRevisionRequested = PhaseReview"
| "Phase s = PhaseTerminal"

fun happyPath :: "status \<Rightarrow> status list" where
  "happyPath StatusCreated = [StatusQueued]"
| "happyPath StatusQueued = [StatusProvisioning]"
| "happyPath StatusProvisioning = [StatusPlanning]"
| "happyPath StatusPlanning = [StatusExecuting]"
| "happyPath StatusExecuting = [StatusValidating]"
| "happyPath StatusValidating = [StatusPublishing]"
| "happyPath StatusPublishing = [StatusAwaitingReview]"
| "happyPath StatusAwaitingReview = [StatusCompleted, StatusRevisionRequested]"
| "happyPath StatusRevisionRequested = [StatusQueued, StatusCompleted]"
| "happyPath s = []"

definition CanTransition :: "status \<Rightarrow> status \<Rightarrow> bool" where
  "CanTransition from to =
     (if \<not> Valid from \<or> \<not> Valid to \<or> Terminal from then False
      else if to = StatusCancelled then True
      else if to = StatusFailed then Phase from = PhaseRunning
      else if to = StatusTimedOut then Phase from = PhaseRunning \<or> from = StatusAwaitingReview
      else to \<in> set (happyPath from))"

definition EventTypeCreated :: string where
  "EventTypeCreated = ''task.created''"

definition TransitionEventType :: "status \<Rightarrow> string" where
  "TransitionEventType s = ''task.'' @ status_string s"

section \<open>Facts of the machine\<close>

lemma Valid_iff_AllStatuses: "Valid s \<longleftrightarrow> s \<in> set AllStatuses"
  by (cases s) (simp_all add: AllStatuses_def)

lemma Terminal_Valid: "Terminal s \<Longrightarrow> Valid s"
  by (cases s) simp_all

lemma Phase_terminal_iff: "Valid s \<Longrightarrow> Phase s = PhaseTerminal \<longleftrightarrow> Terminal s"
  by (cases s) simp_all

lemma status_string_inject:
  "Valid s \<Longrightarrow> Valid t \<Longrightarrow> status_string s = status_string t \<longleftrightarrow> s = t"
  by (cases s; cases t) simp_all

lemma CanTransition_Valid: "CanTransition s t \<Longrightarrow> Valid s \<and> Valid t"
  by (simp add: CanTransition_def split: if_splits)

lemma CanTransition_not_Terminal: "CanTransition s t \<Longrightarrow> \<not> Terminal s"
  by (simp add: CanTransition_def split: if_splits)

lemma CanTransition_irrefl: "\<not> CanTransition s s"
  by (cases s) (simp_all add: CanTransition_def)

lemma CanTransition_not_created: "\<not> CanTransition s StatusCreated"
  by (cases s) (simp_all add: CanTransition_def)

lemma CanTransition_queued_iff:
  "CanTransition s StatusQueued \<longleftrightarrow> s = StatusCreated \<or> s = StatusRevisionRequested"
  by (cases s) (simp_all add: CanTransition_def)

text \<open>A path of legal transitions, the shape of a task's recorded history.\<close>

fun legal_path :: "status \<Rightarrow> status list \<Rightarrow> bool" where
  "legal_path s [] = True"
| "legal_path s (t # ts) = (CanTransition s t \<and> legal_path t ts)"

lemma legal_path_append:
  "legal_path s (ts @ us) \<longleftrightarrow> legal_path s ts \<and> legal_path (last (s # ts)) us"
  by (induction ts arbitrary: s) auto

lemma legal_path_terminal: "Terminal s \<Longrightarrow> legal_path s ts \<Longrightarrow> ts = []"
  by (cases ts) (auto dest: CanTransition_not_Terminal)

text \<open>
  The rank of a running status along the happy path. A revision is the only way back: it leaves
  review for the queue.
\<close>

fun stage_rank :: "status \<Rightarrow> nat" where
  "stage_rank StatusCreated = 0"
| "stage_rank StatusQueued = 1"
| "stage_rank StatusProvisioning = 2"
| "stage_rank StatusPlanning = 3"
| "stage_rank StatusExecuting = 4"
| "stage_rank StatusValidating = 5"
| "stage_rank StatusPublishing = 6"
| "stage_rank StatusAwaitingReview = 7"
| "stage_rank StatusRevisionRequested = 8"
| "stage_rank s = 9"

lemma CanTransition_rank:
  assumes "CanTransition s t"
  shows "stage_rank s < stage_rank t \<or> (s = StatusRevisionRequested \<and> t = StatusQueued)"
  using assms by (cases s; cases t) (simp_all add: CanTransition_def)

text \<open>No stage is skipped: a step to a non-terminal status moves one rank, or requeues.\<close>

lemma CanTransition_step:
  assumes "CanTransition s t" and "\<not> Terminal t"
  shows "stage_rank t = Suc (stage_rank s) \<or> (s = StatusRevisionRequested \<and> t = StatusQueued)"
  using assms by (cases s; cases t) (simp_all add: CanTransition_def)

lemma legal_path_no_requeue_bound:
  assumes "legal_path s ts"
    and "StatusRevisionRequested \<notin> set (s # ts)"
  shows "stage_rank s + length ts \<le> stage_rank (last (s # ts))"
  using assms
proof (induction ts arbitrary: s)
  case Nil
  then show ?case by simp
next
  case (Cons t ts)
  then have "stage_rank s < stage_rank t" by (auto dest: CanTransition_rank)
  moreover from Cons have "stage_rank t + length ts \<le> stage_rank (last (t # ts))" by simp
  ultimately show ?case by simp
qed

end
