(* ===== verification/GoStrings.thy ===== *)
theory GoStrings
  imports Prelude
begin

text \<open>
  The part of Go's standard library on strings that the modelled code calls: \<open>unicode/utf8\<close>,
  \<open>strings\<close>, \<open>strconv\<close> and \<open>encoding/hex\<close>, on byte lists. A string is cut into runes as
  the bytes of one UTF-8 encoding each, or a single byte where the encoding is invalid, which is
  what \<open>for range\<close> and \<open>[]rune(s)\<close> see.
\<close>

abbreviation newline :: string where
  "newline \<equiv> [CHR 0x0A]"

text \<open>\<open>strings.Join\<close>.\<close>

fun join_strings :: "string \<Rightarrow> string list \<Rightarrow> string" where
  "join_strings sep [] = []"
| "join_strings sep [x] = x"
| "join_strings sep (x # y # ys) = x @ sep @ join_strings sep (y # ys)"

section \<open>Bytes and UTF-8\<close>

definition byte :: "char \<Rightarrow> nat" where
  "byte c = of_char c"

definition cont :: "char \<Rightarrow> bool" where
  "cont c \<longleftrightarrow> 128 \<le> byte c \<and> byte c \<le> 191"

text \<open>
  The length of the valid encoding at the head of a string, 0 where there is none; the second
  byte's range excludes overlong forms, surrogates and code points past U+10FFFF, as the accept
  ranges of \<open>unicode/utf8\<close> do.
\<close>

definition second_ok :: "nat \<Rightarrow> char \<Rightarrow> bool" where
  "second_ok b c =
     (if b = 224 then 160 \<le> byte c \<and> byte c \<le> 191
      else if b = 237 then 128 \<le> byte c \<and> byte c \<le> 159
      else if b = 240 then 144 \<le> byte c \<and> byte c \<le> 191
      else if b = 244 then 128 \<le> byte c \<and> byte c \<le> 143
      else cont c)"

fun rune_len :: "string \<Rightarrow> nat" where
  "rune_len [] = 0"
| "rune_len (c # cs) =
     (let b = byte c in
      if b < 128 then 1
      else if b < 194 then 0
      else if b \<le> 223 then
        (case cs of c1 # _ \<Rightarrow> if second_ok b c1 then 2 else 0 | _ \<Rightarrow> 0)
      else if b \<le> 239 then
        (case cs of c1 # c2 # _ \<Rightarrow> if second_ok b c1 \<and> cont c2 then 3 else 0 | _ \<Rightarrow> 0)
      else if b \<le> 244 then
        (case cs of c1 # c2 # c3 # _ \<Rightarrow>
           if second_ok b c1 \<and> cont c2 \<and> cont c3 then 4 else 0 | _ \<Rightarrow> 0)
      else 0)"

lemma rune_len_le: "rune_len s \<le> length s"
  by (cases s) (auto simp: Let_def split: list.splits)

lemma rune_len_le4: "rune_len s \<le> 4"
  by (cases s) (auto simp: Let_def split: list.splits)

function runes :: "string \<Rightarrow> string list" where
  "runes [] = []"
| "runes (c # cs) =
     take (max 1 (rune_len (c # cs))) (c # cs) # runes (drop (max 1 (rune_len (c # cs))) (c # cs))"
  by pat_completeness auto
termination
  by (relation "measure length") auto

declare runes.simps(2) [simp del]

function valid_string :: "string \<Rightarrow> bool" where
  "valid_string [] = True"
| "valid_string (c # cs) =
     (0 < rune_len (c # cs) \<and> valid_string (drop (max 1 (rune_len (c # cs))) (c # cs)))"
  by pat_completeness auto
termination
  by (relation "measure length") auto

declare valid_string.simps(2) [simp del]

lemma runes_nonempty: "s \<noteq> [] \<Longrightarrow>
  runes s = take (max 1 (rune_len s)) s # runes (drop (max 1 (rune_len s)) s)"
  by (cases s) (simp_all add: runes.simps(2))

lemma valid_string_nonempty: "s \<noteq> [] \<Longrightarrow>
  valid_string s = (0 < rune_len s \<and> valid_string (drop (rune_len s) s))"
proof (cases s)
  case (Cons c cs)
  then show ?thesis
    by (cases "0 < rune_len (c # cs)") (simp_all add: valid_string.simps(2) max_def Suc_le_eq)
qed simp

text \<open>Code equations that pass over ASCII bytes without arithmetic.\<close>

fun ascii :: "char \<Rightarrow> bool" where
  "ascii (Char b0 b1 b2 b3 b4 b5 b6 b7) = (\<not> b7)"

lemma ascii_iff: "ascii c \<longleftrightarrow> byte c < 128"
  by (cases c) (auto simp: byte_def)

lemma rune_len_ascii: "ascii c \<Longrightarrow> rune_len (c # cs) = 1"
  by (simp add: ascii_iff)

lemma runes_code [code]:
  "runes [] = []"
  "runes (c # cs) =
     (if ascii c then [c] # runes cs
      else let n = max 1 (rune_len (c # cs)) in take n (c # cs) # runes (drop n (c # cs)))"
  by (simp_all add: runes.simps(2) rune_len_ascii Let_def del: rune_len.simps)

lemma valid_string_code [code]:
  "valid_string [] = True"
  "valid_string (c # cs) =
     (if ascii c then valid_string cs
      else let n = rune_len (c # cs) in 0 < n \<and> valid_string (drop n (c # cs)))"
  by (simp, cases "ascii c")
    (simp_all add: valid_string.simps(2) rune_len_ascii max_def Suc_le_eq Let_def del: rune_len.simps)

lemma valid_string_ascii: "list_all ascii s \<Longrightarrow> valid_string s"
  by (induction s) (simp_all add: valid_string_code)

lemma concat_runes: "concat (runes s) = s"
proof (induction s rule: runes.induct)
  case (2 c cs)
  then show ?case by (simp add: runes.simps(2) del: rune_len.simps)
qed simp

lemma length_runes_le: "length (runes s) \<le> length s"
proof (induction s rule: runes.induct)
  case (2 c cs)
  then show ?case by (simp add: runes.simps(2) del: rune_len.simps)
qed simp

text \<open>One complete rune, and its stability under whatever follows it.\<close>

definition one_rune :: "string \<Rightarrow> bool" where
  "one_rune r \<longleftrightarrow> r \<noteq> [] \<and> rune_len r = length r"

lemma rune_len_append: "0 < rune_len s \<Longrightarrow> rune_len (s @ t) = rune_len s"
  by (cases s) (auto simp: Let_def split: list.splits if_splits)

lemma rune_len_take:
  assumes "0 < rune_len s" and "rune_len s \<le> n"
  shows "rune_len (take n s) = rune_len s"
proof -
  obtain c cs where s: "s = c # cs" using assms(1) by (cases s) auto
  obtain m where n: "n = Suc m" using assms by (cases n) auto
  show ?thesis
    using assms unfolding s n
    by (auto simp: Let_def take_Cons' split: list.splits if_splits)
qed

lemma rune_len_take_less:
  assumes "n < rune_len s"
  shows "rune_len (take n s) = 0"
proof (rule ccontr)
  assume "rune_len (take n s) \<noteq> 0"
  then have pos: "0 < rune_len (take n s)" by simp
  have "rune_len (take n s @ drop n s) = rune_len (take n s)"
    by (rule rune_len_append [OF pos])
  moreover have "rune_len (take n s) \<le> n"
    using rune_len_le [of "take n s"] by simp
  ultimately show False using assms by simp
qed

lemma one_rune_append: "one_rune r \<Longrightarrow> rune_len (r @ s) = length r"
  by (simp add: one_rune_def rune_len_append)

lemma runes_one_rune: "one_rune r \<Longrightarrow> runes (r @ s) = r # runes s"
proof -
  assume r: "one_rune r"
  then have "r \<noteq> []" by (simp add: one_rune_def)
  then have "max 1 (length r) = length r" by (cases r) auto
  with r \<open>r \<noteq> []\<close> show ?thesis
    by (subst runes_nonempty) (simp_all add: one_rune_append)
qed

lemma runes_concat: "(\<And>r. r \<in> set rs \<Longrightarrow> one_rune r) \<Longrightarrow> runes (concat rs) = rs"
  by (induction rs) (simp_all add: runes_one_rune)

lemma valid_string_one_rune: "one_rune r \<Longrightarrow> valid_string (r @ s) = valid_string s"
  by (subst valid_string_nonempty) (auto simp: one_rune_def rune_len_append)

lemma valid_string_concat: "(\<And>r. r \<in> set rs \<Longrightarrow> one_rune r) \<Longrightarrow> valid_string (concat rs)"
  by (induction rs) (simp_all add: valid_string_one_rune)

text \<open>\<open>utf8.RuneCountInString\<close>; on valid text this is also Postgres \<open>char_length\<close>.\<close>

definition rune_count :: "string \<Rightarrow> nat" where
  "rune_count s = length (runes s)"

lemma rune_count_le: "rune_count s \<le> length s"
  by (simp add: rune_count_def length_runes_le)

lemma rune_count_Nil [simp]: "rune_count [] = 0"
  by (simp add: rune_count_def)

lemma rune_count_pos: "s \<noteq> [] \<Longrightarrow> 0 < rune_count s"
  by (simp add: rune_count_def runes_nonempty)

text \<open>ASCII lower case.\<close>

definition lower_byte :: "char \<Rightarrow> char" where
  "lower_byte c = (if 65 \<le> byte c \<and> byte c \<le> 90 then char_of (byte c + 32) else c)"

section \<open>Truncation on a rune boundary\<close>

text \<open>
  \<open>for len(s) > 0 && !utf8.ValidString(s) \{ s = s[:len(s)-1] \}\<close>, the loop three packages
  share.
\<close>

function trim_invalid :: "string \<Rightarrow> string" where
  "trim_invalid s = (if s \<noteq> [] \<and> \<not> valid_string s then trim_invalid (butlast s) else s)"
  by pat_completeness auto
termination
  by (relation "measure length") auto

declare trim_invalid.simps [simp del]

lemma trim_invalid_valid: "valid_string (trim_invalid s)"
proof (induction s rule: trim_invalid.induct)
  case (1 s)
  then show ?case
    by (cases "s \<noteq> [] \<and> \<not> valid_string s") (auto simp: trim_invalid.simps [of s])
qed

lemma trim_invalid_prefix: "prefix (trim_invalid s) s"
proof (induction s rule: trim_invalid.induct)
  case (1 s)
  show ?case
  proof (cases "s \<noteq> [] \<and> \<not> valid_string s")
    case True
    with 1 have "prefix (trim_invalid (butlast s)) (butlast s)" by blast
    with True show ?thesis
      by (auto simp: trim_invalid.simps [of s] intro: prefix_order.trans prefixeq_butlast)
  next
    case False
    then show ?thesis by (auto simp: trim_invalid.simps [of s])
  qed
qed

lemma trim_invalid_longest:
  assumes "valid_string (take k s)"
  shows "min k (length s) \<le> length (trim_invalid s)"
  using assms
proof (induction s rule: trim_invalid.induct)
  case (1 s)
  show ?case
  proof (cases "s \<noteq> [] \<and> \<not> valid_string s")
    case True
    with "1.prems" have "k < length s" by (cases "k < length s") auto
    then have "k \<le> length s - 1" by simp
    then have "take k (butlast s) = take k s" by (simp add: butlast_conv_take min_def)
    with True 1 have "min k (length (butlast s)) \<le> length (trim_invalid (butlast s))" by simp
    with True \<open>k < length s\<close> show ?thesis by (simp add: trim_invalid.simps [of s])
  next
    case False
    then show ?thesis by (auto simp: trim_invalid.simps [of s])
  qed
qed

text \<open>Cutting valid text anywhere leaves a rune boundary within the last three bytes.\<close>

lemma valid_cut:
  assumes "valid_string s" and "n \<le> length s"
  shows "\<exists>k. n \<le> k + 3 \<and> k \<le> n \<and> valid_string (take k s)"
  using assms
proof (induction s arbitrary: n rule: valid_string.induct)
  case 1
  then show ?case by auto
next
  case (2 c cs)
  let ?s = "c # cs" and ?m = "rune_len (c # cs)"
  from "2.prems" have m: "0 < ?m" and rest: "valid_string (drop ?m ?s)"
    by (auto simp: valid_string_nonempty simp del: rune_len.simps drop_Cons')
  show ?case
  proof (cases "n < ?m")
    case True
    then have "n \<le> 0 + 3" using rune_len_le4 [of ?s] by linarith
    then show ?thesis by (intro exI [of _ 0]) auto
  next
    case False
    have "n - ?m \<le> length (drop ?m ?s)" using "2.prems"(2) by simp
    moreover have "max 1 ?m = ?m" using m by simp
    ultimately obtain k where k: "n - ?m \<le> k + 3" "k \<le> n - ?m"
      and val: "valid_string (take k (drop ?m ?s))"
      using "2.IH" [of "n - ?m"] m rest by auto
    have len: "rune_len (take (?m + k) ?s) = ?m"
      by (rule rune_len_take) (use m in simp_all)
    have "take (?m + k) ?s \<noteq> []" using m by (cases ?m) auto
    then have "valid_string (take (?m + k) ?s)"
      using m val by (simp add: valid_string_nonempty len drop_take del: rune_len.simps)
    then show ?thesis
      using k False by (intro exI [of _ "?m + k"]) auto
  qed
qed

text \<open>The byte bound \<open>truncateUTF8\<close> of the github package and \<open>truncateRunes\<close> of the
  runner package: keep at most \<open>n\<close> bytes, never split a rune.\<close>

definition truncate_bytes :: "string \<Rightarrow> nat \<Rightarrow> string" where
  "truncate_bytes s n = (if length s \<le> n then s else trim_invalid (take n s))"

lemma truncate_bytes_prefix: "prefix (truncate_bytes s n) s"
  unfolding truncate_bytes_def
  by (auto intro: prefix_order.trans [OF trim_invalid_prefix take_is_prefix])

lemma truncate_bytes_length: "length (truncate_bytes s n) \<le> n"
  using prefix_length_le [OF trim_invalid_prefix, of "take n s"]
  by (auto simp: truncate_bytes_def)

lemma truncate_bytes_valid: "valid_string s \<Longrightarrow> valid_string (truncate_bytes s n)"
  by (simp add: truncate_bytes_def trim_invalid_valid)

lemma truncate_bytes_loses_at_most_3:
  assumes "valid_string s" and "n < length s"
  shows "n \<le> length (truncate_bytes s n) + 3"
proof -
  obtain k where k: "n \<le> k + 3" "k \<le> n" "valid_string (take k s)"
    using valid_cut [OF assms(1), of n] assms(2) by auto
  then have "valid_string (take k (take n s))" by (simp add: min_def)
  then have "min k (length (take n s)) \<le> length (trim_invalid (take n s))"
    by (rule trim_invalid_longest)
  with k assms(2) show ?thesis by (simp add: truncate_bytes_def)
qed

text \<open>\<open>string([]rune(s)[:n])\<close>: an invalid byte becomes the encoding of U+FFFD.\<close>

definition rune_error :: string where
  "rune_error = [CHR 0xEF, CHR 0xBF, CHR 0xBD]"

definition encode_rune :: "string \<Rightarrow> string" where
  "encode_rune r = (if rune_len r = length r then r else rune_error)"

lemma one_rune_error [simp]: "one_rune rune_error"
  by (simp add: one_rune_def rune_error_def second_ok_def byte_def cont_def)

lemma runes_elem_nonempty: "r \<in> set (runes s) \<Longrightarrow> r \<noteq> []"
proof (induction s rule: runes.induct)
  case (2 c cs)
  then show ?case by (auto simp: runes.simps(2) simp del: rune_len.simps)
qed simp

lemma one_rune_encode: "r \<in> set (runes s) \<Longrightarrow> one_rune (encode_rune r)"
  by (auto simp: encode_rune_def one_rune_def [of r] dest: runes_elem_nonempty)

definition truncate_runes :: "string \<Rightarrow> nat \<Rightarrow> string" where
  "truncate_runes s n =
     (let rs = runes s in
      if length rs \<le> n then s else concat (map encode_rune (take n rs)))"

lemma truncate_runes_count: "rune_count (truncate_runes s n) \<le> n"
proof (cases "length (runes s) \<le> n")
  case True
  then show ?thesis by (simp add: truncate_runes_def rune_count_def)
next
  case False
  have "one_rune r" if "r \<in> set (map encode_rune (take n (runes s)))" for r
    using that by (auto dest: in_set_takeD intro: one_rune_encode)
  then have "runes (concat (map encode_rune (take n (runes s)))) = map encode_rune (take n (runes s))"
    by (rule runes_concat)
  with False show ?thesis by (simp add: truncate_runes_def rune_count_def)
qed

lemma truncate_runes_valid: "valid_string s \<Longrightarrow> valid_string (truncate_runes s n)"
  unfolding truncate_runes_def Let_def
  by (auto intro!: valid_string_concat dest!: in_set_takeD one_rune_encode)

lemma truncate_runes_Nil_iff: "0 < n \<Longrightarrow> truncate_runes s n = [] \<longleftrightarrow> s = []"
proof -
  assume n: "0 < n"
  have "encode_rune r \<noteq> []" if "r \<in> set (runes s)" for r
    using one_rune_encode [OF that] by (simp add: one_rune_def)
  moreover have "runes s \<noteq> [] \<Longrightarrow> hd (runes s) \<in> set (runes s)" by simp
  moreover have "s \<noteq> [] \<Longrightarrow> runes s \<noteq> []" by (simp add: runes_nonempty)
  ultimately show ?thesis using n
    by (cases "runes s"; cases n) (auto simp: truncate_runes_def Let_def)
qed

section \<open>Decimal numbers\<close>

fun nat_string :: "nat \<Rightarrow> string" where
  "nat_string n =
     (if n < 10 then [char_of (48 + n)]
      else nat_string (n div 10) @ [char_of (48 + n mod 10)])"

declare nat_string.simps [simp del]

text \<open>\<open>strconv.FormatInt\<close>, the \<open>%d\<close> verb.\<close>

definition int_string :: "int \<Rightarrow> string" where
  "int_string i = (if i < 0 then ''-'' @ nat_string (nat (- i)) else nat_string (nat i))"

definition is_digit :: "char \<Rightarrow> bool" where
  "is_digit c \<longleftrightarrow> 48 \<le> byte c \<and> byte c \<le> 57"

definition digits_value :: "string \<Rightarrow> nat" where
  "digits_value s = foldl (\<lambda>v c. 10 * v + (byte c - 48)) 0 s"

text \<open>\<open>strconv.Atoi\<close> on a 64-bit platform: \<open>None\<close> is a syntax or a range error.\<close>

definition Atoi :: "string \<Rightarrow> int option" where
  "Atoi s =
     (let neg = (case s of c # _ \<Rightarrow> c = CHR ''-'' | [] \<Rightarrow> False);
          ds = (case s of c # r \<Rightarrow> if c = CHR ''-'' \<or> c = CHR ''+'' then r else s | [] \<Rightarrow> s)
      in if ds = [] \<or> \<not> list_all is_digit ds then None
         else let v = int (digits_value ds) * (if neg then -1 else 1)
              in if - (2 ^ 63) \<le> v \<and> v < 2 ^ 63 then Some v else None)"

lemma byte_char_of: "n < 256 \<Longrightarrow> byte (char_of n) = n"
  by (simp add: byte_def)

lemma nat_string_digits: "list_all is_digit (nat_string n)"
proof (induction n rule: nat_string.induct)
  case (1 n)
  then show ?case
    by (subst nat_string.simps) (auto simp: is_digit_def [of "char_of _"] byte_char_of)
qed

lemma nat_string_nonempty [simp]: "nat_string n \<noteq> []"
  by (subst nat_string.simps) simp

lemma digits_value_nat_string: "digits_value (nat_string n) = n"
proof (induction n rule: nat_string.induct)
  case (1 n)
  then show ?case
    by (subst nat_string.simps) (auto simp: digits_value_def byte_char_of)
qed

lemma nat_string_inject [simp]: "nat_string m = nat_string n \<longleftrightarrow> m = n"
  by (metis digits_value_nat_string)

lemma nat_string_no_minus: "CHR ''-'' \<notin> set (nat_string n)"
  using nat_string_digits [of n] by (auto simp: list_all_iff is_digit_def byte_def)

lemma int_string_inject [simp]: "int_string i = int_string j \<longleftrightarrow> i = j"
proof -
  have "nat_string m \<noteq> ''-'' @ nat_string n" for m n
    using nat_string_no_minus [of m] by auto
  then have "nat_string n \<noteq> CHR ''-'' # nat_string m" and "CHR ''-'' # nat_string m \<noteq> nat_string n"
    for m n by (simp, metis append_Cons append_Nil)+
  then show ?thesis
    by (auto simp: int_string_def)
qed

lemma Atoi_nat_string:
  assumes "int n < 2 ^ 63"
  shows "Atoi (nat_string n) = Some (int n)"
proof -
  obtain c cs where s: "nat_string n = c # cs" by (cases "nat_string n") auto
  then have "is_digit c" using nat_string_digits [of n] by simp
  then have "c \<noteq> CHR ''-''" "c \<noteq> CHR ''+''" by (auto simp: is_digit_def byte_def)
  with assms show ?thesis
    using nat_string_digits [of n] digits_value_nat_string [of n]
    by (simp add: Atoi_def s Let_def)
qed

lemma Atoi_int_string: "0 \<le> n \<Longrightarrow> n < 2 ^ 63 \<Longrightarrow> Atoi (int_string n) = Some n"
  using Atoi_nat_string [of "nat n"] by (simp add: int_string_def)

lemma Atoi_int_string_signed:
  assumes "- (2 ^ 63) \<le> n" and "n < 2 ^ 63"
  shows "Atoi (int_string n) = Some n"
proof (cases "0 \<le> n")
  case True
  with assms(2) show ?thesis by (rule Atoi_int_string [rotated])
next
  case False
  then have "int (digits_value (nat_string (nat (- n)))) * - 1 = n"
    by (simp add: digits_value_nat_string)
  then show ?thesis
    using False assms nat_string_digits [of "nat (- n)"] nat_string_nonempty [of "nat (- n)"]
    by (simp add: int_string_def Atoi_def)
qed

end
