(* ===== verification/GoErrors.thy ===== *)
theory GoErrors
  imports TaskStatus GoStrings
begin

text \<open>
  Go errors as values. A sentinel is an error that some caller tests with \<open>errors.Is\<close> or
  \<open>errors.As\<close>; wrapping with \<open>fmt.Errorf("label: %w", err)\<close>, a suffix
  (\<open>"%w: text"\<close>) and \<open>errors.Join\<close> keep the chain, which \<open>err_is\<close> walks.
  \<open>RuntimePanic\<close> is not an error of Go's but the panic that unwinds a call.
\<close>

datatype pg_violation =
    CheckViolation string | UniqueViolation string | ForeignKeyViolation string

datatype sentinel =
    ErrNotFound | ErrAttemptNotFound | ErrActiveTaskExists
  | ErrRevisionLimit | ErrRevisionReplayed
  | InvalidTransitionError status status
  | VersionConflictError int int
  | PgError pg_violation
  | SqlErrNoRows
  | ErrLeaseLost | ErrRunnerNotFound
  | ErrAttemptFailed | ErrSessionStopFailed
  | ContextCanceled | ContextDeadlineExceeded
  | ErrRepositoryNotFound | ErrNoInstallation
  | APIError int
  | ErrBranchTipMoved | ErrNothingToCommit | ErrBaseSHANotFound | ErrEmptyBranch
  | ErrForbiddenBranch | ErrForbiddenRemote | ErrForcePushDenied | ErrMirrorMissing
  | ErrNoReport | ErrNoSession | ErrInvalidSettings | ResourceNotFound string
  | RuntimePanic string

datatype err =
    Sentinel sentinel
  | Msg string
  | Wrap string err
  | Suffix err string
  | Join "err list"

fun err_is :: "sentinel \<Rightarrow> err \<Rightarrow> bool" where
  "err_is s (Sentinel t) = (s = t)"
| "err_is s (Msg m) = False"
| "err_is s (Wrap l e) = err_is s e"
| "err_is s (Suffix e m) = err_is s e"
| "err_is s (Join es) = list_ex (err_is s) es"

text \<open>\<open>errors.As\<close>: the first sentinel of the chain the predicate accepts.\<close>

fun err_as :: "(sentinel \<Rightarrow> bool) \<Rightarrow> err \<Rightarrow> sentinel option" where
  "err_as p (Sentinel t) = (if p t then Some t else None)"
| "err_as p (Msg m) = None"
| "err_as p (Wrap l e) = err_as p e"
| "err_as p (Suffix e m) = err_as p e"
| "err_as p (Join es) = (case filter (\<lambda>r. r \<noteq> None) (map (err_as p) es) of [] \<Rightarrow> None | r # _ \<Rightarrow> r)"

fun sentinel_text :: "sentinel \<Rightarrow> string" where
  "sentinel_text ErrNotFound = ''task not found''"
| "sentinel_text ErrAttemptNotFound = ''task attempt not found''"
| "sentinel_text ErrActiveTaskExists = ''issue already has an active task''"
| "sentinel_text ErrRevisionLimit = ''task has reached its revision limit''"
| "sentinel_text ErrRevisionReplayed = ''revision already requested''"
| "sentinel_text (InvalidTransitionError a b) =
     ''invalid transition '' @ status_string a @ '' -> '' @ status_string b"
| "sentinel_text (VersionConflictError a b) =
     ''version conflict: expected '' @ int_string a @ '', task is at '' @ int_string b"
| "sentinel_text (PgError (CheckViolation c)) = ''violates check constraint '' @ c"
| "sentinel_text (PgError (UniqueViolation c)) = ''violates unique constraint '' @ c"
| "sentinel_text (PgError (ForeignKeyViolation c)) = ''violates foreign key constraint '' @ c"
| "sentinel_text SqlErrNoRows = ''sql: no rows in result set''"
| "sentinel_text ErrLeaseLost = ''lease lost''"
| "sentinel_text ErrRunnerNotFound = ''runner not found''"
| "sentinel_text ErrAttemptFailed = ''attempt failed''"
| "sentinel_text ErrSessionStopFailed = ''session stop failed''"
| "sentinel_text ContextCanceled = ''context canceled''"
| "sentinel_text ContextDeadlineExceeded = ''context deadline exceeded''"
| "sentinel_text ErrRepositoryNotFound = ''repository not found''"
| "sentinel_text ErrNoInstallation = ''repository has no installation''"
| "sentinel_text (APIError c) = ''github api: status '' @ int_string c"
| "sentinel_text ErrBranchTipMoved = ''gitworkspace: branch tip differs from the attempt base''"
| "sentinel_text ErrNothingToCommit = ''gitworkspace: nothing to commit''"
| "sentinel_text ErrBaseSHANotFound = ''gitworkspace: base commit not found''"
| "sentinel_text ErrEmptyBranch = ''gitworkspace: branch name is empty after sanitization''"
| "sentinel_text ErrForbiddenBranch = ''gitworkspace: refusing to push a branch outside agent-trail/''"
| "sentinel_text ErrForbiddenRemote = ''gitworkspace: refusing to push to a remote other than origin''"
| "sentinel_text ErrForcePushDenied = ''gitworkspace: force push is not allowed''"
| "sentinel_text ErrMirrorMissing = ''gitworkspace: repository mirror missing''"
| "sentinel_text ErrNoReport = ''no evidence report''"
| "sentinel_text ErrNoSession = ''no valid session''"
| "sentinel_text ErrInvalidSettings = ''invalid repository settings''"
| "sentinel_text (ResourceNotFound m) = m"
| "sentinel_text (RuntimePanic m) = ''runtime error: '' @ m"

fun err_text :: "err \<Rightarrow> string" where
  "err_text (Sentinel s) = sentinel_text s"
| "err_text (Msg m) = m"
| "err_text (Wrap l e) = l @ '': '' @ err_text e"
| "err_text (Suffix e m) = err_text e @ '': '' @ m"
| "err_text (Join es) = join_strings newline (map err_text es)"

definition wrap :: "string \<Rightarrow> err + 'a \<Rightarrow> err + 'a" where
  "wrap l r = (case r of Inl e \<Rightarrow> Inl (Wrap l e) | Inr x \<Rightarrow> Inr x)"

lemma wrap_simps [simp]:
  "wrap l (Inl e) = Inl (Wrap l e)"
  "wrap l (Inr x) = Inr x"
  by (simp_all add: wrap_def)

lemma wrap_Inr_iff [simp]: "wrap l r = Inr x \<longleftrightarrow> r = Inr x"
  by (cases r) auto

lemma wrap_Inl_iff: "wrap l r = Inl e \<longleftrightarrow> (\<exists>e'. r = Inl e' \<and> e = Wrap l e')"
  by (cases r) auto

text \<open>\<open>errors.Join\<close> drops nil errors and is nil when all are.\<close>

definition join_errs :: "err option list \<Rightarrow> err option" where
  "join_errs es =
     (case filter (\<lambda>e. e \<noteq> None) es of [] \<Rightarrow> None
      | e # rest \<Rightarrow> Some (Join (map the (e # rest))))"

lemma join_errs_None [simp]: "join_errs [None, None] = None"
  and join_errs_Left [simp]: "join_errs [Some e, None] = Some (Join [e])"
  and join_errs_Right [simp]: "join_errs [None, Some e] = Some (Join [e])"
  and join_errs_Both [simp]: "join_errs [Some e, Some f] = Some (Join [e, f])"
  by (simp_all add: join_errs_def)

end
