(* ===== verification/Schema.thy ===== *)
theory Schema
  imports GoErrors Complex_Main
begin

text \<open>
  The database: one record per table row (\<open>internal/task/task.go\<close> and the columns of
  \<open>migrations/*.sql\<close>), the tables as lists in insertion order, and the constraints of the
  migrations as an executable check. A write either leaves a database that satisfies every
  constraint or fails with the violated one, as a Postgres statement does.

  The surroundings of one call are an \<open>env\<close>: the transaction time \<open>now()\<close>, the ids
  \<open>gen_random_uuid()\<close> returns, and which statement the driver makes fail (a lost
  connection, a cancelled context) with which text.
\<close>

type_synonym time = int

record env =
  env_now :: time
  env_uuid :: "nat \<Rightarrow> string"
  env_fault :: "string \<Rightarrow> string option"

section \<open>Shapes checked by regular expressions\<close>

definition is_lower_hex :: "char \<Rightarrow> bool" where
  "is_lower_hex c \<longleftrightarrow> is_digit c \<or> (97 \<le> byte c \<and> byte c \<le> 102)"

definition is_hex :: "char \<Rightarrow> bool" where
  "is_hex c \<longleftrightarrow> is_lower_hex c \<or> (65 \<le> byte c \<and> byte c \<le> 70)"

text \<open>\<open>^[0-9a-fA-F]\{8\}-[0-9a-fA-F]\{4\}-...-[0-9a-fA-F]\{12\}$\<close>: 36 bytes, hyphens at 8, 13, 18
  and 23, hexadecimal digits elsewhere.\<close>

definition IsUUID :: "string \<Rightarrow> bool" where
  "IsUUID s \<longleftrightarrow> length s = 36 \<and>
     list_all (\<lambda>(i, c). if i \<in> {8, 13, 18, 23} then c = CHR ''-'' else is_hex c)
       (zip [0..<36] s)"

text \<open>\<open>^[0-9a-f]\{40\}$\<close>.\<close>

definition is_sha :: "string \<Rightarrow> bool" where
  "is_sha s \<longleftrightarrow> length s = 40 \<and> list_all is_lower_hex s"

section \<open>JSON payloads\<close>

datatype json =
    JNull | JBool bool | JNum string | JStr string | JArr "json list" | JObj "(string \<times> json) list"

abbreviation JInt :: "int \<Rightarrow> json" where
  "JInt i \<equiv> JNum (int_string i)"

section \<open>Rows of the task tables\<close>

record Task =
  t_ID :: string
  t_OrganizationID :: "string option"
  t_RepositoryID :: "string option"
  t_SourceType :: string
  t_SourceIssueNumber :: "int option"
  t_SourceCommentID :: "int option"
  t_Title :: string
  t_Instructions :: string
  t_Status :: status
  t_Phase :: phase
  t_Priority :: int
  t_BaseBranch :: string
  t_BaseCommitSHA :: "string option"
  t_WorkingBranch :: "string option"
  t_AgentProvider :: "string option"
  t_AgentModel :: "string option"
  t_PolicyID :: "string option"
  t_RequestedByUserID :: "string option"
  t_MaxRuntimeSeconds :: "int option"
  t_MaxCostUSD :: "rat option"
  t_StartedAt :: "time option"
  t_CompletedAt :: "time option"
  t_CancelRequestedAt :: "time option"
  t_FailureCode :: "string option"
  t_FailureMessage :: "string option"
  t_StatusReason :: "string option"
  t_CreatedAt :: time
  t_UpdatedAt :: time
  t_Version :: int

datatype FeedbackKind =
    FeedbackReview | FeedbackReviewComment | FeedbackComment | FeedbackReviseCommand
  | FeedbackOther string

fun Label :: "FeedbackKind \<Rightarrow> string" where
  "Label FeedbackReview = ''review''"
| "Label FeedbackReviewComment = ''inline review comment''"
| "Label FeedbackReviseCommand = ''revise command''"
| "Label k = ''comment''"

record FeedbackItem =
  f_Kind :: FeedbackKind
  f_Author :: string
  f_PostedAt :: time
  f_Location :: string

text \<open>The status column of an attempt: \<open>AttemptEnded\<close> holds the task's terminal status.\<close>

datatype attempt_status = AttemptActive | AttemptSuperseded | AttemptEnded status

text \<open>
  \<open>Attempt\<close> of \<open>task.go\<close> with the lease columns of migration 4, which the runner store
  reads and writes. A NULL \<open>feedback_json\<close> reads back as the empty list.
\<close>

record Attempt =
  a_ID :: string
  a_TaskID :: string
  a_Number :: int
  a_Status :: attempt_status
  a_BaseCommitSHA :: "string option"
  a_FinalCommitSHA :: "string option"
  a_PullRequestNumber :: "int option"
  a_Instructions :: "string option"
  a_RequestedByLogin :: "string option"
  a_TriggerCommentID :: "int option"
  a_TriggerCheckRunID :: "int option"
  a_TriggerCheckRunCompletedAt :: "time option"
  a_Feedback :: "FeedbackItem list"
  a_FailureCode :: "string option"
  a_FailureMessage :: "string option"
  a_StartedAt :: "time option"
  a_CompletedAt :: "time option"
  a_CreatedAt :: time
  a_RunnerID :: "string option"
  a_LeaseOwner :: "string option"
  a_LeaseExpiresAt :: "time option"
  a_HeartbeatAt :: "time option"

record Event =
  e_ID :: string
  e_TaskAttemptID :: string
  e_SequenceNumber :: int
  e_EventType :: string
  e_Source :: string
  e_Timestamp :: time
  e_Payload :: json
  e_IdempotencyKey :: "string option"

datatype runner_status = RunnerOnline | RunnerLost | RunnerOffline

record Runner =
  r_ID :: string
  r_Type :: string
  r_HostnameOrPod :: string
  r_Status :: runner_status
  r_Capacity :: int
  r_Labels :: "(string \<times> string) list"
  r_LastHeartbeatAt :: time
  r_CreatedAt :: time
  r_UpdatedAt :: time

section \<open>Rows of the GitHub tables (migration 3)\<close>

record Organization =
  o_ID :: string
  o_Name :: string
  o_Slug :: string
  o_AccountID :: int
  o_AccountLogin :: string
  o_AccountType :: string
  o_UpdatedAt :: time

record Installation =
  i_ID :: string
  i_OrganizationID :: string
  i_GitHubInstallationID :: int
  i_AccountLogin :: string
  i_AccountType :: string
  i_Permissions :: "(string \<times> string) list"
  i_Events :: "string list"
  i_SuspendedAt :: "time option"
  i_UpdatedAt :: time

record RepositoryRow =
  g_ID :: string
  g_OrganizationID :: string
  g_GitHubRepositoryID :: int
  g_Owner :: string
  g_Name :: string
  g_FullName :: string
  g_DefaultBranch :: string
  g_CloneURL :: string
  g_IsPrivate :: bool
  g_IsEnabled :: bool
  g_SettingsJSON :: json
  g_UpdatedAt :: time

record DeliveryRow =
  d_DeliveryID :: string
  d_EventType :: string
  d_Action :: "string option"
  d_InstallationID :: "int option"
  d_RepositoryID :: "int option"
  d_ProcessingStatus :: string
  d_ReceivedAt :: time
  d_ProcessedAt :: "time option"
  d_FailureMessage :: "string option"

section \<open>The database\<close>

record db =
  tasks :: "Task list"
  attempts :: "Attempt list"
  events :: "Event list"
  runners :: "Runner list"
  organizations :: "Organization list"
  installations :: "Installation list"
  repositories :: "RepositoryRow list"
  deliveries :: "DeliveryRow list"

definition empty_db :: db where
  "empty_db = \<lparr>tasks = [], attempts = [], events = [], runners = [],
     organizations = [], installations = [], repositories = [], deliveries = []\<rparr>"

section \<open>Constraints\<close>

text \<open>A Postgres \<open>text\<close> value holds valid UTF-8 without NUL; \<open>char_length\<close> counts runes.\<close>

definition pg_text :: "string \<Rightarrow> bool" where
  "pg_text s \<longleftrightarrow> valid_string s \<and> CHR 0x00 \<notin> set s"

definition text_between :: "int \<Rightarrow> int \<Rightarrow> string \<Rightarrow> bool" where
  "text_between lo hi s \<longleftrightarrow> 
     (let n = int (rune_count s) in pg_text s \<and> lo \<le> n \<and> n \<le> hi)"

definition null_or :: "('a \<Rightarrow> bool) \<Rightarrow> 'a option \<Rightarrow> bool" where
  "null_or p v = (case v of None \<Rightarrow> True | Some x \<Rightarrow> p x)"

lemma null_or_simps [simp]: "null_or p None" "null_or p (Some x) = p x"
  by (simp_all add: null_or_def)

text \<open>A \<open>jsonb\<close> value rejects NUL in its strings; \<open>json.Marshal\<close> has made them valid UTF-8.\<close>

fun json_ok :: "json \<Rightarrow> bool" where
  "json_ok (JStr s) = (CHR 0x00 \<notin> set s)"
| "json_ok (JArr js) = list_all json_ok js"
| "json_ok (JObj kvs) = list_all (\<lambda>(k, v). CHR 0x00 \<notin> set k \<and> json_ok v) kvs"
| "json_ok j = True"

definition task_row_ok :: "Task \<Rightarrow> bool" where
  "task_row_ok t \<longleftrightarrow>
     t_SourceType t \<in> {''api'', ''github_issue''} \<and>
     null_or (\<lambda>n. 0 < n) (t_SourceIssueNumber t) \<and>
     null_or (\<lambda>n. 0 < n) (t_SourceCommentID t) \<and>
     text_between 1 500 (t_Title t) \<and>
     text_between 1 100000 (t_Instructions t) \<and>
     Valid (t_Status t) \<and>
     -100 \<le> t_Priority t \<and> t_Priority t \<le> 100 \<and>
     text_between 1 255 (t_BaseBranch t) \<and>
     null_or is_sha (t_BaseCommitSHA t) \<and>
     null_or (text_between 1 255) (t_WorkingBranch t) \<and>
     null_or (text_between 1 100) (t_AgentProvider t) \<and>
     null_or (text_between 1 100) (t_AgentModel t) \<and>
     null_or (\<lambda>n. 1 \<le> n \<and> n \<le> 86400) (t_MaxRuntimeSeconds t) \<and>
     null_or (\<lambda>c. 0 \<le> c) (t_MaxCostUSD t) \<and>
     null_or (text_between 1 100) (t_FailureCode t) \<and>
     null_or (text_between 1 10000) (t_FailureMessage t) \<and>
     null_or (text_between 1 1000) (t_StatusReason t) \<and>
     1 \<le> t_Version t \<and>
     t_Phase t = Phase (t_Status t) \<and>
     (Terminal (t_Status t) \<longleftrightarrow> t_CompletedAt t \<noteq> None)"

definition attempt_status_ok :: "attempt_status \<Rightarrow> bool" where
  "attempt_status_ok s =
     (case s of AttemptEnded st \<Rightarrow> Terminal st | AttemptActive \<Rightarrow> True | AttemptSuperseded \<Rightarrow> True)"

definition attempt_row_ok :: "Attempt \<Rightarrow> bool" where
  "attempt_row_ok a \<longleftrightarrow>
     1 \<le> a_Number a \<and>
     attempt_status_ok (a_Status a) \<and>
     null_or is_sha (a_BaseCommitSHA a) \<and>
     null_or is_sha (a_FinalCommitSHA a) \<and>
     null_or (\<lambda>n. 0 < n) (a_PullRequestNumber a) \<and>
     null_or (text_between 1 100000) (a_Instructions a) \<and>
     null_or (text_between 1 255) (a_RequestedByLogin a) \<and>
     null_or (\<lambda>n. 0 < n) (a_TriggerCommentID a) \<and>
     null_or (\<lambda>n. 0 < n) (a_TriggerCheckRunID a) \<and>
     (a_TriggerCheckRunCompletedAt a = None \<or> a_TriggerCheckRunID a \<noteq> None) \<and>
     int (length (a_Feedback a)) \<le> 1000 \<and>
     null_or (text_between 1 100) (a_FailureCode a) \<and>
     null_or (text_between 1 10000) (a_FailureMessage a) \<and>
     (a_LeaseOwner a = None \<longleftrightarrow> a_LeaseExpiresAt a = None)"

definition event_row_ok :: "Event \<Rightarrow> bool" where
  "event_row_ok e \<longleftrightarrow>
     1 \<le> e_SequenceNumber e \<and>
     text_between 1 200 (e_EventType e) \<and>
     e_Source e \<in> {''api'', ''system'', ''runner'', ''agent''} \<and>
     json_ok (e_Payload e) \<and>
     null_or (text_between 1 200) (e_IdempotencyKey e)"

definition runner_row_ok :: "Runner \<Rightarrow> bool" where
  "runner_row_ok r \<longleftrightarrow>
     r_Type r \<in> {''process'', ''docker'', ''kubernetes''} \<and>
     text_between 1 255 (r_HostnameOrPod r) \<and>
     1 \<le> r_Capacity r"

text \<open>The columns a partial unique index covers, for the rows its predicate selects.\<close>

definition active_issue_keys :: "Task list \<Rightarrow> (string option \<times> int option) list" where
  "active_issue_keys ts =
     map (\<lambda>t. (t_RepositoryID t, t_SourceIssueNumber t))
       (filter (\<lambda>t. t_SourceType t = ''github_issue'' \<and> t_Phase t \<noteq> PhaseTerminal
                   \<and> t_RepositoryID t \<noteq> None \<and> t_SourceIssueNumber t \<noteq> None) ts)"

definition active_attempt_keys :: "Attempt list \<Rightarrow> string list" where
  "active_attempt_keys as = map a_TaskID (filter (\<lambda>a. a_Status a = AttemptActive) as)"

definition idempotency_keys :: "Event list \<Rightarrow> (string \<times> string option) list" where
  "idempotency_keys es =
     map (\<lambda>e. (e_TaskAttemptID e, e_IdempotencyKey e))
       (filter (\<lambda>e. e_IdempotencyKey e \<noteq> None) es)"

text \<open>The first constraint of a list of (name, holds) pairs that fails.\<close>

fun first_violation :: "(pg_violation \<times> bool) list \<Rightarrow> pg_violation option" where
  "first_violation [] = None"
| "first_violation ((v, ok) # cs) = (if ok then first_violation cs else Some v)"

lemma first_violation_None_iff:
  "first_violation cs = None \<longleftrightarrow> list_all snd cs"
  by (induction cs rule: first_violation.induct) auto

definition task_constraints :: "db \<Rightarrow> (pg_violation \<times> bool) list" where
  "task_constraints d =
     [(CheckViolation ''tasks'', list_all task_row_ok (tasks d)),
      (UniqueViolation ''tasks_pkey'', distinct (map t_ID (tasks d))),
      (UniqueViolation ''tasks_one_active_per_issue_idx'', distinct (active_issue_keys (tasks d))),
      (ForeignKeyViolation ''tasks_organization_id_fkey'',
         list_all (\<lambda>t. null_or (\<lambda>i. i \<in> set (map o_ID (organizations d))) (t_OrganizationID t))
           (tasks d)),
      (ForeignKeyViolation ''tasks_repository_id_fkey'',
         list_all (\<lambda>t. null_or (\<lambda>i. i \<in> set (map g_ID (repositories d))) (t_RepositoryID t))
           (tasks d))]"

definition attempt_constraints :: "db \<Rightarrow> (pg_violation \<times> bool) list" where
  "attempt_constraints d =
     [(CheckViolation ''task_attempts'', list_all attempt_row_ok (attempts d)),
      (UniqueViolation ''task_attempts_pkey'', distinct (map a_ID (attempts d))),
      (UniqueViolation ''task_attempts_task_id_attempt_number_key'',
         distinct (map (\<lambda>a. (a_TaskID a, a_Number a)) (attempts d))),
      (UniqueViolation ''task_attempts_one_active_idx'', distinct (active_attempt_keys (attempts d))),
      (ForeignKeyViolation ''task_attempts_task_id_fkey'',
         list_all (\<lambda>a. a_TaskID a \<in> set (map t_ID (tasks d))) (attempts d)),
      (ForeignKeyViolation ''task_attempts_runner_id_fkey'',
         list_all (\<lambda>a. null_or (\<lambda>i. i \<in> set (map r_ID (runners d))) (a_RunnerID a)) (attempts d)),
      (ForeignKeyViolation ''task_attempts_lease_owner_fkey'',
         list_all (\<lambda>a. null_or (\<lambda>i. i \<in> set (map r_ID (runners d))) (a_LeaseOwner a)) (attempts d))]"

definition event_constraints :: "db \<Rightarrow> (pg_violation \<times> bool) list" where
  "event_constraints d =
     [(CheckViolation ''activity_events'', list_all event_row_ok (events d)),
      (UniqueViolation ''activity_events_pkey'', distinct (map e_ID (events d))),
      (UniqueViolation ''activity_events_task_attempt_id_sequence_number_key'',
         distinct (map (\<lambda>e. (e_TaskAttemptID e, e_SequenceNumber e)) (events d))),
      (UniqueViolation ''activity_events_idempotency_idx'', distinct (idempotency_keys (events d))),
      (ForeignKeyViolation ''activity_events_task_attempt_id_fkey'',
         list_all (\<lambda>e. e_TaskAttemptID e \<in> set (map a_ID (attempts d))) (events d))]"

definition runner_constraints :: "db \<Rightarrow> (pg_violation \<times> bool) list" where
  "runner_constraints d =
     [(CheckViolation ''runners'', list_all runner_row_ok (runners d)),
      (UniqueViolation ''runners_pkey'', distinct (map r_ID (runners d)))]"

text \<open>\<open>^[a-z0-9][a-z0-9-]\{0,99\}$\<close>.\<close>

definition is_slug_char :: "char \<Rightarrow> bool" where
  "is_slug_char c \<longleftrightarrow> is_digit c \<or> (97 \<le> byte c \<and> byte c \<le> 122)"

definition is_slug :: "string \<Rightarrow> bool" where
  "is_slug s = (case s of [] \<Rightarrow> False
     | c # cs \<Rightarrow> is_slug_char c \<and> length cs \<le> 99
         \<and> list_all (\<lambda>c. is_slug_char c \<or> c = CHR ''-'') cs)"

definition organization_row_ok :: "Organization \<Rightarrow> bool" where
  "organization_row_ok r \<longleftrightarrow>
     text_between 1 255 (o_Name r) \<and> is_slug (o_Slug r) \<and> 0 < o_AccountID r \<and>
     text_between 1 255 (o_AccountLogin r) \<and> o_AccountType r \<in> {''User'', ''Organization''}"

definition installation_row_ok :: "Installation \<Rightarrow> bool" where
  "installation_row_ok r \<longleftrightarrow>
     0 < i_GitHubInstallationID r \<and> text_between 1 255 (i_AccountLogin r) \<and>
     i_AccountType r \<in> {''User'', ''Organization''}"

definition repository_row_ok :: "RepositoryRow \<Rightarrow> bool" where
  "repository_row_ok r \<longleftrightarrow>
     0 < g_GitHubRepositoryID r \<and> text_between 1 255 (g_Owner r) \<and> text_between 1 255 (g_Name r) \<and>
     text_between 3 511 (g_FullName r) \<and> text_between 1 255 (g_DefaultBranch r) \<and>
     text_between 1 1000 (g_CloneURL r)"

definition delivery_row_ok :: "DeliveryRow \<Rightarrow> bool" where
  "delivery_row_ok r \<longleftrightarrow>
     text_between 1 100 (d_DeliveryID r) \<and> text_between 1 100 (d_EventType r) \<and>
     null_or (text_between 1 100) (d_Action r) \<and>
     null_or (\<lambda>n. 0 < n) (d_InstallationID r) \<and> null_or (\<lambda>n. 0 < n) (d_RepositoryID r) \<and>
     d_ProcessingStatus r \<in> {''pending'', ''processed'', ''ignored'', ''failed''} \<and>
     null_or (text_between 1 10000) (d_FailureMessage r)"

definition github_constraints :: "db \<Rightarrow> (pg_violation \<times> bool) list" where
  "github_constraints d =
     [(CheckViolation ''organizations'', list_all organization_row_ok (organizations d)),
      (UniqueViolation ''organizations_pkey'', distinct (map o_ID (organizations d))),
      (UniqueViolation ''organizations_slug_key'', distinct (map o_Slug (organizations d))),
      (UniqueViolation ''organizations_github_account_id_key'',
         distinct (map o_AccountID (organizations d))),
      (CheckViolation ''github_installations'', list_all installation_row_ok (installations d)),
      (UniqueViolation ''github_installations_github_installation_id_key'',
         distinct (map i_GitHubInstallationID (installations d))),
      (ForeignKeyViolation ''github_installations_organization_id_fkey'',
         list_all (\<lambda>i. i_OrganizationID i \<in> set (map o_ID (organizations d))) (installations d)),
      (CheckViolation ''repositories'', list_all repository_row_ok (repositories d)),
      (UniqueViolation ''repositories_pkey'', distinct (map g_ID (repositories d))),
      (UniqueViolation ''repositories_github_repository_id_key'',
         distinct (map g_GitHubRepositoryID (repositories d))),
      (ForeignKeyViolation ''repositories_organization_id_fkey'',
         list_all (\<lambda>r. g_OrganizationID r \<in> set (map o_ID (organizations d))) (repositories d)),
      (CheckViolation ''github_webhook_deliveries'', list_all delivery_row_ok (deliveries d)),
      (UniqueViolation ''github_webhook_deliveries_github_delivery_id_key'',
         distinct (map d_DeliveryID (deliveries d)))]"

definition violation :: "db \<Rightarrow> pg_violation option" where
  "violation d = first_violation
     (task_constraints d @ attempt_constraints d @ event_constraints d @ runner_constraints d
      @ github_constraints d)"

definition schema_ok :: "db \<Rightarrow> bool" where
  "schema_ok d \<longleftrightarrow> violation d = None"

lemma schema_ok_iff:
  "schema_ok d \<longleftrightarrow> list_all snd (task_constraints d) \<and> list_all snd (attempt_constraints d)
     \<and> list_all snd (event_constraints d) \<and> list_all snd (runner_constraints d)
     \<and> list_all snd (github_constraints d)"
  by (simp add: schema_ok_def violation_def first_violation_None_iff)

lemma schema_ok_empty: "schema_ok empty_db"
  by (simp add: schema_ok_iff task_constraints_def attempt_constraints_def event_constraints_def
      runner_constraints_def github_constraints_def empty_db_def active_issue_keys_def
      active_attempt_keys_def idempotency_keys_def)

lemma schema_ok_taskD:
  assumes "schema_ok d"
  shows "\<And>t. t \<in> set (tasks d) \<Longrightarrow> task_row_ok t"
    and "distinct (map t_ID (tasks d))"
    and "distinct (active_issue_keys (tasks d))"
  using assms by (simp_all add: schema_ok_iff task_constraints_def list_all_iff)

lemma schema_ok_attemptD:
  assumes "schema_ok d"
  shows "\<And>a. a \<in> set (attempts d) \<Longrightarrow> attempt_row_ok a"
    and "distinct (map a_ID (attempts d))"
    and "distinct (active_attempt_keys (attempts d))"
    and "\<And>a. a \<in> set (attempts d) \<Longrightarrow> a_TaskID a \<in> set (map t_ID (tasks d))"
  using assms by (simp_all add: schema_ok_iff attempt_constraints_def list_all_iff)

lemma schema_ok_eventD:
  assumes "schema_ok d"
  shows "distinct (map e_ID (events d))"
    and "\<And>e. e \<in> set (events d) \<Longrightarrow> e_TaskAttemptID e \<in> set (map a_ID (attempts d))"
    and "\<And>e. e \<in> set (events d) \<Longrightarrow> event_row_ok e"
  using assms by (simp_all add: schema_ok_iff event_constraints_def list_all_iff)

section \<open>Statements and transactions\<close>

text \<open>
  A driver call that may fail, and a write: the driver may fail it, the database may reject the
  rows it would leave, and otherwise it holds. Reads see the database unchanged, so a
  transaction that returns an error has changed nothing (its rollback), which is why the store
  operations return a new database only with \<open>Inr\<close>.
\<close>

definition driver :: "env \<Rightarrow> string \<Rightarrow> err + unit" where
  "driver E label = (case env_fault E label of None \<Rightarrow> Inr () | Some m \<Rightarrow> Inl (Msg m))"

definition exec :: "env \<Rightarrow> string \<Rightarrow> db \<Rightarrow> err + db" where
  "exec E label d' =
     bind_sum (driver E label) (\<lambda>_.
       case violation d' of Some v \<Rightarrow> Inl (Sentinel (PgError v)) | None \<Rightarrow> Inr d')"

definition begin_tx :: "env \<Rightarrow> err + unit" where
  "begin_tx E = wrap ''begin'' (driver E ''begin'')"

definition commit_tx :: "env \<Rightarrow> err + unit" where
  "commit_tx E = wrap ''commit'' (driver E ''commit'')"

definition fault_free :: "env \<Rightarrow> bool" where
  "fault_free E \<longleftrightarrow> (\<forall>l. env_fault E l = None)"

lemma driver_fault_free [simp]: "fault_free E \<Longrightarrow> driver E l = Inr ()"
  by (simp add: driver_def fault_free_def)

lemma exec_Inr: "exec E l d' = Inr d'' \<longleftrightarrow> env_fault E l = None \<and> schema_ok d' \<and> d'' = d'"
  by (auto simp: exec_def driver_def schema_ok_def split: option.splits)

lemma exec_fault_free: "fault_free E \<Longrightarrow> schema_ok d' \<Longrightarrow> exec E l d' = Inr d'"
  by (simp add: exec_Inr fault_free_def)

end
