(* ===== verification/TaskStore.thy ===== *)
theory TaskStore
  imports Schema "HOL-Library.Product_Lexorder"
begin

text \<open>
  \<open>internal/task/store.go\<close>: the operations of the task store on the database. Every operation
  takes the surroundings of the call and the database and returns an error or its result with the
  database it commits. Statement labels are the prefixes the code gives its wrapped errors.
\<close>

section \<open>Parameters\<close>

record CreateParams =
  c_Title :: string
  c_Instructions :: string
  c_Priority :: int
  c_BaseBranch :: string
  c_MaxRuntimeSeconds :: "int option"
  c_MaxCostUSD :: "rat option"
  c_SourceType :: string
  c_SourceIssueNumber :: "int option"
  c_SourceCommentID :: "int option"
  c_OrganizationID :: "string option"
  c_RepositoryID :: "string option"
  c_RequestedByLogin :: string

record RevisionParams =
  v_Instructions :: string
  v_BaseCommitSHA :: string
  v_RequestedByLogin :: string
  v_TriggerCommentID :: int
  v_Feedback :: "FeedbackItem list"
  v_MaxAttempts :: int
  v_IdempotencyKey :: string
  v_Reason :: string

record TransitionParams =
  p_To :: status
  p_Source :: string
  p_Reason :: string
  p_FailureCode :: string
  p_FailureMessage :: string
  p_IdempotencyKey :: string
  p_ExpectedVersion :: int
  p_revision :: "RevisionParams option"

definition transition_to :: "status \<Rightarrow> string \<Rightarrow> TransitionParams" where
  "transition_to s source = \<lparr>p_To = s, p_Source = source, p_Reason = [], p_FailureCode = [],
     p_FailureMessage = [], p_IdempotencyKey = [], p_ExpectedVersion = 0, p_revision = None\<rparr>"

section \<open>Rows of one task\<close>

text \<open>Postgres compares uuids by value, so an id parameter matches in any letter case.\<close>

definition pg_uuid :: "string \<Rightarrow> string" where
  "pg_uuid s = map lower_byte s"

definition task_attempts :: "db \<Rightarrow> string \<Rightarrow> Attempt list" where
  "task_attempts d tid = filter (\<lambda>a. a_TaskID a = tid) (attempts d)"

definition attempt_events :: "db \<Rightarrow> string \<Rightarrow> Event list" where
  "attempt_events d aid = filter (\<lambda>e. e_TaskAttemptID e = aid) (events d)"

text \<open>\<open>activity_events e JOIN task_attempts a ON a.id = e.task_attempt_id WHERE a.task_id = $1\<close>.\<close>

definition task_events :: "db \<Rightarrow> string \<Rightarrow> Event list" where
  "task_events d tid =
     filter (\<lambda>e. e_TaskAttemptID e \<in> set (map a_ID (task_attempts d tid))) (events d)"

definition find_task :: "db \<Rightarrow> string \<Rightarrow> Task option" where
  "find_task d tid = find (\<lambda>t. t_ID t = tid) (tasks d)"

definition active_attempt :: "db \<Rightarrow> string \<Rightarrow> Attempt option" where
  "active_attempt d tid =
     find (\<lambda>a. a_TaskID a = tid \<and> a_Status a = AttemptActive) (attempts d)"

section \<open>Events\<close>

definition validSource :: "string \<Rightarrow> bool" where
  "validSource s \<longleftrightarrow> s = ''api'' \<or> s = ''system'' \<or> s = ''runner'' \<or> s = ''agent''"

definition next_sequence :: "db \<Rightarrow> string \<Rightarrow> int" where
  "next_sequence d aid = max_list (map e_SequenceNumber (attempt_events d aid)) + 1"

definition new_event ::
  "env \<Rightarrow> string \<Rightarrow> string \<Rightarrow> string \<Rightarrow> json \<Rightarrow> string \<Rightarrow> db \<Rightarrow> Event" where
  "new_event E aid eventType source payload key d =
     \<lparr>e_ID = env_uuid E (length (events d)), e_TaskAttemptID = aid,
      e_SequenceNumber = next_sequence d aid, e_EventType = eventType, e_Source = source,
      e_Timestamp = env_now E, e_Payload = payload, e_IdempotencyKey = nullif_empty key\<rparr>"

definition insertEvent ::
  "env \<Rightarrow> string \<Rightarrow> string \<Rightarrow> string \<Rightarrow> json \<Rightarrow> string \<Rightarrow> db \<Rightarrow> err + db" where
  "insertEvent E aid eventType source payload key d =
     wrap ''insert event'' (exec E ''insert event''
       (d\<lparr>events := events d @ [new_event E aid eventType source payload key d]\<rparr>))"

section \<open>Locking and looking up a task\<close>

definition lockTask :: "env \<Rightarrow> string \<Rightarrow> db \<Rightarrow> err + Task" where
  "lockTask E tid d =
     bind_sum (wrap ''lock task'' (driver E ''lock task'')) (\<lambda>_.
       case find_task d (pg_uuid tid) of
         None \<Rightarrow> Inl (Sentinel ErrNotFound)
       | Some t \<Rightarrow> Inr t)"

definition Get :: "env \<Rightarrow> string \<Rightarrow> db \<Rightarrow> err + Task" where
  "Get E tid d =
     (if \<not> IsUUID tid then Inl (Sentinel ErrNotFound)
      else bind_sum (wrap ''get task'' (driver E ''get task'')) (\<lambda>_.
        case find_task d (pg_uuid tid) of
          None \<Rightarrow> Inl (Sentinel ErrNotFound)
        | Some t \<Rightarrow> Inr t))"

section \<open>applyTransition\<close>

text \<open>The replay check that \<open>applyTransition\<close> and \<open>RequestRevision\<close> share.\<close>

definition key_recorded :: "db \<Rightarrow> string \<Rightarrow> string \<Rightarrow> bool" where
  "key_recorded d tid key \<longleftrightarrow> (\<exists>e\<in>set (task_events d tid). e_IdempotencyKey e = Some key)"

definition idempotency_check :: "env \<Rightarrow> string \<Rightarrow> string \<Rightarrow> db \<Rightarrow> err + bool" where
  "idempotency_check E tid key d =
     (if key = [] then Inr False
      else bind_sum (wrap ''idempotency check'' (driver E ''idempotency check'')) (\<lambda>_.
        Inr (key_recorded d tid key)))"

definition load_active_attempt :: "env \<Rightarrow> string \<Rightarrow> db \<Rightarrow> err + Attempt" where
  "load_active_attempt E tid d =
     wrap ''load active attempt''
       (bind_sum (driver E ''load active attempt'') (\<lambda>_.
         case active_attempt d tid of
           None \<Rightarrow> Inl (Sentinel SqlErrNoRows)
         | Some a \<Rightarrow> Inr a))"

definition finish_attempt :: "env \<Rightarrow> TransitionParams \<Rightarrow> Attempt \<Rightarrow> Attempt" where
  "finish_attempt E p a =
     a\<lparr>a_Status := AttemptEnded (p_To p), a_CompletedAt := Some (env_now E),
       a_FailureCode := nullif_empty (p_FailureCode p),
       a_FailureMessage := nullif_empty (p_FailureMessage p)\<rparr>"

definition supersede_attempt :: "env \<Rightarrow> Attempt \<Rightarrow> Attempt" where
  "supersede_attempt E a =
     a\<lparr>a_Status := AttemptSuperseded, a_CompletedAt := Some (env_now E)\<rparr>"

definition start_attempt :: "env \<Rightarrow> Attempt \<Rightarrow> Attempt" where
  "start_attempt E a = a\<lparr>a_StartedAt := coalesce (a_StartedAt a) (env_now E)\<rparr>"

text \<open>A row with the column defaults of the table.\<close>

definition bare_attempt :: "env \<Rightarrow> string \<Rightarrow> string \<Rightarrow> int \<Rightarrow> Attempt" where
  "bare_attempt E aid tid n =
     \<lparr>a_ID = aid, a_TaskID = tid, a_Number = n, a_Status = AttemptActive,
      a_BaseCommitSHA = None, a_FinalCommitSHA = None, a_PullRequestNumber = None,
      a_Instructions = None, a_RequestedByLogin = None, a_TriggerCommentID = None,
      a_TriggerCheckRunID = None, a_TriggerCheckRunCompletedAt = None, a_Feedback = [],
      a_FailureCode = None, a_FailureMessage = None, a_StartedAt = None, a_CompletedAt = None,
      a_CreatedAt = env_now E, a_RunnerID = None, a_LeaseOwner = None, a_LeaseExpiresAt = None,
      a_HeartbeatAt = None\<rparr>"

definition revision_attempt ::
  "env \<Rightarrow> string \<Rightarrow> string \<Rightarrow> int \<Rightarrow> RevisionParams option \<Rightarrow> Attempt" where
  "revision_attempt E aid tid n r =
     (case r of
        None \<Rightarrow> bare_attempt E aid tid n
      | Some v \<Rightarrow> (bare_attempt E aid tid n)
          \<lparr>a_Instructions := Some (v_Instructions v),
           a_BaseCommitSHA := Some (v_BaseCommitSHA v),
           a_RequestedByLogin := Some (v_RequestedByLogin v),
           a_TriggerCommentID := Some (v_TriggerCommentID v),
           a_Feedback := v_Feedback v\<rparr>)"

definition insertRevisionAttempt ::
  "env \<Rightarrow> string \<Rightarrow> int \<Rightarrow> RevisionParams option \<Rightarrow> db \<Rightarrow> err + (string \<times> db)" where
  "insertRevisionAttempt E tid n r d =
     (let aid = env_uuid E (length (attempts d)) in
      wrap ''insert attempt''
        (bind_sum (exec E ''insert attempt''
           (d\<lparr>attempts := attempts d @ [revision_attempt E aid tid n r]\<rparr>)) (\<lambda>d'.
         Inr (aid, d'))))"

definition update_attempt :: "string \<Rightarrow> (Attempt \<Rightarrow> Attempt) \<Rightarrow> db \<Rightarrow> db" where
  "update_attempt aid f d = d\<lparr>attempts := update_where (\<lambda>a. a_ID a = aid) f (attempts d)\<rparr>"

text \<open>The switch of \<open>applyTransition\<close>: the attempt's row and the attempt the event goes to.\<close>

definition settle_attempt ::
  "env \<Rightarrow> Task \<Rightarrow> TransitionParams \<Rightarrow> Attempt \<Rightarrow> db \<Rightarrow> err + (string \<times> db)" where
  "settle_attempt E cur p att d =
     (if Terminal (p_To p) then
        bind_sum (wrap ''finish attempt'' (exec E ''finish attempt''
          (update_attempt (a_ID att) (finish_attempt E p) d))) (\<lambda>d1.
        Inr (a_ID att, d1))
      else if t_Status cur = StatusRevisionRequested \<and> p_To p = StatusQueued then
        bind_sum (wrap ''supersede attempt'' (exec E ''supersede attempt''
          (update_attempt (a_ID att) (supersede_attempt E) d))) (\<lambda>d1.
        insertRevisionAttempt E (t_ID cur) (a_Number att + 1) (p_revision p) d1)
      else if p_To p = StatusProvisioning then
        bind_sum (wrap ''start attempt'' (exec E ''start attempt''
          (update_attempt (a_ID att) (start_attempt E) d))) (\<lambda>d1.
        Inr (a_ID att, d1))
      else Inr (a_ID att, d))"

definition maxStatusReasonLen :: nat where
  "maxStatusReasonLen = 1000"

text \<open>\<open>COALESCE(NULLIF($n, ''), column)\<close>.\<close>

definition keep_unless :: "string \<Rightarrow> string option \<Rightarrow> string option" where
  "keep_unless s c = (if s = [] then c else Some s)"

text \<open>The \<open>UPDATE tasks\<close> of a transition, on the task's row.\<close>

definition transition_row :: "env \<Rightarrow> TransitionParams \<Rightarrow> Task \<Rightarrow> Task" where
  "transition_row E p t =
     t\<lparr>t_Status := p_To p,
       t_Phase := Phase (p_To p),
       t_Version := t_Version t + 1,
       t_UpdatedAt := env_now E,
       t_StartedAt := (if p_To p = StatusProvisioning
                       then coalesce (t_StartedAt t) (env_now E) else t_StartedAt t),
       t_CompletedAt := (if Terminal (p_To p) then Some (env_now E) else t_CompletedAt t),
       t_CancelRequestedAt := (if p_To p = StatusCancelled
                               then coalesce (t_CancelRequestedAt t) (env_now E)
                               else t_CancelRequestedAt t),
       t_FailureCode := keep_unless (p_FailureCode p) (t_FailureCode t),
       t_FailureMessage := keep_unless (p_FailureMessage p) (t_FailureMessage t),
       t_StatusReason := nullif_empty (truncate_runes (p_Reason p) maxStatusReasonLen)\<rparr>"

definition update_task :: "env \<Rightarrow> string \<Rightarrow> string \<Rightarrow> (Task \<Rightarrow> Task) \<Rightarrow> db \<Rightarrow> err + (Task \<times> db)" where
  "update_task E label tid f d =
     bind_sum (exec E label (d\<lparr>tasks := update_where (\<lambda>t. t_ID t = tid) f (tasks d)\<rparr>)) (\<lambda>d'.
       case find_task d' tid of
         None \<Rightarrow> Inl (Sentinel SqlErrNoRows)
       | Some t \<Rightarrow> Inr (t, d'))"

definition transition_payload :: "status \<Rightarrow> TransitionParams \<Rightarrow> json" where
  "transition_payload from p =
     JObj ([(''from'', JStr (status_string from))]
           @ (if p_Reason p = [] then [] else [(''reason'', JStr (p_Reason p))])
           @ [(''to'', JStr (status_string (p_To p)))])"

definition applyTransition ::
  "env \<Rightarrow> Task \<Rightarrow> TransitionParams \<Rightarrow> db \<Rightarrow> err + (Task \<times> db)" where
  "applyTransition E cur p d =
     (let source = (if p_Source p = [] then ''system'' else p_Source p) in
      if \<not> validSource source then Inl (Msg (''unknown event source '' @ source))
      else bind_sum (idempotency_check E (t_ID cur) (p_IdempotencyKey p) d) (\<lambda>seen.
      if seen then Inr (cur, d)
      else if p_ExpectedVersion p \<noteq> 0 \<and> p_ExpectedVersion p \<noteq> t_Version cur then
        Inl (Sentinel (VersionConflictError (p_ExpectedVersion p) (t_Version cur)))
      else if \<not> CanTransition (t_Status cur) (p_To p) then
        Inl (Sentinel (InvalidTransitionError (t_Status cur) (p_To p)))
      else bind_sum (load_active_attempt E (t_ID cur) d) (\<lambda>att.
      bind_sum (settle_attempt E cur p att d) (\<lambda>(eventAttemptID, d1).
      bind_sum (wrap ''update task'' (update_task E ''update task'' (t_ID cur) (transition_row E p) d1))
        (\<lambda>(next, d2).
      bind_sum (insertEvent E eventAttemptID (TransitionEventType (p_To p)) source
                  (transition_payload (t_Status cur) p) (p_IdempotencyKey p) d2) (\<lambda>d3.
      Inr (next, d3)))))))"

section \<open>Create\<close>

definition created_task :: "env \<Rightarrow> CreateParams \<Rightarrow> db \<Rightarrow> Task" where
  "created_task E p d =
     \<lparr>t_ID = env_uuid E (length (tasks d)), t_OrganizationID = c_OrganizationID p,
      t_RepositoryID = c_RepositoryID p, t_SourceType = c_SourceType p,
      t_SourceIssueNumber = c_SourceIssueNumber p, t_SourceCommentID = c_SourceCommentID p,
      t_Title = c_Title p, t_Instructions = c_Instructions p,
      t_Status = StatusCreated, t_Phase = PhasePending, t_Priority = c_Priority p,
      t_BaseBranch = c_BaseBranch p, t_BaseCommitSHA = None, t_WorkingBranch = None,
      t_AgentProvider = None, t_AgentModel = None, t_PolicyID = None,
      t_RequestedByUserID = None, t_MaxRuntimeSeconds = c_MaxRuntimeSeconds p,
      t_MaxCostUSD = c_MaxCostUSD p, t_StartedAt = None, t_CompletedAt = None,
      t_CancelRequestedAt = None, t_FailureCode = None, t_FailureMessage = None,
      t_StatusReason = None, t_CreatedAt = env_now E, t_UpdatedAt = env_now E, t_Version = 1\<rparr>"

definition create_defaults :: "CreateParams \<Rightarrow> CreateParams" where
  "create_defaults p =
     p\<lparr>c_BaseBranch := (if c_BaseBranch p = [] then ''main'' else c_BaseBranch p),
       c_SourceType := (if c_SourceType p = [] then ''api'' else c_SourceType p)\<rparr>"

definition first_attempt :: "env \<Rightarrow> string \<Rightarrow> CreateParams \<Rightarrow> db \<Rightarrow> Attempt" where
  "first_attempt E tid p d =
     (bare_attempt E (env_uuid E (length (attempts d))) tid 1)
       \<lparr>a_RequestedByLogin := nullif_empty (c_RequestedByLogin p),
        a_TriggerCommentID := c_SourceCommentID p\<rparr>"

definition isUniqueViolation :: "err \<Rightarrow> string \<Rightarrow> bool" where
  "isUniqueViolation e name \<longleftrightarrow>
     err_as (\<lambda>s. case s of PgError _ \<Rightarrow> True | _ \<Rightarrow> False) e
       = Some (PgError (UniqueViolation name))"

definition insert_created_task :: "env \<Rightarrow> CreateParams \<Rightarrow> db \<Rightarrow> err + (Task \<times> db)" where
  "insert_created_task E p d =
     (let t = created_task E p d in
      case exec E ''insert task'' (d\<lparr>tasks := tasks d @ [t]\<rparr>) of
        Inl e \<Rightarrow> Inl (if isUniqueViolation e ''tasks_one_active_per_issue_idx''
                      then Sentinel ErrActiveTaskExists else Wrap ''insert task'' e)
      | Inr d' \<Rightarrow> Inr (t, d'))"

definition Create :: "env \<Rightarrow> CreateParams \<Rightarrow> db \<Rightarrow> err + (Task \<times> db)" where
  "Create E p0 d =
     (let p = create_defaults p0 in
      bind_sum (begin_tx E) (\<lambda>_.
      bind_sum (insert_created_task E p d) (\<lambda>(created, d1).
      let att = first_attempt E (t_ID created) p d1 in
      bind_sum (wrap ''insert attempt'' (exec E ''insert attempt''
                  (d1\<lparr>attempts := attempts d1 @ [att]\<rparr>))) (\<lambda>d2.
      bind_sum (insertEvent E (a_ID att) EventTypeCreated ''api''
                  (JObj [(''title'', JStr (t_Title created))]) [] d2) (\<lambda>d3.
      bind_sum (applyTransition E created (transition_to StatusQueued ''system'') d3)
        (\<lambda>(queued, d4).
      bind_sum (commit_tx E) (\<lambda>_. Inr (queued, d4))))))))"

section \<open>Transition, Cancel and RequestRevision\<close>

definition Transition :: "env \<Rightarrow> string \<Rightarrow> TransitionParams \<Rightarrow> db \<Rightarrow> err + (Task \<times> db)" where
  "Transition E tid p d =
     (if \<not> IsUUID tid then Inl (Sentinel ErrNotFound)
      else bind_sum (begin_tx E) (\<lambda>_.
      bind_sum (lockTask E tid d) (\<lambda>cur.
      bind_sum (applyTransition E cur p d) (\<lambda>(next, d').
      bind_sum (commit_tx E) (\<lambda>_. Inr (next, d'))))))"

definition Cancel :: "env \<Rightarrow> string \<Rightarrow> string \<Rightarrow> db \<Rightarrow> err + (Task \<times> db)" where
  "Cancel E tid reason d =
     (if \<not> IsUUID tid then Inl (Sentinel ErrNotFound)
      else bind_sum (begin_tx E) (\<lambda>_.
      bind_sum (lockTask E tid d) (\<lambda>cur.
      if t_Status cur = StatusCancelled then Inr (cur, d)
      else bind_sum (applyTransition E cur
                       ((transition_to StatusCancelled ''api'')\<lparr>p_Reason := reason\<rparr>) d)
        (\<lambda>(next, d').
      bind_sum (commit_tx E) (\<lambda>_. Inr (next, d'))))))"

definition revision_params_complete :: "RevisionParams \<Rightarrow> bool" where
  "revision_params_complete p \<longleftrightarrow>
     v_Instructions p \<noteq> [] \<and> is_sha (v_BaseCommitSHA p) \<and> v_RequestedByLogin p \<noteq> []
     \<and> 0 < v_TriggerCommentID p \<and> 1 \<le> v_MaxAttempts p \<and> v_IdempotencyKey p \<noteq> []"

definition RequestRevision ::
  "env \<Rightarrow> string \<Rightarrow> RevisionParams \<Rightarrow> db \<Rightarrow> err + (Task \<times> Attempt \<times> db)" where
  "RequestRevision E tid p d =
     (if \<not> IsUUID tid then Inl (Sentinel ErrNotFound)
      else if \<not> revision_params_complete p then Inl (Msg ''revision params incomplete'')
      else bind_sum (begin_tx E) (\<lambda>_.
      bind_sum (lockTask E tid d) (\<lambda>cur.
      bind_sum (wrap ''revision replay check'' (driver E ''revision replay check'')) (\<lambda>_.
      if key_recorded d (pg_uuid tid) (v_IdempotencyKey p) then Inl (Sentinel ErrRevisionReplayed)
      else bind_sum (wrap ''count attempts'' (driver E ''count attempts'')) (\<lambda>_.
      let n = int (length (task_attempts d (pg_uuid tid))) in
      if v_MaxAttempts p \<le> n then
        Inl (Suffix (Sentinel ErrRevisionLimit)
               (int_string n @ '' of '' @ int_string (v_MaxAttempts p) @ '' attempts used''))
      else bind_sum (applyTransition E cur ((transition_to StatusRevisionRequested ''system'')
                       \<lparr>p_Reason := v_Reason p, p_IdempotencyKey := v_IdempotencyKey p\<rparr>) d)
        (\<lambda>(requested, d1).
      if t_Status requested \<noteq> StatusRevisionRequested then Inl (Sentinel ErrRevisionReplayed)
      else bind_sum (applyTransition E requested ((transition_to StatusQueued ''system'')
                       \<lparr>p_Reason := v_Reason p, p_revision := Some p\<rparr>) d1)
        (\<lambda>(queued, d2).
      bind_sum (wrap ''load revision attempt''
                  (bind_sum (driver E ''load revision attempt'') (\<lambda>_.
                     case active_attempt d2 (pg_uuid tid) of
                       None \<Rightarrow> Inl (Sentinel SqlErrNoRows) | Some a \<Rightarrow> Inr a))) (\<lambda>att.
      bind_sum (commit_tx E) (\<lambda>_. Inr (queued, att, d2))))))))))"

section \<open>Git context, check runs and appended events\<close>

text \<open>First writer wins: \<open>COALESCE(column, $n)\<close>.\<close>

definition git_context_row :: "env \<Rightarrow> string \<Rightarrow> string \<Rightarrow> Task \<Rightarrow> Task" where
  "git_context_row E base branch t =
     t\<lparr>t_BaseCommitSHA := coalesce (t_BaseCommitSHA t) base,
       t_WorkingBranch := coalesce (t_WorkingBranch t) branch,
       t_Version := t_Version t + 1, t_UpdatedAt := env_now E\<rparr>"

definition EnsureGitContext ::
  "env \<Rightarrow> string \<Rightarrow> string \<Rightarrow> string \<Rightarrow> db \<Rightarrow> err + (string \<times> string \<times> db)" where
  "EnsureGitContext E tid base branch d =
     (if \<not> IsUUID tid then Inl (Sentinel ErrNotFound)
      else case update_task E ''ensure git context'' (pg_uuid tid) (git_context_row E base branch) d of
        Inl e \<Rightarrow> Inl (if err_is SqlErrNoRows e then Sentinel ErrNotFound
                      else Wrap ''ensure git context'' e)
      | Inr (t, d') \<Rightarrow> Inr (the (t_BaseCommitSHA t), the (t_WorkingBranch t), d'))"

definition record_check_run :: "int \<Rightarrow> Attempt \<Rightarrow> Attempt" where
  "record_check_run n a = a\<lparr>a_TriggerCheckRunID := coalesce (a_TriggerCheckRunID a) n\<rparr>"

definition RecordTriggerCheckRun :: "env \<Rightarrow> string \<Rightarrow> int \<Rightarrow> db \<Rightarrow> err + db" where
  "RecordTriggerCheckRun E tid n d =
     (if \<not> IsUUID tid then Inl (Sentinel ErrNotFound)
      else let sel = (\<lambda>a. a_TaskID a = pg_uuid tid \<and> a_Status a = AttemptActive) in
      bind_sum (wrap ''record trigger check run'' (exec E ''record trigger check run''
        (d\<lparr>attempts := update_where sel (record_check_run n) (attempts d)\<rparr>))) (\<lambda>d'.
      if filter sel (attempts d) = [] then Inl (Sentinel ErrAttemptNotFound) else Inr d'))"

definition complete_check_run :: "env \<Rightarrow> Attempt \<Rightarrow> Attempt" where
  "complete_check_run E a =
     a\<lparr>a_TriggerCheckRunCompletedAt := coalesce (a_TriggerCheckRunCompletedAt a) (env_now E)\<rparr>"

definition MarkTriggerCheckRunCompleted :: "env \<Rightarrow> string \<Rightarrow> db \<Rightarrow> err + db" where
  "MarkTriggerCheckRunCompleted E aid d =
     (if \<not> IsUUID aid then Inl (Sentinel ErrAttemptNotFound)
      else wrap ''mark trigger check run completed'' (exec E ''mark trigger check run completed''
        (d\<lparr>attempts := update_where
             (\<lambda>a. a_ID a = pg_uuid aid \<and> a_TriggerCheckRunID a \<noteq> None)
             (complete_check_run E) (attempts d)\<rparr>)))"

definition AppendAttemptEvent ::
  "env \<Rightarrow> string \<Rightarrow> string \<Rightarrow> string \<Rightarrow> json \<Rightarrow> db \<Rightarrow> err + db" where
  "AppendAttemptEvent E aid eventType source payload d =
     (if \<not> IsUUID aid then Inl (Sentinel ErrAttemptNotFound)
      else if \<not> validSource source then Inl (Msg (''unknown event source '' @ source))
      else let raw = (if payload = JNull then JObj [] else payload) in
      bind_sum (begin_tx E) (\<lambda>_.
      bind_sum (wrap ''load attempt'' (driver E ''load attempt'')) (\<lambda>_.
      case find (\<lambda>a. a_ID a = pg_uuid aid) (attempts d) of
        None \<Rightarrow> Inl (Sentinel ErrAttemptNotFound)
      | Some a \<Rightarrow>
          bind_sum (lockTask E (a_TaskID a) d) (\<lambda>_.
          bind_sum (insertEvent E (pg_uuid aid) eventType source raw [] d) (\<lambda>d'.
          bind_sum (commit_tx E) (\<lambda>_. Inr d'))))))"

definition AppendEvent ::
  "env \<Rightarrow> string \<Rightarrow> string \<Rightarrow> string \<Rightarrow> json \<Rightarrow> db \<Rightarrow> err + db" where
  "AppendEvent E tid eventType source payload d =
     (if \<not> IsUUID tid then Inl (Sentinel ErrNotFound)
      else bind_sum (begin_tx E) (\<lambda>_.
      bind_sum (lockTask E tid d) (\<lambda>_.
      bind_sum (load_active_attempt E (pg_uuid tid) d) (\<lambda>a.
      bind_sum (insertEvent E (a_ID a) eventType source payload [] d) (\<lambda>d'.
      bind_sum (commit_tx E) (\<lambda>_. Inr d'))))))"

section \<open>Queries\<close>

text \<open>\<open>ORDER BY created_at DESC, id DESC\<close>.\<close>

definition newest_first :: "Task list \<Rightarrow> Task list" where
  "newest_first ts = rev (sort_key (\<lambda>t. (t_CreatedAt t, t_ID t)) ts)"

definition list_limit :: "int \<Rightarrow> int" where
  "list_limit n = (let l = (if n \<le> 0 then 50 else n) in if 200 < l then 200 else l)"

text \<open>\<open>List\<close> with the zero status for every task.\<close>

definition ListTasks :: "env \<Rightarrow> status \<Rightarrow> int \<Rightarrow> db \<Rightarrow> err + Task list" where
  "ListTasks E s n d =
     (let limit = list_limit n; all = (status_string s = []) in
      if \<not> all \<and> \<not> Valid s then Inl (Msg (''unknown status '' @ status_string s))
      else bind_sum (wrap ''list tasks'' (driver E ''list tasks'')) (\<lambda>_.
        Inr (take (nat limit)
          (newest_first (if all then tasks d else filter (\<lambda>t. t_Status t = s) (tasks d))))))"

text \<open>One row of the event queries: the event with its attempt's number.\<close>

definition numbered_events :: "db \<Rightarrow> string \<Rightarrow> (int \<times> Event) list" where
  "numbered_events d tid =
     concat (map (\<lambda>a. map (\<lambda>e. (a_Number a, e)) (attempt_events d (a_ID a)))
       (task_attempts d tid))"

definition ordered_events :: "db \<Rightarrow> string \<Rightarrow> (int \<times> Event) list" where
  "ordered_events d tid =
     sort_key (\<lambda>(n, e). (n, e_SequenceNumber e)) (numbered_events d tid)"

definition event_limit :: "int \<Rightarrow> int" where
  "event_limit n = (let l = (if n \<le> 0 then 500 else n) in if 1000 < l then 1000 else l)"

definition Events :: "env \<Rightarrow> string \<Rightarrow> int \<Rightarrow> db \<Rightarrow> err + (int \<times> Event) list" where
  "Events E tid n d =
     (if \<not> IsUUID tid then Inl (Sentinel ErrNotFound)
      else let limit = event_limit n in
      bind_sum (wrap ''check task'' (driver E ''check task'')) (\<lambda>_.
      if find_task d (pg_uuid tid) = None then Inl (Sentinel ErrNotFound)
      else bind_sum (wrap ''list events'' (driver E ''list events'')) (\<lambda>_.
        Inr (take (nat limit) (ordered_events d (pg_uuid tid))))))"

definition EventsAfter ::
  "env \<Rightarrow> string \<Rightarrow> int \<Rightarrow> int \<Rightarrow> int \<Rightarrow> db \<Rightarrow> err + (int \<times> Event) list" where
  "EventsAfter E tid afterAttempt afterSequence n d =
     (if \<not> IsUUID tid then Inl (Sentinel ErrNotFound)
      else let limit = event_limit n in
      bind_sum (wrap ''check task'' (driver E ''check task'')) (\<lambda>_.
      if find_task d (pg_uuid tid) = None then Inl (Sentinel ErrNotFound)
      else bind_sum (wrap ''list events after cursor'' (driver E ''list events after cursor'')) (\<lambda>_.
        Inr (take (nat limit)
          (filter (\<lambda>(k, e). (afterAttempt, afterSequence) < (k, e_SequenceNumber e))
            (ordered_events d (pg_uuid tid)))))))"

definition ActiveTaskForIssue :: "env \<Rightarrow> string \<Rightarrow> int \<Rightarrow> db \<Rightarrow> err + Task option" where
  "ActiveTaskForIssue E rid issue d =
     (if \<not> IsUUID rid then Inr None
      else bind_sum (wrap ''active task for issue'' (driver E ''active task for issue'')) (\<lambda>_.
        Inr (find (\<lambda>t. t_RepositoryID t = Some (pg_uuid rid)
                     \<and> t_SourceIssueNumber t = Some issue
                     \<and> t_SourceType t = ''github_issue'' \<and> t_Phase t \<noteq> PhaseTerminal) (tasks d))))"

text \<open>\<open>ORDER BY phase = 'terminal', created_at DESC, id DESC LIMIT 1\<close>.\<close>

definition branch_order :: "Task list \<Rightarrow> Task list" where
  "branch_order ts = rev (sort_key (\<lambda>t. (t_Phase t \<noteq> PhaseTerminal, t_CreatedAt t, t_ID t)) ts)"

definition TaskForBranch :: "env \<Rightarrow> string \<Rightarrow> string \<Rightarrow> db \<Rightarrow> err + Task option" where
  "TaskForBranch E rid branch d =
     (if \<not> IsUUID rid \<or> branch = [] then Inr None
      else bind_sum (wrap ''task for branch'' (driver E ''task for branch'')) (\<lambda>_.
        Inr (case branch_order (filter (\<lambda>t. t_RepositoryID t = Some (pg_uuid rid)
                                          \<and> t_WorkingBranch t = Some branch) (tasks d)) of
               [] \<Rightarrow> None | t # _ \<Rightarrow> Some t)))"

definition GetAttempt :: "env \<Rightarrow> string \<Rightarrow> db \<Rightarrow> err + Attempt" where
  "GetAttempt E aid d =
     (if \<not> IsUUID aid then Inl (Sentinel ErrAttemptNotFound)
      else bind_sum (wrap ''get attempt'' (driver E ''get attempt'')) (\<lambda>_.
        case find (\<lambda>a. a_ID a = pg_uuid aid) (attempts d) of
          None \<Rightarrow> Inl (Sentinel ErrAttemptNotFound)
        | Some a \<Rightarrow> Inr a))"

definition Attempts :: "env \<Rightarrow> string \<Rightarrow> db \<Rightarrow> err + Attempt list" where
  "Attempts E tid d =
     (if \<not> IsUUID tid then Inl (Sentinel ErrNotFound)
      else bind_sum (wrap ''list attempts'' (driver E ''list attempts'')) (\<lambda>_.
        let as = sort_key a_Number (task_attempts d (pg_uuid tid)) in
        if as = [] then
          bind_sum (wrap ''check task'' (driver E ''check task'')) (\<lambda>_.
            if find_task d (pg_uuid tid) = None then Inl (Sentinel ErrNotFound) else Inr [])
        else Inr as))"

section \<open>What one successful transition does\<close>

text \<open>
  The effect of \<open>applyTransition\<close> on the attempts, without the driver: the rows after the
  switch and the attempt that receives the event.
\<close>

definition requeues :: "Task \<Rightarrow> TransitionParams \<Rightarrow> bool" where
  "requeues cur p \<longleftrightarrow> t_Status cur = StatusRevisionRequested \<and> p_To p = StatusQueued"

definition attempt_effect :: "env \<Rightarrow> TransitionParams \<Rightarrow> Attempt \<Rightarrow> Attempt" where
  "attempt_effect E p =
     (if Terminal (p_To p) then finish_attempt E p
      else if p_To p = StatusProvisioning then start_attempt E else id)"

lemma settle_attempt_InrE:
  assumes "settle_attempt E cur p att d = Inr (aid, d1)"
  obtains
    (requeue) new where "requeues cur p"
      and "new = revision_attempt E (env_uuid E (length (attempts d))) (t_ID cur)
                   (a_Number att + 1) (p_revision p)"
      and "aid = a_ID new"
      and "d1 = d\<lparr>attempts := update_where (\<lambda>a. a_ID a = a_ID att) (supersede_attempt E) (attempts d)
                  @ [new]\<rparr>"
  | (same) "\<not> requeues cur p" and "aid = a_ID att"
      and "d1 = d\<lparr>attempts := update_where (\<lambda>a. a_ID a = a_ID att) (attempt_effect E p) (attempts d)\<rparr>"
proof -
  have id_case: "update_where q id as = as" for q and as :: "Attempt list"
    by (induction as) auto
  have new_id: "a_ID (revision_attempt E i t n r) = i" for i t n r
    by (simp add: revision_attempt_def bare_attempt_def split: option.splits)
  show thesis
  proof (cases "requeues cur p")
    case True
    with assms show ?thesis
      by (intro requeue)
        (auto simp: settle_attempt_def requeues_def insertRevisionAttempt_def update_attempt_def
          bind_sum_Inr_iff exec_Inr new_id Let_def)
  next
    case False
    with assms have "aid = a_ID att \<and>
      d1 = d\<lparr>attempts := update_where (\<lambda>a. a_ID a = a_ID att) (attempt_effect E p) (attempts d)\<rparr>"
      by (auto simp: settle_attempt_def requeues_def update_attempt_def attempt_effect_def id_case
          bind_sum_Inr_iff exec_Inr split: if_splits)
    with False show ?thesis by (intro same) auto
  qed
qed

end
