(* ===== verification/TaskInvariants.thy ===== *)
theory TaskInvariants
  imports TaskStore
begin

text \<open>
  The invariant of the task tables and its preservation by a transition. Beyond the constraints
  of the migrations it says what the code maintains on its own: the attempts of a task are
  numbered 1, 2, ..., only the last can be active and it is active exactly while the task is not
  terminal; the events of an attempt are numbered 1, 2, ...; no two events of a task carry the
  same idempotency key; and the recorded transitions are a legal path from \<open>created\<close> to the
  task's current status, so the log determines the state.
\<close>

section \<open>The invariant\<close>

definition attempt_status_for :: "status \<Rightarrow> attempt_status" where
  "attempt_status_for s = (if Terminal s then AttemptEnded s else AttemptActive)"

definition attempts_wf :: "db \<Rightarrow> Task \<Rightarrow> bool" where
  "attempts_wf d t \<longleftrightarrow>
     (let as = task_attempts d (t_ID t) in
      as \<noteq> [] \<and> numbered (map a_Number as)
      \<and> (\<forall>a\<in>set (butlast as). a_Status a = AttemptSuperseded)
      \<and> a_Status (last as) = attempt_status_for (t_Status t))"

text \<open>The status an event records a transition to.\<close>

definition event_target :: "Event \<Rightarrow> status option" where
  "event_target e =
     find (\<lambda>s. s \<noteq> StatusCreated \<and> TransitionEventType s = e_EventType e) AllStatuses"

definition task_log :: "db \<Rightarrow> string \<Rightarrow> status list" where
  "task_log d tid = map the (filter (\<lambda>r. r \<noteq> None) (map event_target (task_events d tid)))"

definition log_wf :: "db \<Rightarrow> Task \<Rightarrow> bool" where
  "log_wf d t \<longleftrightarrow>
     legal_path StatusCreated (task_log d (t_ID t))
     \<and> last (StatusCreated # task_log d (t_ID t)) = t_Status t"

definition seq_wf :: "db \<Rightarrow> bool" where
  "seq_wf d \<longleftrightarrow>
     (\<forall>a\<in>set (attempts d). numbered (map e_SequenceNumber (attempt_events d (a_ID a))))"

definition task_keys :: "db \<Rightarrow> string \<Rightarrow> string option list" where
  "task_keys d tid = filter (\<lambda>k. k \<noteq> None) (map e_IdempotencyKey (task_events d tid))"

definition keys_wf :: "db \<Rightarrow> Task \<Rightarrow> bool" where
  "keys_wf d t \<longleftrightarrow> distinct (task_keys d (t_ID t))"

definition db_inv :: "db \<Rightarrow> bool" where
  "db_inv d \<longleftrightarrow> schema_ok d \<and> seq_wf d
     \<and> (\<forall>t\<in>set (tasks d). attempts_wf d t \<and> log_wf d t \<and> keys_wf d t)"

lemma db_invD:
  assumes "db_inv d"
  shows "schema_ok d" and "seq_wf d"
    and "\<And>t. t \<in> set (tasks d) \<Longrightarrow> attempts_wf d t"
    and "\<And>t. t \<in> set (tasks d) \<Longrightarrow> log_wf d t"
    and "\<And>t. t \<in> set (tasks d) \<Longrightarrow> keys_wf d t"
  using assms by (simp_all add: db_inv_def)

lemma db_inv_empty: "db_inv empty_db"
  by (simp add: db_inv_def schema_ok_empty seq_wf_def) (simp add: empty_db_def)

section \<open>Facts of updated tables\<close>

lemma update_where_none: "(\<And>r. r \<in> set rs \<Longrightarrow> \<not> p r) \<Longrightarrow> update_where p f rs = rs"
  by (induction rs) auto

lemma find_task_Some: "find_task d tid = Some t \<Longrightarrow> t \<in> set (tasks d) \<and> t_ID t = tid"
  by (auto simp: find_task_def dest: find_SomeD)

lemma find_task_self:
  "schema_ok d \<Longrightarrow> t \<in> set (tasks d) \<Longrightarrow> find_task d (t_ID t) = Some t"
  unfolding find_task_def by (rule find_key) (auto dest: schema_ok_taskD)

lemma active_attempt_Some:
  "active_attempt d tid = Some a \<Longrightarrow>
     a \<in> set (attempts d) \<and> a_TaskID a = tid \<and> a_Status a = AttemptActive
     \<and> a \<in> set (task_attempts d tid)"
  by (auto simp: active_attempt_def task_attempts_def dest: find_SomeD)

lemma task_eq_by_ID:
  "schema_ok d \<Longrightarrow> s \<in> set (tasks d) \<Longrightarrow> t \<in> set (tasks d) \<Longrightarrow> t_ID s = t_ID t \<Longrightarrow> s = t"
  by (auto dest: schema_ok_taskD(2) distinct_map_eq)

lemma attempt_eq_by_ID:
  "schema_ok d \<Longrightarrow> a \<in> set (attempts d) \<Longrightarrow> b \<in> set (attempts d) \<Longrightarrow> a_ID a = a_ID b \<Longrightarrow> a = b"
  by (auto dest: schema_ok_attemptD(2) distinct_map_eq)

lemma task_attempts_nonempty_member:
  "a \<in> set (task_attempts d tid) \<longleftrightarrow> a \<in> set (attempts d) \<and> a_TaskID a = tid"
  by (auto simp: task_attempts_def)

lemma active_attempt_last:
  assumes "attempts_wf d t" and "active_attempt d (t_ID t) = Some att"
  shows "\<not> Terminal (t_Status t)"
    and "task_attempts d (t_ID t) = butlast (task_attempts d (t_ID t)) @ [att]"
proof -
  let ?as = "task_attempts d (t_ID t)"
  have mem: "att \<in> set ?as" and act: "a_Status att = AttemptActive"
    using assms(2) by (auto dest: active_attempt_Some)
  have ne: "?as \<noteq> []" and sup: "\<forall>a\<in>set (butlast ?as). a_Status a = AttemptSuperseded"
    and last: "a_Status (last ?as) = attempt_status_for (t_Status t)"
    using assms(1) by (simp_all add: attempts_wf_def Let_def)
  have split: "?as = butlast ?as @ [last ?as]" using ne by simp
  then have "att \<in> set (butlast ?as) \<or> att = last ?as"
    using mem by (metis (no_types) Un_iff empty_iff insert_iff list.set(1,2) set_append)
  with sup act have "att = last ?as" by auto
  with split show "?as = butlast ?as @ [att]" by simp
  show "\<not> Terminal (t_Status t)"
    using last act \<open>att = last ?as\<close> by (auto simp: attempt_status_for_def split: if_splits)
qed

lemma active_attempt_exists:
  assumes "schema_ok d" and "attempts_wf d t" and "\<not> Terminal (t_Status t)"
  shows "active_attempt d (t_ID t) = Some (last (task_attempts d (t_ID t)))"
proof -
  let ?as = "task_attempts d (t_ID t)"
  have ne: "?as \<noteq> []" and sup: "\<forall>a\<in>set (butlast ?as). a_Status a = AttemptSuperseded"
    and act: "a_Status (last ?as) = AttemptActive"
    using assms(2,3) by (simp_all add: attempts_wf_def attempt_status_for_def Let_def)
  have mem: "last ?as \<in> set ?as" using ne by simp
  show ?thesis
    unfolding active_attempt_def
  proof (rule find_unique)
    show "last ?as \<in> set (attempts d)" and
      "a_TaskID (last ?as) = t_ID t \<and> a_Status (last ?as) = AttemptActive"
      using mem act by (auto simp: task_attempts_nonempty_member)
    fix s assume "s \<in> set (attempts d)" and s: "a_TaskID s = t_ID t \<and> a_Status s = AttemptActive"
    then have "s \<in> set ?as" by (simp add: task_attempts_nonempty_member)
    moreover have "?as = butlast ?as @ [last ?as]" using ne by simp
    ultimately have "s \<in> set (butlast ?as) \<or> s = last ?as"
      by (metis (no_types) Un_iff empty_iff insert_iff list.set(1,2) set_append)
    with sup s show "s = last ?as" by auto
  qed
qed

section \<open>Frames: which rows the invariant reads\<close>

lemma task_attempts_cong: "attempts d' = attempts d \<Longrightarrow> task_attempts d' tid = task_attempts d tid"
  by (simp add: task_attempts_def)

lemma task_events_cong:
  assumes "events d' = events d"
    and "map a_ID (task_attempts d' tid) = map a_ID (task_attempts d tid)"
  shows "task_events d' tid = task_events d tid"
  using assms by (simp add: task_events_def)

lemma attempt_events_cong: "events d' = events d \<Longrightarrow> attempt_events d' aid = attempt_events d aid"
  by (simp add: attempt_events_def)

lemma task_attempts_update:
  assumes "\<And>a. a_TaskID (f a) = a_TaskID a"
  shows "task_attempts (d\<lparr>attempts := update_where p f (attempts d)\<rparr>) tid
         = update_where p f (task_attempts d tid)"
  using assms by (simp add: task_attempts_def filter_update_where)

lemma update_where_snoc_unique:
  assumes "distinct (map k (xs @ [x]))"
  shows "update_where (\<lambda>r. k r = k x) f (xs @ [x]) = xs @ [f x]"
proof -
  have "update_where (\<lambda>r. k r = k x) f xs = xs"
    by (rule update_where_none) (use assms in \<open>force simp: image_iff\<close>)
  then show ?thesis by simp
qed

lemma distinct_task_attempt_IDs:
  "schema_ok d \<Longrightarrow> distinct (map a_ID (task_attempts d tid))"
  by (simp add: task_attempts_def distinct_map_filter schema_ok_attemptD(2))

text \<open>
  Columns other than the identity, the owner, the number and the status of an attempt, and other
  than the identity and the status of a task, do not matter to the invariant.
\<close>

definition attempt_core :: "Attempt \<Rightarrow> string \<times> string \<times> int \<times> attempt_status" where
  "attempt_core a = (a_ID a, a_TaskID a, a_Number a, a_Status a)"

definition task_core :: "Task \<Rightarrow> string \<times> status" where
  "task_core t = (t_ID t, t_Status t)"

lemma map_attempt_core_task_attempts:
  assumes "map attempt_core (attempts d') = map attempt_core (attempts d)"
  shows "map attempt_core (task_attempts d' tid) = map attempt_core (task_attempts d tid)"
proof -
  have "map attempt_core (filter (\<lambda>a. a_TaskID a = tid) as)
        = filter (\<lambda>c. fst (snd c) = tid) (map attempt_core as)" for as
    by (induction as) (auto simp: attempt_core_def)
  with assms show ?thesis by (simp add: task_attempts_def)
qed

lemma map_core_components:
  assumes "map attempt_core as = map attempt_core bs"
  shows "map a_ID as = map a_ID bs" and "map a_Number as = map a_Number bs"
    and "map a_Status as = map a_Status bs" and "as = [] \<longleftrightarrow> bs = []"
proof -
  show "map a_ID as = map a_ID bs"
    using arg_cong [OF assms, of "map fst"] by (simp add: attempt_core_def comp_def)
  show "map a_Number as = map a_Number bs"
    using arg_cong [OF assms, of "map (fst \<circ> snd \<circ> snd)"] by (simp add: attempt_core_def comp_def)
  show "map a_Status as = map a_Status bs"
    using arg_cong [OF assms, of "map (snd \<circ> snd \<circ> snd)"] by (simp add: attempt_core_def comp_def)
  show "as = [] \<longleftrightarrow> bs = []"
    using assms by (metis map_is_Nil_conv)
qed

lemma attempts_wf_alt:
  "attempts_wf d t \<longleftrightarrow>
     (let as = task_attempts d (t_ID t); ss = map a_Status as in
      ss \<noteq> [] \<and> numbered (map a_Number as)
      \<and> (\<forall>s\<in>set (butlast ss). s = AttemptSuperseded) \<and> last ss = attempt_status_for (t_Status t))"
  by (auto simp: attempts_wf_def Let_def last_map map_butlast [symmetric])

lemma attempts_wf_frame:
  assumes "map attempt_core (attempts d') = map attempt_core (attempts d)"
    and "t_ID t' = t_ID t" and "t_Status t' = t_Status t" and "attempts_wf d t"
  shows "attempts_wf d' t'"
  using assms(4) map_core_components [OF map_attempt_core_task_attempts [OF assms(1), of "t_ID t"]]
  by (simp add: attempts_wf_alt Let_def assms(2,3))

lemma task_events_frame:
  assumes "map attempt_core (attempts d') = map attempt_core (attempts d)" and "events d' = events d"
  shows "task_events d' tid = task_events d tid"
  by (rule task_events_cong [OF assms(2)])
    (rule map_core_components [OF map_attempt_core_task_attempts [OF assms(1)]])

lemma db_inv_frame:
  assumes inv: "db_inv d" and ok: "schema_ok d'"
    and ts: "map task_core (tasks d') = map task_core (tasks d)"
    and as: "map attempt_core (attempts d') = map attempt_core (attempts d)"
    and es: "events d' = events d"
  shows "db_inv d'"
proof -
  have "seq_wf d'"
    unfolding seq_wf_def
  proof
    fix a assume "a \<in> set (attempts d')"
    then have "a_ID a \<in> set (map a_ID (attempts d))"
      using map_core_components(1) [OF as] by (metis image_eqI list.set_map)
    then show "numbered (map e_SequenceNumber (attempt_events d' (a_ID a)))"
      using db_invD(2) [OF inv] attempt_events_cong [OF es] by (auto simp: seq_wf_def)
  qed
  moreover have "attempts_wf d' t' \<and> log_wf d' t' \<and> keys_wf d' t'" if t': "t' \<in> set (tasks d')" for t'
  proof -
    have "task_core t' \<in> set (map task_core (tasks d))" using t' ts by (metis image_eqI list.set_map)
    then obtain t where t: "t \<in> set (tasks d)" "t_ID t' = t_ID t" "t_Status t' = t_Status t"
      by (auto simp: task_core_def)
    with db_invD(3) [OF inv t(1)] have "attempts_wf d' t'" by (intro attempts_wf_frame [OF as])
    moreover have "task_events d' (t_ID t') = task_events d (t_ID t)"
      using t(2) task_events_frame [OF as es] by simp
    ultimately show ?thesis
      using db_invD(4,5) [OF inv t(1)] t(2,3)
      by (simp add: log_wf_def task_log_def keys_wf_def task_keys_def)
  qed
  ultimately show ?thesis using ok by (simp add: db_inv_def)
qed

section \<open>One transition\<close>

lemma new_event_cong: "events d' = events d \<Longrightarrow>
  new_event E aid ty src pl key d' = new_event E aid ty src pl key d"
  by (simp add: new_event_def next_sequence_def attempt_events_def)

lemma insertEvent_Inr:
  "insertEvent E aid ty src pl key d = Inr d' \<longleftrightarrow>
     env_fault E ''insert event'' = None
     \<and> d' = d\<lparr>events := events d @ [new_event E aid ty src pl key d]\<rparr> \<and> schema_ok d'"
  by (auto simp: insertEvent_def exec_Inr)

lemma update_task_Inr:
  assumes "update_task E l tid f d = Inr (t, d')" and "\<And>t. t_ID (f t) = t_ID t"
  shows "d' = d\<lparr>tasks := update_where (\<lambda>t. t_ID t = tid) f (tasks d)\<rparr>"
    and "schema_ok d'" and "\<exists>t0. find_task d tid = Some t0 \<and> t = f t0"
proof -
  from assms(1) show d': "d' = d\<lparr>tasks := update_where (\<lambda>t. t_ID t = tid) f (tasks d)\<rparr>"
    and "schema_ok d'"
    by (auto simp: update_task_def bind_sum_Inr_iff exec_Inr split: option.splits)
  from assms(1) have "find_task d' tid = Some t"
    by (auto simp: update_task_def bind_sum_Inr_iff exec_Inr split: option.splits)
  then show "\<exists>t0. find_task d tid = Some t0 \<and> t = f t0"
    unfolding find_task_def d' by (auto simp: find_update_where assms(2) dest: find_SomeD)
qed

lemma transition_row_ID [simp]: "t_ID (transition_row E p t) = t_ID t"
  and transition_row_Status [simp]: "t_Status (transition_row E p t) = p_To p"
  and transition_row_Version [simp]: "t_Version (transition_row E p t) = t_Version t + 1"
  by (simp_all add: transition_row_def)

lemma attempt_ops_core [simp]:
  "a_ID (finish_attempt E p a) = a_ID a" "a_TaskID (finish_attempt E p a) = a_TaskID a"
  "a_Number (finish_attempt E p a) = a_Number a"
  "a_Status (finish_attempt E p a) = AttemptEnded (p_To p)"
  "a_ID (supersede_attempt E a) = a_ID a" "a_TaskID (supersede_attempt E a) = a_TaskID a"
  "a_Number (supersede_attempt E a) = a_Number a"
  "a_Status (supersede_attempt E a) = AttemptSuperseded"
  "a_ID (attempt_effect E p a) = a_ID a" "a_TaskID (attempt_effect E p a) = a_TaskID a"
  "a_Number (attempt_effect E p a) = a_Number a"
  "a_Status (attempt_effect E p a) = (if Terminal (p_To p) then AttemptEnded (p_To p) else a_Status a)"
  by (simp_all add: finish_attempt_def supersede_attempt_def attempt_effect_def start_attempt_def)

lemma revision_attempt_core [simp]:
  "a_ID (revision_attempt E i tid n r) = i" "a_TaskID (revision_attempt E i tid n r) = tid"
  "a_Number (revision_attempt E i tid n r) = n"
  "a_Status (revision_attempt E i tid n r) = AttemptActive"
  by (simp_all add: revision_attempt_def bare_attempt_def split: option.splits)

text \<open>
  A successful \<open>applyTransition\<close> is a replay that changes nothing, or one step: the task's row,
  its attempts and one appended event, all in the database it returns.
\<close>

definition step_event :: "env \<Rightarrow> Task \<Rightarrow> TransitionParams \<Rightarrow> string \<Rightarrow> db \<Rightarrow> Event" where
  "step_event E cur p aid d =
     new_event E aid (TransitionEventType (p_To p)) (if p_Source p = [] then ''system'' else p_Source p)
       (transition_payload (t_Status cur) p) (p_IdempotencyKey p) d"

definition step_db :: "env \<Rightarrow> Task \<Rightarrow> TransitionParams \<Rightarrow> Attempt list \<Rightarrow> string \<Rightarrow> db \<Rightarrow> db" where
  "step_db E cur p as' aid d =
     d\<lparr>tasks := update_where (\<lambda>t. t_ID t = t_ID cur) (transition_row E p) (tasks d),
       attempts := as',
       events := events d @ [step_event E cur p aid d]\<rparr>"

definition replayed :: "db \<Rightarrow> string \<Rightarrow> string \<Rightarrow> bool" where
  "replayed d tid key \<longleftrightarrow> key \<noteq> [] \<and> key_recorded d tid key"

lemma idempotency_check_Inr:
  "idempotency_check E tid key d = Inr b \<Longrightarrow> b = replayed d tid key"
  by (auto simp: idempotency_check_def replayed_def bind_sum_Inr_iff split: if_splits)

lemma applyTransition_InrE:
  assumes "applyTransition E cur p d = Inr (next, d')"
  obtains
    (replay) "replayed d (t_ID cur) (p_IdempotencyKey p)" and "next = cur" and "d' = d"
  | (step) att as' aid t0 where
      "\<not> replayed d (t_ID cur) (p_IdempotencyKey p)"
      and "p_ExpectedVersion p = 0 \<or> p_ExpectedVersion p = t_Version cur"
      and "CanTransition (t_Status cur) (p_To p)"
      and "active_attempt d (t_ID cur) = Some att"
      and "find_task d (t_ID cur) = Some t0" and "next = transition_row E p t0"
      and "d' = step_db E cur p as' aid d" and "schema_ok d'"
      and "if requeues cur p
           then \<exists>new. new = revision_attempt E (env_uuid E (length (attempts d))) (t_ID cur)
                              (a_Number att + 1) (p_revision p)
                  \<and> aid = a_ID new
                  \<and> as' = update_where (\<lambda>a. a_ID a = a_ID att) (supersede_attempt E) (attempts d) @ [new]
           else aid = a_ID att
                \<and> as' = update_where (\<lambda>a. a_ID a = a_ID att) (attempt_effect E p) (attempts d)"
proof (cases "replayed d (t_ID cur) (p_IdempotencyKey p)")
  case True
  with assms show ?thesis
    by (intro replay)
      (auto simp: applyTransition_def Let_def bind_sum_Inr_iff dest!: idempotency_check_Inr
        split: if_splits)
next
  case False
  let ?src = "if p_Source p = [] then ''system'' else p_Source p"
  from assms False obtain att aid d1 d2 where
    ver: "p_ExpectedVersion p = 0 \<or> p_ExpectedVersion p = t_Version cur" and
    can: "CanTransition (t_Status cur) (p_To p)" and
    load: "load_active_attempt E (t_ID cur) d = Inr att" and
    settle: "settle_attempt E cur p att d = Inr (aid, d1)" and
    upd: "update_task E ''update task'' (t_ID cur) (transition_row E p) d1 = Inr (next, d2)" and
    ins: "insertEvent E aid (TransitionEventType (p_To p)) ?src
            (transition_payload (t_Status cur) p) (p_IdempotencyKey p) d2 = Inr d'"
    by (auto simp: applyTransition_def Let_def bind_sum_Inr_iff dest!: idempotency_check_Inr
        split: if_splits)
  have act: "active_attempt d (t_ID cur) = Some att"
    using load by (auto simp: load_active_attempt_def bind_sum_Inr_iff split: option.splits)
  have as': "\<exists>as'. d1 = d\<lparr>attempts := as'\<rparr> \<and>
     (if requeues cur p
      then \<exists>new. new = revision_attempt E (env_uuid E (length (attempts d))) (t_ID cur)
                         (a_Number att + 1) (p_revision p)
             \<and> aid = a_ID new
             \<and> as' = update_where (\<lambda>a. a_ID a = a_ID att) (supersede_attempt E) (attempts d) @ [new]
      else aid = a_ID att
           \<and> as' = update_where (\<lambda>a. a_ID a = a_ID att) (attempt_effect E p) (attempts d))"
    using settle by (rule settle_attempt_InrE) auto
  then obtain as' where d1: "d1 = d\<lparr>attempts := as'\<rparr>" and eff: "if requeues cur p
      then \<exists>new. new = revision_attempt E (env_uuid E (length (attempts d))) (t_ID cur)
                         (a_Number att + 1) (p_revision p)
             \<and> aid = a_ID new
             \<and> as' = update_where (\<lambda>a. a_ID a = a_ID att) (supersede_attempt E) (attempts d) @ [new]
      else aid = a_ID att
           \<and> as' = update_where (\<lambda>a. a_ID a = a_ID att) (attempt_effect E p) (attempts d)" by blast
  have d2: "d2 = d1\<lparr>tasks := update_where (\<lambda>t. t_ID t = t_ID cur) (transition_row E p) (tasks d1)\<rparr>"
    by (rule update_task_Inr(1) [OF upd]) simp
  obtain t0 where t0: "find_task d (t_ID cur) = Some t0" "next = transition_row E p t0"
    using update_task_Inr(3) [OF upd] d1 by (auto simp: find_task_def)
  have es: "events d2 = events d" using d1 d2 by simp
  have d': "d' = d2\<lparr>events := events d @ [step_event E cur p aid d]\<rparr>" and "schema_ok d'"
    using ins unfolding insertEvent_Inr step_event_def es new_event_cong [OF es] by auto
  then have "d' = step_db E cur p as' aid d" and "schema_ok d'"
    by (simp_all add: step_db_def d1 d2)
  then show ?thesis using False ver can act t0 eff by (intro step) auto
qed

text \<open>The attempts of the stepped task, as the invariant sees them.\<close>

lemma step_attempts:
  assumes ok: "schema_ok d" and wf: "attempts_wf d t" and tid: "t_ID cur = t_ID t"
    and act: "active_attempt d (t_ID cur) = Some att"
    and eff: "if requeues cur p
           then \<exists>new. new = revision_attempt E i (t_ID cur) (a_Number att + 1) r
                  \<and> aid = a_ID new
                  \<and> as' = update_where (\<lambda>a. a_ID a = a_ID att) (supersede_attempt E) (attempts d) @ [new]
           else aid = a_ID att
                \<and> as' = update_where (\<lambda>a. a_ID a = a_ID att) (attempt_effect E p) (attempts d)"
  shows "task_attempts (d\<lparr>attempts := as'\<rparr>) (t_ID cur) =
           butlast (task_attempts d (t_ID cur)) @
             (if requeues cur p
              then [supersede_attempt E att, revision_attempt E i (t_ID cur) (a_Number att + 1) r]
              else [attempt_effect E p att])"
    and "tid' \<noteq> t_ID cur \<Longrightarrow>
         task_attempts (d\<lparr>attempts := as'\<rparr>) tid' = task_attempts d tid'"
proof -
  let ?p = "\<lambda>a. a_ID a = a_ID att"
  have snoc: "task_attempts d (t_ID cur) = butlast (task_attempts d (t_ID cur)) @ [att]"
    using active_attempt_last(2) [OF wf] act tid by simp
  have dist: "distinct (map a_ID (butlast (task_attempts d (t_ID cur)) @ [att]))"
    using distinct_task_attempt_IDs [OF ok, of "t_ID cur"] snoc by metis
  have own: "update_where ?p f (task_attempts d (t_ID cur))
             = butlast (task_attempts d (t_ID cur)) @ [f att]" for f
    by (subst snoc) (rule update_where_snoc_unique [OF dist])
  have upd: "filter (\<lambda>a. a_TaskID a = x) (update_where ?p f (attempts d))
             = update_where ?p f (task_attempts d x)" if "\<And>a. a_TaskID (f a) = a_TaskID a" for f x
    using that by (simp add: task_attempts_def filter_update_where)
  have att: "att \<in> set (attempts d)" "a_TaskID att = t_ID cur"
    using act by (auto dest: active_attempt_Some)
  have other: "update_where ?p f (task_attempts d x) = task_attempts d x" if "x \<noteq> t_ID cur" for f x
  proof (rule update_where_none)
    fix r assume "r \<in> set (task_attempts d x)"
    then show "a_ID r \<noteq> a_ID att"
      using attempt_eq_by_ID [OF ok _ att(1)] att(2) that
      by (auto simp: task_attempts_nonempty_member)
  qed
  have sel: "task_attempts (d\<lparr>attempts := xs\<rparr>) x = filter (\<lambda>a. a_TaskID a = x) xs" for x xs
    by (simp add: task_attempts_def)
  show "task_attempts (d\<lparr>attempts := as'\<rparr>) (t_ID cur) =
           butlast (task_attempts d (t_ID cur)) @
             (if requeues cur p
              then [supersede_attempt E att, revision_attempt E i (t_ID cur) (a_Number att + 1) r]
              else [attempt_effect E p att])"
    using eff by (cases "requeues cur p") (auto simp: sel upd own)
  show "task_attempts (d\<lparr>attempts := as'\<rparr>) tid' = task_attempts d tid'" if "tid' \<noteq> t_ID cur"
    using eff that
    by (cases "requeues cur p") (auto simp: sel upd other)
qed

section \<open>Appending one event\<close>

lemma new_event_fields [simp]:
  "e_TaskAttemptID (new_event E aid ty src pl key d) = aid"
  "e_EventType (new_event E aid ty src pl key d) = ty"
  "e_SequenceNumber (new_event E aid ty src pl key d) = next_sequence d aid"
  "e_IdempotencyKey (new_event E aid ty src pl key d) = nullif_empty key"
  "e_Source (new_event E aid ty src pl key d) = src"
  "e_Payload (new_event E aid ty src pl key d) = pl"
  by (simp_all add: new_event_def)

lemma step_event_fields [simp]:
  "e_TaskAttemptID (step_event E cur p aid d) = aid"
  "e_EventType (step_event E cur p aid d) = TransitionEventType (p_To p)"
  "e_SequenceNumber (step_event E cur p aid d) = next_sequence d aid"
  "e_IdempotencyKey (step_event E cur p aid d) = nullif_empty (p_IdempotencyKey p)"
  by (simp_all add: step_event_def)

lemma events_have_attempts:
  "schema_ok d \<Longrightarrow> e \<in> set (events d) \<Longrightarrow> e_TaskAttemptID e \<in> a_ID ` set (attempts d)"
  using schema_ok_eventD(2) by auto

lemma attempt_events_none:
  "schema_ok d \<Longrightarrow> aid \<notin> a_ID ` set (attempts d) \<Longrightarrow> attempt_events d aid = []"
  by (auto simp: attempt_events_def filter_empty_conv dest: events_have_attempts)

lemma next_sequence_length:
  assumes "numbered (map e_SequenceNumber (attempt_events d aid))"
  shows "next_sequence d aid = int (length (attempt_events d aid)) + 1"
  using max_list_numbered [OF assms] by (simp add: next_sequence_def)

lemma attempt_events_append:
  assumes "events d' = events d @ [ev]"
  shows "attempt_events d' x = attempt_events d x @ (if e_TaskAttemptID ev = x then [ev] else [])"
  by (simp add: attempt_events_def assms)

text \<open>The sequence numbers stay consecutive when the appended event takes the next one.\<close>

lemma seq_wf_append:
  assumes ok: "schema_ok d" and seq: "seq_wf d"
    and es: "events d' = events d @ [ev]"
    and num: "e_SequenceNumber ev = next_sequence d (e_TaskAttemptID ev)"
  shows "seq_wf d'"
  unfolding seq_wf_def
proof
  fix a assume "a \<in> set (attempts d')"
  have old: "numbered (map e_SequenceNumber (attempt_events d (a_ID a)))"
  proof (cases "a_ID a \<in> a_ID ` set (attempts d)")
    case True
    then show ?thesis using seq by (auto simp: seq_wf_def)
  next
    case False
    then show ?thesis using attempt_events_none [OF ok] by simp
  qed
  show "numbered (map e_SequenceNumber (attempt_events d' (a_ID a)))"
    using old num next_sequence_length [OF old]
    by (auto simp: attempt_events_append [OF es] intro: numbered_snoc)
qed

text \<open>The events of a task when new rows appear and one event is appended to attempt \<open>aid\<close>.\<close>

lemma task_events_append:
  assumes ok: "schema_ok d"
    and es: "events d' = events d @ [ev]"
    and ids: "a_ID ` set (task_attempts d' tid) \<inter> a_ID ` set (attempts d)
              = a_ID ` set (task_attempts d tid)"
  shows "task_events d' tid = task_events d tid
           @ (if e_TaskAttemptID ev \<in> a_ID ` set (task_attempts d' tid) then [ev] else [])"
proof -
  have "filter (\<lambda>e. e_TaskAttemptID e \<in> a_ID ` set (task_attempts d' tid)) (events d)
        = filter (\<lambda>e. e_TaskAttemptID e \<in> a_ID ` set (task_attempts d tid)) (events d)"
  proof (rule filter_cong [OF refl])
    fix e assume "e \<in> set (events d)"
    then have "e_TaskAttemptID e \<in> a_ID ` set (attempts d)" by (rule events_have_attempts [OF ok])
    then show "e_TaskAttemptID e \<in> a_ID ` set (task_attempts d' tid)
               \<longleftrightarrow> e_TaskAttemptID e \<in> a_ID ` set (task_attempts d tid)"
      using ids by blast
  qed
  then show ?thesis by (simp add: task_events_def es)
qed

lemma event_target_transition:
  assumes "Valid s" and "s \<noteq> StatusCreated" and "e_EventType e = TransitionEventType s"
  shows "event_target e = Some s"
  using assms by (cases s) (simp_all add: event_target_def AllStatuses_def TransitionEventType_def)

lemma task_log_append:
  assumes "task_events d' tid = task_events d tid @ [ev]"
  shows "task_log d' tid = task_log d tid @ (case event_target ev of None \<Rightarrow> [] | Some s \<Rightarrow> [s])"
  by (simp add: task_log_def assms split: option.split)

lemma task_keys_append:
  assumes "task_events d' tid = task_events d tid @ [ev]"
  shows "task_keys d' tid = task_keys d tid
           @ (if e_IdempotencyKey ev = None then [] else [e_IdempotencyKey ev])"
  by (simp add: task_keys_def assms)

lemma key_recorded_iff: "key_recorded d tid key \<longleftrightarrow> Some key \<in> set (task_keys d tid)"
  by (force simp: key_recorded_def task_keys_def)

section \<open>A transition keeps the invariant\<close>

lemma attempts_wf_step:
  assumes "attempts_wf d t" and "task_attempts d (t_ID t) = bs @ [att]"
    and "a_Status att = AttemptActive"
    and "t_ID t' = t_ID t"
    and "task_attempts d' (t_ID t) =
      bs @ (if rq then [supersede_attempt E att, revision_attempt E i (t_ID t) (a_Number att + 1) r]
            else [attempt_effect E p att])"
    and "rq \<Longrightarrow> p_To p = StatusQueued" and "t_Status t' = p_To p"
  shows "attempts_wf d' t'"
proof -
  have num: "numbered (map a_Number (bs @ [att]))"
    and sup: "\<forall>a\<in>set bs. a_Status a = AttemptSuperseded"
    using assms(1,2) by (simp_all add: attempts_wf_def Let_def)
  then have n: "a_Number att = int (length bs) + 1" by (simp add: numbered_snoc_iff)
  have "numbered (map a_Number bs @ [a_Number att, a_Number att + 1])"
    using numbered_snoc [OF num, of "a_Number att + 1"] n by simp
  then show ?thesis
    using num sup assms(3-7)
    by (auto simp: attempts_wf_def attempt_status_for_def butlast_append)
qed

lemma inter_fresh: "X \<subseteq> A \<Longrightarrow> (b \<Longrightarrow> i \<notin> A) \<Longrightarrow> (X \<union> (if b then {i} else {})) \<inter> A = X"
  by auto

lemma step_db_inv:
  assumes inv: "db_inv d" and cur: "cur \<in> set (tasks d)"
    and new: "\<not> replayed d (t_ID cur) (p_IdempotencyKey p)"
    and can: "CanTransition (t_Status cur) (p_To p)"
    and act: "active_attempt d (t_ID cur) = Some att"
    and d': "d' = step_db E cur p as' aid d" and ok': "schema_ok d'"
    and eff: "if requeues cur p
           then \<exists>new. new = revision_attempt E i (t_ID cur) (a_Number att + 1) r
                  \<and> aid = a_ID new
                  \<and> as' = update_where (\<lambda>a. a_ID a = a_ID att) (supersede_attempt E) (attempts d) @ [new]
           else aid = a_ID att
                \<and> as' = update_where (\<lambda>a. a_ID a = a_ID att) (attempt_effect E p) (attempts d)"
  shows "db_inv d'"
proof -
  note ok = db_invD(1) [OF inv]
  note wf = db_invD(3) [OF inv cur]
  let ?tid = "t_ID cur" and ?ev = "step_event E cur p aid d"
  have ta: "task_attempts d' x = task_attempts (d\<lparr>attempts := as'\<rparr>) x" for x
    by (simp add: task_attempts_def d' step_db_def)
  note own = step_attempts(1) [OF ok wf refl act eff, folded ta]
  note other = step_attempts(2) [OF ok wf refl act eff, folded ta]
  note snoc = active_attempt_last(2) [OF wf act]
  have es: "events d' = events d @ [?ev]" by (simp add: d' step_db_def)
  have tasks': "tasks d' = update_where (\<lambda>t. t_ID t = ?tid) (transition_row E p) (tasks d)"
    by (simp add: d' step_db_def)
  have ids': "a_ID ` set (task_attempts d' ?tid) =
              a_ID ` set (task_attempts d ?tid) \<union> (if requeues cur p then {i} else {})"
    unfolding own by (subst (2) snoc) (auto simp del: append_butlast_last_id)
  have fresh: "i \<notin> a_ID ` set (attempts d)" if "requeues cur p"
  proof -
    have "map a_ID (attempts d') = map a_ID (attempts d) @ [i]"
      using that eff by (auto simp: d' step_db_def map_update_where)
    then show ?thesis using schema_ok_attemptD(2) [OF ok'] by simp
  qed
  have sub: "a_ID ` set (task_attempts d x) \<subseteq> a_ID ` set (attempts d)" for x
    by (auto simp: task_attempts_nonempty_member)
  have aid: "aid \<in> a_ID ` set (task_attempts d' ?tid)"
    using eff unfolding own by auto
  have not_other: "aid \<notin> a_ID ` set (task_attempts d x)" if "x \<noteq> ?tid" for x
  proof (cases "requeues cur p")
    case True
    then have "aid = i" using eff by auto
    then show ?thesis using fresh [OF True] sub [of x] by blast
  next
    case False
    then have "aid = a_ID att" using eff by simp
    moreover have att: "att \<in> set (attempts d)" "a_TaskID att = ?tid"
      using active_attempt_Some [OF act] by auto
    moreover have "a_ID a \<noteq> a_ID att" if "a \<in> set (task_attempts d x)" for a
    proof
      assume "a_ID a = a_ID att"
      moreover have "a \<in> set (attempts d)" and "a_TaskID a = x"
        using that by (simp_all add: task_attempts_nonempty_member)
      ultimately have "a = att" using attempt_eq_by_ID [OF ok _ att(1)] by blast
      with \<open>a_TaskID a = x\<close> att(2) \<open>x \<noteq> ?tid\<close> show False by simp
    qed
    ultimately show ?thesis by force
  qed
  have te_own: "task_events d' ?tid = task_events d ?tid @ [?ev]"
  proof -
    have "a_ID ` set (task_attempts d' ?tid) \<inter> a_ID ` set (attempts d)
          = a_ID ` set (task_attempts d ?tid)"
      unfolding ids' by (rule inter_fresh [OF sub fresh])
    from task_events_append [OF ok es this] aid show ?thesis by simp
  qed
  have te_other: "task_events d' x = task_events d x" if "x \<noteq> ?tid" for x
  proof -
    have "a_ID ` set (task_attempts d' x) \<inter> a_ID ` set (attempts d)
          = a_ID ` set (task_attempts d x)"
      unfolding other [OF that] by (rule Int_absorb2 [OF sub])
    from task_events_append [OF ok es this] not_other [OF that] other [OF that] show ?thesis by simp
  qed
  have "seq_wf d'" by (rule seq_wf_append [OF ok db_invD(2) [OF inv] es]) simp
  moreover have "attempts_wf d' t' \<and> log_wf d' t' \<and> keys_wf d' t'" if "t' \<in> set (tasks d')" for t'
  proof -
    from that tasks' obtain t where t: "t \<in> set (tasks d)"
      and t': "t' = (if t_ID t = ?tid then transition_row E p t else t)"
      by (auto simp: in_update_where_iff)
    show ?thesis
    proof (cases "t_ID t = ?tid")
      case True
      then have "t = cur" using task_eq_by_ID [OF ok t cur] by simp
      have "attempts_wf d' t'"
        by (rule attempts_wf_step [OF wf snoc _ _ own])
          (use act t' \<open>t = cur\<close> in \<open>auto simp: requeues_def dest: active_attempt_Some\<close>)
      moreover have "event_target ?ev = Some (p_To p)"
        using can CanTransition_Valid CanTransition_not_created
        by (intro event_target_transition) auto
      then have "task_log d' ?tid = task_log d ?tid @ [p_To p]"
        by (simp add: task_log_append [OF te_own])
      with db_invD(4) [OF inv cur] can have "log_wf d' t'"
        using t' \<open>t = cur\<close> by (auto simp: log_wf_def legal_path_append)
      moreover have "keys_wf d' t'"
        using db_invD(5) [OF inv cur] new t' \<open>t = cur\<close>
        by (auto simp: keys_wf_def task_keys_append [OF te_own] replayed_def key_recorded_iff
            nullif_empty_def)
      ultimately show ?thesis by simp
    next
      case False
      then have "t' = t" using t' by simp
      with False db_invD(3-5) [OF inv t] other te_other show ?thesis
        by (simp add: attempts_wf_def log_wf_def keys_wf_def task_log_def task_keys_def)
    qed
  qed
  ultimately show ?thesis using ok' by (simp add: db_inv_def)
qed

lemma applyTransition_inv:
  assumes "db_inv d" and "cur \<in> set (tasks d)" and "applyTransition E cur p d = Inr (next, d')"
  shows "db_inv d'" and "next \<in> set (tasks d')" and "t_ID next = t_ID cur"
  using assms(3)
proof (atomize (full), cases rule: applyTransition_InrE)
  case replay
  with assms show "db_inv d' \<and> next \<in> set (tasks d') \<and> t_ID next = t_ID cur" by simp
next
  case (step att as' aid t0)
  then have "t0 = cur"
    using assms(2) find_task_self [OF db_invD(1) [OF assms(1)]] by simp
  moreover have "transition_row E p cur \<in> set (tasks d')"
    using step(7) assms(2) by (auto simp: step_db_def in_update_where_iff)
  moreover have "db_inv d'"
    by (rule step_db_inv [OF assms(1,2) step(1,3,4,7,8,9)])
  ultimately show "db_inv d' \<and> next \<in> set (tasks d') \<and> t_ID next = t_ID cur"
    using step(6) by simp
qed

end
