(* ===== verification/TaskSteps.thy ===== *)
theory TaskSteps
  imports TaskInvariants
begin

text \<open>
  Every operation of the task store keeps the invariant of the task tables, whatever the driver
  does; the steps of the store as one relation, and what every run of it keeps.
\<close>

section \<open>Operations keep the invariant\<close>

lemma lockTask_Inr: "lockTask E tid d = Inr t \<Longrightarrow> find_task d (pg_uuid tid) = Some t"
  by (auto simp: lockTask_def bind_sum_Inr_iff split: option.splits)

lemma lockTask_member: "lockTask E tid d = Inr t \<Longrightarrow> t \<in> set (tasks d) \<and> t_ID t = pg_uuid tid"
  by (drule lockTask_Inr) (rule find_task_Some)

lemma Transition_InrE:
  assumes "Transition E tid p d = Inr (next, d')"
  obtains cur where "IsUUID tid" and "find_task d (pg_uuid tid) = Some cur"
    and "applyTransition E cur p d = Inr (next, d')"
  using assms by (auto simp: Transition_def bind_sum_Inr_iff dest!: lockTask_Inr split: if_splits)

lemma Cancel_InrE:
  assumes "Cancel E tid reason d = Inr (next, d')"
  obtains (already) "find_task d (pg_uuid tid) = Some next" and "t_Status next = StatusCancelled"
      and "d' = d"
  | (cancel) cur where "find_task d (pg_uuid tid) = Some cur" and "t_Status cur \<noteq> StatusCancelled"
      and "applyTransition E cur ((transition_to StatusCancelled ''api'')\<lparr>p_Reason := reason\<rparr>) d
           = Inr (next, d')"
  using assms by (auto simp: Cancel_def bind_sum_Inr_iff dest!: lockTask_Inr split: if_splits)

text \<open>The two transitions of a revision, in one transaction under one row lock.\<close>

definition revision_request :: "RevisionParams \<Rightarrow> TransitionParams" where
  "revision_request v = (transition_to StatusRevisionRequested ''system'')
     \<lparr>p_Reason := v_Reason v, p_IdempotencyKey := v_IdempotencyKey v\<rparr>"

definition revision_requeue :: "RevisionParams \<Rightarrow> TransitionParams" where
  "revision_requeue v = (transition_to StatusQueued ''system'')
     \<lparr>p_Reason := v_Reason v, p_revision := Some v\<rparr>"

lemma RequestRevision_InrE:
  assumes "RequestRevision E tid v d = Inr (queued, att, d2)"
  obtains cur requested d1 where "find_task d (pg_uuid tid) = Some cur"
    and "revision_params_complete v"
    and "\<not> key_recorded d (pg_uuid tid) (v_IdempotencyKey v)"
    and "int (length (task_attempts d (pg_uuid tid))) < v_MaxAttempts v"
    and "applyTransition E cur (revision_request v) d = Inr (requested, d1)"
    and "t_Status requested = StatusRevisionRequested"
    and "applyTransition E requested (revision_requeue v) d1 = Inr (queued, d2)"
    and "active_attempt d2 (pg_uuid tid) = Some att"
  using assms
  by (auto simp: RequestRevision_def Let_def bind_sum_Inr_iff revision_request_def
      revision_requeue_def dest!: lockTask_Inr split: if_splits option.splits)

lemma Transition_inv:
  assumes "db_inv d" and "Transition E tid p d = Inr (next, d')"
  shows "db_inv d'"
  using assms(2)
proof (cases rule: Transition_InrE)
  case (1 cur)
  then show ?thesis
    using applyTransition_inv(1) [OF assms(1) _ 1(3)] by (simp add: find_task_Some)
qed

lemma Cancel_inv:
  assumes "db_inv d" and "Cancel E tid reason d = Inr (next, d')"
  shows "db_inv d'"
  using assms(2)
proof (cases rule: Cancel_InrE)
  case already
  then show ?thesis using assms(1) by simp
next
  case (cancel cur)
  then show ?thesis
    using applyTransition_inv(1) [OF assms(1) _ cancel(3)] by (simp add: find_task_Some)
qed

lemma RequestRevision_inv:
  assumes "db_inv d" and "RequestRevision E tid v d = Inr (queued, att, d')"
  shows "db_inv d'"
  using assms(2)
proof (cases rule: RequestRevision_InrE)
  case (1 cur requested d1)
  have "cur \<in> set (tasks d)" using 1(1) by (simp add: find_task_Some)
  note first = applyTransition_inv [OF assms(1) this 1(5)]
  show ?thesis by (rule applyTransition_inv(1) [OF first(1,2) 1(7)])
qed

lemma EnsureGitContext_inv:
  assumes "db_inv d" and "EnsureGitContext E tid base branch d = Inr (b, br, d')"
  shows "db_inv d'"
proof -
  from assms(2) obtain t where "update_task E ''ensure git context'' (pg_uuid tid)
      (git_context_row E base branch) d = Inr (t, d')"
    by (auto simp: EnsureGitContext_def split: if_splits sum.splits)
  note upd = update_task_Inr [OF this]
  have "d' = d\<lparr>tasks := update_where (\<lambda>t. t_ID t = pg_uuid tid)
        (git_context_row E base branch) (tasks d)\<rparr>" and "schema_ok d'"
    by (rule upd(1), simp add: git_context_row_def) (rule upd(2), simp add: git_context_row_def)
  then show ?thesis
    by (intro db_inv_frame [OF assms(1)])
      (auto simp: map_update_where task_core_def git_context_row_def)
qed

lemma RecordTriggerCheckRun_inv:
  assumes "db_inv d" and "RecordTriggerCheckRun E tid n d = Inr d'"
  shows "db_inv d'"
proof -
  let ?sel = "\<lambda>a. a_TaskID a = pg_uuid tid \<and> a_Status a = AttemptActive"
  from assms(2) have "d' = d\<lparr>attempts := update_where ?sel (record_check_run n) (attempts d)\<rparr>"
    and "schema_ok d'"
    by (auto simp: RecordTriggerCheckRun_def Let_def bind_sum_Inr_iff exec_Inr split: if_splits)
  then show ?thesis
    by (intro db_inv_frame [OF assms(1)])
      (auto simp: map_update_where attempt_core_def record_check_run_def)
qed

lemma MarkTriggerCheckRunCompleted_inv:
  assumes "db_inv d" and "MarkTriggerCheckRunCompleted E aid d = Inr d'"
  shows "db_inv d'"
proof -
  from assms(2) have "d' = d\<lparr>attempts := update_where
      (\<lambda>a. a_ID a = pg_uuid aid \<and> a_TriggerCheckRunID a \<noteq> None) (complete_check_run E) (attempts d)\<rparr>"
    and "schema_ok d'"
    by (auto simp: MarkTriggerCheckRunCompleted_def exec_Inr split: if_splits)
  then show ?thesis
    by (intro db_inv_frame [OF assms(1)])
      (auto simp: map_update_where attempt_core_def complete_check_run_def)
qed

text \<open>Appending an event that is not of a transition's type.\<close>

definition transition_type :: "string \<Rightarrow> bool" where
  "transition_type ty \<longleftrightarrow>
     (\<exists>s\<in>set AllStatuses. s \<noteq> StatusCreated \<and> TransitionEventType s = ty)"

lemma event_target_None: "\<not> transition_type (e_EventType e) \<Longrightarrow> event_target e = None"
  by (auto simp: event_target_def transition_type_def find_None_iff')

lemma insertEvent_inv:
  assumes inv: "db_inv d" and ins: "insertEvent E aid ty src pl [] d = Inr d'"
    and ty: "\<not> transition_type ty"
  shows "db_inv d'"
proof -
  let ?ev = "new_event E aid ty src pl [] d"
  have d': "d' = d\<lparr>events := events d @ [?ev]\<rparr>" and ok': "schema_ok d'"
    using ins unfolding insertEvent_Inr by blast+
  note ok = db_invD(1) [OF inv]
  have es: "events d' = events d @ [?ev]" by (simp add: d')
  have ta: "task_attempts d' x = task_attempts d x" for x by (simp add: d' task_attempts_def)
  have "a_ID ` set (task_attempts d' x) \<inter> a_ID ` set (attempts d)
        = a_ID ` set (task_attempts d x)" for x
    by (auto simp: ta task_attempts_nonempty_member)
  note te = task_events_append [OF ok es this]
  have "task_log d' x = task_log d x \<and> task_keys d' x = task_keys d x" for x
    by (cases "aid \<in> a_ID ` set (task_attempts d' x)")
      (simp_all add: te task_log_def task_keys_def event_target_None ty)
  moreover have "seq_wf d'" by (rule seq_wf_append [OF ok db_invD(2) [OF inv] es]) simp
  moreover have "tasks d' = tasks d" by (simp add: d')
  ultimately show ?thesis
    using inv ok' by (simp add: db_inv_def attempts_wf_def log_wf_def keys_wf_def ta)
qed

lemma AppendAttemptEvent_InrE:
  assumes "AppendAttemptEvent E aid ty src pl d = Inr d'"
  obtains a where "find (\<lambda>a. a_ID a = pg_uuid aid) (attempts d) = Some a" and "validSource src"
    and "insertEvent E (pg_uuid aid) ty src (if pl = JNull then JObj [] else pl) [] d = Inr d'"
  using assms
  by (auto simp: AppendAttemptEvent_def Let_def bind_sum_Inr_iff split: if_splits option.splits)

lemma AppendAttemptEvent_inv:
  assumes "db_inv d" and "AppendAttemptEvent E aid ty src pl d = Inr d'" and "\<not> transition_type ty"
  shows "db_inv d'"
  using assms(2) by (rule AppendAttemptEvent_InrE) (rule insertEvent_inv [OF assms(1) _ assms(3)])

lemma AppendEvent_InrE:
  assumes "AppendEvent E tid ty src pl d = Inr d'"
  obtains a where "active_attempt d (pg_uuid tid) = Some a"
    and "insertEvent E (a_ID a) ty src pl [] d = Inr d'"
  using assms
  by (auto simp: AppendEvent_def load_active_attempt_def bind_sum_Inr_iff
      split: if_splits option.splits)

lemma AppendEvent_inv:
  assumes "db_inv d" and "AppendEvent E tid ty src pl d = Inr d'" and "\<not> transition_type ty"
  shows "db_inv d'"
  using assms(2) by (rule AppendEvent_InrE) (rule insertEvent_inv [OF assms(1) _ assms(3)])

section \<open>Creating a task\<close>

lemma Create_InrE:
  assumes "Create E p0 d = Inr (queued, d')"
  obtains t att d3 where
    "t = created_task E (create_defaults p0) d"
    and "att = first_attempt E (t_ID t) (create_defaults p0) d"
    and "d3 = d\<lparr>tasks := tasks d @ [t], attempts := attempts d @ [att],
           events := events d @ [new_event E (a_ID att) EventTypeCreated ''api''
                       (JObj [(''title'', JStr (t_Title t))]) [] d]\<rparr>"
    and "schema_ok d3"
    and "applyTransition E t (transition_to StatusQueued ''system'') d3 = Inr (queued, d')"
proof -
  define t where "t = created_task E (create_defaults p0) d"
  define d1 where "d1 = d\<lparr>tasks := tasks d @ [t]\<rparr>"
  define att where "att = first_attempt E (t_ID t) (create_defaults p0) d1"
  define d2 where "d2 = d1\<lparr>attempts := attempts d1 @ [att]\<rparr>"
  from assms obtain d3 where
    ins: "insertEvent E (a_ID att) EventTypeCreated ''api''
            (JObj [(''title'', JStr (t_Title t))]) [] d2 = Inr d3"
    and app: "applyTransition E t (transition_to StatusQueued ''system'') d3 = Inr (queued, d')"
    by (auto simp: Create_def insert_created_task_def Let_def bind_sum_Inr_iff exec_Inr
        t_def d1_def att_def d2_def split: sum.splits)
  have "events d2 = events d" by (simp add: d2_def d1_def)
  with ins have "d3 = d2\<lparr>events := events d @ [new_event E (a_ID att) EventTypeCreated ''api''
                       (JObj [(''title'', JStr (t_Title t))]) [] d]\<rparr>" and "schema_ok d3"
    by (auto simp: insertEvent_Inr new_event_cong [of d2 d])
  moreover have "att = first_attempt E (t_ID t) (create_defaults p0) d"
    by (simp add: att_def first_attempt_def d1_def)
  ultimately show thesis using app
    by (intro that [OF t_def]) (simp_all add: d2_def d1_def)
qed

lemma created_task_fields [simp]:
  "t_Status (created_task E p d) = StatusCreated" "t_Version (created_task E p d) = 1"
  by (simp_all add: created_task_def)

lemma first_attempt_fields [simp]:
  "a_TaskID (first_attempt E tid p d) = tid" "a_Number (first_attempt E tid p d) = 1"
  "a_Status (first_attempt E tid p d) = AttemptActive"
  by (simp_all add: first_attempt_def bare_attempt_def)

lemma created_inv:
  assumes inv: "db_inv d" and ok': "schema_ok d3"
    and t: "t_Status t = StatusCreated"
    and att: "a_TaskID att = t_ID t" "a_Number att = 1" "a_Status att = AttemptActive"
    and d3: "d3 = d\<lparr>tasks := tasks d @ [t], attempts := attempts d @ [att],
           events := events d @ [new_event E (a_ID att) EventTypeCreated src pl [] d]\<rparr>"
  shows "db_inv d3"
proof -
  let ?ev = "new_event E (a_ID att) EventTypeCreated src pl [] d"
  note ok = db_invD(1) [OF inv]
  have es: "events d3 = events d @ [?ev]" by (simp add: d3)
  have fresh_t: "t_ID t \<notin> t_ID ` set (tasks d)"
    using schema_ok_taskD(2) [OF ok'] by (simp add: d3)
  have fresh_a: "a_ID att \<notin> a_ID ` set (attempts d)"
    using schema_ok_attemptD(2) [OF ok'] by (simp add: d3)
  have none: "task_attempts d (t_ID t) = []"
    using schema_ok_attemptD(4) [OF ok] fresh_t
    by (fastforce simp: task_attempts_def filter_empty_conv image_iff)
  have ta: "task_attempts d3 x = task_attempts d x @ (if x = t_ID t then [att] else [])" for x
    by (auto simp: d3 task_attempts_def att)
  have sub: "a_ID ` set (task_attempts d x) \<subseteq> a_ID ` set (attempts d)" for x
    by (auto simp: task_attempts_nonempty_member)
  have "a_ID ` set (task_attempts d3 x)
        = a_ID ` set (task_attempts d x) \<union> (if x = t_ID t then {a_ID att} else {})" for x
    by (auto simp: ta)
  then have ids: "a_ID ` set (task_attempts d3 x) \<inter> a_ID ` set (attempts d)
        = a_ID ` set (task_attempts d x)" for x
    by (simp only: inter_fresh [OF sub fresh_a])
  note te = task_events_append [OF ok es ids]
  have ev: "event_target ?ev = None" "e_IdempotencyKey ?ev = None"
    by (simp_all add: event_target_def AllStatuses_def TransitionEventType_def EventTypeCreated_def)
  have same: "task_log d3 x = task_log d x \<and> task_keys d3 x = task_keys d x" for x
    by (cases "a_ID att \<in> a_ID ` set (task_attempts d3 x)")
      (simp_all add: te task_log_def task_keys_def ev)
  have "task_events d (t_ID t) = []" by (simp add: task_events_def none)
  then have "task_log d (t_ID t) = [] \<and> task_keys d (t_ID t) = []"
    by (simp add: task_log_def task_keys_def)
  then have new: "attempts_wf d3 t \<and> log_wf d3 t \<and> keys_wf d3 t"
    by (simp add: attempts_wf_def ta none numbered_def attempt_status_for_def att t log_wf_def
        keys_wf_def same)
  have old: "attempts_wf d3 s \<and> log_wf d3 s \<and> keys_wf d3 s" if "s \<in> set (tasks d)" for s
  proof -
    have "t_ID s \<noteq> t_ID t" using that fresh_t by (metis imageI)
    then show ?thesis
      using db_invD(3-5) [OF inv that]
      by (simp add: attempts_wf_def ta log_wf_def keys_wf_def same)
  qed
  have "seq_wf d3" by (rule seq_wf_append [OF ok db_invD(2) [OF inv] es]) simp
  then show ?thesis using ok' new old by (auto simp: db_inv_def d3)
qed

lemma Create_inv:
  assumes "db_inv d" and "Create E p0 d = Inr (queued, d')"
  shows "db_inv d'"
  using assms(2)
proof (cases rule: Create_InrE)
  case (1 t att d3)
  have "db_inv d3"
    by (rule created_inv [OF assms(1) 1(4) _ _ _ _ 1(3)]) (simp_all add: 1(1,2))
  moreover have "t \<in> set (tasks d3)" by (simp add: 1(3))
  ultimately show ?thesis by (rule applyTransition_inv(1) [OF _ _ 1(5)])
qed

end
