(* ===== verification/GoText.thy ===== *)
theory GoText
  imports GoErrors
begin

text \<open>
  The functions of Go's \<open>strings\<close> that cut, trim and search text, on the runes of
  \<open>GoStrings\<close>. Unicode's lower-case table is a parameter: it acts on the runes that are not
  ASCII.
\<close>

section \<open>White space\<close>

text \<open>\<open>unicode.IsSpace\<close>, on the bytes of one rune.\<close>

definition is_space :: "string \<Rightarrow> bool" where
  "is_space r \<longleftrightarrow>
     r \<in> {[CHR 0x09], [CHR 0x0A], [CHR 0x0B], [CHR 0x0C], [CHR 0x0D], [CHR '' ''],
          [CHR 0xC2, CHR 0x85], [CHR 0xC2, CHR 0xA0], [CHR 0xE1, CHR 0x9A, CHR 0x80],
          [CHR 0xE2, CHR 0x80, CHR 0xA8], [CHR 0xE2, CHR 0x80, CHR 0xA9],
          [CHR 0xE2, CHR 0x80, CHR 0xAF], [CHR 0xE2, CHR 0x81, CHR 0x9F],
          [CHR 0xE3, CHR 0x80, CHR 0x80]}
     \<or> (length r = 3 \<and> take 2 r = [CHR 0xE2, CHR 0x80] \<and> 128 \<le> byte (last r) \<and> byte (last r) \<le> 138)"

definition trim_runes :: "(string \<Rightarrow> bool) \<Rightarrow> string list \<Rightarrow> string list" where
  "trim_runes p rs = rev (dropWhile p (rev (dropWhile p rs)))"

definition TrimSpace :: "string \<Rightarrow> string" where
  "TrimSpace s = concat (trim_runes is_space (runes s))"

text \<open>\<open>strings.Fields\<close>: the maximal runs of runes that are not white space.\<close>

function fields_of :: "string list \<Rightarrow> string list" where
  "fields_of rs =
     (let rest = dropWhile is_space rs in
      if rest = [] then []
      else concat (takeWhile (\<lambda>r. \<not> is_space r) rest)
             # fields_of (dropWhile (\<lambda>r. \<not> is_space r) rest))"
  by pat_completeness auto
termination
proof (relation "measure length", simp)
  fix rs rest :: "string list"
  assume rest: "rest = dropWhile is_space rs" "rest \<noteq> []"
  then have "\<not> is_space (hd rest)" using hd_dropWhile by metis
  then have "length (dropWhile (\<lambda>r. \<not> is_space r) rest) < length rest"
    using rest(2) by (cases rest) (simp_all add: le_imp_less_Suc length_dropWhile_le)
  also have "length rest \<le> length rs" using rest(1) by (simp add: length_dropWhile_le)
  finally show "(dropWhile (\<lambda>r. \<not> is_space r) rest, rs) \<in> measure length" by simp
qed

declare fields_of.simps [simp del]

definition Fields :: "string \<Rightarrow> string list" where
  "Fields s = fields_of (runes s)"

section \<open>Lines and separators\<close>

text \<open>\<open>strings.Split\<close> at a one-byte separator: never the empty list.\<close>

fun split_at :: "char \<Rightarrow> string \<Rightarrow> string list" where
  "split_at sep [] = [[]]"
| "split_at sep (c # cs) =
     (if c = sep then [] # split_at sep cs
      else case split_at sep cs of [] \<Rightarrow> [[c]] | l # ls \<Rightarrow> (c # l) # ls)"

text \<open>\<open>strings.SplitN\<close> with a one-byte separator and at most \<open>n\<close> parts.\<close>

fun split_n :: "nat \<Rightarrow> char \<Rightarrow> string \<Rightarrow> string list" where
  "split_n 0 sep s = []"
| "split_n (Suc 0) sep s = [s]"
| "split_n (Suc (Suc n)) sep s =
     (case dropWhile (\<lambda>c. c \<noteq> sep) s of
        [] \<Rightarrow> [s]
      | _ # r \<Rightarrow> takeWhile (\<lambda>c. c \<noteq> sep) s # split_n (Suc n) sep r)"

text \<open>\<open>strings.Lines\<close>: every line keeps its newline and no line is empty.\<close>

definition Lines :: "string \<Rightarrow> string list" where
  "Lines s = (let ls = split_at (CHR 0x0A) s in
     filter (\<lambda>l. l \<noteq> []) (map (\<lambda>l. l @ newline) (butlast ls) @ [last ls]))"

definition HasPrefix :: "string \<Rightarrow> string \<Rightarrow> bool" where
  "HasPrefix s p \<longleftrightarrow> take (length p) s = p"

definition TrimPrefix :: "string \<Rightarrow> string \<Rightarrow> string" where
  "TrimPrefix s p = (if HasPrefix s p then drop (length p) s else s)"

definition CutPrefix :: "string \<Rightarrow> string \<Rightarrow> string option" where
  "CutPrefix s p = (if HasPrefix s p then Some (drop (length p) s) else None)"

text \<open>\<open>strings.Trim\<close> and \<open>strings.TrimRight\<close> for a cutset of one ASCII byte.\<close>

definition trim_right_char :: "char \<Rightarrow> string \<Rightarrow> string" where
  "trim_right_char c s = rev (dropWhile (\<lambda>d. d = c) (rev s))"

definition trim_char :: "char \<Rightarrow> string \<Rightarrow> string" where
  "trim_char c s = trim_right_char c (dropWhile (\<lambda>d. d = c) s)"

fun contains_string :: "string \<Rightarrow> string \<Rightarrow> bool" where
  "contains_string p [] = (p = [])"
| "contains_string p (c # cs) = (HasPrefix (c # cs) p \<or> contains_string p cs)"

section \<open>Letter case\<close>

definition rune_lower :: "(string \<Rightarrow> string) \<Rightarrow> string \<Rightarrow> string" where
  "rune_lower low r = (if list_all ascii r then map lower_byte r else low (encode_rune r))"

definition ToLower :: "(string \<Rightarrow> string) \<Rightarrow> string \<Rightarrow> string" where
  "ToLower low s = concat (map (rune_lower low) (runes s))"

section \<open>Quotation and repair\<close>

definition hex_digit :: "nat \<Rightarrow> char" where
  "hex_digit n = char_of (if n < 10 then 48 + n else 87 + n)"

text \<open>The \<open>%q\<close> verb; a valid rune beyond ASCII is taken as printable and kept.\<close>

definition quote_rune :: "string \<Rightarrow> string" where
  "quote_rune r = (case r of
     [c] \<Rightarrow>
       if c = CHR 0x22 \<or> c = CHR 0x5C then [CHR 0x5C, c]
       else if c = CHR 0x07 then [CHR 0x5C, CHR ''a'']
       else if c = CHR 0x08 then [CHR 0x5C, CHR ''b'']
       else if c = CHR 0x0C then [CHR 0x5C, CHR ''f'']
       else if c = CHR 0x0A then [CHR 0x5C, CHR ''n'']
       else if c = CHR 0x0D then [CHR 0x5C, CHR ''r'']
       else if c = CHR 0x09 then [CHR 0x5C, CHR ''t'']
       else if c = CHR 0x0B then [CHR 0x5C, CHR ''v'']
       else if byte c < 32 \<or> 127 \<le> byte c then
         [CHR 0x5C, CHR ''x'', hex_digit (byte c div 16), hex_digit (byte c mod 16)]
       else [c]
   | _ \<Rightarrow> r)"

definition quote :: "string \<Rightarrow> string" where
  "quote s = [CHR 0x22] @ concat (map quote_rune (runes s)) @ [CHR 0x22]"

text \<open>\<open>strings.ToValidUTF8(s, "\\uFFFD")\<close>: a run of invalid bytes becomes one replacement.\<close>

fun repair_runes :: "bool \<Rightarrow> string list \<Rightarrow> string list" where
  "repair_runes bad [] = []"
| "repair_runes bad (r # rs) =
     (if rune_len r = length r then r # repair_runes False rs
      else if bad then repair_runes True rs
      else rune_error # repair_runes True rs)"

definition ToValidUTF8 :: "string \<Rightarrow> string" where
  "ToValidUTF8 s = concat (repair_runes False (runes s))"

text \<open>The text a Go string has in JSON: \<open>json.Marshal\<close> replaces every invalid byte.\<close>

definition marshal_text :: "string \<Rightarrow> string" where
  "marshal_text s = concat (map encode_rune (runes s))"

section \<open>Lemmas\<close>

lemma repair_runes_one: "list_all one_rune (repair_runes b (filter (\<lambda>r. r \<noteq> []) rs))"
  by (induction rs arbitrary: b) (auto, simp_all add: one_rune_def)

lemma ToValidUTF8_valid: "valid_string (ToValidUTF8 s)"
proof -
  have "filter (\<lambda>r. r \<noteq> []) (runes s) = runes s"
    using runes_elem_nonempty by (simp add: filter_id_conv)
  then have "list_all one_rune (repair_runes False (runes s))"
    using repair_runes_one [of False "runes s"] by simp
  then show ?thesis
    unfolding ToValidUTF8_def by (auto simp: list_all_iff intro: valid_string_concat)
qed

lemma set_repair_runes: "set (repair_runes b rs) \<subseteq> insert rune_error (set rs)"
  by (induction rs arbitrary: b) auto

lemma ToValidUTF8_no_NUL: "CHR 0x00 \<notin> set s \<Longrightarrow> CHR 0x00 \<notin> set (ToValidUTF8 s)"
proof -
  assume no: "CHR 0x00 \<notin> set s"
  have "CHR 0x00 \<notin> set r" if "r \<in> set (runes s)" for r
    using that no concat_runes [of s] by (metis UN_I set_concat)
  moreover have "CHR 0x00 \<notin> set rune_error" by (simp add: rune_error_def)
  ultimately have "\<forall>r \<in> insert rune_error (set (runes s)). CHR 0x00 \<notin> set r" by simp
  with set_repair_runes [of False "runes s"] show ?thesis
    unfolding ToValidUTF8_def set_concat by blast
qed

lemma marshal_text_valid: "valid_string (marshal_text s)"
  unfolding marshal_text_def
  by (rule valid_string_concat) (auto intro: one_rune_encode)

lemma split_at_nonempty [simp]: "split_at sep s \<noteq> []"
  by (cases s) (simp_all split: list.splits)

lemma split_at_join: "join_strings [sep] (split_at sep s) = s"
proof (induction s)
  case (Cons c cs)
  obtain l ls where "split_at sep cs = l # ls" by (cases "split_at sep cs") simp_all
  with Cons show ?case by (cases ls) auto
qed simp

lemma split_at_no_sep: "l \<in> set (split_at sep s) \<Longrightarrow> sep \<notin> set l"
  by (induction s arbitrary: l) (auto split: if_splits list.splits)

lemma split_at_line: "sep \<notin> set l \<Longrightarrow> split_at sep (l @ sep # s) = l # split_at sep s"
  by (induction l) auto

lemma split_at_single: "sep \<notin> set l \<Longrightarrow> split_at sep l = [l]"
  by (induction l) auto

lemma HasPrefix_append [simp]: "HasPrefix (p @ s) p"
  by (simp add: HasPrefix_def)

lemma HasPrefix_iff: "HasPrefix s p \<longleftrightarrow> (\<exists>t. s = p @ t)"
proof
  assume "HasPrefix s p"
  then have p: "take (length p) s = p" unfolding HasPrefix_def .
  have "take (length p) s @ drop (length p) s = s" by (rule append_take_drop_id)
  then have "s = p @ drop (length p) s" unfolding p by (rule sym)
  then show "\<exists>t. s = p @ t" ..
qed auto

lemma TrimPrefix_append [simp]: "TrimPrefix (p @ s) p = s"
  by (simp add: TrimPrefix_def)

lemma set_dropWhile_subset: "set (dropWhile p s) \<subseteq> set s"
  by (auto dest: set_dropWhileD)

lemma trim_right_char_set: "set (trim_right_char c s) \<subseteq> set s"
  unfolding trim_right_char_def using set_dropWhile_subset [of "\<lambda>d. d = c" "rev s"] by simp

lemma trim_char_set: "set (trim_char c s) \<subseteq> set s"
  unfolding trim_char_def by (rule subset_trans [OF trim_right_char_set set_dropWhile_subset])

lemma trim_char_hd: "trim_char c s \<noteq> [] \<Longrightarrow> hd (trim_char c s) \<noteq> c"
proof -
  let ?t = "dropWhile (\<lambda>d. d = c) s"
  assume ne: "trim_char c s \<noteq> []"
  have "\<exists>u. ?t = trim_char c s @ u"
    unfolding trim_char_def trim_right_char_def
    using takeWhile_dropWhile_id [of "\<lambda>d. d = c" "rev ?t"]
    by (metis rev_append rev_rev_ident)
  then obtain u where u: "?t = trim_char c s @ u" by blast
  with ne have "?t \<noteq> []" and "hd ?t = hd (trim_char c s)" by auto
  then show ?thesis using hd_dropWhile [of "\<lambda>d. d = c" s] by simp
qed

lemma length_trim_char: "length (trim_char c s) \<le> length s"
proof -
  have "length (trim_char c s) \<le> length (dropWhile (\<lambda>d. d = c) s)"
    unfolding trim_char_def trim_right_char_def
    using length_dropWhile_le [of "\<lambda>d. d = c" "rev (dropWhile (\<lambda>d. d = c) s)"] by simp
  also have "\<dots> \<le> length s" by (rule length_dropWhile_le)
  finally show ?thesis .
qed

lemma dropWhile_hd: "s \<noteq> [] \<Longrightarrow> \<not> p (hd s) \<Longrightarrow> dropWhile p s = s"
  by (cases s) simp_all

lemma trim_char_id: "s \<noteq> [] \<Longrightarrow> hd s \<noteq> c \<Longrightarrow> last s \<noteq> c \<Longrightarrow> trim_char c s = s"
  by (simp add: trim_char_def trim_right_char_def dropWhile_hd hd_rev)

lemma runes_ascii: "list_all ascii s \<Longrightarrow> runes s = map (\<lambda>c. [c]) s"
  by (induction s) (simp_all add: runes_code)

lemma ToLower_ascii: "list_all ascii s \<Longrightarrow> ToLower low s = map lower_byte s"
  by (simp add: ToLower_def runes_ascii comp_def)
    (induction s, simp_all add: rune_lower_def)

end
