(* ===== verification/GoTime.thy ===== *)
theory GoTime
  imports GoText Schema
begin

text \<open>
  Go's \<open>time\<close> where handlers use it: an instant is its count of nanoseconds since 1970 in UTC,
  and RFC 3339 text is computed from the proleptic Gregorian calendar.
\<close>

definition second :: time where
  "second = 1000000000"

text \<open>The zero \<open>time.Time\<close>, January 1 of year 1.\<close>

definition zero_time :: time where
  "zero_time = -62135596800 * second"

definition truncate_second :: "time \<Rightarrow> time" where
  "truncate_second t = t div second * second"

text \<open>Year, month and day of a day number (day 0 is 1970-01-01), by 400-year eras from March.\<close>

definition civil :: "int \<Rightarrow> int \<times> int \<times> int" where
  "civil days =
     (let z = days + 719468;
          era = z div 146097;
          doe = z mod 146097;
          yoe = (doe - doe div 1460 + doe div 36524 - doe div 146096) div 365;
          doy = doe - (365 * yoe + yoe div 4 - yoe div 100);
          mp = (5 * doy + 2) div 153;
          m = (if mp < 10 then mp + 3 else mp - 9) in
      (yoe + era * 400 + (if m \<le> 2 then 1 else 0), m, doy - (153 * mp + 2) div 5 + 1))"

definition zero_pad :: "nat \<Rightarrow> int \<Rightarrow> string" where
  "zero_pad n i =
     (let ds = int_string \<bar>i\<bar> in
      (if i < 0 then ''-'' else []) @ replicate (n - length ds) (CHR ''0'') @ ds)"

text \<open>\<open>t.UTC().Format(time.RFC3339)\<close>.\<close>

definition rfc3339 :: "time \<Rightarrow> string" where
  "rfc3339 t =
     (let secs = t div second; s = secs mod 86400 in
      case civil (secs div 86400) of (y, m, d) \<Rightarrow>
        zero_pad 4 y @ ''-'' @ zero_pad 2 m @ ''-'' @ zero_pad 2 d @ ''T'' @
        zero_pad 2 (s div 3600) @ '':'' @ zero_pad 2 (s div 60 mod 60) @ '':'' @
        zero_pad 2 (s mod 60) @ ''Z'')"

text \<open>\<open>Duration.String\<close>.\<close>

definition fraction_text :: "nat \<Rightarrow> int \<Rightarrow> string" where
  "fraction_text prec v =
     (let ds = trim_right_char (CHR ''0'') (zero_pad prec (v mod 10 ^ prec)) in
      if ds = [] then [] else ''.'' @ ds)"

definition duration_string :: "time \<Rightarrow> string" where
  "duration_string d =
     (let u = \<bar>d\<bar>; neg = (if d < 0 then ''-'' else []) in
      if u = 0 then ''0s''
      else if u < 1000 then neg @ int_string u @ ''ns''
      else if u < 1000000 then
        neg @ int_string (u div 1000) @ fraction_text 3 u @ [CHR 0xC2, CHR 0xB5, CHR ''s'']
      else if u < second then neg @ int_string (u div 1000000) @ fraction_text 6 u @ ''ms''
      else
        let s = u div second; m = s div 60; h = m div 60 in
        neg @ (if 0 < h then int_string h @ ''h'' else [])
          @ (if 0 < m then int_string (m mod 60) @ ''m'' else [])
          @ int_string (s mod 60) @ fraction_text 9 u @ ''s'')"

lemma truncate_second_le: "truncate_second t \<le> t"
proof -
  have "truncate_second t + t mod second = t"
    unfolding truncate_second_def by (rule div_mult_mod_eq)
  moreover have "0 \<le> t mod second" by (simp add: second_def)
  ultimately show ?thesis by linarith
qed

end
