(* ===== verification/RunnerStore.thy ===== *)
theory RunnerStore
  imports TaskSteps GoTime
begin

text \<open>
  \<open>internal/runner/store.go\<close>: runner registration and heartbeats, and the lease on an attempt
  (\<open>lease_owner\<close>, \<open>lease_expires_at\<close>) that makes one runner its owner until it expires.
  Durations and instants count the same unit of time. The rows another transaction has locked,
  which \<open>SKIP LOCKED\<close> passes over, are a parameter of the claim.
\<close>

section \<open>Runners\<close>

record RegisterParams =
  reg_Type :: string
  reg_HostnameOrPod :: string
  reg_Capacity :: int
  reg_Labels :: "(string \<times> string) list"

definition Register :: "env \<Rightarrow> RegisterParams \<Rightarrow> db \<Rightarrow> err + (Runner \<times> db)" where
  "Register E p d =
     (if \<not> (reg_Type p = ''process'' \<or> reg_Type p = ''docker'' \<or> reg_Type p = ''kubernetes'') then
        Inl (Msg (''unknown runner type '' @ reg_Type p))
      else if reg_HostnameOrPod p = [] \<or> 255 < length (reg_HostnameOrPod p) then
        Inl (Msg ''hostname_or_pod must be 1-255 characters'')
      else
        let cap = (if reg_Capacity p \<le> 0 then 1 else reg_Capacity p);
            r = \<lparr>r_ID = env_uuid E (length (runners d)), r_Type = reg_Type p,
                 r_HostnameOrPod = reg_HostnameOrPod p, r_Status = RunnerOnline,
                 r_Capacity = cap, r_Labels = reg_Labels p, r_LastHeartbeatAt = env_now E,
                 r_CreatedAt = env_now E, r_UpdatedAt = env_now E\<rparr> in
        bind_sum (wrap ''register runner'' (exec E ''register runner''
          (d\<lparr>runners := runners d @ [r]\<rparr>))) (\<lambda>d'.
        Inr (r, d')))"

definition heartbeat_row :: "env \<Rightarrow> Runner \<Rightarrow> Runner" where
  "heartbeat_row E r = r\<lparr>r_LastHeartbeatAt := env_now E, r_Status := RunnerOnline,
                          r_UpdatedAt := env_now E\<rparr>"

text \<open>An update of runners that reports \<open>ErrRunnerNotFound\<close> when no row matched.\<close>

definition update_runners ::
  "env \<Rightarrow> string \<Rightarrow> (Runner \<Rightarrow> bool) \<Rightarrow> (Runner \<Rightarrow> Runner) \<Rightarrow> db \<Rightarrow> err + db" where
  "update_runners E label p f d =
     bind_sum (wrap label (exec E label (d\<lparr>runners := update_where p f (runners d)\<rparr>))) (\<lambda>d'.
       if filter p (runners d) = [] then Inl (Sentinel ErrRunnerNotFound) else Inr d')"

definition Heartbeat :: "env \<Rightarrow> string \<Rightarrow> db \<Rightarrow> err + db" where
  "Heartbeat E rid d =
     update_runners E ''heartbeat'' (\<lambda>r. r_ID r = pg_uuid rid \<and> r_Status r \<noteq> RunnerOffline)
       (heartbeat_row E) d"

definition MarkOffline :: "env \<Rightarrow> string \<Rightarrow> db \<Rightarrow> err + db" where
  "MarkOffline E rid d =
     update_runners E ''mark offline'' (\<lambda>r. r_ID r = pg_uuid rid)
       (\<lambda>r. r\<lparr>r_Status := RunnerOffline, r_UpdatedAt := env_now E\<rparr>) d"

definition silent :: "env \<Rightarrow> time \<Rightarrow> Runner \<Rightarrow> bool" where
  "silent E threshold r \<longleftrightarrow>
     r_Status r = RunnerOnline \<and> r_LastHeartbeatAt r < env_now E - threshold"

definition MarkLost :: "env \<Rightarrow> time \<Rightarrow> db \<Rightarrow> err + (Runner list \<times> db)" where
  "MarkLost E threshold d =
     (let f = (\<lambda>r. r\<lparr>r_Status := RunnerLost, r_UpdatedAt := env_now E\<rparr>) in
      bind_sum (wrap ''mark lost'' (exec E ''mark lost''
        (d\<lparr>runners := update_where (silent E threshold) f (runners d)\<rparr>))) (\<lambda>d'.
      Inr (map f (filter (silent E threshold) (runners d)), d')))"

definition LeasedAttemptIDs :: "env \<Rightarrow> string \<Rightarrow> db \<Rightarrow> err + string list" where
  "LeasedAttemptIDs E rid d =
     bind_sum (wrap ''leased attempts'' (driver E ''leased attempts'')) (\<lambda>_.
       Inr (map a_ID (filter (\<lambda>a. a_LeaseOwner a = Some (pg_uuid rid) \<and> a_Status a = AttemptActive)
              (attempts d))))"

section \<open>Claiming\<close>

record Claim =
  k_AttemptID :: string
  k_AttemptNumber :: int
  k_TaskID :: string
  k_TaskStatus :: status
  k_Title :: string
  k_Instructions :: string
  k_TaskCreatedAt :: time
  k_LeaseExpiresAt :: time

definition claimableStatuses :: "status list" where
  "claimableStatuses = [StatusQueued, StatusProvisioning, StatusPlanning,
     StatusExecuting, StatusValidating, StatusPublishing]"

definition claimable :: "Task \<Rightarrow> bool" where
  "claimable t \<longleftrightarrow>
     t_Status t \<in> set claimableStatuses
     \<or> (t_Status t = StatusAwaitingReview \<and> t_RepositoryID t = None)"

definition lease_free :: "time \<Rightarrow> Attempt \<Rightarrow> bool" where
  "lease_free now a =
     (case a_LeaseExpiresAt a of None \<Rightarrow> True | Some t \<Rightarrow> t < now)"

definition dispatchable_rows :: "time \<Rightarrow> db \<Rightarrow> (Attempt \<times> Task) list" where
  "dispatchable_rows now d =
     [(a, t). a \<leftarrow> attempts d, t \<leftarrow> tasks d,
        t_ID t = a_TaskID a \<and> a_Status a = AttemptActive \<and> lease_free now a \<and> claimable t]"

text \<open>\<open>ORDER BY t.priority DESC, t.created_at\<close>.\<close>

definition dispatch_order :: "(Attempt \<times> Task) list \<Rightarrow> (Attempt \<times> Task) list" where
  "dispatch_order = sort_key (\<lambda>(a, t). (- t_Priority t, t_CreatedAt t))"

definition lease_row :: "env \<Rightarrow> string \<Rightarrow> time \<Rightarrow> Attempt \<Rightarrow> Attempt" where
  "lease_row E rid dur a =
     a\<lparr>a_RunnerID := Some (pg_uuid rid), a_LeaseOwner := Some (pg_uuid rid),
       a_LeaseExpiresAt := Some (env_now E + dur), a_HeartbeatAt := Some (env_now E)\<rparr>"

definition claim_of :: "Attempt \<Rightarrow> Task \<Rightarrow> time \<Rightarrow> Claim" where
  "claim_of a t expires =
     \<lparr>k_AttemptID = a_ID a, k_AttemptNumber = a_Number a, k_TaskID = t_ID t,
      k_TaskStatus = t_Status t, k_Title = t_Title t,
      k_Instructions = (case a_Instructions a of Some s \<Rightarrow> s | None \<Rightarrow> t_Instructions t),
      k_TaskCreatedAt = t_CreatedAt t, k_LeaseExpiresAt = expires\<rparr>"

text \<open>\<open>claim\<close>; an empty attempt id claims the first row, another id that row only.\<close>

definition claim ::
  "env \<Rightarrow> (string \<Rightarrow> bool) \<Rightarrow> string \<Rightarrow> time \<Rightarrow> string \<Rightarrow> db \<Rightarrow> err + (Claim option \<times> db)" where
  "claim E locked rid dur aid d =
     bind_sum (begin_tx E) (\<lambda>_.
     bind_sum (wrap ''select claimable'' (driver E ''select claimable'')) (\<lambda>_.
     case dispatch_order (filter (\<lambda>(a, t). (aid = [] \<or> a_ID a = pg_uuid aid) \<and> \<not> locked (a_ID a))
            (dispatchable_rows (env_now E) d)) of
       [] \<Rightarrow> Inr (None, d)
     | (a, t) # _ \<Rightarrow>
         bind_sum (wrap ''write lease'' (exec E ''write lease''
           (update_attempt (a_ID a) (lease_row E rid dur) d))) (\<lambda>d'.
         bind_sum (commit_tx E) (\<lambda>_.
         Inr (Some (claim_of a t (env_now E + dur)), d')))))"

definition ClaimNext ::
  "env \<Rightarrow> (string \<Rightarrow> bool) \<Rightarrow> string \<Rightarrow> time \<Rightarrow> db \<Rightarrow> err + (Claim option \<times> db)" where
  "ClaimNext E locked rid dur d = claim E locked rid dur [] d"

definition ClaimAttempt ::
  "env \<Rightarrow> (string \<Rightarrow> bool) \<Rightarrow> string \<Rightarrow> string \<Rightarrow> time \<Rightarrow> db \<Rightarrow> err + (Claim option \<times> db)" where
  "ClaimAttempt E locked rid aid dur d =
     (if \<not> IsUUID aid then Inr (None, d) else claim E locked rid dur aid d)"

record DispatchAttempt =
  da_AttemptID :: string
  da_TaskID :: string
  da_MaxRuntime :: int

text \<open>\<open>int(d.Seconds())\<close>.\<close>

definition whole_seconds :: "time \<Rightarrow> int" where
  "whole_seconds d = sgn d * (\<bar>d\<bar> div second)"

definition DispatchableAttempts ::
  "env \<Rightarrow> time \<Rightarrow> int \<Rightarrow> db \<Rightarrow> err + DispatchAttempt list" where
  "DispatchableAttempts E defaultRuntime limit0 d =
     (let limit = (if limit0 \<le> 0 then 100 else limit0) in
      bind_sum (wrap ''list dispatchable attempts'' (driver E ''list dispatchable attempts'')) (\<lambda>_.
      Inr (map (\<lambda>(a, t). \<lparr>da_AttemptID = a_ID a, da_TaskID = t_ID t,
                          da_MaxRuntime = (case t_MaxRuntimeSeconds t of
                             Some s \<Rightarrow> s | None \<Rightarrow> whole_seconds defaultRuntime) * second\<rparr>)
             (take (nat limit) (dispatch_order (dispatchable_rows (env_now E) d))))))"

section \<open>Recording, extending and releasing\<close>

definition record_attempt ::
  "env \<Rightarrow> string \<Rightarrow> string \<Rightarrow> (Attempt \<Rightarrow> Attempt) \<Rightarrow> db \<Rightarrow> err + db" where
  "record_attempt E label aid f d = wrap label (exec E label (update_attempt (pg_uuid aid) f d))"

definition RecordAttemptBase :: "env \<Rightarrow> string \<Rightarrow> string \<Rightarrow> db \<Rightarrow> err + db" where
  "RecordAttemptBase E aid sha =
     record_attempt E ''record attempt base'' aid
       (\<lambda>a. a\<lparr>a_BaseCommitSHA := coalesce (a_BaseCommitSHA a) sha\<rparr>)"

definition RecordFinalCommit :: "env \<Rightarrow> string \<Rightarrow> string \<Rightarrow> db \<Rightarrow> err + db" where
  "RecordFinalCommit E aid sha =
     record_attempt E ''record final commit'' aid
       (\<lambda>a. a\<lparr>a_FinalCommitSHA := coalesce (a_FinalCommitSHA a) sha\<rparr>)"

definition RecordPullRequest :: "env \<Rightarrow> string \<Rightarrow> int \<Rightarrow> db \<Rightarrow> err + db" where
  "RecordPullRequest E aid n =
     record_attempt E ''record pull request'' aid
       (\<lambda>a. a\<lparr>a_PullRequestNumber := coalesce (a_PullRequestNumber a) n\<rparr>)"

definition AttemptStartedAt :: "env \<Rightarrow> string \<Rightarrow> db \<Rightarrow> err + time option" where
  "AttemptStartedAt E aid d =
     bind_sum (wrap ''attempt started_at'' (driver E ''attempt started_at'')) (\<lambda>_.
       Inr (case find (\<lambda>a. a_ID a = pg_uuid aid) (attempts d) of
              None \<Rightarrow> None | Some a \<Rightarrow> a_StartedAt a))"

text \<open>The lease a runner holds: its owner, and not expired.\<close>

definition holds_lease :: "time \<Rightarrow> string \<Rightarrow> Attempt \<Rightarrow> bool" where
  "holds_lease now rid a \<longleftrightarrow>
     a_LeaseOwner a = Some rid
     \<and> (case a_LeaseExpiresAt a of None \<Rightarrow> False | Some t \<Rightarrow> now < t)"

definition extend_row :: "env \<Rightarrow> time \<Rightarrow> Attempt \<Rightarrow> Attempt" where
  "extend_row E dur a =
     a\<lparr>a_LeaseExpiresAt := Some (env_now E + dur), a_HeartbeatAt := Some (env_now E)\<rparr>"

text \<open>An update of the attempts a runner still owns, which reports \<open>ErrLeaseLost\<close> for none.\<close>

definition update_leased ::
  "env \<Rightarrow> string \<Rightarrow> (Attempt \<Rightarrow> bool) \<Rightarrow> (Attempt \<Rightarrow> Attempt) \<Rightarrow> db \<Rightarrow> err + db" where
  "update_leased E label p f d =
     bind_sum (wrap label (exec E label (d\<lparr>attempts := update_where p f (attempts d)\<rparr>))) (\<lambda>d'.
       if filter p (attempts d) = [] then Inl (Sentinel ErrLeaseLost) else Inr d')"

definition ExtendLease :: "env \<Rightarrow> string \<Rightarrow> string \<Rightarrow> time \<Rightarrow> db \<Rightarrow> err + db" where
  "ExtendLease E aid rid dur =
     update_leased E ''extend lease''
       (\<lambda>a. a_ID a = pg_uuid aid \<and> holds_lease (env_now E) (pg_uuid rid) a) (extend_row E dur)"

definition release_row :: "Attempt \<Rightarrow> Attempt" where
  "release_row a = a\<lparr>a_LeaseOwner := None, a_LeaseExpiresAt := None\<rparr>"

definition ReleaseLease :: "env \<Rightarrow> string \<Rightarrow> string \<Rightarrow> db \<Rightarrow> err + db" where
  "ReleaseLease E aid rid =
     update_leased E ''release lease''
       (\<lambda>a. a_ID a = pg_uuid aid \<and> a_LeaseOwner a = Some (pg_uuid rid)) release_row"

section \<open>Runner operations keep the task invariant\<close>

text \<open>
  They write lease and result columns and the runners table only, which the invariant of the
  task tables does not read.
\<close>

lemma update_attempts_inv:
  assumes "db_inv d" and "schema_ok (d\<lparr>attempts := update_where p f (attempts d)\<rparr>)"
    and "\<And>a. attempt_core (f a) = attempt_core a"
  shows "db_inv (d\<lparr>attempts := update_where p f (attempts d)\<rparr>)"
  by (rule db_inv_frame [OF assms(1,2)]) (simp_all add: map_update_where assms(3))

lemma update_runners_table_inv:
  assumes "db_inv d" and "schema_ok (d\<lparr>runners := rs\<rparr>)"
  shows "db_inv (d\<lparr>runners := rs\<rparr>)"
  by (rule db_inv_frame [OF assms]) simp_all

lemma row_cores [simp]:
  "attempt_core (lease_row E rid dur a) = attempt_core a"
  "attempt_core (extend_row E dur a) = attempt_core a"
  "attempt_core (release_row a) = attempt_core a"
  by (simp_all add: attempt_core_def lease_row_def extend_row_def release_row_def)

lemma update_leased_Inr:
  "update_leased E l p f d = Inr d' \<longleftrightarrow>
     env_fault E l = None \<and> (\<exists>a\<in>set (attempts d). p a)
     \<and> d' = d\<lparr>attempts := update_where p f (attempts d)\<rparr> \<and> schema_ok d'"
  by (auto simp: update_leased_def bind_sum_Inr_iff exec_Inr filter_empty_conv)

lemma ExtendLease_inv: "db_inv d \<Longrightarrow> ExtendLease E aid rid dur d = Inr d' \<Longrightarrow> db_inv d'"
  by (auto simp: ExtendLease_def update_leased_Inr intro!: update_attempts_inv)

lemma ReleaseLease_inv: "db_inv d \<Longrightarrow> ReleaseLease E aid rid d = Inr d' \<Longrightarrow> db_inv d'"
  by (auto simp: ReleaseLease_def update_leased_Inr intro!: update_attempts_inv)

lemma record_attempt_inv:
  assumes "db_inv d" and "record_attempt E l aid f d = Inr d'"
    and "\<And>a. attempt_core (f a) = attempt_core a"
  shows "db_inv d'"
  using assms
  by (auto simp: record_attempt_def exec_Inr update_attempt_def intro!: update_attempts_inv)

text \<open>What a claim that found a row did.\<close>

lemma claim_InrE:
  assumes "claim E locked rid dur aid d = Inr (Some c, d')"
  obtains a t where "(a, t) \<in> set (dispatchable_rows (env_now E) d)"
    and "\<not> locked (a_ID a)" and "aid = [] \<or> a_ID a = pg_uuid aid"
    and "c = claim_of a t (env_now E + dur)"
    and "d' = update_attempt (a_ID a) (lease_row E rid dur) d" and "schema_ok d'"
    and "\<And>b s. (b, s) \<in> set (dispatchable_rows (env_now E) d) \<Longrightarrow> \<not> locked (a_ID b) \<Longrightarrow>
           aid = [] \<or> a_ID b = pg_uuid aid \<Longrightarrow>
           (- t_Priority t, t_CreatedAt t) \<le> (- t_Priority s, t_CreatedAt s)"
proof -
  let ?sel = "filter (\<lambda>(a, t). (aid = [] \<or> a_ID a = pg_uuid aid) \<and> \<not> locked (a_ID a))
                (dispatchable_rows (env_now E) d)"
  let ?key = "\<lambda>(a, t). (- t_Priority t, t_CreatedAt t)"
  from assms obtain a t rest where rows: "dispatch_order ?sel = (a, t) # rest"
    and c: "c = claim_of a t (env_now E + dur)"
    and d': "d' = update_attempt (a_ID a) (lease_row E rid dur) d" "schema_ok d'"
    by (auto simp: claim_def bind_sum_Inr_iff exec_Inr split: list.splits)
  have mem: "set ?sel = set ((a, t) # rest)"
    unfolding rows [symmetric] by (simp only: dispatch_order_def set_sort)
  have "sorted (map ?key ((a, t) # rest))"
    using rows sorted_sort_key [of ?key ?sel] by (simp only: dispatch_order_def)
  then have tail: "\<forall>y\<in>set (map ?key rest). ?key (a, t) \<le> y"
    unfolding list.map sorted_simps(2) by (rule conjunct1)
  have least: "?key (a, t) \<le> ?key x" if "x \<in> set ((a, t) # rest)" for x
  proof (cases "x = (a, t)")
    case False
    with that have "x \<in> set rest" by simp
    then show ?thesis using tail unfolding set_map by blast
  qed simp
  have "(a, t) \<in> set ?sel" unfolding mem by simp
  moreover have "?key (a, t) \<le> ?key (b, s)" if "(b, s) \<in> set ?sel" for b s
    using least [of "(b, s)"] that unfolding mem by blast
  ultimately show thesis
    using c d' by (intro that [of a t]) simp_all
qed

lemma claim_inv:
  assumes "db_inv d" and "claim E locked rid dur aid d = Inr (r, d')"
  shows "db_inv d'"
proof (cases r)
  case None
  then have "d' = d" using assms(2)
    by (auto simp: claim_def bind_sum_Inr_iff split: list.splits)
  then show ?thesis using assms(1) by simp
next
  case (Some c)
  with assms(2) show ?thesis
    by (auto elim!: claim_InrE simp: update_attempt_def intro!: update_attempts_inv assms(1))
qed

end
