(* ===== verification/History.thy ===== *)
theory History
  imports RunnerStore
begin

text \<open>
  What an operation may do to the rows that exist: no row is ever deleted, the columns written at
  creation never change, an event is never changed at all, a task row changes only with its
  version, a terminal task and an ended attempt stay as they ended, and the columns the code fills
  with \<open>COALESCE\<close> are written once. The order is transitive, so it holds along every run.
\<close>

section \<open>The order on rows\<close>

definition keeps :: "'a option \<Rightarrow> 'a option \<Rightarrow> bool" where
  "keeps c c' \<longleftrightarrow> c = None \<or> c' = c"

lemma keeps_simps [simp]: "keeps c c" "keeps None c" "keeps (Some x) c \<longleftrightarrow> c = Some x"
  "keeps c (coalesce c x)"
  by (cases c, auto simp: keeps_def)+

lemma keeps_trans: "keeps a b \<Longrightarrow> keeps b c \<Longrightarrow> keeps a c"
  by (auto simp: keeps_def)

definition task_origin :: "Task \<Rightarrow> string \<times> string option \<times> string option \<times> string \<times> int option
    \<times> int option \<times> string \<times> string \<times> int \<times> string \<times> int option \<times> time" where
  "task_origin t = (t_ID t, t_OrganizationID t, t_RepositoryID t, t_SourceType t,
     t_SourceIssueNumber t, t_SourceCommentID t, t_Title t, t_Instructions t, t_Priority t,
     t_BaseBranch t, t_MaxRuntimeSeconds t, t_CreatedAt t)"

definition task_le :: "Task \<Rightarrow> Task \<Rightarrow> bool" where
  "task_le s t \<longleftrightarrow>
     task_origin s = task_origin t
     \<and> t_Version s \<le> t_Version t \<and> (t_Version s = t_Version t \<longrightarrow> t = s)
     \<and> (Terminal (t_Status s) \<longrightarrow> t_Status t = t_Status s \<and> t_CompletedAt t = t_CompletedAt s)
     \<and> keeps (t_BaseCommitSHA s) (t_BaseCommitSHA t)
     \<and> keeps (t_WorkingBranch s) (t_WorkingBranch t)
     \<and> keeps (t_StartedAt s) (t_StartedAt t)
     \<and> keeps (t_CancelRequestedAt s) (t_CancelRequestedAt t)"

definition attempt_origin :: "Attempt \<Rightarrow> string \<times> string \<times> int \<times> string option \<times> string option
    \<times> int option \<times> FeedbackItem list \<times> time" where
  "attempt_origin a = (a_ID a, a_TaskID a, a_Number a, a_Instructions a, a_RequestedByLogin a,
     a_TriggerCommentID a, a_Feedback a, a_CreatedAt a)"

definition attempt_le :: "Attempt \<Rightarrow> Attempt \<Rightarrow> bool" where
  "attempt_le a b \<longleftrightarrow>
     attempt_origin a = attempt_origin b
     \<and> (a_Status a \<noteq> AttemptActive \<longrightarrow> a_Status b = a_Status a
          \<and> a_CompletedAt b = a_CompletedAt a \<and> a_FailureCode b = a_FailureCode a
          \<and> a_FailureMessage b = a_FailureMessage a)
     \<and> keeps (a_BaseCommitSHA a) (a_BaseCommitSHA b)
     \<and> keeps (a_FinalCommitSHA a) (a_FinalCommitSHA b)
     \<and> keeps (a_PullRequestNumber a) (a_PullRequestNumber b)
     \<and> keeps (a_TriggerCheckRunID a) (a_TriggerCheckRunID b)
     \<and> keeps (a_TriggerCheckRunCompletedAt a) (a_TriggerCheckRunCompletedAt b)
     \<and> keeps (a_StartedAt a) (a_StartedAt b)"

definition runner_le :: "Runner \<Rightarrow> Runner \<Rightarrow> bool" where
  "runner_le r s \<longleftrightarrow> r_ID s = r_ID r \<and> r_Type s = r_Type r \<and> r_HostnameOrPod s = r_HostnameOrPod r
     \<and> r_Capacity s = r_Capacity r \<and> r_Labels s = r_Labels r \<and> r_CreatedAt s = r_CreatedAt r"

definition repository_le :: "RepositoryRow \<Rightarrow> RepositoryRow \<Rightarrow> bool" where
  "repository_le r s \<longleftrightarrow> g_ID s = g_ID r \<and> g_GitHubRepositoryID s = g_GitHubRepositoryID r"

definition delivery_le :: "DeliveryRow \<Rightarrow> DeliveryRow \<Rightarrow> bool" where
  "delivery_le a b \<longleftrightarrow> d_DeliveryID b = d_DeliveryID a \<and> d_EventType b = d_EventType a
     \<and> d_Action b = d_Action a \<and> d_InstallationID b = d_InstallationID a
     \<and> d_RepositoryID b = d_RepositoryID a \<and> d_ReceivedAt b = d_ReceivedAt a"

definition db_le :: "db \<Rightarrow> db \<Rightarrow> bool" where
  "db_le d d' \<longleftrightarrow> table_le task_le (tasks d) (tasks d')
     \<and> table_le attempt_le (attempts d) (attempts d')
     \<and> table_le (=) (events d) (events d')
     \<and> table_le runner_le (runners d) (runners d')
     \<and> table_le repository_le (repositories d) (repositories d')
     \<and> table_le delivery_le (deliveries d) (deliveries d')"

lemma task_le_refl [simp]: "task_le t t"
  by (simp add: task_le_def)

lemma attempt_le_refl [simp]: "attempt_le a a"
  by (simp add: attempt_le_def)

lemma runner_le_refl [simp]: "runner_le r r"
  by (simp add: runner_le_def)

lemma github_le_refl [simp]: "repository_le g g" "delivery_le v v"
  by (simp_all add: repository_le_def delivery_le_def)

lemma github_le_trans:
  "repository_le a b \<Longrightarrow> repository_le b c \<Longrightarrow> repository_le a c"
  "delivery_le u v \<Longrightarrow> delivery_le v w \<Longrightarrow> delivery_le u w"
  by (simp_all add: repository_le_def delivery_le_def)

lemma task_le_trans:
  assumes "task_le s t" and "task_le t u"
  shows "task_le s u"
proof -
  have "t_Version s = t_Version u \<longrightarrow> u = s"
  proof
    assume "t_Version s = t_Version u"
    with assms have "t_Version t = t_Version s" "t_Version u = t_Version t"
      by (simp_all add: task_le_def)
    with assms have "t = s" "u = t" unfolding task_le_def by metis+
    then show "u = s" by simp
  qed
  with assms show ?thesis
    unfolding task_le_def by (auto intro: keeps_trans)
qed

lemma attempt_le_trans: "attempt_le a b \<Longrightarrow> attempt_le b c \<Longrightarrow> attempt_le a c"
  unfolding attempt_le_def by (auto intro: keeps_trans)

lemma runner_le_trans: "runner_le a b \<Longrightarrow> runner_le b c \<Longrightarrow> runner_le a c"
  by (simp add: runner_le_def)

lemma db_le_refl [simp]: "db_le d d"
  by (simp add: db_le_def table_le_refl)

lemma db_le_trans:
  assumes "db_le d e" and "db_le e f"
  shows "db_le d f"
proof -
  have "table_le task_le (tasks d) (tasks e)" and "table_le task_le (tasks e) (tasks f)"
    and "table_le attempt_le (attempts d) (attempts e)"
    and "table_le attempt_le (attempts e) (attempts f)"
    and "table_le (=) (events d) (events e)" and "table_le (=) (events e) (events f)"
    and "table_le runner_le (runners d) (runners e)"
    and "table_le runner_le (runners e) (runners f)"
    and "table_le repository_le (repositories d) (repositories e)"
    and "table_le repository_le (repositories e) (repositories f)"
    and "table_le delivery_le (deliveries d) (deliveries e)"
    and "table_le delivery_le (deliveries e) (deliveries f)"
    using assms unfolding db_le_def by blast+
  note le = this
  have "table_le task_le (tasks d) (tasks f)"
    by (rule table_le_trans [OF le(1,2)]) (rule task_le_trans)
  moreover have "table_le attempt_le (attempts d) (attempts f)"
    by (rule table_le_trans [OF le(3,4)]) (rule attempt_le_trans)
  moreover have "table_le (=) (events d) (events f)"
    by (rule table_le_trans [OF le(5,6)]) (rule trans)
  moreover have "table_le runner_le (runners d) (runners f)"
    by (rule table_le_trans [OF le(7,8)]) (rule runner_le_trans)
  moreover have "table_le repository_le (repositories d) (repositories f)"
    by (rule table_le_trans [OF le(9,10)]) (rule github_le_trans)
  moreover have "table_le delivery_le (deliveries d) (deliveries f)"
    by (rule table_le_trans [OF le(11,12)]) (rule github_le_trans)
  ultimately show ?thesis unfolding db_le_def by blast
qed

lemma db_le_attempts:
  assumes "\<And>a. a \<in> set (attempts d) \<Longrightarrow> p a \<Longrightarrow> attempt_le a (f a)"
  shows "db_le d (d\<lparr>attempts := update_where p f (attempts d)\<rparr>)"
  using table_le_update [of attempt_le "attempts d" p f "[]"] assms
  by (simp add: db_le_def table_le_refl)

lemma db_le_runners:
  assumes "\<And>r. runner_le r (f r)"
  shows "db_le d (d\<lparr>runners := update_where p f (runners d)\<rparr>)"
  using table_le_update [of runner_le "runners d" p f "[]"] assms
  by (simp add: db_le_def table_le_refl)

lemma db_leD:
  assumes "db_le d d'"
  shows "t \<in> set (tasks d) \<Longrightarrow> \<exists>t'\<in>set (tasks d'). task_le t t'"
    and "a \<in> set (attempts d) \<Longrightarrow> \<exists>a'\<in>set (attempts d'). attempt_le a a'"
    and "\<exists>es. events d' = events d @ es"
proof -
  have tabs: "table_le task_le (tasks d) (tasks d')"
    "table_le attempt_le (attempts d) (attempts d')" "table_le (=) (events d) (events d')"
    using assms unfolding db_le_def by blast+
  show "\<exists>t'\<in>set (tasks d'). task_le t t'" if "t \<in> set (tasks d)"
    using tabs(1) that by (rule table_le_member)
  show "\<exists>a'\<in>set (attempts d'). attempt_le a a'" if "a \<in> set (attempts d)"
    using tabs(2) that by (rule table_le_member)
  from tabs(3) obtain us vs where "events d' = us @ vs" and "list_all2 (=) (events d) us"
    by (rule table_leE)
  then show "\<exists>es. events d' = events d @ es" by (simp add: list.rel_eq)
qed

section \<open>Operations respect the order\<close>

lemma transition_row_le:
  assumes "\<not> Terminal (t_Status t)"
  shows "task_le t (transition_row E p t)"
  using assms by (simp add: task_le_def task_origin_def transition_row_def)

lemma attempt_ops_le:
  assumes "a_Status a = AttemptActive"
  shows "attempt_le a (finish_attempt E p a)" and "attempt_le a (supersede_attempt E a)"
    and "attempt_le a (attempt_effect E p a)"
  using assms by (simp_all add: attempt_le_def attempt_origin_def finish_attempt_def
      supersede_attempt_def attempt_effect_def start_attempt_def)

lemma applyTransition_le:
  assumes inv: "db_inv d" and cur: "cur \<in> set (tasks d)"
    and app: "applyTransition E cur p d = Inr (next, d')"
  shows "db_le d d'"
  using app
proof (cases rule: applyTransition_InrE)
  case replay
  then show ?thesis by simp
next
  case (step att as' aid t0)
  note ok = db_invD(1) [OF inv]
  have "\<not> Terminal (t_Status cur)" using step(3) by (rule CanTransition_not_Terminal)
  then have T: "task_le t (transition_row E p t)" if "t \<in> set (tasks d)" "t_ID t = t_ID cur" for t
    using task_eq_by_ID [OF ok that(1) cur that(2)] transition_row_le by simp
  have act: "a_Status a = AttemptActive" if "a \<in> set (attempts d)" "a_ID a = a_ID att" for a
    using attempt_eq_by_ID [OF ok that(1) _ that(2)] active_attempt_Some [OF step(4)] by simp
  have A: "table_le attempt_le (attempts d) as'"
  proof (cases "requeues cur p")
    case True
    with step(9) obtain new where
      "as' = update_where (\<lambda>a. a_ID a = a_ID att) (supersede_attempt E) (attempts d) @ [new]"
      by auto
    then show ?thesis by (auto intro!: table_le_update attempt_ops_le act)
  next
    case False
    with step(9) have
      "as' = update_where (\<lambda>a. a_ID a = a_ID att) (attempt_effect E p) (attempts d) @ []" by simp
    then show ?thesis
      by (simp only:) (rule table_le_update, auto intro: attempt_ops_le act)
  qed
  have "table_le task_le (tasks d)
      (update_where (\<lambda>t. t_ID t = t_ID cur) (transition_row E p) (tasks d) @ [])"
    by (rule table_le_update) (auto intro: T)
  with A show ?thesis
    unfolding step(7) by (simp add: db_le_def step_db_def table_le_append table_le_refl)
qed

lemma Transition_le: "db_inv d \<Longrightarrow> Transition E tid p d = Inr (next, d') \<Longrightarrow> db_le d d'"
  by (auto elim!: Transition_InrE intro: applyTransition_le dest: find_task_Some)

lemma Cancel_le: "db_inv d \<Longrightarrow> Cancel E tid reason d = Inr (next, d') \<Longrightarrow> db_le d d'"
  by (auto elim!: Cancel_InrE intro: applyTransition_le dest: find_task_Some)

lemma RequestRevision_le:
  assumes "db_inv d" and "RequestRevision E tid v d = Inr (queued, att, d')"
  shows "db_le d d'"
  using assms(2)
proof (cases rule: RequestRevision_InrE)
  case (1 cur requested d1)
  have cur: "cur \<in> set (tasks d)" using 1(1) by (simp add: find_task_Some)
  note first = applyTransition_inv [OF assms(1) cur 1(5)]
  show ?thesis
    using applyTransition_le [OF assms(1) cur 1(5)] applyTransition_le [OF first(1,2) 1(7)]
    by (rule db_le_trans)
qed

lemma Create_le:
  assumes "db_inv d" and "Create E p0 d = Inr (queued, d')"
  shows "db_le d d'"
  using assms(2)
proof (cases rule: Create_InrE)
  case (1 t att d3)
  have "db_inv d3"
    by (rule created_inv [OF assms(1) 1(4) _ _ _ _ 1(3)]) (simp_all add: 1(1,2))
  moreover have "t \<in> set (tasks d3)" by (simp add: 1(3))
  ultimately have "db_le d3 d'" using 1(5) by (rule applyTransition_le)
  moreover have "db_le d d3" by (simp add: 1(3) db_le_def table_le_append table_le_refl)
  ultimately show ?thesis by (blast intro: db_le_trans)
qed

lemma insertEvent_le: "insertEvent E aid ty src pl key d = Inr d' \<Longrightarrow> db_le d d'"
  by (auto simp: insertEvent_Inr db_le_def table_le_append table_le_refl)

lemma AppendAttemptEvent_le: "AppendAttemptEvent E aid ty src pl d = Inr d' \<Longrightarrow> db_le d d'"
  by (auto elim!: AppendAttemptEvent_InrE intro: insertEvent_le)

lemma AppendEvent_le: "AppendEvent E tid ty src pl d = Inr d' \<Longrightarrow> db_le d d'"
  by (auto elim!: AppendEvent_InrE intro: insertEvent_le)

lemma EnsureGitContext_le:
  assumes "EnsureGitContext E tid base branch d = Inr (b, br, d')"
  shows "db_le d d'"
proof -
  from assms obtain t where "update_task E ''ensure git context'' (pg_uuid tid)
      (git_context_row E base branch) d = Inr (t, d')"
    by (auto simp: EnsureGitContext_def split: if_splits sum.splits)
  then have d': "d' = d\<lparr>tasks := update_where (\<lambda>t. t_ID t = pg_uuid tid)
      (git_context_row E base branch) (tasks d)\<rparr>"
    by (rule update_task_Inr(1)) (simp add: git_context_row_def)
  have "table_le task_le (tasks d) (update_where (\<lambda>t. t_ID t = pg_uuid tid)
      (git_context_row E base branch) (tasks d) @ [])"
    by (rule table_le_update) (simp_all add: task_le_def task_origin_def git_context_row_def)
  then show ?thesis by (simp add: d' db_le_def table_le_refl)
qed

lemma attempt_columns_le [simp]:
  "attempt_le a (record_check_run n a)" "attempt_le a (complete_check_run E a)"
  "attempt_le a (lease_row E rid dur a)" "attempt_le a (extend_row E dur a)"
  "attempt_le a (release_row a)"
  by (simp_all add: attempt_le_def attempt_origin_def record_check_run_def complete_check_run_def
      lease_row_def extend_row_def release_row_def)

lemma RecordTriggerCheckRun_le: "RecordTriggerCheckRun E tid n d = Inr d' \<Longrightarrow> db_le d d'"
  by (auto simp: RecordTriggerCheckRun_def Let_def bind_sum_Inr_iff exec_Inr split: if_splits
      intro!: db_le_attempts)

lemma MarkTriggerCheckRunCompleted_le: "MarkTriggerCheckRunCompleted E aid d = Inr d' \<Longrightarrow> db_le d d'"
  by (auto simp: MarkTriggerCheckRunCompleted_def exec_Inr split: if_splits intro!: db_le_attempts)

lemma record_attempt_le:
  assumes "record_attempt E l aid f d = Inr d'" and "\<And>a. attempt_le a (f a)"
  shows "db_le d d'"
  using assms by (auto simp: record_attempt_def exec_Inr update_attempt_def intro!: db_le_attempts)

lemma update_leased_le:
  assumes "update_leased E l p f d = Inr d'" and "\<And>a. attempt_le a (f a)"
  shows "db_le d d'"
  using assms by (auto simp: update_leased_Inr intro!: db_le_attempts)

lemma claim_le:
  assumes "claim E locked rid dur aid d = Inr (r, d')"
  shows "db_le d d'"
proof (cases r)
  case None
  with assms have "d' = d" by (auto simp: claim_def bind_sum_Inr_iff split: list.splits)
  then show ?thesis by simp
next
  case (Some c)
  with assms show ?thesis
    by (auto elim!: claim_InrE simp: update_attempt_def intro!: db_le_attempts)
qed

lemma runner_rows_le [simp]:
  "runner_le r (heartbeat_row E r)" "runner_le r (r\<lparr>r_Status := s, r_UpdatedAt := n\<rparr>)"
  by (simp_all add: runner_le_def heartbeat_row_def)

end
