(* ===== verification/GoJson.thy ===== *)
theory GoJson
  imports Schema GoText
begin

text \<open>
  The decoder of \<open>encoding/json\<close> on a parsed document: the members of an object are assigned
  in order to the field their name matches up to case folding, unknown members are skipped,
  \<open>null\<close> leaves a value alone and clears a pointer or a slice, other types are an error.
\<close>

section \<open>Values\<close>

text \<open>\<open>foldName\<close>: ASCII case, and the two runes that simple folding maps to s and k.\<close>

fun fold_name :: "string \<Rightarrow> string" where
  "fold_name [] = []"
| "fold_name (c # cs) =
     (if c = CHR 0xC5 \<and> cs \<noteq> [] \<and> hd cs = CHR 0xBF then CHR ''s'' # fold_name (tl cs)
      else if c = CHR 0xE2 \<and> take 2 cs = [CHR 0x84, CHR 0xAA] then CHR ''k'' # fold_name (drop 2 cs)
      else (if 65 \<le> byte c \<and> byte c \<le> 90 then char_of (byte c + 32) else c) # fold_name cs)"

definition decode_string :: "json \<Rightarrow> string \<Rightarrow> err + string" where
  "decode_string j old =
     (case j of JStr s \<Rightarrow> Inr s | JNull \<Rightarrow> Inr old
      | _ \<Rightarrow> Inl (Msg ''json: cannot unmarshal into Go struct field of type string''))"

text \<open>A number literal for an \<open>int\<close> must be what \<open>strconv.ParseInt\<close> accepts.\<close>

definition decode_int_ptr :: "json \<Rightarrow> err + int option" where
  "decode_int_ptr j =
     (case j of
        JNum lit \<Rightarrow> (case Atoi lit of
           Some i \<Rightarrow> Inr (Some i)
         | None \<Rightarrow> Inl (Msg ''json: cannot unmarshal number into Go struct field of type int''))
      | JNull \<Rightarrow> Inr None
      | _ \<Rightarrow> Inl (Msg ''json: cannot unmarshal into Go struct field of type int''))"

definition decode_int :: "json \<Rightarrow> int \<Rightarrow> err + int" where
  "decode_int j old =
     bind_sum (decode_int_ptr j) (\<lambda>v. Inr (case v of Some i \<Rightarrow> i | None \<Rightarrow> old))"

definition decode_bool :: "json \<Rightarrow> bool \<Rightarrow> err + bool" where
  "decode_bool j old =
     (case j of JBool b \<Rightarrow> Inr b | JNull \<Rightarrow> Inr old
      | _ \<Rightarrow> Inl (Msg ''json: cannot unmarshal into Go struct field of type bool''))"

fun decode_all :: "(json \<Rightarrow> err + 'a) \<Rightarrow> json list \<Rightarrow> err + 'a list" where
  "decode_all f [] = Inr []"
| "decode_all f (j # js) =
     bind_sum (f j) (\<lambda>x. bind_sum (decode_all f js) (\<lambda>xs. Inr (x # xs)))"

definition decode_slice :: "(json \<Rightarrow> err + 'a) \<Rightarrow> json \<Rightarrow> err + 'a list" where
  "decode_slice f j =
     (case j of JArr js \<Rightarrow> decode_all f js | JNull \<Rightarrow> Inr []
      | _ \<Rightarrow> Inl (Msg ''json: cannot unmarshal into Go struct field of slice type''))"

section \<open>Structs\<close>

text \<open>\<open>f\<close> assigns the member with the folded name it is given.\<close>

fun decode_fields ::
  "(string \<Rightarrow> json \<Rightarrow> 'a \<Rightarrow> err + 'a) \<Rightarrow> (string \<times> json) list \<Rightarrow> 'a \<Rightarrow> err + 'a" where
  "decode_fields f [] x = Inr x"
| "decode_fields f ((k, j) # kvs) x =
     bind_sum (f (fold_name k) j x) (decode_fields f kvs)"

definition decode_struct ::
  "(string \<Rightarrow> json \<Rightarrow> 'a \<Rightarrow> err + 'a) \<Rightarrow> 'a \<Rightarrow> json \<Rightarrow> err + 'a" where
  "decode_struct f zero j =
     (case j of JObj kvs \<Rightarrow> decode_fields f kvs zero
      | JNull \<Rightarrow> Inr zero
      | _ \<Rightarrow> Inl (Msg ''json: cannot unmarshal into Go value of type struct''))"

lemma decode_string_simps [simp]: "decode_string (JStr s) old = Inr s"
  by (simp add: decode_string_def)

lemma decode_bool_simps [simp]: "decode_bool (JBool b) old = Inr b"
  by (simp add: decode_bool_def)

lemma decode_int_ptr_int [simp]:
  "- (2 ^ 63) \<le> i \<Longrightarrow> i < 2 ^ 63 \<Longrightarrow> decode_int_ptr (JInt i) = Inr (Some i)"
  by (simp add: decode_int_ptr_def Atoi_int_string_signed)

lemma decode_int_int [simp]: "- (2 ^ 63) \<le> i \<Longrightarrow> i < 2 ^ 63 \<Longrightarrow> decode_int (JInt i) old = Inr i"
  by (simp add: decode_int_def)

lemma decode_all_map:
  "(\<And>x. x \<in> set xs \<Longrightarrow> f (g x) = Inr x) \<Longrightarrow> decode_all f (map g xs) = Inr xs"
  by (induction xs) auto

lemma decode_slice_map:
  "(\<And>x. x \<in> set xs \<Longrightarrow> f (g x) = Inr x) \<Longrightarrow> decode_slice f (JArr (map g xs)) = Inr xs"
  by (simp add: decode_slice_def decode_all_map)

lemma decode_fields_append:
  "decode_fields f (xs @ ys) x = bind_sum (decode_fields f xs x) (decode_fields f ys)"
  by (induction f xs x rule: decode_fields.induct) (auto simp: bind_sum_def split: sum.splits)

end
