(* ===== verification/Settings.thy ===== *)
theory Settings
  imports GoJson
begin

text \<open>
  \<open>internal/reposettings/settings.go\<close>: the per-repository settings stored as \<open>jsonb\<close>. The
  decoder of \<open>encoding/json\<close> is the one of \<open>GoJson\<close>, for a struct of string and
  \<open>*int\<close> fields.
\<close>

section \<open>Decoding a struct\<close>

record stored_settings =
  st_DefaultPolicy :: string
  st_ValidationFile :: string
  st_MaxAttempts :: "int option"

definition decode_member :: "string \<times> json \<Rightarrow> stored_settings \<Rightarrow> err + stored_settings" where
  "decode_member kv st =
     (let k = fold_name (fst kv); j = snd kv in
      if k = ''default_policy'' then
        bind_sum (decode_string j (st_DefaultPolicy st)) (\<lambda>s. Inr (st\<lparr>st_DefaultPolicy := s\<rparr>))
      else if k = ''validation_file'' then
        bind_sum (decode_string j (st_ValidationFile st)) (\<lambda>s. Inr (st\<lparr>st_ValidationFile := s\<rparr>))
      else if k = ''max_attempts'' then
        bind_sum (decode_int_ptr j) (\<lambda>n. Inr (st\<lparr>st_MaxAttempts := n\<rparr>))
      else Inr st)"

fun decode_members :: "(string \<times> json) list \<Rightarrow> stored_settings \<Rightarrow> err + stored_settings" where
  "decode_members [] st = Inr st"
| "decode_members (kv # kvs) st = bind_sum (decode_member kv st) (decode_members kvs)"

definition no_settings :: stored_settings where
  "no_settings = \<lparr>st_DefaultPolicy = [], st_ValidationFile = [], st_MaxAttempts = None\<rparr>"

definition decode_settings :: "json \<Rightarrow> err + stored_settings" where
  "decode_settings j =
     (case j of
        JObj kvs \<Rightarrow> decode_members kvs no_settings
      | JNull \<Rightarrow> Inr no_settings
      | _ \<Rightarrow> Inl (Msg ''json: cannot unmarshal into Go value of type struct''))"

section \<open>Settings\<close>

record Settings =
  s_DefaultPolicy :: string
  s_ValidationFile :: string
  s_MaxAttempts :: int

definition MinMaxAttempts :: int where
  "MinMaxAttempts = 1"

definition MaxMaxAttempts :: int where
  "MaxMaxAttempts = 20"

definition Defaults :: Settings where
  "Defaults = \<lparr>s_DefaultPolicy = ''platform default'',
     s_ValidationFile = ''.agent-trail/validation.yaml'', s_MaxAttempts = 5\<rparr>"

definition ValidateMaxAttempts :: "int \<Rightarrow> err + unit" where
  "ValidateMaxAttempts n =
     (if n < MinMaxAttempts \<or> MaxMaxAttempts < n then
        Inl (Msg (''max_attempts must be between '' @ int_string MinMaxAttempts @ '' and ''
          @ int_string MaxMaxAttempts))
      else Inr ())"

definition ValidateSettings :: "Settings \<Rightarrow> err + unit" where
  "ValidateSettings s = ValidateMaxAttempts (s_MaxAttempts s)"

text \<open>\<open>Parse\<close>; \<open>None\<close> is the empty column.\<close>

definition ParseSettings :: "json option \<Rightarrow> err + Settings" where
  "ParseSettings raw =
     (case raw of
        None \<Rightarrow> Inr Defaults
      | Some j \<Rightarrow>
          bind_sum (decode_settings j) (\<lambda>stored.
          let s = \<lparr>s_DefaultPolicy = (if st_DefaultPolicy stored \<noteq> [] then st_DefaultPolicy stored
                                       else s_DefaultPolicy Defaults),
                   s_ValidationFile = (if st_ValidationFile stored \<noteq> [] then st_ValidationFile stored
                                       else s_ValidationFile Defaults),
                   s_MaxAttempts = (case st_MaxAttempts stored of Some n \<Rightarrow> n
                                    | None \<Rightarrow> s_MaxAttempts Defaults)\<rparr> in
          bind_sum (ValidateSettings s) (\<lambda>_. Inr s)))"

lemma ParseSettings_bounds:
  assumes "ParseSettings raw = Inr s"
  shows "1 \<le> s_MaxAttempts s" and "s_MaxAttempts s \<le> 20"
    and "s_DefaultPolicy s \<noteq> []" and "s_ValidationFile s \<noteq> []"
  using assms
  by (auto simp: ParseSettings_def ValidateSettings_def ValidateMaxAttempts_def Let_def Defaults_def
      MinMaxAttempts_def MaxMaxAttempts_def bind_sum_Inr_iff split: option.splits if_splits)

definition settings_json :: "Settings \<Rightarrow> json" where
  "settings_json s = JObj [(''default_policy'', JStr (s_DefaultPolicy s)),
     (''validation_file'', JStr (s_ValidationFile s)), (''max_attempts'', JInt (s_MaxAttempts s))]"

text \<open>
  Settings that are within the bounds survive being stored: parsing the document
  \<open>json.Marshal\<close> writes for them gives them back, and whatever \<open>Parse\<close> accepts has a revision
  limit of 1 to 20 attempts and a validation file.
\<close>

theorem settings_roundtrip:
  assumes "1 \<le> s_MaxAttempts s" and "s_MaxAttempts s \<le> 20"
    and "s_DefaultPolicy s \<noteq> []" and "s_ValidationFile s \<noteq> []"
  shows "ParseSettings (Some (settings_json s)) = Inr s
    \<and> (\<forall>raw s'. ParseSettings raw = Inr s' \<longrightarrow>
          1 \<le> s_MaxAttempts s' \<and> s_MaxAttempts s' \<le> 20 \<and> s_ValidationFile s' \<noteq> [])"
proof -
  have folds: "fold_name ''default_policy'' = ''default_policy''"
    "fold_name ''validation_file'' = ''validation_file''"
    "fold_name ''max_attempts'' = ''max_attempts''" by code_simp+
  have "decode_settings (settings_json s) = Inr \<lparr>st_DefaultPolicy = s_DefaultPolicy s,
      st_ValidationFile = s_ValidationFile s, st_MaxAttempts = Some (s_MaxAttempts s)\<rparr>"
    using Atoi_int_string [of "s_MaxAttempts s"] assms(1,2)
    by (simp add: settings_json_def decode_settings_def decode_member_def folds
        decode_string_def decode_int_ptr_def no_settings_def Let_def del: fold_name.simps)
  then have "ParseSettings (Some (settings_json s)) = Inr s"
    using assms by (simp add: ParseSettings_def ValidateSettings_def
        ValidateMaxAttempts_def MinMaxAttempts_def MaxMaxAttempts_def Let_def)
  then show ?thesis using ParseSettings_bounds by blast
qed

theorem settings_roundtrip_witness:
  "ParseSettings (Some (settings_json Defaults)) = Inr Defaults"
  using settings_roundtrip [of Defaults] by (simp add: Defaults_def)

end
