(* ===== verification/GithubStore.thy ===== *)
theory GithubStore
  imports History Settings
begin

text \<open>
  \<open>internal/github/store.go\<close>: webhook deliveries, installations and repositories. An
  \<open>INSERT ... ON CONFLICT (key) DO UPDATE\<close> is an upsert of the table by that key; other unique
  keys and the checks are constraints of the schema as for every write.
\<close>

section \<open>Data\<close>

record StoredRepository =
  sr_ID :: string
  sr_OrganizationID :: string
  sr_GitHubRepositoryID :: int
  sr_Owner :: string
  sr_Name :: string
  sr_FullName :: string
  sr_DefaultBranch :: string
  sr_CloneURL :: string
  sr_IsEnabled :: bool
  sr_Settings :: Settings

record RepositoryContext = StoredRepository +
  rc_InstallationID :: int

record InstallationParams =
  ip_GitHubInstallationID :: int
  ip_AccountID :: int
  ip_AccountLogin :: string
  ip_AccountType :: string
  ip_Permissions :: "(string \<times> string) list option"
  ip_Events :: "string list option"

text \<open>A repository as the GitHub API lists it (\<open>client.go\<close>).\<close>

record Repository =
  gr_ID :: int
  gr_Name :: string
  gr_FullName :: string
  gr_DefaultBranch :: string
  gr_CloneURL :: string
  gr_Private :: bool
  gr_OwnerLogin :: string

definition nullif_zero :: "int \<Rightarrow> int option" where
  "nullif_zero n = (if n = 0 then None else Some n)"

definition defaultIfEmpty :: "string \<Rightarrow> string \<Rightarrow> string" where
  "defaultIfEmpty s fallback = (if s = [] then fallback else s)"

text \<open>\<open>truncate\<close> cuts bytes, wherever that falls.\<close>

definition truncate :: "string \<Rightarrow> nat \<Rightarrow> string" where
  "truncate s n = (if length s \<le> n then s else take n s)"

section \<open>Upserts\<close>

definition upsert :: "('r \<Rightarrow> bool) \<Rightarrow> ('r \<Rightarrow> 'r) \<Rightarrow> 'r \<Rightarrow> 'r list \<Rightarrow> 'r list" where
  "upsert p f new rs = (if list_ex p rs then update_where p f rs else rs @ [new])"

section \<open>Deliveries\<close>

definition new_delivery :: "env \<Rightarrow> string \<Rightarrow> string \<Rightarrow> string \<Rightarrow> int \<Rightarrow> int \<Rightarrow> DeliveryRow" where
  "new_delivery E deliveryID eventType action inst repo =
     \<lparr>d_DeliveryID = deliveryID, d_EventType = eventType, d_Action = nullif_empty action,
      d_InstallationID = nullif_zero inst, d_RepositoryID = nullif_zero repo,
      d_ProcessingStatus = ''pending'', d_ReceivedAt = env_now E, d_ProcessedAt = None,
      d_FailureMessage = None\<rparr>"

text \<open>The checks of the proposed row come before the conflict on the delivery id.\<close>

definition RecordDelivery ::
  "env \<Rightarrow> string \<Rightarrow> string \<Rightarrow> string \<Rightarrow> int \<Rightarrow> int \<Rightarrow> db \<Rightarrow> err + (bool \<times> db)" where
  "RecordDelivery E deliveryID eventType action inst repo d =
     (let r = new_delivery E deliveryID eventType action inst repo;
          known = list_ex (\<lambda>v. d_DeliveryID v = deliveryID) (deliveries d) in
      wrap ''record delivery''
        (if known \<and> \<not> delivery_row_ok r then
           bind_sum (driver E ''record delivery'') (\<lambda>_.
             Inl (Sentinel (PgError (CheckViolation ''github_webhook_deliveries''))))
         else bind_sum (exec E ''record delivery''
                (if known then d else d\<lparr>deliveries := deliveries d @ [r]\<rparr>)) (\<lambda>d'.
           Inr (\<not> known, d'))))"

definition MarkDelivery :: "env \<Rightarrow> string \<Rightarrow> string \<Rightarrow> string \<Rightarrow> db \<Rightarrow> err + db" where
  "MarkDelivery E deliveryID status failureMessage d =
     wrap ''mark delivery'' (exec E ''mark delivery''
       (d\<lparr>deliveries := update_where (\<lambda>v. d_DeliveryID v = deliveryID)
            (\<lambda>v. v\<lparr>d_ProcessingStatus := status, d_ProcessedAt := Some (env_now E),
                   d_FailureMessage := nullif_empty (truncate failureMessage 10000)\<rparr>)
            (deliveries d)\<rparr>))"

section \<open>Installations\<close>

text \<open>\<open>lower($1)\<close> of an ASCII login.\<close>

definition upsertOrganization :: "env \<Rightarrow> int \<Rightarrow> string \<Rightarrow> string \<Rightarrow> db \<Rightarrow> err + (string \<times> db)" where
  "upsertOrganization E accountID login accountType d =
     (let p = (\<lambda>o'. o_AccountID o' = accountID);
          new = \<lparr>o_ID = env_uuid E (length (organizations d)), o_Name = login,
                 o_Slug = map lower_byte login, o_AccountID = accountID, o_AccountLogin = login,
                 o_AccountType = accountType, o_UpdatedAt = env_now E\<rparr>;
          f = (\<lambda>o'. o'\<lparr>o_Name := login, o_Slug := map lower_byte login, o_AccountLogin := login,
                       o_AccountType := accountType, o_UpdatedAt := env_now E\<rparr>) in
      wrap ''upsert organization''
        (bind_sum (exec E ''upsert organization''
           (d\<lparr>organizations := upsert p f new (organizations d)\<rparr>)) (\<lambda>d'.
         case find p (organizations d') of
           None \<Rightarrow> Inl (Sentinel SqlErrNoRows)
         | Some o' \<Rightarrow> Inr (o_ID o', d'))))"

definition upsert_installation_row ::
  "env \<Rightarrow> string \<Rightarrow> InstallationParams \<Rightarrow> db \<Rightarrow> Installation list \<Rightarrow> Installation list" where
  "upsert_installation_row E orgID p d =
     upsert (\<lambda>i. i_GitHubInstallationID i = ip_GitHubInstallationID p)
       (\<lambda>i. i\<lparr>i_OrganizationID := orgID, i_AccountLogin := ip_AccountLogin p,
              i_AccountType := ip_AccountType p,
              i_Permissions := (case ip_Permissions p of Some ps \<Rightarrow> ps | None \<Rightarrow> i_Permissions i),
              i_Events := (case ip_Events p of Some es \<Rightarrow> es | None \<Rightarrow> i_Events i),
              i_SuspendedAt := None, i_UpdatedAt := env_now E\<rparr>)
       \<lparr>i_ID = env_uuid E (length (installations d)), i_OrganizationID = orgID,
        i_GitHubInstallationID = ip_GitHubInstallationID p, i_AccountLogin = ip_AccountLogin p,
        i_AccountType = ip_AccountType p,
        i_Permissions = (case ip_Permissions p of Some ps \<Rightarrow> ps | None \<Rightarrow> []),
        i_Events = (case ip_Events p of Some es \<Rightarrow> es | None \<Rightarrow> []),
        i_SuspendedAt = None, i_UpdatedAt = env_now E\<rparr>"

definition UpsertInstallation :: "env \<Rightarrow> InstallationParams \<Rightarrow> db \<Rightarrow> err + db" where
  "UpsertInstallation E p d =
     bind_sum (begin_tx E) (\<lambda>_.
     bind_sum (upsertOrganization E (ip_AccountID p) (ip_AccountLogin p) (ip_AccountType p) d)
       (\<lambda>(orgID, d1).
     bind_sum (wrap ''upsert installation'' (exec E ''upsert installation''
       (d1\<lparr>installations := upsert_installation_row E orgID p d1 (installations d1)\<rparr>))) (\<lambda>d2.
     bind_sum (commit_tx E) (\<lambda>_. Inr d2))))"

definition SetInstallationSuspended :: "env \<Rightarrow> int \<Rightarrow> bool \<Rightarrow> db \<Rightarrow> err + db" where
  "SetInstallationSuspended E inst suspended d =
     wrap ''set installation suspended'' (exec E ''set installation suspended''
       (d\<lparr>installations := update_where (\<lambda>i. i_GitHubInstallationID i = inst)
            (\<lambda>i. i\<lparr>i_SuspendedAt := (if suspended then Some (env_now E) else None),
                   i_UpdatedAt := env_now E\<rparr>) (installations d)\<rparr>))"

definition disable_row :: "env \<Rightarrow> RepositoryRow \<Rightarrow> RepositoryRow" where
  "disable_row E r = r\<lparr>g_IsEnabled := False, g_UpdatedAt := env_now E\<rparr>"

definition DeleteInstallation :: "env \<Rightarrow> int \<Rightarrow> db \<Rightarrow> err + db" where
  "DeleteInstallation E inst d =
     bind_sum (begin_tx E) (\<lambda>_.
     case find (\<lambda>i. i_GitHubInstallationID i = inst) (installations d) of
       None \<Rightarrow> bind_sum (wrap ''delete installation'' (driver E ''delete installation'')) (\<lambda>_.
                bind_sum (driver E ''commit'') (\<lambda>_. Inr d))
     | Some i \<Rightarrow>
         bind_sum (wrap ''delete installation'' (exec E ''delete installation''
           (d\<lparr>installations := filter (\<lambda>i. i_GitHubInstallationID i \<noteq> inst) (installations d)\<rparr>)))
           (\<lambda>d1.
         bind_sum (wrap ''disable repositories'' (exec E ''disable repositories''
           (d1\<lparr>repositories := update_where (\<lambda>r. g_OrganizationID r = i_OrganizationID i)
                (disable_row E) (repositories d1)\<rparr>))) (\<lambda>d2.
         bind_sum (commit_tx E) (\<lambda>_. Inr d2))))"

section \<open>Repositories\<close>

definition upsert_repository_row ::
  "env \<Rightarrow> string \<Rightarrow> Repository \<Rightarrow> db \<Rightarrow> RepositoryRow list \<Rightarrow> RepositoryRow list" where
  "upsert_repository_row E orgID r d =
     upsert (\<lambda>g. g_GitHubRepositoryID g = gr_ID r)
       (\<lambda>g. g\<lparr>g_OrganizationID := orgID, g_Owner := gr_OwnerLogin r, g_Name := gr_Name r,
              g_FullName := gr_FullName r,
              g_DefaultBranch := defaultIfEmpty (gr_DefaultBranch r) ''main'',
              g_CloneURL := gr_CloneURL r, g_IsPrivate := gr_Private r, g_IsEnabled := True,
              g_UpdatedAt := env_now E\<rparr>)
       \<lparr>g_ID = env_uuid E (length (repositories d)), g_OrganizationID = orgID,
        g_GitHubRepositoryID = gr_ID r, g_Owner = gr_OwnerLogin r, g_Name = gr_Name r,
        g_FullName = gr_FullName r,
        g_DefaultBranch = defaultIfEmpty (gr_DefaultBranch r) ''main'',
        g_CloneURL = gr_CloneURL r, g_IsPrivate = gr_Private r, g_IsEnabled = True,
        g_SettingsJSON = JObj [], g_UpdatedAt = env_now E\<rparr>"

fun upsert_repositories :: "env \<Rightarrow> string \<Rightarrow> Repository list \<Rightarrow> db \<Rightarrow> err + db" where
  "upsert_repositories E orgID [] d = Inr d"
| "upsert_repositories E orgID (r # rs) d =
     bind_sum (wrap (''upsert repository '' @ int_string (gr_ID r)) (exec E ''upsert repository''
       (d\<lparr>repositories := upsert_repository_row E orgID r d (repositories d)\<rparr>)))
       (upsert_repositories E orgID rs)"

definition SyncRepositories :: "env \<Rightarrow> int \<Rightarrow> Repository list \<Rightarrow> db \<Rightarrow> err + db" where
  "SyncRepositories E inst repos d =
     bind_sum (begin_tx E) (\<lambda>_.
     bind_sum (wrap ''installation organization''
       (bind_sum (driver E ''installation organization'') (\<lambda>_.
        case find (\<lambda>i. i_GitHubInstallationID i = inst) (installations d) of
          None \<Rightarrow> Inl (Sentinel SqlErrNoRows) | Some i \<Rightarrow> Inr (i_OrganizationID i)))) (\<lambda>orgID.
     bind_sum (upsert_repositories E orgID repos d) (\<lambda>d1.
     bind_sum (wrap ''disable removed repositories'' (exec E ''disable removed repositories''
       (d1\<lparr>repositories := update_where
            (\<lambda>g. g_OrganizationID g = orgID \<and> g_GitHubRepositoryID g \<notin> set (map gr_ID repos)
                 \<and> g_IsEnabled g) (disable_row E) (repositories d1)\<rparr>))) (\<lambda>d2.
     bind_sum (commit_tx E) (\<lambda>_. Inr d2)))))"

definition stored_repository :: "RepositoryRow \<Rightarrow> Settings \<Rightarrow> StoredRepository" where
  "stored_repository g s =
     \<lparr>sr_ID = g_ID g, sr_OrganizationID = g_OrganizationID g,
      sr_GitHubRepositoryID = g_GitHubRepositoryID g, sr_Owner = g_Owner g, sr_Name = g_Name g,
      sr_FullName = g_FullName g, sr_DefaultBranch = g_DefaultBranch g,
      sr_CloneURL = g_CloneURL g, sr_IsEnabled = g_IsEnabled g, sr_Settings = s\<rparr>"

definition repository_settings :: "RepositoryRow \<Rightarrow> err + Settings" where
  "repository_settings g =
     wrap (''repository '' @ g_FullName g @ '' settings'') (ParseSettings (Some (g_SettingsJSON g)))"

definition RepositoryByGitHubID :: "env \<Rightarrow> int \<Rightarrow> db \<Rightarrow> err + StoredRepository" where
  "RepositoryByGitHubID E gid d =
     bind_sum (wrap ''repository by github id'' (driver E ''repository by github id'')) (\<lambda>_.
     case find (\<lambda>g. g_GitHubRepositoryID g = gid) (repositories d) of
       None \<Rightarrow> Inl (Sentinel ErrRepositoryNotFound)
     | Some g \<Rightarrow> bind_sum (repository_settings g) (\<lambda>s. Inr (stored_repository g s)))"

text \<open>
  The left join takes a live installation of the repository's organization, the first row where
  there are several.
\<close>

definition RepositoryContextByID :: "env \<Rightarrow> string \<Rightarrow> db \<Rightarrow> err + RepositoryContext" where
  "RepositoryContextByID E rid d =
     bind_sum (wrap ''repository context'' (driver E ''repository context'')) (\<lambda>_.
     case find (\<lambda>g. g_ID g = pg_uuid rid) (repositories d) of
       None \<Rightarrow> Inl (Sentinel ErrRepositoryNotFound)
     | Some g \<Rightarrow>
         bind_sum (repository_settings g) (\<lambda>s.
         let inst = (case find (\<lambda>i. i_OrganizationID i = g_OrganizationID g \<and> i_SuspendedAt i = None)
                            (installations d) of
                       None \<Rightarrow> 0 | Some i \<Rightarrow> i_GitHubInstallationID i) in
         if inst = 0 then Inl (Sentinel ErrNoInstallation)
         else Inr (StoredRepository.extend (stored_repository g s) \<lparr>rc_InstallationID = inst\<rparr>)))"

section \<open>The task tables are untouched and nothing is deleted\<close>

lemma github_inv:
  assumes "db_inv d" and "schema_ok d'"
    and "tasks d' = tasks d" and "attempts d' = attempts d" and "events d' = events d"
  shows "db_inv d'"
  by (rule db_inv_frame [OF assms(1,2)]) (simp_all add: assms)

definition github_step :: "db \<Rightarrow> db \<Rightarrow> bool" where
  "github_step d d' \<longleftrightarrow> (schema_ok d \<longrightarrow> schema_ok d')
     \<and> tasks d' = tasks d \<and> attempts d' = attempts d \<and> events d' = events d
     \<and> runners d' = runners d
     \<and> table_le repository_le (repositories d) (repositories d')
     \<and> table_le delivery_le (deliveries d) (deliveries d')"

lemma github_step_refl [simp]: "github_step d d"
  by (simp add: github_step_def table_le_refl)

lemma github_step_trans: "github_step d e \<Longrightarrow> github_step e f \<Longrightarrow> github_step d f"
  unfolding github_step_def
  by (elim conjE, intro conjI)
    (blast | simp | rule table_le_trans, assumption, assumption, erule github_le_trans, assumption)+

lemma github_step_keeps:
  assumes "github_step d d'" and "db_inv d"
  shows "db_inv d'" and "db_le d d'"
  using assms by (auto simp: github_step_def db_le_def table_le_refl intro: github_inv dest: db_invD(1))

lemma upsert_le:
  assumes "\<And>r. R r r" and "\<And>r. R r (f r)"
  shows "table_le R rs (upsert p f new rs)"
  using table_le_update [of R rs p f "[]"] table_le_append [of R rs "[new]"] assms
  by (simp add: upsert_def)

lemma RecordDelivery_step: "RecordDelivery E i ty a n m d = Inr (b, d') \<Longrightarrow> github_step d d'"
  by (auto simp: RecordDelivery_def Let_def bind_sum_Inr_iff exec_Inr github_step_def
      table_le_append table_le_refl split: if_splits)

lemma MarkDelivery_step:
  assumes "MarkDelivery E i s m d = Inr d'"
  shows "github_step d d'"
proof -
  let ?f = "\<lambda>v. v\<lparr>d_ProcessingStatus := s, d_ProcessedAt := Some (env_now E),
                   d_FailureMessage := nullif_empty (truncate m 10000)\<rparr>"
  have "table_le delivery_le (deliveries d)
      (update_where (\<lambda>v. d_DeliveryID v = i) ?f (deliveries d) @ [])"
    by (rule table_le_update) (simp_all add: delivery_le_def)
  then show ?thesis
    using assms by (auto simp: MarkDelivery_def exec_Inr github_step_def table_le_refl)
qed

lemma UpsertInstallation_step: "UpsertInstallation E p d = Inr d' \<Longrightarrow> github_step d d'"
  by (auto simp: UpsertInstallation_def upsertOrganization_def Let_def bind_sum_Inr_iff exec_Inr
      github_step_def table_le_refl split: option.splits)

lemma SetInstallationSuspended_step: "SetInstallationSuspended E i b d = Inr d' \<Longrightarrow> github_step d d'"
  by (auto simp: SetInstallationSuspended_def exec_Inr github_step_def table_le_refl)

lemma disable_step:
  assumes "schema_ok (d\<lparr>repositories := update_where p (disable_row E) (repositories d)\<rparr>)"
  shows "github_step d (d\<lparr>repositories := update_where p (disable_row E) (repositories d)\<rparr>)"
  using assms table_le_update [of repository_le "repositories d" p "disable_row E" "[]"]
  by (simp add: github_step_def table_le_refl repository_le_def disable_row_def)

lemma DeleteInstallation_step:
  assumes "DeleteInstallation E i d = Inr d'"
  shows "github_step d d'"
proof (cases "find (\<lambda>j. i_GitHubInstallationID j = i) (installations d)")
  case None
  with assms show ?thesis by (auto simp: DeleteInstallation_def bind_sum_Inr_iff)
next
  case (Some j)
  let ?d1 = "d\<lparr>installations := filter (\<lambda>j. i_GitHubInstallationID j \<noteq> i) (installations d)\<rparr>"
  let ?d2 = "?d1\<lparr>repositories := update_where (\<lambda>r. g_OrganizationID r = i_OrganizationID j)
      (disable_row E) (repositories ?d1)\<rparr>"
  have ok1: "schema_ok ?d1" and "schema_ok ?d2" and d': "d' = ?d2"
    using assms Some by (auto simp: DeleteInstallation_def bind_sum_Inr_iff exec_Inr)
  then have "github_step ?d1 ?d2" by (intro disable_step)
  moreover have "github_step d ?d1" using ok1 by (simp add: github_step_def table_le_refl)
  ultimately show ?thesis unfolding d' by (rule github_step_trans [rotated])
qed

lemma upsert_repositories_step:
  "upsert_repositories E orgID rs d = Inr d' \<Longrightarrow> github_step d d'"
proof (induction rs arbitrary: d)
  case (Cons r rs)
  let ?d1 = "d\<lparr>repositories := upsert_repository_row E orgID r d (repositories d)\<rparr>"
  have "table_le repository_le (repositories d) (upsert_repository_row E orgID r d (repositories d))"
    unfolding upsert_repository_row_def by (rule upsert_le) (simp_all add: repository_le_def)
  then have "schema_ok ?d1 \<Longrightarrow> github_step d ?d1" by (simp add: github_step_def table_le_refl)
  with Cons show ?case
    by (auto simp: bind_sum_Inr_iff exec_Inr intro: github_step_trans)
qed simp

lemma SyncRepositories_step:
  assumes "SyncRepositories E i rs d = Inr d'"
  shows "github_step d d'"
proof -
  from assms obtain orgID d1 where "upsert_repositories E orgID rs d = Inr d1"
    and d': "d' = d1\<lparr>repositories := update_where
            (\<lambda>g. g_OrganizationID g = orgID \<and> g_GitHubRepositoryID g \<notin> set (map gr_ID rs)
                 \<and> g_IsEnabled g) (disable_row E) (repositories d1)\<rparr>" "schema_ok d'"
    by (auto simp: SyncRepositories_def bind_sum_Inr_iff exec_Inr)
  then have "github_step d d1" and "github_step d1 d'"
    by (simp_all add: upsert_repositories_step disable_step)
  then show ?thesis by (rule github_step_trans)
qed

end
