(* ===== verification/DashboardStore.thy ===== *)
theory DashboardStore
  imports GithubStore GoTime
begin

text \<open>
  \<open>internal/dashboard/store.go\<close>: the two writes of the dashboard on repositories, their settings
  and their enablement, and the reads of repositories and organizations around them. Columns the
  model's tables leave out (\<open>created_at\<close> of repositories and organizations) are left out of
  what is scanned.
\<close>

section \<open>Data\<close>

abbreviation ErrOrganizationNotFound :: sentinel where
  "ErrOrganizationNotFound \<equiv> ResourceNotFound ''organization not found''"

abbreviation ErrRepositoryMissing :: sentinel where
  "ErrRepositoryMissing \<equiv> ResourceNotFound ''repository not found''"

record RepositoryView =
  rv_ID :: string
  rv_OrganizationID :: string
  rv_GitHubRepositoryID :: int
  rv_Owner :: string
  rv_Name :: string
  rv_FullName :: string
  rv_DefaultBranch :: string
  rv_IsPrivate :: bool
  rv_IsEnabled :: bool
  rv_Settings :: Settings
  rv_ActiveTaskCount :: int
  rv_RecentTaskCount :: int
  rv_UpdatedAt :: time

record OrganizationView =
  ov_ID :: string
  ov_Name :: string
  ov_Slug :: string
  ov_GitHubAccountLogin :: string
  ov_GitHubAccountType :: string
  ov_RepositoryCount :: int
  ov_EnabledRepositoryCount :: int
  ov_UpdatedAt :: time

section \<open>Reads\<close>

definition repository_tasks :: "db \<Rightarrow> string \<Rightarrow> Task list" where
  "repository_tasks d rid = filter (\<lambda>t. t_RepositoryID t = Some rid) (tasks d)"

text \<open>\<open>scanRepository\<close> on the row of \<open>repositoryColumns\<close>.\<close>

definition scanRepository :: "env \<Rightarrow> db \<Rightarrow> RepositoryRow \<Rightarrow> err + RepositoryView" where
  "scanRepository E d g =
     (let ts = repository_tasks d (g_ID g) in
      bind_sum (ParseSettings (Some (g_SettingsJSON g))) (\<lambda>s.
      Inr \<lparr>rv_ID = g_ID g, rv_OrganizationID = g_OrganizationID g,
        rv_GitHubRepositoryID = g_GitHubRepositoryID g, rv_Owner = g_Owner g, rv_Name = g_Name g,
        rv_FullName = g_FullName g, rv_DefaultBranch = g_DefaultBranch g,
        rv_IsPrivate = g_IsPrivate g, rv_IsEnabled = g_IsEnabled g, rv_Settings = s,
        rv_ActiveTaskCount = int (length (filter (\<lambda>t. t_Phase t \<noteq> PhaseTerminal) ts)),
        rv_RecentTaskCount =
          int (length (filter (\<lambda>t. env_now E - 30 * 86400 * second \<le> t_UpdatedAt t) ts)),
        rv_UpdatedAt = g_UpdatedAt g\<rparr>))"

definition find_repository :: "db \<Rightarrow> string \<Rightarrow> RepositoryRow option" where
  "find_repository d rid = find (\<lambda>g. g_ID g = pg_uuid rid) (repositories d)"

definition scan_organization :: "db \<Rightarrow> Organization \<Rightarrow> OrganizationView" where
  "scan_organization d org =
     (let rs = filter (\<lambda>g. g_OrganizationID g = o_ID org) (repositories d) in
      \<lparr>ov_ID = o_ID org, ov_Name = o_Name org, ov_Slug = o_Slug org,
       ov_GitHubAccountLogin = o_AccountLogin org, ov_GitHubAccountType = o_AccountType org,
       ov_RepositoryCount = int (length rs),
       ov_EnabledRepositoryCount = int (length (filter g_IsEnabled rs)),
       ov_UpdatedAt = o_UpdatedAt org\<rparr>)"

definition GetOrganization :: "env \<Rightarrow> string \<Rightarrow> db \<Rightarrow> err + OrganizationView" where
  "GetOrganization E oid d =
     bind_sum (wrap ''get organization'' (driver E ''get organization'')) (\<lambda>_.
     case find (\<lambda>x. o_ID x = pg_uuid oid) (organizations d) of
       None \<Rightarrow> Inl (Sentinel ErrOrganizationNotFound)
     | Some x \<Rightarrow> Inr (scan_organization d x))"

definition GetRepositorySettings :: "env \<Rightarrow> string \<Rightarrow> db \<Rightarrow> err + Settings" where
  "GetRepositorySettings E rid d =
     bind_sum (wrap ''get repository settings'' (driver E ''get repository settings'')) (\<lambda>_.
     case find_repository d rid of
       None \<Rightarrow> Inl (Sentinel ErrRepositoryMissing)
     | Some g \<Rightarrow> wrap ''parse repository settings'' (ParseSettings (Some (g_SettingsJSON g))))"

section \<open>Writes\<close>

definition set_enabled_row :: "env \<Rightarrow> bool \<Rightarrow> RepositoryRow \<Rightarrow> RepositoryRow" where
  "set_enabled_row E b g = g\<lparr>g_IsEnabled := b, g_UpdatedAt := env_now E\<rparr>"

definition SetRepositoryEnabled :: "env \<Rightarrow> string \<Rightarrow> bool \<Rightarrow> db \<Rightarrow> err + (RepositoryView \<times> db)" where
  "SetRepositoryEnabled E rid enabled d =
     (let l = ''set repository enabled'' in
      bind_sum (wrap l (driver E ''begin set repository enabled'')) (\<lambda>_.
      bind_sum (wrap l (exec E l
        (d\<lparr>repositories := update_where (\<lambda>g. g_ID g = pg_uuid rid) (set_enabled_row E enabled)
           (repositories d)\<rparr>))) (\<lambda>d'.
      case find_repository d' rid of
        None \<Rightarrow> Inl (Sentinel ErrRepositoryMissing)
      | Some g \<Rightarrow>
          bind_sum (wrap l (bind_sum (driver E ''read set repository enabled'') (\<lambda>_.
            scanRepository E d' g))) (\<lambda>v.
          bind_sum (wrap l (driver E ''commit set repository enabled'')) (\<lambda>_. Inr (v, d'))))))"

definition set_settings_row :: "env \<Rightarrow> Settings \<Rightarrow> RepositoryRow \<Rightarrow> RepositoryRow" where
  "set_settings_row E s g = g\<lparr>g_SettingsJSON := settings_json s, g_UpdatedAt := env_now E\<rparr>"

definition patched :: "int option \<Rightarrow> Settings \<Rightarrow> Settings" where
  "patched patch s = (case patch of None \<Rightarrow> s | Some n \<Rightarrow> s\<lparr>s_MaxAttempts := n\<rparr>)"

text \<open>\<open>fmt.Errorf("%w: %w", ErrInvalidSettings, err)\<close>.\<close>

definition invalid_settings :: "err + 'a \<Rightarrow> err + 'a" where
  "invalid_settings r = (case r of
     Inl e \<Rightarrow> Inl (Suffix (Sentinel ErrInvalidSettings) (err_text e)) | Inr x \<Rightarrow> Inr x)"

text \<open>\<open>patch\<close> is \<open>RepositorySettingsPatch.MaxAttempts\<close>.\<close>

definition UpdateRepositorySettings ::
  "env \<Rightarrow> string \<Rightarrow> int option \<Rightarrow> db \<Rightarrow> err + (Settings \<times> db)" where
  "UpdateRepositorySettings E rid patch d =
     (let l = ''update repository settings'' in
      bind_sum (wrap l (driver E ''begin update repository settings'')) (\<lambda>_.
      bind_sum (wrap l (driver E ''lock repository settings'')) (\<lambda>_.
      case find_repository d rid of
        None \<Rightarrow> Inl (Sentinel ErrRepositoryMissing)
      | Some g \<Rightarrow>
          bind_sum (wrap ''parse repository settings'' (ParseSettings (Some (g_SettingsJSON g)))) (\<lambda>old.
          let s = patched patch old in
          bind_sum (invalid_settings (ValidateSettings s)) (\<lambda>_.
          bind_sum (wrap l (exec E l
            (d\<lparr>repositories := update_where (\<lambda>g. g_ID g = pg_uuid rid) (set_settings_row E s)
               (repositories d)\<rparr>))) (\<lambda>d'.
          bind_sum (wrap l (driver E ''commit update repository settings'')) (\<lambda>_. Inr (s, d'))))))))"

section \<open>Steps\<close>

lemma update_repositories_step:
  assumes "schema_ok (d\<lparr>repositories := update_where p f (repositories d)\<rparr>)"
    and "\<And>g. repository_le g (f g)"
  shows "github_step d (d\<lparr>repositories := update_where p f (repositories d)\<rparr>)"
  using assms table_le_update [of repository_le "repositories d" p f "[]"]
  by (simp add: github_step_def table_le_refl)

lemma SetRepositoryEnabled_step: "SetRepositoryEnabled E rid b d = Inr (v, d') \<Longrightarrow> github_step d d'"
  by (auto simp: SetRepositoryEnabled_def Let_def bind_sum_Inr_iff exec_Inr repository_le_def set_enabled_row_def
      split: option.splits intro!: update_repositories_step)

lemma UpdateRepositorySettings_step:
  assumes "UpdateRepositorySettings E rid patch d = Inr (s, d')"
  shows "github_step d d'"
proof -
  have "d' = d\<lparr>repositories := update_where (\<lambda>g. g_ID g = pg_uuid rid) (set_settings_row E s)
      (repositories d)\<rparr>" and "schema_ok d'"
    using assms by (auto simp: UpdateRepositorySettings_def Let_def bind_sum_Inr_iff exec_Inr
        split: option.splits sum.splits)
  moreover have "repository_le g (set_settings_row E s g)" for g
    by (simp add: repository_le_def set_settings_row_def)
  ultimately show ?thesis using update_repositories_step by metis
qed

end
