(* ===== verification/Systems.thy ===== *)
theory Systems
  imports Prelude
begin

text \<open>
  The interfaces the components meet at, as locales: a system whose steps keep an invariant, and
  one whose states only grow in some order. Each is interpreted on the model's own operations in
  the theory that provides them.
\<close>

section \<open>Systems with an invariant\<close>

locale invariant_system =
  fixes init :: "'s \<Rightarrow> bool" and step :: "'s \<Rightarrow> 's \<Rightarrow> bool" and inv :: "'s \<Rightarrow> bool"
  assumes init_inv: "init s \<Longrightarrow> inv s"
    and step_inv: "inv s \<Longrightarrow> step s s' \<Longrightarrow> inv s'"
begin

lemma run_inv:
  assumes "step\<^sup>*\<^sup>* s s'" and "inv s"
  shows "inv s'"
  using assms by (induction rule: rtranclp_induct) (auto intro: step_inv)

lemma reachable_inv: "init s \<Longrightarrow> step\<^sup>*\<^sup>* s s' \<Longrightarrow> inv s'"
  by (blast intro: run_inv init_inv)

end

section \<open>Systems that only grow\<close>

locale growing_system = invariant_system +
  fixes le :: "'a \<Rightarrow> 'a \<Rightarrow> bool"
  assumes le_refl: "le s s"
    and le_trans: "le s s' \<Longrightarrow> le s' s'' \<Longrightarrow> le s s''"
    and step_le: "inv s \<Longrightarrow> step s s' \<Longrightarrow> le s s'"
begin

lemma run_le:
  assumes "step\<^sup>*\<^sup>* s s'" and "inv s"
  shows "le s s'"
  using assms
proof (induction rule: rtranclp_induct)
  case base
  show ?case by (rule le_refl)
next
  case (step s' s'')
  have "inv s'" using step.hyps(1) step.prems by (rule run_inv)
  then show ?case using step by (blast intro: le_trans step_le)
qed

text \<open>A property that growing keeps, once true, holds for the rest of the run.\<close>

lemma run_stable:
  assumes "step\<^sup>*\<^sup>* s s'" and "inv s" and "P s"
    and "\<And>s s'. le s s' \<Longrightarrow> P s \<Longrightarrow> P s'"
  shows "P s'"
  using run_le [OF assms(1,2)] assms(3,4) by blast

end

end
