(* ===== verification/Platform.thy ===== *)
theory Platform
  imports DashboardStore Systems
begin

text \<open>
  The platform as a state machine over the database: one step is one committed operation of the
  task store, the runner store, the GitHub store or the dashboard store, by whichever process calls it, at any time and with any driver
  faults. Every reachable database satisfies the invariant and every run only grows.
\<close>

section \<open>The step relation\<close>

text \<open>
  Row locks make the operations atomic: a transaction that commits saw and wrote the rows of the
  step, one that fails rolls back and is no step. Appended events never carry a transition's
  type; those are written by transitions alone.
\<close>

inductive platform_step :: "db \<Rightarrow> db \<Rightarrow> bool" where
  create: "Create E p d = Inr (t, d') \<Longrightarrow> platform_step d d'"
| transition: "Transition E tid tp d = Inr (t, d') \<Longrightarrow> platform_step d d'"
| cancel: "Cancel E tid reason d = Inr (t, d') \<Longrightarrow> platform_step d d'"
| request_revision: "RequestRevision E tid v d = Inr (t, a, d') \<Longrightarrow> platform_step d d'"
| ensure_git_context: "EnsureGitContext E tid base br d = Inr (b, w, d') \<Longrightarrow> platform_step d d'"
| record_trigger_check_run: "RecordTriggerCheckRun E tid n d = Inr d' \<Longrightarrow> platform_step d d'"
| mark_trigger_check_run: "MarkTriggerCheckRunCompleted E aid d = Inr d' \<Longrightarrow> platform_step d d'"
| append_attempt_event: "AppendAttemptEvent E aid ty src pl d = Inr d' \<Longrightarrow> \<not> transition_type ty \<Longrightarrow>
    platform_step d d'"
| append_event: "AppendEvent E tid ty src pl d = Inr d' \<Longrightarrow> \<not> transition_type ty \<Longrightarrow>
    platform_step d d'"
| register: "Register E rp d = Inr (r, d') \<Longrightarrow> platform_step d d'"
| heartbeat: "Heartbeat E rid d = Inr d' \<Longrightarrow> platform_step d d'"
| mark_offline: "MarkOffline E rid d = Inr d' \<Longrightarrow> platform_step d d'"
| mark_lost: "MarkLost E thr d = Inr (rs, d') \<Longrightarrow> platform_step d d'"
| claim_next: "ClaimNext E locked rid dur d = Inr (c, d') \<Longrightarrow> platform_step d d'"
| claim_attempt: "ClaimAttempt E locked rid aid dur d = Inr (c, d') \<Longrightarrow> platform_step d d'"
| record_base: "RecordAttemptBase E aid sha d = Inr d' \<Longrightarrow> platform_step d d'"
| record_final: "RecordFinalCommit E aid sha d = Inr d' \<Longrightarrow> platform_step d d'"
| record_pull_request: "RecordPullRequest E aid n d = Inr d' \<Longrightarrow> platform_step d d'"
| extend_lease: "ExtendLease E aid rid dur d = Inr d' \<Longrightarrow> platform_step d d'"
| release_lease: "ReleaseLease E aid rid d = Inr d' \<Longrightarrow> platform_step d d'"
| record_delivery: "RecordDelivery E did ety act i r d = Inr (b, d') \<Longrightarrow> platform_step d d'"
| mark_delivery: "MarkDelivery E did st msg d = Inr d' \<Longrightarrow> platform_step d d'"
| upsert_installation: "UpsertInstallation E ip d = Inr d' \<Longrightarrow> platform_step d d'"
| suspend_installation: "SetInstallationSuspended E i sus d = Inr d' \<Longrightarrow> platform_step d d'"
| delete_installation: "DeleteInstallation E i d = Inr d' \<Longrightarrow> platform_step d d'"
| sync_repositories: "SyncRepositories E i rs d = Inr d' \<Longrightarrow> platform_step d d'"
| set_enabled: "SetRepositoryEnabled E rid b d = Inr (v, d') \<Longrightarrow> platform_step d d'"
| update_settings: "UpdateRepositorySettings E rid patch d = Inr (s, d') \<Longrightarrow> platform_step d d'"

definition reachable :: "db \<Rightarrow> bool" where
  "reachable d \<longleftrightarrow> platform_step\<^sup>*\<^sup>* empty_db d"

lemma reachable_empty [simp]: "reachable empty_db"
  by (simp add: reachable_def)

lemma reachable_step: "reachable d \<Longrightarrow> platform_step d d' \<Longrightarrow> reachable d'"
  unfolding reachable_def by (rule rtranclp.rtrancl_into_rtrancl)

section \<open>Runner operations\<close>

lemma attempt_core_columns [simp]:
  "attempt_core (a\<lparr>a_BaseCommitSHA := x\<rparr>) = attempt_core a"
  "attempt_core (a\<lparr>a_FinalCommitSHA := x\<rparr>) = attempt_core a"
  "attempt_core (a\<lparr>a_PullRequestNumber := y\<rparr>) = attempt_core a"
  by (simp_all add: attempt_core_def)

lemma attempt_le_columns [simp]:
  "attempt_le a (a\<lparr>a_BaseCommitSHA := coalesce (a_BaseCommitSHA a) x\<rparr>)"
  "attempt_le a (a\<lparr>a_FinalCommitSHA := coalesce (a_FinalCommitSHA a) x\<rparr>)"
  "attempt_le a (a\<lparr>a_PullRequestNumber := coalesce (a_PullRequestNumber a) y\<rparr>)"
  by (simp_all add: attempt_le_def attempt_origin_def)

lemma update_runners_Inr:
  "update_runners E l p f d = Inr d' \<longleftrightarrow> env_fault E l = None \<and> (\<exists>r\<in>set (runners d). p r)
     \<and> d' = d\<lparr>runners := update_where p f (runners d)\<rparr> \<and> schema_ok d'"
  by (auto simp: update_runners_def bind_sum_Inr_iff exec_Inr filter_empty_conv)

lemma update_runners_step:
  assumes "update_runners E l p f d = Inr d'" and "\<And>r. runner_le r (f r)"
  shows "db_le d d'" and "db_inv d \<Longrightarrow> db_inv d'"
  using assms by (auto simp: update_runners_Inr intro: db_le_runners update_runners_table_inv)

lemma Register_step:
  assumes "Register E p d = Inr (r, d')"
  shows "db_le d d'" and "db_inv d \<Longrightarrow> db_inv d'"
proof -
  from assms have "d' = d\<lparr>runners := runners d @ [r]\<rparr>" and "schema_ok d'"
    by (auto simp: Register_def Let_def bind_sum_Inr_iff exec_Inr split: if_splits)
  then show "db_le d d'" and "db_inv d \<Longrightarrow> db_inv d'"
    by (auto simp: db_le_def table_le_append table_le_refl intro: update_runners_table_inv)
qed

lemma MarkLost_step:
  assumes "MarkLost E thr d = Inr (rs, d')"
  shows "db_le d d'" and "db_inv d \<Longrightarrow> db_inv d'"
proof -
  from assms have "d' = d\<lparr>runners := update_where (silent E thr)
      (\<lambda>r. r\<lparr>r_Status := RunnerLost, r_UpdatedAt := env_now E\<rparr>) (runners d)\<rparr>" and "schema_ok d'"
    by (auto simp: MarkLost_def Let_def bind_sum_Inr_iff exec_Inr)
  then show "db_le d d'" and "db_inv d \<Longrightarrow> db_inv d'"
    by (auto intro: db_le_runners update_runners_table_inv)
qed

lemma claim_step:
  assumes "ClaimAttempt E locked rid aid dur d = Inr (c, d')"
  shows "db_le d d'" and "db_inv d \<Longrightarrow> db_inv d'"
  using assms by (auto simp: ClaimAttempt_def split: if_splits intro: claim_le claim_inv)

section \<open>Every step keeps the invariant and grows\<close>

lemma platform_step_inv:
  assumes "platform_step d d'" and "db_inv d"
  shows "db_inv d'"
  using assms
proof (cases rule: platform_step.cases)
  case (create E p t) then show ?thesis using Create_inv assms(2) by blast
next
  case (transition E tid tp t) then show ?thesis using Transition_inv assms(2) by blast
next
  case (cancel E tid reason t) then show ?thesis using Cancel_inv assms(2) by blast
next
  case (request_revision E tid v t a) then show ?thesis using RequestRevision_inv assms(2) by blast
next
  case (ensure_git_context E tid base br b w)
  then show ?thesis using EnsureGitContext_inv assms(2) by blast
next
  case (record_trigger_check_run E tid n)
  then show ?thesis using RecordTriggerCheckRun_inv assms(2) by blast
next
  case (mark_trigger_check_run E aid)
  then show ?thesis using MarkTriggerCheckRunCompleted_inv assms(2) by blast
next
  case (append_attempt_event E aid ty src pl)
  then show ?thesis using AppendAttemptEvent_inv assms(2) by blast
next
  case (append_event E tid ty src pl) then show ?thesis using AppendEvent_inv assms(2) by blast
next
  case (register E rp r) then show ?thesis using Register_step assms(2) by blast
next
  case (heartbeat E rid) then show ?thesis
    using update_runners_step(2) [OF _ runner_rows_le(1)] assms(2) by (auto simp: Heartbeat_def)
next
  case (mark_offline E rid) then show ?thesis
    using update_runners_step(2) [OF _ runner_rows_le(2)] assms(2) by (auto simp: MarkOffline_def)
next
  case (mark_lost E thr rs) then show ?thesis using MarkLost_step assms(2) by blast
next
  case (claim_next E locked rid dur c)
  then show ?thesis using claim_inv assms(2) by (auto simp: ClaimNext_def)
next
  case (claim_attempt E locked rid aid dur c) then show ?thesis using claim_step assms(2) by blast
next
  case (record_base E aid sha) then show ?thesis
    using record_attempt_inv assms(2) by (auto simp: RecordAttemptBase_def)
next
  case (record_final E aid sha) then show ?thesis
    using record_attempt_inv assms(2) by (auto simp: RecordFinalCommit_def)
next
  case (record_pull_request E aid n) then show ?thesis
    using record_attempt_inv assms(2) by (auto simp: RecordPullRequest_def)
next
  case (extend_lease E aid rid dur) then show ?thesis using ExtendLease_inv assms(2) by blast
next
  case (release_lease E aid rid) then show ?thesis using ReleaseLease_inv assms(2) by blast
next
  case (record_delivery E did ety act i r b) then show ?thesis
    by (rule github_step_keeps(1) [OF RecordDelivery_step assms(2)])
next
  case (mark_delivery E did st msg) then show ?thesis
    by (rule github_step_keeps(1) [OF MarkDelivery_step assms(2)])
next
  case (upsert_installation E ip) then show ?thesis
    by (rule github_step_keeps(1) [OF UpsertInstallation_step assms(2)])
next
  case (suspend_installation E i sus) then show ?thesis
    by (rule github_step_keeps(1) [OF SetInstallationSuspended_step assms(2)])
next
  case (delete_installation E i) then show ?thesis
    by (rule github_step_keeps(1) [OF DeleteInstallation_step assms(2)])
next
  case (sync_repositories E i rs) then show ?thesis
    by (rule github_step_keeps(1) [OF SyncRepositories_step assms(2)])
next
  case (set_enabled E rid b v) then show ?thesis
    by (rule github_step_keeps(1) [OF SetRepositoryEnabled_step assms(2)])
next
  case (update_settings E rid patch s) then show ?thesis
    by (rule github_step_keeps(1) [OF UpdateRepositorySettings_step assms(2)])
qed

lemma platform_step_le:
  assumes "platform_step d d'" and "db_inv d"
  shows "db_le d d'"
  using assms
proof (cases rule: platform_step.cases)
  case (create E p t) then show ?thesis using Create_le assms(2) by blast
next
  case (transition E tid tp t) then show ?thesis using Transition_le assms(2) by blast
next
  case (cancel E tid reason t) then show ?thesis using Cancel_le assms(2) by blast
next
  case (request_revision E tid v t a) then show ?thesis using RequestRevision_le assms(2) by blast
next
  case (ensure_git_context E tid base br b w) then show ?thesis using EnsureGitContext_le by blast
next
  case (record_trigger_check_run E tid n) then show ?thesis using RecordTriggerCheckRun_le by blast
next
  case (mark_trigger_check_run E aid)
  then show ?thesis using MarkTriggerCheckRunCompleted_le by blast
next
  case (append_attempt_event E aid ty src pl) then show ?thesis using AppendAttemptEvent_le by blast
next
  case (append_event E tid ty src pl) then show ?thesis using AppendEvent_le by blast
next
  case (register E rp r) then show ?thesis using Register_step by blast
next
  case (heartbeat E rid) then show ?thesis
    using update_runners_step(1) [OF _ runner_rows_le(1)] by (auto simp: Heartbeat_def)
next
  case (mark_offline E rid) then show ?thesis
    using update_runners_step(1) [OF _ runner_rows_le(2)] by (auto simp: MarkOffline_def)
next
  case (mark_lost E thr rs) then show ?thesis using MarkLost_step by blast
next
  case (claim_next E locked rid dur c) then show ?thesis using claim_le by (auto simp: ClaimNext_def)
next
  case (claim_attempt E locked rid aid dur c) then show ?thesis using claim_step by blast
next
  case (record_base E aid sha) then show ?thesis
    using record_attempt_le by (fastforce simp: RecordAttemptBase_def)
next
  case (record_final E aid sha) then show ?thesis
    using record_attempt_le by (fastforce simp: RecordFinalCommit_def)
next
  case (record_pull_request E aid n) then show ?thesis
    using record_attempt_le by (fastforce simp: RecordPullRequest_def)
next
  case (extend_lease E aid rid dur) then show ?thesis
    using update_leased_le by (fastforce simp: ExtendLease_def)
next
  case (release_lease E aid rid) then show ?thesis
    using update_leased_le by (fastforce simp: ReleaseLease_def)
next
  case (record_delivery E did ety act i r b) then show ?thesis
    by (rule github_step_keeps(2) [OF RecordDelivery_step assms(2)])
next
  case (mark_delivery E did st msg) then show ?thesis
    by (rule github_step_keeps(2) [OF MarkDelivery_step assms(2)])
next
  case (upsert_installation E ip) then show ?thesis
    by (rule github_step_keeps(2) [OF UpsertInstallation_step assms(2)])
next
  case (suspend_installation E i sus) then show ?thesis
    by (rule github_step_keeps(2) [OF SetInstallationSuspended_step assms(2)])
next
  case (delete_installation E i) then show ?thesis
    by (rule github_step_keeps(2) [OF DeleteInstallation_step assms(2)])
next
  case (sync_repositories E i rs) then show ?thesis
    by (rule github_step_keeps(2) [OF SyncRepositories_step assms(2)])
next
  case (set_enabled E rid b v) then show ?thesis
    by (rule github_step_keeps(2) [OF SetRepositoryEnabled_step assms(2)])
next
  case (update_settings E rid patch s) then show ?thesis
    by (rule github_step_keeps(2) [OF UpdateRepositorySettings_step assms(2)])
qed

interpretation platform:
  growing_system "\<lambda>d. d = empty_db" platform_step db_inv db_le
  by unfold_locales (auto intro: db_inv_empty platform_step_inv platform_step_le db_le_trans)

end
