(* ===== verification/TaskProgress.thy ===== *)
theory TaskProgress
  imports Platform
begin

text \<open>
  Without driver faults the task store gets its work done: the rows a legal operation writes
  satisfy every constraint of the schema, so the operation succeeds. What the constraints ask of
  the caller is spelled out (\<open>transition_fits\<close>): the texts fit their columns.
\<close>

section \<open>Writes the schema accepts\<close>

lemma distinct_filter_update:
  assumes "distinct (map g (filter q xs))"
    and "\<And>x. x \<in> set xs \<Longrightarrow> p x \<Longrightarrow> g (f x) = g x \<and> (q (f x) \<longrightarrow> q x)"
  shows "distinct (map g (filter q (update_where p f xs)))
       \<and> g ` set (filter q (update_where p f xs)) \<subseteq> g ` set (filter q xs)"
  using assms
proof (induction xs)
  case (Cons x xs)
  have sub: "distinct (map g (filter q (update_where p f xs)))"
    "g ` set (filter q (update_where p f xs)) \<subseteq> g ` set (filter q xs)"
    using Cons by (auto split: if_splits)
  show ?case
  proof (cases "q (if p x then f x else x)")
    case True
    then have "q x" and "g (if p x then f x else x) = g x"
      using Cons.prems(2) [of x] by (auto split: if_splits)
    then show ?thesis using sub True Cons.prems(1) by (auto split: if_splits)
  next
    case False
    then show ?thesis using sub by (auto split: if_splits)
  qed
qed simp

lemma list_all_update_where:
  "list_all P xs \<Longrightarrow> (\<And>x. x \<in> set xs \<Longrightarrow> p x \<Longrightarrow> P x \<Longrightarrow> P (f x)) \<Longrightarrow> list_all P (update_where p f xs)"
  by (induction xs) auto

lemma map_update_where_on:
  "(\<And>x. x \<in> set xs \<Longrightarrow> p x \<Longrightarrow> g (f x) = g x) \<Longrightarrow> map g (update_where p f xs) = map g xs"
  by (induction xs) auto

lemmas schema_lists = schema_ok_iff task_constraints_def attempt_constraints_def
  event_constraints_def runner_constraints_def github_constraints_def

lemma schema_ok_pairs:
  assumes "schema_ok d"
  shows "distinct (map (\<lambda>a. (a_TaskID a, a_Number a)) (attempts d))"
    and "distinct (map (\<lambda>e. (e_TaskAttemptID e, e_SequenceNumber e)) (events d))"
    and "distinct (idempotency_keys (events d))"
  using assms by (simp_all add: schema_ok_iff attempt_constraints_def event_constraints_def)

lemma idempotency_keys_iff:
  "(x, k) \<in> set (idempotency_keys es) \<longleftrightarrow>
     (\<exists>f\<in>set es. e_TaskAttemptID f = x \<and> e_IdempotencyKey f = k \<and> k \<noteq> None)"
  by (auto simp: idempotency_keys_def)

definition attempt_links :: "Attempt \<Rightarrow> string \<times> string \<times> int \<times> string option \<times> string option" where
  "attempt_links a = (a_ID a, a_TaskID a, a_Number a, a_RunnerID a, a_LeaseOwner a)"

lemma schema_ok_update_attempts:
  assumes ok: "schema_ok d"
    and row: "\<And>a. a \<in> set (attempts d) \<Longrightarrow> p a \<Longrightarrow> attempt_row_ok (f a)"
    and links: "\<And>a. attempt_links (f a) = attempt_links a"
    and act: "\<And>a. a_Status (f a) = AttemptActive \<Longrightarrow> a_Status a = AttemptActive"
  shows "schema_ok (d\<lparr>attempts := update_where p f (attempts d)\<rparr>)"
proof -
  let ?as = "update_where p f (attempts d)"
  have l: "a_ID (f a) = a_ID a" "a_TaskID (f a) = a_TaskID a" "a_Number (f a) = a_Number a"
    "a_RunnerID (f a) = a_RunnerID a" "a_LeaseOwner (f a) = a_LeaseOwner a" for a
    using links [of a] by (simp_all add: attempt_links_def)
  have maps: "map a_ID ?as = map a_ID (attempts d)"
    "map (\<lambda>a. (a_TaskID a, a_Number a)) ?as = map (\<lambda>a. (a_TaskID a, a_Number a)) (attempts d)"
    by (simp_all add: map_update_where l)
  have keys: "distinct (active_attempt_keys ?as)"
    using distinct_filter_update [of a_TaskID "\<lambda>a. a_Status a = AttemptActive" "attempts d" p f]
      schema_ok_attemptD(3) [OF ok] act
    by (auto simp: active_attempt_keys_def l)
  have rows: "list_all attempt_row_ok ?as"
    using schema_ok_attemptD(1) [OF ok] row by (auto simp: list_all_iff in_update_where_iff)
  have fk: "list_all P ?as" if "list_all P (attempts d)" and "\<And>a. P (f a) = P a" for P
    using that by (intro list_all_update_where) auto
  show ?thesis
    using ok keys rows
    by (simp add: schema_lists maps del: set_map) (auto intro!: fk simp: l)
qed

lemma schema_ok_append_attempt:
  assumes ok: "schema_ok d" and row: "attempt_row_ok a"
    and fresh: "a_ID a \<notin> a_ID ` set (attempts d)"
    and number: "\<And>b. b \<in> set (attempts d) \<Longrightarrow> a_TaskID b = a_TaskID a \<Longrightarrow> a_Number b \<noteq> a_Number a"
    and act: "\<And>b. b \<in> set (attempts d) \<Longrightarrow> a_TaskID b = a_TaskID a \<Longrightarrow> a_Status b \<noteq> AttemptActive"
    and fk: "a_TaskID a \<in> t_ID ` set (tasks d)" "a_RunnerID a = None" "a_LeaseOwner a = None"
  shows "schema_ok (d\<lparr>attempts := attempts d @ [a]\<rparr>)"
proof -
  have "(a_TaskID a, a_Number a) \<notin> (\<lambda>a. (a_TaskID a, a_Number a)) ` set (attempts d)"
  proof
    assume "(a_TaskID a, a_Number a) \<in> (\<lambda>a. (a_TaskID a, a_Number a)) ` set (attempts d)"
    then obtain b where "b \<in> set (attempts d)" "a_TaskID b = a_TaskID a"
      and b: "a_Number b = a_Number a" by (elim imageE) simp
    then have "a_Number b \<noteq> a_Number a" using number by blast
    with b show False by simp
  qed
  then have "distinct (map (\<lambda>a. (a_TaskID a, a_Number a)) (attempts d @ [a]))"
    using schema_ok_pairs(1) [OF ok] by simp
  moreover have "a_TaskID a \<notin> set (active_attempt_keys (attempts d))"
    unfolding active_attempt_keys_def using act by fastforce
  then have "distinct (active_attempt_keys (attempts d @ [a]))"
    using schema_ok_attemptD(3) [OF ok] by (auto simp: active_attempt_keys_def)
  ultimately show ?thesis
    using ok row fresh fk by (auto simp: schema_lists list_all_iff)
qed

definition task_links :: "Task \<Rightarrow> string \<times> string option \<times> string option \<times> string \<times> int option" where
  "task_links t = (t_ID t, t_OrganizationID t, t_RepositoryID t, t_SourceType t, t_SourceIssueNumber t)"

lemma schema_ok_update_tasks:
  assumes ok: "schema_ok d"
    and row: "\<And>t. t \<in> set (tasks d) \<Longrightarrow> p t \<Longrightarrow> task_row_ok (f t)"
    and links: "\<And>t. task_links (f t) = task_links t"
    and act: "\<And>t. t \<in> set (tasks d) \<Longrightarrow> p t \<Longrightarrow> t_Phase (f t) \<noteq> PhaseTerminal \<Longrightarrow>
                t_Phase t \<noteq> PhaseTerminal"
  shows "schema_ok (d\<lparr>tasks := update_where p f (tasks d)\<rparr>)"
proof -
  let ?ts = "update_where p f (tasks d)"
  have l: "t_ID (f t) = t_ID t" "t_OrganizationID (f t) = t_OrganizationID t"
    "t_RepositoryID (f t) = t_RepositoryID t" "t_SourceType (f t) = t_SourceType t"
    "t_SourceIssueNumber (f t) = t_SourceIssueNumber t" for t
    using links [of t] by (simp_all add: task_links_def)
  have ids: "map t_ID ?ts = map t_ID (tasks d)" by (simp add: map_update_where l)
  have keys: "distinct (active_issue_keys ?ts)"
    unfolding active_issue_keys_def
    by (rule distinct_filter_update [THEN conjunct1])
      (use schema_ok_taskD(3) [OF ok] act in \<open>auto simp: active_issue_keys_def l\<close>)
  have rows: "list_all task_row_ok ?ts"
    using schema_ok_taskD(1) [OF ok] row by (auto simp: list_all_iff in_update_where_iff)
  have fk: "list_all P ?ts" if "list_all P (tasks d)" and "\<And>t. P (f t) = P t" for P
    using that by (intro list_all_update_where) auto
  show ?thesis
    using ok keys rows
    by (simp add: schema_lists ids del: set_map) (auto intro!: fk simp: l)
qed

lemma schema_ok_append_event:
  assumes ok: "schema_ok d" and row: "event_row_ok e"
    and fresh: "e_ID e \<notin> e_ID ` set (events d)"
    and seq: "\<And>f. f \<in> set (attempt_events d (e_TaskAttemptID e)) \<Longrightarrow>
                e_SequenceNumber f \<noteq> e_SequenceNumber e"
    and key: "\<And>f. f \<in> set (attempt_events d (e_TaskAttemptID e)) \<Longrightarrow>
                e_IdempotencyKey e = None \<or> e_IdempotencyKey f \<noteq> e_IdempotencyKey e"
    and fk: "e_TaskAttemptID e \<in> a_ID ` set (attempts d)"
  shows "schema_ok (d\<lparr>events := events d @ [e]\<rparr>)"
proof -
  have in_attempt: "f \<in> set (attempt_events d (e_TaskAttemptID e))"
    if "f \<in> set (events d)" "e_TaskAttemptID f = e_TaskAttemptID e" for f
    using that by (simp add: attempt_events_def)
  note dist = schema_ok_pairs(2,3) [OF ok]
  have "(e_TaskAttemptID e, e_SequenceNumber e)
      \<notin> (\<lambda>e. (e_TaskAttemptID e, e_SequenceNumber e)) ` set (events d)"
  proof
    assume "(e_TaskAttemptID e, e_SequenceNumber e)
      \<in> (\<lambda>e. (e_TaskAttemptID e, e_SequenceNumber e)) ` set (events d)"
    then obtain f where "f \<in> set (events d)" "e_TaskAttemptID f = e_TaskAttemptID e"
      and f: "e_SequenceNumber f = e_SequenceNumber e" by (elim imageE) simp
    then have "e_SequenceNumber f \<noteq> e_SequenceNumber e" using seq [OF in_attempt] by blast
    with f show False by simp
  qed
  then have "distinct (map (\<lambda>e. (e_TaskAttemptID e, e_SequenceNumber e)) (events d @ [e]))"
    using dist(1) by simp
  moreover have "(e_TaskAttemptID e, e_IdempotencyKey e) \<notin> set (idempotency_keys (events d))"
  proof
    assume "(e_TaskAttemptID e, e_IdempotencyKey e) \<in> set (idempotency_keys (events d))"
    then obtain f where mem: "f \<in> set (events d)" "e_TaskAttemptID f = e_TaskAttemptID e"
      and f: "e_IdempotencyKey f = e_IdempotencyKey e" "e_IdempotencyKey e \<noteq> None"
      unfolding idempotency_keys_iff by blast
    show False using key [OF in_attempt [OF mem]] f by simp
  qed
  then have "distinct (idempotency_keys (events d @ [e]))"
    using dist(2) by (simp add: idempotency_keys_def)
  ultimately show ?thesis
    using ok row fresh fk by (auto simp: schema_lists list_all_iff)
qed

section \<open>What a transition's texts must satisfy\<close>

definition revision_fits :: "RevisionParams \<Rightarrow> bool" where
  "revision_fits v \<longleftrightarrow> text_between 1 100000 (v_Instructions v) \<and> is_sha (v_BaseCommitSHA v)
     \<and> text_between 1 255 (v_RequestedByLogin v) \<and> 0 < v_TriggerCommentID v
     \<and> int (length (v_Feedback v)) \<le> 1000"

definition transition_fits :: "TransitionParams \<Rightarrow> bool" where
  "transition_fits p \<longleftrightarrow>
     null_or (text_between 1 100) (nullif_empty (p_FailureCode p))
     \<and> null_or (text_between 1 10000) (nullif_empty (p_FailureMessage p))
     \<and> null_or (text_between 1 200) (nullif_empty (p_IdempotencyKey p))
     \<and> pg_text (p_Reason p) \<and> null_or revision_fits (p_revision p)"

text \<open>\<open>gen_random_uuid()\<close> returns ids not in use.\<close>

definition ids_fresh :: "env \<Rightarrow> db \<Rightarrow> bool" where
  "ids_fresh E d \<longleftrightarrow> env_uuid E (length (tasks d)) \<notin> t_ID ` set (tasks d)
     \<and> env_uuid E (length (attempts d)) \<notin> a_ID ` set (attempts d)
     \<and> env_uuid E (length (events d)) \<notin> e_ID ` set (events d)"

lemma set_runes: "r \<in> set (runes s) \<Longrightarrow> set r \<subseteq> set s"
  using concat_runes [of s] by (metis UN_upper set_concat)

lemma truncate_runes_chars: "set (truncate_runes s n) \<subseteq> set s \<union> set rune_error"
  unfolding truncate_runes_def encode_rune_def Let_def
  by (auto dest!: in_set_takeD dest: set_runes split: if_splits)

lemma truncate_runes_pg_text: "pg_text s \<Longrightarrow> pg_text (truncate_runes s n)"
  using truncate_runes_chars [of s n]
  by (auto simp: pg_text_def truncate_runes_valid rune_error_def)

lemma status_reason_ok:
  assumes "pg_text r"
  shows "null_or (text_between 1 1000) (nullif_empty (truncate_runes r maxStatusReasonLen))"
proof (cases "truncate_runes r maxStatusReasonLen")
  case (Cons c cs)
  then have "0 < rune_count (truncate_runes r maxStatusReasonLen)" by (intro rune_count_pos) simp
  moreover have "rune_count (truncate_runes r maxStatusReasonLen) \<le> 1000"
    using truncate_runes_count [of r maxStatusReasonLen] by (simp add: maxStatusReasonLen_def)
  ultimately show ?thesis
    using truncate_runes_pg_text [OF assms, of maxStatusReasonLen] Cons
    by (simp add: text_between_def Let_def)
qed simp

lemma null_or_keep_unless:
  "null_or P c \<Longrightarrow> null_or P (nullif_empty s) \<Longrightarrow> null_or P (keep_unless s c)"
  by (cases s) (simp_all add: keep_unless_def)

lemma null_or_coalesce: "null_or P c \<Longrightarrow> P x \<Longrightarrow> null_or P (coalesce c x)"
  by (cases c) simp_all

lemma transition_row_ok:
  assumes row: "task_row_ok t" and can: "CanTransition (t_Status t) (p_To p)"
    and fits: "transition_fits p"
  shows "task_row_ok (transition_row E p t)"
proof -
  have "\<not> Terminal (t_Status t)" and "Valid (p_To p)"
    using CanTransition_not_Terminal [OF can] CanTransition_Valid [OF can] by simp_all
  moreover from this row have "t_CompletedAt t = None" by (simp add: task_row_ok_def)
  ultimately show ?thesis
    using row fits status_reason_ok [of "p_Reason p"]
    by (auto simp: task_row_ok_def transition_row_def transition_fits_def
        intro: null_or_keep_unless)
qed

lemma attempt_rows_ok:
  assumes "attempt_row_ok a" and "transition_fits p"
  shows "Terminal (p_To p) \<Longrightarrow> attempt_row_ok (finish_attempt E p a)"
    and "attempt_row_ok (supersede_attempt E a)" and "attempt_row_ok (start_attempt E a)"
  using assms
  by (auto simp: attempt_row_ok_def finish_attempt_def supersede_attempt_def start_attempt_def
      attempt_status_ok_def transition_fits_def)

lemma revision_row_ok:
  assumes "null_or revision_fits r" and "1 \<le> n"
  shows "attempt_row_ok (revision_attempt E i tid n r)"
  using assms
  by (cases r) (simp_all add: revision_attempt_def bare_attempt_def attempt_row_ok_def
      attempt_status_ok_def revision_fits_def)

lemma attempt_links_ops [simp]:
  "attempt_links (finish_attempt E p a) = attempt_links a"
  "attempt_links (supersede_attempt E a) = attempt_links a"
  "attempt_links (start_attempt E a) = attempt_links a"
  by (simp_all add: attempt_links_def finish_attempt_def supersede_attempt_def start_attempt_def)

lemma start_attempt_core [simp]: "a_ID (start_attempt E a) = a_ID a"
  "a_Status (start_attempt E a) = a_Status a" "a_TaskID (start_attempt E a) = a_TaskID a"
  by (simp_all add: start_attempt_def)

lemma TransitionEventType_fits: "Valid s \<Longrightarrow> text_between 1 200 (TransitionEventType s)"
proof -
  have "list_all (\<lambda>s. text_between 1 200 (TransitionEventType s)) AllStatuses" by code_simp
  then show "Valid s \<Longrightarrow> ?thesis" by (simp add: list_all_iff Valid_iff_AllStatuses)
qed

lemma status_string_no_NUL: "Valid s \<Longrightarrow> CHR 0x00 \<notin> set (status_string s)"
proof -
  have "list_all (\<lambda>s. CHR 0x00 \<notin> set (status_string s)) AllStatuses" by code_simp
  then show "Valid s \<Longrightarrow> ?thesis" by (simp add: list_all_iff Valid_iff_AllStatuses)
qed

lemma max_list_ge: "n \<in> set ns \<Longrightarrow> n \<le> max_list ns" "0 \<le> max_list ns"
  by (induction ns) (auto simp: max_list_def)

lemma next_sequence_above:
  "e \<in> set (attempt_events d aid) \<Longrightarrow> e_SequenceNumber e < next_sequence d aid"
  "1 \<le> next_sequence d aid"
  using max_list_ge(1) [of "e_SequenceNumber e" "map e_SequenceNumber (attempt_events d aid)"]
    max_list_ge(2) [of "map e_SequenceNumber (attempt_events d aid)"]
  by (auto simp: next_sequence_def)

section \<open>Each statement of a transition succeeds\<close>

lemma insertEvent_succeeds:
  assumes ff: "fault_free E" and ok: "schema_ok d"
    and fresh: "env_uuid E (length (events d)) \<notin> e_ID ` set (events d)"
    and fk: "aid \<in> a_ID ` set (attempts d)" and ty: "text_between 1 200 ty"
    and src: "validSource src" and pl: "json_ok pl"
    and key: "null_or (text_between 1 200) (nullif_empty key)"
    and new: "\<And>f. f \<in> set (attempt_events d aid) \<Longrightarrow>
                key = [] \<or> e_IdempotencyKey f \<noteq> nullif_empty key"
  shows "\<exists>d'. insertEvent E aid ty src pl key d = Inr d'"
proof -
  let ?e = "new_event E aid ty src pl key d"
  have "schema_ok (d\<lparr>events := events d @ [?e]\<rparr>)"
  proof (rule schema_ok_append_event [OF ok])
    show "event_row_ok ?e"
      using ty src pl key next_sequence_above(2) [of d aid]
      by (auto simp: event_row_ok_def new_event_def validSource_def)
    show "e_ID ?e \<notin> e_ID ` set (events d)" using fresh by (simp add: new_event_def)
    show "e_TaskAttemptID ?e \<in> a_ID ` set (attempts d)" using fk by (simp add: new_event_def)
    fix f assume "f \<in> set (attempt_events d (e_TaskAttemptID ?e))"
    then have f: "f \<in> set (attempt_events d aid)" by (simp add: new_event_def)
    show "e_SequenceNumber f \<noteq> e_SequenceNumber ?e"
      using next_sequence_above(1) [OF f] by (simp add: new_event_def)
    show "e_IdempotencyKey ?e = None \<or> e_IdempotencyKey f \<noteq> e_IdempotencyKey ?e"
      using new [OF f] by (auto simp: new_event_def)
  qed
  then show ?thesis using ff by (auto simp: insertEvent_Inr fault_free_def)
qed

lemma update_attempt_succeeds:
  assumes ok: "schema_ok d" and mem: "att \<in> set (attempts d)" and row: "attempt_row_ok (f att)"
    and links: "\<And>a. attempt_links (f a) = attempt_links a"
    and act: "\<And>a. a_Status (f a) = AttemptActive \<Longrightarrow> a_Status a = AttemptActive"
  shows "schema_ok (update_attempt (a_ID att) f d)"
  unfolding update_attempt_def
proof (rule schema_ok_update_attempts [OF ok _ links act])
  fix a assume "a \<in> set (attempts d)" and "a_ID a = a_ID att"
  then have "a = att" using attempt_eq_by_ID [OF ok _ mem] by blast
  then show "attempt_row_ok (f a)" using row by simp
qed

lemma superseded_append_ok:
  assumes ok: "schema_ok d1" and d1: "d1 = update_attempt (a_ID att) (supersede_attempt E) d"
    and inv: "db_inv d" and t: "t \<in> set (tasks d)"
    and act: "active_attempt d (t_ID t) = Some att"
    and fresh: "i \<notin> a_ID ` set (attempts d)" and r: "null_or revision_fits r"
  shows "schema_ok (d1\<lparr>attempts := attempts d1 @ [revision_attempt E i (t_ID t) (a_Number att + 1) r]\<rparr>)"
proof (rule schema_ok_append_attempt [OF ok])
  let ?as = "task_attempts d (t_ID t)"
  note ok0 = db_invD(1) [OF inv] and wf = db_invD(3) [OF inv t]
  have as1: "attempts d1 = update_where (\<lambda>a. a_ID a = a_ID att) (supersede_attempt E) (attempts d)"
    by (simp add: d1 update_attempt_def)
  have snoc: "?as = butlast ?as @ [att]" by (rule active_attempt_last(2) [OF wf act])
  have "numbered (map a_Number ?as)" using wf by (simp add: attempts_wf_def Let_def)
  then have num: "numbered (map a_Number (butlast ?as) @ [a_Number att])"
    by (subst (asm) snoc) simp
  have attn: "a_Number att = int (length ?as)"
    using num by (subst snoc) (simp add: numbered_snoc_iff)
  have le: "a_Number a \<le> a_Number att" if "a \<in> set ?as" for a
  proof -
    have "a_Number a \<in> set (map a_Number (butlast ?as) @ [a_Number att])"
      using that by (subst (asm) snoc) auto
    from numbered_le [OF num this] have "a_Number a \<le> int (length (butlast ?as)) + 1" by simp
    moreover have "?as \<noteq> []" using that by auto
    ultimately show ?thesis by (cases ?as) (auto simp: attn split: if_splits)
  qed
  have old: "\<exists>a\<in>set ?as. a_Number b = a_Number a \<and> (a_Status b = AttemptActive \<longrightarrow>
      a_Status a = AttemptActive \<and> a_ID a \<noteq> a_ID att)"
    if "b \<in> set (attempts d1)" and "a_TaskID b = t_ID t" for b
  proof -
    from that(1) obtain a where a: "a \<in> set (attempts d)"
      and b: "(a_ID a = a_ID att \<and> b = supersede_attempt E a) \<or> (a_ID a \<noteq> a_ID att \<and> b = a)"
      unfolding as1 in_update_where_iff by blast
    with that(2) show ?thesis
      by (intro bexI [of _ a]) (auto simp: task_attempts_nonempty_member)
  qed
  show "a_Number b \<noteq> a_Number (revision_attempt E i (t_ID t) (a_Number att + 1) r)"
    if "b \<in> set (attempts d1)"
      and "a_TaskID b = a_TaskID (revision_attempt E i (t_ID t) (a_Number att + 1) r)" for b
    using old [OF that(1)] that(2) le by fastforce
  show "a_Status b \<noteq> AttemptActive"
    if "b \<in> set (attempts d1)"
      and "a_TaskID b = a_TaskID (revision_attempt E i (t_ID t) (a_Number att + 1) r)" for b
  proof
    assume "a_Status b = AttemptActive"
    with old [OF that(1)] that(2) obtain a where a: "a \<in> set ?as" "a_Status a = AttemptActive"
      "a_ID a \<noteq> a_ID att" by auto
    have "set ?as = insert att (set (butlast ?as))" by (subst snoc) simp
    with a have "a \<in> set (butlast ?as)" by auto
    then have "a_Status a = AttemptSuperseded" using wf by (simp add: attempts_wf_def Let_def)
    with a(2) show False by simp
  qed
  show "attempt_row_ok (revision_attempt E i (t_ID t) (a_Number att + 1) r)"
    by (rule revision_row_ok [OF r]) (simp add: attn)
  have "map a_ID (attempts d1) = map a_ID (attempts d)" by (simp add: as1 map_update_where)
  then show "a_ID (revision_attempt E i (t_ID t) (a_Number att + 1) r) \<notin> a_ID ` set (attempts d1)"
    using fresh by (simp flip: set_map)
  show "a_TaskID (revision_attempt E i (t_ID t) (a_Number att + 1) r) \<in> t_ID ` set (tasks d1)"
    using t by (simp add: d1 update_attempt_def)
qed (simp_all add: revision_attempt_def bare_attempt_def split: option.splits)

lemma settle_attempt_succeeds:
  assumes ff: "fault_free E" and inv: "db_inv d" and cur: "cur \<in> set (tasks d)"
    and act: "active_attempt d (t_ID cur) = Some att"
    and fits: "transition_fits p" and fresh: "ids_fresh E d"
  shows "\<exists>aid d1. settle_attempt E cur p att d = Inr (aid, d1) \<and> schema_ok d1"
proof -
  note ok = db_invD(1) [OF inv]
  have mem: "att \<in> set (attempts d)" using active_attempt_Some [OF act] by blast
  have row: "attempt_row_ok att" using schema_ok_attemptD(1) [OF ok mem] .
  note upd = update_attempt_succeeds [OF ok mem]
  have fin: "schema_ok (update_attempt (a_ID att) (finish_attempt E p) d)" if "Terminal (p_To p)"
    by (rule upd) (use attempt_rows_ok [OF row fits] that in simp_all)
  have sup: "schema_ok (update_attempt (a_ID att) (supersede_attempt E) d)"
    by (rule upd) (use attempt_rows_ok [OF row fits] in simp_all)
  have start: "schema_ok (update_attempt (a_ID att) (start_attempt E) d)"
    by (rule upd) (use attempt_rows_ok [OF row fits] in simp_all)
  have len: "length (attempts (update_attempt i f d)) = length (attempts d)" for i f
    by (simp add: update_attempt_def)
  have new: "schema_ok ((update_attempt (a_ID att) (supersede_attempt E) d)
      \<lparr>attempts := attempts (update_attempt (a_ID att) (supersede_attempt E) d)
        @ [revision_attempt E (env_uuid E (length (attempts d))) (t_ID cur) (a_Number att + 1)
             (p_revision p)]\<rparr>)"
    by (rule superseded_append_ok [OF sup refl inv cur act])
      (use fresh fits in \<open>simp_all add: ids_fresh_def transition_fits_def\<close>)
  show ?thesis
    using ff ok fin sup start new
    by (simp add: settle_attempt_def insertRevisionAttempt_def exec_fault_free len Let_def)
qed

text \<open>No event recorded the key, so the event of the transition may carry it.\<close>

lemma fresh_key:
  assumes "schema_ok d" and "\<not> replayed d tid key"
    and "aid \<in> a_ID ` set (task_attempts d tid) \<or> aid \<notin> a_ID ` set (attempts d)"
    and "f \<in> set (attempt_events d aid)"
  shows "key = [] \<or> e_IdempotencyKey f \<noteq> nullif_empty key"
proof -
  have f: "f \<in> set (events d)" "e_TaskAttemptID f = aid"
    using assms(4) by (auto simp: attempt_events_def)
  then have "aid \<in> a_ID ` set (attempts d)" using schema_ok_eventD(2) [OF assms(1) f(1)] by simp
  with assms(3) have "f \<in> set (task_events d tid)" using f by (auto simp: task_events_def)
  with assms(2) show ?thesis
    by (auto simp: replayed_def key_recorded_def nullif_empty_def)
qed

lemma applyTransition_succeeds:
  assumes ff: "fault_free E" and inv: "db_inv d" and cur: "cur \<in> set (tasks d)"
    and src: "validSource (if p_Source p = [] then ''system'' else p_Source p)"
    and new: "\<not> replayed d (t_ID cur) (p_IdempotencyKey p)"
    and ver: "p_ExpectedVersion p = 0 \<or> p_ExpectedVersion p = t_Version cur"
    and can: "CanTransition (t_Status cur) (p_To p)"
    and fits: "transition_fits p" and fresh: "ids_fresh E d"
  shows "\<exists>next d'. applyTransition E cur p d = Inr (next, d')"
proof -
  note ok = db_invD(1) [OF inv]
  let ?upd = "\<lambda>d. d\<lparr>tasks := update_where (\<lambda>t. t_ID t = t_ID cur) (transition_row E p) (tasks d)\<rparr>"
  have "\<not> Terminal (t_Status cur)" by (rule CanTransition_not_Terminal [OF can])
  then obtain att where act: "active_attempt d (t_ID cur) = Some att"
    using active_attempt_exists [OF ok db_invD(3) [OF inv cur]] by blast
  from settle_attempt_succeeds [OF ff inv cur act fits fresh]
  obtain aid d1 where settle: "settle_attempt E cur p att d = Inr (aid, d1)" and ok1: "schema_ok d1"
    by blast
  have frame: "\<exists>as'. d1 = d\<lparr>attempts := as'\<rparr> \<and> aid \<in> a_ID ` set as'
      \<and> (aid = a_ID att \<or> aid = env_uuid E (length (attempts d)))"
    using settle
  proof (cases rule: settle_attempt_InrE)
    case same
    have "att \<in> set (attempts d)" using active_attempt_Some [OF act] by blast
    then have "a_ID att \<in> a_ID ` set (update_where (\<lambda>a. a_ID a = a_ID att) (attempt_effect E p)
        (attempts d))"
      by (simp flip: set_map add: map_update_where) simp
    with same show ?thesis by (intro exI conjI) (assumption, simp_all)
  next
    case (requeue new)
    from requeue(3,4) show ?thesis unfolding requeue(2) by (intro exI conjI) (assumption, simp_all)
  qed
  then obtain as' where d1: "d1 = d\<lparr>attempts := as'\<rparr>" and aid: "aid \<in> a_ID ` set as'"
    "aid = a_ID att \<or> aid = env_uuid E (length (attempts d))" by blast
  have ok2: "schema_ok (?upd d1)"
  proof (rule schema_ok_update_tasks [OF ok1])
    fix t assume "t \<in> set (tasks d1)" and "t_ID t = t_ID cur"
    then have "t = cur" using task_eq_by_ID [OF ok _ cur] by (simp add: d1)
    then show "task_row_ok (transition_row E p t)"
      using transition_row_ok [OF schema_ok_taskD(1) [OF ok cur] can fits] by simp
    show "t_Phase t \<noteq> PhaseTerminal"
      using \<open>t = cur\<close> schema_ok_taskD(1) [OF ok cur] \<open>\<not> Terminal (t_Status cur)\<close>
        CanTransition_Valid [OF can] by (simp add: task_row_ok_def Phase_terminal_iff)
  next
    show "task_links (transition_row E p t) = task_links t" for t
      by (simp add: task_links_def transition_row_def)
  qed
  have found: "find_task (?upd d1) (t_ID cur) = Some (transition_row E p cur)"
    using find_task_self [OF ok cur]
    by (simp add: find_task_def find_update_where d1)
  have "\<exists>d3. insertEvent E aid (TransitionEventType (p_To p))
      (if p_Source p = [] then ''system'' else p_Source p)
      (transition_payload (t_Status cur) p) (p_IdempotencyKey p) (?upd d1) = Inr d3"
  proof (rule insertEvent_succeeds [OF ff ok2 _ _ _ src])
    have valid: "Valid (t_Status cur)" "Valid (p_To p)" using CanTransition_Valid [OF can] by auto
    show "env_uuid E (length (events (?upd d1))) \<notin> e_ID ` set (events (?upd d1))"
      using fresh by (simp add: d1 ids_fresh_def)
    show "aid \<in> a_ID ` set (attempts (?upd d1))" using aid by (simp add: d1)
    show "text_between 1 200 (TransitionEventType (p_To p))"
      using valid by (simp add: TransitionEventType_fits)
    show "json_ok (transition_payload (t_Status cur) p)"
      using valid fits
      by (simp add: transition_payload_def status_string_no_NUL transition_fits_def pg_text_def)
    show "null_or (text_between 1 200) (nullif_empty (p_IdempotencyKey p))"
      using fits by (simp add: transition_fits_def)
    fix f assume "f \<in> set (attempt_events (?upd d1) aid)"
    then have "f \<in> set (attempt_events d aid)" by (simp add: attempt_events_def d1)
    moreover have "aid \<in> a_ID ` set (task_attempts d (t_ID cur)) \<or> aid \<notin> a_ID ` set (attempts d)"
      using aid(2)
    proof
      assume "aid = env_uuid E (length (attempts d))"
      then show ?thesis using fresh by (simp add: ids_fresh_def)
    qed (use active_attempt_Some [OF act] in blast)
    ultimately show "p_IdempotencyKey p = [] \<or> e_IdempotencyKey f \<noteq> nullif_empty (p_IdempotencyKey p)"
      by (intro fresh_key [OF ok new])
  qed
  then show ?thesis
    using ff src new ver can act settle ok2 found
    by (auto simp: applyTransition_def Let_def idempotency_check_def replayed_def
        load_active_attempt_def update_task_def exec_fault_free)
qed

end
