(* ===== verification/Scenario.thy ===== *)
theory Scenario
  imports Platform
begin

text \<open>
  Concrete databases and calls, evaluated by the kernel, on which the witnesses of the properties
  run: an empty platform in which a task is created, and one with a registered runner and a task
  that an agent has taken to review.
\<close>

section \<open>Calls\<close>

text \<open>A driver without faults at instant \<open>t\<close>; generated ids are single letters.\<close>

definition demo_env :: "time \<Rightarrow> env" where
  "demo_env t = \<lparr>env_now = t, env_uuid = (\<lambda>n. [char_of (65 + n)]), env_fault = (\<lambda>_. None)\<rparr>"

lemma demo_env_fault_free [simp]: "fault_free (demo_env t)"
  by (simp add: demo_env_def fault_free_def)

definition demo_create :: CreateParams where
  "demo_create = \<lparr>c_Title = ''Fix'', c_Instructions = ''Do'', c_Priority = 0,
     c_BaseBranch = [], c_MaxRuntimeSeconds = None, c_MaxCostUSD = None, c_SourceType = [],
     c_SourceIssueNumber = None, c_SourceCommentID = None, c_OrganizationID = None,
     c_RepositoryID = None, c_RequestedByLogin = []\<rparr>"

definition demo_tid :: string where
  "demo_tid = ''00000000-0000-4000-8000-000000000001''"

definition demo_sha :: string where
  "demo_sha = ''0123456789012345678901234567890123456789''"

definition demo_revision :: RevisionParams where
  "demo_revision = \<lparr>v_Instructions = ''Again'', v_BaseCommitSHA = demo_sha,
     v_RequestedByLogin = ''bob'', v_TriggerCommentID = 7, v_Feedback = [], v_MaxAttempts = 3,
     v_IdempotencyKey = ''k'', v_Reason = []\<rparr>"

section \<open>Databases\<close>

definition demo_task :: "status \<Rightarrow> int \<Rightarrow> Task" where
  "demo_task s v = (created_task (demo_env 1) (create_defaults demo_create) empty_db)
     \<lparr>t_ID := demo_tid, t_Status := s, t_Phase := Phase s, t_Version := v\<rparr>"

definition demo_event :: "int \<Rightarrow> status \<Rightarrow> Event" where
  "demo_event n s = \<lparr>e_ID = [char_of (64 + nat n)], e_TaskAttemptID = ''a'', e_SequenceNumber = n,
     e_EventType = TransitionEventType s, e_Source = ''system'', e_Timestamp = 1,
     e_Payload = JObj [], e_IdempotencyKey = None\<rparr>"

definition demo_events :: "status list \<Rightarrow> Event list" where
  "demo_events ss = map (\<lambda>(n, s). demo_event n s) (zip [1..int (length ss)] ss)"

definition demo_runner :: "string \<Rightarrow> Runner" where
  "demo_runner rid = \<lparr>r_ID = rid, r_Type = ''process'', r_HostnameOrPod = ''h'',
     r_Status = RunnerOnline, r_Capacity = 1, r_Labels = [], r_LastHeartbeatAt = 1,
     r_CreatedAt = 1, r_UpdatedAt = 1\<rparr>"

text \<open>A task after the path \<open>ss\<close> from \<open>created\<close>, with its one attempt and its events.\<close>

definition demo_db :: "status list \<Rightarrow> db" where
  "demo_db ss = empty_db
     \<lparr>tasks := [demo_task (last ss) (int (length ss))],
      attempts := [bare_attempt (demo_env 1) ''a'' demo_tid 1],
      events := demo_events ss, runners := [demo_runner ''r'', demo_runner ''s'']\<rparr>"

definition demo_queued :: db where
  "demo_queued = demo_db [StatusCreated, StatusQueued]"

definition demo_review :: db where
  "demo_review = demo_db [StatusCreated, StatusQueued, StatusProvisioning, StatusPlanning,
     StatusExecuting, StatusValidating, StatusPublishing, StatusAwaitingReview]"

lemma demo_queued_inv: "db_inv demo_queued"
  by code_simp

lemma demo_review_inv: "db_inv demo_review"
  by code_simp

lemma demo_queued_task: "find_task demo_queued (pg_uuid demo_tid) = Some (demo_task StatusQueued 2)"
  by code_simp

text \<open>The same platform where the task comes from issue 7 of a repository.\<close>

definition demo_repo :: string where
  "demo_repo = ''00000000-0000-4000-8000-00000000000f''"

definition demo_issue_task :: Task where
  "demo_issue_task = (demo_task StatusQueued 2)\<lparr>t_SourceType := ''github_issue'',
     t_RepositoryID := Some demo_repo, t_SourceIssueNumber := Some 7\<rparr>"

definition demo_issue :: db where
  "demo_issue = demo_queued\<lparr>tasks := [demo_issue_task],
     organizations := [\<lparr>o_ID = ''o'', o_Name = ''acme'', o_Slug = ''acme'', o_AccountID = 1,
       o_AccountLogin = ''acme'', o_AccountType = ''User'', o_UpdatedAt = 1\<rparr>],
     repositories := [\<lparr>g_ID = demo_repo, g_OrganizationID = ''o'', g_GitHubRepositoryID = 5,
       g_Owner = ''acme'', g_Name = ''api'', g_FullName = ''acme/api'', g_DefaultBranch = ''main'',
       g_CloneURL = ''u'', g_IsPrivate = False, g_IsEnabled = True, g_SettingsJSON = JObj [],
       g_UpdatedAt = 1\<rparr>]\<rparr>"

lemma demo_issue_inv: "db_inv demo_issue"
  by code_simp

text \<open>A task whose revision is queued: attempt 1 is superseded, attempt 2 is active.\<close>

definition demo_aid :: string where
  "demo_aid = ''00000000-0000-4000-8000-00000000000a''"

definition demo_revised :: db where
  "demo_revised = demo_db [StatusQueued]
     \<lparr>tasks := [demo_task StatusQueued 10],
      attempts := [(bare_attempt (demo_env 1) demo_aid demo_tid 1)\<lparr>a_Status := AttemptSuperseded\<rparr>,
                   bare_attempt (demo_env 1) ''B'' demo_tid 2],
      events := map (\<lambda>e. e\<lparr>e_TaskAttemptID := demo_aid\<rparr>)
          (demo_events [StatusCreated, StatusQueued, StatusProvisioning, StatusPlanning,
             StatusExecuting, StatusValidating, StatusPublishing, StatusAwaitingReview,
             StatusRevisionRequested])
        @ [(demo_event 1 StatusQueued)\<lparr>e_ID := ''q'', e_TaskAttemptID := ''B''\<rparr>]\<rparr>"

lemma demo_revised_inv: "db_inv demo_revised"
  by code_simp

text \<open>The queued task, claimed by runner \<open>r\<close> until instant 60.\<close>

definition demo_claimed :: db where
  "demo_claimed = demo_queued\<lparr>attempts := [lease_row (demo_env 0) ''r'' 60
     (bare_attempt (demo_env 1) ''a'' demo_tid 1)]\<rparr>"

lemma demo_claimed_inv: "db_inv demo_claimed"
  by code_simp

text \<open>The queued task under an attempt whose lease ran out at instant 4.\<close>

definition demo_due_attempt :: Attempt where
  "demo_due_attempt = lease_row (demo_env 0) ''r'' 4 (bare_attempt (demo_env 1) demo_aid demo_tid 1)"

definition demo_due :: db where
  "demo_due = demo_queued\<lparr>attempts := [demo_due_attempt],
     events := map (\<lambda>e. e\<lparr>e_TaskAttemptID := demo_aid\<rparr>) (events demo_queued)\<rparr>"

lemma demo_due_inv: "db_inv demo_due"
  by code_simp

section \<open>Runs\<close>

lemma demo_create_ok: "is_ok (Create (demo_env 1) demo_create empty_db)"
  by code_simp

lemma demo_transition_ok: "is_ok (Transition (demo_env 2) demo_tid
    ((transition_to StatusProvisioning ''runner'')\<lparr>p_IdempotencyKey := ''k''\<rparr>) demo_queued)"
  by code_simp

lemma demo_revision_ok: "is_ok (RequestRevision (demo_env 2) demo_tid demo_revision demo_review)"
  by code_simp

lemma demo_claim_ok:
  "is_ok (ClaimNext (demo_env 2) (\<lambda>_. False) ''r'' 60 demo_queued)"
  by code_simp

lemma demo_late_ok: "is_ok (AppendAttemptEvent (demo_env 2) demo_aid ''runner.workspace_cleaned''
    ''runner'' (JObj []) demo_revised)"
  by code_simp

lemma demo_extend_ok: "is_ok (ExtendLease (demo_env 30) ''a'' ''r'' 60 demo_claimed)"
  by code_simp

end
