(* ===== verification/TaskProps.thy ===== *)
theory TaskProps
  imports TaskProgress Scenario
begin

text \<open>
  The properties of the task store: what every reachable database looks like, what a transition, a
  revision and a creation do and refuse, and that retried requests act once.
\<close>

section \<open>Facts the properties share\<close>

lemma key_recorded_mono:
  assumes "key_recorded d tid key" and "db_le d d'"
  shows "key_recorded d' tid key"
proof -
  from assms(1) obtain e a where e: "e \<in> set (events d)" "e_IdempotencyKey e = Some key"
    and a: "a \<in> set (attempts d)" "a_TaskID a = tid" "e_TaskAttemptID e = a_ID a"
    by (auto simp: key_recorded_def task_events_def task_attempts_nonempty_member)
  obtain es where "events d' = events d @ es" using db_leD(3) [OF assms(2)] by blast
  moreover obtain a' where "a' \<in> set (attempts d')" "attempt_le a a'"
    using db_leD(2) [OF assms(2) a(1)] by blast
  then have "a' \<in> set (attempts d')" "a_ID a' = a_ID a" "a_TaskID a' = tid"
    using a(2) by (simp_all add: attempt_le_def attempt_origin_def)
  then have "a_ID a \<in> a_ID ` set (task_attempts d' tid)"
    by (metis image_eqI task_attempts_nonempty_member)
  ultimately show ?thesis
    using e a(3) by (auto simp: key_recorded_def task_events_def)
qed

lemma find_task_mono:
  assumes "find_task d tid = Some t" and "db_le d d'" and "schema_ok d'"
  shows "\<exists>t'. find_task d' tid = Some t' \<and> task_le t t'"
proof -
  obtain t' where "t' \<in> set (tasks d')" "task_le t t'"
    using find_task_Some [OF assms(1)] db_leD(1) [OF assms(2)] by blast
  moreover from this have "t_ID t' = tid"
    using find_task_Some [OF assms(1)] by (simp add: task_le_def task_origin_def)
  ultimately show ?thesis using find_task_self [OF assms(3)] by blast
qed

text \<open>One effective transition, with the rows of the task after it.\<close>

lemma applyTransition_effect:
  assumes inv: "db_inv d" and cur: "cur \<in> set (tasks d)"
    and app: "applyTransition E cur p d = Inr (next, d')"
    and new: "\<not> replayed d (t_ID cur) (p_IdempotencyKey p)"
  obtains att e where "CanTransition (t_Status cur) (p_To p)" and "next = transition_row E p cur"
    and "find_task d' (t_ID cur) = Some next"
    and "active_attempt d (t_ID cur) = Some att"
    and "task_attempts d (t_ID cur) = butlast (task_attempts d (t_ID cur)) @ [att]"
    and "task_attempts d' (t_ID cur) = butlast (task_attempts d (t_ID cur)) @
          (if requeues cur p
           then [supersede_attempt E att, revision_attempt E (env_uuid E (length (attempts d)))
                   (t_ID cur) (a_Number att + 1) (p_revision p)]
           else [attempt_effect E p att])"
    and "events d' = events d @ [e]"
    and "e_EventType e = TransitionEventType (p_To p)"
    and "e_Payload e = transition_payload (t_Status cur) p"
    and "e_IdempotencyKey e = nullif_empty (p_IdempotencyKey p)"
    and "e_TaskAttemptID e = a_ID (last (task_attempts d' (t_ID cur)))"
    and "\<And>tid'. tid' \<noteq> t_ID cur \<Longrightarrow> find_task d' tid' = find_task d tid' \<and>
           task_attempts d' tid' = task_attempts d tid'"
  using app
proof (cases rule: applyTransition_InrE)
  case replay
  with new show thesis by blast
next
  case (step att as' aid t0)
  note ok = db_invD(1) [OF inv] and wf = db_invD(3) [OF inv cur]
  note atts = step_attempts [OF ok wf refl step(4,9)]
  have tas: "task_attempts d' x = task_attempts (d\<lparr>attempts := as'\<rparr>) x" for x
    by (rule task_attempts_cong) (simp add: step(7) step_db_def)
  have t0: "t0 = cur" using find_task_self [OF ok cur] step(5) by simp
  have found: "find_task d' x = (if x = t_ID cur then Some (transition_row E p cur) else find_task d x)"
    for x
  proof -
    have "find_task d' x = map_option (\<lambda>r. if t_ID r = t_ID cur then transition_row E p r else r)
        (find_task d x)"
      by (simp add: find_task_def step(7) step_db_def find_update_where)
    then show ?thesis
      using step(5) by (cases "find_task d x") (auto simp: t0 dest: find_task_Some)
  qed
  have aid: "aid = a_ID (last (task_attempts d' (t_ID cur)))"
    using step(9) unfolding tas atts(1) by (auto split: if_splits)
  have snoc: "task_attempts d (t_ID cur) = butlast (task_attempts d (t_ID cur)) @ [att]"
    by (rule active_attempt_last(2) [OF wf step(4)])
  have next': "next = transition_row E p cur" using step(6) t0 by simp
  have others: "find_task d' tid' = find_task d tid' \<and> task_attempts d' tid' = task_attempts d tid'"
    if "tid' \<noteq> t_ID cur" for tid'
    unfolding tas atts(2) [OF that] found if_not_P [OF that] by (intro conjI refl)
  have found': "find_task d' (t_ID cur) = Some next"
    unfolding found next' if_P [OF refl] by (rule refl)
  have es: "events d' = events d @ [step_event E cur p aid d]"
    by (simp add: step(7) step_db_def)
  have ev: "e_EventType (step_event E cur p aid d) = TransitionEventType (p_To p)"
    "e_Payload (step_event E cur p aid d) = transition_payload (t_Status cur) p"
    "e_IdempotencyKey (step_event E cur p aid d) = nullif_empty (p_IdempotencyKey p)"
    "e_TaskAttemptID (step_event E cur p aid d) = a_ID (last (task_attempts d' (t_ID cur)))"
    by (simp_all add: step_event_def new_event_def flip: aid)
  show thesis
    by (rule that [OF step(3) next' found' step(4) snoc _ es ev others])
      (simp only: tas atts(1), assumption)
qed

lemma transition_records_key:
  assumes inv: "db_inv d" and T: "Transition E tid p d = Inr (next, d')" and key: "p_IdempotencyKey p \<noteq> []"
  shows "key_recorded d' (pg_uuid tid) (p_IdempotencyKey p)"
  using T
proof (cases rule: Transition_InrE)
  case (1 cur)
  have cur: "cur \<in> set (tasks d)" "t_ID cur = pg_uuid tid" using find_task_Some [OF 1(2)] by auto
  show ?thesis
  proof (cases "replayed d (t_ID cur) (p_IdempotencyKey p)")
    case True
    with 1(3) have "d' = d" by (cases rule: applyTransition_InrE) auto
    with True show ?thesis by (simp add: replayed_def cur)
  next
    case False
    obtain e where "events d' = events d @ [e]"
      and "e_TaskAttemptID e = a_ID (last (task_attempts d' (t_ID cur)))"
      and "e_IdempotencyKey e = nullif_empty (p_IdempotencyKey p)"
      and ne: "task_attempts d' (t_ID cur) \<noteq> []"
      by (rule applyTransition_effect [OF inv cur(1) 1(3) False]) simp
    moreover have "last (task_attempts d' (t_ID cur)) \<in> set (task_attempts d' (t_ID cur))"
      using ne by simp
    ultimately show ?thesis
      using key by (auto simp: key_recorded_def task_events_def cur(2) nullif_empty_def)
  qed
qed

lemma Create_returns_row:
  assumes "db_inv d" and "Create E p0 d = Inr (queued, d')"
  shows "queued \<in> set (tasks d')"
  using assms(2)
proof (cases rule: Create_InrE)
  case (1 t att d3)
  have "db_inv d3"
    by (rule created_inv [OF assms(1) 1(4) _ _ _ _ 1(3)]) (simp_all add: 1(1,2))
  moreover have "t \<in> set (tasks d3)" by (simp add: 1(3))
  ultimately show ?thesis by (rule applyTransition_inv(2) [OF _ _ 1(5)])
qed

section \<open>Reachable databases\<close>

text \<open>
  C1. In every database the platform can reach, whatever interleaving of requests, workers and
  driver faults led there, each task has attempts numbered 1, 2, ... of which at most the last is
  active, and that one exactly while the task is not terminal; the transitions its event log
  records are a legal path of the state machine that ends in its current status; no idempotency
  key is recorded twice for a task; and the events of each attempt are numbered 1, 2, ...
\<close>

theorem reachable_tasks_consistent:
  assumes "reachable d" and "t \<in> set (tasks d)"
  shows "map a_Number (task_attempts d (t_ID t)) = map int [1..<Suc (length (task_attempts d (t_ID t)))]
    \<and> (\<forall>a\<in>set (butlast (task_attempts d (t_ID t))). a_Status a = AttemptSuperseded)
    \<and> a_Status (last (task_attempts d (t_ID t))) =
        (if Terminal (t_Status t) then AttemptEnded (t_Status t) else AttemptActive)
    \<and> legal_path StatusCreated (task_log d (t_ID t))
    \<and> last (StatusCreated # task_log d (t_ID t)) = t_Status t
    \<and> distinct (task_keys d (t_ID t))
    \<and> (\<forall>a\<in>set (attempts d). map e_SequenceNumber (attempt_events d (a_ID a))
         = map int [1..<Suc (length (attempt_events d (a_ID a)))])"
proof -
  have inv: "db_inv d"
    using assms(1) unfolding reachable_def by (rule platform.reachable_inv [OF refl])
  show ?thesis
    using db_invD(2) [OF inv] db_invD(3-5) [OF inv assms(2)]
    by (simp add: attempts_wf_def log_wf_def keys_wf_def seq_wf_def numbered_def
        attempt_status_for_def Let_def)
qed

theorem reachable_tasks_consistent_witness:
  "\<exists>d t. reachable d \<and> t \<in> set (tasks d) \<and> last (StatusCreated # task_log d (t_ID t)) = t_Status t"
proof -
  obtain q d where C: "Create (demo_env 1) demo_create empty_db = Inr (q, d)"
    using demo_create_ok by (auto simp: is_ok_iff)
  then have r: "reachable d" by (blast intro: reachable_step reachable_empty platform_step.create)
  have "q \<in> set (tasks d)" by (rule Create_returns_row [OF db_inv_empty C])
  with reachable_tasks_consistent [OF r this] r show ?thesis by blast
qed



section \<open>Transitions\<close>



text \<open>
  C11. Progress: without driver faults a legal transition of a consistent database succeeds.
  The source is one of the four, the version is unspecified or current, and the texts fit their
  columns: nothing in the schema (checks, foreign keys, the one-active-attempt and
  one-active-issue indexes, the event sequence) can get in the way.
\<close>

theorem transition_succeeds:
  assumes "fault_free E" and "db_inv d" and "IsUUID tid" and "find_task d (pg_uuid tid) = Some cur"
    and "validSource (if p_Source p = [] then ''system'' else p_Source p)"
    and "p_ExpectedVersion p = 0 \<or> p_ExpectedVersion p = t_Version cur"
    and "CanTransition (t_Status cur) (p_To p)"
    and "transition_fits p" and "ids_fresh E d"
  shows "\<exists>next d'. Transition E tid p d = Inr (next, d')"
proof (cases "replayed d (pg_uuid tid) (p_IdempotencyKey p)")
  case True
  have tid: "t_ID cur = pg_uuid tid" using find_task_Some [OF assms(4)] by blast
  then show ?thesis
    using assms(1,3,4,5) True
    by (auto simp: Transition_def begin_tx_def commit_tx_def lockTask_def applyTransition_def
        idempotency_check_def replayed_def Let_def)
next
  case False
  have cur: "cur \<in> set (tasks d)" and tid: "t_ID cur = pg_uuid tid"
    using find_task_Some [OF assms(4)] by auto
  have new: "\<not> replayed d (t_ID cur) (p_IdempotencyKey p)" using False by (simp add: tid)
  from applyTransition_succeeds [OF assms(1,2) cur assms(5) new assms(6-9)]
  show ?thesis
    using assms(1,3,4) by (auto simp: Transition_def begin_tx_def commit_tx_def lockTask_def)
qed

theorem transition_succeeds_witness:
  "\<exists>next d'. Transition (demo_env 2) demo_tid (transition_to StatusCancelled ''api'') demo_queued
     = Inr (next, d')"
  by (rule transition_succeeds [OF demo_env_fault_free demo_queued_inv _ demo_queued_task])
    code_simp+

text \<open>
  What a transition refuses, without driver faults: an id that is not a uuid or names no task is
  \<open>ErrNotFound\<close>; then an unknown source; a recorded idempotency key is a replay that changes
  nothing; then a stale version and an illegal move are their typed errors, in that order.
\<close>

theorem transition_refusals:
  assumes "fault_free E"
  shows "(if \<not> IsUUID tid then Transition E tid p d = Inl (Sentinel ErrNotFound)
    else case find_task d (pg_uuid tid) of
      None \<Rightarrow> Transition E tid p d = Inl (Sentinel ErrNotFound)
    | Some cur \<Rightarrow>
        let stale = p_ExpectedVersion p \<noteq> 0 \<and> p_ExpectedVersion p \<noteq> t_Version cur in
        if \<not> validSource (if p_Source p = [] then ''system'' else p_Source p) then
          Transition E tid p d = Inl (Msg (''unknown event source '' @ p_Source p))
        else if replayed d (pg_uuid tid) (p_IdempotencyKey p) then Transition E tid p d = Inr (cur, d)
        else if stale then Transition E tid p d =
          Inl (Sentinel (VersionConflictError (p_ExpectedVersion p) (t_Version cur)))
        else \<not> CanTransition (t_Status cur) (p_To p) \<longrightarrow> Transition E tid p d =
          Inl (Sentinel (InvalidTransitionError (t_Status cur) (p_To p))))"
proof -
  have sys: "validSource ''system''" by (simp add: validSource_def)
  show ?thesis
    using assms sys find_task_Some [of d "pg_uuid tid"]
    by (auto simp: Transition_def begin_tx_def commit_tx_def lockTask_def applyTransition_def
        idempotency_check_def replayed_def Let_def split: option.splits)
qed

theorem transition_refusals_witness:
  "Transition (demo_env 2) demo_tid (transition_to StatusCompleted ''api'') demo_queued
     = Inl (Sentinel (InvalidTransitionError StatusQueued StatusCompleted))"
proof -
  let ?p = "transition_to StatusCompleted ''api''"
  have "IsUUID demo_tid" "validSource (if p_Source ?p = [] then ''system'' else p_Source ?p)"
    "\<not> replayed demo_queued (pg_uuid demo_tid) (p_IdempotencyKey ?p)"
    "p_ExpectedVersion ?p = 0" "\<not> CanTransition StatusQueued StatusCompleted"
    "t_Status (demo_task StatusQueued 2) = StatusQueued" "p_To ?p = StatusCompleted"
    by code_simp+
  then show ?thesis
    using transition_refusals [OF demo_env_fault_free, of demo_tid 2 ?p demo_queued]
      demo_queued_task
    by (simp add: Let_def)
qed

text \<open>
  C4. A keyed transition acts exactly once: after it succeeded, the same request retried at any later
  time, after any run of other operations and even when the state machine would now refuse the
  move, succeeds without changing the database.
\<close>

theorem transition_exactly_once:
  assumes inv: "db_inv d" and "Transition E tid p d = Inr (next, d1)" and "p_IdempotencyKey p \<noteq> []"
    and "platform_step\<^sup>*\<^sup>* d1 d2" and "fault_free E'"
  shows "\<exists>t. find_task d2 (pg_uuid tid) = Some t \<and> Transition E' tid p d2 = Inr (t, d2)"
proof -
  have inv1: "db_inv d1" by (rule Transition_inv [OF inv assms(2)])
  have inv2: "db_inv d2" by (rule platform.run_inv [OF assms(4) inv1])
  have le: "db_le d1 d2" by (rule platform.run_le [OF assms(4) inv1])
  have key: "key_recorded d2 (pg_uuid tid) (p_IdempotencyKey p)"
    using transition_records_key [OF inv assms(2,3)] le by (rule key_recorded_mono)
  from assms(2) obtain cur where uuid: "IsUUID tid" and cur: "find_task d (pg_uuid tid) = Some cur"
    and app: "applyTransition E cur p d = Inr (next, d1)" by (rule Transition_InrE)
  have src: "validSource (if p_Source p = [] then ''system'' else p_Source p)"
    using app by (auto simp: applyTransition_def Let_def split: if_splits)
  obtain t where t: "find_task d2 (pg_uuid tid) = Some t"
    using find_task_mono [OF cur _ db_invD(1) [OF inv2]]
      db_le_trans [OF Transition_le [OF inv assms(2)] le] by blast
  have "t_ID t = pg_uuid tid" using find_task_Some [OF t] by blast
  with t key uuid src assms(3,5) show ?thesis
    by (auto simp: Transition_def begin_tx_def commit_tx_def lockTask_def applyTransition_def
        idempotency_check_def Let_def)
qed

theorem transition_exactly_once_witness:
  "\<exists>next d1 t d2. Transition (demo_env 2) demo_tid
      ((transition_to StatusProvisioning ''runner'')\<lparr>p_IdempotencyKey := ''k''\<rparr>) demo_queued
      = Inr (next, d1) \<and> platform_step d1 d2
    \<and> Transition (demo_env 9) demo_tid
      ((transition_to StatusProvisioning ''runner'')\<lparr>p_IdempotencyKey := ''k''\<rparr>) d2 = Inr (t, d2)"
proof -
  let ?p = "(transition_to StatusProvisioning ''runner'')\<lparr>p_IdempotencyKey := ''k''\<rparr>"
  obtain t d1 where T: "Transition (demo_env 2) demo_tid ?p demo_queued = Inr (t, d1)"
    using demo_transition_ok by (auto simp: is_ok_iff)
  have step: "platform_step d1 d1" by (rule platform_step.claim_attempt [where aid = "[]"])
      (simp add: ClaimAttempt_def IsUUID_def)
  have "\<exists>t. find_task d1 (pg_uuid demo_tid) = Some t \<and> Transition (demo_env 9) demo_tid ?p d1 = Inr (t, d1)"
    by (rule transition_exactly_once [OF demo_queued_inv T _ _ demo_env_fault_free]) simp_all
  then show ?thesis using T step by blast
qed

section \<open>Revisions\<close>

text \<open>What both transitions of a revision did, on the rows of the task.\<close>

lemma update_where_id: "update_where q id xs = xs"
  by (induction xs) auto

lemma revision_rows:
  assumes inv: "db_inv d" and rev: "RequestRevision E tid v d = Inr (queued, att, d2)"
  obtains cur last_att e1 e2 where "find_task d (pg_uuid tid) = Some cur"
    and "t_Status cur = StatusAwaitingReview"
    and "find_task d2 (pg_uuid tid) = Some queued" and "t_Status queued = StatusQueued"
    and "t_Version queued = t_Version cur + 2"
    and "task_attempts d (pg_uuid tid) = butlast (task_attempts d (pg_uuid tid)) @ [last_att]"
    and "task_attempts d2 (pg_uuid tid)
           = butlast (task_attempts d (pg_uuid tid)) @ [supersede_attempt E last_att, att]"
    and "att = revision_attempt E (a_ID att) (pg_uuid tid) (a_Number last_att + 1) (Some v)"
    and "events d2 = events d @ [e1, e2]"
    and "e_EventType e1 = TransitionEventType StatusRevisionRequested"
    and "e_IdempotencyKey e1 = Some (v_IdempotencyKey v)" and "e_TaskAttemptID e1 = a_ID last_att"
    and "e_EventType e2 = TransitionEventType StatusQueued" and "e_TaskAttemptID e2 = a_ID att"
    and "\<not> key_recorded d (pg_uuid tid) (v_IdempotencyKey v)"
    and "int (length (task_attempts d (pg_uuid tid))) < v_MaxAttempts v"
  using rev
proof (cases rule: RequestRevision_InrE)
  case (1 cur requested d1)
  let ?p1 = "revision_request v" and ?p2 = "revision_requeue v"
  have cur: "cur \<in> set (tasks d)" and tid: "t_ID cur = pg_uuid tid"
    using find_task_Some [OF 1(1)] by auto
  have key: "v_IdempotencyKey v \<noteq> []" using 1(2) by (simp add: revision_params_complete_def)
  have p1: "p_To ?p1 = StatusRevisionRequested" "p_IdempotencyKey ?p1 = v_IdempotencyKey v"
    by (simp_all add: revision_request_def transition_to_def)
  have p2: "p_To ?p2 = StatusQueued" "p_IdempotencyKey ?p2 = []" "p_revision ?p2 = Some v"
    by (simp_all add: revision_requeue_def transition_to_def)
  have new1: "\<not> replayed d (t_ID cur) (p_IdempotencyKey ?p1)"
    using 1(3) by (simp add: replayed_def p1 tid)
  note inv1 = applyTransition_inv [OF inv cur 1(5)]
  have new2: "\<not> replayed d1 (t_ID requested) (p_IdempotencyKey ?p2)"
    by (simp add: replayed_def p2)
  have noreq: "\<not> requeues cur ?p1" by (simp add: requeues_def p1)
  have req: "requeues requested ?p2" using 1(6) by (simp add: requeues_def p2)
  obtain att1 e1 where A: "CanTransition (t_Status cur) (p_To ?p1)"
    "requested = transition_row E ?p1 cur"
    "task_attempts d (t_ID cur) = butlast (task_attempts d (t_ID cur)) @ [att1]"
    "task_attempts d1 (t_ID cur) = butlast (task_attempts d (t_ID cur)) @ [attempt_effect E ?p1 att1]"
    "events d1 = events d @ [e1]" "e_EventType e1 = TransitionEventType (p_To ?p1)"
    "e_IdempotencyKey e1 = nullif_empty (p_IdempotencyKey ?p1)"
    "e_TaskAttemptID e1 = a_ID (last (task_attempts d1 (t_ID cur)))"
    by (rule applyTransition_effect [OF inv cur 1(5) new1]) (simp only: noreq if_False)
  have eff: "attempt_effect E ?p1 att1 = att1" by (simp add: attempt_effect_def p1)
  obtain att2 e2 where B: "queued = transition_row E ?p2 requested"
    "find_task d2 (t_ID requested) = Some queued"
    "task_attempts d1 (t_ID requested) = butlast (task_attempts d1 (t_ID requested)) @ [att2]"
    "task_attempts d2 (t_ID requested) = butlast (task_attempts d1 (t_ID requested)) @
       [supersede_attempt E att2, revision_attempt E (env_uuid E (length (attempts d1)))
          (t_ID requested) (a_Number att2 + 1) (Some v)]"
    "events d2 = events d1 @ [e2]" "e_EventType e2 = TransitionEventType (p_To ?p2)"
    "e_TaskAttemptID e2 = a_ID (last (task_attempts d2 (t_ID requested)))"
    by (rule applyTransition_effect [OF inv1(1,2) 1(7) new2]) (simp only: req if_True p2)
  let ?new = "revision_attempt E (env_uuid E (length (attempts d1))) (pg_uuid tid)
    (a_Number att1 + 1) (Some v)"
  have rid: "t_ID requested = pg_uuid tid" using inv1(3) tid by simp
  have bl: "butlast (task_attempts d1 (pg_uuid tid)) = butlast (task_attempts d (pg_uuid tid))"
    using A(4) unfolding tid by (metis butlast_snoc)
  have "att2 = att1"
    using A(4) B(3) unfolding tid rid eff by (metis last_snoc)
  then have rows: "task_attempts d2 (pg_uuid tid)
      = butlast (task_attempts d (pg_uuid tid)) @ [supersede_attempt E att1, ?new]"
    using B(4) unfolding rid bl by simp
  have "a_TaskID att = pg_uuid tid" "a_Status att = AttemptActive"
    "att \<in> set (task_attempts d2 (pg_uuid tid))"
    using active_attempt_Some [OF 1(8)] by auto
  moreover have "a_Status a = AttemptSuperseded" if "a \<in> set (butlast (task_attempts d (pg_uuid tid)))" for a
    using db_invD(3) [OF inv cur] that by (simp add: attempts_wf_def tid Let_def)
  ultimately have att: "att = ?new" unfolding rows by auto
  have st: "t_Status cur = StatusAwaitingReview"
    using A(1) unfolding p1 by (cases "t_Status cur") (simp_all add: CanTransition_def)
  show thesis
  proof (rule that [of cur att1 e1 e2])
    show "t_Version queued = t_Version cur + 2" by (simp add: A(2) B(1))
    show "find_task d2 (pg_uuid tid) = Some queued" using B(2) by (simp add: rid)
    show "t_Status queued = StatusQueued" by (simp add: B(1) p2)
    show "task_attempts d (pg_uuid tid) = butlast (task_attempts d (pg_uuid tid)) @ [att1]"
      using A(3) unfolding tid .
    show "task_attempts d2 (pg_uuid tid)
        = butlast (task_attempts d (pg_uuid tid)) @ [supersede_attempt E att1, att]"
      unfolding att by (rule rows)
    show "att = revision_attempt E (a_ID att) (pg_uuid tid) (a_Number att1 + 1) (Some v)"
      by (simp add: att)
    show "e_IdempotencyKey e1 = Some (v_IdempotencyKey v)"
      using A(7) key by (simp add: p1 nullif_empty_def)
    show "e_TaskAttemptID e1 = a_ID att1" using A(4,8) by (simp add: eff)
    show "e_TaskAttemptID e2 = a_ID att" using B(7) rows by (simp add: rid att)
  qed (use 1(1,3,4) st A(5,6) B(5,6) in \<open>simp_all add: p1 p2\<close>)
qed

text \<open>
  C12. A granted revision took the task from review back to the queue in one transaction: the current
  attempt is superseded, a new attempt numbered one higher carries exactly the revision's
  instructions, base commit, requester, comment and feedback, the task gained two versions and two
  events, and the number of attempts stays within the limit.
\<close>

theorem revision_effect:
  assumes "db_inv d" and "RequestRevision E tid v d = Inr (queued, att, d')"
  shows "\<exists>cur prev e1 e2. find_task d (pg_uuid tid) = Some cur
    \<and> t_Status cur = StatusAwaitingReview
    \<and> find_task d' (pg_uuid tid) = Some queued \<and> t_Status queued = StatusQueued
    \<and> t_Version queued = t_Version cur + 2
    \<and> task_attempts d (pg_uuid tid) = butlast (task_attempts d (pg_uuid tid)) @ [prev]
    \<and> task_attempts d' (pg_uuid tid) =
        butlast (task_attempts d (pg_uuid tid)) @ [supersede_attempt E prev, att]
    \<and> a_Status att = AttemptActive \<and> a_Number att = a_Number prev + 1
    \<and> a_Instructions att = Some (v_Instructions v)
    \<and> a_BaseCommitSHA att = Some (v_BaseCommitSHA v)
    \<and> a_RequestedByLogin att = Some (v_RequestedByLogin v)
    \<and> a_TriggerCommentID att = Some (v_TriggerCommentID v)
    \<and> a_Feedback att = v_Feedback v \<and> a_LeaseOwner att = None
    \<and> events d' = events d @ [e1, e2]
    \<and> e_TaskAttemptID e1 = a_ID prev \<and> e_TaskAttemptID e2 = a_ID att
    \<and> int (length (task_attempts d' (pg_uuid tid))) \<le> v_MaxAttempts v"
proof (rule revision_rows [OF assms], goal_cases)
  case (1 cur prev e1 e2)
  have "a_Instructions att = Some (v_Instructions v) \<and> a_BaseCommitSHA att = Some (v_BaseCommitSHA v)
    \<and> a_RequestedByLogin att = Some (v_RequestedByLogin v)
    \<and> a_TriggerCommentID att = Some (v_TriggerCommentID v) \<and> a_Feedback att = v_Feedback v
    \<and> a_LeaseOwner att = None \<and> a_Status att = AttemptActive \<and> a_Number att = a_Number prev + 1"
    by (subst (1 2 3 4 5 6 7 8) 1(8)) (simp add: revision_attempt_def bare_attempt_def)
  moreover have "length (task_attempts d' (pg_uuid tid)) = length (task_attempts d (pg_uuid tid)) + 1"
    by (subst 1(7), subst (2) 1(6)) simp
  ultimately show ?case
    using 1(1-7,9,12,14,16) by (intro exI conjI) (assumption | simp)+
qed

theorem revision_effect_witness:
  "\<exists>queued att d'. RequestRevision (demo_env 2) demo_tid demo_revision demo_review
     = Inr (queued, att, d') \<and> t_Status queued = StatusQueued \<and> a_Instructions att = Some ''Again''"
proof -
  obtain q a d' where R: "RequestRevision (demo_env 2) demo_tid demo_revision demo_review = Inr (q, a, d')"
    using demo_revision_ok by (auto simp: is_ok_iff)
  from revision_effect [OF demo_review_inv R] R show ?thesis by (auto simp: demo_revision_def)
qed

text \<open>
  A revision request is granted at most once per idempotency key: after a grant, and after any run
  of other operations, every complete request with the same key is refused with
  \<open>ErrRevisionReplayed\<close>, so a redelivered comment cannot start a second attempt.
\<close>

theorem revision_granted_once:
  assumes inv: "db_inv d" and rev: "RequestRevision E tid v d = Inr (queued, att, d1)"
    and run: "platform_step\<^sup>*\<^sup>* d1 d2" and ff: "fault_free E'"
    and w: "revision_params_complete w" "v_IdempotencyKey w = v_IdempotencyKey v"
  shows "RequestRevision E' tid w d2 = Inl (Sentinel ErrRevisionReplayed)"
proof -
  have inv1: "db_inv d1" by (rule RequestRevision_inv [OF inv rev])
  have inv2: "db_inv d2" by (rule platform.run_inv [OF run inv1])
  have le: "db_le d1 d2" by (rule platform.run_le [OF run inv1])
  obtain cur where cur: "find_task d (pg_uuid tid) = Some cur"
    and key1: "key_recorded d1 (pg_uuid tid) (v_IdempotencyKey v)"
  proof (rule revision_rows [OF inv rev], goal_cases)
    case (1 cur prev e1 e2)
    have "a_ID prev \<in> a_ID ` set (task_attempts d1 (pg_uuid tid))"
      by (subst 1(8)) simp
    then have "e1 \<in> set (task_events d1 (pg_uuid tid))"
      using 1(10,13) by (simp add: task_events_def)
    then have "key_recorded d1 (pg_uuid tid) (v_IdempotencyKey v)"
      using 1(12) by (auto simp: key_recorded_def)
    then show ?case using 1(1,2) by blast
  qed
  have key: "key_recorded d2 (pg_uuid tid) (v_IdempotencyKey v)"
    by (rule key_recorded_mono [OF key1 le])
  have "db_le d d2" using RequestRevision_le [OF inv rev] le by (rule db_le_trans)
  then obtain t where t: "find_task d2 (pg_uuid tid) = Some t"
    using find_task_mono [OF cur _ db_invD(1) [OF inv2]] by blast
  have "IsUUID tid" using rev by (auto simp: RequestRevision_def split: if_splits)
  with t key w ff show ?thesis
    by (simp add: RequestRevision_def begin_tx_def lockTask_def)
qed

theorem revision_granted_once_witness:
  "\<exists>queued att d'. RequestRevision (demo_env 2) demo_tid demo_revision demo_review
      = Inr (queued, att, d')
    \<and> RequestRevision (demo_env 5) demo_tid demo_revision d' = Inl (Sentinel ErrRevisionReplayed)"
proof -
  obtain q a d' where R: "RequestRevision (demo_env 2) demo_tid demo_revision demo_review = Inr (q, a, d')"
    using demo_revision_ok by (auto simp: is_ok_iff)
  have "revision_params_complete demo_revision" by code_simp
  from revision_granted_once [OF demo_review_inv R rtranclp.rtrancl_refl demo_env_fault_free this refl] R
  show ?thesis by blast
qed

section \<open>Creating a task for an issue\<close>

definition active_for_issue :: "string \<Rightarrow> int \<Rightarrow> Task \<Rightarrow> bool" where
  "active_for_issue rid issue t \<longleftrightarrow> t_RepositoryID t = Some rid \<and> t_SourceIssueNumber t = Some issue
     \<and> t_SourceType t = ''github_issue'' \<and> t_Phase t \<noteq> PhaseTerminal"

text \<open>
  C16. An issue has at most one active task: in a consistent database two active tasks of one
  issue are the same task, and while one exists \<open>Create\<close> refuses another for that issue with
  \<open>ErrActiveTaskExists\<close> (given that the new row is otherwise acceptable), in whatever order
  concurrent requests arrive.
\<close>

theorem one_active_task_per_issue:
  assumes inv: "db_inv d" and t: "t \<in> set (tasks d)" "active_for_issue rid issue t"
  shows "(\<forall>s\<in>set (tasks d). active_for_issue rid issue s \<longrightarrow> s = t)
    \<and> (\<forall>E p. fault_free E \<longrightarrow> c_SourceType p = ''github_issue'' \<longrightarrow> c_RepositoryID p = Some rid \<longrightarrow>
         c_SourceIssueNumber p = Some issue \<longrightarrow> task_row_ok (created_task E (create_defaults p) d) \<longrightarrow>
         env_uuid E (length (tasks d)) \<notin> t_ID ` set (tasks d) \<longrightarrow>
         Create E p d = Inl (Sentinel ErrActiveTaskExists))"
proof (intro conjI ballI allI impI)
  let ?k = "\<lambda>t. (t_RepositoryID t, t_SourceIssueNumber t)"
  let ?P = "\<lambda>t. t_SourceType t = ''github_issue'' \<and> t_Phase t \<noteq> PhaseTerminal
                   \<and> t_RepositoryID t \<noteq> None \<and> t_SourceIssueNumber t \<noteq> None"
  note ok = db_invD(1) [OF inv]
  have dist: "distinct (map ?k (filter ?P (tasks d)))"
    using schema_ok_taskD(3) [OF ok] by (simp add: active_issue_keys_def)
  have mem: "t \<in> set (filter ?P (tasks d))" using t by (simp add: active_for_issue_def)
  show "s = t" if "s \<in> set (tasks d)" "active_for_issue rid issue s" for s
  proof (rule distinct_map_eq [OF dist])
    show "s \<in> set (filter ?P (tasks d))" "?k s = ?k t"
      using that t by (simp_all add: active_for_issue_def)
  qed (rule mem)
  fix E p
  assume ff: "fault_free E" and p: "c_SourceType p = ''github_issue''"
    "c_RepositoryID p = Some rid" "c_SourceIssueNumber p = Some issue"
    and row: "task_row_ok (created_task E (create_defaults p) d)"
    and fresh: "env_uuid E (length (tasks d)) \<notin> t_ID ` set (tasks d)"
  let ?t = "created_task E (create_defaults p) d"
  have "?k ?t = ?k t" and new: "?P ?t"
    using p t by (simp_all add: created_task_def create_defaults_def active_for_issue_def)
  then have "\<not> distinct (active_issue_keys (tasks d @ [?t]))"
    using mem by (force simp: active_issue_keys_def)
  moreover have "list_all task_row_ok (tasks d)"
    using schema_ok_taskD(1) [OF ok] by (simp add: list_all_iff)
  moreover have "distinct (map t_ID (tasks d @ [?t]))"
    using schema_ok_taskD(2) [OF ok] fresh by (simp add: created_task_def)
  ultimately have "violation (d\<lparr>tasks := tasks d @ [?t]\<rparr>)
      = Some (UniqueViolation ''tasks_one_active_per_issue_idx'')"
    using row by (simp add: violation_def task_constraints_def)
  then show "Create E p d = Inl (Sentinel ErrActiveTaskExists)"
    using ff by (simp add: Create_def insert_created_task_def begin_tx_def exec_def
        isUniqueViolation_def Let_def)
qed

theorem one_active_task_per_issue_witness:
  "Create (demo_env 3) (demo_create\<lparr>c_SourceType := ''github_issue'', c_RepositoryID := Some demo_repo,
     c_SourceIssueNumber := Some 7\<rparr>) demo_issue = Inl (Sentinel ErrActiveTaskExists)"
proof -
  let ?p = "demo_create\<lparr>c_SourceType := ''github_issue'', c_RepositoryID := Some demo_repo,
     c_SourceIssueNumber := Some 7\<rparr>"
  have "demo_issue_task \<in> set (tasks demo_issue)" by (simp add: demo_issue_def)
  moreover have "active_for_issue demo_repo 7 demo_issue_task" by code_simp
  moreover have "task_row_ok (created_task (demo_env 3) (create_defaults ?p) demo_issue)" by code_simp
  moreover have "env_uuid (demo_env 3) (length (tasks demo_issue)) \<notin> t_ID ` set (tasks demo_issue)"
    by code_simp
  ultimately show ?thesis
    using one_active_task_per_issue [OF demo_issue_inv, of demo_issue_task demo_repo 7]
    by (simp add: demo_create_def)
qed

end
