(* ===== verification/EventStream.thy ===== *)
theory EventStream
  imports TaskProgress Scenario "HOL-Library.Multiset"
begin

text \<open>
  \<open>internal/httpapi/stream.go\<close> over the event queries of the task store: the cursor of a
  server-sent event stream and the drain loop, which reads the timeline of a task in batches after
  the last event it has written. The writes to the client are the list of events returned.
\<close>

section \<open>Cursors\<close>

record streamCursor =
  cur_attempt :: int
  cur_sequence :: int

definition cursor_string :: "streamCursor \<Rightarrow> string" where
  "cursor_string c = int_string (cur_attempt c) @ '':'' @ int_string (cur_sequence c)"

text \<open>\<open>strings.Cut(raw, ":")\<close>.\<close>

fun cut_colon :: "string \<Rightarrow> (string \<times> string) option" where
  "cut_colon [] = None"
| "cut_colon (c # cs) =
     (if c = CHR '':'' then Some ([], cs)
      else map_option (\<lambda>(a, b). (c # a, b)) (cut_colon cs))"

definition parseStreamCursor :: "string \<Rightarrow> err + streamCursor" where
  "parseStreamCursor raw =
     (case cut_colon raw of
        None \<Rightarrow> Inl (Msg ''cursor must be <attempt>:<sequence>'')
      | Some (attemptPart, seqPart) \<Rightarrow>
          (case Atoi attemptPart of
             None \<Rightarrow> Inl (Msg ''cursor attempt must be a non-negative integer'')
           | Some attempt \<Rightarrow>
               if attempt < 0 then Inl (Msg ''cursor attempt must be a non-negative integer'')
               else (case Atoi seqPart of
                  None \<Rightarrow> Inl (Msg ''cursor sequence must be a non-negative integer'')
                | Some s \<Rightarrow>
                    if s < 0 then Inl (Msg ''cursor sequence must be a non-negative integer'')
                    else Inr \<lparr>cur_attempt = attempt, cur_sequence = s\<rparr>)))"

text \<open>The \<open>Last-Event-ID\<close> header, else the query parameter, else the start.\<close>

definition requestCursor :: "string \<Rightarrow> string \<Rightarrow> err + streamCursor" where
  "requestCursor header query =
     (let raw = (if header = [] then query else header) in
      if raw = [] then Inr \<lparr>cur_attempt = 0, cur_sequence = 0\<rparr>
      else wrap ''invalid Last-Event-ID'' (parseStreamCursor raw))"

section \<open>The drain loop\<close>

definition streamBatchLimit :: int where
  "streamBatchLimit = 500"

definition event_cursor :: "int \<times> Event \<Rightarrow> streamCursor" where
  "event_cursor r = \<lparr>cur_attempt = fst r, cur_sequence = e_SequenceNumber (snd r)\<rparr>"

definition next_cursor :: "streamCursor \<Rightarrow> (int \<times> Event) list \<Rightarrow> streamCursor" where
  "next_cursor c es = (if es = [] then c else event_cursor (last es))"

text \<open>
  One drain, over the databases its successive queries see: the error it stops on, the cursor it
  leaves and the events it wrote; \<open>None\<close> when it is still reading after the last of them.
\<close>

fun streamDrain ::
  "env \<Rightarrow> string \<Rightarrow> db list \<Rightarrow> streamCursor \<Rightarrow> (err option \<times> streamCursor \<times> (int \<times> Event) list) option"
where
  "streamDrain E tid [] c = None"
| "streamDrain E tid (d # ds) c =
     (case EventsAfter E tid (cur_attempt c) (cur_sequence c) streamBatchLimit d of
        Inl e \<Rightarrow> Some (Some e, c, [])
      | Inr es \<Rightarrow>
          (let c' = next_cursor c es in
           if int (length es) < streamBatchLimit then Some (None, c', es)
           else map_option (\<lambda>(r, c'', es'). (r, c'', es @ es')) (streamDrain E tid ds c')))"

section \<open>The order of a task's events\<close>

abbreviation event_key :: "int \<times> Event \<Rightarrow> int \<times> int" where
  "event_key r \<equiv> (fst r, e_SequenceNumber (snd r))"

lemma ordered_events_key: "ordered_events d tid = sort_key event_key (numbered_events d tid)"
  by (simp add: ordered_events_def case_prod_unfold)

lemma distinct_concat_keys:
  assumes "distinct (map n as)" and "\<And>a. a \<in> set as \<Longrightarrow> distinct (map s (f a))"
  shows "distinct (map (\<lambda>r. (fst r, s (snd r))) (concat (map (\<lambda>a. map (\<lambda>e. (n a, e)) (f a)) as)))"
  using assms
proof (induction as)
  case (Cons a as)
  have "distinct (map (\<lambda>r. (fst r, s (snd r))) (map (\<lambda>e. (n a, e)) (f a)))"
    using Cons.prems(2) [of a] by (simp add: distinct_map inj_on_def)
  moreover have "fst ` set (concat (map (\<lambda>a. map (\<lambda>e. (n a, e)) (f a)) as)) \<subseteq> n ` set as" by auto
  ultimately show ?case using Cons by fastforce
qed simp

lemma ordered_events_strict:
  assumes inv: "db_inv d" and t: "t \<in> set (tasks d)" "t_ID t = tid"
  shows "sorted_wrt (<) (map event_key (ordered_events d tid))"
proof -
  have "numbered (map a_Number (task_attempts d tid))"
    using db_invD(3) [OF inv t(1)] by (simp add: attempts_wf_def t(2) Let_def)
  then have "distinct (map a_Number (task_attempts d tid))" by (rule numbered_distinct)
  moreover have "distinct (map e_SequenceNumber (attempt_events d (a_ID a)))"
    if "a \<in> set (task_attempts d tid)" for a
    using db_invD(2) [OF inv] that numbered_distinct
    by (auto simp: seq_wf_def task_attempts_nonempty_member)
  ultimately have "distinct (map event_key (numbered_events d tid))"
    unfolding numbered_events_def by (rule distinct_concat_keys)
  moreover have "mset (map event_key (ordered_events d tid)) = mset (map event_key (numbered_events d tid))"
    unfolding ordered_events_key by (simp only: mset_map mset_sort)
  ultimately have "distinct (map event_key (ordered_events d tid))"
    using mset_eq_imp_distinct_iff by blast
  moreover have "sorted (map event_key (ordered_events d tid))"
    unfolding ordered_events_key by (rule sorted_sort_key)
  ultimately show ?thesis by (simp only: strict_sorted_iff)
qed

lemma filter_after:
  fixes k :: "'a \<Rightarrow> 'b::linorder"
  assumes "sorted_wrt (<) (map k xs)" and "i < length xs"
  shows "filter (\<lambda>x. k (xs ! i) < k x) xs = drop (Suc i) xs"
proof -
  let ?l = "take i xs" and ?r = "drop (Suc i) xs" and ?x = "xs ! i"
  have xs: "xs = ?l @ ?x # ?r" by (rule id_take_nth_drop [OF assms(2)])
  have "sorted_wrt (<) (map k ?l @ k ?x # map k ?r)"
    using assms(1) by (subst (asm) xs) (simp only: map_append list.map)
  then have "\<forall>y\<in>set ?l. k y < k ?x" and "\<forall>y\<in>set ?r. k ?x < k y"
    by (auto simp: sorted_wrt_append)
  then have "filter (\<lambda>x. k ?x < k x) ?l = [] \<and> filter (\<lambda>x. k ?x < k x) ?r = ?r"
    unfolding filter_empty_conv filter_id_conv by (meson less_asym)
  then show ?thesis
    by (subst (2) xs) (simp only: filter_append filter.simps append_Nil less_irrefl if_False)
qed

lemma EventsAfter_filter:
  assumes "fault_free E" and "IsUUID tid" and "find_task d (pg_uuid tid) \<noteq> None"
  shows "EventsAfter E tid m s n d =
    Inr (take (nat (event_limit n)) (filter (\<lambda>r. (m, s) < event_key r) (ordered_events d (pg_uuid tid))))"
  using assms by (simp add: EventsAfter_def Let_def case_prod_unfold)

text \<open>
  Pages join without gap or overlap: the page after the cursor of any event of a task is the
  events that follow it in the timeline, in (attempt, sequence) order, up to the limit.
\<close>

theorem pages_continue:
  assumes "fault_free E" and "db_inv d" and "IsUUID tid"
    and "find_task d (pg_uuid tid) = Some t" and "i < length (ordered_events d (pg_uuid tid))"
  shows "EventsAfter E tid (fst (ordered_events d (pg_uuid tid) ! i))
           (e_SequenceNumber (snd (ordered_events d (pg_uuid tid) ! i))) n d
         = Inr (take (nat (event_limit n)) (drop (Suc i) (ordered_events d (pg_uuid tid))))"
proof -
  have "sorted_wrt (<) (map event_key (ordered_events d (pg_uuid tid)))"
    using ordered_events_strict [OF assms(2)] find_task_Some [OF assms(4)] by blast
  from filter_after [OF this assms(5)] EventsAfter_filter [OF assms(1,3), of d] assms(4)
  show ?thesis by simp
qed

section \<open>Draining\<close>

lemma event_limit_batch [simp]: "event_limit streamBatchLimit = streamBatchLimit"
  by (simp add: event_limit_def streamBatchLimit_def)

lemma batch_iff: "int n < streamBatchLimit \<longleftrightarrow> n < 500"
  by (simp add: streamBatchLimit_def)

lemma batch_full: "\<not> 500 < streamBatchLimit"
  by (simp add: streamBatchLimit_def)

lemma drain_from:
  assumes E: "fault_free E" "IsUUID tid" "find_task d (pg_uuid tid) \<noteq> None"
    and strict: "sorted_wrt (<) (map event_key (ordered_events d (pg_uuid tid)))"
    and rest: "filter (\<lambda>r. (cur_attempt c, cur_sequence c) < event_key r) (ordered_events d (pg_uuid tid))
         = drop i (ordered_events d (pg_uuid tid))"
    and fuel: "length (drop i (ordered_events d (pg_uuid tid))) < n * 500"
  shows "streamDrain E tid (replicate n d) c =
    Some (None, next_cursor c (drop i (ordered_events d (pg_uuid tid))),
      drop i (ordered_events d (pg_uuid tid)))"
  using rest fuel
proof (induction n arbitrary: c i)
  case (Suc n)
  let ?all = "ordered_events d (pg_uuid tid)"
  let ?page = "take 500 (drop i ?all)"
  have page: "EventsAfter E tid (cur_attempt c) (cur_sequence c) streamBatchLimit d = Inr ?page"
    unfolding EventsAfter_filter [OF E] Suc.prems(1) by (simp add: streamBatchLimit_def event_limit_def)
  show ?case
  proof (cases "length (drop i ?all) < 500")
    case True
    then show ?thesis by (simp add: page Let_def batch_iff)
  next
    case False
    let ?j = "i + 499"
    have j: "?j < length ?all" using False by simp
    have "?page \<noteq> []" and last: "last ?page = ?all ! ?j"
      using False by (simp_all add: last_conv_nth)
    then have c': "next_cursor c ?page = event_cursor (?all ! ?j)" by (simp add: next_cursor_def)
    have rest': "filter (\<lambda>r. (cur_attempt (event_cursor (?all ! ?j)), cur_sequence (event_cursor (?all ! ?j)))
        < event_key r) ?all = drop (i + 500) ?all"
      using filter_after [OF strict j] by (simp add: event_cursor_def add.commute)
    have "length (drop (i + 500) ?all) < n * 500" using Suc.prems(2) False by simp
    note IH = Suc.IH [OF rest' this]
    have "drop i ?all = ?page @ drop (i + 500) ?all"
      by (metis add.commute append_take_drop_id drop_drop)
    moreover have "next_cursor (event_cursor (?all ! ?j)) (drop (i + 500) ?all) = next_cursor c (drop i ?all)"
    proof (cases "drop (i + 500) ?all = []")
      case True
      then have "length ?all - 1 = ?j" using False by simp
      then have "last (drop i ?all) = ?all ! ?j" "drop i ?all \<noteq> []"
        using False by (auto simp: last_conv_nth)
      with True show ?thesis by (simp add: next_cursor_def)
    next
      case False
      then show ?thesis by (simp add: next_cursor_def last_drop)
    qed
    ultimately show ?thesis
      using False IH by (simp add: page Let_def batch_iff batch_full c' del: drop_drop)
  qed
qed simp

text \<open>
  A drain from the start writes the whole timeline of the task, in order and once, and leaves
  the cursor at its last event; it returns after one query per full batch and one more.
\<close>

theorem drain_complete:
  assumes "fault_free E" and "db_inv d" and "IsUUID tid" and "find_task d (pg_uuid tid) = Some t"
    and "length (ordered_events d (pg_uuid tid)) < n * 500"
  shows "streamDrain E tid (replicate n d) \<lparr>cur_attempt = 0, cur_sequence = 0\<rparr> =
    Some (None, next_cursor \<lparr>cur_attempt = 0, cur_sequence = 0\<rparr> (ordered_events d (pg_uuid tid)),
      ordered_events d (pg_uuid tid))"
proof -
  let ?all = "ordered_events d (pg_uuid tid)"
  have t: "t \<in> set (tasks d)" "t_ID t = pg_uuid tid" using find_task_Some [OF assms(4)] by auto
  have num: "numbered (map a_Number (task_attempts d (pg_uuid tid)))"
    using db_invD(3) [OF assms(2) t(1)] by (simp add: attempts_wf_def t(2) Let_def)
  have "0 < fst r" if "r \<in> set ?all" for r
  proof -
    from that obtain a where "a \<in> set (task_attempts d (pg_uuid tid))" "fst r = a_Number a"
      by (auto simp: ordered_events_def numbered_events_def)
    then show ?thesis using numbered_le [OF num, of "a_Number a"] by simp
  qed
  then have all: "filter (\<lambda>r. (0, 0) < event_key r) ?all = drop 0 ?all"
    by (simp add: filter_id_conv less_prod_def)
  have "streamDrain E tid (replicate n d) \<lparr>cur_attempt = 0, cur_sequence = 0\<rparr> =
    Some (None, next_cursor \<lparr>cur_attempt = 0, cur_sequence = 0\<rparr> (drop 0 ?all), drop 0 ?all)"
    by (rule drain_from [OF assms(1,3)])
      (use assms(4,5) ordered_events_strict [OF assms(2) t] all in simp_all)
  then show ?thesis by simp
qed

lemma attempt_events_snoc:
  "events d' = events d @ [e] \<Longrightarrow> attempt_events d' aid =
     attempt_events d aid @ (if e_TaskAttemptID e = aid then [e] else [])"
  by (simp add: attempt_events_def)

lemma length_concat_events:
  "distinct (map a_ID as) \<Longrightarrow>
    length (concat (map (\<lambda>a. map (Pair (a_Number a)) (filter (\<lambda>e. e_TaskAttemptID e = a_ID a) es)) as))
      = length (filter (\<lambda>e. e_TaskAttemptID e \<in> a_ID ` set as) es)"
proof (induction as)
  case (Cons b as)
  have "filter (\<lambda>e. e_TaskAttemptID e \<in> a_ID ` set (b # as)) es
      = filter (\<lambda>e. e_TaskAttemptID e = a_ID b \<or> e_TaskAttemptID e \<in> a_ID ` set as) es" by simp
  moreover have "length (filter (\<lambda>e. e_TaskAttemptID e = a_ID b \<or> e_TaskAttemptID e \<in> a_ID ` set as) es)
      = length (filter (\<lambda>e. e_TaskAttemptID e = a_ID b) es)
        + length (filter (\<lambda>e. e_TaskAttemptID e \<in> a_ID ` set as) es)"
    using Cons.prems by (induction es) auto
  ultimately show ?case using Cons by simp
qed simp

lemma length_numbered_events:
  assumes "schema_ok d" and "attempts d' = attempts d"
  shows "length (numbered_events d' (pg_uuid tid)) =
    length (filter (\<lambda>e. e_TaskAttemptID e \<in> a_ID ` set (task_attempts d (pg_uuid tid))) (events d'))"
  using length_concat_events [OF distinct_task_attempt_IDs [OF assms(1), of "pg_uuid tid"]]
    task_attempts_cong [OF assms(2)]
  by (simp add: numbered_events_def attempt_events_def)

text \<open>
  The cursor of a stream can skip events for good: an event appended to an attempt older than
  the cursor's (the cleanup of a superseded attempt, say) is in the timeline but changes no page
  after that cursor, so a client that reads on from it never sees the event.
\<close>

theorem late_event_skipped:
  assumes ff: "fault_free E'" and inv: "db_inv d"
    and app: "AppendAttemptEvent E aid ty src pl d = Inr d'"
    and a: "a \<in> set (attempts d)" "a_ID a = pg_uuid aid" "a_TaskID a = pg_uuid tid"
    and old: "a_Number a < m" and uuid: "IsUUID tid"
  shows "EventsAfter E' tid m s n d' = EventsAfter E' tid m s n d
    \<and> length (ordered_events d' (pg_uuid tid)) = length (ordered_events d (pg_uuid tid)) + 1"
proof -
  note ok = db_invD(1) [OF inv]
  let ?P = "\<lambda>r. (m, s) < event_key r"
  obtain e where es: "events d' = events d @ [e]" and eid: "e_TaskAttemptID e = a_ID a"
    and same: "tasks d' = tasks d" "attempts d' = attempts d"
    using app by (rule AppendAttemptEvent_InrE) (auto simp: insertEvent_Inr new_event_def a)
  have tas: "task_attempts d' (pg_uuid tid) = task_attempts d (pg_uuid tid)"
    by (rule task_attempts_cong [OF same(2)])
  have num: "b = a" if "b \<in> set (task_attempts d (pg_uuid tid))" "a_ID b = a_ID a" for b
    using that attempt_eq_by_ID [OF ok _ a(1)] by (auto simp: task_attempts_nonempty_member)
  have "filter ?P (numbered_events d' (pg_uuid tid)) = filter ?P (numbered_events d (pg_uuid tid))"
    unfolding numbered_events_def tas filter_concat map_map o_def
  proof (intro arg_cong [of _ _ concat] map_cong refl)
    fix b assume b: "b \<in> set (task_attempts d (pg_uuid tid))"
    show "filter ?P (map (Pair (a_Number b)) (attempt_events d' (a_ID b)))
        = filter ?P (map (Pair (a_Number b)) (attempt_events d (a_ID b)))"
      using num [OF b] old by (auto simp: attempt_events_snoc [OF es] eid less_prod_def)
  qed
  then have pages: "filter ?P (ordered_events d' (pg_uuid tid)) = filter ?P (ordered_events d (pg_uuid tid))"
    unfolding ordered_events_key filter_sort by simp
  have "find_task d' (pg_uuid tid) = find_task d (pg_uuid tid)" by (simp add: find_task_def same)
  then have first: "EventsAfter E' tid m s n d' = EventsAfter E' tid m s n d"
    using ff uuid pages by (simp add: EventsAfter_def Let_def case_prod_unfold)
  note count = length_numbered_events [OF ok, of _ tid]
  have "a \<in> set (task_attempts d (pg_uuid tid))" using a by (simp add: task_attempts_nonempty_member)
  then have "length (numbered_events d' (pg_uuid tid)) = length (numbered_events d (pg_uuid tid)) + 1"
    unfolding count [OF same(2)] count [OF refl] es by (simp add: eid)
  with first show ?thesis unfolding ordered_events_key by simp
qed

section \<open>Cursors survive the wire\<close>

lemma cut_colon_append: "CHR '':'' \<notin> set a \<Longrightarrow> cut_colon (a @ CHR '':'' # b) = Some (a, b)"
  by (induction a) auto

text \<open>
  A cursor the server put in an event id is the cursor it reads back from
  \<open>Last-Event-ID\<close>, so a reconnecting client resumes exactly where it stopped.
\<close>

theorem cursor_roundtrip:
  assumes "0 \<le> cur_attempt c" "cur_attempt c < 2 ^ 63" "0 \<le> cur_sequence c" "cur_sequence c < 2 ^ 63"
  shows "requestCursor (cursor_string c) query = Inr c"
proof -
  have "CHR '':'' \<notin> set (nat_string n)" for n
    using nat_string_digits [of n] by (auto simp: list_all_iff is_digit_def byte_def)
  then show ?thesis
    using assms Atoi_nat_string [of "nat (cur_attempt c)"] Atoi_nat_string [of "nat (cur_sequence c)"]
    by (simp add: requestCursor_def parseStreamCursor_def cursor_string_def int_string_def
        cut_colon_append)
qed

section \<open>Witnesses\<close>

theorem pages_continue_witness:
  "EventsAfter (demo_env 3) demo_tid 1 1 0 demo_queued
     = Inr (drop 1 (ordered_events demo_queued (pg_uuid demo_tid)))"
proof -
  have "IsUUID demo_tid" by code_simp
  moreover have "(0::nat) < length (ordered_events demo_queued (pg_uuid demo_tid))" by code_simp
  moreover have "fst (ordered_events demo_queued (pg_uuid demo_tid) ! 0) = 1"
    "e_SequenceNumber (snd (ordered_events demo_queued (pg_uuid demo_tid) ! 0)) = 1"
    "length (ordered_events demo_queued (pg_uuid demo_tid)) = 2" by code_simp+
  ultimately show ?thesis
    using pages_continue [OF demo_env_fault_free demo_queued_inv _ demo_queued_task, of 0 3 0]
    by (simp add: event_limit_def)
qed

theorem drain_complete_witness:
  "streamDrain (demo_env 3) demo_tid [demo_queued] \<lparr>cur_attempt = 0, cur_sequence = 0\<rparr> =
    Some (None, \<lparr>cur_attempt = 1, cur_sequence = 2\<rparr>,
      ordered_events demo_queued (pg_uuid demo_tid))"
proof -
  have "IsUUID demo_tid" by code_simp
  moreover have len: "length (ordered_events demo_queued (pg_uuid demo_tid)) = 2" by code_simp
  moreover have "next_cursor \<lparr>cur_attempt = 0, cur_sequence = 0\<rparr>
      (ordered_events demo_queued (pg_uuid demo_tid)) = \<lparr>cur_attempt = 1, cur_sequence = 2\<rparr>"
    by code_simp
  ultimately show ?thesis
    using drain_complete [OF demo_env_fault_free demo_queued_inv _ demo_queued_task, of 1 3]
    by simp
qed

theorem late_event_skipped_witness:
  "\<exists>d'. AppendAttemptEvent (demo_env 2) demo_aid ''runner.workspace_cleaned'' ''runner'' (JObj [])
       demo_revised = Inr d'
     \<and> EventsAfter (demo_env 3) demo_tid 2 1 0 d' = EventsAfter (demo_env 3) demo_tid 2 1 0 demo_revised"
proof -
  obtain d' where A: "AppendAttemptEvent (demo_env 2) demo_aid ''runner.workspace_cleaned''
      ''runner'' (JObj []) demo_revised = Inr d'"
    using demo_late_ok by (auto simp: is_ok_iff)
  let ?a = "(bare_attempt (demo_env 1) demo_aid demo_tid 1)\<lparr>a_Status := AttemptSuperseded\<rparr>"
  have "?a \<in> set (attempts demo_revised)" by (simp add: demo_revised_def)
  moreover have "a_ID ?a = pg_uuid demo_aid" "a_TaskID ?a = pg_uuid demo_tid" "a_Number ?a < 2"
    "IsUUID demo_tid" by code_simp+
  ultimately show ?thesis
    using late_event_skipped [OF demo_env_fault_free demo_revised_inv A, of ?a demo_tid 2 3 1 0] A
    by simp
qed

theorem cursor_roundtrip_witness:
  "requestCursor (cursor_string \<lparr>cur_attempt = 2, cur_sequence = 17\<rparr>) []
     = Inr \<lparr>cur_attempt = 2, cur_sequence = 17\<rparr>"
  by (rule cursor_roundtrip) simp_all

end
