(* ===== verification/Leases.thy ===== *)
theory Leases
  imports TaskProgress Scenario
begin

text \<open>
  Leases as an interface: what a runner that holds a lease may rely on, stated as a locale over
  the operations that claim, extend and release, and its interpretation on the runner store inside
  the whole platform. Expired work is claimable again, most urgent first.
\<close>

section \<open>The interface\<close>

datatype lease_op =
    Claims string string time
  | Extends string string time
  | Releases string string
  | Unrelated

locale lease_service =
  fixes lease :: "'d \<Rightarrow> string \<Rightarrow> (string \<times> time) option"
    and step :: "time \<Rightarrow> lease_op \<Rightarrow> 'd \<Rightarrow> 'd \<Rightarrow> bool"
  assumes claim_law: "step now (Claims a r dur) d d' \<Longrightarrow>
      (\<forall>o' t. lease d a = Some (o', t) \<longrightarrow> t < now) \<and> lease d' a = Some (r, now + dur)
      \<and> (\<forall>b. b \<noteq> a \<longrightarrow> lease d' b = lease d b)"
    and extend_law: "step now (Extends a r dur) d d' \<Longrightarrow>
      (\<exists>t. lease d a = Some (r, t) \<and> now < t) \<and> lease d' a = Some (r, now + dur)
      \<and> (\<forall>b. b \<noteq> a \<longrightarrow> lease d' b = lease d b)"
    and release_law: "step now (Releases a r) d d' \<Longrightarrow>
      (\<exists>t. lease d a = Some (r, t)) \<and> (\<forall>b. b \<noteq> a \<longrightarrow> lease d' b = lease d b)"
    and unrelated_law: "step now Unrelated d d' \<Longrightarrow> lease d b = Some x \<Longrightarrow> lease d' b = Some x"
begin

text \<open>A run of the service is a list of timed operations.\<close>

fun run :: "(time \<times> lease_op) list \<Rightarrow> 'd \<Rightarrow> 'd \<Rightarrow> bool" where
  "run [] d d' = (d' = d)"
| "run ((now, op) # ops) d d' = (\<exists>m. step now op d m \<and> run ops m d')"

text \<open>
  The holder of a lease keeps it until its expiry, whatever the others do, unless it releases it,
  and no one claims the attempt meanwhile.
\<close>

lemma holder_keeps:
  assumes "run ops d d'" and "lease d a = Some (r, T0)" and "T \<le> T0"
    and "\<forall>(now, op)\<in>set ops. now \<le> T"
    and "\<forall>(now, op)\<in>set ops. op \<noteq> Releases a r"
    and "\<forall>(now, op)\<in>set ops. \<forall>dur. op = Extends a r dur \<longrightarrow> T \<le> now + dur"
  shows "(\<exists>T'\<ge>T. lease d' a = Some (r, T')) \<and> (\<forall>(now, op)\<in>set ops. \<forall>s dur. op \<noteq> Claims a s dur)"
  using assms
proof (induction ops arbitrary: d T0)
  case Nil
  then show ?case by auto
next
  case (Cons x ops)
  obtain now op where x: "x = (now, op)" by (cases x)
  from Cons.prems(1) obtain m where st: "step now op d m" and rn: "run ops m d'" by (auto simp: x)
  have now: "now \<le> T" using Cons.prems(4) by (simp add: x)
  have "\<exists>T1\<ge>T. lease m a = Some (r, T1) \<and> (\<forall>s dur. op \<noteq> Claims a s dur)"
  proof (cases op)
    case (Claims b s dur)
    note law = claim_law [OF st [unfolded Claims]]
    have "b \<noteq> a"
    proof
      assume "b = a"
      then have "T0 < now" using law Cons.prems(2) by blast
      then show False using now Cons.prems(3) by simp
    qed
    moreover from this have "lease m a = lease d a" using law by metis
    ultimately show ?thesis using Claims Cons.prems(2,3) by auto
  next
    case (Extends b s dur)
    note law = extend_law [OF st [unfolded Extends]]
    show ?thesis
    proof (cases "b = a")
      case True
      then have "s = r" using law Cons.prems(2) by auto
      then have "T \<le> now + dur" using Cons.prems(6) True by (auto simp: x Extends)
      then show ?thesis using law True \<open>s = r\<close> Extends by auto
    next
      case False
      then have "lease m a = lease d a" using law by metis
      then show ?thesis using Extends Cons.prems(2,3) by auto
    qed
  next
    case (Releases b s)
    note law = release_law [OF st [unfolded Releases]]
    have "b \<noteq> a"
    proof
      assume "b = a"
      then have "s = r" using law Cons.prems(2) by auto
      then show False using Cons.prems(5) \<open>b = a\<close> by (auto simp: x Releases)
    qed
    then have "lease m a = lease d a" using law by metis
    then show ?thesis using Releases Cons.prems(2,3) by auto
  next
    case Unrelated
    then show ?thesis using unrelated_law [OF st [unfolded Unrelated] Cons.prems(2)] Cons.prems(3) by auto
  qed
  then obtain T1 where T1: "T \<le> T1" "lease m a = Some (r, T1)" and no: "\<forall>s dur. op \<noteq> Claims a s dur"
    by blast
  have "(\<exists>T'\<ge>T. lease d' a = Some (r, T')) \<and> (\<forall>(now, op)\<in>set ops. \<forall>s dur. op \<noteq> Claims a s dur)"
    by (rule Cons.IH [OF rn T1(2,1)]) (use Cons.prems(4-6) in auto)
  then show ?case using no by (auto simp: x)
qed

text \<open>An extension can only follow a claim of the same runner: once lost, a lease stays lost.\<close>

lemma lost_lease_not_extended:
  assumes "lease d a = Some (r, t)" and "r \<noteq> s"
  shows "\<not> step now (Extends a s dur) d d'"
  using extend_law [of now a s dur d d'] assms by auto

end

section \<open>The lease columns\<close>

definition lease_of :: "db \<Rightarrow> string \<Rightarrow> (string \<times> time) option" where
  "lease_of d aid =
     (case find (\<lambda>a. a_ID a = aid) (attempts d) of
        None \<Rightarrow> None
      | Some a \<Rightarrow> (case (a_LeaseOwner a, a_LeaseExpiresAt a) of
                     (Some r, Some t) \<Rightarrow> Some (r, t) | _ \<Rightarrow> None))"

definition lease_columns :: "Attempt \<Rightarrow> string \<times> string option \<times> time option" where
  "lease_columns a = (a_ID a, a_LeaseOwner a, a_LeaseExpiresAt a)"

abbreviation same_lease :: "Attempt \<Rightarrow> Attempt \<Rightarrow> bool" where
  "same_lease a b \<equiv> lease_columns a = lease_columns b"

definition leases_kept :: "db \<Rightarrow> db \<Rightarrow> bool" where
  "leases_kept d d' \<longleftrightarrow> table_le same_lease (attempts d) (attempts d')"

lemma leases_kept_refl: "attempts d' = attempts d \<Longrightarrow> leases_kept d d'"
  by (simp add: leases_kept_def table_le_refl)

lemma leases_kept_trans: "leases_kept d e \<Longrightarrow> leases_kept e f \<Longrightarrow> leases_kept d f"
  unfolding leases_kept_def by (erule table_le_trans) auto

lemma leases_kept_update:
  "(\<And>a. same_lease a (f a)) \<Longrightarrow> leases_kept d (d\<lparr>attempts := update_where p f (attempts d)\<rparr>)"
  using table_le_update [of same_lease "attempts d" p f "[]"] by (simp add: leases_kept_def)

lemma find_same_lease:
  assumes "list_all2 same_lease as bs"
  shows "rel_option same_lease (find (\<lambda>a. a_ID a = i) as) (find (\<lambda>a. a_ID a = i) bs)"
  using assms by (induction) (auto simp: lease_columns_def)

lemma leases_kept_lease_of:
  assumes "leases_kept d d'" and "lease_of d i = Some x"
  shows "lease_of d' i = Some x"
proof -
  from assms(1) obtain us vs where at: "attempts d' = us @ vs" and rel: "list_all2 same_lease (attempts d) us"
    unfolding leases_kept_def by (rule table_leE)
  from assms(2) obtain a where a: "find (\<lambda>a. a_ID a = i) (attempts d) = Some a"
    by (auto simp: lease_of_def split: option.splits)
  from find_same_lease [OF rel, of i] a obtain b
    where "find (\<lambda>a. a_ID a = i) us = Some b" and "same_lease a b"
    by (auto simp: option_rel_Some1)
  then have "find (\<lambda>a. a_ID a = i) (attempts d') = Some b" and "same_lease a b"
    by (simp_all add: at find_append)
  with assms(2) a show ?thesis by (auto simp: lease_of_def lease_columns_def split: option.splits)
qed

section \<open>Everything but the lease operations keeps the leases\<close>

lemma lease_columns_ops [simp]:
  "lease_columns (finish_attempt E p a) = lease_columns a"
  "lease_columns (supersede_attempt E a) = lease_columns a"
  "lease_columns (attempt_effect E p a) = lease_columns a"
  "lease_columns (record_check_run n a) = lease_columns a"
  "lease_columns (complete_check_run E a) = lease_columns a"
  "lease_columns (a\<lparr>a_BaseCommitSHA := x\<rparr>) = lease_columns a"
  "lease_columns (a\<lparr>a_FinalCommitSHA := x\<rparr>) = lease_columns a"
  "lease_columns (a\<lparr>a_PullRequestNumber := y\<rparr>) = lease_columns a"
  by (simp_all add: lease_columns_def finish_attempt_def supersede_attempt_def attempt_effect_def
      start_attempt_def record_check_run_def complete_check_run_def)

lemma applyTransition_leases:
  assumes "applyTransition E cur p d = Inr (next, d')"
  shows "leases_kept d d'"
  using assms
proof (cases rule: applyTransition_InrE)
  case replay
  then show ?thesis by (simp add: leases_kept_refl)
next
  case (step att as' aid t0)
  have "attempts d' = as'" by (simp add: step(7) step_db_def)
  moreover have "table_le same_lease (attempts d) as'"
  proof (cases "requeues cur p")
    case True
    with step(9) obtain new where
      "as' = update_where (\<lambda>a. a_ID a = a_ID att) (supersede_attempt E) (attempts d) @ [new]" by auto
    then show ?thesis by (auto intro!: table_le_update)
  next
    case False
    with step(9) have
      "as' = update_where (\<lambda>a. a_ID a = a_ID att) (attempt_effect E p) (attempts d) @ []" by simp
    then show ?thesis by (simp only:) (rule table_le_update, simp_all)
  qed
  ultimately show ?thesis by (simp add: leases_kept_def)
qed

lemma insertEvent_leases: "insertEvent E aid ty src pl key d = Inr d' \<Longrightarrow> leases_kept d d'"
  by (auto simp: insertEvent_Inr intro: leases_kept_refl)

lemma Create_leases: "Create E p d = Inr (t, d') \<Longrightarrow> leases_kept d d'"
  by (erule Create_InrE, rule leases_kept_trans [OF _ applyTransition_leases])
    (auto simp: leases_kept_def table_le_append)

lemma EnsureGitContext_leases:
  assumes "EnsureGitContext E tid base br d = Inr (b, w, d')"
  shows "leases_kept d d'"
proof -
  from assms obtain t where "update_task E ''ensure git context'' (pg_uuid tid)
      (git_context_row E base br) d = Inr (t, d')"
    by (auto simp: EnsureGitContext_def split: if_splits sum.splits)
  then have "d' = d\<lparr>tasks := update_where (\<lambda>t. t_ID t = pg_uuid tid)
      (git_context_row E base br) (tasks d)\<rparr>"
    by (rule update_task_Inr(1)) (simp add: git_context_row_def)
  then show ?thesis by (simp add: leases_kept_refl)
qed

lemma record_attempt_leases:
  assumes "record_attempt E l aid f d = Inr d'" and "\<And>a. same_lease a (f a)"
  shows "leases_kept d d'"
  using assms leases_kept_update [of f] by (auto simp: record_attempt_def exec_Inr update_attempt_def)

lemma claim_None: "claim E locked rid dur aid d = Inr (None, d') \<Longrightarrow> d' = d"
  by (auto simp: claim_def bind_sum_Inr_iff split: list.splits)

section \<open>The store's operations as steps of the interface\<close>

text \<open>
  Each step carries the instant of its transaction. Everything else the platform does is
  \<open>Unrelated\<close>; \<open>platform_step_leases\<close> shows that nothing is left out.
\<close>

inductive store_lease_step :: "time \<Rightarrow> lease_op \<Rightarrow> db \<Rightarrow> db \<Rightarrow> bool" where
  claimed: "db_inv d \<Longrightarrow> claim E locked rid dur aid d = Inr (Some c, d') \<Longrightarrow>
    store_lease_step (env_now E) (Claims (k_AttemptID c) (pg_uuid rid) dur) d d'"
| extended: "db_inv d \<Longrightarrow> ExtendLease E aid rid dur d = Inr d' \<Longrightarrow>
    store_lease_step (env_now E) (Extends (pg_uuid aid) (pg_uuid rid) dur) d d'"
| released: "db_inv d \<Longrightarrow> ReleaseLease E aid rid d = Inr d' \<Longrightarrow>
    store_lease_step (env_now E) (Releases (pg_uuid aid) (pg_uuid rid)) d d'"
| unrelated: "leases_kept d d' \<Longrightarrow> store_lease_step now Unrelated d d'"

inductive_cases ClaimsE: "store_lease_step now (Claims a r dur) d d'"
inductive_cases ExtendsE: "store_lease_step now (Extends a r dur) d d'"
inductive_cases ReleasesE: "store_lease_step now (Releases a r) d d'"
inductive_cases UnrelatedE: "store_lease_step now Unrelated d d'"

lemma github_step_leases: "github_step d d' \<Longrightarrow> leases_kept d d'"
  by (simp add: github_step_def leases_kept_refl)

lemma platform_step_leases:
  assumes "platform_step d d'" and inv: "db_inv d"
  shows "\<exists>now op. store_lease_step now op d d'"
  using assms(1)
proof (cases rule: platform_step.cases)
  case (create E p t) then show ?thesis by (blast intro: unrelated Create_leases)
next
  case (transition E tid tp t)
  then show ?thesis by (blast elim: Transition_InrE intro: unrelated applyTransition_leases)
next
  case (cancel E tid reason t)
  then show ?thesis
    by (blast elim: Cancel_InrE intro: unrelated applyTransition_leases leases_kept_refl)
next
  case (request_revision E tid v t a)
  then show ?thesis
    by (blast elim: RequestRevision_InrE
        intro: unrelated leases_kept_trans [OF applyTransition_leases applyTransition_leases])
next
  case (ensure_git_context E tid base br b w)
  then show ?thesis by (blast intro: unrelated EnsureGitContext_leases)
next
  case (record_trigger_check_run E tid n)
  then have "leases_kept d d'"
    by (auto simp: RecordTriggerCheckRun_def Let_def bind_sum_Inr_iff exec_Inr split: if_splits
        intro!: leases_kept_update)
  then show ?thesis by (blast intro: unrelated)
next
  case (mark_trigger_check_run E aid)
  then have "leases_kept d d'"
    by (auto simp: MarkTriggerCheckRunCompleted_def exec_Inr split: if_splits
        intro!: leases_kept_update)
  then show ?thesis by (blast intro: unrelated)
next
  case (append_attempt_event E aid ty src pl)
  then show ?thesis by (blast elim: AppendAttemptEvent_InrE intro: unrelated insertEvent_leases)
next
  case (append_event E tid ty src pl)
  then show ?thesis by (blast elim: AppendEvent_InrE intro: unrelated insertEvent_leases)
next
  case (register E rp r)
  then have "attempts d' = attempts d"
    by (auto simp: Register_def Let_def bind_sum_Inr_iff exec_Inr split: if_splits)
  then show ?thesis by (blast intro: unrelated leases_kept_refl)
next
  case (heartbeat E rid)
  then have "attempts d' = attempts d" by (auto simp: Heartbeat_def update_runners_Inr)
  then show ?thesis by (blast intro: unrelated leases_kept_refl)
next
  case (mark_offline E rid)
  then have "attempts d' = attempts d" by (auto simp: MarkOffline_def update_runners_Inr)
  then show ?thesis by (blast intro: unrelated leases_kept_refl)
next
  case (mark_lost E thr rs)
  then have "attempts d' = attempts d" by (auto simp: MarkLost_def Let_def bind_sum_Inr_iff exec_Inr)
  then show ?thesis by (blast intro: unrelated leases_kept_refl)
next
  case (claim_next E locked rid dur c)
  then show ?thesis
    by (cases c) (auto simp: ClaimNext_def dest!: claim_None intro: claimed [OF inv]
        unrelated [OF leases_kept_refl])
next
  case (claim_attempt E locked rid aid dur c)
  then show ?thesis
    by (cases c) (auto simp: ClaimAttempt_def dest!: claim_None split: if_splits
        intro: claimed [OF inv] unrelated [OF leases_kept_refl])
next
  case (record_base E aid sha)
  then show ?thesis using record_attempt_leases unrelated by (fastforce simp: RecordAttemptBase_def)
next
  case (record_final E aid sha)
  then show ?thesis using record_attempt_leases unrelated by (fastforce simp: RecordFinalCommit_def)
next
  case (record_pull_request E aid n)
  then show ?thesis using record_attempt_leases unrelated by (fastforce simp: RecordPullRequest_def)
next
  case (extend_lease E aid rid dur) then show ?thesis using extended [OF inv] by blast
next
  case (release_lease E aid rid) then show ?thesis using released [OF inv] by blast
next
  case (record_delivery E did ety act i r b)
  then show ?thesis using RecordDelivery_step by (blast intro: unrelated github_step_leases)
next
  case (mark_delivery E did st msg)
  then show ?thesis using MarkDelivery_step by (blast intro: unrelated github_step_leases)
next
  case (upsert_installation E ip)
  then show ?thesis using UpsertInstallation_step by (blast intro: unrelated github_step_leases)
next
  case (suspend_installation E i sus)
  then show ?thesis using SetInstallationSuspended_step by (blast intro: unrelated github_step_leases)
next
  case (delete_installation E i)
  then show ?thesis using DeleteInstallation_step by (blast intro: unrelated github_step_leases)
next
  case (sync_repositories E i rs)
  then show ?thesis using SyncRepositories_step by (blast intro: unrelated github_step_leases)
next
  case (set_enabled E rid b v)
  then show ?thesis using SetRepositoryEnabled_step by (blast intro: unrelated github_step_leases)
next
  case (update_settings E rid patch s)
  then show ?thesis using UpdateRepositorySettings_step by (blast intro: unrelated github_step_leases)
qed

section \<open>The store satisfies the laws\<close>

definition row_lease :: "Attempt \<Rightarrow> (string \<times> time) option" where
  "row_lease a = (case (a_LeaseOwner a, a_LeaseExpiresAt a) of
     (Some r, Some t) \<Rightarrow> Some (r, t) | _ \<Rightarrow> None)"

lemma row_lease_simps [simp]:
  "row_lease (lease_row E rid dur a) = Some (pg_uuid rid, env_now E + dur)"
  "row_lease (release_row a) = None"
  "row_lease (extend_row E dur a) = map_option (\<lambda>r. (r, env_now E + dur)) (a_LeaseOwner a)"
  by (auto simp: row_lease_def lease_row_def release_row_def extend_row_def split: option.splits)

lemma row_ops_ID [simp]: "a_ID (lease_row E rid dur a) = a_ID a" "a_ID (release_row a) = a_ID a"
  "a_ID (extend_row E dur a) = a_ID a"
  by (simp_all add: lease_row_def release_row_def extend_row_def)

lemma lease_of_row: "schema_ok d \<Longrightarrow> a \<in> set (attempts d) \<Longrightarrow> lease_of d (a_ID a) = row_lease a"
  unfolding lease_of_def row_lease_def by (simp add: find_key [OF schema_ok_attemptD(2)])

lemma lease_of_update:
  assumes ok: "schema_ok d" and mem: "a \<in> set (attempts d)"
    and p: "\<And>b. b \<in> set (attempts d) \<Longrightarrow> p b \<longleftrightarrow> b = a" and f: "\<And>b. a_ID (f b) = a_ID b"
  shows "lease_of (d\<lparr>attempts := update_where p f (attempts d)\<rparr>) (a_ID a) = row_lease (f a)"
    and "i \<noteq> a_ID a \<Longrightarrow>
         lease_of (d\<lparr>attempts := update_where p f (attempts d)\<rparr>) i = lease_of d i"
proof -
  let ?as = "update_where p f (attempts d)"
  have find: "find (\<lambda>b. a_ID b = i) ?as = map_option (\<lambda>r. if p r then f r else r)
      (find (\<lambda>b. a_ID b = i) (attempts d))" for i
    by (rule find_update_where) (simp add: f)
  have "find (\<lambda>b. a_ID b = a_ID a) (attempts d) = Some a"
    by (rule find_key [OF schema_ok_attemptD(2) [OF ok] mem])
  then show "lease_of (d\<lparr>attempts := ?as\<rparr>) (a_ID a) = row_lease (f a)"
    using p [OF mem] by (simp add: lease_of_def row_lease_def find)
  have "\<not> p b" if "find (\<lambda>b. a_ID b = i) (attempts d) = Some b" "i \<noteq> a_ID a" for b
    using that find_SomeD [OF that(1)] p by auto
  then show "i \<noteq> a_ID a \<Longrightarrow> lease_of (d\<lparr>attempts := ?as\<rparr>) i = lease_of d i"
    by (auto simp: lease_of_def find split: option.splits)
qed

lemma claim_law_store:
  assumes "store_lease_step now (Claims i r dur) d d'"
  shows "(\<forall>o' t. lease_of d i = Some (o', t) \<longrightarrow> t < now) \<and> lease_of d' i = Some (r, now + dur)
    \<and> (\<forall>b. b \<noteq> i \<longrightarrow> lease_of d' b = lease_of d b)"
proof -
  from assms obtain E locked rid aid c where 1: "now = env_now E" "i = k_AttemptID c" "r = pg_uuid rid" "db_inv d" "claim E locked rid dur aid d = Inr (Some c, d')"
    by (elim ClaimsE) blast
  note ok = db_invD(1) [OF 1(4)]
  from 1(5) obtain a t where mem: "(a, t) \<in> set (dispatchable_rows (env_now E) d)"
    and c: "c = claim_of a t (env_now E + dur)"
    and d': "d' = update_attempt (a_ID a) (lease_row E rid dur) d"
    by (rule claim_InrE)
  have a: "a \<in> set (attempts d)" and free: "lease_free (env_now E) a"
    using mem by (auto simp: dispatchable_rows_def)
  have i: "i = a_ID a" using 1(2) by (simp add: c claim_of_def)
  have uniq: "a_ID b = a_ID a \<longleftrightarrow> b = a" if "b \<in> set (attempts d)" for b
    using attempt_eq_by_ID [OF ok that a] by blast
  note upd = lease_of_update [OF ok a uniq, of "lease_row E rid dur"]
  have "\<forall>o' t. row_lease a = Some (o', t) \<longrightarrow> t < now"
    using free 1(1) by (auto simp: row_lease_def lease_free_def split: option.splits)
  then show ?thesis
    using upd lease_of_row [OF ok a] 1(1,3) by (simp add: i d' update_attempt_def)
qed

text \<open>An update of the lease columns touches the one row it selects.\<close>

lemma leased_row:
  assumes inv: "db_inv d" and upd: "update_leased E l p f d = Inr d'"
    and p: "\<And>b. p b \<Longrightarrow> a_ID b = i"
  obtains a where "a \<in> set (attempts d)" and "a_ID a = i" and "p a"
    and "\<And>b. b \<in> set (attempts d) \<Longrightarrow> p b \<longleftrightarrow> b = a"
    and "d' = d\<lparr>attempts := update_where p f (attempts d)\<rparr>"
proof -
  from upd obtain a where a: "a \<in> set (attempts d)" "p a"
    and d': "d' = d\<lparr>attempts := update_where p f (attempts d)\<rparr>" by (auto simp: update_leased_Inr)
  have "b = a" if "b \<in> set (attempts d)" "p b" for b
    using attempt_eq_by_ID [OF db_invD(1) [OF inv] that(1) a(1)] p [OF that(2)] p [OF a(2)] by simp
  then show thesis using that [OF a(1) p [OF a(2)] a(2) _ d'] a(2) by blast
qed

lemma extend_law_store:
  assumes "store_lease_step now (Extends i r dur) d d'"
  shows "(\<exists>t. lease_of d i = Some (r, t) \<and> now < t) \<and> lease_of d' i = Some (r, now + dur)
    \<and> (\<forall>b. b \<noteq> i \<longrightarrow> lease_of d' b = lease_of d b)"
proof -
  from assms obtain E aid rid where 1: "now = env_now E" "i = pg_uuid aid" "r = pg_uuid rid" "db_inv d" "ExtendLease E aid rid dur d = Inr d'"
    by (elim ExtendsE) blast
  note ok = db_invD(1) [OF 1(4)]
  let ?p = "\<lambda>a. a_ID a = pg_uuid aid \<and> holds_lease (env_now E) (pg_uuid rid) a"
  obtain a where a: "a \<in> set (attempts d)" "a_ID a = pg_uuid aid" "?p a"
    and uniq: "\<And>b. b \<in> set (attempts d) \<Longrightarrow> ?p b \<longleftrightarrow> b = a"
    and d': "d' = d\<lparr>attempts := update_where ?p (extend_row E dur) (attempts d)\<rparr>"
    by (rule leased_row [OF 1(4), of E "''extend lease''" ?p "extend_row E dur" d' "pg_uuid aid"])
      (use 1(5) in \<open>auto simp: ExtendLease_def\<close>)
  note upd = lease_of_update [OF ok a(1) uniq, of "extend_row E dur"]
  have "\<exists>t. row_lease a = Some (r, t) \<and> now < t" and own: "a_LeaseOwner a = Some r"
    using a(3) 1(1,3) by (auto simp: holds_lease_def row_lease_def split: option.splits)
  then show ?thesis
    using upd lease_of_row [OF ok a(1)] 1(1,2) by (simp add: d' a(2))
qed

lemma release_law_store:
  assumes "store_lease_step now (Releases i r) d d'"
  shows "(\<exists>t. lease_of d i = Some (r, t)) \<and> (\<forall>b. b \<noteq> i \<longrightarrow> lease_of d' b = lease_of d b)"
proof -
  from assms obtain E aid rid where 1: "now = env_now E" "i = pg_uuid aid" "r = pg_uuid rid" "db_inv d" "ReleaseLease E aid rid d = Inr d'"
    by (elim ReleasesE) blast
  note ok = db_invD(1) [OF 1(4)]
  let ?p = "\<lambda>a. a_ID a = pg_uuid aid \<and> a_LeaseOwner a = Some (pg_uuid rid)"
  obtain a where a: "a \<in> set (attempts d)" "a_ID a = pg_uuid aid" "?p a"
    and uniq: "\<And>b. b \<in> set (attempts d) \<Longrightarrow> ?p b \<longleftrightarrow> b = a"
    and d': "d' = d\<lparr>attempts := update_where ?p release_row (attempts d)\<rparr>"
    by (rule leased_row [OF 1(4), of E "''release lease''" ?p release_row d' "pg_uuid aid"])
      (use 1(5) in \<open>auto simp: ReleaseLease_def\<close>)
  note upd = lease_of_update [OF ok a(1) uniq, of release_row]
  have "\<exists>t. row_lease a = Some (r, t)"
    using a(3) 1(3) schema_ok_attemptD(1) [OF ok a(1)]
    by (auto simp: row_lease_def attempt_row_ok_def)
  then show ?thesis
    using upd lease_of_row [OF ok a(1)] 1(2) by (simp add: d' a(2))
qed

interpretation leases: lease_service lease_of store_lease_step
proof
  show "(\<forall>o' t. lease_of d a = Some (o', t) \<longrightarrow> t < now) \<and> lease_of d' a = Some (r, now + dur)
      \<and> (\<forall>b. b \<noteq> a \<longrightarrow> lease_of d' b = lease_of d b)"
    if "store_lease_step now (Claims a r dur) d d'" for now a r dur d d'
    using that by (rule claim_law_store)
  show "(\<exists>t. lease_of d a = Some (r, t) \<and> now < t) \<and> lease_of d' a = Some (r, now + dur)
      \<and> (\<forall>b. b \<noteq> a \<longrightarrow> lease_of d' b = lease_of d b)"
    if "store_lease_step now (Extends a r dur) d d'" for now a r dur d d'
    using that by (rule extend_law_store)
  show "(\<exists>t. lease_of d a = Some (r, t)) \<and> (\<forall>b. b \<noteq> a \<longrightarrow> lease_of d' b = lease_of d b)"
    if "store_lease_step now (Releases a r) d d'" for now a r d d'
    using that by (rule release_law_store)
  show "lease_of d' b = Some x"
    if "store_lease_step now Unrelated d d'" "lease_of d b = Some x" for now d d' b x
    using that by (auto elim!: UnrelatedE intro: leases_kept_lease_of)
qed

text \<open>
  C14. One owner at a time: while a runner's lease on an attempt has not expired, no run of
  operations of the platform, by whatever runners, lets another runner claim the attempt; the
  lease stays with its owner unless the owner releases it (extensions may only push the expiry
  past \<open>T\<close>).
\<close>

theorem lease_is_exclusive:
  assumes "leases.run ops d d'" and "lease_of d aid = Some (r, T0)" and "T \<le> T0"
    and "\<forall>(now, op)\<in>set ops. now \<le> T"
    and "\<forall>(now, op)\<in>set ops. op \<noteq> Releases aid r"
    and "\<forall>(now, op)\<in>set ops. \<forall>dur. op = Extends aid r dur \<longrightarrow> T \<le> now + dur"
  shows "(\<exists>T'\<ge>T. lease_of d' aid = Some (r, T')) \<and> (\<forall>(now, op)\<in>set ops. \<forall>s dur. op \<noteq> Claims aid s dur)"
  using assms by (rule leases.holder_keeps)

theorem lease_is_exclusive_witness:
  "\<exists>d'. ExtendLease (demo_env 30) ''a'' ''r'' 60 demo_claimed = Inr d'
    \<and> (\<exists>T'\<ge>60. lease_of d' ''a'' = Some (''r'', T'))"
proof -
  obtain d' where X: "ExtendLease (demo_env 30) ''a'' ''r'' 60 demo_claimed = Inr d'"
    using demo_extend_ok by (auto simp: is_ok_iff)
  have ids: "pg_uuid ''a'' = ''a''" "pg_uuid ''r'' = ''r''" "env_now (demo_env 30) = 30" by code_simp+
  have "leases.run [(30, Extends ''a'' ''r'' 60)] demo_claimed d'"
    using store_lease_step.extended [OF demo_claimed_inv X] by (simp add: ids)
  moreover have "lease_of demo_claimed ''a'' = Some (''r'', 60)" by code_simp
  ultimately have "\<exists>T'\<ge>60. lease_of d' ''a'' = Some (''r'', T')"
    using lease_is_exclusive [of "[(30, Extends ''a'' ''r'' 60)]" demo_claimed d' "''a''" "''r''" 60 60]
    by simp
  with X show ?thesis by blast
qed

section \<open>Claims\<close>

lemma schema_ok_lease:
  assumes ok: "schema_ok d" and rid: "pg_uuid rid \<in> r_ID ` set (runners d)"
  shows "schema_ok (d\<lparr>attempts := update_where p (lease_row E rid dur) (attempts d)\<rparr>)"
proof -
  let ?f = "lease_row E rid dur"
  let ?as = "update_where p ?f (attempts d)"
  have core: "a_ID (?f a) = a_ID a" "a_TaskID (?f a) = a_TaskID a" "a_Number (?f a) = a_Number a"
    "a_Status (?f a) = a_Status a" for a by (simp_all add: lease_row_def)
  have maps: "map a_ID ?as = map a_ID (attempts d)"
    "map (\<lambda>a. (a_TaskID a, a_Number a)) ?as = map (\<lambda>a. (a_TaskID a, a_Number a)) (attempts d)"
    by (simp_all add: map_update_where core)
  have keys: "active_attempt_keys ?as = active_attempt_keys (attempts d)"
    by (simp add: active_attempt_keys_def filter_update_where map_update_where core)
  have all: "list_all P ?as" if "list_all P (attempts d)" and "\<And>a. P a \<Longrightarrow> P (?f a)" for P
    using that by (intro list_all_update_where) auto
  have rows: "list_all attempt_row_ok ?as"
    by (rule all) (use schema_ok_attemptD(1) [OF ok] in
      \<open>auto simp: list_all_iff attempt_row_ok_def lease_row_def\<close>)
  show ?thesis
    using ok rows rid
    by (simp add: schema_lists maps keys del: set_map)
      (auto intro!: all simp: lease_row_def)
qed

lemma dispatchable_unique:
  assumes ok: "schema_ok d" and "(a, t) \<in> set (dispatchable_rows now d)"
    and "(b, s) \<in> set (dispatchable_rows now d)" and "a_ID b = a_ID a"
  shows "b = a \<and> s = t"
proof -
  have mem: "a \<in> set (attempts d)" "b \<in> set (attempts d)" "t \<in> set (tasks d)" "s \<in> set (tasks d)"
    "t_ID t = a_TaskID a" "t_ID s = a_TaskID b"
    using assms(2,3) by (auto simp: dispatchable_rows_def)
  then have "b = a" using attempt_eq_by_ID [OF ok] assms(4) by blast
  then show ?thesis using task_eq_by_ID [OF ok] mem by auto
qed

text \<open>
  C15. Work is never stranded: without driver faults, an attempt that is due (active, of a claimable
  task, with no lease or an expired one) and not locked by a concurrent claim can be claimed by any
  registered runner, which then holds its lease and receives the task's title, instructions and
  attempt number.
\<close>

theorem due_attempt_claimable:
  assumes ff: "fault_free E" and inv: "db_inv d"
    and due: "(a, t) \<in> set (dispatchable_rows (env_now E) d)" and free: "\<not> locked (a_ID a)"
    and aid: "IsUUID aid" "pg_uuid aid = a_ID a" and rid: "pg_uuid rid \<in> r_ID ` set (runners d)"
  shows "\<exists>d'. ClaimAttempt E locked rid aid dur d = Inr (Some (claim_of a t (env_now E + dur)), d')
    \<and> lease_of d' (a_ID a) = Some (pg_uuid rid, env_now E + dur)"
proof -
  note ok = db_invD(1) [OF inv]
  let ?sel = "filter (\<lambda>(b, s). (aid = [] \<or> a_ID b = pg_uuid aid) \<and> \<not> locked (a_ID b))
                (dispatchable_rows (env_now E) d)"
  have mem: "(a, t) \<in> set ?sel" using due free aid by simp
  have only: "x = (a, t)" if "x \<in> set ?sel" for x
  proof -
    obtain b s where x: "x = (b, s)" by (cases x)
    have "a_ID b = a_ID a" "(b, s) \<in> set (dispatchable_rows (env_now E) d)"
      using that aid by (auto simp: x IsUUID_def)
    then show ?thesis using dispatchable_unique [OF ok due] x by blast
  qed
  have set_sel: "set (dispatch_order ?sel) = set ?sel" by (simp add: dispatch_order_def)
  have "dispatch_order ?sel \<noteq> []"
    using mem unfolding set_sel [symmetric] by (metis list.distinct(1) list.set_cases)
  then obtain x rest where rows: "dispatch_order ?sel = x # rest" by (meson list.exhaust)
  have "x \<in> set ?sel" unfolding set_sel [symmetric] rows by (rule list.set_intros(1))
  then have "x = (a, t)" by (rule only)
  let ?d' = "update_attempt (a_ID a) (lease_row E rid dur) d"
  have ok': "schema_ok ?d'"
    unfolding update_attempt_def by (rule schema_ok_lease [OF ok rid])
  have C: "ClaimAttempt E locked rid aid dur d = Inr (Some (claim_of a t (env_now E + dur)), ?d')"
    using rows aid(1) ff ok' \<open>x = (a, t)\<close>
    by (simp add: ClaimAttempt_def claim_def begin_tx_def commit_tx_def exec_fault_free)
  have a: "a \<in> set (attempts d)" using due by (auto simp: dispatchable_rows_def)
  have uniq: "a_ID b = a_ID a \<longleftrightarrow> b = a" if "b \<in> set (attempts d)" for b
    using attempt_eq_by_ID [OF ok that a] by blast
  have "lease_of ?d' (a_ID a) = row_lease (lease_row E rid dur a)"
    unfolding update_attempt_def by (rule lease_of_update(1) [OF ok a uniq]) simp_all
  with C show ?thesis by auto
qed

text \<open>
  C17. Claims are in order: \<open>Claim\<close> returns a due attempt whenever one is unlocked, and no
  unlocked due attempt belongs to a task of higher priority than the one returned, nor to an older
  task of the same priority.
\<close>

theorem claim_takes_most_urgent:
  assumes "ClaimNext E locked rid dur d = Inr (r, d')"
  shows "case r of
      None \<Rightarrow> d' = d \<and> (\<forall>(a, t)\<in>set (dispatchable_rows (env_now E) d). locked (a_ID a))
    | Some c \<Rightarrow> \<exists>a t. (a, t) \<in> set (dispatchable_rows (env_now E) d) \<and> \<not> locked (a_ID a)
        \<and> c = claim_of a t (env_now E + dur)
        \<and> (\<forall>(b, s)\<in>set (dispatchable_rows (env_now E) d). \<not> locked (a_ID b) \<longrightarrow>
             t_Priority s < t_Priority t
             \<or> t_Priority s = t_Priority t \<and> t_CreatedAt t \<le> t_CreatedAt s)"
proof (cases r)
  case None
  with assms have C: "claim E locked rid dur [] d = Inr (None, d')" by (simp add: ClaimNext_def)
  have "dispatch_order (filter (\<lambda>(a, t). ([] = [] \<or> a_ID a = pg_uuid []) \<and> \<not> locked (a_ID a))
      (dispatchable_rows (env_now E) d)) = []"
    using C by (auto simp: claim_def bind_sum_Inr_iff split: list.splits)
  then have "filter (\<lambda>(a, t). \<not> locked (a_ID a)) (dispatchable_rows (env_now E) d) = []"
    unfolding dispatch_order_def by (simp flip: set_empty)
  then show ?thesis using claim_None [OF C] None by (auto simp: filter_empty_conv)
next
  case (Some c)
  with assms have C: "claim E locked rid dur [] d = Inr (Some c, d')" by (simp add: ClaimNext_def)
  show ?thesis
  proof (rule claim_InrE [OF C], goal_cases)
    case (1 a t)
    have "t_Priority s < t_Priority t \<or> t_Priority s = t_Priority t \<and> t_CreatedAt t \<le> t_CreatedAt s"
      if "(b, s) \<in> set (dispatchable_rows (env_now E) d)" "\<not> locked (a_ID b)" for b s
      using 1(7) [OF that] by (auto simp: less_eq_prod_def)
    with 1(1,2,4) show ?case by (auto simp: Some)
  qed
qed

theorem due_attempt_claimable_witness:
  "\<exists>d'. ClaimAttempt (demo_env 5) (\<lambda>_. False) ''s'' demo_aid 60 demo_due
     = Inr (Some (claim_of demo_due_attempt (demo_task StatusQueued 2) 65), d')"
proof -
  have "(demo_due_attempt, demo_task StatusQueued 2)
      \<in> set (dispatchable_rows (env_now (demo_env 5)) demo_due)"
    "IsUUID demo_aid" "pg_uuid demo_aid = a_ID demo_due_attempt"
    "pg_uuid ''s'' \<in> r_ID ` set (runners demo_due)" "env_now (demo_env 5) = 5" by code_simp+
  then show ?thesis
    using due_attempt_claimable [OF demo_env_fault_free demo_due_inv, of demo_due_attempt
        "demo_task StatusQueued 2" 5 "\<lambda>_. False" demo_aid "''s''" 60] by auto
qed

theorem claim_takes_most_urgent_witness:
  "\<exists>c d'. ClaimNext (demo_env 2) (\<lambda>_. False) ''r'' 60 demo_queued = Inr (Some c, d')"
proof -
  obtain r d' where C: "ClaimNext (demo_env 2) (\<lambda>_. False) ''r'' 60 demo_queued = Inr (r, d')"
    using demo_claim_ok by (auto simp: is_ok_iff)
  have "dispatchable_rows (env_now (demo_env 2)) demo_queued \<noteq> []" by code_simp
  then have "r \<noteq> None"
    using claim_takes_most_urgent [OF C]
    by (cases r; cases "dispatchable_rows (env_now (demo_env 2)) demo_queued") auto
  with C show ?thesis by auto
qed

end
