(* ===== verification/GithubTypes.thy ===== *)
theory GithubTypes
  imports Schema GoText
begin

text \<open>
  The values \<open>internal/github/client.go\<close> exchanges with the GitHub API. A repository of the
  installation listing is in \<open>GithubStore\<close>.
\<close>

section \<open>Check runs\<close>

record CheckRunParams =
  crp_Name :: string
  crp_HeadSHA :: string
  crp_ExternalID :: string
  crp_Status :: string
  crp_Conclusion :: string
  crp_Title :: string
  crp_Summary :: string

definition no_check_run :: CheckRunParams where
  "no_check_run = \<lparr>crp_Name = [], crp_HeadSHA = [], crp_ExternalID = [], crp_Status = [],
     crp_Conclusion = [], crp_Title = [], crp_Summary = []\<rparr>"

record CheckRun =
  cr_ID :: int
  cr_ExternalID :: string
  cr_Status :: string
  cr_Conclusion :: string

text \<open>\<open>CheckRunParams.body\<close>: empty fields are left out of the request.\<close>

definition check_run_body :: "CheckRunParams \<Rightarrow> json" where
  "check_run_body p = JObj
     (map (\<lambda>(k, v). (k, JStr v)) (filter (\<lambda>(k, v). v \<noteq> [])
        [(''name'', crp_Name p), (''head_sha'', crp_HeadSHA p), (''external_id'', crp_ExternalID p),
         (''status'', crp_Status p), (''conclusion'', crp_Conclusion p)])
      @ (if crp_Title p \<noteq> [] \<or> crp_Summary p \<noteq> [] then
           [(''output'', JObj [(''title'', JStr (crp_Title p)), (''summary'', JStr (crp_Summary p))])]
         else []))"

section \<open>Pull requests\<close>

record PullRequest =
  pr_Number :: int
  pr_State :: string
  pr_Draft :: bool
  pr_HTMLURL :: string

record PullRequestParams =
  prp_Title :: string
  prp_Head :: string
  prp_Base :: string
  prp_Body :: string

record Author =
  au_Login :: string
  au_Type :: string

definition Bot :: "Author \<Rightarrow> bool" where
  "Bot a \<longleftrightarrow> au_Type a = ''Bot''"

record PullRequestHead =
  prh_Ref :: string
  prh_SHA :: string
  prh_RepoID :: int

record PullRequestDetail =
  prd_Number :: int
  prd_State :: string
  prd_Merged :: bool
  prd_HTMLURL :: string
  prd_Head :: PullRequestHead

section \<open>Reviews and comments\<close>

record Review =
  rv_ID :: int
  rv_Body :: string
  rv_State :: string
  rv_User :: Author
  rv_SubmittedAt :: time

record ReviewComment =
  rc_ID :: int
  rc_Body :: string
  rc_Path :: string
  rc_Line :: "int option"
  rc_OriginalLine :: "int option"
  rc_DiffHunk :: string
  rc_User :: Author
  rc_CreatedAt :: time

record IssueComment =
  ic_ID :: int
  ic_Body :: string
  ic_User :: Author
  ic_CreatedAt :: time

end
