(* ===== verification/Validation.thy ===== *)
theory Validation
  imports TaskStore GoTime
begin

text \<open>
  \<open>internal/validation\<close>: the repository's validation file (\<open>file.go\<close>), the result of one
  trusted check (\<open>run.go\<close>) and the table of results (\<open>store.go\<close>, migration 5). The YAML
  decoder, the file system under the workspace and the command a check runs are parameters:
  what they answered is an argument.
\<close>

section \<open>The validation file\<close>

definition FileName :: string where
  "FileName = ''.agent-trail/validation.yaml''"

definition MaxChecks :: nat where "MaxChecks = 20"
definition MaxCommandArgs :: nat where "MaxCommandArgs = 64"
definition MaxFileBytes :: int where "MaxFileBytes = 1048576"
definition DefaultTimeoutSeconds :: int where "DefaultTimeoutSeconds = 300"
definition MaxTimeoutSeconds :: int where "MaxTimeoutSeconds = 1800"
definition MaxTotalTimeoutSeconds :: int where "MaxTotalTimeoutSeconds = 3600"

definition Categories :: "string list" where
  "Categories = [''unit_test'', ''integration_test'', ''lint'', ''format'', ''typecheck'',
     ''security'', ''dependency'', ''migration'', ''build'', ''custom'']"

text \<open>\<open>^[a-zA-Z0-9][a-zA-Z0-9._-]\{0,99\}$\<close>.\<close>

definition is_alnum :: "char \<Rightarrow> bool" where
  "is_alnum c \<longleftrightarrow> is_digit c \<or> (65 \<le> byte c \<and> byte c \<le> 90) \<or> (97 \<le> byte c \<and> byte c \<le> 122)"

definition check_name_ok :: "string \<Rightarrow> bool" where
  "check_name_ok s = (case s of [] \<Rightarrow> False
     | c # cs \<Rightarrow> is_alnum c \<and> length cs \<le> 99 \<and>
         list_all (\<lambda>c. is_alnum c \<or> c \<in> {CHR ''.'', CHR ''_'', CHR ''-''}) cs)"

record Check =
  k_Name :: string
  k_Category :: string
  k_Command :: "string list"
  k_TimeoutSeconds :: int

definition EffectiveTimeoutSeconds :: "Check \<Rightarrow> int" where
  "EffectiveTimeoutSeconds c =
     (if k_TimeoutSeconds c = 0 then DefaultTimeoutSeconds else k_TimeoutSeconds c)"

record File =
  vf_Version :: int
  vf_Validation :: "Check list"

text \<open>The checks in order, with the names seen and the timeouts summed so far.\<close>

fun validate_checks :: "nat \<Rightarrow> string list \<Rightarrow> int \<Rightarrow> Check list \<Rightarrow> err + int" where
  "validate_checks i seen tot [] = Inr tot"
| "validate_checks i seen tot (c # cs) =
     (if \<not> check_name_ok (k_Name c) then
        Inl (Msg (''check '' @ nat_string i @ '': name '' @ quote (k_Name c)
          @ '' must match ^[a-zA-Z0-9][a-zA-Z0-9._-]{0,99}$''))
      else if k_Name c \<in> set seen then Inl (Msg (''duplicate check name '' @ quote (k_Name c)))
      else if k_Category c \<notin> set Categories then
        Inl (Msg (''check '' @ quote (k_Name c) @ '': unknown category '' @ quote (k_Category c)))
      else if k_Command c = [] \<or> hd (k_Command c) = [] then
        Inl (Msg (''check '' @ quote (k_Name c) @ '': command must be a non-empty argument array''))
      else if MaxCommandArgs < length (k_Command c) then
        Inl (Msg (''check '' @ quote (k_Name c) @ '': command has '' @ nat_string (length (k_Command c))
          @ '' arguments (limit '' @ nat_string MaxCommandArgs @ '')''))
      else if k_TimeoutSeconds c < 0 \<or> MaxTimeoutSeconds < k_TimeoutSeconds c then
        Inl (Msg (''check '' @ quote (k_Name c) @ '': timeout_seconds must be between 0 and ''
          @ int_string MaxTimeoutSeconds @ '' (0 applies the '' @ int_string DefaultTimeoutSeconds
          @ ''s default)''))
      else validate_checks (i + 1) (seen @ [k_Name c]) (tot + EffectiveTimeoutSeconds c) cs)"

definition validate_file :: "File \<Rightarrow> err + unit" where
  "validate_file f =
     (if vf_Version f \<noteq> 1 then
        Inl (Msg (''unsupported validation file version '' @ int_string (vf_Version f) @ '' (want 1)''))
      else if vf_Validation f = [] then Inl (Msg ''validation file declares no checks'')
      else if MaxChecks < length (vf_Validation f) then
        Inl (Msg (''validation file declares '' @ nat_string (length (vf_Validation f))
          @ '' checks (limit '' @ nat_string MaxChecks @ '')''))
      else bind_sum (validate_checks 0 [] 0 (vf_Validation f)) (\<lambda>tot.
        if MaxTotalTimeoutSeconds < tot then
          Inl (Msg (''summed check timeouts '' @ int_string tot @ ''s exceed the ''
            @ int_string MaxTotalTimeoutSeconds @ ''s budget''))
        else Inr ()))"

text \<open>\<open>yaml\<close> is the decoder of gopkg.in/yaml.v3 with known fields only.\<close>

definition too_large :: err where
  "too_large = Msg (''validation file exceeds '' @ int_string MaxFileBytes @ '' bytes'')"

definition Parse :: "(string \<Rightarrow> err + File) \<Rightarrow> string \<Rightarrow> err + File" where
  "Parse yaml bytes =
     (if MaxFileBytes < int (length bytes) then Inl too_large
      else bind_sum (wrap ''parse validation file'' (yaml bytes)) (\<lambda>f.
        bind_sum (validate_file f) (\<lambda>_. Inr f)))"

text \<open>What the file system answered under the workspace root.\<close>

datatype file_stat = NotExist | StatFailed err | Stat bool int

record workspace_root =
  wr_Open :: "err + unit"
  wr_Lstat :: file_stat
  wr_Read :: "err + string"

text \<open>The second component is \<open>found\<close>.\<close>

definition Load :: "(string \<Rightarrow> err + File) \<Rightarrow> workspace_root \<Rightarrow> (err + File) \<times> bool" where
  "Load yaml r =
     (case wr_Open r of Inl e \<Rightarrow> (Inl (Wrap ''open workspace'' e), False)
      | Inr _ \<Rightarrow> (case wr_Lstat r of
          NotExist \<Rightarrow> (Inr \<lparr>vf_Version = 0, vf_Validation = []\<rparr>, False)
        | StatFailed e \<Rightarrow> (Inl (Wrap ''stat validation file'' e), False)
        | Stat regular bytes_n \<Rightarrow>
            if \<not> regular then (Inl (Msg ''validation file must be a regular file''), True)
            else if MaxFileBytes < bytes_n then (Inl too_large, True)
            else (case wr_Read r of
                Inl e \<Rightarrow> (Inl (Wrap ''read validation file'' e), True)
              | Inr bytes \<Rightarrow> (Parse yaml (take (nat (MaxFileBytes + 1)) bytes), True))))"

section \<open>Results\<close>

datatype vstatus = VPassed | VFailed | VTimedOut | VError

fun vstatus_string :: "vstatus \<Rightarrow> string" where
  "vstatus_string VPassed = ''passed''"
| "vstatus_string VFailed = ''failed''"
| "vstatus_string VTimedOut = ''timed_out''"
| "vstatus_string VError = ''error''"

lemma vstatus_string_inject [simp]: "vstatus_string a = vstatus_string b \<longleftrightarrow> a = b"
  by (cases a; cases b) simp_all

record Result =
  res_Name :: string
  res_Category :: string
  res_Command :: "string list"
  res_Status :: vstatus
  res_ExitCode :: "int option"
  res_DurationMS :: int
  res_Summary :: string
  res_TrustedExecution :: bool

definition maxCapturedOutput :: nat where "maxCapturedOutput = 65536"
definition maxSummaryLen :: nat where "maxSummaryLen = 500"

text \<open>\<open>boundedWriter.Write\<close>: the buffer keeps the first \<open>limit\<close> bytes.\<close>

definition bounded_write :: "nat \<Rightarrow> string \<Rightarrow> string \<Rightarrow> string" where
  "bounded_write limit buf p =
     (if length buf < limit then
        (if limit - length buf < length p then buf @ take (limit - length buf) p else buf @ p)
      else buf)"

definition sanitize :: "string \<Rightarrow> string" where
  "sanitize s = ToValidUTF8 (filter (\<lambda>c. c \<noteq> CHR 0x00) s)"

definition truncate_dots :: "string \<Rightarrow> nat \<Rightarrow> string" where
  "truncate_dots s n = (if length s \<le> n then s else trim_invalid (take n s) @ ''...'')"

definition summarize :: "string \<Rightarrow> string \<Rightarrow> string" where
  "summarize out fallback =
     (case find (\<lambda>l. l \<noteq> []) (rev (map TrimSpace (split_at (CHR 0x0A) (TrimSpace (sanitize out))))) of
        Some line \<Rightarrow> truncate_dots line maxSummaryLen
      | None \<Rightarrow> truncate_dots (sanitize fallback) maxSummaryLen)"

text \<open>
  What running a check's command came to: the pieces written to its output, the milliseconds it
  took, \<open>cmd.Run\<close>'s error and whether its own deadline and the caller's context have ended.
\<close>

datatype cmd_error = ExitError int string | OtherError string

fun cmd_error_text :: "cmd_error \<Rightarrow> string" where
  "cmd_error_text (ExitError code m) = m"
| "cmd_error_text (OtherError m) = m"

record cmd_outcome =
  co_Writes :: "string list"
  co_DurationMS :: int
  co_Error :: "cmd_error option"
  co_Deadline :: bool
  co_Cancelled :: bool

definition captured :: "cmd_outcome \<Rightarrow> string" where
  "captured o' = foldl (bounded_write maxCapturedOutput) [] (co_Writes o')"

definition runCheck :: "Check \<Rightarrow> cmd_outcome \<Rightarrow> Result" where
  "runCheck c o' =
     (let timeout = EffectiveTimeoutSeconds c * second;
          res = \<lparr>res_Name = k_Name c, res_Category = k_Category c, res_Command = k_Command c,
                 res_Status = VError, res_ExitCode = None, res_DurationMS = co_DurationMS o',
                 res_Summary = [], res_TrustedExecution = True\<rparr> in
      case co_Error o' of
        None \<Rightarrow> res\<lparr>res_ExitCode := Some 0, res_Status := VPassed,
                    res_Summary := summarize (captured o') ''passed''\<rparr>
      | Some e \<Rightarrow>
          if co_Deadline o' \<and> \<not> co_Cancelled o' then
            res\<lparr>res_Status := VTimedOut, res_Summary := ''timed out after '' @ duration_string timeout\<rparr>
          else (case e of
              ExitError code m \<Rightarrow>
                if 0 \<le> code then
                  res\<lparr>res_ExitCode := Some code, res_Status := VFailed,
                      res_Summary := summarize (captured o') m\<rparr>
                else res\<lparr>res_Status := VError, res_Summary := truncate_dots (sanitize m) maxSummaryLen\<rparr>
            | OtherError m \<Rightarrow>
                res\<lparr>res_Status := VError, res_Summary := truncate_dots (sanitize m) maxSummaryLen\<rparr>))"

section \<open>The table of results\<close>

record ValidationRow =
  v_ID :: string
  v_TaskAttemptID :: string
  v_Name :: string
  v_Category :: string
  v_Command :: json
  v_Status :: vstatus
  v_ExitCode :: "int option"
  v_DurationMS :: int
  v_Summary :: string
  v_TrustedExecution :: bool
  v_CreatedAt :: time

definition validation_row_ok :: "ValidationRow \<Rightarrow> bool" where
  "validation_row_ok v \<longleftrightarrow>
     text_between 1 100 (v_Name v) \<and> v_Category v \<in> set Categories \<and> json_ok (v_Command v) \<and>
     0 \<le> v_DurationMS v \<and> pg_text (v_Summary v)"

definition result_row :: "env \<Rightarrow> nat \<Rightarrow> string \<Rightarrow> Result \<Rightarrow> ValidationRow" where
  "result_row E k aid r =
     \<lparr>v_ID = env_uuid E k, v_TaskAttemptID = pg_uuid aid, v_Name = res_Name r,
      v_Category = res_Category r, v_Command = JArr (map (\<lambda>s. JStr (marshal_text s)) (res_Command r)),
      v_Status = res_Status r, v_ExitCode = res_ExitCode r, v_DurationMS = res_DurationMS r,
      v_Summary = res_Summary r, v_TrustedExecution = res_TrustedExecution r,
      v_CreatedAt = env_now E\<rparr>"

text \<open>
  \<open>Store.Insert\<close>: \<open>ON CONFLICT ... DO NOTHING\<close> on (attempt, name). Checks on the values come
  first, the foreign key only for a row that is inserted.
\<close>

definition InsertResult ::
  "env \<Rightarrow> string \<Rightarrow> Result \<Rightarrow> db \<Rightarrow> ValidationRow list \<Rightarrow> err + ValidationRow list" where
  "InsertResult E aid r d vs =
     (let v = result_row E (length vs) aid r in
      wrap ''insert validation result'' (
        bind_sum (driver E ''insert validation result'') (\<lambda>_.
        if \<not> validation_row_ok v then Inl (Sentinel (PgError (CheckViolation ''validation_results'')))
        else if \<exists>u\<in>set vs. v_TaskAttemptID u = v_TaskAttemptID v \<and> v_Name u = v_Name v then Inr vs
        else if v_ID v \<in> set (map v_ID vs) then
          Inl (Sentinel (PgError (UniqueViolation ''validation_results_pkey'')))
        else if v_TaskAttemptID v \<notin> set (map a_ID (attempts d)) then
          Inl (Sentinel (PgError (ForeignKeyViolation ''validation_results_task_attempt_id_fkey'')))
        else Inr (vs @ [v]))))"

text \<open>Each result with the number of its attempt, which the queries join in.\<close>

definition numbered_results :: "db \<Rightarrow> (Attempt \<Rightarrow> bool) \<Rightarrow> ValidationRow list \<Rightarrow> (int \<times> ValidationRow) list"
where
  "numbered_results d p vs =
     concat (map (\<lambda>v. map (\<lambda>a. (a_Number a, v))
       (filter (\<lambda>a. a_ID a = v_TaskAttemptID v \<and> p a) (attempts d))) vs)"

definition ListResultsForTask ::
  "env \<Rightarrow> string \<Rightarrow> db \<Rightarrow> ValidationRow list \<Rightarrow> err + (int \<times> ValidationRow) list" where
  "ListResultsForTask E tid d vs =
     (if \<not> IsUUID tid then Inl (Sentinel ErrNotFound)
      else bind_sum (wrap ''check task'' (driver E ''check task'')) (\<lambda>_.
      if find_task d (pg_uuid tid) = None then Inl (Sentinel ErrNotFound)
      else bind_sum (wrap ''list validation results'' (driver E ''list validation results'')) (\<lambda>_.
        Inr (sort_key (\<lambda>(n, v). (n, v_CreatedAt v, v_ID v))
          (numbered_results d (\<lambda>a. a_TaskID a = pg_uuid tid) vs)))))"

definition ListResultsForAttempt ::
  "env \<Rightarrow> string \<Rightarrow> db \<Rightarrow> ValidationRow list \<Rightarrow> err + (int \<times> ValidationRow) list" where
  "ListResultsForAttempt E aid d vs =
     (if \<not> IsUUID aid then Inl (Sentinel ErrAttemptNotFound)
      else bind_sum (wrap ''list attempt validation results''
        (driver E ''list attempt validation results'')) (\<lambda>_.
        Inr (sort_key (\<lambda>(n, v). (v_CreatedAt v, v_ID v))
          (filter (\<lambda>(n, v). v_TaskAttemptID v = pg_uuid aid)
            (numbered_results d (\<lambda>a. True) vs)))))"

end
