(* ===== verification/Evidence.thy ===== *)
theory Evidence
  imports Validation GoJson
begin

text \<open>
  \<open>internal/evidence\<close>: the report of an attempt (\<open>report.go\<close>), its JSON document, the two
  texts rendered from it (\<open>markdown.go\<close>, \<open>prbody.go\<close>), the table of reports
  (\<open>store.go\<close>, migration 5) and the attempts history (\<open>history.go\<close>). Adding up the reported
  costs and printing the sum is floating-point arithmetic: it is a parameter on the payloads.
\<close>

section \<open>The report\<close>

definition SchemaVersion :: int where "SchemaVersion = 1"

record TaskInfo =
  ti_ID :: string
  ti_SourceIssue :: "int option"
  ti_Title :: string
  ti_RequestedBy :: string

record Execution =
  ex_AgentProvider :: string
  ex_AgentModel :: string
  ex_BaseCommit :: string
  ex_FinalCommit :: string
  ex_DurationSeconds :: "int option"

record Changes =
  ch_FilesChanged :: int
  ch_Files :: "string list"

record CheckResult =
  cr_Name :: string
  cr_Category :: string
  cr_StatusText :: string
  cr_TrustedExecution :: bool
  cr_ExitCode :: "int option"
  cr_DurationMS :: int
  cr_Summary :: string

record Report =
  rep_SchemaVersion :: int
  rep_Task :: TaskInfo
  rep_Execution :: Execution
  rep_Plan :: "string list"
  rep_Changes :: Changes
  rep_Validation :: "CheckResult list"
  rep_Risks :: "string list"
  rep_Unverified :: "string list"

record ReportParams =
  gp_Task :: Task
  gp_BaseCommit :: string
  gp_AgentProvider :: string
  gp_DurationSeconds :: "int option"
  gp_Plan :: "string list"
  gp_FilesChanged :: "string list"
  gp_Trusted :: "(int \<times> ValidationRow) list"
  gp_AgentReported :: "CheckResult list"
  gp_ValidationNote :: string
  gp_Unverified :: "string list"

definition text_or :: "string option \<Rightarrow> string \<Rightarrow> string" where
  "text_or v s = (case v of Some t \<Rightarrow> t | None \<Rightarrow> s)"

definition trusted_result :: "ValidationRow \<Rightarrow> CheckResult" where
  "trusted_result t =
     \<lparr>cr_Name = v_Name t, cr_Category = v_Category t, cr_StatusText = vstatus_string (v_Status t),
      cr_TrustedExecution = v_TrustedExecution t, cr_ExitCode = v_ExitCode t,
      cr_DurationMS = v_DurationMS t, cr_Summary = v_Summary t\<rparr>"

definition Generate :: "ReportParams \<Rightarrow> Report" where
  "Generate p =
     \<lparr>rep_SchemaVersion = SchemaVersion,
      rep_Task = \<lparr>ti_ID = t_ID (gp_Task p), ti_SourceIssue = t_SourceIssueNumber (gp_Task p),
                  ti_Title = t_Title (gp_Task p),
                  ti_RequestedBy = text_or (t_RequestedByUserID (gp_Task p)) []\<rparr>,
      rep_Execution = \<lparr>ex_AgentProvider = gp_AgentProvider p,
                       ex_AgentModel = text_or (t_AgentModel (gp_Task p)) [],
                       ex_BaseCommit = (if gp_BaseCommit p \<noteq> [] then gp_BaseCommit p
                                        else text_or (t_BaseCommitSHA (gp_Task p)) []),
                       ex_FinalCommit = [], ex_DurationSeconds = gp_DurationSeconds p\<rparr>,
      rep_Plan = gp_Plan p,
      rep_Changes = \<lparr>ch_FilesChanged = int (length (gp_FilesChanged p)), ch_Files = gp_FilesChanged p\<rparr>,
      rep_Validation = map (trusted_result \<circ> snd) (gp_Trusted p) @ gp_AgentReported p,
      rep_Risks = [],
      rep_Unverified =
        (if gp_ValidationNote p \<noteq> [] then [''trusted validation did not run: '' @ gp_ValidationNote p]
         else [])
        @ (if gp_AgentReported p \<noteq> [] then
             [nat_string (length (gp_AgentReported p))
               @ '' agent-reported check(s) were not independently executed'']
           else [])
        @ gp_Unverified p\<rparr>"

section \<open>The JSON document\<close>

text \<open>\<open>omitempty\<close>: the member is left out for an empty string, nil, 0 or an empty slice.\<close>

abbreviation jtext :: "string \<Rightarrow> json" where
  "jtext s \<equiv> JStr (marshal_text s)"

definition omit_text :: "string \<Rightarrow> string \<Rightarrow> (string \<times> json) list" where
  "omit_text k s = (if s = [] then [] else [(k, jtext s)])"

definition omit_int :: "string \<Rightarrow> int \<Rightarrow> (string \<times> json) list" where
  "omit_int k n = (if n = 0 then [] else [(k, JInt n)])"

definition omit_ptr :: "string \<Rightarrow> int option \<Rightarrow> (string \<times> json) list" where
  "omit_ptr k v = (case v of None \<Rightarrow> [] | Some n \<Rightarrow> [(k, JInt n)])"

definition omit_texts :: "string \<Rightarrow> string list \<Rightarrow> (string \<times> json) list" where
  "omit_texts k ss = (if ss = [] then [] else [(k, JArr (map (\<lambda>s. jtext s) ss))])"

definition check_json :: "CheckResult \<Rightarrow> json" where
  "check_json c = JObj
     ([(''name'', jtext (cr_Name c))] @ omit_text ''category'' (cr_Category c)
      @ [(''status'', jtext (cr_StatusText c)), (''trusted_execution'', JBool (cr_TrustedExecution c))]
      @ omit_ptr ''exit_code'' (cr_ExitCode c) @ omit_int ''duration_ms'' (cr_DurationMS c)
      @ omit_text ''summary'' (cr_Summary c))"

definition task_json :: "TaskInfo \<Rightarrow> json" where
  "task_json t = JObj
     ([(''id'', jtext (ti_ID t))] @ omit_ptr ''source_issue'' (ti_SourceIssue t)
      @ [(''title'', jtext (ti_Title t))] @ omit_text ''requested_by'' (ti_RequestedBy t))"

definition execution_json :: "Execution \<Rightarrow> json" where
  "execution_json e = JObj
     (omit_text ''agent_provider'' (ex_AgentProvider e) @ omit_text ''agent_model'' (ex_AgentModel e)
      @ omit_text ''base_commit'' (ex_BaseCommit e) @ omit_text ''final_commit'' (ex_FinalCommit e)
      @ omit_ptr ''duration_seconds'' (ex_DurationSeconds e))"

definition changes_json :: "Changes \<Rightarrow> json" where
  "changes_json c = JObj
     ([(''files_changed'', JInt (ch_FilesChanged c))] @ omit_texts ''files'' (ch_Files c))"

definition report_json :: "Report \<Rightarrow> json" where
  "report_json r = JObj
     ([(''schema_version'', JInt (rep_SchemaVersion r)), (''task'', task_json (rep_Task r)),
       (''execution'', execution_json (rep_Execution r))]
      @ omit_texts ''plan'' (rep_Plan r)
      @ [(''changes'', changes_json (rep_Changes r)),
         (''validation'', JArr (map check_json (rep_Validation r)))]
      @ omit_texts ''risks'' (rep_Risks r) @ omit_texts ''unverified'' (rep_Unverified r))"

text \<open>\<open>json.Unmarshal\<close> of the stored document into a \<open>Report\<close>.\<close>

definition no_check :: CheckResult where
  "no_check = \<lparr>cr_Name = [], cr_Category = [], cr_StatusText = [], cr_TrustedExecution = False,
     cr_ExitCode = None, cr_DurationMS = 0, cr_Summary = []\<rparr>"

definition check_member :: "string \<Rightarrow> json \<Rightarrow> CheckResult \<Rightarrow> err + CheckResult" where
  "check_member k j c =
     (if k = ''name'' then bind_sum (decode_string j (cr_Name c)) (\<lambda>s. Inr (c\<lparr>cr_Name := s\<rparr>))
      else if k = ''category'' then
        bind_sum (decode_string j (cr_Category c)) (\<lambda>s. Inr (c\<lparr>cr_Category := s\<rparr>))
      else if k = ''status'' then
        bind_sum (decode_string j (cr_StatusText c)) (\<lambda>s. Inr (c\<lparr>cr_StatusText := s\<rparr>))
      else if k = ''trusted_execution'' then
        bind_sum (decode_bool j (cr_TrustedExecution c)) (\<lambda>b. Inr (c\<lparr>cr_TrustedExecution := b\<rparr>))
      else if k = ''exit_code'' then
        bind_sum (decode_int_ptr j) (\<lambda>v. Inr (c\<lparr>cr_ExitCode := v\<rparr>))
      else if k = ''duration_ms'' then
        bind_sum (decode_int j (cr_DurationMS c)) (\<lambda>n. Inr (c\<lparr>cr_DurationMS := n\<rparr>))
      else if k = ''summary'' then
        bind_sum (decode_string j (cr_Summary c)) (\<lambda>s. Inr (c\<lparr>cr_Summary := s\<rparr>))
      else Inr c)"

definition task_member :: "string \<Rightarrow> json \<Rightarrow> TaskInfo \<Rightarrow> err + TaskInfo" where
  "task_member k j t =
     (if k = ''id'' then bind_sum (decode_string j (ti_ID t)) (\<lambda>s. Inr (t\<lparr>ti_ID := s\<rparr>))
      else if k = ''source_issue'' then
        bind_sum (decode_int_ptr j) (\<lambda>v. Inr (t\<lparr>ti_SourceIssue := v\<rparr>))
      else if k = ''title'' then bind_sum (decode_string j (ti_Title t)) (\<lambda>s. Inr (t\<lparr>ti_Title := s\<rparr>))
      else if k = ''requested_by'' then
        bind_sum (decode_string j (ti_RequestedBy t)) (\<lambda>s. Inr (t\<lparr>ti_RequestedBy := s\<rparr>))
      else Inr t)"

definition execution_member :: "string \<Rightarrow> json \<Rightarrow> Execution \<Rightarrow> err + Execution" where
  "execution_member k j e =
     (if k = ''agent_provider'' then
        bind_sum (decode_string j (ex_AgentProvider e)) (\<lambda>s. Inr (e\<lparr>ex_AgentProvider := s\<rparr>))
      else if k = ''agent_model'' then
        bind_sum (decode_string j (ex_AgentModel e)) (\<lambda>s. Inr (e\<lparr>ex_AgentModel := s\<rparr>))
      else if k = ''base_commit'' then
        bind_sum (decode_string j (ex_BaseCommit e)) (\<lambda>s. Inr (e\<lparr>ex_BaseCommit := s\<rparr>))
      else if k = ''final_commit'' then
        bind_sum (decode_string j (ex_FinalCommit e)) (\<lambda>s. Inr (e\<lparr>ex_FinalCommit := s\<rparr>))
      else if k = ''duration_seconds'' then
        bind_sum (decode_int_ptr j) (\<lambda>v. Inr (e\<lparr>ex_DurationSeconds := v\<rparr>))
      else Inr e)"

definition decode_text :: "json \<Rightarrow> err + string" where
  "decode_text j = decode_string j []"

definition changes_member :: "string \<Rightarrow> json \<Rightarrow> Changes \<Rightarrow> err + Changes" where
  "changes_member k j c =
     (if k = ''files_changed'' then
        bind_sum (decode_int j (ch_FilesChanged c)) (\<lambda>n. Inr (c\<lparr>ch_FilesChanged := n\<rparr>))
      else if k = ''files'' then
        bind_sum (decode_slice decode_text j) (\<lambda>ss. Inr (c\<lparr>ch_Files := ss\<rparr>))
      else Inr c)"

definition no_report :: Report where
  "no_report = \<lparr>rep_SchemaVersion = 0,
     rep_Task = \<lparr>ti_ID = [], ti_SourceIssue = None, ti_Title = [], ti_RequestedBy = []\<rparr>,
     rep_Execution = \<lparr>ex_AgentProvider = [], ex_AgentModel = [], ex_BaseCommit = [],
                      ex_FinalCommit = [], ex_DurationSeconds = None\<rparr>,
     rep_Plan = [], rep_Changes = \<lparr>ch_FilesChanged = 0, ch_Files = []\<rparr>, rep_Validation = [],
     rep_Risks = [], rep_Unverified = []\<rparr>"

definition report_member :: "string \<Rightarrow> json \<Rightarrow> Report \<Rightarrow> err + Report" where
  "report_member k j r =
     (if k = ''schema_version'' then
        bind_sum (decode_int j (rep_SchemaVersion r)) (\<lambda>n. Inr (r\<lparr>rep_SchemaVersion := n\<rparr>))
      else if k = ''task'' then
        bind_sum (decode_struct task_member (rep_Task r) j) (\<lambda>t. Inr (r\<lparr>rep_Task := t\<rparr>))
      else if k = ''execution'' then
        bind_sum (decode_struct execution_member (rep_Execution r) j)
          (\<lambda>e. Inr (r\<lparr>rep_Execution := e\<rparr>))
      else if k = ''plan'' then
        bind_sum (decode_slice decode_text j) (\<lambda>ss. Inr (r\<lparr>rep_Plan := ss\<rparr>))
      else if k = ''changes'' then
        bind_sum (decode_struct changes_member (rep_Changes r) j) (\<lambda>c. Inr (r\<lparr>rep_Changes := c\<rparr>))
      else if k = ''validation'' then
        bind_sum (decode_slice (decode_struct check_member no_check) j)
          (\<lambda>cs. Inr (r\<lparr>rep_Validation := cs\<rparr>))
      else if k = ''risks'' then
        bind_sum (decode_slice decode_text j) (\<lambda>ss. Inr (r\<lparr>rep_Risks := ss\<rparr>))
      else if k = ''unverified'' then
        bind_sum (decode_slice decode_text j) (\<lambda>ss. Inr (r\<lparr>rep_Unverified := ss\<rparr>))
      else Inr r)"

definition decode_report :: "json \<Rightarrow> err + Report" where
  "decode_report j = decode_struct report_member no_report j"

end
