(* ===== verification/EvidenceStore.thy ===== *)
theory EvidenceStore
  imports Evidence
begin

text \<open>
  The texts of a report (\<open>markdown.go\<close>, \<open>prbody.go\<close>), the table of reports (\<open>store.go\<close>) and
  the attempts history (\<open>history.go\<close>).
\<close>

section \<open>Rendering\<close>

definition exitCodeCell :: "int option \<Rightarrow> string" where
  "exitCodeCell v = (case v of None \<Rightarrow> ''-'' | Some n \<Rightarrow> int_string n)"

definition trusted_row :: "CheckResult \<Rightarrow> string" where
  "trusted_row v = ''| '' @ cr_Name v @ '' | '' @ cr_Category v @ '' | '' @ cr_StatusText v @ '' | ''
     @ exitCodeCell (cr_ExitCode v) @ '' | '' @ int_string (cr_DurationMS v) @ ''ms |'' @ newline"

definition claimed_row :: "CheckResult \<Rightarrow> string" where
  "claimed_row v = ''| '' @ cr_Name v @ '' | '' @ cr_StatusText v @ '' | ''
     @ exitCodeCell (cr_ExitCode v) @ '' |'' @ newline"

definition writeValidationSections :: "Report \<Rightarrow> string" where
  "writeValidationSections r =
     (let trusted = filter cr_TrustedExecution (rep_Validation r);
          claimed = filter (\<lambda>v. \<not> cr_TrustedExecution v) (rep_Validation r) in
      newline @ ''## Verified by Agent Trail'' @ newline @ newline
      @ (if trusted = [] then ''No trusted checks ran.'' @ newline
         else ''Checks the platform executed in the workspace after editing ended.'' @ newline @ newline
           @ ''| Check | Category | Result | Exit code | Duration |'' @ newline
           @ ''|---|---|---|---:|---:|'' @ newline
           @ concat (map trusted_row trusted))
      @ (if claimed = [] then []
         else newline @ ''## Agent-reported (not independently verified)'' @ newline @ newline
           @ ''| Check | Claimed result | Claimed exit code |'' @ newline
           @ ''|---|---|---:|'' @ newline
           @ concat (map claimed_row claimed)))"

text \<open>A section of items, left out when there are none.\<close>

definition item_section :: "string \<Rightarrow> string list \<Rightarrow> string" where
  "item_section title items =
     (if items = [] then []
      else newline @ ''## '' @ title @ newline @ newline
        @ concat (map (\<lambda>s. ''- '' @ s @ newline) items))"

fun numbered_lines :: "nat \<Rightarrow> string list \<Rightarrow> string" where
  "numbered_lines i [] = []"
| "numbered_lines i (s # ss) = nat_string i @ ''. '' @ s @ newline @ numbered_lines (i + 1) ss"

definition Markdown :: "Report \<Rightarrow> string" where
  "Markdown r =
     ''# Evidence: '' @ ti_Title (rep_Task r) @ newline @ newline
     @ ''Task `'' @ ti_ID (rep_Task r) @ ''`''
     @ (if ex_AgentProvider (rep_Execution r) \<noteq> [] then
          '', agent provider `'' @ ex_AgentProvider (rep_Execution r) @ ''`'' else [])
     @ (case ex_DurationSeconds (rep_Execution r) of None \<Rightarrow> []
        | Some n \<Rightarrow> '', ran '' @ int_string n @ ''s'')
     @ ''.'' @ newline
     @ writeValidationSections r
     @ (if rep_Plan r = [] then []
        else newline @ ''## Plan'' @ newline @ newline @ numbered_lines 1 (rep_Plan r))
     @ newline @ ''## Changes'' @ newline @ newline
     @ (if ch_Files (rep_Changes r) = [] then
          int_string (ch_FilesChanged (rep_Changes r)) @ '' files changed.'' @ newline
        else concat (map (\<lambda>f. ''- `'' @ f @ ''`'' @ newline) (ch_Files (rep_Changes r))))
     @ item_section ''Risks'' (rep_Risks r)
     @ item_section ''Unverified'' (rep_Unverified r)"

text \<open>
  The history of one attempt; \<open>h_Validation\<close> is empty when no trusted check ran, and the cost
  is the printed sum.
\<close>

record AttemptHistory =
  h_Number :: int
  h_Status :: string
  h_BaseCommit :: string
  h_FinalCommit :: string
  h_Validation :: string
  h_CostUSD :: "string option"

definition shaCell :: "string \<Rightarrow> string" where
  "shaCell sha = (if sha = [] then ''-'' else ''`'' @ sha @ ''`'')"

definition textCell :: "string \<Rightarrow> string" where
  "textCell s = (if s = [] then ''-'' else s)"

definition costCell :: "string option \<Rightarrow> string" where
  "costCell usd = (case usd of None \<Rightarrow> ''-'' | Some s \<Rightarrow> ''$'' @ s)"

definition history_row :: "AttemptHistory \<Rightarrow> string" where
  "history_row h = ''| '' @ int_string (h_Number h) @ '' | '' @ shaCell (h_BaseCommit h) @ '' | ''
     @ shaCell (h_FinalCommit h) @ '' | '' @ textCell (h_Validation h) @ '' | ''
     @ costCell (h_CostUSD h) @ '' |'' @ newline"

definition metadata_line :: "string \<Rightarrow> string \<Rightarrow> string" where
  "metadata_line label s = ''- '' @ label @ '': '' @ s @ newline"

definition PRBody :: "Report \<Rightarrow> string \<Rightarrow> AttemptHistory list \<Rightarrow> string" where
  "PRBody r finalCommit history =
     ''## Agent Trail task'' @ newline @ newline
     @ (case ti_SourceIssue (rep_Task r) of None \<Rightarrow> []
        | Some n \<Rightarrow> ''Closes #'' @ int_string n @ newline @ newline)
     @ ''Task `'' @ ti_ID (rep_Task r) @ ''`.'' @ newline
     @ newline @ ''## Summary'' @ newline @ newline
     @ ti_Title (rep_Task r) @ newline
     @ item_section ''Implementation'' (rep_Plan r)
     @ writeValidationSections r
     @ item_section ''Risks'' (rep_Risks r)
     @ item_section ''Unverified'' (rep_Unverified r)
     @ newline @ ''## Execution metadata'' @ newline @ newline
     @ (if ex_BaseCommit (rep_Execution r) \<noteq> [] then
          metadata_line ''Base commit'' (''`'' @ ex_BaseCommit (rep_Execution r) @ ''`'') else [])
     @ (if finalCommit \<noteq> [] then metadata_line ''Final commit'' (''`'' @ finalCommit @ ''`'') else [])
     @ (if ex_AgentProvider (rep_Execution r) \<noteq> [] then
          metadata_line ''Agent provider'' (ex_AgentProvider (rep_Execution r)) else [])
     @ (if ex_AgentModel (rep_Execution r) \<noteq> [] then
          metadata_line ''Agent model'' (ex_AgentModel (rep_Execution r)) else [])
     @ (case ex_DurationSeconds (rep_Execution r) of None \<Rightarrow> []
        | Some n \<Rightarrow> metadata_line ''Duration'' (int_string n @ ''s''))
     @ metadata_line ''Changes'' (int_string (ch_FilesChanged (rep_Changes r)) @ '' files'')
     @ (if history = [] then []
        else newline @ ''## Attempts'' @ newline @ newline
          @ ''| Attempt | Base commit | Final commit | Validation | Reported cost |'' @ newline
          @ ''|---:|---|---|---|---:|'' @ newline
          @ concat (map history_row history))"

section \<open>The table of reports\<close>

record EvidenceRow =
  ev_ID :: string
  ev_TaskAttemptID :: string
  ev_SchemaVersion :: int
  ev_SummaryMarkdown :: string
  ev_Report :: json
  ev_CreatedAt :: time

definition evidence_row :: "env \<Rightarrow> nat \<Rightarrow> string \<Rightarrow> Report \<Rightarrow> string \<Rightarrow> EvidenceRow" where
  "evidence_row E k aid r markdown =
     \<lparr>ev_ID = env_uuid E k, ev_TaskAttemptID = pg_uuid aid, ev_SchemaVersion = rep_SchemaVersion r,
      ev_SummaryMarkdown = markdown, ev_Report = report_json r, ev_CreatedAt = env_now E\<rparr>"

text \<open>\<open>ON CONFLICT (task_attempt_id) DO NOTHING\<close>: the first report of an attempt stays.\<close>

definition InsertReport ::
  "env \<Rightarrow> string \<Rightarrow> Report \<Rightarrow> string \<Rightarrow> db \<Rightarrow> EvidenceRow list \<Rightarrow> err + EvidenceRow list" where
  "InsertReport E aid r markdown d es =
     (let v = evidence_row E (length es) aid r markdown in
      wrap ''insert evidence report'' (
        bind_sum (driver E ''insert evidence report'') (\<lambda>_.
        if \<not> pg_text (ev_SummaryMarkdown v) \<or> \<not> json_ok (ev_Report v) then
          Inl (Sentinel (PgError (CheckViolation ''evidence_reports'')))
        else if ev_TaskAttemptID v \<in> set (map ev_TaskAttemptID es) then Inr es
        else if ev_ID v \<in> set (map ev_ID es) then
          Inl (Sentinel (PgError (UniqueViolation ''evidence_reports_pkey'')))
        else if ev_TaskAttemptID v \<notin> set (map a_ID (attempts d)) then
          Inl (Sentinel (PgError (ForeignKeyViolation ''evidence_reports_task_attempt_id_fkey'')))
        else Inr (es @ [v]))))"

definition numbered_reports :: "db \<Rightarrow> (Attempt \<Rightarrow> bool) \<Rightarrow> EvidenceRow list \<Rightarrow> (int \<times> EvidenceRow) list"
where
  "numbered_reports d p es =
     concat (map (\<lambda>v. map (\<lambda>a. (a_Number a, v))
       (filter (\<lambda>a. a_ID a = ev_TaskAttemptID v \<and> p a) (attempts d))) es)"

definition first_report :: "(int \<times> EvidenceRow) list \<Rightarrow> err + (int \<times> EvidenceRow)" where
  "first_report rs = (case rs of [] \<Rightarrow> Inl (Sentinel ErrNoReport) | r # _ \<Rightarrow> Inr r)"

definition GetReportForTask ::
  "env \<Rightarrow> string \<Rightarrow> db \<Rightarrow> EvidenceRow list \<Rightarrow> err + (int \<times> EvidenceRow)" where
  "GetReportForTask E tid d es =
     (if \<not> IsUUID tid then Inl (Sentinel ErrNotFound)
      else bind_sum (wrap ''check task'' (driver E ''check task'')) (\<lambda>_.
      if find_task d (pg_uuid tid) = None then Inl (Sentinel ErrNotFound)
      else bind_sum (wrap ''get evidence report'' (driver E ''get evidence report'')) (\<lambda>_.
        first_report (rev (sort_key fst
          (numbered_reports d (\<lambda>a. a_TaskID a = pg_uuid tid) es))))))"

definition GetReportForAttempt ::
  "env \<Rightarrow> string \<Rightarrow> db \<Rightarrow> EvidenceRow list \<Rightarrow> err + (int \<times> EvidenceRow)" where
  "GetReportForAttempt E aid d es =
     (if \<not> IsUUID aid then Inl (Sentinel ErrAttemptNotFound)
      else bind_sum (wrap ''get attempt evidence report''
        (driver E ''get attempt evidence report'')) (\<lambda>_.
        first_report (filter (\<lambda>(n, v). ev_TaskAttemptID v = pg_uuid aid)
          (numbered_reports d (\<lambda>a. True) es))))"

definition GetReportForTaskAttempt ::
  "env \<Rightarrow> string \<Rightarrow> int \<Rightarrow> db \<Rightarrow> EvidenceRow list \<Rightarrow> err + (int \<times> EvidenceRow)" where
  "GetReportForTaskAttempt E tid n d es =
     (if \<not> IsUUID tid then Inl (Sentinel ErrNotFound)
      else bind_sum (wrap ''resolve attempt'' (driver E ''resolve attempt'')) (\<lambda>_.
      case find (\<lambda>a. a_TaskID a = pg_uuid tid \<and> a_Number a = n) (attempts d) of
        None \<Rightarrow>
          bind_sum (wrap ''check task'' (driver E ''check task'')) (\<lambda>_.
            if find_task d (pg_uuid tid) = None then Inl (Sentinel ErrNotFound)
            else Inl (Sentinel ErrAttemptNotFound))
      | Some a \<Rightarrow> GetReportForAttempt E (a_ID a) d es))"

section \<open>History\<close>

fun attempt_status_string :: "attempt_status \<Rightarrow> string" where
  "attempt_status_string AttemptActive = ''active''"
| "attempt_status_string AttemptSuperseded = ''superseded''"
| "attempt_status_string (AttemptEnded s) = status_string s"

text \<open>The query's \<open>CASE\<close> over the trusted results of an attempt.\<close>

definition trusted_outcome :: "ValidationRow list \<Rightarrow> string" where
  "trusted_outcome vs =
     (if vs = [] then []
      else if \<exists>v\<in>set vs. v_Status v = VFailed then ''failed''
      else if \<forall>v\<in>set vs. v_Status v = VPassed then ''passed''
      else ''error'')"

definition attempt_history ::
  "(json list \<Rightarrow> string option) \<Rightarrow> db \<Rightarrow> ValidationRow list \<Rightarrow> Attempt \<Rightarrow> AttemptHistory" where
  "attempt_history cost d vs a =
     \<lparr>h_Number = a_Number a, h_Status = attempt_status_string (a_Status a),
      h_BaseCommit = text_or (a_BaseCommitSHA a) [], h_FinalCommit = text_or (a_FinalCommitSHA a) [],
      h_Validation = trusted_outcome
        (filter (\<lambda>v. v_TaskAttemptID v = a_ID a \<and> v_TrustedExecution v) vs),
      h_CostUSD = cost (map e_Payload
        (filter (\<lambda>e. e_EventType e = ''agent.cost_update'')
          (sort_key e_SequenceNumber (attempt_events d (a_ID a)))))\<rparr>"

definition ListAttemptHistory ::
  "(json list \<Rightarrow> string option) \<Rightarrow> env \<Rightarrow> string \<Rightarrow> db \<Rightarrow> ValidationRow list \<Rightarrow> err + AttemptHistory list"
where
  "ListAttemptHistory cost E tid d vs =
     (if \<not> IsUUID tid then Inl (Sentinel ErrNotFound)
      else bind_sum (wrap ''list attempt history'' (driver E ''list attempt history'')) (\<lambda>_.
      bind_sum (wrap ''list cost events'' (driver E ''list cost events'')) (\<lambda>_.
        Inr (map (attempt_history cost d vs)
          (sort_key a_Number (task_attempts d (pg_uuid tid)))))))"

end
