(* ===== verification/GoPath.thy ===== *)
theory GoPath
  imports GoText
begin

text \<open>
  Slash-separated paths of Go's \<open>path/filepath\<close> on Unix: \<open>Clean\<close>, \<open>Join\<close>, \<open>Dir\<close>, \<open>Base\<close> and
  \<open>IsAbs\<close>.
\<close>

text \<open>One path element on the reversed list of the elements kept so far.\<close>

definition clean_element :: "bool \<Rightarrow> string list \<Rightarrow> string \<Rightarrow> string list" where
  "clean_element rooted kept p =
     (if p = [] \<or> p = ''.'' then kept
      else if p = ''..'' then
        (if kept \<noteq> [] \<and> hd kept \<noteq> ''..'' then tl kept
         else if rooted then kept else p # kept)
      else p # kept)"

definition path_elements :: "bool \<Rightarrow> string \<Rightarrow> string list" where
  "path_elements rooted s = rev (foldl (clean_element rooted) [] (split_at (CHR ''/'') s))"

definition Clean :: "string \<Rightarrow> string" where
  "Clean s =
     (let rooted = HasPrefix s ''/''; ps = path_elements rooted s in
      if rooted then ''/'' @ join_strings ''/'' ps
      else if ps = [] then ''.'' else join_strings ''/'' ps)"

definition path_join :: "string list \<Rightarrow> string" where
  "path_join es =
     (let ne = dropWhile (\<lambda>e. e = []) es in
      if ne = [] then [] else Clean (join_strings ''/'' ne))"

definition last_element :: "string \<Rightarrow> string" where
  "last_element s = last (split_at (CHR ''/'') s)"

definition Dir :: "string \<Rightarrow> string" where
  "Dir s = Clean (take (length s - length (last_element s)) s)"

definition Base :: "string \<Rightarrow> string" where
  "Base s =
     (if s = [] then ''.''
      else let e = last_element (trim_right_char (CHR ''/'') s) in if e = [] then ''/'' else e)"

definition IsAbs :: "string \<Rightarrow> bool" where
  "IsAbs s = HasPrefix s ''/''"

end
