(* ===== verification/GitText.thy ===== *)
theory GitText
  imports GoText Schema
begin

text \<open>
  \<open>internal/gitworkspace\<close>, the part that needs no repository: branch names
  (\<open>branch.go\<close>), the shapes of ids (\<open>gitworkspace.go\<close>), commit trailers and
  \<open>--numstat\<close> output (\<open>commit.go\<close>), and the hunks of a diff (\<open>conflictops.go\<close>).
  Go's \<open>int\<close> has 64 bits; sums wrap.
\<close>

definition wrap64 :: "int \<Rightarrow> int" where
  "wrap64 i = (i + 2 ^ 63) mod 2 ^ 64 - 2 ^ 63"

section \<open>Branch names\<close>

definition BranchPrefix :: string where
  "BranchPrefix = ''agent-trail/''"

definition maxSlug :: nat where
  "maxSlug = 100"

text \<open>\<open>nonSlug.ReplaceAllString(s, "-")\<close>: each maximal run outside \<open>[a-z0-9]\<close> is one hyphen.\<close>

function replace_non_slug :: "string \<Rightarrow> string" where
  "replace_non_slug [] = []"
| "replace_non_slug (c # cs) =
     (if is_slug_char c then c # replace_non_slug cs
      else CHR ''-'' # replace_non_slug (dropWhile (\<lambda>c. \<not> is_slug_char c) cs))"
  by pat_completeness auto
termination
  by (relation "measure length") (auto simp: le_imp_less_Suc length_dropWhile_le)

definition SanitizeBranch :: "(string \<Rightarrow> string) \<Rightarrow> string \<Rightarrow> err + string" where
  "SanitizeBranch low raw =
     (let slug0 = trim_char (CHR ''-'') (replace_non_slug (ToLower low raw));
          slug = (if maxSlug < length slug0 then trim_char (CHR ''-'') (take maxSlug slug0) else slug0) in
      if slug = [] then Inl (Sentinel ErrEmptyBranch) else Inr (BranchPrefix @ slug))"

text \<open>\<open>^agent-trail/[a-z0-9][a-z0-9-]\{0,99\}$\<close>.\<close>

definition ValidBranch :: "string \<Rightarrow> bool" where
  "ValidBranch name \<longleftrightarrow> HasPrefix name BranchPrefix \<and> is_slug (drop (length BranchPrefix) name)"

section \<open>Ids\<close>

definition component_char :: "char \<Rightarrow> bool" where
  "component_char c \<longleftrightarrow> is_slug_char c \<or> (65 \<le> byte c \<and> byte c \<le> 90)"

text \<open>\<open>^[A-Za-z0-9][A-Za-z0-9._-]\{0,127\}$\<close>, not a dot path and without a separator.\<close>

definition validComponent :: "string \<Rightarrow> bool" where
  "validComponent s \<longleftrightarrow> s \<noteq> ''.'' \<and> s \<noteq> ''..'' \<and>
     \<not> list_ex (\<lambda>c. c = CHR ''/'' \<or> c = CHR 0x5C) s \<and>
     (case s of [] \<Rightarrow> False
      | c # cs \<Rightarrow> component_char c \<and> length cs \<le> 127 \<and>
          list_all (\<lambda>c. component_char c \<or> c = CHR ''.'' \<or> c = CHR ''_'' \<or> c = CHR ''-'') cs)"

definition ValidSHA :: "string \<Rightarrow> bool" where
  "ValidSHA s = is_sha s"

section \<open>Commit trailers\<close>

record CommitParams =
  cp_Message :: string
  cp_TaskID :: string
  cp_Provider :: string
  cp_Model :: string
  cp_RequestedBy :: string

fun trailer_lines :: "(string \<times> string) list \<Rightarrow> err + string list" where
  "trailer_lines [] = Inr []"
| "trailer_lines ((k, v) # fs) =
     (if v = [] then trailer_lines fs
      else if list_ex (\<lambda>c. c = CHR 0x0D \<or> c = CHR 0x0A) v then
        Inl (Msg (''gitworkspace: trailer '' @ k @ '' must not contain a newline''))
      else bind_sum (trailer_lines fs) (\<lambda>ls. Inr ((k @ '': '' @ v) # ls)))"

definition trailer_fields :: "CommitParams \<Rightarrow> (string \<times> string) list" where
  "trailer_fields p =
     [(''Agent-Trail-Task-ID'', cp_TaskID p), (''Agent-Trail-Agent-Provider'', cp_Provider p),
      (''Agent-Trail-Agent-Model'', cp_Model p), (''Agent-Trail-Requested-By'', cp_RequestedBy p)]"

definition buildTrailers :: "CommitParams \<Rightarrow> err + string" where
  "buildTrailers p =
     bind_sum (trailer_lines (trailer_fields p)) (\<lambda>ls.
       let b = concat (map (\<lambda>l. l @ newline) ls) in
       if b = [] then Inl (Msg ''gitworkspace: at least one commit trailer is required'')
       else Inr (trim_right_char (CHR 0x0A) b))"

section \<open>\<open>git diff --numstat\<close>\<close>

record Stats =
  FilesChanged :: int
  Insertions :: int
  Deletions :: int

definition numstat_count :: "string \<Rightarrow> string \<Rightarrow> err + int" where
  "numstat_count what f =
     (case Atoi f of None \<Rightarrow> Inl (Msg (''gitworkspace: numstat '' @ what)) | Some n \<Rightarrow> Inr n)"

definition numstat_line :: "string \<Rightarrow> Stats \<Rightarrow> err + Stats" where
  "numstat_line line s =
     (if TrimSpace line = [] then Inr s
      else let fields = split_n 3 (CHR 0x09) line in
      if length fields < 3 then Inl (Msg ''gitworkspace: malformed numstat line'')
      else let s1 = s\<lparr>FilesChanged := wrap64 (FilesChanged s + 1)\<rparr> in
      if fields ! 0 = ''-'' \<and> fields ! 1 = ''-'' then Inr s1
      else bind_sum (numstat_count ''insertions'' (fields ! 0)) (\<lambda>add.
      bind_sum (numstat_count ''deletions'' (fields ! 1)) (\<lambda>del.
      Inr (s1\<lparr>Insertions := wrap64 (Insertions s1 + add), Deletions := wrap64 (Deletions s1 + del)\<rparr>))))"

fun numstat_lines :: "string list \<Rightarrow> Stats \<Rightarrow> err + Stats" where
  "numstat_lines [] s = Inr s"
| "numstat_lines (l # ls) s = bind_sum (numstat_line l s) (numstat_lines ls)"

definition parseNumstat :: "string \<Rightarrow> err + Stats" where
  "parseNumstat out =
     numstat_lines (split_at (CHR 0x0A) out) \<lparr>FilesChanged = 0, Insertions = 0, Deletions = 0\<rparr>"

section \<open>Hunks of a diff\<close>

record LineRange =
  lr_Start :: int
  lr_End :: int

record hunk_state =
  hs_oldPath :: string
  hs_current :: string
  hs_hunks :: "string \<Rightarrow> LineRange list"

text \<open>
  \<open>^@@ -(\d+)(?:,(\d+))? \+\<close>: the two groups, the second empty when it did not take part.
\<close>

definition hunk_header :: "string \<Rightarrow> (string \<times> string) option" where
  "hunk_header line =
     (case CutPrefix line ''@@ -'' of
        None \<Rightarrow> None
      | Some r \<Rightarrow>
          let start = takeWhile is_digit r; r1 = dropWhile is_digit r;
              count = (case CutPrefix r1 '','' of Some r2 \<Rightarrow> takeWhile is_digit r2 | None \<Rightarrow> []);
              r3 = (if count = [] then r1 else drop (1 + length count) r1) in
          if start \<noteq> [] \<and> HasPrefix r3 '' +'' then Some (start, count) else None)"

definition hunk_range :: "string \<times> string \<Rightarrow> err + LineRange" where
  "hunk_range m =
     (case Atoi (fst m) of
        None \<Rightarrow> Inl (Msg ''gitworkspace: hunk start'')
      | Some start \<Rightarrow>
          bind_sum (if snd m = [] then Inr 1
                    else case Atoi (snd m) of
                      None \<Rightarrow> Inl (Msg ''gitworkspace: hunk count'') | Some n \<Rightarrow> Inr n) (\<lambda>count.
          Inr (if count = 0 then \<lparr>lr_Start = start, lr_End = start\<rparr>
               else \<lparr>lr_Start = start, lr_End = wrap64 (start + count - 1)\<rparr>)))"

definition dev_null :: string where
  "dev_null = ''/dev/null''"

definition hunk_line :: "string \<Rightarrow> hunk_state \<Rightarrow> err + hunk_state" where
  "hunk_line line st =
     (if HasPrefix line ''--- '' then
        Inr (st\<lparr>hs_oldPath := TrimPrefix (TrimPrefix line ''--- '') ''a/'', hs_current := []\<rparr>)
      else if HasPrefix line ''+++ '' then
        let newPath = TrimPrefix (TrimPrefix line ''+++ '') ''b/'' in
        Inr (st\<lparr>hs_current := (if newPath = dev_null then hs_oldPath st else newPath)\<rparr>)
      else if HasPrefix line ''@@ '' then
        if hs_current st = [] \<or> hs_current st = dev_null then
          Inl (Msg ''gitworkspace: hunk header before file header'')
        else (case hunk_header line of
          None \<Rightarrow> Inl (Msg ''gitworkspace: malformed hunk header'')
        | Some m \<Rightarrow> bind_sum (hunk_range m) (\<lambda>r.
            Inr (st\<lparr>hs_hunks := (hs_hunks st)
                   (hs_current st := hs_hunks st (hs_current st) @ [r])\<rparr>)))
      else Inr st)"

fun hunk_lines :: "string list \<Rightarrow> hunk_state \<Rightarrow> err + hunk_state" where
  "hunk_lines [] st = Inr st"
| "hunk_lines (l # ls) st = bind_sum (hunk_line l st) (hunk_lines ls)"

text \<open>A path the map does not hold has no range.\<close>

definition parseHunks :: "string \<Rightarrow> err + (string \<Rightarrow> LineRange list)" where
  "parseHunks out =
     bind_sum (hunk_lines (split_at (CHR 0x0A) out)
       \<lparr>hs_oldPath = [], hs_current = [], hs_hunks = (\<lambda>_. [])\<rparr>) (\<lambda>st. Inr (hs_hunks st))"

section \<open>Git commands\<close>

definition subcommand :: "string list \<Rightarrow> string" where
  "subcommand args =
     (case find (\<lambda>a. \<not> HasPrefix a ''-'') args of Some a \<Rightarrow> a | None \<Rightarrow> ''command'')"

record CommandError =
  ce_Op :: string
  ce_ExitCode :: int
  ce_Stderr :: string

definition CommandError_Error :: "CommandError \<Rightarrow> string" where
  "CommandError_Error e =
     ''git '' @ ce_Op e @ '': exit '' @ int_string (ce_ExitCode e)
       @ (if ce_Stderr e = [] then [] else '': '' @ ce_Stderr e)"

end
