(* ===== verification/Conflict.thy ===== *)
theory Conflict
  imports TaskStore GoPath GitText
begin

text \<open>
  \<open>internal/conflict\<close>: which changes of two tasks may conflict (\<open>detect.go\<close>), the verdict of a
  semantic assessor (\<open>semantic.go\<close>) and the table of stored conflicts (\<open>store.go\<close>, migrations 6
  and 8). The JSON columns hold lists of strings.
\<close>

section \<open>Overlapping changes\<close>

datatype kind =
    KindFileOverlap | KindAdjacentLines | KindMergeConflict | KindMigration | KindDependency
  | KindSemantic

fun kind_string :: "kind \<Rightarrow> string" where
  "kind_string KindFileOverlap = ''file_overlap''"
| "kind_string KindAdjacentLines = ''adjacent_lines''"
| "kind_string KindMergeConflict = ''merge_conflict''"
| "kind_string KindMigration = ''migration''"
| "kind_string KindDependency = ''dependency''"
| "kind_string KindSemantic = ''semantic''"

definition adjacencyWindow :: int where
  "adjacencyWindow = 3"

definition dependencyManifests :: "string list" where
  "dependencyManifests =
     [''go.mod'', ''go.sum'', ''package.json'', ''package-lock.json'', ''npm-shrinkwrap.json'',
      ''pnpm-lock.yaml'', ''yarn.lock'', ''bun.lock'', ''bun.lockb'', ''requirements.txt'',
      ''Pipfile'', ''Pipfile.lock'', ''pyproject.toml'', ''poetry.lock'', ''uv.lock'',
      ''Cargo.toml'', ''Cargo.lock'', ''Gemfile'', ''Gemfile.lock'', ''composer.json'',
      ''composer.lock'', ''pom.xml'', ''build.gradle'', ''build.gradle.kts'', ''settings.gradle'',
      ''settings.gradle.kts'', ''gradle.lockfile'', ''packages.lock.json'',
      ''Directory.Packages.props'', ''Package.swift'', ''Package.resolved'', ''mix.exs'',
      ''mix.lock'', ''pubspec.yaml'', ''pubspec.lock'']"

record ChangeSet =
  cs_Files :: "string list"
  cs_Hunks :: "string \<Rightarrow> LineRange list"

text \<open>The paths of the second list that are in the first, each once.\<close>

fun shared_paths :: "string set \<Rightarrow> string list \<Rightarrow> string list" where
  "shared_paths inA [] = []"
| "shared_paths inA (f # fs) =
     (if f \<in> inA then f # shared_paths (inA - {f}) fs else shared_paths inA fs)"

definition intersect :: "string list \<Rightarrow> string list \<Rightarrow> string list" where
  "intersect a b = sort (shared_paths (set a) b)"

definition ranges_close :: "LineRange \<Rightarrow> LineRange \<Rightarrow> bool" where
  "ranges_close ra rb \<longleftrightarrow>
     lr_Start ra \<le> wrap64 (lr_End rb + adjacencyWindow) \<and>
     lr_Start rb \<le> wrap64 (lr_End ra + adjacencyWindow)"

definition rangesAdjacent :: "LineRange list \<Rightarrow> LineRange list \<Rightarrow> bool" where
  "rangesAdjacent a b \<longleftrightarrow> list_ex (\<lambda>ra. list_ex (ranges_close ra) b) a"

definition HasSuffix :: "string \<Rightarrow> string \<Rightarrow> bool" where
  "HasSuffix s p \<longleftrightarrow> HasPrefix (rev s) (rev p)"

definition migrationPaths :: "string list \<Rightarrow> string list" where
  "migrationPaths files =
     filter (\<lambda>f. HasSuffix f ''.sql'' \<and> ''migrations'' \<in> set (split_at (CHR ''/'') (Dir f))) files"

definition Overlap :: "ChangeSet \<Rightarrow> ChangeSet \<Rightarrow> kind list \<times> string list" where
  "Overlap a b =
     (let shared = intersect (cs_Files a) (cs_Files b);
          adjacent = filter (\<lambda>f. rangesAdjacent (cs_Hunks a f) (cs_Hunks b f)) shared;
          aMigrations = migrationPaths (cs_Files a);
          bMigrations = migrationPaths (cs_Files b);
          migration = aMigrations \<noteq> [] \<and> bMigrations \<noteq> [];
          dependency = filter (\<lambda>f. Base f \<in> set dependencyManifests) shared in
      ((if shared \<noteq> [] then [KindFileOverlap] else [])
         @ (if adjacent \<noteq> [] then [KindAdjacentLines] else [])
         @ (if migration then [KindMigration] else [])
         @ (if dependency \<noteq> [] then [KindDependency] else []),
       sort (remdups (shared @ adjacent @ (if migration then aMigrations @ bMigrations else [])
         @ dependency))))"

definition mergeSorted :: "string list \<Rightarrow> string list \<Rightarrow> string list" where
  "mergeSorted a b = sort (remdups (a @ b))"

section \<open>Semantic verdicts\<close>

record SemanticRequest =
  sq_TaskID :: string
  sq_TaskTitle :: string
  sq_TaskDiff :: string
  sq_OtherTaskID :: string
  sq_OtherTaskTitle :: string
  sq_OtherTaskDiff :: string

record SemanticVerdict =
  sv_Conflicts :: bool
  sv_Severity :: string
  sv_Explanation :: string
  sv_Evidence :: "string list"

definition no_verdict :: SemanticVerdict where
  "no_verdict = \<lparr>sv_Conflicts = False, sv_Severity = [], sv_Explanation = [], sv_Evidence = []\<rparr>"

definition Severities :: "string list" where
  "Severities = [''low'', ''medium'', ''high'']"

definition validateVerdict :: "SemanticVerdict \<Rightarrow> err + unit" where
  "validateVerdict v =
     (if \<not> sv_Conflicts v then Inr ()
      else if sv_Severity v \<notin> set Severities then
        Inl (Msg (''conflict: semantic severity '' @ quote (sv_Severity v) @ '' is invalid''))
      else if sv_Explanation v = [] then Inl (Msg ''conflict: semantic explanation is required'')
      else if sv_Evidence v = [] then Inl (Msg ''conflict: semantic evidence is required'')
      else Inr ())"

section \<open>Stored conflicts\<close>

record Sibling =
  sib_TaskID :: string
  sib_Title :: string
  sib_BaseSHA :: string
  sib_FinalSHA :: string

record Detection =
  det_OtherTaskID :: string
  det_OtherTaskTitle :: string
  det_Kinds :: "kind list"
  det_Files :: "string list"
  det_SemanticSeverity :: string
  det_SemanticExplanation :: string
  det_SemanticEvidence :: "string list"

record ConflictRow =
  tc_ID :: string
  tc_RepositoryID :: string
  tc_TaskA :: string
  tc_TaskB :: string
  tc_Kinds :: "kind list"
  tc_Files :: "string list"
  tc_Severity :: "string option"
  tc_Explanation :: "string option"
  tc_Evidence :: "string list"
  tc_DetectedAt :: time
  tc_UpdatedAt :: time

text \<open>The latest attempt of a task that has both commits.\<close>

definition measured_attempt :: "db \<Rightarrow> string \<Rightarrow> Attempt option" where
  "measured_attempt d tid =
     (case rev (sort_key a_Number (filter (\<lambda>a. a_BaseCommitSHA a \<noteq> None \<and> a_FinalCommitSHA a \<noteq> None)
        (task_attempts d tid))) of [] \<Rightarrow> None | a # _ \<Rightarrow> Some a)"

definition sibling_of :: "db \<Rightarrow> Task \<Rightarrow> Sibling list" where
  "sibling_of d t =
     (case measured_attempt d (t_ID t) of None \<Rightarrow> []
      | Some a \<Rightarrow> [\<lparr>sib_TaskID = t_ID t, sib_Title = t_Title t, sib_BaseSHA = the (a_BaseCommitSHA a),
                   sib_FinalSHA = the (a_FinalCommitSHA a)\<rparr>])"

definition ActiveSiblings :: "env \<Rightarrow> string \<Rightarrow> string \<Rightarrow> db \<Rightarrow> err + Sibling list" where
  "ActiveSiblings E rid excludeTaskID d =
     bind_sum (wrap ''conflict: active siblings'' (driver E ''active siblings'')) (\<lambda>_.
       Inr (concat (map (sibling_of d) (sort_key t_CreatedAt
         (filter (\<lambda>t. t_RepositoryID t = Some (pg_uuid rid) \<and> t_ID t \<noteq> pg_uuid excludeTaskID
                     \<and> t_Phase t \<noteq> PhaseTerminal) (tasks d))))))"

definition involves :: "string \<Rightarrow> ConflictRow \<Rightarrow> bool" where
  "involves tid c \<longleftrightarrow> tc_TaskA c = tid \<or> tc_TaskB c = tid"

definition other_task :: "string \<Rightarrow> ConflictRow \<Rightarrow> string" where
  "other_task tid c = (if tc_TaskA c = tid then tc_TaskB c else tc_TaskA c)"

definition is_pair :: "string \<Rightarrow> string \<Rightarrow> ConflictRow \<Rightarrow> bool" where
  "is_pair x y c \<longleftrightarrow> tc_TaskA c = min x y \<and> tc_TaskB c = max x y"

definition conflict_row_ok :: "ConflictRow \<Rightarrow> bool" where
  "conflict_row_ok c \<longleftrightarrow>
     tc_Kinds c \<noteq> [] \<and> tc_TaskA c < tc_TaskB c \<and>
     list_all (\<lambda>s. CHR 0x00 \<notin> set s) (tc_Files c @ tc_Evidence c) \<and>
     null_or (\<lambda>s. s \<in> set Severities) (tc_Severity c) \<and> null_or pg_text (tc_Explanation c) \<and>
     (KindSemantic \<in> set (tc_Kinds c) \<longleftrightarrow>
        tc_Severity c \<noteq> None \<and> tc_Explanation c \<noteq> None \<and> tc_Evidence c \<noteq> [])"

definition in_repository :: "db \<Rightarrow> ConflictRow \<Rightarrow> string \<Rightarrow> bool" where
  "in_repository d c tid \<longleftrightarrow>
     list_ex (\<lambda>t. t_ID t = tid \<and> t_RepositoryID t = Some (tc_RepositoryID c)) (tasks d)"

definition detection_row :: "env \<Rightarrow> string \<Rightarrow> string \<Rightarrow> string \<Rightarrow> Detection \<Rightarrow> ConflictRow" where
  "detection_row E newid rid tid det =
     (let x = pg_uuid tid; y = pg_uuid (det_OtherTaskID det) in
      \<lparr>tc_ID = newid, tc_RepositoryID = pg_uuid rid, tc_TaskA = min x y, tc_TaskB = max x y,
       tc_Kinds = det_Kinds det, tc_Files = map marshal_text (det_Files det),
       tc_Severity = nullif_empty (det_SemanticSeverity det),
       tc_Explanation = (if det_SemanticSeverity det = [] then None
                         else Some (det_SemanticExplanation det)),
       tc_Evidence = map marshal_text (det_SemanticEvidence det),
       tc_DetectedAt = env_now E, tc_UpdatedAt = env_now E\<rparr>)"

text \<open>\<open>ON CONFLICT ... DO UPDATE\<close>: the row of the pair keeps its identity and age.\<close>

definition update_conflict :: "ConflictRow \<Rightarrow> ConflictRow \<Rightarrow> ConflictRow" where
  "update_conflict v c = c\<lparr>tc_Kinds := tc_Kinds v, tc_Files := tc_Files v,
     tc_Severity := tc_Severity v, tc_Explanation := tc_Explanation v,
     tc_Evidence := tc_Evidence v, tc_UpdatedAt := tc_UpdatedAt v\<rparr>"

definition upsert_conflict ::
  "env \<Rightarrow> string \<Rightarrow> string \<Rightarrow> db \<Rightarrow> Detection \<Rightarrow> ConflictRow list \<Rightarrow> err + ConflictRow list" where
  "upsert_conflict E rid tid d det cs =
     (let v = detection_row E (env_uuid E (length cs)) rid tid det; same = is_pair (tc_TaskA v) (tc_TaskB v) in
      wrap ''conflict: upsert pair'' (
        bind_sum (driver E ''upsert pair'') (\<lambda>_.
        if \<not> conflict_row_ok v then Inl (Sentinel (PgError (CheckViolation ''task_conflicts'')))
        else if list_ex same cs then Inr (update_where same (update_conflict v) cs)
        else if tc_ID v \<in> set (map tc_ID cs) then
          Inl (Sentinel (PgError (UniqueViolation ''task_conflicts_pkey'')))
        else if \<not> in_repository d v (tc_TaskA v) \<or> \<not> in_repository d v (tc_TaskB v) then
          Inl (Sentinel (PgError (ForeignKeyViolation ''task_conflicts_task_repository_fk'')))
        else Inr (cs @ [v]))))"

fun upsert_all ::
  "env \<Rightarrow> string \<Rightarrow> string \<Rightarrow> db \<Rightarrow> Detection list \<Rightarrow> ConflictRow list \<Rightarrow> err + ConflictRow list" where
  "upsert_all E rid tid d [] cs = Inr cs"
| "upsert_all E rid tid d (det # dets) cs =
     bind_sum (upsert_conflict E rid tid d det cs) (upsert_all E rid tid d dets)"

text \<open>The last detection per other task, in the order of their ids.\<close>

definition desired :: "Detection list \<Rightarrow> Detection list" where
  "desired dets =
     map (\<lambda>i. last (filter (\<lambda>x. det_OtherTaskID x = i) dets))
       (sort (remdups (map det_OtherTaskID dets)))"

definition Reconcile ::
  "env \<Rightarrow> string \<Rightarrow> string \<Rightarrow> Detection list \<Rightarrow> db \<Rightarrow> ConflictRow list \<Rightarrow> err + ConflictRow list" where
  "Reconcile E rid tid dets d cs =
     (if list_ex (\<lambda>det. det_Kinds det = []) dets then
        Inl (Msg ''conflict: reconcile needs at least one kind'')
      else
      bind_sum (wrap ''conflict: begin reconcile'' (driver E ''begin reconcile'')) (\<lambda>_.
      bind_sum (wrap ''conflict: lock existing pairs'' (driver E ''lock existing pairs'')) (\<lambda>_.
      bind_sum (wrap ''conflict: delete stale pair'' (driver E ''delete stale pair'')) (\<lambda>_.
      let kept = filter (\<lambda>c. \<not> (involves (pg_uuid tid) c
                    \<and> other_task (pg_uuid tid) c \<notin> set (map det_OtherTaskID dets))) cs in
      bind_sum (upsert_all E rid tid d (desired dets) kept) (\<lambda>cs'.
      bind_sum (wrap ''conflict: commit reconcile'' (driver E ''commit reconcile'')) (\<lambda>_.
        Inr cs'))))))"

text \<open>The rows of a task with the other task's row, newest first.\<close>

definition ListConflicts ::
  "env \<Rightarrow> string \<Rightarrow> db \<Rightarrow> ConflictRow list \<Rightarrow> err + (ConflictRow \<times> Task) list" where
  "ListConflicts E tid d cs =
     bind_sum (wrap ''conflict: find task'' (driver E ''find task'')) (\<lambda>_.
     case find_task d (pg_uuid tid) of None \<Rightarrow> Inl (Sentinel ErrNotFound)
     | Some self \<Rightarrow>
       bind_sum (wrap ''conflict: list for task'' (driver E ''list for task'')) (\<lambda>_.
         Inr (if t_Phase self = PhaseTerminal then []
              else sort_key (\<lambda>(c, t). (- tc_DetectedAt c, tc_ID c))
                (concat (map (\<lambda>c. case find_task d (other_task (pg_uuid tid) c) of
                     Some t \<Rightarrow> if t_Phase t \<noteq> PhaseTerminal then [(c, t)] else []
                   | None \<Rightarrow> []) (filter (involves (pg_uuid tid)) cs))))))"

end
