(* ===== verification/Command.thy ===== *)
theory Command
  imports GoText
begin

text \<open>
  \<open>internal/github/command.go\<close> and \<open>signature.go\<close>: the commands of a comment and the
  signature of a delivery. The HMAC itself is a parameter.
\<close>

section \<open>Commands\<close>

datatype Verb = VerbRun | VerbRevise

record Command =
  Known :: bool
  Addressed :: bool
  cmd_Verb :: "Verb option"

definition no_command :: Command where
  "no_command = \<lparr>Known = False, Addressed = False, cmd_Verb = None\<rparr>"

definition verb_of :: "string \<Rightarrow> Verb option" where
  "verb_of s = (if s = ''run'' then Some VerbRun
                else if s = ''revise'' then Some VerbRevise else None)"

definition command_of_line :: "string \<Rightarrow> Command option" where
  "command_of_line line =
     (let fields = Fields line in
      if fields = [] \<or> hd fields \<noteq> ''/agent-trail'' then None
      else let v = (if length fields = 2 then verb_of (fields ! 1) else None) in
      Some \<lparr>Known = (v \<noteq> None), Addressed = True, cmd_Verb = v\<rparr>)"

fun first_command :: "string list \<Rightarrow> Command" where
  "first_command [] = no_command"
| "first_command (l # ls) = (case command_of_line l of Some c \<Rightarrow> c | None \<Rightarrow> first_command ls)"

definition ParseCommand :: "string \<Rightarrow> Command" where
  "ParseCommand body = first_command (Lines body)"

definition commandUsage :: string where
  "commandUsage = ''Unknown command. Supported: `/agent-trail run` on an issue, '' @
     ''`/agent-trail revise` on an Agent Trail pull request.''"

section \<open>Signatures\<close>

text \<open>\<open>hex.DecodeString\<close>: both letter cases, an odd length or another byte is an error.\<close>

definition hex_value :: "char \<Rightarrow> nat option" where
  "hex_value c =
     (if 48 \<le> byte c \<and> byte c \<le> 57 then Some (byte c - 48)
      else if 97 \<le> byte c \<and> byte c \<le> 102 then Some (byte c - 87)
      else if 65 \<le> byte c \<and> byte c \<le> 70 then Some (byte c - 55) else None)"

fun hex_decode :: "string \<Rightarrow> string option" where
  "hex_decode [] = Some []"
| "hex_decode [c] = None"
| "hex_decode (a # b # cs) =
     (case (hex_value a, hex_value b, hex_decode cs) of
        (Some x, Some y, Some r) \<Rightarrow> Some (char_of (16 * x + y) # r)
      | _ \<Rightarrow> None)"

text \<open>\<open>mac secret body\<close> is HMAC-SHA256; \<open>hmac.Equal\<close> compares the bytes.\<close>

definition ValidSignature :: "(string \<Rightarrow> string \<Rightarrow> string) \<Rightarrow> string \<Rightarrow> string \<Rightarrow> string \<Rightarrow> bool" where
  "ValidSignature mac secret body header =
     (if secret = [] then False
      else case CutPrefix header ''sha256='' of
        None \<Rightarrow> False
      | Some digest \<Rightarrow>
          (case hex_decode digest of None \<Rightarrow> False | Some got \<Rightarrow> got = mac secret body))"

definition hex_digit :: "nat \<Rightarrow> char" where
  "hex_digit n = (if n < 10 then char_of (48 + n) else char_of (87 + n))"

definition hex_encode :: "string \<Rightarrow> string" where
  "hex_encode s = concat (map (\<lambda>c. [hex_digit (byte c div 16), hex_digit (byte c mod 16)]) s)"

end
