(* ===== verification/AuthStore.thy ===== *)
theory AuthStore
  imports TaskStore Command
begin

text \<open>
  \<open>internal/auth/store.go\<close>: users, their sessions and their memberships, with the constraints of
  migration 7. SHA-256 is a parameter; the 32 random bytes of a token are an argument.
\<close>

section \<open>Tables\<close>

record GitHubUser =
  gu_ID :: int
  gu_Login :: string
  gu_Name :: string
  gu_AvatarURL :: string

record InstallationAccount =
  ia_ID :: int
  ia_Login :: string
  ia_Type :: string

record UserRow =
  us_ID :: string
  us_GitHubUserID :: int
  us_GitHubLogin :: string
  us_DisplayName :: "string option"
  us_AvatarURL :: "string option"
  us_CreatedAt :: time
  us_LastLoginAt :: time

record SessionRow =
  ss_ID :: string
  ss_UserID :: string
  ss_TokenHash :: string
  ss_CreatedAt :: time
  ss_ExpiresAt :: time

record MembershipRow =
  mb_OrganizationID :: string
  mb_UserID :: string
  mb_Role :: string
  mb_CreatedAt :: time

record auth_db =
  auth_users :: "UserRow list"
  auth_sessions :: "SessionRow list"
  auth_memberships :: "MembershipRow list"

definition no_auth :: auth_db where
  "no_auth = \<lparr>auth_users = [], auth_sessions = [], auth_memberships = []\<rparr>"

record User =
  su_ID :: string
  su_GitHubUserID :: int
  su_GitHubLogin :: string
  su_DisplayName :: string
  su_AvatarURL :: string
  su_CreatedAt :: time
  su_LastLoginAt :: time

text \<open>A row scanned through \<open>sql.NullString\<close>.\<close>

definition null_string :: "string option \<Rightarrow> string" where
  "null_string s = (case s of None \<Rightarrow> [] | Some t \<Rightarrow> t)"

definition scan_user :: "UserRow \<Rightarrow> User" where
  "scan_user u = \<lparr>su_ID = us_ID u, su_GitHubUserID = us_GitHubUserID u,
     su_GitHubLogin = us_GitHubLogin u, su_DisplayName = null_string (us_DisplayName u),
     su_AvatarURL = null_string (us_AvatarURL u), su_CreatedAt = us_CreatedAt u,
     su_LastLoginAt = us_LastLoginAt u\<rparr>"

definition user_row_ok :: "UserRow \<Rightarrow> bool" where
  "user_row_ok u \<longleftrightarrow> 0 < us_GitHubUserID u \<and> text_between 1 255 (us_GitHubLogin u) \<and>
     null_or (text_between 1 255) (us_DisplayName u) \<and> null_or (text_between 1 1000) (us_AvatarURL u)"

section \<open>Users\<close>

definition new_user :: "env \<Rightarrow> GitHubUser \<Rightarrow> auth_db \<Rightarrow> UserRow" where
  "new_user E gh a = \<lparr>us_ID = env_uuid E (length (auth_users a)), us_GitHubUserID = gu_ID gh,
     us_GitHubLogin = gu_Login gh, us_DisplayName = nullif_empty (gu_Name gh),
     us_AvatarURL = nullif_empty (gu_AvatarURL gh), us_CreatedAt = env_now E,
     us_LastLoginAt = env_now E\<rparr>"

definition update_user :: "env \<Rightarrow> UserRow \<Rightarrow> UserRow \<Rightarrow> UserRow" where
  "update_user E v u = u\<lparr>us_GitHubLogin := us_GitHubLogin v, us_DisplayName := us_DisplayName v,
     us_AvatarURL := us_AvatarURL v, us_LastLoginAt := env_now E\<rparr>"

definition UpsertUser :: "env \<Rightarrow> GitHubUser \<Rightarrow> auth_db \<Rightarrow> err + (User \<times> auth_db)" where
  "UpsertUser E gh a =
     (let v = new_user E gh a; same = (\<lambda>u. us_GitHubUserID u = gu_ID gh) in
      wrap ''upsert user'' (
        bind_sum (driver E ''upsert user'') (\<lambda>_.
        if \<not> user_row_ok v then Inl (Sentinel (PgError (CheckViolation ''users'')))
        else case find same (auth_users a) of
          Some u \<Rightarrow> Inr (scan_user (update_user E v u),
            a\<lparr>auth_users := update_where same (update_user E v) (auth_users a)\<rparr>)
        | None \<Rightarrow>
            if us_ID v \<in> set (map us_ID (auth_users a)) then
              Inl (Sentinel (PgError (UniqueViolation ''users_pkey'')))
            else Inr (scan_user v, a\<lparr>auth_users := auth_users a @ [v]\<rparr>))))"

section \<open>Sessions\<close>

definition hashToken :: "(string \<Rightarrow> string) \<Rightarrow> string \<Rightarrow> string" where
  "hashToken sha256 token = hex_encode (sha256 token)"

text \<open>\<open>base64.RawURLEncoding\<close>: six bits a character, the last group filled with zero bits.\<close>

definition base64_char :: "nat \<Rightarrow> char" where
  "base64_char n =
     (if n < 26 then char_of (65 + n) else if n < 52 then char_of (97 + (n - 26))
      else if n < 62 then char_of (48 + (n - 52)) else if n = 62 then CHR ''-'' else CHR ''_'')"

fun base64url :: "string \<Rightarrow> string" where
  "base64url (x # y # z # cs) =
     (let n = byte x * 65536 + byte y * 256 + byte z in
      base64_char (n div 262144) # base64_char (n div 4096 mod 64) # base64_char (n div 64 mod 64)
        # base64_char (n mod 64) # base64url cs)"
| "base64url [x, y] =
     (let n = byte x * 1024 + byte y * 4 in
      [base64_char (n div 4096), base64_char (n div 64 mod 64), base64_char (n mod 64)])"
| "base64url [x] = [base64_char (byte x div 4), base64_char (byte x mod 4 * 16)]"
| "base64url [] = []"

definition live :: "env \<Rightarrow> SessionRow \<Rightarrow> bool" where
  "live E s \<longleftrightarrow> env_now E < ss_ExpiresAt s"

text \<open>\<open>CreateSession\<close> is two statements: expired sessions go first, whatever becomes of the new one.\<close>

definition ReapSessions :: "env \<Rightarrow> auth_db \<Rightarrow> err + auth_db" where
  "ReapSessions E a =
     wrap ''reap sessions'' (bind_sum (driver E ''reap sessions'') (\<lambda>_.
       Inr (a\<lparr>auth_sessions := filter (live E) (auth_sessions a)\<rparr>)))"

definition new_session :: "env \<Rightarrow> string \<Rightarrow> string \<Rightarrow> time \<Rightarrow> auth_db \<Rightarrow> SessionRow" where
  "new_session E uid hash ttl a = \<lparr>ss_ID = env_uuid E (length (auth_sessions a)),
     ss_UserID = pg_uuid uid, ss_TokenHash = hash, ss_CreatedAt = env_now E,
     ss_ExpiresAt = env_now E + ttl\<rparr>"

definition is_hash :: "string \<Rightarrow> bool" where
  "is_hash s \<longleftrightarrow> length s = 64 \<and> list_all (\<lambda>c. is_digit c \<or> (97 \<le> byte c \<and> byte c \<le> 102)) s"

definition InsertSession ::
  "env \<Rightarrow> string \<Rightarrow> string \<Rightarrow> time \<Rightarrow> auth_db \<Rightarrow> err + auth_db" where
  "InsertSession E uid hash ttl a =
     (let v = new_session E uid hash ttl a in
      wrap ''create session'' (
        bind_sum (driver E ''create session'') (\<lambda>_.
        if \<not> is_hash hash \<or> ss_ExpiresAt v \<le> ss_CreatedAt v then
          Inl (Sentinel (PgError (CheckViolation ''sessions'')))
        else if ss_ID v \<in> set (map ss_ID (auth_sessions a)) then
          Inl (Sentinel (PgError (UniqueViolation ''sessions_pkey'')))
        else if hash \<in> set (map ss_TokenHash (auth_sessions a)) then
          Inl (Sentinel (PgError (UniqueViolation ''sessions_token_hash_key'')))
        else if pg_uuid uid \<notin> set (map us_ID (auth_users a)) then
          Inl (Sentinel (PgError (ForeignKeyViolation ''sessions_user_id_fkey'')))
        else Inr (a\<lparr>auth_sessions := auth_sessions a @ [v]\<rparr>))))"

definition session_rows :: "env \<Rightarrow> string \<Rightarrow> auth_db \<Rightarrow> UserRow list" where
  "session_rows E hash a =
     concat (map (\<lambda>s. filter (\<lambda>u. us_ID u = ss_UserID s) (auth_users a))
       (filter (\<lambda>s. ss_TokenHash s = hash \<and> live E s) (auth_sessions a)))"

definition SessionUser :: "(string \<Rightarrow> string) \<Rightarrow> env \<Rightarrow> string \<Rightarrow> auth_db \<Rightarrow> err + User" where
  "SessionUser sha256 E token a =
     bind_sum (wrap ''session user'' (driver E ''session user'')) (\<lambda>_.
     case session_rows E (hashToken sha256 token) a of
       [] \<Rightarrow> Inl (Sentinel ErrNoSession)
     | u # _ \<Rightarrow> Inr (scan_user u))"

definition DeleteSession :: "(string \<Rightarrow> string) \<Rightarrow> env \<Rightarrow> string \<Rightarrow> auth_db \<Rightarrow> err + auth_db" where
  "DeleteSession sha256 E token a =
     wrap ''delete session'' (bind_sum (driver E ''delete session'') (\<lambda>_.
       Inr (a\<lparr>auth_sessions := filter (\<lambda>s. ss_TokenHash s \<noteq> hashToken sha256 token) (auth_sessions a)\<rparr>)))"

section \<open>Memberships\<close>

definition new_membership :: "env \<Rightarrow> string \<Rightarrow> string \<Rightarrow> MembershipRow" where
  "new_membership E uid oid = \<lparr>mb_OrganizationID = oid, mb_UserID = pg_uuid uid, mb_Role = ''member'',
     mb_CreatedAt = env_now E\<rparr>"

definition member_of :: "string \<Rightarrow> string \<Rightarrow> MembershipRow list \<Rightarrow> bool" where
  "member_of uid oid ms \<longleftrightarrow> list_ex (\<lambda>m. mb_OrganizationID m = oid \<and> mb_UserID m = uid) ms"

text \<open>\<open>INSERT ... SELECT id FROM organizations ... ON CONFLICT DO NOTHING\<close>.\<close>

definition join_organization ::
  "env \<Rightarrow> string \<Rightarrow> InstallationAccount \<Rightarrow> db \<Rightarrow> auth_db \<Rightarrow> err + auth_db" where
  "join_organization E uid account d a =
     (case find (\<lambda>x. o_AccountID x = ia_ID account) (organizations d) of
        None \<Rightarrow> Inr a
      | Some x \<Rightarrow>
          if member_of (pg_uuid uid) (o_ID x) (auth_memberships a) then Inr a
          else if pg_uuid uid \<notin> set (map us_ID (auth_users a)) then
            Inl (Sentinel (PgError (ForeignKeyViolation ''memberships_user_id_fkey'')))
          else Inr (a\<lparr>auth_memberships := auth_memberships a @ [new_membership E uid (o_ID x)]\<rparr>))"

fun join_all ::
  "env \<Rightarrow> string \<Rightarrow> InstallationAccount list \<Rightarrow> db \<Rightarrow> auth_db \<Rightarrow> err + auth_db" where
  "join_all E uid [] d a = Inr a"
| "join_all E uid (x # xs) d a =
     bind_sum (wrap ''sync memberships: insert'' (
       bind_sum (driver E ''sync memberships: insert'') (\<lambda>_. join_organization E uid x d a)))
       (join_all E uid xs d)"

definition SyncMemberships ::
  "env \<Rightarrow> string \<Rightarrow> InstallationAccount list \<Rightarrow> db \<Rightarrow> auth_db \<Rightarrow> err + auth_db" where
  "SyncMemberships E uid accounts d a =
     bind_sum (wrap ''sync memberships: begin'' (driver E ''sync memberships: begin'')) (\<lambda>_.
     bind_sum (wrap ''sync memberships: clear'' (driver E ''sync memberships: clear'')) (\<lambda>_.
     let cleared = a\<lparr>auth_memberships := filter (\<lambda>m. mb_UserID m \<noteq> pg_uuid uid) (auth_memberships a)\<rparr> in
     bind_sum (join_all E uid accounts d cleared) (\<lambda>a'.
     bind_sum (wrap ''sync memberships: commit'' (driver E ''sync memberships: commit'')) (\<lambda>_. Inr a'))))"

definition MemberOfRepository :: "env \<Rightarrow> string \<Rightarrow> string \<Rightarrow> db \<Rightarrow> auth_db \<Rightarrow> err + bool" where
  "MemberOfRepository E uid rid d a =
     bind_sum (wrap ''member of repository'' (driver E ''member of repository'')) (\<lambda>_.
       Inr (list_ex (\<lambda>g. g_ID g = pg_uuid rid
         \<and> member_of (pg_uuid uid) (g_OrganizationID g) (auth_memberships a)) (repositories d)))"

end
