(* ===== verification/Records.thy ===== *)
theory Records
  imports EvidenceStore Conflict AuthStore
begin

text \<open>
  The tables beside the task tables: the trusted results, the reports and the conflicts a runner
  records, and the users, sessions and memberships of the dashboard. No constraint of the task
  tables reads them; their own rows refer to attempts and tasks.
\<close>

record records =
  validation_results :: "ValidationRow list"
  evidence_reports :: "EvidenceRow list"
  task_conflicts :: "ConflictRow list"
  auth_rows :: auth_db

definition no_records :: records where
  "no_records = \<lparr>validation_results = [], evidence_reports = [], task_conflicts = [],
     auth_rows = no_auth\<rparr>"

end
