(* ===== verification/Effects.thy ===== *)
theory Effects
  imports Platform GithubTypes Records
begin

text \<open>
  What a handler of the control plane or the runner does to its surroundings, as explicit state
  passing. An \<open>action\<close> takes the world to a result and the next world: the database, the number
  of operations issued so far, the log of the effects it asked for, and for a runner the records of
  its checks and reports and whether it knows its lease lost. An error keeps what was
  done before it. Between any two operations other processes may commit steps of their own
  (\<open>h_others\<close>); what the outside answers (the GitHub API, the driver, the clock) is a parameter
  indexed by the operation's number, so it may change from call to call.
\<close>

section \<open>The surroundings\<close>

record github_api =
  api_ListInstallationRepositories :: "nat \<Rightarrow> int \<Rightarrow> err + Repository list"
  api_CollaboratorPermission :: "nat \<Rightarrow> int \<Rightarrow> string \<Rightarrow> string \<Rightarrow> string \<Rightarrow> err + string"
  api_BranchHeadSHA :: "nat \<Rightarrow> int \<Rightarrow> string \<Rightarrow> string \<Rightarrow> string \<Rightarrow> err + string"
  api_CreateIssueComment :: "nat \<Rightarrow> int \<Rightarrow> string \<Rightarrow> string \<Rightarrow> int \<Rightarrow> string \<Rightarrow> err + unit"
  api_CreateCheckRun :: "nat \<Rightarrow> int \<Rightarrow> string \<Rightarrow> string \<Rightarrow> CheckRunParams \<Rightarrow> err + int"
  api_UpdateCheckRun :: "nat \<Rightarrow> int \<Rightarrow> string \<Rightarrow> string \<Rightarrow> int \<Rightarrow> CheckRunParams \<Rightarrow> err + unit"
  api_ListCheckRuns :: "nat \<Rightarrow> int \<Rightarrow> string \<Rightarrow> string \<Rightarrow> string \<Rightarrow> string \<Rightarrow> err + CheckRun list"
  api_GetPullRequest :: "nat \<Rightarrow> int \<Rightarrow> string \<Rightarrow> string \<Rightarrow> int \<Rightarrow> err + PullRequestDetail"
  api_FindPullRequestByHead ::
    "nat \<Rightarrow> int \<Rightarrow> string \<Rightarrow> string \<Rightarrow> string \<Rightarrow> string \<Rightarrow> err + PullRequest option"
  api_CreateDraftPullRequest ::
    "nat \<Rightarrow> int \<Rightarrow> string \<Rightarrow> string \<Rightarrow> PullRequestParams \<Rightarrow> err + PullRequest"
  api_UpdatePullRequestBody :: "nat \<Rightarrow> int \<Rightarrow> string \<Rightarrow> string \<Rightarrow> int \<Rightarrow> string \<Rightarrow> err + unit"
  api_ListPullRequestReviews :: "nat \<Rightarrow> int \<Rightarrow> string \<Rightarrow> string \<Rightarrow> int \<Rightarrow> err + Review list"
  api_ListPullRequestReviewComments ::
    "nat \<Rightarrow> int \<Rightarrow> string \<Rightarrow> string \<Rightarrow> int \<Rightarrow> time \<Rightarrow> err + ReviewComment list"
  api_ListIssueComments ::
    "nat \<Rightarrow> int \<Rightarrow> string \<Rightarrow> string \<Rightarrow> int \<Rightarrow> time \<Rightarrow> err + IssueComment list"

record host =
  h_env :: "nat \<Rightarrow> env"
  h_others :: "nat \<Rightarrow> db \<Rightarrow> db"
  h_api :: github_api
  h_lower :: "string \<Rightarrow> string"
  h_other_records :: "nat \<Rightarrow> records \<Rightarrow> records"

text \<open>Other processes only run the platform's own operations.\<close>

definition others_ok :: "('m) host_scheme \<Rightarrow> bool" where
  "others_ok H \<longleftrightarrow> (\<forall>k d. platform_step\<^sup>*\<^sup>* d (h_others H k d))"

text \<open>The effects a handler may ask for: writes to the database, calls of the GitHub API.\<close>

datatype effect =
    DbCreate CreateParams | DbTransition string TransitionParams | DbCancel string string
  | DbRequestRevision string RevisionParams | DbEnsureGitContext string string string
  | DbRecordTriggerCheckRun string int | DbMarkTriggerCheckRunCompleted string
  | DbAppendEvent string string | DbAppendAttemptEvent string string
  | DbRecordDelivery string | DbMarkDelivery string string string
  | DbUpsertInstallation InstallationParams | DbSetInstallationSuspended int bool
  | DbDeleteInstallation int | DbSyncRepositories int "Repository list"
  | DbRecordAttemptBase string string | DbRecordFinalCommit string string
  | DbRecordPullRequest string int | DbReleaseLease string string | DbExtendLease string string
  | DbClaim string | DbRegister string | DbHeartbeat string | DbMarkOffline string | DbMarkLost
  | DbSetRepositoryEnabled string bool | DbUpdateSettings string
  | DbUpsertUser int | DbReapSessions | DbCreateSession string | DbDeleteSession
  | DbSyncMemberships string
  | GhRead string
  | GhCreateIssueComment int string string int string
  | GhCreateCheckRun int string string CheckRunParams
  | GhUpdateCheckRun int string string int CheckRunParams
  | GhCreateDraftPullRequest int string string PullRequestParams
  | GhUpdatePullRequestBody int string string int string
  | DbInsertResult string string | DbInsertReport string | DbReconcile string
  | JobRead string | JobCreate string | JobDelete string
  | GitOp string "string list" | FsOp string string | AgentOp string | RunCheck string "string list"

record world =
  w_db :: db
  w_ops :: nat
  w_log :: "effect list"
  w_records :: records
  w_lost :: bool

type_synonym 'a action = "world \<Rightarrow> (err + 'a) \<times> world"

section \<open>Combinators\<close>

definition ret :: "'a \<Rightarrow> 'a action" where
  "ret x = (\<lambda>w. (Inr x, w))"

definition fail :: "err \<Rightarrow> 'a action" where
  "fail e = (\<lambda>w. (Inl e, w))"

definition abind :: "'a action \<Rightarrow> ('a \<Rightarrow> 'b action) \<Rightarrow> 'b action" where
  "abind m f = (\<lambda>w. case m w of (Inl e, w') \<Rightarrow> (Inl e, w') | (Inr x, w') \<Rightarrow> f x w')"

abbreviation aseq :: "'a action \<Rightarrow> 'b action \<Rightarrow> 'b action" where
  "aseq m n \<equiv> abind m (\<lambda>_. n)"

definition panics :: "err \<Rightarrow> bool" where
  "panics e = (case e of Sentinel (RuntimePanic m) \<Rightarrow> True | _ \<Rightarrow> False)"

text \<open>An error becomes a value the caller inspects, as \<open>x, err := f()\<close>; a panic does not.\<close>

definition atry :: "'a action \<Rightarrow> (err + 'a) action" where
  "atry m = (\<lambda>w. case m w of
     (Inl e, w') \<Rightarrow> (if panics e then Inl e else Inr (Inl e), w')
   | (Inr x, w') \<Rightarrow> (Inr (Inr x), w'))"

text \<open>\<open>fmt.Errorf("label: %w", err)\<close> on the error of an action.\<close>

definition awrap :: "string \<Rightarrow> 'a action \<Rightarrow> 'a action" where
  "awrap l m = (\<lambda>w. case m w of
     (Inl e, w') \<Rightarrow> (Inl (if panics e then e else Wrap l e), w')
   | (Inr x, w') \<Rightarrow> (Inr x, w'))"

text \<open>\<open>_ = f()\<close>, or an error that is only logged.\<close>

definition best_effort :: "'a action \<Rightarrow> unit action" where
  "best_effort m = abind (atry m) (\<lambda>_. ret ())"

definition lift_sum :: "err + 'a \<Rightarrow> 'a action" where
  "lift_sum r = (case r of Inl e \<Rightarrow> fail e | Inr x \<Rightarrow> ret x)"

text \<open>\<open>time.Now()\<close>.\<close>

definition time_now :: "('m) host_scheme \<Rightarrow> time action" where
  "time_now H = (\<lambda>w. (Inr (env_now (h_env H (w_ops w))), w))"

definition db_read :: "('m) host_scheme \<Rightarrow> (env \<Rightarrow> db \<Rightarrow> err + 'a) \<Rightarrow> 'a action" where
  "db_read H q = (\<lambda>w.
     let d = h_others H (w_ops w) (w_db w); w' = w\<lparr>w_db := d, w_ops := w_ops w + 1\<rparr> in
     (q (h_env H (w_ops w)) d, w'))"

definition db_write ::
  "('m) host_scheme \<Rightarrow> effect \<Rightarrow> (env \<Rightarrow> db \<Rightarrow> err + ('a \<times> db)) \<Rightarrow> 'a action" where
  "db_write H eff op = (\<lambda>w.
     let d = h_others H (w_ops w) (w_db w);
         w' = w\<lparr>w_db := d, w_ops := w_ops w + 1, w_log := w_log w @ [eff]\<rparr> in
     case op (h_env H (w_ops w)) d of
       Inl e \<Rightarrow> (Inl e, w')
     | Inr (x, d') \<Rightarrow> (Inr x, w'\<lparr>w_db := d'\<rparr>))"

text \<open>The same on the records beside the task tables; others write first there as well.\<close>

definition rec_read ::
  "('m) host_scheme \<Rightarrow> (env \<Rightarrow> db \<Rightarrow> records \<Rightarrow> err + 'a) \<Rightarrow> 'a action" where
  "rec_read H q = (\<lambda>w.
     let d = h_others H (w_ops w) (w_db w); r = h_other_records H (w_ops w) (w_records w);
         w' = w\<lparr>w_db := d, w_records := r, w_ops := w_ops w + 1\<rparr> in
     (q (h_env H (w_ops w)) d r, w'))"

definition rec_write ::
  "('m) host_scheme \<Rightarrow> effect \<Rightarrow> (env \<Rightarrow> db \<Rightarrow> records \<Rightarrow> err + ('a \<times> records)) \<Rightarrow> 'a action" where
  "rec_write H eff op = (\<lambda>w.
     let d = h_others H (w_ops w) (w_db w); r = h_other_records H (w_ops w) (w_records w);
         w' = w\<lparr>w_db := d, w_records := r, w_ops := w_ops w + 1, w_log := w_log w @ [eff]\<rparr> in
     case op (h_env H (w_ops w)) d r of
       Inl e \<Rightarrow> (Inl e, w')
     | Inr (x, r') \<Rightarrow> (Inr x, w'\<lparr>w_records := r'\<rparr>))"

definition unit_op :: "(env \<Rightarrow> db \<Rightarrow> err + db) \<Rightarrow> env \<Rightarrow> db \<Rightarrow> err + (unit \<times> db)" where
  "unit_op op E d = bind_sum (op E d) (\<lambda>d'. Inr ((), d'))"

definition call :: "effect \<Rightarrow> (nat \<Rightarrow> err + 'a) \<Rightarrow> 'a action" where
  "call eff answer = (\<lambda>w.
     (answer (w_ops w), w\<lparr>w_ops := w_ops w + 1, w_log := w_log w @ [eff]\<rparr>))"

text \<open>A loop over a list that stops at the first error.\<close>

fun foreach :: "'a list \<Rightarrow> ('a \<Rightarrow> unit action) \<Rightarrow> unit action" where
  "foreach [] f = ret ()"
| "foreach (x # xs) f = aseq (f x) (foreach xs f)"

section \<open>Steps of the platform and effects of an action\<close>

text \<open>
  \<open>runs A m\<close>: whatever the world, what \<open>m\<close> and the others do to the database meanwhile is a run
  of the platform, and every effect of \<open>m\<close> satisfies \<open>A\<close>. \<open>yields m x\<close>: in some world
  \<open>m\<close> returns \<open>x\<close>.
\<close>

definition runs :: "(effect \<Rightarrow> bool) \<Rightarrow> 'a action \<Rightarrow> bool" where
  "runs A m \<longleftrightarrow> (\<forall>w. platform_step\<^sup>*\<^sup>* (w_db w) (w_db (snd (m w))) \<and>
     (\<exists>es. w_log (snd (m w)) = w_log w @ es \<and> list_all A es))"

definition yields :: "'a action \<Rightarrow> 'a \<Rightarrow> bool" where
  "yields m x \<longleftrightarrow> (\<exists>w w'. m w = (Inr x, w'))"

named_theorems runs_intros "introduction rules for runs"

lemma runsD:
  assumes "runs A m" and "m w = (r, w')"
  shows "platform_step\<^sup>*\<^sup>* (w_db w) (w_db w')" and "\<exists>es. w_log w' = w_log w @ es \<and> list_all A es"
  using assms unfolding runs_def by (auto dest: spec [of _ w])

lemma runsI:
  assumes "\<And>w r w'. m w = (r, w') \<Longrightarrow> platform_step\<^sup>*\<^sup>* (w_db w) (w_db w')
    \<and> (\<exists>es. w_log w' = w_log w @ es \<and> list_all A es)"
  shows "runs A m"
  unfolding runs_def using assms by (metis prod.collapse)

lemma runs_ret [runs_intros]: "runs A (ret x)"
  and runs_fail [runs_intros]: "runs A (fail e)"
  and runs_time_now [runs_intros]: "runs A (time_now H)"
  by (simp_all add: runs_def ret_def fail_def time_now_def)

lemma runs_abind:
  assumes m: "runs A m" and f: "\<And>x. yields m x \<Longrightarrow> runs A (f x)"
  shows "runs A (abind m f)"
proof (rule runsI)
  fix w r w' assume run: "abind m f w = (r, w')"
  obtain s w1 where s: "m w = (s, w1)" by (cases "m w")
  note first = runsD [OF m s]
  show "platform_step\<^sup>*\<^sup>* (w_db w) (w_db w') \<and> (\<exists>es. w_log w' = w_log w @ es \<and> list_all A es)"
  proof (cases s)
    case (Inl e)
    with run s first show ?thesis by (simp add: abind_def)
  next
    case (Inr x)
    with run s have run': "f x w1 = (r, w')" by (simp add: abind_def)
    have "runs A (f x)" using s Inr by (intro f) (auto simp: yields_def)
    note second = runsD [OF this run']
    from first(2) second(2) obtain es fs
      where "w_log w1 = w_log w @ es" "list_all A es" "w_log w' = w_log w1 @ fs" "list_all A fs"
      by blast
    then have "w_log w' = w_log w @ (es @ fs) \<and> list_all A (es @ fs)" by simp
    with rtranclp_trans [OF first(1) second(1)] show ?thesis by blast
  qed
qed

lemma runs_bind [runs_intros]: "runs A m \<Longrightarrow> (\<And>x. runs A (f x)) \<Longrightarrow> runs A (abind m f)"
  by (rule runs_abind)

lemma runs_mono:
  assumes "runs A m" and "\<And>e. A e \<Longrightarrow> B e"
  shows "runs B m"
proof (rule runsI)
  fix w r w' assume "m w = (r, w')"
  with runsD [OF assms(1) this] assms(2)
  show "platform_step\<^sup>*\<^sup>* (w_db w) (w_db w') \<and> (\<exists>es. w_log w' = w_log w @ es \<and> list_all B es)"
    by (metis list.pred_mono_strong)
qed

lemma runs_same_world:
  assumes "runs A m" and "\<And>w. snd (n w) = snd (m w)"
  shows "runs A n"
  using assms unfolding runs_def by metis

lemma runs_atry [runs_intros]: "runs A m \<Longrightarrow> runs A (atry m)"
  by (erule runs_same_world) (auto simp: atry_def split: prod.splits sum.splits)

lemma runs_awrap [runs_intros]: "runs A m \<Longrightarrow> runs A (awrap l m)"
  by (erule runs_same_world) (auto simp: awrap_def split: prod.splits sum.splits)

lemma runs_best_effort [runs_intros]: "runs A m \<Longrightarrow> runs A (best_effort m)"
  unfolding best_effort_def by (intro runs_intros)

lemma runs_lift_sum [runs_intros]: "runs A (lift_sum r)"
  by (simp add: lift_sum_def runs_ret runs_fail split: sum.splits)

lemma runs_call [runs_intros]: "A eff \<Longrightarrow> runs A (call eff answer)"
  by (simp add: runs_def call_def)

lemma runs_db_read [runs_intros]: "others_ok H \<Longrightarrow> runs A (db_read H q)"
  by (simp add: runs_def db_read_def others_ok_def Let_def)

lemma runs_rec [runs_intros]:
  "others_ok H \<Longrightarrow> runs A (rec_read H rq)"
  "others_ok H \<Longrightarrow> A eff \<Longrightarrow> runs A (rec_write H eff op)"
  by (simp_all add: runs_def rec_read_def rec_write_def others_ok_def Let_def split: sum.splits prod.splits)

lemma runs_db_write [runs_intros]:
  assumes "others_ok H" and "A eff" and "\<And>E d x d'. op E d = Inr (x, d') \<Longrightarrow> platform_step d d'"
  shows "runs A (db_write H eff op)"
proof (rule runsI)
  fix w r w' assume run: "db_write H eff op w = (r, w')"
  let ?d = "h_others H (w_ops w) (w_db w)"
  have others: "platform_step\<^sup>*\<^sup>* (w_db w) ?d" using assms(1) by (simp add: others_ok_def)
  have log: "\<exists>es. w_log w' = w_log w @ es \<and> list_all A es"
    using run assms(2) by (auto simp: db_write_def Let_def split: sum.splits)
  show "platform_step\<^sup>*\<^sup>* (w_db w) (w_db w') \<and> (\<exists>es. w_log w' = w_log w @ es \<and> list_all A es)"
  proof (cases "op (h_env H (w_ops w)) ?d")
    case (Inl e)
    with run others log show ?thesis by (auto simp: db_write_def Let_def)
  next
    case (Inr p)
    obtain x d' where p: "p = (x, d')" by (cases p)
    have "w_db w' = d'" using run Inr p by (auto simp: db_write_def Let_def)
    moreover have "platform_step ?d d'" using Inr p assms(3) by blast
    ultimately show ?thesis using others log by (auto intro: rtranclp.rtrancl_into_rtrancl)
  qed
qed

lemma unit_op_Inr: "unit_op op E d = Inr (x, d') \<longleftrightarrow> op E d = Inr d'"
  by (auto simp: unit_op_def bind_sum_Inr_iff)

lemma runs_if [runs_intros]: "(b \<Longrightarrow> runs A m) \<Longrightarrow> (\<not> b \<Longrightarrow> runs A n) \<Longrightarrow> runs A (if b then m else n)"
  by simp

lemma runs_case_option [runs_intros]:
  "(x = None \<Longrightarrow> runs A m) \<Longrightarrow> (\<And>y. x = Some y \<Longrightarrow> runs A (f y)) \<Longrightarrow>
    runs A (case x of None \<Rightarrow> m | Some y \<Rightarrow> f y)"
  by (cases x) simp_all

lemma runs_case_sum [runs_intros]:
  "(\<And>e. x = Inl e \<Longrightarrow> runs A (g e)) \<Longrightarrow> (\<And>y. x = Inr y \<Longrightarrow> runs A (f y)) \<Longrightarrow>
    runs A (case x of Inl e \<Rightarrow> g e | Inr y \<Rightarrow> f y)"
  by (cases x) simp_all

lemma runs_case_prod [runs_intros]:
  "(\<And>a b. x = (a, b) \<Longrightarrow> runs A (f a b)) \<Longrightarrow> runs A (case x of (a, b) \<Rightarrow> f a b)"
  by (cases x) simp

lemma runs_foreach [runs_intros]: "(\<And>x. x \<in> set xs \<Longrightarrow> runs A (f x)) \<Longrightarrow> runs A (foreach xs f)"
  by (induction xs) (auto intro!: runs_intros)

section \<open>What an action returns\<close>

lemma yields_simps [simp]:
  "yields (ret x) y \<longleftrightarrow> y = x"
  "\<not> yields (fail e) y"
  "yields (lift_sum r) y \<longleftrightarrow> r = Inr y"
  by (auto simp: yields_def ret_def fail_def lift_sum_def split: sum.splits)

lemma yields_call: "yields (call eff answer) x \<Longrightarrow> \<exists>k. answer k = Inr x"
  by (auto simp: yields_def call_def)

lemma yieldsE:
  assumes "yields m x"
  obtains w w' where "m w = (Inr x, w')"
  using assms unfolding yields_def by blast

lemma yields_awrap: "yields (awrap l m) x \<Longrightarrow> yields m x"
proof (erule yieldsE)
  fix w w' assume "awrap l m w = (Inr x, w')"
  then show "yields m x"
    by (cases "m w"; cases "fst (m w)") (auto simp: yields_def awrap_def)
qed

lemma yields_atry: "yields (atry m) (Inr x) \<Longrightarrow> yields m x"
proof (erule yieldsE)
  fix w w' assume "atry m w = (Inr (Inr x), w')"
  then show "yields m x"
    by (cases "m w"; cases "fst (m w)") (auto simp: yields_def atry_def split: if_splits)
qed

lemma yields_db_read: "yields (db_read H q) x \<Longrightarrow> \<exists>E d. q E d = Inr x"
  by (auto simp: yields_def db_read_def Let_def)

lemma yields_db_write: "yields (db_write H eff op) x \<Longrightarrow> \<exists>E d d'. op E d = Inr (x, d')"
proof (erule yieldsE)
  fix w w' assume run: "db_write H eff op w = (Inr x, w')"
  then show "\<exists>E d d'. op E d = Inr (x, d')"
    by (cases "op (h_env H (w_ops w)) (h_others H (w_ops w) (w_db w))")
      (auto simp: db_write_def Let_def)
qed

lemma yields_abind: "yields (abind m f) y \<Longrightarrow> \<exists>x. yields m x \<and> yields (f x) y"
  unfolding yields_def abind_def by (fastforce split: prod.splits sum.splits)

section \<open>Invariants of the platform under a handler\<close>

theorem runs_inv: "runs A m \<Longrightarrow> db_inv (w_db w) \<Longrightarrow> m w = (r, w') \<Longrightarrow> db_inv (w_db w')"
  by (blast intro: platform.run_inv dest: runsD(1))

theorem runs_le: "runs A m \<Longrightarrow> db_inv (w_db w) \<Longrightarrow> m w = (r, w') \<Longrightarrow> db_le (w_db w) (w_db w')"
  by (blast intro: platform.run_le dest: runsD(1))

end
