(* ===== verification/Ops.thy ===== *)
theory Ops
  imports Effects RunnerStore
begin

text \<open>
  The store operations and the calls of the GitHub API as actions: each writing operation is one
  step of the platform, so every handler composed of them is a run of it.
\<close>

section \<open>The task store\<close>

definition op_Create :: "('m) host_scheme \<Rightarrow> CreateParams \<Rightarrow> Task action" where
  "op_Create H p = db_write H (DbCreate p) (\<lambda>E. Create E p)"

definition op_Transition :: "('m) host_scheme \<Rightarrow> string \<Rightarrow> TransitionParams \<Rightarrow> Task action" where
  "op_Transition H tid p = db_write H (DbTransition tid p) (\<lambda>E. Transition E tid p)"

definition op_RequestRevision ::
  "('m) host_scheme \<Rightarrow> string \<Rightarrow> RevisionParams \<Rightarrow> (Task \<times> Attempt) action" where
  "op_RequestRevision H tid p = db_write H (DbRequestRevision tid p)
     (\<lambda>E d. bind_sum (RequestRevision E tid p d) (\<lambda>(t, a, d'). Inr ((t, a), d')))"

definition op_EnsureGitContext ::
  "('m) host_scheme \<Rightarrow> string \<Rightarrow> string \<Rightarrow> string \<Rightarrow> (string \<times> string) action" where
  "op_EnsureGitContext H tid base br = db_write H (DbEnsureGitContext tid base br)
     (\<lambda>E d. bind_sum (EnsureGitContext E tid base br d) (\<lambda>(b, w, d'). Inr ((b, w), d')))"

definition op_RecordTriggerCheckRun :: "('m) host_scheme \<Rightarrow> string \<Rightarrow> int \<Rightarrow> unit action" where
  "op_RecordTriggerCheckRun H tid n = db_write H (DbRecordTriggerCheckRun tid n)
     (unit_op (\<lambda>E. RecordTriggerCheckRun E tid n))"

definition op_MarkTriggerCheckRunCompleted :: "('m) host_scheme \<Rightarrow> string \<Rightarrow> unit action" where
  "op_MarkTriggerCheckRunCompleted H aid = db_write H (DbMarkTriggerCheckRunCompleted aid)
     (unit_op (\<lambda>E. MarkTriggerCheckRunCompleted E aid))"

definition op_AppendEvent ::
  "('m) host_scheme \<Rightarrow> string \<Rightarrow> string \<Rightarrow> string \<Rightarrow> json \<Rightarrow> unit action" where
  "op_AppendEvent H tid ty src pl = db_write H (DbAppendEvent tid ty)
     (unit_op (\<lambda>E. AppendEvent E tid ty src pl))"

definition op_AppendAttemptEvent ::
  "('m) host_scheme \<Rightarrow> string \<Rightarrow> string \<Rightarrow> string \<Rightarrow> json \<Rightarrow> unit action" where
  "op_AppendAttemptEvent H aid ty src pl = db_write H (DbAppendAttemptEvent aid ty)
     (unit_op (\<lambda>E. AppendAttemptEvent E aid ty src pl))"

definition op_Get :: "('m) host_scheme \<Rightarrow> string \<Rightarrow> Task action" where
  "op_Get H tid = db_read H (\<lambda>E. Get E tid)"

definition op_GetAttempt :: "('m) host_scheme \<Rightarrow> string \<Rightarrow> Attempt action" where
  "op_GetAttempt H aid = db_read H (\<lambda>E. GetAttempt E aid)"

definition op_Attempts :: "('m) host_scheme \<Rightarrow> string \<Rightarrow> Attempt list action" where
  "op_Attempts H tid = db_read H (\<lambda>E. Attempts E tid)"

definition op_ActiveTaskForIssue ::
  "('m) host_scheme \<Rightarrow> string \<Rightarrow> int \<Rightarrow> Task option action" where
  "op_ActiveTaskForIssue H rid n = db_read H (\<lambda>E. ActiveTaskForIssue E rid n)"

definition op_TaskForBranch ::
  "('m) host_scheme \<Rightarrow> string \<Rightarrow> string \<Rightarrow> Task option action" where
  "op_TaskForBranch H rid br = db_read H (\<lambda>E. TaskForBranch E rid br)"

section \<open>The GitHub store\<close>

definition op_RecordDelivery ::
  "('m) host_scheme \<Rightarrow> string \<Rightarrow> string \<Rightarrow> string \<Rightarrow> int \<Rightarrow> int \<Rightarrow> bool action" where
  "op_RecordDelivery H did ty act i r = db_write H (DbRecordDelivery did)
     (\<lambda>E. RecordDelivery E did ty act i r)"

definition op_MarkDelivery :: "('m) host_scheme \<Rightarrow> string \<Rightarrow> string \<Rightarrow> string \<Rightarrow> unit action" where
  "op_MarkDelivery H did st msg = db_write H (DbMarkDelivery did st msg)
     (unit_op (\<lambda>E. MarkDelivery E did st msg))"

definition op_UpsertInstallation :: "('m) host_scheme \<Rightarrow> InstallationParams \<Rightarrow> unit action" where
  "op_UpsertInstallation H p = db_write H (DbUpsertInstallation p)
     (unit_op (\<lambda>E. UpsertInstallation E p))"

definition op_SetInstallationSuspended :: "('m) host_scheme \<Rightarrow> int \<Rightarrow> bool \<Rightarrow> unit action" where
  "op_SetInstallationSuspended H i b = db_write H (DbSetInstallationSuspended i b)
     (unit_op (\<lambda>E. SetInstallationSuspended E i b))"

definition op_DeleteInstallation :: "('m) host_scheme \<Rightarrow> int \<Rightarrow> unit action" where
  "op_DeleteInstallation H i = db_write H (DbDeleteInstallation i)
     (unit_op (\<lambda>E. DeleteInstallation E i))"

definition op_SyncRepositories :: "('m) host_scheme \<Rightarrow> int \<Rightarrow> Repository list \<Rightarrow> unit action" where
  "op_SyncRepositories H i rs = db_write H (DbSyncRepositories i rs)
     (unit_op (\<lambda>E. SyncRepositories E i rs))"

definition op_RepositoryByGitHubID :: "('m) host_scheme \<Rightarrow> int \<Rightarrow> StoredRepository action" where
  "op_RepositoryByGitHubID H i = db_read H (\<lambda>E. RepositoryByGitHubID E i)"

definition op_RepositoryContextByID :: "('m) host_scheme \<Rightarrow> string \<Rightarrow> RepositoryContext action" where
  "op_RepositoryContextByID H rid = db_read H (\<lambda>E. RepositoryContextByID E rid)"

section \<open>The runner store\<close>

definition op_RecordAttemptBase :: "('m) host_scheme \<Rightarrow> string \<Rightarrow> string \<Rightarrow> unit action" where
  "op_RecordAttemptBase H aid sha = db_write H (DbRecordAttemptBase aid sha)
     (unit_op (\<lambda>E. RecordAttemptBase E aid sha))"

definition op_RecordFinalCommit :: "('m) host_scheme \<Rightarrow> string \<Rightarrow> string \<Rightarrow> unit action" where
  "op_RecordFinalCommit H aid sha = db_write H (DbRecordFinalCommit aid sha)
     (unit_op (\<lambda>E. RecordFinalCommit E aid sha))"

definition op_RecordPullRequest :: "('m) host_scheme \<Rightarrow> string \<Rightarrow> int \<Rightarrow> unit action" where
  "op_RecordPullRequest H aid n = db_write H (DbRecordPullRequest aid n)
     (unit_op (\<lambda>E. RecordPullRequest E aid n))"

definition op_ExtendLease :: "('m) host_scheme \<Rightarrow> string \<Rightarrow> string \<Rightarrow> time \<Rightarrow> unit action" where
  "op_ExtendLease H aid rid dur = db_write H (DbExtendLease aid rid)
     (unit_op (\<lambda>E. ExtendLease E aid rid dur))"

definition op_ReleaseLease :: "('m) host_scheme \<Rightarrow> string \<Rightarrow> string \<Rightarrow> unit action" where
  "op_ReleaseLease H aid rid = db_write H (DbReleaseLease aid rid)
     (unit_op (\<lambda>E. ReleaseLease E aid rid))"

section \<open>The GitHub API\<close>

definition gh_ListInstallationRepositories ::
  "('m) host_scheme \<Rightarrow> int \<Rightarrow> Repository list action" where
  "gh_ListInstallationRepositories H i =
     call (GhRead ''ListInstallationRepositories'')
       (\<lambda>k. api_ListInstallationRepositories (h_api H) k i)"

definition gh_CollaboratorPermission ::
  "('m) host_scheme \<Rightarrow> int \<Rightarrow> string \<Rightarrow> string \<Rightarrow> string \<Rightarrow> string action" where
  "gh_CollaboratorPermission H i o' r u =
     call (GhRead ''CollaboratorPermission'') (\<lambda>k. api_CollaboratorPermission (h_api H) k i o' r u)"

definition gh_BranchHeadSHA ::
  "('m) host_scheme \<Rightarrow> int \<Rightarrow> string \<Rightarrow> string \<Rightarrow> string \<Rightarrow> string action" where
  "gh_BranchHeadSHA H i o' r b =
     call (GhRead ''BranchHeadSHA'') (\<lambda>k. api_BranchHeadSHA (h_api H) k i o' r b)"

definition gh_CreateIssueComment ::
  "('m) host_scheme \<Rightarrow> int \<Rightarrow> string \<Rightarrow> string \<Rightarrow> int \<Rightarrow> string \<Rightarrow> unit action" where
  "gh_CreateIssueComment H i o' r n body =
     call (GhCreateIssueComment i o' r n body)
       (\<lambda>k. api_CreateIssueComment (h_api H) k i o' r n body)"

definition gh_CreateCheckRun ::
  "('m) host_scheme \<Rightarrow> int \<Rightarrow> string \<Rightarrow> string \<Rightarrow> CheckRunParams \<Rightarrow> int action" where
  "gh_CreateCheckRun H i o' r p =
     call (GhCreateCheckRun i o' r p) (\<lambda>k. api_CreateCheckRun (h_api H) k i o' r p)"

definition gh_UpdateCheckRun ::
  "('m) host_scheme \<Rightarrow> int \<Rightarrow> string \<Rightarrow> string \<Rightarrow> int \<Rightarrow> CheckRunParams \<Rightarrow> unit action" where
  "gh_UpdateCheckRun H i o' r c p =
     call (GhUpdateCheckRun i o' r c p) (\<lambda>k. api_UpdateCheckRun (h_api H) k i o' r c p)"

definition gh_ListCheckRuns ::
  "('m) host_scheme \<Rightarrow> int \<Rightarrow> string \<Rightarrow> string \<Rightarrow> string \<Rightarrow> string \<Rightarrow> CheckRun list action" where
  "gh_ListCheckRuns H i o' r ref name =
     call (GhRead ''ListCheckRuns'') (\<lambda>k. api_ListCheckRuns (h_api H) k i o' r ref name)"

definition gh_GetPullRequest ::
  "('m) host_scheme \<Rightarrow> int \<Rightarrow> string \<Rightarrow> string \<Rightarrow> int \<Rightarrow> PullRequestDetail action" where
  "gh_GetPullRequest H i o' r n =
     call (GhRead ''GetPullRequest'') (\<lambda>k. api_GetPullRequest (h_api H) k i o' r n)"

definition gh_FindPullRequestByHead ::
  "('m) host_scheme \<Rightarrow> int \<Rightarrow> string \<Rightarrow> string \<Rightarrow> string \<Rightarrow> string \<Rightarrow> PullRequest option action" where
  "gh_FindPullRequestByHead H i o' r ho br =
     call (GhRead ''FindPullRequestByHead'')
       (\<lambda>k. api_FindPullRequestByHead (h_api H) k i o' r ho br)"

definition gh_CreateDraftPullRequest ::
  "('m) host_scheme \<Rightarrow> int \<Rightarrow> string \<Rightarrow> string \<Rightarrow> PullRequestParams \<Rightarrow> PullRequest action" where
  "gh_CreateDraftPullRequest H i o' r p =
     call (GhCreateDraftPullRequest i o' r p)
       (\<lambda>k. api_CreateDraftPullRequest (h_api H) k i o' r p)"

definition gh_UpdatePullRequestBody ::
  "('m) host_scheme \<Rightarrow> int \<Rightarrow> string \<Rightarrow> string \<Rightarrow> int \<Rightarrow> string \<Rightarrow> unit action" where
  "gh_UpdatePullRequestBody H i o' r n body =
     call (GhUpdatePullRequestBody i o' r n body)
       (\<lambda>k. api_UpdatePullRequestBody (h_api H) k i o' r n body)"

definition gh_ListPullRequestReviews ::
  "('m) host_scheme \<Rightarrow> int \<Rightarrow> string \<Rightarrow> string \<Rightarrow> int \<Rightarrow> Review list action" where
  "gh_ListPullRequestReviews H i o' r n =
     call (GhRead ''ListPullRequestReviews'')
       (\<lambda>k. api_ListPullRequestReviews (h_api H) k i o' r n)"

definition gh_ListPullRequestReviewComments ::
  "('m) host_scheme \<Rightarrow> int \<Rightarrow> string \<Rightarrow> string \<Rightarrow> int \<Rightarrow> time \<Rightarrow> ReviewComment list action" where
  "gh_ListPullRequestReviewComments H i o' r n since =
     call (GhRead ''ListPullRequestReviewComments'')
       (\<lambda>k. api_ListPullRequestReviewComments (h_api H) k i o' r n since)"

definition gh_ListIssueComments ::
  "('m) host_scheme \<Rightarrow> int \<Rightarrow> string \<Rightarrow> string \<Rightarrow> int \<Rightarrow> time \<Rightarrow> IssueComment list action" where
  "gh_ListIssueComments H i o' r n since =
     call (GhRead ''ListIssueComments'') (\<lambda>k. api_ListIssueComments (h_api H) k i o' r n since)"

section \<open>Every operation is a step\<close>

lemmas op_defs = op_Create_def op_Transition_def op_RequestRevision_def op_EnsureGitContext_def
  op_RecordTriggerCheckRun_def op_MarkTriggerCheckRunCompleted_def op_RecordDelivery_def
  op_MarkDelivery_def op_UpsertInstallation_def op_SetInstallationSuspended_def
  op_DeleteInstallation_def op_SyncRepositories_def op_RecordAttemptBase_def
  op_RecordFinalCommit_def op_RecordPullRequest_def op_ExtendLease_def op_ReleaseLease_def

lemmas read_defs = op_Get_def op_GetAttempt_def op_Attempts_def op_ActiveTaskForIssue_def
  op_TaskForBranch_def op_RepositoryByGitHubID_def op_RepositoryContextByID_def

lemmas gh_read_defs = gh_ListInstallationRepositories_def gh_CollaboratorPermission_def
  gh_BranchHeadSHA_def gh_ListCheckRuns_def gh_GetPullRequest_def gh_FindPullRequestByHead_def
  gh_ListPullRequestReviews_def gh_ListPullRequestReviewComments_def gh_ListIssueComments_def

lemmas gh_write_defs = gh_CreateIssueComment_def gh_CreateCheckRun_def gh_UpdateCheckRun_def
  gh_CreateDraftPullRequest_def gh_UpdatePullRequestBody_def

lemma runs_ops [runs_intros]:
  assumes "others_ok H"
  shows "A (DbCreate p) \<Longrightarrow> runs A (op_Create H p)"
    and "A (DbTransition tid tp) \<Longrightarrow> runs A (op_Transition H tid tp)"
    and "A (DbRequestRevision tid rp) \<Longrightarrow> runs A (op_RequestRevision H tid rp)"
    and "A (DbEnsureGitContext tid base br) \<Longrightarrow> runs A (op_EnsureGitContext H tid base br)"
    and "A (DbRecordTriggerCheckRun tid n) \<Longrightarrow> runs A (op_RecordTriggerCheckRun H tid n)"
    and "A (DbMarkTriggerCheckRunCompleted aid) \<Longrightarrow> runs A (op_MarkTriggerCheckRunCompleted H aid)"
    and "A (DbRecordDelivery did) \<Longrightarrow> runs A (op_RecordDelivery H did ty act n m)"
    and "A (DbMarkDelivery did st msg) \<Longrightarrow> runs A (op_MarkDelivery H did st msg)"
    and "A (DbUpsertInstallation ip) \<Longrightarrow> runs A (op_UpsertInstallation H ip)"
    and "A (DbSetInstallationSuspended n b) \<Longrightarrow> runs A (op_SetInstallationSuspended H n b)"
    and "A (DbDeleteInstallation n) \<Longrightarrow> runs A (op_DeleteInstallation H n)"
    and "A (DbSyncRepositories n rs) \<Longrightarrow> runs A (op_SyncRepositories H n rs)"
    and "A (DbRecordAttemptBase aid sha) \<Longrightarrow> runs A (op_RecordAttemptBase H aid sha)"
    and "A (DbRecordFinalCommit aid sha) \<Longrightarrow> runs A (op_RecordFinalCommit H aid sha)"
    and "A (DbRecordPullRequest aid n) \<Longrightarrow> runs A (op_RecordPullRequest H aid n)"
    and "A (DbExtendLease aid rid) \<Longrightarrow> runs A (op_ExtendLease H aid rid dur)"
    and "A (DbReleaseLease aid rid) \<Longrightarrow> runs A (op_ReleaseLease H aid rid)"
  unfolding op_defs
  subgoal by (erule runs_db_write [OF assms]) (erule platform_step.create)
  subgoal by (erule runs_db_write [OF assms]) (erule platform_step.transition)
  subgoal by (erule runs_db_write [OF assms]) (auto simp: bind_sum_Inr_iff intro: platform_step.request_revision)
  subgoal by (erule runs_db_write [OF assms]) (auto simp: bind_sum_Inr_iff intro: platform_step.ensure_git_context)
  subgoal by (erule runs_db_write [OF assms]) (simp add: unit_op_Inr platform_step.record_trigger_check_run)
  subgoal by (erule runs_db_write [OF assms]) (simp add: unit_op_Inr platform_step.mark_trigger_check_run)
  subgoal by (erule runs_db_write [OF assms]) (erule platform_step.record_delivery)
  subgoal by (erule runs_db_write [OF assms]) (simp add: unit_op_Inr platform_step.mark_delivery)
  subgoal by (erule runs_db_write [OF assms]) (simp add: unit_op_Inr platform_step.upsert_installation)
  subgoal by (erule runs_db_write [OF assms]) (simp add: unit_op_Inr platform_step.suspend_installation)
  subgoal by (erule runs_db_write [OF assms]) (simp add: unit_op_Inr platform_step.delete_installation)
  subgoal by (erule runs_db_write [OF assms]) (simp add: unit_op_Inr platform_step.sync_repositories)
  subgoal by (erule runs_db_write [OF assms]) (simp add: unit_op_Inr platform_step.record_base)
  subgoal by (erule runs_db_write [OF assms]) (simp add: unit_op_Inr platform_step.record_final)
  subgoal by (erule runs_db_write [OF assms]) (simp add: unit_op_Inr platform_step.record_pull_request)
  subgoal by (erule runs_db_write [OF assms]) (simp add: unit_op_Inr platform_step.extend_lease)
  subgoal by (erule runs_db_write [OF assms]) (simp add: unit_op_Inr platform_step.release_lease)
  done

lemma runs_events [runs_intros]:
  assumes "others_ok H" and "\<not> transition_type ty"
  shows "A (DbAppendEvent tid ty) \<Longrightarrow> runs A (op_AppendEvent H tid ty src pl)"
    and "A (DbAppendAttemptEvent aid ty) \<Longrightarrow> runs A (op_AppendAttemptEvent H aid ty src pl)"
  using assms unfolding op_AppendEvent_def op_AppendAttemptEvent_def
  by (auto intro!: runs_db_write intro: append_event append_attempt_event simp: unit_op_Inr)

lemma runs_reads [runs_intros]:
  assumes "others_ok H"
  shows "runs A (op_Get H tid)" "runs A (op_GetAttempt H aid)" "runs A (op_Attempts H tid)"
    "runs A (op_ActiveTaskForIssue H rid n)" "runs A (op_TaskForBranch H rid br)"
    "runs A (op_RepositoryByGitHubID H n)" "runs A (op_RepositoryContextByID H rid)"
  using assms unfolding read_defs by (auto intro!: runs_db_read)

lemma runs_gh_reads [runs_intros]:
  assumes "\<And>n. A (GhRead n)"
  shows "runs A (gh_ListInstallationRepositories H i)" "runs A (gh_CollaboratorPermission H i o' r u)"
    "runs A (gh_BranchHeadSHA H i o' r b)" "runs A (gh_ListCheckRuns H i o' r ref name)"
    "runs A (gh_GetPullRequest H i o' r n)" "runs A (gh_FindPullRequestByHead H i o' r ho br)"
    "runs A (gh_ListPullRequestReviews H i o' r n)"
    "runs A (gh_ListPullRequestReviewComments H i o' r n since)"
    "runs A (gh_ListIssueComments H i o' r n since)"
  using assms unfolding gh_read_defs by (auto intro!: runs_call)

lemma runs_gh_writes [runs_intros]:
  shows "A (GhCreateIssueComment i o' r n body) \<Longrightarrow> runs A (gh_CreateIssueComment H i o' r n body)"
    and "A (GhCreateCheckRun i o' r p) \<Longrightarrow> runs A (gh_CreateCheckRun H i o' r p)"
    and "A (GhUpdateCheckRun i o' r c p) \<Longrightarrow> runs A (gh_UpdateCheckRun H i o' r c p)"
    and "A (GhCreateDraftPullRequest i o' r q) \<Longrightarrow> runs A (gh_CreateDraftPullRequest H i o' r q)"
    and "A (GhUpdatePullRequestBody i o' r n body) \<Longrightarrow>
      runs A (gh_UpdatePullRequestBody H i o' r n body)"
  unfolding gh_write_defs by (auto intro!: runs_call)

end
