(* ===== verification/Revise.thy ===== *)
theory Revise
  imports Ops GoTime Command GitText
begin

text \<open>
  \<open>internal/github/revise.go\<close> and the parts of \<open>process.go\<close> it shares with the other
  handlers: replies, task events and the queued check run of a trigger. Log lines and counters
  are left out; \<open>reply\<close> is the closure the caller passes.
\<close>

section \<open>Payloads of an issue comment\<close>

record Delivery =
  dl_ID :: string
  dl_EventType :: string
  dl_Action :: string
  dl_TraceID :: string

record account =
  acc_ID :: int
  acc_Login :: string
  acc_Type :: string

text \<open>\<open>ic_PullRequest\<close> is the raw JSON of \<open>issue.pull_request\<close>, empty where it is absent.\<close>

record issueCommentPayload =
  icp_Action :: string
  icp_CommentID :: int
  icp_CommentBody :: string
  icp_CommentCreatedAt :: time
  icp_CommentUser :: account
  icp_IssueNumber :: int
  icp_IssueTitle :: string
  icp_IssueBody :: string
  icp_IssuePullRequest :: string
  icp_RepositoryID :: int
  icp_RepositoryOwner :: account
  icp_InstallationID :: int

definition CheckRunName :: string where
  "CheckRunName = ''Agent Trail Task''"

definition instructionLimit :: nat where
  "instructionLimit = 100000"

section \<open>Shared side effects\<close>

definition appendTaskEvent :: "('m) host_scheme \<Rightarrow> string \<Rightarrow> string \<Rightarrow> json \<Rightarrow> unit action" where
  "appendTaskEvent H tid ty payload = best_effort (op_AppendEvent H tid ty ''system'' payload)"

definition createTriggerCheckRun ::
  "('m) host_scheme \<Rightarrow> int \<Rightarrow> StoredRepository \<Rightarrow> string \<Rightarrow> string \<Rightarrow> unit action" where
  "createTriggerCheckRun H inst repo tid headSHA =
     abind (atry (gh_CreateCheckRun H inst (sr_Owner repo) (sr_Name repo)
       (no_check_run\<lparr>crp_Name := CheckRunName, crp_HeadSHA := headSHA, crp_ExternalID := tid,
          crp_Status := ''queued''\<rparr>))) (\<lambda>r.
     case r of
       Inl e \<Rightarrow> ret ()
     | Inr checkRunID \<Rightarrow>
         aseq (best_effort (op_RecordTriggerCheckRun H tid checkRunID))
           (appendTaskEvent H tid ''github.check_run.created''
             (JObj [(''check_run_id'', JStr (int_string checkRunID)), (''head_sha'', JStr headSHA)])))"

definition replyProcessed :: "(string \<Rightarrow> unit action) \<Rightarrow> string \<Rightarrow> string action" where
  "replyProcessed reply body = aseq (awrap ''post reply'' (reply body)) (ret ''processed'')"

section \<open>Feedback\<close>

record feedbackEntry =
  fe_item :: FeedbackItem
  fe_body :: string
  fe_hunk :: string

definition reviewCommentLocation :: "ReviewComment \<Rightarrow> string" where
  "reviewCommentLocation c =
     (case (case rc_Line c of Some l \<Rightarrow> Some l | None \<Rightarrow> rc_OriginalLine c) of
        None \<Rightarrow> rc_Path c
      | Some l \<Rightarrow> rc_Path c @ '':'' @ int_string l)"

text \<open>
  The start of the second of the cutoff (the zero time without one), and the test for what was
  posted in it or later.
\<close>

definition feedback_since :: "time option \<Rightarrow> time" where
  "feedback_since cutoff = (case cutoff of None \<Rightarrow> zero_time | Some c \<Rightarrow> truncate_second c)"

definition posted_after :: "time option \<Rightarrow> time \<Rightarrow> bool" where
  "posted_after cutoff posted \<longleftrightarrow> cutoff = None \<or> \<not> posted < feedback_since cutoff"

definition review_entries ::
  "(string \<Rightarrow> string) \<Rightarrow> time option \<Rightarrow> Review list \<Rightarrow> feedbackEntry list" where
  "review_entries low cutoff rs =
     map (\<lambda>r. \<lparr>fe_item = \<lparr>f_Kind = FeedbackReview, f_Author = au_Login (rv_User r),
                          f_PostedAt = rv_SubmittedAt r, f_Location = ToLower low (rv_State r)\<rparr>,
               fe_body = rv_Body r, fe_hunk = []\<rparr>)
       (filter (\<lambda>r. \<not> (Bot (rv_User r) \<or> TrimSpace (rv_Body r) = []
                       \<or> \<not> posted_after cutoff (rv_SubmittedAt r))) rs)"

definition review_comment_entries ::
  "time option \<Rightarrow> ReviewComment list \<Rightarrow> feedbackEntry list" where
  "review_comment_entries cutoff cs =
     map (\<lambda>c. \<lparr>fe_item = \<lparr>f_Kind = FeedbackReviewComment, f_Author = au_Login (rc_User c),
                          f_PostedAt = rc_CreatedAt c, f_Location = reviewCommentLocation c\<rparr>,
               fe_body = rc_Body c, fe_hunk = rc_DiffHunk c\<rparr>)
       (filter (\<lambda>c. \<not> (Bot (rc_User c) \<or> TrimSpace (rc_Body c) = []
                       \<or> \<not> posted_after cutoff (rc_CreatedAt c))) cs)"

definition issue_comment_entries ::
  "time option \<Rightarrow> int \<Rightarrow> IssueComment list \<Rightarrow> feedbackEntry list" where
  "issue_comment_entries cutoff trigger cs =
     map (\<lambda>c. \<lparr>fe_item = \<lparr>f_Kind = FeedbackComment, f_Author = au_Login (ic_User c),
                          f_PostedAt = ic_CreatedAt c, f_Location = []\<rparr>,
               fe_body = ic_Body c, fe_hunk = []\<rparr>)
       (filter (\<lambda>c. \<not> (Bot (ic_User c) \<or> ic_ID c = trigger \<or> TrimSpace (ic_Body c) = []
                       \<or> \<not> posted_after cutoff (ic_CreatedAt c)
                       \<or> Addressed (ParseCommand (ic_Body c)))) cs)"

definition gatherFeedback ::
  "('m) host_scheme \<Rightarrow> int \<Rightarrow> StoredRepository \<Rightarrow> int \<Rightarrow> time option \<Rightarrow> issueCommentPayload \<Rightarrow>
    feedbackEntry list action" where
  "gatherFeedback H inst repo number cutoff ev =
     (let since = feedback_since cutoff; owner = sr_Owner repo; name = sr_Name repo in
      abind (awrap ''list reviews'' (gh_ListPullRequestReviews H inst owner name number)) (\<lambda>reviews.
      abind (awrap ''list review comments''
        (gh_ListPullRequestReviewComments H inst owner name number since)) (\<lambda>comments.
      abind (awrap ''list issue comments''
        (gh_ListIssueComments H inst owner name number since)) (\<lambda>issueComments.
      abind (if icp_CommentCreatedAt ev = zero_time then time_now H
             else ret (icp_CommentCreatedAt ev)) (\<lambda>postedAt.
      ret (sort_key (\<lambda>e. f_PostedAt (fe_item e))
             (review_entries (h_lower H) cutoff reviews @ review_comment_entries cutoff comments
              @ issue_comment_entries cutoff (icp_CommentID ev) issueComments)
           @ [\<lparr>fe_item = \<lparr>f_Kind = FeedbackReviseCommand, f_Author = acc_Login (icp_CommentUser ev),
                           f_PostedAt = postedAt, f_Location = []\<rparr>,
               fe_body = icp_CommentBody ev, fe_hunk = []\<rparr>]))))))"

section \<open>Instructions\<close>

definition revision_entry :: "nat \<Rightarrow> feedbackEntry \<Rightarrow> string" where
  "revision_entry i e =
     (let it = fe_item e in
      if f_Kind it = FeedbackReviseCommand then
        newline @ ''---'' @ newline @ ''Revise command by @'' @ f_Author it @ '':'' @ newline @ newline
          @ fe_body e @ newline
      else newline @ nat_string (i + 1) @ ''. ['' @ Label (f_Kind it) @ '' by @'' @ f_Author it
          @ '' at '' @ rfc3339 (f_PostedAt it)
          @ (if f_Location it \<noteq> [] then '' on '' @ f_Location it else []) @ '']'' @ newline
          @ (if fe_hunk e \<noteq> [] then ''```diff'' @ newline @ fe_hunk e @ newline @ ''```'' @ newline
             else [])
          @ fe_body e @ newline)"

definition composeRevisionInstructions :: "Task \<Rightarrow> feedbackEntry list \<Rightarrow> string" where
  "composeRevisionInstructions t entries =
     truncate_bytes
       (t_Title t @ newline @ newline @ t_Instructions t @ newline @ newline @ ''---'' @ newline
        @ ''Revision: the working branch already contains the previous attempts' work. ''
        @ ''Continue from the branch as it is, never start over, and address the review feedback below.''
        @ newline
        @ (if 1 < length entries then newline @ ''Review feedback, oldest first:'' @ newline else [])
        @ concat (map (\<lambda>(i, e). revision_entry i e) (enumerate 0 entries)))
       instructionLimit"

section \<open>\<open>handleRevise\<close>\<close>

definition notAgentTrailPullRequest :: string where
  "notAgentTrailPullRequest =
     ''This pull request is not managed by Agent Trail, so there is nothing to revise.''"

definition invalid_transition :: "err \<Rightarrow> status option" where
  "invalid_transition e =
     (case err_as (\<lambda>s. case s of InvalidTransitionError a b \<Rightarrow> True | _ \<Rightarrow> False) e of
        Some (InvalidTransitionError a b) \<Rightarrow> Some a | _ \<Rightarrow> None)"

text \<open>The commit message of the check after the revision: its check run, comment and event.\<close>

definition acknowledge_revision ::
  "('m) host_scheme \<Rightarrow> issueCommentPayload \<Rightarrow> StoredRepository \<Rightarrow> (string \<Rightarrow> unit action) \<Rightarrow>
    string \<Rightarrow> nat \<Rightarrow> Task \<times> Attempt \<Rightarrow> string action" where
  "acknowledge_revision H ev repo reply headSHA n res =
     (case res of (revised, att) \<Rightarrow>
      aseq (createTriggerCheckRun H (icp_InstallationID ev) repo (t_ID revised) headSHA)
      (abind (atry (reply (''Agent Trail queued revision attempt '' @ int_string (a_Number att)
          @ '' for this pull request (requested by @'' @ acc_Login (icp_CommentUser ev) @ '' with ''
          @ nat_string n @ '' review feedback item(s)). The `'' @ CheckRunName
          @ ''` check tracks progress.''))) (\<lambda>r.
      aseq (case r of
              Inl e \<Rightarrow> ret ()
            | Inr _ \<Rightarrow> appendTaskEvent H (t_ID revised) ''github.comment.posted''
                (JObj [(''kind'', JStr ''revision_ack''),
                       (''pull_request'', JStr (int_string (icp_IssueNumber ev)))]))
      (ret ''processed''))))"

definition request_revision_reply ::
  "(string \<Rightarrow> unit action) \<Rightarrow> Task \<Rightarrow> int \<Rightarrow> err \<Rightarrow> string action" where
  "request_revision_reply reply t limit e =
     (if err_is ErrRevisionReplayed e then ret ''ignored''
      else if err_is ErrRevisionLimit e then
        replyProcessed reply (''Task `'' @ t_ID t @ ''` has reached the repository revision limit of ''
          @ int_string limit @ '' attempts. ''
          @ ''Close this pull request and run the issue again to start a new task.'')
      else case invalid_transition e of
        Some from \<Rightarrow> replyProcessed reply (''Task `'' @ t_ID t @ ''` is '' @ status_string from
                       @ '' and cannot be revised right now.'')
      | None \<Rightarrow> fail (Wrap ''request revision'' e))"

definition revision_params ::
  "issueCommentPayload \<Rightarrow> StoredRepository \<Rightarrow> Task \<Rightarrow> string \<Rightarrow> feedbackEntry list \<Rightarrow> RevisionParams" where
  "revision_params ev repo t headSHA entries =
     \<lparr>v_Instructions = composeRevisionInstructions t entries, v_BaseCommitSHA = headSHA,
      v_RequestedByLogin = acc_Login (icp_CommentUser ev), v_TriggerCommentID = icp_CommentID ev,
      v_Feedback = map fe_item entries, v_MaxAttempts = s_MaxAttempts (sr_Settings repo),
      v_IdempotencyKey = ''revise:'' @ int_string (icp_CommentID ev),
      v_Reason = ''revision requested by @'' @ acc_Login (icp_CommentUser ev)
        @ '' in pull request #'' @ int_string (icp_IssueNumber ev)\<rparr>"

text \<open>\<open>attempts[len(attempts)-1]\<close> of no attempts is a panic.\<close>

definition revision_cutoff :: "Attempt list \<Rightarrow> time option action" where
  "revision_cutoff as =
     (if as = [] then fail (Sentinel (RuntimePanic ''index out of range [-1]''))
      else ret (if 1 < a_Number (last as) then Some (a_CreatedAt (last as)) else None))"

definition revise_in_review ::
  "('m) host_scheme \<Rightarrow> issueCommentPayload \<Rightarrow> StoredRepository \<Rightarrow> (string \<Rightarrow> unit action) \<Rightarrow>
    string \<Rightarrow> Task \<Rightarrow> Attempt list \<Rightarrow> string action" where
  "revise_in_review H ev repo reply headSHA t as =
     (if \<not> ValidSHA headSHA then
        fail (Msg (''pull request #'' @ int_string (icp_IssueNumber ev) @ '' head sha is not a commit''))
      else abind (revision_cutoff as) (\<lambda>cutoff.
      abind (gatherFeedback H (icp_InstallationID ev) repo (icp_IssueNumber ev) cutoff ev) (\<lambda>entries.
      abind (atry (op_RequestRevision H (t_ID t) (revision_params ev repo t headSHA entries))) (\<lambda>r.
      case r of
        Inl e \<Rightarrow> request_revision_reply reply t (s_MaxAttempts (sr_Settings repo)) e
      | Inr res \<Rightarrow> acknowledge_revision H ev repo reply headSHA (length entries) res))))"

definition handleRevise ::
  "('m) host_scheme \<Rightarrow> issueCommentPayload \<Rightarrow> StoredRepository \<Rightarrow> (string \<Rightarrow> unit action) \<Rightarrow>
    string action" where
  "handleRevise H ev repo reply =
     (let number = icp_IssueNumber ev in
      if acc_Login (icp_CommentUser ev) = [] then
        fail (Msg ''issue_comment payload without commenter login'')
      else abind (awrap ''get pull request'' (gh_GetPullRequest H (icp_InstallationID ev)
                    (sr_Owner repo) (sr_Name repo) number)) (\<lambda>pr.
      let head = prd_Head pr in
      if \<not> ValidBranch (prh_Ref head) \<or> prh_RepoID head \<noteq> sr_GitHubRepositoryID repo then
        replyProcessed reply notAgentTrailPullRequest
      else abind (op_TaskForBranch H (sr_ID repo) (prh_Ref head)) (\<lambda>found.
      case found of
        None \<Rightarrow> replyProcessed reply notAgentTrailPullRequest
      | Some t \<Rightarrow>
          abind (op_Attempts H (t_ID t)) (\<lambda>as.
          if list_ex (\<lambda>a. a_TriggerCommentID a = Some (icp_CommentID ev)) as then ret ''ignored''
          else case t_Phase t of
            PhaseTerminal \<Rightarrow>
              replyProcessed reply (''Task `'' @ t_ID t @ ''` is '' @ status_string (t_Status t)
                @ '' and cannot be revised. Close this pull request and ''
                @ ''run the issue again to start a new task.'')
          | PhaseReview \<Rightarrow> revise_in_review H ev repo reply (prh_SHA head) t as
          | _ \<Rightarrow>
              replyProcessed reply (''Task `'' @ t_ID t @ ''` is still running (''
                @ status_string (t_Status t) @ ''). Wait for it to publish before ''
                @ ''requesting a revision.'')))))"

end
