(* ===== verification/Process.thy ===== *)
theory Process
  imports Revise
begin

text \<open>
  \<open>internal/github/process.go\<close>: what the processor does with one delivery. \<open>json.Unmarshal\<close>
  of the body at each payload type is the argument; the handlers start from its result. A
  delivery is processed in its own goroutine, so other deliveries, workers and requests run in
  between (\<open>h_others\<close>).
\<close>

section \<open>Payloads\<close>

record installationPayload =
  inp_Action :: string
  inp_InstallationID :: int
  inp_Account :: account
  inp_Permissions :: "(string \<times> string) list option"
  inp_Events :: "string list option"

text \<open>\<open>prp_HeadRepo\<close> is nil once a fork is deleted.\<close>

record pullRequestPayload =
  pep_Action :: string
  pep_Number :: int
  pep_Merged :: bool
  pep_HeadRef :: string
  pep_HeadRepo :: "int option"
  pep_RepositoryID :: int
  pep_RepositoryFullName :: string

record deliveryEnvelope =
  env_Action :: string
  env_InstallationID :: int
  env_RepositoryID :: int

record payload =
  pl_installation :: "err + installationPayload"
  pl_issue_comment :: "err + issueCommentPayload"
  pl_pull_request :: "err + pullRequestPayload"
  pl_envelope :: deliveryEnvelope

section \<open>Installations\<close>

definition syncInstallation :: "('m) host_scheme \<Rightarrow> installationPayload \<Rightarrow> unit action" where
  "syncInstallation H ev =
     aseq (op_UpsertInstallation H
             \<lparr>ip_GitHubInstallationID = inp_InstallationID ev, ip_AccountID = acc_ID (inp_Account ev),
              ip_AccountLogin = acc_Login (inp_Account ev), ip_AccountType = acc_Type (inp_Account ev),
              ip_Permissions = inp_Permissions ev, ip_Events = inp_Events ev\<rparr>)
     (abind (awrap ''list installation repositories''
               (gh_ListInstallationRepositories H (inp_InstallationID ev))) (\<lambda>repos.
      op_SyncRepositories H (inp_InstallationID ev) repos))"

definition handleInstallation ::
  "('m) host_scheme \<Rightarrow> err + installationPayload \<Rightarrow> string action" where
  "handleInstallation H p =
     abind (awrap ''parse installation payload'' (lift_sum p)) (\<lambda>ev.
     let i = inp_InstallationID ev in
     if i = 0 then fail (Msg ''installation payload without installation id'')
     else if inp_Action ev \<in> {''created'', ''new_permissions_accepted'', ''unsuspend''} then
       aseq (syncInstallation H ev) (ret ''processed'')
     else if inp_Action ev = ''suspend'' then
       aseq (op_SetInstallationSuspended H i True) (ret ''processed'')
     else if inp_Action ev = ''deleted'' then
       aseq (op_DeleteInstallation H i) (ret ''processed'')
     else ret ''ignored'')"

definition handleInstallationRepositories ::
  "('m) host_scheme \<Rightarrow> err + installationPayload \<Rightarrow> string action" where
  "handleInstallationRepositories H p =
     abind (awrap ''parse installation_repositories payload'' (lift_sum p)) (\<lambda>ev.
     if inp_InstallationID ev = 0 then
       fail (Msg ''installation_repositories payload without installation id'')
     else aseq (syncInstallation H ev) (ret ''processed''))"

section \<open>Issue comments\<close>

definition repositoryForCommand ::
  "('m) host_scheme \<Rightarrow> issueCommentPayload \<Rightarrow> StoredRepository action" where
  "repositoryForCommand H ev =
     abind (atry (op_RepositoryByGitHubID H (icp_RepositoryID ev))) (\<lambda>r.
     case r of
       Inr repo \<Rightarrow> ret repo
     | Inl e \<Rightarrow>
         if \<not> err_is ErrRepositoryNotFound e then fail e
         else aseq (op_UpsertInstallation H
                \<lparr>ip_GitHubInstallationID = icp_InstallationID ev,
                 ip_AccountID = acc_ID (icp_RepositoryOwner ev),
                 ip_AccountLogin = acc_Login (icp_RepositoryOwner ev),
                 ip_AccountType = acc_Type (icp_RepositoryOwner ev),
                 ip_Permissions = None, ip_Events = None\<rparr>)
         (abind (awrap ''list installation repositories''
                   (gh_ListInstallationRepositories H (icp_InstallationID ev))) (\<lambda>repos.
          aseq (op_SyncRepositories H (icp_InstallationID ev) repos)
               (op_RepositoryByGitHubID H (icp_RepositoryID ev)))))"

definition activeTaskReply :: "string \<Rightarrow> string" where
  "activeTaskReply tid = ''This issue already has an active task (`'' @ tid @ ''`). ''
     @ ''Cancel it before starting another.''"

definition composeInstructions :: "issueCommentPayload \<Rightarrow> string" where
  "composeInstructions ev =
     truncate_bytes
       (icp_IssueTitle ev @ newline @ newline @ icp_IssueBody ev @ newline @ newline @ ''---''
        @ newline @ ''Triggering comment by @'' @ acc_Login (icp_CommentUser ev) @ '':'' @ newline
        @ newline @ icp_CommentBody ev)
       instructionLimit"

definition issue_task_params :: "issueCommentPayload \<Rightarrow> StoredRepository \<Rightarrow> CreateParams" where
  "issue_task_params ev repo =
     \<lparr>c_Title = truncate_bytes (icp_IssueTitle ev) 500, c_Instructions = composeInstructions ev,
      c_Priority = 0, c_BaseBranch = sr_DefaultBranch repo, c_MaxRuntimeSeconds = None,
      c_MaxCostUSD = None, c_SourceType = ''github_issue'',
      c_SourceIssueNumber = Some (icp_IssueNumber ev), c_SourceCommentID = Some (icp_CommentID ev),
      c_OrganizationID = Some (sr_OrganizationID repo), c_RepositoryID = Some (sr_ID repo),
      c_RequestedByLogin = acc_Login (icp_CommentUser ev)\<rparr>"

definition reply_to ::
  "('m) host_scheme \<Rightarrow> issueCommentPayload \<Rightarrow> StoredRepository \<Rightarrow> string \<Rightarrow> unit action" where
  "reply_to H ev repo body =
     gh_CreateIssueComment H (icp_InstallationID ev) (sr_Owner repo) (sr_Name repo)
       (icp_IssueNumber ev) body"

definition post_active_reply :: "(string \<Rightarrow> unit action) \<Rightarrow> string \<Rightarrow> string action" where
  "post_active_reply reply tid =
     aseq (awrap ''post active-task reply'' (reply (activeTaskReply tid))) (ret ''processed'')"

text \<open>The side effects after the durable task: failures are logged, never unwind the task.\<close>

definition acknowledge_task ::
  "('m) host_scheme \<Rightarrow> issueCommentPayload \<Rightarrow> StoredRepository \<Rightarrow> Task \<Rightarrow> string action" where
  "acknowledge_task H ev repo created =
     abind (atry (gh_BranchHeadSHA H (icp_InstallationID ev) (sr_Owner repo) (sr_Name repo)
              (sr_DefaultBranch repo))) (\<lambda>head.
     aseq (case head of
             Inl e \<Rightarrow> ret ()
           | Inr sha \<Rightarrow> createTriggerCheckRun H (icp_InstallationID ev) repo (t_ID created) sha)
     (abind (atry (reply_to H ev repo (''Agent Trail queued task `'' @ t_ID created
         @ ''` for this issue (requested by @'' @ acc_Login (icp_CommentUser ev) @ ''). The `''
         @ CheckRunName @ ''` check tracks progress.''))) (\<lambda>r.
      aseq (case r of
              Inl e \<Rightarrow> ret ()
            | Inr _ \<Rightarrow> appendTaskEvent H (t_ID created) ''github.comment.posted''
                (JObj [(''issue'', JStr (int_string (icp_IssueNumber ev))),
                       (''kind'', JStr ''task_ack'')]))
      (ret ''processed''))))"

text \<open>Losing a race with a concurrent command on the issue is answered like an active task.\<close>

definition create_issue_task ::
  "('m) host_scheme \<Rightarrow> issueCommentPayload \<Rightarrow> StoredRepository \<Rightarrow> string action" where
  "create_issue_task H ev repo =
     abind (atry (op_Create H (issue_task_params ev repo))) (\<lambda>r.
     case r of
       Inr created \<Rightarrow> acknowledge_task H ev repo created
     | Inl e \<Rightarrow>
         if \<not> err_is ErrActiveTaskExists e then fail (Wrap ''create task'' e)
         else abind (atry (op_ActiveTaskForIssue H (sr_ID repo) (icp_IssueNumber ev))) (\<lambda>again.
           case again of
             Inl e' \<Rightarrow> fail (Wrap ''issue already has an active task; lookup'' e')
           | Inr None \<Rightarrow> fail (Msg ''issue already has an active task; lookup: %!w(<nil>)'')
           | Inr (Some existing) \<Rightarrow> post_active_reply (reply_to H ev repo) (t_ID existing)))"

definition run_command ::
  "('m) host_scheme \<Rightarrow> issueCommentPayload \<Rightarrow> StoredRepository \<Rightarrow> string action" where
  "run_command H ev repo =
     abind (op_ActiveTaskForIssue H (sr_ID repo) (icp_IssueNumber ev)) (\<lambda>active.
     case active of
       Some existing \<Rightarrow> post_active_reply (reply_to H ev repo) (t_ID existing)
     | None \<Rightarrow> create_issue_task H ev repo)"

definition authorized_command ::
  "('m) host_scheme \<Rightarrow> issueCommentPayload \<Rightarrow> StoredRepository \<Rightarrow> Verb \<Rightarrow> string action" where
  "authorized_command H ev repo verb =
     abind (awrap ''collaborator permission''
       (gh_CollaboratorPermission H (icp_InstallationID ev) (sr_Owner repo) (sr_Name repo)
          (acc_Login (icp_CommentUser ev)))) (\<lambda>permission.
     if permission \<noteq> ''admin'' \<and> permission \<noteq> ''write'' then
       aseq (awrap ''post unauthorized reply'' (reply_to H ev repo
              ''Only users with write access can run Agent Trail commands.'')) (ret ''processed'')
     else if verb = VerbRevise then handleRevise H ev repo (reply_to H ev repo)
     else run_command H ev repo)"

definition known_command ::
  "('m) host_scheme \<Rightarrow> issueCommentPayload \<Rightarrow> StoredRepository \<Rightarrow> Verb \<Rightarrow> string action" where
  "known_command H ev repo verb =
     (let onPullRequest = (0 < length (icp_IssuePullRequest ev)) in
      if verb = VerbRun \<and> onPullRequest then
        replyProcessed (reply_to H ev repo)
          (''`/agent-trail run` works on issues, not pull requests. ''
           @ ''Use `/agent-trail revise` on an Agent Trail pull request.'')
      else if verb = VerbRevise \<and> \<not> onPullRequest then
        replyProcessed (reply_to H ev repo)
          (''`/agent-trail revise` works on Agent Trail pull requests, ''
           @ ''not issues. Use `/agent-trail run` on an issue.'')
      else if \<not> sr_IsEnabled repo then
        aseq (awrap ''post disabled reply'' (reply_to H ev repo
               ''This repository is not enabled for Agent Trail.'')) (ret ''processed'')
      else authorized_command H ev repo verb)"

definition handleIssueComment ::
  "('m) host_scheme \<Rightarrow> err + issueCommentPayload \<Rightarrow> string action" where
  "handleIssueComment H p =
     abind (awrap ''parse issue_comment payload'' (lift_sum p)) (\<lambda>ev.
     if icp_Action ev \<noteq> ''created'' then ret ''ignored''
     else if acc_Type (icp_CommentUser ev) = ''Bot'' then ret ''ignored''
     else let cmd = ParseCommand (icp_CommentBody ev) in
     if \<not> Addressed cmd then ret ''ignored''
     else abind (repositoryForCommand H ev) (\<lambda>repo.
     case cmd_Verb cmd of
       None \<Rightarrow> aseq (awrap ''post usage reply'' (reply_to H ev repo commandUsage)) (ret ''processed'')
     | Some verb \<Rightarrow> known_command H ev repo verb))"

section \<open>Pull requests\<close>

definition close_params :: "pullRequestPayload \<Rightarrow> TransitionParams" where
  "close_params ev =
     (let n = int_string (pep_Number ev);
          p = (transition_to StatusCompleted ''system'')
                \<lparr>p_IdempotencyKey := ''pull_request:'' @ n @ '':closed''\<rparr> in
      if pep_Merged ev then p\<lparr>p_Reason := ''pull request #'' @ n @ '' merged''\<rparr>
      else p\<lparr>p_To := StatusCancelled, p_Reason := ''pull request #'' @ n @ '' closed without merge''\<rparr>)"

definition handlePullRequest ::
  "('m) host_scheme \<Rightarrow> err + pullRequestPayload \<Rightarrow> string action" where
  "handlePullRequest H p =
     abind (awrap ''parse pull_request payload'' (lift_sum p)) (\<lambda>ev.
     if pep_Action ev \<noteq> ''closed'' then ret ''ignored''
     else if pep_Number ev \<le> 0 \<or> pep_RepositoryID ev = 0 then
       fail (Msg ''pull_request payload without number or repository id'')
     else if \<not> ValidBranch (pep_HeadRef ev) \<or> pep_HeadRepo ev \<noteq> Some (pep_RepositoryID ev) then
       ret ''ignored''
     else abind (atry (op_RepositoryByGitHubID H (pep_RepositoryID ev))) (\<lambda>r.
     case r of
       Inl e \<Rightarrow> if err_is ErrRepositoryNotFound e then ret ''ignored'' else fail e
     | Inr repo \<Rightarrow>
         abind (op_TaskForBranch H (sr_ID repo) (pep_HeadRef ev)) (\<lambda>found.
         case found of
           None \<Rightarrow> ret ''ignored''
         | Some t \<Rightarrow>
             if Terminal (t_Status t) then ret ''ignored''
             else if t_Phase t \<noteq> PhaseReview then ret ''ignored''
             else abind (atry (op_Transition H (t_ID t) (close_params ev))) (\<lambda>res.
               case res of
                 Inr next \<Rightarrow> ret ''processed''
               | Inl e \<Rightarrow>
                   if invalid_transition e \<noteq> None then ret ''ignored''
                   else fail (Wrap (''finalize task '' @ t_ID t) e)))))"

section \<open>One delivery\<close>

definition handle :: "('m) host_scheme \<Rightarrow> Delivery \<Rightarrow> payload \<Rightarrow> string action" where
  "handle H dl pl =
     (if dl_EventType dl = ''installation'' then handleInstallation H (pl_installation pl)
      else if dl_EventType dl = ''installation_repositories'' then
        handleInstallationRepositories H (pl_installation pl)
      else if dl_EventType dl = ''issue_comment'' then handleIssueComment H (pl_issue_comment pl)
      else if dl_EventType dl = ''pull_request'' then handlePullRequest H (pl_pull_request pl)
      else ret ''ignored'')"

text \<open>The ledger entry is written whatever the handler returned; a panic unwinds past it.\<close>

definition process :: "('m) host_scheme \<Rightarrow> Delivery \<Rightarrow> payload \<Rightarrow> unit action" where
  "process H dl pl =
     abind (atry (handle H dl pl)) (\<lambda>r.
     best_effort (case r of
       Inl e \<Rightarrow> op_MarkDelivery H (dl_ID dl) ''failed'' (err_text e)
     | Inr status \<Rightarrow> op_MarkDelivery H (dl_ID dl) status []))"

text \<open>\<open>Dispatch\<close> recovers a panic of the goroutine.\<close>

definition Dispatch :: "('m) host_scheme \<Rightarrow> Delivery \<Rightarrow> payload \<Rightarrow> unit action" where
  "Dispatch H dl pl = (\<lambda>w. case process H dl pl w of (_, w') \<Rightarrow> (Inr (), w'))"

end
