(* ===== verification/Webhook.thy ===== *)
theory Webhook
  imports Process
begin

text \<open>
  \<open>internal/github/webhook.go\<close>, the endpoint GitHub delivers to, and \<open>checkrun.go\<close>, what the
  cancellation of a task does to its queued check run. The HMAC and the JSON decoder are
  parameters. A response is its status and JSON body.
\<close>

section \<open>The webhook endpoint\<close>

definition maxWebhookBody :: nat where
  "maxWebhookBody = 2 ^ 20"

text \<open>\<open>rq_Broken\<close>: the connection fails after the bytes of \<open>rq_Body\<close>.\<close>

record request =
  rq_Body :: string
  rq_Broken :: bool
  rq_Signature :: string
  rq_DeliveryID :: string
  rq_Event :: string
  rq_TraceID :: string

type_synonym response = "nat \<times> json"

definition error_response :: "nat \<Rightarrow> string \<Rightarrow> response" where
  "error_response code msg = (code, JObj [(''error'', JStr msg)])"

definition status_response :: "nat \<Rightarrow> string \<Rightarrow> response" where
  "status_response code msg = (code, JObj [(''status'', JStr msg)])"

text \<open>\<open>http.MaxBytesReader\<close>: the limit is reported before a failure past it is seen.\<close>

definition read_body :: "request \<Rightarrow> response + string" where
  "read_body r =
     (if maxWebhookBody < length (rq_Body r) then Inl (error_response 413 ''payload too large'')
      else if rq_Broken r then Inl (error_response 400 ''unreadable body'')
      else Inr (rq_Body r))"

definition header_ok :: "string \<Rightarrow> bool" where
  "header_ok s \<longleftrightarrow> s \<noteq> [] \<and> length s \<le> 100"

text \<open>The result is the response and the delivery handed to \<open>Dispatch\<close>, if any.\<close>

definition ServeWebhook ::
  "('m) host_scheme \<Rightarrow> (string \<Rightarrow> string \<Rightarrow> string) \<Rightarrow> string \<Rightarrow> (string \<Rightarrow> payload) \<Rightarrow> request \<Rightarrow>
    (response \<times> (Delivery \<times> payload) option) action" where
  "ServeWebhook H mac secret unmarshal r =
     (case read_body r of
        Inl resp \<Rightarrow> ret (resp, None)
      | Inr body \<Rightarrow>
          if \<not> ValidSignature mac secret body (rq_Signature r) then
            ret (error_response 401 ''invalid signature'', None)
          else if \<not> header_ok (rq_DeliveryID r) \<or> \<not> header_ok (rq_Event r) then
            ret (error_response 400 ''missing delivery headers'', None)
          else let pl = unmarshal body; env = pl_envelope pl in
          abind (atry (op_RecordDelivery H (rq_DeliveryID r) (rq_Event r) (env_Action env)
                   (env_InstallationID env) (env_RepositoryID env))) (\<lambda>res.
          case res of
            Inl e \<Rightarrow> ret (error_response 500 ''delivery not recorded'', None)
          | Inr inserted \<Rightarrow>
              if \<not> inserted then ret (status_response 202 ''duplicate'', None)
              else ret (status_response 202 ''accepted'',
                Some (\<lparr>dl_ID = rq_DeliveryID r, dl_EventType = rq_Event r,
                       dl_Action = env_Action env, dl_TraceID = rq_TraceID r\<rparr>, pl))))"

section \<open>Cancelled tasks\<close>

definition cancelled_check_run :: CheckRunParams where
  "cancelled_check_run = no_check_run\<lparr>crp_Name := CheckRunName, crp_Status := ''completed'',
     crp_Conclusion := ''cancelled'', crp_Title := ''Agent Trail task cancelled'',
     crp_Summary := ''The task was cancelled before it published.''\<rparr>"

text \<open>Every failure only logs: the errors of the chain end it.\<close>

definition TaskCancelled :: "('m) host_scheme \<Rightarrow> Task \<Rightarrow> unit action" where
  "TaskCancelled H t =
     (case t_RepositoryID t of
        None \<Rightarrow> ret ()
      | Some rid \<Rightarrow>
          if t_Status t \<noteq> StatusCancelled then ret ()
          else best_effort (abind (op_Attempts H (t_ID t)) (\<lambda>as.
            if as = [] then ret ()
            else case a_TriggerCheckRunID (last as) of
              None \<Rightarrow> ret ()
            | Some checkRunID \<Rightarrow>
                if a_TriggerCheckRunCompletedAt (last as) \<noteq> None then ret ()
                else abind (op_RepositoryContextByID H rid) (\<lambda>rc.
                aseq (gh_UpdateCheckRun H (rc_InstallationID rc) (sr_Owner rc) (sr_Name rc) checkRunID
                        cancelled_check_run)
                (aseq (op_MarkTriggerCheckRunCompleted H (a_ID (last as)))
                   (op_AppendAttemptEvent H (a_ID (last as)) ''github.check_run.updated'' ''system''
                      (JObj [(''check_run_id'', JInt checkRunID), (''conclusion'', JStr ''cancelled''),
                             (''kind'', JStr ''trigger'')])))))))"

end
