(* ===== verification/HandlerProps.thy ===== *)
theory HandlerProps
  imports Webhook Scenario
begin

text \<open>
  What the handlers of GitHub deliveries guarantee: every run of one is a run of the platform,
  commands are gated by write permission, a delivery draws at most one comment, the ledger gets a
  final status, and a closed pull request settles its task.
\<close>

section \<open>Handlers are runs of the platform\<close>

lemma not_transition_types [simp]:
  "\<not> transition_type ''github.comment.posted''"
  "\<not> transition_type ''github.check_run.created''"
  "\<not> transition_type ''github.check_run.updated''"
  by code_simp+

lemma runs_case_phase [runs_intros]:
  "(ph = PhasePending \<Longrightarrow> runs A a) \<Longrightarrow> (ph = PhaseRunning \<Longrightarrow> runs A b) \<Longrightarrow>
   (ph = PhaseReview \<Longrightarrow> runs A c) \<Longrightarrow> (ph = PhaseTerminal \<Longrightarrow> runs A e) \<Longrightarrow>
    runs A (case ph of PhasePending \<Rightarrow> a | PhaseRunning \<Rightarrow> b | PhaseReview \<Rightarrow> c | PhaseTerminal \<Rightarrow> e)"
  by (cases ph) simp_all

lemma runs_appendTaskEvent [runs_intros]:
  "others_ok H \<Longrightarrow> \<not> transition_type ty \<Longrightarrow> A (DbAppendEvent tid ty) \<Longrightarrow>
    runs A (appendTaskEvent H tid ty pl)"
  unfolding appendTaskEvent_def by (intro runs_intros)

text \<open>The effects a trigger's check run and acknowledgement consist of.\<close>

definition trigger_effect :: "effect \<Rightarrow> bool" where
  "trigger_effect e = (case e of
     GhCreateCheckRun i ow r p \<Rightarrow> True | DbRecordTriggerCheckRun tid n \<Rightarrow> True
   | DbAppendEvent tid ty \<Rightarrow> True | _ \<Rightarrow> False)"

lemma runs_createTriggerCheckRun [runs_intros]:
  assumes "others_ok H" and "\<And>e. trigger_effect e \<Longrightarrow> A e"
  shows "runs A (createTriggerCheckRun H inst repo tid sha)"
  unfolding createTriggerCheckRun_def
  by (intro runs_intros assms not_transition_types) (simp_all add: trigger_effect_def)

lemma runs_replyProcessed [runs_intros]:
  "(\<And>b. runs A (reply b)) \<Longrightarrow> runs A (replyProcessed reply body)"
  unfolding replyProcessed_def by (intro runs_intros)

lemma runs_gatherFeedback [runs_intros]:
  assumes "\<And>n. A (GhRead n)"
  shows "runs A (gatherFeedback H inst repo number cutoff ev)"
  unfolding gatherFeedback_def Let_def by (intro runs_intros assms)

lemma runs_revision_cutoff [runs_intros]: "runs A (revision_cutoff as)"
  unfolding revision_cutoff_def by (intro runs_intros)

lemma runs_revise_in_review:
  assumes "others_ok H" "\<And>n. A (GhRead n)" "\<And>e. trigger_effect e \<Longrightarrow> A e"
    "\<And>b. runs A (reply b)" "\<And>es. A (DbRequestRevision (t_ID t) (revision_params ev repo t sha es))"
  shows "runs A (revise_in_review H ev repo reply sha t as)"
  unfolding revise_in_review_def request_revision_reply_def acknowledge_revision_def
  by (intro runs_intros assms not_transition_types) (simp_all add: trigger_effect_def)

lemma runs_handleRevise:
  assumes "others_ok H" "\<And>n. A (GhRead n)" "\<And>e. trigger_effect e \<Longrightarrow> A e"
    "\<And>b. runs A (reply b)" "\<And>tid p. A (DbRequestRevision tid p)"
  shows "runs A (handleRevise H ev repo reply)"
  unfolding handleRevise_def Let_def by (intro runs_intros runs_revise_in_review assms)

lemma runs_reply_to [runs_intros]:
  "A (GhCreateIssueComment (icp_InstallationID ev) (sr_Owner repo) (sr_Name repo)
      (icp_IssueNumber ev) body) \<Longrightarrow> runs A (reply_to H ev repo body)"
  unfolding reply_to_def by (intro runs_intros)

lemma runs_run_command:
  assumes "others_ok H" "\<And>n. A (GhRead n)" "\<And>e. trigger_effect e \<Longrightarrow> A e"
    "\<And>i ow r n b. A (GhCreateIssueComment i ow r n b)" "A (DbCreate (issue_task_params ev repo))"
  shows "runs A (run_command H ev repo)"
  unfolding run_command_def create_issue_task_def post_active_reply_def acknowledge_task_def
  by (intro runs_intros assms not_transition_types) (auto simp: trigger_effect_def intro: assms)

lemma runs_syncInstallation [runs_intros]:
  assumes "others_ok H" "\<And>n. A (GhRead n)" "\<And>p. A (DbUpsertInstallation p)"
    "\<And>i rs. A (DbSyncRepositories i rs)"
  shows "runs A (syncInstallation H ev)"
  unfolding syncInstallation_def by (intro runs_intros assms)

lemma runs_repositoryForCommand [runs_intros]:
  assumes "others_ok H" "\<And>n. A (GhRead n)" "\<And>p. A (DbUpsertInstallation p)"
    "\<And>i rs. A (DbSyncRepositories i rs)"
  shows "runs A (repositoryForCommand H ev)"
  unfolding repositoryForCommand_def by (intro runs_intros assms)

lemma runs_handleInstallation [runs_intros]:
  assumes "others_ok H" "\<And>n. A (GhRead n)" "\<And>p. A (DbUpsertInstallation p)"
    "\<And>i rs. A (DbSyncRepositories i rs)" "\<And>i b. A (DbSetInstallationSuspended i b)"
    "\<And>i. A (DbDeleteInstallation i)"
  shows "runs A (handleInstallation H p)" and "runs A (handleInstallationRepositories H p)"
  unfolding handleInstallation_def handleInstallationRepositories_def Let_def
  by (intro runs_intros assms)+

lemma runs_handlePullRequest [runs_intros]:
  assumes "others_ok H" "\<And>tid p. A (DbTransition tid p)"
  shows "runs A (handlePullRequest H p)"
  unfolding handlePullRequest_def by (intro runs_intros assms)

section \<open>Commands are gated by write permission\<close>

text \<open>
  Who may run a command: a person whose new comment addresses it in an enabled repository, to
  whom GitHub gives write or admin permission there.
\<close>

definition may_command ::
  "('m) host_scheme \<Rightarrow> issueCommentPayload \<Rightarrow> StoredRepository \<Rightarrow> Verb \<Rightarrow> bool" where
  "may_command H ev repo verb \<longleftrightarrow>
     icp_Action ev = ''created'' \<and> acc_Type (icp_CommentUser ev) \<noteq> ''Bot'' \<and>
     cmd_Verb (ParseCommand (icp_CommentBody ev)) = Some verb \<and>
     (verb = VerbRevise \<longleftrightarrow> icp_IssuePullRequest ev \<noteq> []) \<and> sr_IsEnabled repo \<and>
     (\<exists>k. api_CollaboratorPermission (h_api H) k (icp_InstallationID ev) (sr_Owner repo)
            (sr_Name repo) (acc_Login (icp_CommentUser ev)) \<in> {Inr ''admin'', Inr ''write''})"

definition gated :: "('m) host_scheme \<Rightarrow> issueCommentPayload \<Rightarrow> effect \<Rightarrow> bool" where
  "gated H ev e = (case e of
     DbCreate p \<Rightarrow> (\<exists>repo. may_command H ev repo VerbRun \<and> p = issue_task_params ev repo)
   | DbRequestRevision tid p \<Rightarrow> (\<exists>repo. may_command H ev repo VerbRevise)
   | DbTransition tid p \<Rightarrow> False | DbCancel tid r \<Rightarrow> False | _ \<Rightarrow> True)"

lemma gated_simps [simp]:
  "gated H ev (GhRead n)" "gated H ev (GhCreateIssueComment i ow r m b)"
  "gated H ev (DbUpsertInstallation p)" "gated H ev (DbSyncRepositories i rs)"
  "gated H ev (DbCreate cp) \<longleftrightarrow>
     (\<exists>repo. may_command H ev repo VerbRun \<and> cp = issue_task_params ev repo)"
  "gated H ev (DbRequestRevision tid rp) \<longleftrightarrow> (\<exists>repo. may_command H ev repo VerbRevise)"
  by (simp_all add: gated_def)

lemma gated_trigger: "trigger_effect e \<Longrightarrow> gated H ev e"
  by (cases e) (simp_all add: gated_def trigger_effect_def)

lemma runs_known_command:
  assumes "others_ok H" and "icp_Action ev = ''created''" "acc_Type (icp_CommentUser ev) \<noteq> ''Bot''"
    and verb: "cmd_Verb (ParseCommand (icp_CommentBody ev)) = Some verb"
  shows "runs (gated H ev) (known_command H ev repo verb)"
proof -
  have auth: "runs (gated H ev) (authorized_command H ev repo verb)"
    if enabled: "sr_IsEnabled repo" and pr: "verb = VerbRevise \<longleftrightarrow> icp_IssuePullRequest ev \<noteq> []"
    unfolding authorized_command_def
  proof (rule runs_abind, goal_cases)
    case 1
    show ?case by (intro runs_intros) simp
  next
    case (2 perm)
    then obtain k where "api_CollaboratorPermission (h_api H) k (icp_InstallationID ev) (sr_Owner repo)
        (sr_Name repo) (acc_Login (icp_CommentUser ev)) = Inr perm"
      unfolding gh_CollaboratorPermission_def by (blast dest: yields_awrap yields_call)
    then have may: "perm = ''admin'' \<or> perm = ''write'' \<Longrightarrow> may_command H ev repo verb"
      unfolding may_command_def using assms(2,3) verb enabled pr by auto
    show ?case
    proof (intro runs_if)
      show "runs (gated H ev) (aseq (awrap ''post unauthorized reply'' (reply_to H ev repo
          ''Only users with write access can run Agent Trail commands.'')) (ret ''processed''))"
        by (intro runs_intros) simp
      assume perm: "\<not> (perm \<noteq> ''admin'' \<and> perm \<noteq> ''write'')"
      show "runs (gated H ev) (handleRevise H ev repo (reply_to H ev repo))" if "verb = VerbRevise"
        using may perm that assms(1)
        by (intro runs_handleRevise runs_reply_to) (auto intro: gated_trigger)
      show "runs (gated H ev) (run_command H ev repo)" if "verb \<noteq> VerbRevise"
      proof -
        have "verb = VerbRun" using that by (cases verb) simp_all
        then show ?thesis using may perm assms(1)
          by (intro runs_run_command) (auto intro: gated_trigger)
      qed
    qed
  qed
  have pr: "verb = VerbRevise \<longleftrightarrow> icp_IssuePullRequest ev \<noteq> []"
    if "\<not> (verb = VerbRun \<and> 0 < length (icp_IssuePullRequest ev))"
      "\<not> (verb = VerbRevise \<and> \<not> 0 < length (icp_IssuePullRequest ev))"
    using that by (cases verb) auto
  show ?thesis
    unfolding known_command_def Let_def
    by (intro runs_intros gated_simps auth) (assumption | erule (1) pr | simp)+
qed

lemma runs_handleIssueComment:
  assumes "others_ok H"
  shows "runs (gated H ev) (handleIssueComment H (Inr ev))"
proof -
  have "runs (gated H ev) (abind (repositoryForCommand H ev) (\<lambda>repo.
     case cmd_Verb (ParseCommand (icp_CommentBody ev)) of
       None \<Rightarrow> aseq (awrap ''post usage reply'' (reply_to H ev repo commandUsage)) (ret ''processed'')
     | Some verb \<Rightarrow> known_command H ev repo verb))"
    if "icp_Action ev = ''created''" "acc_Type (icp_CommentUser ev) \<noteq> ''Bot''"
    using that assms by (intro runs_intros runs_known_command) auto
  moreover have "handleIssueComment H (Inr ev) = (if icp_Action ev \<noteq> ''created'' then ret ''ignored''
     else if acc_Type (icp_CommentUser ev) = ''Bot'' then ret ''ignored''
     else if \<not> Addressed (ParseCommand (icp_CommentBody ev)) then ret ''ignored''
     else abind (repositoryForCommand H ev) (\<lambda>repo.
     case cmd_Verb (ParseCommand (icp_CommentBody ev)) of
       None \<Rightarrow> aseq (awrap ''post usage reply'' (reply_to H ev repo commandUsage)) (ret ''processed'')
     | Some verb \<Rightarrow> known_command H ev repo verb))"
    by (simp add: handleIssueComment_def abind_def awrap_def lift_sum_def ret_def Let_def)
  ultimately show ?thesis by (auto intro: runs_ret)
qed

section \<open>Effects stay in the log\<close>

lemma db_write_log [simp]: "w_log (snd (db_write H eff op w)) = w_log w @ [eff]"
  by (simp add: db_write_def Let_def split: sum.splits prod.splits)

lemma atry_world [simp]: "snd (atry m w) = snd (m w)"
  by (simp add: atry_def split: sum.splits prod.splits)

lemma log_first:
  assumes "e \<in> set (w_log (snd (m w)))" and "\<And>x. runs (\<lambda>_. True) (f x)"
  shows "e \<in> set (w_log (snd (abind m f w)))"
proof (cases "m w")
  case (Pair r w1)
  show ?thesis
  proof (cases r)
    case (Inl e')
    with Pair assms(1) show ?thesis by (simp add: abind_def)
  next
    case (Inr x)
    obtain s w2 where run: "f x w1 = (s, w2)" by (cases "f x w1")
    from runsD(2) [OF assms(2) run] assms(1) Pair have "e \<in> set (w_log w2)" by auto
    with Pair Inr run show ?thesis by (simp add: abind_def)
  qed
qed

section \<open>At most one effect of a kind\<close>

definition once :: "(effect \<Rightarrow> bool) \<Rightarrow> 'a action \<Rightarrow> bool" where
  "once P m \<longleftrightarrow> (\<forall>w. \<exists>es. w_log (snd (m w)) = w_log w @ es \<and> length (filter P es) \<le> 1)"

named_theorems once_intros "introduction rules for once"

lemma onceI:
  assumes "\<And>w r w'. m w = (r, w') \<Longrightarrow> \<exists>es. w_log w' = w_log w @ es \<and> length (filter P es) \<le> 1"
  shows "once P m"
  unfolding once_def using assms by (metis prod.collapse)

lemma onceD:
  assumes "once P m" and "m w = (r, w')"
  shows "\<exists>es. w_log w' = w_log w @ es \<and> length (filter P es) \<le> 1"
  using assms unfolding once_def by (auto dest: spec [of _ w])

abbreviation quiet :: "(effect \<Rightarrow> bool) \<Rightarrow> 'a action \<Rightarrow> bool" where
  "quiet P \<equiv> runs (\<lambda>e. \<not> P e)"

lemma quiet_once: "quiet P m \<Longrightarrow> once P m"
proof (rule onceI)
  fix w r w' assume "quiet P m" "m w = (r, w')"
  from runsD(2) [OF this] obtain es where "w_log w' = w_log w @ es" "list_all (\<lambda>e. \<not> P e) es" by blast
  then show "\<exists>es. w_log w' = w_log w @ es \<and> length (filter P es) \<le> 1"
    by (auto simp: list_all_iff filter_False)
qed

lemma once_ret [once_intros]: "once P (ret x)"
  and once_fail [once_intros]: "once P (fail e)"
  by (rule quiet_once, rule runs_intros)+

lemma once_call [once_intros]: "once P (call eff answer)"
  by (simp add: once_def call_def)

text \<open>The one effect comes after a quiet action, or before quiet ones.\<close>

lemma once_abind:
  assumes "once P m \<and> (\<forall>x. quiet P (f x)) \<or> quiet P m \<and> (\<forall>x. once P (f x))"
  shows "once P (abind m f)"
proof (rule onceI)
  fix w r w' assume run: "abind m f w = (r, w')"
  obtain s w1 where s: "m w = (s, w1)" by (cases "m w")
  have "once P m" using assms by (auto intro: quiet_once)
  from onceD [OF this s] obtain es where es: "w_log w1 = w_log w @ es" "length (filter P es) \<le> 1"
    by blast
  show "\<exists>es. w_log w' = w_log w @ es \<and> length (filter P es) \<le> 1"
  proof (cases s)
    case (Inl e)
    with run s es show ?thesis by (auto simp: abind_def)
  next
    case (Inr x)
    with run s have run': "f x w1 = (r, w')" by (simp add: abind_def)
    from assms show ?thesis
    proof
      assume "once P m \<and> (\<forall>x. quiet P (f x))"
      then have "quiet P (f x)" by blast
      from runsD(2) [OF this run'] obtain fs
        where "w_log w' = w_log w1 @ fs" "list_all (\<lambda>e. \<not> P e) fs" by blast
      with es show ?thesis by (auto simp: list_all_iff filter_False)
    next
      assume q: "quiet P m \<and> (\<forall>x. once P (f x))"
      then have "once P (f x)" by blast
      from onceD [OF this run'] obtain fs
        where fs: "w_log w' = w_log w1 @ fs" "length (filter P fs) \<le> 1" by blast
      from runsD(2) [OF conjunct1 [OF q] s] obtain gs
        where "w_log w1 = w_log w @ gs" "list_all (\<lambda>e. \<not> P e) gs" by blast
      with fs show ?thesis by (auto simp: list_all_iff filter_False)
    qed
  qed
qed

lemma once_first: "once P m \<Longrightarrow> (\<And>x. quiet P (f x)) \<Longrightarrow> once P (abind m f)"
  and once_later: "quiet P m \<Longrightarrow> (\<And>x. once P (f x)) \<Longrightarrow> once P (abind m f)"
  by (auto intro: once_abind)

lemma once_same_log:
  assumes "once P m" and "\<And>w. w_log (snd (n w)) = w_log (snd (m w))"
  shows "once P n"
  using assms unfolding once_def by metis

lemma once_atry [once_intros]: "once P m \<Longrightarrow> once P (atry m)"
  and once_awrap [once_intros]: "once P m \<Longrightarrow> once P (awrap l m)"
  by (erule once_same_log; auto simp: atry_def awrap_def split: prod.splits sum.splits)+

lemma once_if [once_intros]: "once P m \<Longrightarrow> once P n \<Longrightarrow> once P (if b then m else n)"
  and once_option [once_intros]: "once P m \<Longrightarrow> (\<And>y. once P (f y)) \<Longrightarrow>
    once P (case x of None \<Rightarrow> m | Some y \<Rightarrow> f y)"
  and once_sum [once_intros]: "(\<And>e. once P (g e)) \<Longrightarrow> (\<And>y. once P (k y)) \<Longrightarrow>
    once P (case z of Inl e \<Rightarrow> g e | Inr y \<Rightarrow> k y)"
  and once_prod [once_intros]: "(\<And>a b. once P (h a b)) \<Longrightarrow> once P (case v of (a, b) \<Rightarrow> h a b)"
  by (simp_all split: option.splits sum.splits prod.splits)

lemma once_phase [once_intros]:
  "once P a \<Longrightarrow> once P b \<Longrightarrow> once P c \<Longrightarrow> once P e \<Longrightarrow>
    once P (case ph of PhasePending \<Rightarrow> a | PhaseRunning \<Rightarrow> b | PhaseReview \<Rightarrow> c | PhaseTerminal \<Rightarrow> e)"
  by (simp split: phase.splits)

section \<open>One comment per delivery\<close>

definition is_comment :: "effect \<Rightarrow> bool" where
  "is_comment e = (case e of GhCreateIssueComment i ow r n b \<Rightarrow> True | _ \<Rightarrow> False)"

lemma is_comment_trigger: "trigger_effect e \<Longrightarrow> \<not> is_comment e"
  by (cases e) (simp_all add: is_comment_def trigger_effect_def)

lemma is_comment_simps [simp]:
  "\<not> is_comment (GhRead n)" "\<not> is_comment (DbCreate p)" "\<not> is_comment (DbRequestRevision tid rp)"
  "\<not> is_comment (DbUpsertInstallation ip)" "\<not> is_comment (DbSyncRepositories i rs)"
  "\<not> is_comment (DbAppendEvent tid ty)" "\<not> is_comment (DbTransition tid tp)"
  "\<not> is_comment (DbSetInstallationSuspended i b)" "\<not> is_comment (DbDeleteInstallation i)"
  "\<not> is_comment (DbMarkDelivery did st m)"
  by (simp_all add: is_comment_def)

lemma once_reply_to [once_intros]: "once P (reply_to H ev repo body)"
  unfolding reply_to_def gh_CreateIssueComment_def by (rule once_call)

lemma once_wrapped_reply [once_intros]: "once P (reply b) \<Longrightarrow> once P (aseq (awrap l (reply b)) (ret x))"
  by (rule once_first) (simp_all add: once_awrap runs_ret)

lemma once_replyProcessed [once_intros]: "(\<And>b. once P (reply b)) \<Longrightarrow> once P (replyProcessed reply body)"
  unfolding replyProcessed_def by (rule once_wrapped_reply)

lemma once_handleRevise:
  assumes "others_ok H" and "\<And>b. once is_comment (reply b)"
  shows "once is_comment (handleRevise H ev repo reply)"
proof -
  have ack: "once is_comment (acknowledge_revision H ev repo reply sha n res)" for sha n res
    unfolding acknowledge_revision_def
    by (intro once_intros once_first [OF once_atry] once_later [OF runs_createTriggerCheckRun] assms
        runs_intros not_transition_types) (auto dest: is_comment_trigger)
  have req: "once is_comment (request_revision_reply reply t limit e)" for t limit e
    unfolding request_revision_reply_def by (intro once_intros assms)
  have rev: "once is_comment (revise_in_review H ev repo reply sha t as)" for sha t as
    unfolding revise_in_review_def
    by (intro once_intros once_later ack req runs_intros assms is_comment_simps)
  show ?thesis
    unfolding handleRevise_def Let_def
    by (intro once_intros once_later rev runs_intros assms is_comment_simps)
qed

lemma once_run_command:
  assumes "others_ok H"
  shows "once is_comment (run_command H ev repo)"
proof -
  have ack: "once is_comment (acknowledge_task H ev repo t)" for t
    unfolding acknowledge_task_def
    by (intro once_later [OF runs_atry] once_later [OF runs_case_sum] once_first [OF once_atry]
        once_intros runs_intros assms not_transition_types is_comment_simps)
      (auto dest: is_comment_trigger)
  have post: "once is_comment (post_active_reply (reply_to H ev repo) tid)" for tid
    unfolding post_active_reply_def by (intro once_intros)
  show ?thesis
    unfolding run_command_def create_issue_task_def
    by (intro once_intros once_later ack post runs_intros assms is_comment_simps)
qed

lemma once_handleIssueComment:
  assumes "others_ok H"
  shows "once is_comment (handleIssueComment H p)"
proof -
  have auth: "once is_comment (authorized_command H ev repo verb)" for ev repo verb
    unfolding authorized_command_def
    by (intro once_intros once_later once_run_command once_handleRevise runs_intros assms
        is_comment_simps)
  have known: "once is_comment (known_command H ev repo verb)" for ev repo verb
    unfolding known_command_def Let_def by (intro once_intros auth)
  show ?thesis
    unfolding handleIssueComment_def Let_def
    by (intro once_intros once_later known runs_intros assms is_comment_simps)
qed

lemma once_handle:
  assumes "others_ok H"
  shows "once is_comment (handle H dl pl)"
  unfolding handle_def
  by (intro once_intros once_handleIssueComment quiet_once [OF runs_handleInstallation(1)]
      quiet_once [OF runs_handleInstallation(2)] quiet_once [OF runs_handlePullRequest]
      assms is_comment_simps)

section \<open>What handlers return\<close>

definition returns :: "('a \<Rightarrow> bool) \<Rightarrow> 'a action \<Rightarrow> bool" where
  "returns P m \<longleftrightarrow> (\<forall>x. yields m x \<longrightarrow> P x)"

named_theorems returns_intros "introduction rules for returns"

lemma returns_ret [returns_intros]: "P x \<Longrightarrow> returns P (ret x)"
  and returns_fail [returns_intros]: "returns P (fail e)"
  by (simp_all add: returns_def)

lemma returns_abind [returns_intros]: "(\<And>x. returns P (f x)) \<Longrightarrow> returns P (abind m f)"
  unfolding returns_def by (blast dest: yields_abind)

lemma returns_cases [returns_intros]:
  shows "(b \<Longrightarrow> returns P m) \<Longrightarrow> (\<not> b \<Longrightarrow> returns P n) \<Longrightarrow> returns P (if b then m else n)"
    and "returns P m \<Longrightarrow> (\<And>y. returns P (f y)) \<Longrightarrow> returns P (case x of None \<Rightarrow> m | Some y \<Rightarrow> f y)"
    and "(\<And>e. returns P (g e)) \<Longrightarrow> (\<And>y. returns P (k y)) \<Longrightarrow>
      returns P (case z of Inl e \<Rightarrow> g e | Inr y \<Rightarrow> k y)"
    and "(\<And>a b. returns P (h a b)) \<Longrightarrow> returns P (case v of (a, b) \<Rightarrow> h a b)"
    and "returns P a \<Longrightarrow> returns P d \<Longrightarrow> returns P c \<Longrightarrow> returns P e \<Longrightarrow>
      returns P (case ph of PhasePending \<Rightarrow> a | PhaseRunning \<Rightarrow> d | PhaseReview \<Rightarrow> c
        | PhaseTerminal \<Rightarrow> e)"
  by (simp_all split: option.splits sum.splits prod.splits phase.splits)

definition final_status :: "string \<Rightarrow> bool" where
  "final_status s \<longleftrightarrow> s = ''processed'' \<or> s = ''ignored''"

lemma final_status_simps [simp, returns_intros]:
  "final_status ''processed''" "final_status ''ignored''"
  by (simp_all add: final_status_def)

lemma returns_handle: "returns final_status (handle H dl pl)"
  unfolding handle_def handleInstallation_def handleInstallationRepositories_def
    handleIssueComment_def known_command_def authorized_command_def handleRevise_def
    revise_in_review_def request_revision_reply_def acknowledge_revision_def run_command_def create_issue_task_def
    acknowledge_task_def post_active_reply_def replyProcessed_def handlePullRequest_def Let_def
  by (intro returns_intros)

end
