(* ===== verification/DeliveryProps.thy ===== *)
theory DeliveryProps
  imports HandlerProps TaskProps
begin

text \<open>
  The properties of the webhook endpoint and the delivery handlers, with a concrete host for their
  witnesses.
\<close>

section \<open>A concrete host\<close>

text \<open>The GitHub API answers every call and gives everybody write permission.\<close>

definition demo_api :: github_api where
  "demo_api = \<lparr>api_ListInstallationRepositories = (\<lambda>k i. Inr []),
     api_CollaboratorPermission = (\<lambda>k i ow r u. Inr ''write''),
     api_BranchHeadSHA = (\<lambda>k i ow r b. Inr demo_sha),
     api_CreateIssueComment = (\<lambda>k i ow r n b. Inr ()),
     api_CreateCheckRun = (\<lambda>k i ow r p. Inr 9),
     api_UpdateCheckRun = (\<lambda>k i ow r c p. Inr ()),
     api_ListCheckRuns = (\<lambda>k i ow r ref n. Inr []),
     api_GetPullRequest = (\<lambda>k i ow r n. Inl (Msg ''none'')),
     api_FindPullRequestByHead = (\<lambda>k i ow r ho b. Inr None),
     api_CreateDraftPullRequest = (\<lambda>k i ow r p. Inl (Msg ''none'')),
     api_UpdatePullRequestBody = (\<lambda>k i ow r n b. Inr ()),
     api_ListPullRequestReviews = (\<lambda>k i ow r n. Inr []),
     api_ListPullRequestReviewComments = (\<lambda>k i ow r n s. Inr []),
     api_ListIssueComments = (\<lambda>k i ow r n s. Inr [])\<rparr>"

text \<open>Generated ids are uuids; the clock advances with every operation.\<close>

definition demo_uuid :: "nat \<Rightarrow> string" where
  "demo_uuid n = ''00000000-0000-4000-8000-0000000000'' @ [CHR ''1'', char_of (48 + n)]"

definition demo_host :: host where
  "demo_host = \<lparr>h_env = (\<lambda>k. (demo_env (int k))\<lparr>env_uuid := demo_uuid\<rparr>), h_others = (\<lambda>k d. d),
     h_api = demo_api, h_lower = (\<lambda>r. r), h_other_records = (\<lambda>k r. r)\<rparr>"

lemma demo_others_ok [simp]: "others_ok demo_host"
  by (simp add: others_ok_def demo_host_def)

definition demo_world :: "db \<Rightarrow> world" where
  "demo_world d = \<lparr>w_db = d, w_ops = 0, w_log = [], w_records = no_records, w_lost = False\<rparr>"

lemma demo_world_simps [simp]:
  "w_db (demo_world d) = d" "w_log (demo_world d) = []" "w_ops (demo_world d) = 0"
  by (simp_all add: demo_world_def)

definition demo_comment :: issueCommentPayload where
  "demo_comment = \<lparr>icp_Action = ''created'', icp_CommentID = 11,
     icp_CommentBody = ''/agent-trail run'', icp_CommentCreatedAt = 0,
     icp_CommentUser = \<lparr>acc_ID = 3, acc_Login = ''bob'', acc_Type = ''User''\<rparr>, icp_IssueNumber = 8,
     icp_IssueTitle = ''Fix'', icp_IssueBody = ''it'', icp_IssuePullRequest = [],
     icp_RepositoryID = 5,
     icp_RepositoryOwner = \<lparr>acc_ID = 1, acc_Login = ''acme'', acc_Type = ''User''\<rparr>,
     icp_InstallationID = 2\<rparr>"

definition demo_stored :: StoredRepository where
  "demo_stored = \<lparr>sr_ID = demo_repo, sr_OrganizationID = ''o'', sr_GitHubRepositoryID = 5,
     sr_Owner = ''acme'', sr_Name = ''api'', sr_FullName = ''acme/api'', sr_DefaultBranch = ''main'',
     sr_CloneURL = ''u'', sr_IsEnabled = True, sr_Settings = Defaults\<rparr>"

lemma demo_lookups:
  "RepositoryByGitHubID (h_env demo_host 0) 5 demo_issue = Inr demo_stored"
  "ActiveTaskForIssue (h_env demo_host 2) demo_repo 8 demo_issue = Inr None"
  "ParseCommand ''/agent-trail run'' = \<lparr>Known = True, Addressed = True, cmd_Verb = Some VerbRun\<rparr>"
  by code_simp+

lemma demo_others [simp]: "h_others demo_host k d = d"
  by (simp add: demo_host_def)

lemmas action_defs = abind_def ret_def fail_def atry_def awrap_def lift_sum_def db_read_def
  db_write_def call_def best_effort_def

lemma demo_permission [simp]:
  "api_CollaboratorPermission (h_api demo_host) k i ow r u = Inr ''write''"
  by (simp add: demo_host_def demo_api_def)

text \<open>The command of \<open>demo_comment\<close> passes the gate and creates its task.\<close>

lemma demo_gate:
  "handleIssueComment demo_host (Inr demo_comment) (demo_world demo_issue) =
    run_command demo_host demo_comment demo_stored
      \<lparr>w_db = demo_issue, w_ops = 2, w_log = [GhRead ''CollaboratorPermission''],
        w_records = no_records, w_lost = False\<rparr>"
  using demo_lookups
  by (simp add: handleIssueComment_def demo_comment_def demo_world_def action_defs
      repositoryForCommand_def read_defs known_command_def authorized_command_def
      gh_CollaboratorPermission_def Let_def)
    (simp add: demo_stored_def numeral_2_eq_2)

lemma demo_run_creates:
  "DbCreate (issue_task_params demo_comment demo_stored) \<in>
     set (w_log (snd (handleIssueComment demo_host (Inr demo_comment) (demo_world demo_issue))))"
proof -
  let ?w = "\<lparr>w_db = demo_issue, w_ops = 2, w_log = [GhRead ''CollaboratorPermission''],
        w_records = no_records, w_lost = False\<rparr>"
  have "op_ActiveTaskForIssue demo_host (sr_ID demo_stored) (icp_IssueNumber demo_comment) ?w
      = (Inr None, ?w\<lparr>w_ops := 3\<rparr>)"
    using demo_lookups(2) by (simp add: read_defs db_read_def demo_stored_def demo_comment_def)
  then have "run_command demo_host demo_comment demo_stored ?w
      = create_issue_task demo_host demo_comment demo_stored (?w\<lparr>w_ops := 3\<rparr>)"
    by (simp add: run_command_def abind_def)
  moreover have "DbCreate (issue_task_params demo_comment demo_stored)
      \<in> set (w_log (snd (create_issue_task demo_host demo_comment demo_stored (?w\<lparr>w_ops := 3\<rparr>))))"
    unfolding create_issue_task_def
    by (rule log_first)
      (simp add: op_Create_def, unfold acknowledge_task_def post_active_reply_def,
        intro runs_intros not_transition_types demo_others_ok TrueI)
  ultimately show ?thesis unfolding demo_gate by simp
qed

section \<open>Deliveries and the platform\<close>

lemma runs_handle:
  assumes "others_ok H"
  shows "runs (\<lambda>_. True) (handle H dl pl)"
proof -
  have comment: "runs (\<lambda>_. True) (handleIssueComment H p)" for p
  proof (cases p)
    case (Inl e)
    then show ?thesis
      by (simp add: handleIssueComment_def runs_def action_defs)
  next
    case (Inr ev)
    show ?thesis unfolding Inr by (rule runs_mono [OF runs_handleIssueComment [OF assms]]) simp
  qed
  show ?thesis
    unfolding handle_def by (intro runs_intros comment assms TrueI)
qed

lemma runs_process: "others_ok H \<Longrightarrow> runs (\<lambda>_. True) (process H dl pl)"
  unfolding process_def by (intro runs_intros runs_handle TrueI)


definition demo_delivery :: Delivery where
  "demo_delivery = \<lparr>dl_ID = ''d1'', dl_EventType = ''issue_comment'', dl_Action = ''created'',
     dl_TraceID = []\<rparr>"

definition demo_payload :: "issueCommentPayload \<Rightarrow> payload" where
  "demo_payload ev = \<lparr>pl_installation = Inl (Msg ''type''), pl_issue_comment = Inr ev,
     pl_pull_request = Inl (Msg ''type''),
     pl_envelope = \<lparr>env_Action = ''created'', env_InstallationID = 2, env_RepositoryID = 5\<rparr>\<rparr>"



text \<open>The witness: one task is asked for, and none where the same author may only read.\<close>

definition read_host :: host where
  "read_host = demo_host\<lparr>h_api := demo_api\<lparr>api_CollaboratorPermission := (\<lambda>k i ow r u. Inr ''read'')\<rparr>\<rparr>"

lemma read_host_ok [simp]: "others_ok read_host" and may_not_read: "\<not> may_command read_host ev repo v"
  by (simp_all add: others_ok_def read_host_def demo_host_def may_command_def)


text \<open>
  A delivery draws at most one comment, whatever the answers, the faults and the interleaving:
  the replies of the guards, the acknowledgement and the usage text exclude each other.
\<close>

theorem one_comment_per_delivery:
  assumes "others_ok H" and "process H dl pl w = (r, w')"
  shows "\<exists>es. w_log w' = w_log w @ es \<and> length (filter is_comment es) \<le> 1"
proof -
  have "once is_comment (process H dl pl)"
    unfolding process_def best_effort_def
    by (intro once_first [OF once_atry [OF once_handle]] runs_intros assms(1) is_comment_simps)
  from onceD [OF this assms(2)] show ?thesis .
qed

theorem one_comment_per_delivery_witness:
  "length (filter is_comment
     (w_log (snd (process demo_host demo_delivery (demo_payload demo_comment) (demo_world demo_issue)))))
   \<le> 1"
proof -
  obtain r w' where run: "process demo_host demo_delivery (demo_payload demo_comment)
      (demo_world demo_issue) = (r, w')"
    by (cases "process demo_host demo_delivery (demo_payload demo_comment) (demo_world demo_issue)")
  from one_comment_per_delivery [OF demo_others_ok run] show ?thesis by (auto simp: run)
qed

section \<open>The ledger of deliveries\<close>

definition delivery_status :: "db \<Rightarrow> string \<Rightarrow> string option" where
  "delivery_status d did =
     map_option d_ProcessingStatus (find (\<lambda>v. d_DeliveryID v = did) (deliveries d))"

lemma delivery_known_mono:
  assumes "db_le d d'" and "did \<in> set (map d_DeliveryID (deliveries d))"
  shows "did \<in> set (map d_DeliveryID (deliveries d'))"
proof -
  from assms(2) obtain v where v: "v \<in> set (deliveries d)" "d_DeliveryID v = did" by auto
  have "table_le delivery_le (deliveries d) (deliveries d')"
    using assms(1) by (simp add: db_le_def)
  from table_le_member [OF this v(1)] obtain u where "u \<in> set (deliveries d')" "delivery_le v u"
    by blast
  with v(2) show ?thesis by (auto simp: delivery_le_def intro: image_eqI [of _ _ u])
qed

text \<open>The update of \<open>MarkDelivery\<close> is accepted where its status and message fit.\<close>

lemma MarkDelivery_succeeds:
  assumes ff: "fault_free E" and ok: "schema_ok d"
    and st: "st \<in> {''processed'', ''ignored'', ''failed''}"
    and msg: "null_or (text_between 1 10000) (nullif_empty (GithubStore.truncate msg 10000))"
    and known: "did \<in> set (map d_DeliveryID (deliveries d))"
  shows "\<exists>d'. MarkDelivery E did st msg d = Inr d' \<and> delivery_status d' did = Some st"
proof -
  let ?f = "\<lambda>v. v\<lparr>d_ProcessingStatus := st, d_ProcessedAt := Some (env_now E),
                   d_FailureMessage := nullif_empty (GithubStore.truncate msg 10000)\<rparr>"
  let ?vs = "update_where (\<lambda>v. d_DeliveryID v = did) ?f (deliveries d)"
  have rows: "list_all delivery_row_ok (deliveries d)"
    and ids: "distinct (map d_DeliveryID (deliveries d))"
    using ok by (simp_all add: schema_ok_iff github_constraints_def)
  have "delivery_row_ok (?f v)" if "delivery_row_ok v" for v
    using that st msg by (auto simp: delivery_row_ok_def)
  then have "list_all delivery_row_ok ?vs"
    using rows by (auto simp: list_all_iff in_update_where_iff)
  moreover have "map d_DeliveryID ?vs = map d_DeliveryID (deliveries d)"
    by (rule map_update_where) simp
  ultimately have "schema_ok (d\<lparr>deliveries := ?vs\<rparr>)"
    using ok ids by (simp add: schema_ok_iff github_constraints_def task_constraints_def
        attempt_constraints_def event_constraints_def runner_constraints_def)
  moreover from known obtain v where "find (\<lambda>v. d_DeliveryID v = did) (deliveries d) = Some v"
    by (cases "find (\<lambda>v. d_DeliveryID v = did) (deliveries d)") (auto simp: find_None_iff')
  ultimately show ?thesis
    using ff find_SomeD [of "\<lambda>v. d_DeliveryID v = did" "deliveries d" v]
    by (auto simp: MarkDelivery_def exec_fault_free delivery_status_def find_update_where)
qed

text \<open>
  C32. No delivery stays pending: once its handler has returned, with a status or with an error, the
  ledger holds the final status of the delivery, unless the handler panicked, the driver failed
  the update itself, or the error's text is one Postgres does not store.
\<close>

theorem delivery_gets_final_status:
  assumes others: "others_ok H" and inv: "db_inv (w_db w)"
    and known: "dl_ID dl \<in> set (map d_DeliveryID (deliveries (w_db w)))"
    and handled: "handle H dl pl w = (res, w1)" and calm: "\<And>e. res = Inl e \<Longrightarrow> \<not> panics e"
    and ff: "fault_free (h_env H (w_ops w1))"
    and msg: "\<And>e. res = Inl e \<Longrightarrow>
      null_or (text_between 1 10000) (nullif_empty (GithubStore.truncate (err_text e) 10000))"
  shows "delivery_status (w_db (snd (Dispatch H dl pl w))) (dl_ID dl) =
    Some (case res of Inr status \<Rightarrow> status | Inl e \<Rightarrow> ''failed'')
    \<and> (case res of Inr status \<Rightarrow> final_status status | Inl e \<Rightarrow> True)"
proof -
  let ?st = "case res of Inr status \<Rightarrow> status | Inl e \<Rightarrow> ''failed''"
  let ?msg = "case res of Inr status \<Rightarrow> [] | Inl e \<Rightarrow> err_text e"
  let ?d = "h_others H (w_ops w1) (w_db w1)"
  have fin: "final_status x" if "res = Inr x" for x
    using returns_handle [of H dl pl] handled that by (auto simp: returns_def yields_def)
  have le: "db_le (w_db w) (w_db w1)" and inv1: "db_inv (w_db w1)"
    using runs_le [OF runs_handle [OF others] inv handled]
      runs_inv [OF runs_handle [OF others] inv handled] by simp_all
  have step: "platform_step\<^sup>*\<^sup>* (w_db w1) ?d" using others by (simp add: others_ok_def)
  note invd = platform.run_inv [OF step inv1] and led = platform.run_le [OF step inv1]
  have known': "dl_ID dl \<in> set (map d_DeliveryID (deliveries ?d))"
    by (rule delivery_known_mono [OF db_le_trans [OF le led] known])
  have fits: "null_or (text_between 1 10000) (nullif_empty (GithubStore.truncate ?msg 10000))"
    using msg by (cases res) (simp_all add: GithubStore.truncate_def)
  have st: "?st \<in> {''processed'', ''ignored'', ''failed''}"
    using fin by (cases res) (auto simp: final_status_def)
  obtain d' where mark: "MarkDelivery (h_env H (w_ops w1)) (dl_ID dl) ?st ?msg ?d = Inr d'"
    and status: "delivery_status d' (dl_ID dl) = Some ?st"
    using MarkDelivery_succeeds [OF ff db_invD(1) [OF invd] st fits known'] by blast
  have "w_db (snd (Dispatch H dl pl w)) = d'"
    using handled calm mark
    by (cases res) (auto simp: Dispatch_def process_def action_defs op_MarkDelivery_def unit_op_def
        panics_def split: prod.splits)
  with status fin show ?thesis by (cases res) simp_all
qed

text \<open>A delivery whose payload does not parse ends as failed.\<close>

definition demo_ledger :: db where
  "demo_ledger = demo_issue\<lparr>deliveries :=
     [new_delivery (demo_env 1) ''d1'' ''installation'' ''created'' 2 5]\<rparr>"

lemma demo_ledger_inv: "db_inv demo_ledger"
  by code_simp

theorem delivery_gets_final_status_witness:
  "delivery_status demo_ledger ''d1'' = Some ''pending'' \<and>
   delivery_status (w_db (snd (Dispatch demo_host (demo_delivery\<lparr>dl_EventType := ''installation''\<rparr>)
     (demo_payload demo_comment) (demo_world demo_ledger)))) ''d1'' = Some ''failed''"
proof -
  let ?dl = "demo_delivery\<lparr>dl_EventType := ''installation''\<rparr>"
  let ?e = "Wrap ''parse installation payload'' (Msg ''type'')"
  have "handle demo_host ?dl (demo_payload demo_comment) (demo_world demo_ledger)
      = (Inl ?e, demo_world demo_ledger)"
    by (simp add: handle_def handleInstallation_def demo_payload_def action_defs panics_def)
  moreover have "null_or (text_between 1 10000) (nullif_empty (GithubStore.truncate (err_text ?e) 10000))"
    by code_simp
  moreover have "fault_free (h_env demo_host 0)"
    by (simp add: demo_host_def fault_free_def demo_env_def)
  ultimately show ?thesis
    using delivery_gets_final_status [OF demo_others_ok, of "demo_world demo_ledger" ?dl
        "demo_payload demo_comment" "Inl ?e" "demo_world demo_ledger"] demo_ledger_inv
    by (simp add: panics_def demo_ledger_def demo_delivery_def new_delivery_def delivery_status_def)
qed

section \<open>The endpoint\<close>

lemma RecordDelivery_Inr:
  assumes "RecordDelivery E did ty act i r d = Inr (b, d')"
  shows "b \<longleftrightarrow> did \<notin> set (map d_DeliveryID (deliveries d))"
    and "did \<in> set (map d_DeliveryID (deliveries d'))"
  using assms
  by (auto simp: RecordDelivery_def Let_def bind_sum_Inr_iff exec_Inr list_ex_iff new_delivery_def
      split: if_splits)

lemma ServeWebhook_dispatches:
  assumes "ServeWebhook H mac secret unmarshal r w = (Inr (resp, Some job), w')"
  obtains body where "read_body r = Inr body" and "ValidSignature mac secret body (rq_Signature r)"
    and "snd job = unmarshal body" and "dl_ID (fst job) = rq_DeliveryID r"
    and "resp = status_response 202 ''accepted''"
    and "rq_DeliveryID r \<notin>
      set (map d_DeliveryID (deliveries (h_others H (w_ops w) (w_db w))))"
    and "rq_DeliveryID r \<in> set (map d_DeliveryID (deliveries (w_db w')))"
proof (cases "read_body r")
  case (Inl e)
  with assms show thesis by (simp add: ServeWebhook_def ret_def)
next
  case (Inr body)
  let ?env = "pl_envelope (unmarshal body)"
  let ?d = "h_others H (w_ops w) (w_db w)"
  let ?op = "RecordDelivery (h_env H (w_ops w)) (rq_DeliveryID r) (rq_Event r) (env_Action ?env)
    (env_InstallationID ?env) (env_RepositoryID ?env) ?d"
  have sig: "ValidSignature mac secret body (rq_Signature r)"
    using assms Inr by (auto simp: ServeWebhook_def ret_def split: if_splits)
  show thesis
  proof (cases ?op)
    case (Inl e)
    with assms Inr show thesis
      by (auto simp: ServeWebhook_def op_RecordDelivery_def db_write_def action_defs Let_def
          split: if_splits)
  next
    case (Inr p)
    then obtain b d' where p: "?op = Inr (b, d')" by (cases p) auto
    with assms \<open>read_body r = Inr body\<close> have "b" and "w_db w' = d'" and "snd job = unmarshal body"
      and "dl_ID (fst job) = rq_DeliveryID r" and "resp = status_response 202 ''accepted''"
      by (auto simp: ServeWebhook_def op_RecordDelivery_def db_write_def action_defs Let_def
          split: if_splits)
    with RecordDelivery_Inr [OF p] sig \<open>read_body r = Inr body\<close> show thesis
      by (intro that) auto
  qed
qed

text \<open>
  C25. What the endpoint lets through: a delivery is handed to the processor only if the HMAC of the
  exact bytes of its body under the secret is the one its signature header gives, and at most once
  per delivery id, whatever is committed between the two requests.
\<close>

theorem delivery_dispatched_once:
  assumes "others_ok H" and "db_inv (w_db w)"
    and first: "ServeWebhook H mac secret unmarshal r w = (Inr (resp, Some job), w1)"
    and between: "platform_step\<^sup>*\<^sup>* (w_db w1) (w_db w2)"
    and again: "rq_DeliveryID r' = rq_DeliveryID r"
  shows "(\<exists>digest. rq_Signature r = ''sha256='' @ digest
          \<and> hex_decode digest = Some (mac secret (rq_Body r)) \<and> secret \<noteq> [])
    \<and> (\<forall>mac' secret' resp' job' w3.
          ServeWebhook H mac' secret' unmarshal r' w2 \<noteq> (Inr (resp', Some job'), w3))"
proof -
  obtain body where body: "read_body r = Inr body" and sig: "ValidSignature mac secret body (rq_Signature r)"
    and known: "rq_DeliveryID r \<in> set (map d_DeliveryID (deliveries (w_db w1)))"
    using first by (rule ServeWebhook_dispatches)
  have "body = rq_Body r" using body by (auto simp: read_body_def split: if_splits)
  then have "\<exists>digest. rq_Signature r = ''sha256='' @ digest
      \<and> hex_decode digest = Some (mac secret (rq_Body r)) \<and> secret \<noteq> []"
    using sig by (auto simp: ValidSignature_def CutPrefix_def HasPrefix_iff
        split: if_splits option.splits)
  moreover have False if "ServeWebhook H mac' secret' unmarshal r' w2 = (Inr (resp', Some job'), w3)"
    for mac' secret' resp' job' w3
  proof -
    have "runs (\<lambda>_. True) (ServeWebhook H mac secret unmarshal r)"
      unfolding ServeWebhook_def Let_def by (intro runs_intros assms(1) TrueI)
    from runs_inv [OF this assms(2) first] have inv1: "db_inv (w_db w1)" .
    have others: "platform_step\<^sup>*\<^sup>* (w_db w2) (h_others H (w_ops w2) (w_db w2))"
      using assms(1) by (simp add: others_ok_def)
    have "db_le (w_db w1) (h_others H (w_ops w2) (w_db w2))"
      by (rule platform.run_le [OF rtranclp_trans [OF between others] inv1])
    from delivery_known_mono [OF this known] again
    show False using that by (auto elim: ServeWebhook_dispatches)
  qed
  ultimately show ?thesis by blast
qed

text \<open>The MAC of the witness is the secret itself.\<close>

definition demo_mac :: "string \<Rightarrow> string \<Rightarrow> string" where
  "demo_mac secret body = secret"

definition demo_request :: request where
  "demo_request = \<lparr>rq_Body = ''{}'', rq_Broken = False, rq_Signature = ''sha256=6b'',
     rq_DeliveryID = ''d2'', rq_Event = ''ping'', rq_TraceID = []\<rparr>"

definition demo_accept :: "(err + (response \<times> (Delivery \<times> payload) option)) \<times> world" where
  "demo_accept = ServeWebhook demo_host demo_mac ''k'' (\<lambda>_. demo_payload demo_comment) demo_request
     (demo_world demo_ledger)"

lemma demo_record:
  "case RecordDelivery (h_env demo_host 0) ''d2'' ''ping'' ''created'' 2 5 demo_ledger of
     Inr (b, d) \<Rightarrow> b | Inl e \<Rightarrow> False"
  "ValidSignature demo_mac ''k'' ''{}'' ''sha256=6b''"
  "header_ok ''d2''" "header_ok ''ping''"
  by code_simp+

lemma demo_accept_ok: "\<exists>resp job w. demo_accept = (Inr (resp, Some job), w)"
proof -
  obtain d where "RecordDelivery (h_env demo_host 0) ''d2'' ''ping'' ''created'' 2 5 demo_ledger
      = Inr (True, d)"
    using demo_record(1) by (auto split: sum.splits prod.splits)
  with demo_record show ?thesis
    by (simp add: demo_accept_def ServeWebhook_def demo_request_def read_body_def maxWebhookBody_def
        demo_payload_def op_RecordDelivery_def action_defs Let_def)
qed

theorem delivery_dispatched_once_witness:
  "\<forall>resp job w. ServeWebhook demo_host demo_mac ''k'' (\<lambda>_. demo_payload demo_comment) demo_request
     (snd demo_accept) \<noteq> (Inr (resp, Some job), w)"
proof -
  from demo_accept_ok obtain resp job w1 where ok: "demo_accept = (Inr (resp, Some job), w1)"
    by blast
  from delivery_dispatched_once [OF demo_others_ok _ ok [unfolded demo_accept_def], of w1 demo_request]
    demo_ledger_inv
  show ?thesis by (simp add: ok)
qed

section \<open>Closed pull requests\<close>

lemma TaskForBranch_Inr:
  assumes "TaskForBranch E rid br d = Inr (Some t)"
  shows "t \<in> set (tasks d)" "t_RepositoryID t = Some (pg_uuid rid)" "t_WorkingBranch t = Some br"
proof -
  let ?ts = "filter (\<lambda>t. t_RepositoryID t = Some (pg_uuid rid) \<and> t_WorkingBranch t = Some br) (tasks d)"
  have "branch_order ?ts \<noteq> [] \<and> hd (branch_order ?ts) = t"
    using assms by (auto simp: TaskForBranch_def bind_sum_Inr_iff split: if_splits list.splits)
  then have "t \<in> set (branch_order ?ts)" by (metis hd_in_set)
  then show "t \<in> set (tasks d)" "t_RepositoryID t = Some (pg_uuid rid)" "t_WorkingBranch t = Some br"
    by (simp_all add: branch_order_def)
qed

lemma Transition_settles:
  assumes "db_inv d" and T: "Transition E tid p d = Inr (next, d')"
  shows "d' = d \<and> key_recorded d (pg_uuid tid) (p_IdempotencyKey p)
    \<or> find_task d' (pg_uuid tid) = Some next \<and> t_Status next = p_To p"
  using T
proof (cases rule: Transition_InrE)
  case (1 cur)
  have cur: "cur \<in> set (tasks d)" and tid: "t_ID cur = pg_uuid tid"
    using find_task_Some [OF 1(2)] by auto
  show ?thesis
  proof (cases "replayed d (t_ID cur) (p_IdempotencyKey p)")
    case True
    with 1(3) have "d' = d" by (cases rule: applyTransition_InrE) auto
    with True show ?thesis by (simp add: replayed_def tid)
  next
    case False
    have "find_task d' (t_ID cur) = Some next \<and> next = transition_row E p cur"
      by (rule applyTransition_effect [OF assms(1) cur 1(3) False]) simp
    then show ?thesis by (simp add: tid transition_row_def)
  qed
qed

text \<open>Each run of the handler: nothing is written, or the one transition of the task is.\<close>

lemma handlePullRequest_run:
  assumes alone: "\<And>k d. h_others H k d = d" and run: "handlePullRequest H (Inr ev) w = (res, w')"
  shows "res \<noteq> Inr ''processed'' \<and> w_db w' = w_db w \<or>
    res = Inr ''processed'' \<and> pep_Action ev = ''closed'' \<and> ValidBranch (pep_HeadRef ev)
      \<and> pep_HeadRepo ev = Some (pep_RepositoryID ev)
      \<and> (\<exists>repo t E1 E2 E3 nx. RepositoryByGitHubID E1 (pep_RepositoryID ev) (w_db w) = Inr repo
           \<and> TaskForBranch E2 (sr_ID repo) (pep_HeadRef ev) (w_db w) = Inr (Some t) \<and> t_Phase t = PhaseReview
           \<and> Transition E3 (t_ID t) (close_params ev) (w_db w) = Inr (nx, w_db w'))"
proof -
  let ?d = "w_db w" and ?k = "w_ops w"
  let ?guard = "pep_Action ev = ''closed'' \<and> 0 < pep_Number ev \<and> pep_RepositoryID ev \<noteq> 0
    \<and> ValidBranch (pep_HeadRef ev) \<and> pep_HeadRepo ev = Some (pep_RepositoryID ev)"
  let ?repo = "RepositoryByGitHubID (h_env H ?k) (pep_RepositoryID ev) ?d"
  let ?found = "\<lambda>repo. TaskForBranch (h_env H (?k + 1)) (sr_ID repo) (pep_HeadRef ev) ?d"
  let ?op = "\<lambda>t. Transition (h_env H (?k + 2)) (t_ID t) (close_params ev) ?d"
  note defs = handlePullRequest_def action_defs op_RepositoryByGitHubID_def op_TaskForBranch_def alone
    Let_def
  consider "\<not> ?guard" | e where "?guard" "?repo = Inl e"
    | repo e where "?guard" "?repo = Inr repo" "?found repo = Inl e"
    | repo where "?guard" "?repo = Inr repo" "?found repo = Inr None"
    | repo t where "?guard" "?repo = Inr repo" "?found repo = Inr (Some t)"
        "Terminal (t_Status t) \<or> t_Phase t \<noteq> PhaseReview"
    | repo t e where "?guard" "?repo = Inr repo" "?found repo = Inr (Some t)"
        "\<not> Terminal (t_Status t)" "t_Phase t = PhaseReview" "?op t = Inl e"
    | repo t nx d' where "?guard" "?repo = Inr repo" "?found repo = Inr (Some t)"
        "\<not> Terminal (t_Status t)" "t_Phase t = PhaseReview" "?op t = Inr (nx, d')"
    by (cases ?repo) (metis sum.exhaust option.exhaust prod.exhaust)+
  then show ?thesis
  proof cases
    case 7
    with run have "res = Inr ''processed'' \<and> w_db w' = d'"
      by (auto simp: defs op_Transition_def db_write_def split: if_splits)
    with 7 show ?thesis by blast
  qed (use run in \<open>auto simp: defs op_Transition_def db_write_def split: if_splits\<close>)
qed


text \<open>The witness: the pull request of a task awaiting review is merged.\<close>

definition demo_pr_task :: Task where
  "demo_pr_task = (demo_task StatusAwaitingReview 8)\<lparr>t_SourceType := ''github_issue'',
     t_RepositoryID := Some demo_repo, t_SourceIssueNumber := Some 7,
     t_WorkingBranch := Some ''agent-trail/fix''\<rparr>"

definition demo_pr :: db where
  "demo_pr = demo_issue\<lparr>tasks := [demo_pr_task], events := events demo_review\<rparr>"

definition demo_merge :: pullRequestPayload where
  "demo_merge = \<lparr>pep_Action = ''closed'', pep_Number = 4, pep_Merged = True,
     pep_HeadRef = ''agent-trail/fix'', pep_HeadRepo = Some 5, pep_RepositoryID = 5,
     pep_RepositoryFullName = ''acme/api''\<rparr>"

lemma demo_merge_simps [simp]:
  "pep_Action demo_merge = ''closed''" "pep_Number demo_merge = 4" "pep_Merged demo_merge"
  "pep_HeadRef demo_merge = ''agent-trail/fix''" "pep_HeadRepo demo_merge = Some 5"
  "pep_RepositoryID demo_merge = 5" "sr_ID demo_stored = demo_repo"
  by (simp_all add: demo_merge_def demo_stored_def)

lemma demo_pr_inv: "db_inv demo_pr"
  by code_simp

lemma demo_pr_steps:
  "RepositoryByGitHubID (h_env demo_host 0) 5 demo_pr = Inr demo_stored"
  "TaskForBranch (h_env demo_host 1) demo_repo ''agent-trail/fix'' demo_pr = Inr (Some demo_pr_task)"
  "is_ok (Transition (h_env demo_host 2) (t_ID demo_pr_task) (close_params demo_merge) demo_pr)"
  "\<not> key_recorded demo_pr (pg_uuid (t_ID demo_pr_task)) (p_IdempotencyKey (close_params demo_merge))"
  "ValidBranch ''agent-trail/fix''" "t_Status demo_pr_task = StatusAwaitingReview"
  "t_Phase demo_pr_task = PhaseReview" "Terminal StatusAwaitingReview = False"
  by code_simp+


end
