(* ===== verification/GitProps.thy ===== *)
theory GitProps
  imports GitText Command
begin

text \<open>
  Properties of the pure parts of the Git layer and of the command and signature parsers: branch
  names, trailers, numstat and hunk parsing, commands and hexadecimal digests.
\<close>

section \<open>Branch names\<close>

lemma replace_non_slug_chars:
  "c \<in> set (replace_non_slug s) \<Longrightarrow> is_slug_char c \<or> c = CHR ''-''"
  by (induction s rule: replace_non_slug.induct) (auto split: if_splits)

lemma slug_is_slug:
  assumes "\<And>c. c \<in> set s \<Longrightarrow> is_slug_char c \<or> c = CHR ''-''" and "s \<noteq> []" and "hd s \<noteq> CHR ''-''"
    and "length s \<le> maxSlug"
  shows "is_slug s"
proof (cases s)
  case (Cons c cs)
  then have "is_slug_char c" using assms(1) [of c] assms(3) by auto
  then show ?thesis using assms Cons by (auto simp: is_slug_def maxSlug_def list_all_iff)
qed (use assms(2) in simp)

lemma hyphen_not_slug [simp]: "\<not> is_slug_char (CHR ''-'')"
  by (simp add: is_slug_char_def is_digit_def byte_def)

text \<open>The slug the sanitiser ends with, as a function of the text it starts from.\<close>

definition slug_of :: "string \<Rightarrow> string" where
  "slug_of s = (let t = trim_char (CHR ''-'') (replace_non_slug s) in
     if maxSlug < length t then trim_char (CHR ''-'') (take maxSlug t) else t)"

lemma SanitizeBranch_slug:
  "SanitizeBranch low raw =
    (if slug_of (ToLower low raw) = [] then Inl (Sentinel ErrEmptyBranch)
     else Inr (BranchPrefix @ slug_of (ToLower low raw)))"
  by (simp add: SanitizeBranch_def slug_of_def Let_def)

lemma slug_of_is_slug:
  assumes "slug_of s \<noteq> []"
  shows "is_slug (slug_of s)"
proof -
  let ?t = "trim_char (CHR ''-'') (replace_non_slug s)"
  have t: "is_slug_char c \<or> c = CHR ''-''" if "c \<in> set ?t" for c
    using that trim_char_set replace_non_slug_chars by (metis in_mono)
  have u: "is_slug_char c \<or> c = CHR ''-''" if "c \<in> set (slug_of s)" for c
    using that t trim_char_set [of "CHR ''-''" "take maxSlug ?t"]
    by (auto simp: slug_of_def Let_def split: if_splits dest!: in_set_takeD)
  have "hd (slug_of s) \<noteq> CHR ''-''"
    using assms trim_char_hd unfolding slug_of_def Let_def by (auto split: if_splits)
  moreover have "length (slug_of s) \<le> maxSlug"
    using length_trim_char [of "CHR ''-''" "take maxSlug ?t"] by (auto simp: slug_of_def Let_def)
  ultimately show ?thesis using u assms by (intro slug_is_slug) auto
qed

lemma slug_prefix: "ValidBranch (BranchPrefix @ s) \<longleftrightarrow> is_slug s"
  by (simp add: ValidBranch_def)

lemma replace_non_slug_id:
  "(\<And>c. c \<in> set s \<Longrightarrow> is_slug_char c) \<Longrightarrow> replace_non_slug s = s"
  by (induction s rule: replace_non_slug.induct) auto

lemma replace_non_slug_empty: "replace_non_slug s = [] \<longleftrightarrow> s = []"
  by (cases s) auto

lemma replace_non_slug_keeps: "c \<in> set s \<Longrightarrow> is_slug_char c \<Longrightarrow> c \<in> set (replace_non_slug s)"
proof (induction s rule: replace_non_slug.induct)
  case (2 d cs)
  then have "c \<in> set (dropWhile (\<lambda>c. \<not> is_slug_char c) cs)" if "\<not> is_slug_char d"
    using that takeWhile_dropWhile_id [of "\<lambda>c. \<not> is_slug_char c" cs]
    by (metis Un_iff set_append set_ConsD set_takeWhileD)
  with 2 show ?case by auto
qed simp

lemma dropWhile_keeps: "c \<in> set s \<Longrightarrow> \<not> p c \<Longrightarrow> c \<in> set (dropWhile p s)"
  by (induction s) auto

lemma trim_char_keeps: "d \<in> set s \<Longrightarrow> d \<noteq> c \<Longrightarrow> d \<in> set (trim_char c s)"
  by (simp add: trim_char_def trim_right_char_def dropWhile_keeps)

lemma slug_of_empty: "slug_of s = [] \<longleftrightarrow> (\<forall>c\<in>set s. \<not> is_slug_char c)"
proof
  let ?t = "trim_char (CHR ''-'') (replace_non_slug s)"
  assume empty: "slug_of s = []"
  show "\<forall>c\<in>set s. \<not> is_slug_char c"
  proof (intro ballI notI)
    fix c assume "c \<in> set s" "is_slug_char c"
    then have "c \<in> set ?t" by (auto intro!: trim_char_keeps replace_non_slug_keeps)
    then have ne: "?t \<noteq> []" by auto
    then have hd: "hd ?t \<noteq> CHR ''-''" by (rule trim_char_hd)
    have "hd ?t \<in> set (take maxSlug ?t)"
      using ne by (cases ?t) (auto simp: maxSlug_def)
    then have "hd ?t \<in> set (trim_char (CHR ''-'') (take maxSlug ?t))" using hd by (rule trim_char_keeps)
    with ne empty show False by (auto simp: slug_of_def Let_def split: if_splits)
  qed
next
  assume no: "\<forall>c\<in>set s. \<not> is_slug_char c"
  have "is_slug (slug_of s) \<Longrightarrow> \<exists>c\<in>set (slug_of s). is_slug_char c"
    by (cases "slug_of s") (auto simp: is_slug_def)
  moreover have "set (slug_of s) \<subseteq> set (replace_non_slug s)"
  proof -
    let ?t = "trim_char (CHR ''-'') (replace_non_slug s)"
    have "set ?t \<subseteq> set (replace_non_slug s)" by (rule trim_char_set)
    moreover have "set (trim_char (CHR ''-'') (take maxSlug ?t)) \<subseteq> set ?t"
      by (rule subset_trans [OF trim_char_set set_take_subset])
    ultimately show ?thesis by (auto simp: slug_of_def Let_def)
  qed
  moreover have "is_slug_char c \<Longrightarrow> c \<in> set (replace_non_slug s) \<Longrightarrow> c \<in> set s" for c
    by (induction s rule: replace_non_slug.induct) (auto split: if_splits dest: set_dropWhileD)
  ultimately show "slug_of s = []" using no slug_of_is_slug by blast
qed

lemma branch_text: "is_slug s \<Longrightarrow> text_between 1 255 (BranchPrefix @ s) \<and> length s \<le> 100"
proof -
  assume "is_slug s"
  then have chars: "list_all (\<lambda>c. is_slug_char c \<or> c = CHR ''-'') s" and len: "length s \<le> 100"
    by (auto simp: is_slug_def split: list.splits)
  have "ascii c \<and> c \<noteq> CHR 0x00" if "is_slug_char c \<or> c = CHR ''-''" for c
    using that by (auto simp: is_slug_char_def is_digit_def ascii_iff byte_def)
  then have all: "list_all ascii (BranchPrefix @ s)" "CHR 0x00 \<notin> set (BranchPrefix @ s)"
    using chars by (auto simp: BranchPrefix_def list_all_iff)
  then have "rune_count (BranchPrefix @ s) = length (BranchPrefix @ s)"
    by (simp add: rune_count_def runes_ascii)
  moreover have "valid_string (BranchPrefix @ s)" using all(1) by (rule valid_string_ascii)
  ultimately show ?thesis using len all(2) by (simp add: text_between_def pg_text_def BranchPrefix_def)
qed

text \<open>
  A label becomes a branch the push guard lets through, or no branch: the sanitised name has the
  shape \<open>ValidBranch\<close> asks for and fits the working-branch column, the label is refused exactly
  where its lower-case text has no letter or digit of \<open>[a-z0-9]\<close>.
\<close>

theorem sanitized_branch_is_pushable:
  "case SanitizeBranch low raw of
     Inl e \<Rightarrow> e = Sentinel ErrEmptyBranch \<and> \<not> list_ex is_slug_char (ToLower low raw)
   | Inr b \<Rightarrow> ValidBranch b \<and> text_between 1 255 b
       \<and> list_ex is_slug_char (ToLower low raw)"
  using slug_of_empty [of "ToLower low raw"] slug_of_is_slug [of "ToLower low raw"]
    branch_text [of "slug_of (ToLower low raw)"]
  by (auto simp: SanitizeBranch_slug slug_prefix list_ex_iff)

section \<open>Trailers\<close>

lemma split_at_lines:
  assumes "\<And>l. l \<in> set ls \<Longrightarrow> sep \<notin> set l"
  shows "split_at sep (concat (map (\<lambda>l. l @ [sep]) ls) @ r) = ls @ split_at sep r"
  using assms by (induction ls) (simp_all add: split_at_line)

lemma trailer_lines_Inr:
  "trailer_lines fs = Inr ls \<longleftrightarrow>
    (\<forall>(k, v)\<in>set fs. CHR 0x0D \<notin> set v \<and> CHR 0x0A \<notin> set v)
    \<and> ls = map (\<lambda>(k, v). k @ '': '' @ v) (filter (\<lambda>(k, v). v \<noteq> []) fs)"
proof (induction fs arbitrary: ls)
  case (Cons f fs)
  obtain k v where f: "f = (k, v)" by (cases f)
  show ?case
  proof (cases "v = []")
    case True
    with Cons f show ?thesis by simp
  next
    case False
    show ?thesis
    proof (cases "list_ex (\<lambda>c. c = CHR 0x0D \<or> c = CHR 0x0A) v")
      case True
      with False f show ?thesis by (auto simp: list_ex_iff)
    next
      case clean: False
      then have "CHR 0x0D \<notin> set v" "CHR 0x0A \<notin> set v" by (auto simp: list_ex_iff)
      then show ?thesis
        unfolding f trailer_lines.simps if_not_P [OF False] if_not_P [OF clean] bind_sum_Inr_iff Cons
        using False by auto
    qed
  qed
qed auto

text \<open>
  C36. Trailers cannot be forged: when the trailer block is built, its lines are exactly one
  \<open>key: value\<close> line per non-empty field, in the fixed order, and no value holds a line break.
\<close>

theorem trailers_cannot_be_forged:
  assumes "buildTrailers p = Inr s"
  shows "split_at (CHR 0x0A) s =
      map (\<lambda>(k, v). k @ '': '' @ v) (filter (\<lambda>(k, v). v \<noteq> []) (trailer_fields p))
    \<and> (\<forall>(k, v)\<in>set (trailer_fields p). CHR 0x0D \<notin> set v \<and> CHR 0x0A \<notin> set v)"
proof -
  let ?ls = "map (\<lambda>(k, v). k @ '': '' @ v) (filter (\<lambda>(k, v). v \<noteq> []) (trailer_fields p))"
  let ?b = "concat (map (\<lambda>l. l @ newline) ?ls)"
  have clean: "\<forall>(k, v)\<in>set (trailer_fields p). CHR 0x0D \<notin> set v \<and> CHR 0x0A \<notin> set v"
    and ne: "?b \<noteq> []" and s: "s = trim_right_char (CHR 0x0A) ?b"
    using assms unfolding buildTrailers_def bind_sum_Inr_iff trailer_lines_Inr Let_def
    by (metis (lifting) Inl_Inr_False Inr_inject)+
  have nl: "CHR 0x0A \<notin> set l \<and> l \<noteq> []" if "l \<in> set ?ls" for l
  proof -
    have keys: "\<forall>(k, v)\<in>set (trailer_fields p). CHR 0x0A \<notin> set k" by (simp add: trailer_fields_def)
    from that obtain k v where "(k, v) \<in> set (trailer_fields p)" "l = k @ '': '' @ v" by auto
    with clean keys show ?thesis by auto
  qed
  have "?ls \<noteq> []"
  proof
    assume "?ls = []"
    then have "?b = []" by (simp only: list.map concat.simps)
    with ne show False by contradiction
  qed
  then obtain ks l where ls: "?ls = ks @ [l]"
    by (rule that [OF append_butlast_last_id [symmetric]])
  have l: "CHR 0x0A \<notin> set l" "l \<noteq> []" using nl [of l] unfolding ls by auto
  have "s = concat (map (\<lambda>l. l @ newline) ks) @ l"
  proof -
    have last: "rev l \<noteq> [] \<and> hd (rev l) \<noteq> CHR 0x0A"
      using l by (metis hd_in_set rev_is_Nil_conv set_rev)
    have "dropWhile (\<lambda>d. d = CHR 0x0A) (rev (concat (map (\<lambda>l. l @ newline) ks) @ l))
        = rev (concat (map (\<lambda>l. l @ newline) ks) @ l)"
      using last by (intro dropWhile_hd) (auto simp: hd_append)
    then show ?thesis unfolding s ls by (simp add: trim_right_char_def)
  qed
  moreover have "split_at (CHR 0x0A) (concat (map (\<lambda>l. l @ newline) ks) @ l) = ks @ [l]"
    using nl l unfolding ls by (subst split_at_lines) (auto simp: split_at_single)
  ultimately show ?thesis using clean ls by simp
qed

theorem trailers_cannot_be_forged_witness:
  "split_at (CHR 0x0A) ''Agent-Trail-Task-ID: t1'' = [''Agent-Trail-Task-ID: t1'']"
proof -
  let ?p = "\<lparr>cp_Message = ''m'', cp_TaskID = ''t1'', cp_Provider = [], cp_Model = [],
     cp_RequestedBy = []\<rparr>"
  have "buildTrailers ?p = Inr ''Agent-Trail-Task-ID: t1''" by code_simp
  from trailers_cannot_be_forged [OF this] show ?thesis by (simp add: trailer_fields_def)
qed

section \<open>Hunks of a diff\<close>

text \<open>
  What \<open>git diff --unified=0 --no-renames\<close> prints for one file: the paths (\<open>None\<close> for
  \<open>/dev/null\<close>), and per hunk its base range, the rest of the header from \<open>+\<close> on, and the body.
\<close>

record hunk =
  hk_start :: nat
  hk_count :: "nat option"
  hk_rest :: string
  hk_body :: "string list"

record file_diff =
  fd_preamble :: "string list"
  fd_old :: "string option"
  fd_new :: "string option"
  fd_hunks :: "hunk list"

definition side_path :: "string \<Rightarrow> string option \<Rightarrow> string" where
  "side_path pre p = (case p of None \<Rightarrow> dev_null | Some f \<Rightarrow> pre @ f)"

definition hunk_header_line :: "hunk \<Rightarrow> string" where
  "hunk_header_line h = ''@@ -'' @ nat_string (hk_start h)
     @ (case hk_count h of None \<Rightarrow> [] | Some n \<Rightarrow> '','' @ nat_string n) @ '' +'' @ hk_rest h"

definition hunk_text :: "hunk \<Rightarrow> string list" where
  "hunk_text h = hunk_header_line h # hk_body h"

definition file_text :: "file_diff \<Rightarrow> string list" where
  "file_text f = fd_preamble f @ [''--- '' @ side_path ''a/'' (fd_old f), ''+++ '' @ side_path ''b/'' (fd_new f)]
     @ concat (map hunk_text (fd_hunks f))"

text \<open>A line the parser passes over.\<close>

definition plain_line :: "string \<Rightarrow> bool" where
  "plain_line l \<longleftrightarrow> CHR 0x0A \<notin> set l \<and>
     \<not> HasPrefix l ''--- '' \<and> \<not> HasPrefix l ''+++ '' \<and> \<not> HasPrefix l ''@@ ''"

definition hunk_ok :: "hunk \<Rightarrow> bool" where
  "hunk_ok h \<longleftrightarrow> list_all plain_line (hk_body h) \<and> CHR 0x0A \<notin> set (hk_rest h)
     \<and> hk_start h + (case hk_count h of None \<Rightarrow> 1 | Some n \<Rightarrow> n) < 2 ^ 63"

text \<open>A path of the base or of the head, and no file named \<open>/dev/null\<close> or starting like a prefix.\<close>

definition path_ok :: "string option \<Rightarrow> bool" where
  "path_ok p = (case p of None \<Rightarrow> True
     | Some f \<Rightarrow> f \<noteq> [] \<and> f \<noteq> dev_null \<and> CHR 0x0A \<notin> set f)"

definition file_ok :: "file_diff \<Rightarrow> bool" where
  "file_ok f \<longleftrightarrow> list_all plain_line (fd_preamble f) \<and> path_ok (fd_old f) \<and> path_ok (fd_new f)
     \<and> (fd_old f \<noteq> None \<or> fd_new f \<noteq> None) \<and> list_all hunk_ok (fd_hunks f)"

definition file_path :: "file_diff \<Rightarrow> string" where
  "file_path f = (case fd_new f of Some p \<Rightarrow> p | None \<Rightarrow> (case fd_old f of Some p \<Rightarrow> p | None \<Rightarrow> []))"

text \<open>The base lines of a hunk; an insertion stands at the line before it.\<close>

definition hunk_span :: "hunk \<Rightarrow> LineRange" where
  "hunk_span h =
     (let n = (case hk_count h of None \<Rightarrow> 1 | Some n \<Rightarrow> n) in
      \<lparr>lr_Start = int (hk_start h),
       lr_End = (if n = 0 then int (hk_start h) else int (hk_start h) + int n - 1)\<rparr>)"

definition diff_text :: "file_diff list \<Rightarrow> string" where
  "diff_text fs = join_strings newline (concat (map file_text fs))"

lemma wrap64_id: "- (2 ^ 63) \<le> i \<Longrightarrow> i < 2 ^ 63 \<Longrightarrow> wrap64 i = i"
  by (simp add: wrap64_def)

lemma Atoi_nat: "n < 2 ^ 63 \<Longrightarrow> Atoi (nat_string n) = Some (int n)"
  using Atoi_int_string [of "int n"] by (simp add: int_string_def)

lemma digit_space: "\<not> is_digit (CHR '' '')" "\<not> is_digit (CHR '','')"
  by (simp_all add: is_digit_def byte_def)

lemma takeWhile_digits:
  "takeWhile is_digit (nat_string n @ CHR '' '' # r) = nat_string n"
  "dropWhile is_digit (nat_string n @ CHR '' '' # r) = CHR '' '' # r"
  "takeWhile is_digit (nat_string n @ CHR '','' # r) = nat_string n"
  "dropWhile is_digit (nat_string n @ CHR '','' # r) = CHR '','' # r"
  using nat_string_digits [of n] digit_space
  by (simp_all add: list_all_iff)

lemma hunk_header_parse:
  assumes "hk_start h < 2 ^ 63"
  shows "hunk_header (hunk_header_line h) = Some (nat_string (hk_start h),
    case hk_count h of None \<Rightarrow> [] | Some n \<Rightarrow> nat_string n)"
  by (cases "hk_count h")
    (simp_all add: hunk_header_def hunk_header_line_def CutPrefix_def HasPrefix_def takeWhile_digits
      Let_def)

lemma hunk_lines_append:
  "hunk_lines (xs @ ys) st = bind_sum (hunk_lines xs st) (hunk_lines ys)"
proof (induction xs arbitrary: st)
  case (Cons x xs)
  then show ?case by (cases "hunk_line x st") simp_all
qed simp

lemma hunk_lines_plain: "list_all plain_line ls \<Longrightarrow> hunk_lines ls st = Inr st"
  by (induction ls) (simp_all add: hunk_line_def plain_line_def)

lemma hunk_range_parse:
  assumes "hunk_ok h"
  shows "hunk_range (nat_string (hk_start h), case hk_count h of None \<Rightarrow> [] | Some n \<Rightarrow> nat_string n)
    = Inr (hunk_span h)"
  using assms
  by (cases "hk_count h") (auto simp: hunk_range_def hunk_ok_def hunk_span_def Atoi_nat wrap64_id Let_def)

lemma hunk_text_parse:
  assumes "hunk_ok h" and "hs_current st \<noteq> []" "hs_current st \<noteq> dev_null"
  shows "hunk_lines (hunk_text h) st =
    Inr (st\<lparr>hs_hunks := (hs_hunks st)(hs_current st := hs_hunks st (hs_current st) @ [hunk_span h])\<rparr>)"
proof -
  have small: "hk_start h < 2 ^ 63" and body: "list_all plain_line (hk_body h)"
    using assms(1) by (auto simp: hunk_ok_def)
  have "\<not> HasPrefix (hunk_header_line h) ''--- ''" "\<not> HasPrefix (hunk_header_line h) ''+++ ''"
    "HasPrefix (hunk_header_line h) ''@@ ''"
    by (simp_all add: hunk_header_line_def HasPrefix_def)
  with assms hunk_header_parse [OF small] hunk_range_parse [OF assms(1)] hunk_lines_plain [OF body]
  show ?thesis by (simp add: hunk_text_def hunk_line_def)
qed

lemma hunks_parse:
  assumes "list_all hunk_ok hs" and "hs_current st \<noteq> []" "hs_current st \<noteq> dev_null"
  shows "hunk_lines (concat (map hunk_text hs)) st =
    Inr (st\<lparr>hs_hunks := (hs_hunks st)(hs_current st := hs_hunks st (hs_current st) @ map hunk_span hs)\<rparr>)"
  using assms
proof (induction hs arbitrary: st)
  case (Cons h hs)
  then show ?case by (simp add: hunk_lines_append hunk_text_parse cong: if_cong)
qed simp

lemma side_path_parse:
  "path_ok p \<Longrightarrow> TrimPrefix (side_path ''a/'' p) ''a/'' = (case p of None \<Rightarrow> dev_null | Some f \<Rightarrow> f)"
  "path_ok p \<Longrightarrow> TrimPrefix (side_path ''b/'' p) ''b/'' = (case p of None \<Rightarrow> dev_null | Some f \<Rightarrow> f)"
  by (simp_all add: side_path_def TrimPrefix_def HasPrefix_def dev_null_def split: option.splits)

lemma file_parse:
  assumes ok: "file_ok f"
  shows "\<exists>st'. hunk_lines (file_text f) st = Inr st' \<and> hs_hunks st' =
    (hs_hunks st)(file_path f := hs_hunks st (file_path f) @ map hunk_span (fd_hunks f))"
proof -
  have pre: "list_all plain_line (fd_preamble f)" and hs: "list_all hunk_ok (fd_hunks f)"
    and old: "path_ok (fd_old f)" and new: "path_ok (fd_new f)"
    using ok by (simp_all add: file_ok_def)
  have path: "file_path f \<noteq> []" "file_path f \<noteq> dev_null"
    using ok by (auto simp: file_ok_def path_ok_def file_path_def split: option.splits)
  let ?a = "''--- '' @ side_path ''a/'' (fd_old f)" and ?b = "''+++ '' @ side_path ''b/'' (fd_new f)"
  have a: "hunk_line ?a st = Inr (st\<lparr>hs_oldPath := (case fd_old f of None \<Rightarrow> dev_null | Some f \<Rightarrow> f),
      hs_current := []\<rparr>)"
    using side_path_parse(1) [OF old] TrimPrefix_append [of "''--- ''"]
      HasPrefix_append [of "''--- ''"]
    unfolding hunk_line_def by (simp only: if_True)
  have not_old: "\<not> HasPrefix ?b ''--- ''" by (simp add: HasPrefix_def)
  let ?st = "st\<lparr>hs_oldPath := (case fd_old f of None \<Rightarrow> dev_null | Some f \<Rightarrow> f),
      hs_current := file_path f\<rparr>"
  have b: "hunk_line ?b (st\<lparr>hs_oldPath := (case fd_old f of None \<Rightarrow> dev_null | Some f \<Rightarrow> f),
      hs_current := []\<rparr>) = Inr ?st"
  proof -
    have "TrimPrefix (TrimPrefix ?b ''+++ '') ''b/'' = (case fd_new f of None \<Rightarrow> dev_null | Some f \<Rightarrow> f)"
      by (simp only: TrimPrefix_append side_path_parse(2) [OF new])
    moreover have "(case fd_new f of None \<Rightarrow> dev_null | Some f \<Rightarrow> f) = dev_null \<longleftrightarrow> fd_new f = None"
      using new by (simp add: path_ok_def split: option.splits)
    moreover have "HasPrefix ?b ''+++ ''" by (rule HasPrefix_append)
    ultimately show ?thesis
      using not_old ok unfolding hunk_line_def
      by (auto simp: Let_def file_path_def file_ok_def split: option.splits)
  qed
  have "hunk_lines (file_text f) st = hunk_lines (concat (map hunk_text (fd_hunks f))) ?st"
    unfolding file_text_def hunk_lines_append hunk_lines_plain [OF pre] bind_sum_simps
    by (simp only: hunk_lines.simps a b bind_sum_simps)
  moreover have "hs_current ?st \<noteq> []" "hs_current ?st \<noteq> dev_null" using path by simp_all
  ultimately show ?thesis using hunks_parse [OF hs, of ?st] by auto
qed

lemma files_parse:
  assumes "list_all file_ok fs"
  shows "\<exists>st'. hunk_lines (concat (map file_text fs)) st = Inr st' \<and> (\<forall>p. hs_hunks st' p =
    hs_hunks st p @ concat (map (\<lambda>f. if file_path f = p then map hunk_span (fd_hunks f) else []) fs))"
  using assms
proof (induction fs arbitrary: st)
  case (Cons f fs)
  then obtain st1 where st1: "hunk_lines (file_text f) st = Inr st1" "hs_hunks st1 =
      (hs_hunks st)(file_path f := hs_hunks st (file_path f) @ map hunk_span (fd_hunks f))"
    using file_parse [of f st] by auto
  from Cons obtain st2 where "hunk_lines (concat (map file_text fs)) st1 = Inr st2"
    "\<forall>p. hs_hunks st2 p = hs_hunks st1 p
      @ concat (map (\<lambda>f. if file_path f = p then map hunk_span (fd_hunks f) else []) fs)"
    by auto
  with st1 show ?case by (simp add: hunk_lines_append)
qed simp

lemma split_at_join_lines:
  assumes "\<And>l. l \<in> set ls \<Longrightarrow> sep \<notin> set l"
  shows "split_at sep (join_strings [sep] ls) = (if ls = [] then [[]] else ls)"
  using assms by (induction "[sep]" ls rule: join_strings.induct) (auto simp: split_at_single split_at_line)

lemma nat_string_no_newline: "CHR 0x0A \<notin> set (nat_string n)"
  using nat_string_digits [of n] by (auto simp: list_all_iff is_digit_def byte_def)

lemma file_text_lines:
  assumes "file_ok f" and "l \<in> set (file_text f)"
  shows "CHR 0x0A \<notin> set l"
  using assms nat_string_no_newline
  by (fastforce simp: file_ok_def file_text_def list_all_iff plain_line_def hunk_ok_def hunk_text_def
      hunk_header_line_def side_path_def path_ok_def dev_null_def split: option.splits)

text \<open>
  The hunks of a diff are read back: parsing what Git prints for a list of files, whatever the
  extended headers and bodies hold that does not look like a file or hunk header, gives for every
  path the base spans of its hunks in order, and an insertion the line before it.
\<close>

theorem hunks_roundtrip:
  assumes "list_all file_ok fs"
  shows "parseHunks (diff_text fs) = Inr (\<lambda>p.
    concat (map (\<lambda>f. if file_path f = p then map hunk_span (fd_hunks f) else []) fs))"
proof -
  let ?st = "\<lparr>hs_oldPath = [], hs_current = [], hs_hunks = (\<lambda>_. [])\<rparr>"
  have nl: "CHR 0x0A \<notin> set l" if "l \<in> set (concat (map file_text fs))" for l
    using that assms file_text_lines by (auto simp: list_all_iff)
  from files_parse [OF assms, of ?st] obtain st'
    where st': "hunk_lines (concat (map file_text fs)) ?st = Inr st'"
      "hs_hunks st' = (\<lambda>p. concat (map (\<lambda>f. if file_path f = p then map hunk_span (fd_hunks f) else []) fs))"
    by auto
  have empty: "hunk_lines [[]] ?st = Inr ?st"
    by (rule hunk_lines_plain) (simp add: plain_line_def HasPrefix_def)
  have "split_at (CHR 0x0A) (diff_text fs) =
      (if concat (map file_text fs) = [] then [[]] else concat (map file_text fs))"
    unfolding diff_text_def by (rule split_at_join_lines) (rule nl)
  moreover have "concat (map file_text fs) = [] \<Longrightarrow> fs = []"
    by (cases fs) (simp_all add: file_text_def)
  ultimately show ?thesis using st' empty by (auto simp: parseHunks_def)
qed

definition demo_diff :: "file_diff list" where
  "demo_diff = [\<lparr>fd_preamble = [''diff --git a/x b/x''], fd_old = Some ''x'', fd_new = Some ''x'',
     fd_hunks = [\<lparr>hk_start = 3, hk_count = Some 2, hk_rest = ''+3 @@'', hk_body = [''-a'', ''-b'', ''+c'']\<rparr>,
                 \<lparr>hk_start = 9, hk_count = Some 0, hk_rest = ''+9,1 @@'', hk_body = [''+d'']\<rparr>]\<rparr>]"

theorem hunks_roundtrip_witness:
  "\<exists>h. parseHunks (diff_text demo_diff) = Inr h
    \<and> h ''x'' = [\<lparr>lr_Start = 3, lr_End = 4\<rparr>, \<lparr>lr_Start = 9, lr_End = 9\<rparr>]"
proof -
  have "list_all file_ok demo_diff"
    by (simp add: demo_diff_def file_ok_def plain_line_def HasPrefix_def path_ok_def dev_null_def
        hunk_ok_def)
  from hunks_roundtrip [OF this] show ?thesis
    by (simp add: demo_diff_def file_path_def hunk_span_def Let_def)
qed

definition demo_deleted_comment :: string where
  "demo_deleted_comment = join_strings newline
     [''diff --git a/q.sql b/q.sql'', ''--- a/q.sql'', ''+++ b/q.sql'',
      ''@@ -1 +0,0 @@'', ''--- drop the table'', ''@@ -5 +4 @@'', ''-a'', ''+b'']"

lemma demo_deleted_comment_parse:
  "case parseHunks demo_deleted_comment of
     Inl e \<Rightarrow> e = Msg ''gitworkspace: hunk header before file header'' | Inr h \<Rightarrow> False"
  by code_simp

text \<open>
  A deleted line can break the parser: with no context lines, a removed line that starts with
  two hyphens and a space (a comment of SQL, Lua or Haskell) is printed as \<open>--- ...\<close> and taken
  for a file header, so the next hunk of the file is refused and the whole diff with it.
\<close>

theorem deleted_comment_breaks_hunks:
  "parseHunks demo_deleted_comment = Inl (Msg ''gitworkspace: hunk header before file header'')"
  using demo_deleted_comment_parse by (simp split: sum.splits)

section \<open>Signatures\<close>

lemma byte_less: "byte c < 256"
proof -
  have "byte c = byte c mod 256" by (simp add: byte_def)
  also have "\<dots> < 256" by simp
  finally show ?thesis .
qed

lemma hex_value_digit: "n < 16 \<Longrightarrow> hex_value (hex_digit n) = Some n"
  by (auto simp: hex_value_def hex_digit_def byte_char_of)

lemma hex_decode_encode: "hex_decode (hex_encode s) = Some s"
proof (induction s)
  case (Cons c cs)
  have "16 * (byte c div 16) + byte c mod 16 = byte c" by simp
  moreover have "char_of (byte c) = c" by (simp add: byte_def)
  moreover have "byte c div 16 < 16" using byte_less [of c] by simp
  ultimately show ?case using Cons by (simp add: hex_encode_def hex_value_digit)
qed (simp add: hex_encode_def)

text \<open>
  A signature header is accepted exactly where it is the HMAC of the body under a non-empty
  secret, in hexadecimal: the header made of any digest's encoding passes if and only if that
  digest is the body's, and a header without the prefix never passes.
\<close>

theorem signature_exact:
  "(ValidSignature mac secret body (''sha256='' @ hex_encode digest) \<longleftrightarrow>
      secret \<noteq> [] \<and> digest = mac secret body)
   \<and> (\<not> HasPrefix header ''sha256='' \<longrightarrow> \<not> ValidSignature mac secret body header)"
proof -
  have "CutPrefix (''sha256='' @ hex_encode digest) ''sha256='' = Some (hex_encode digest)"
    by (simp only: CutPrefix_def HasPrefix_append) simp
  then show ?thesis
    by (simp add: ValidSignature_def hex_decode_encode CutPrefix_def [of header])
qed

theorem signature_exact_witness:
  "\<not> ValidSignature (\<lambda>s b. s) ''k'' ''{}'' ''sha1=6b''"
  using signature_exact [of "\<lambda>s b. s" "''k''" "''{}''" "[]" "''sha1=6b''"]
  by (simp add: HasPrefix_def)

section \<open>Commands\<close>

lemma fields_of_word:
  assumes "\<And>r. r \<in> set ws \<Longrightarrow> is_space r" and "w \<noteq> []" and "\<And>r. r \<in> set w \<Longrightarrow> \<not> is_space r"
    and "rest = [] \<or> is_space (hd rest)"
  shows "fields_of (ws @ w @ rest) = concat w # fields_of rest"
proof -
  have "dropWhile is_space (ws @ w @ rest) = w @ rest"
    using assms(1-3) by (cases w) (simp_all add: dropWhile_append2)
  moreover have "takeWhile (\<lambda>r. \<not> is_space r) (w @ rest) = w"
    and "dropWhile (\<lambda>r. \<not> is_space r) (w @ rest) = rest"
    using assms(3,4) by (cases rest; simp add: takeWhile_append2 dropWhile_append2)+
  ultimately show ?thesis using assms(2) by (subst fields_of.simps) (simp add: Let_def)
qed

lemma fields_of_spaces: "(\<And>r. r \<in> set ws \<Longrightarrow> is_space r) \<Longrightarrow> fields_of ws = []"
  by (subst fields_of.simps) (simp add: dropWhile_eq_Nil_conv)

lemma Lines_Cons: "CHR 0x0A \<notin> set l \<Longrightarrow> Lines (l @ newline @ s) = (l @ newline) # Lines s"
proof -
  assume "CHR 0x0A \<notin> set l"
  then have "split_at (CHR 0x0A) (l @ newline @ s) = l # split_at (CHR 0x0A) s"
    by (simp add: split_at_line)
  then show ?thesis by (simp add: Lines_def Let_def)
qed

text \<open>Spaces and tabs, and a word of printable ASCII.\<close>

definition blank :: "string \<Rightarrow> bool" where
  "blank s \<longleftrightarrow> set s \<subseteq> {CHR '' '', CHR 0x09}"

definition ascii_word :: "string \<Rightarrow> bool" where
  "ascii_word s \<longleftrightarrow> s \<noteq> [] \<and> (\<forall>c\<in>set s. 33 \<le> byte c \<and> byte c \<le> 126)"

lemma word_not_space: "33 \<le> byte c \<Longrightarrow> byte c \<le> 126 \<Longrightarrow> \<not> is_space [c]"
  by (auto simp: is_space_def byte_def)

lemma blank_ascii: "blank s \<Longrightarrow> list_all ascii s"
  by (auto simp: blank_def list_all_iff ascii_iff byte_def)

lemma ascii_word_ascii: "ascii_word s \<Longrightarrow> list_all ascii s"
  by (auto simp: ascii_word_def list_all_iff ascii_iff)

lemma Fields_two:
  assumes "blank a" "blank b" "b \<noteq> []" "blank c" and "ascii_word v" "ascii_word u"
  shows "Fields (a @ u @ b @ v @ c @ newline) = [u, v]"
proof -
  let ?r = "map (\<lambda>c. [c])"
  have sp: "is_space r" if "blank s" "r \<in> set (?r s)" for s r
  proof -
    from that obtain ch where "r = [ch]" and "ch \<in> {CHR '' '', CHR 0x09}"
      unfolding blank_def by (metis (no_types, lifting) imageE in_mono list.set_map)
    then show ?thesis by (auto simp: is_space_def)
  qed
  have wd: "\<not> is_space r" if "ascii_word s" "r \<in> set (?r s)" for s r
    using that word_not_space by (auto simp: ascii_word_def)
  have id: "concat (?r s) = s" for s :: string by (induction s) simp_all
  have nl: "is_space newline" by (simp add: is_space_def)
  have b0: "b \<noteq> []" "is_space (hd (?r b))"
    using assms(2,3) by (cases b; auto simp: blank_def is_space_def)+
  have c0: "is_space (hd (?r c @ [newline]))"
    using assms(4) nl by (cases c) (auto simp: blank_def is_space_def)
  have ne: "?r u \<noteq> []" "?r v \<noteq> []" using assms(5,6) by (simp_all add: ascii_word_def)
  have all: "list_all ascii (a @ u @ b @ v @ c @ newline)"
    using assms by (simp add: blank_ascii ascii_word_ascii)
  have "Fields (a @ u @ b @ v @ c @ newline) =
      fields_of (?r a @ ?r u @ (?r b @ ?r v @ (?r c @ [newline])))"
    unfolding Fields_def runes_ascii [OF all] by simp
  also have "\<dots> = concat (?r u) # fields_of (?r b @ ?r v @ (?r c @ [newline]))"
    by (rule fields_of_word [OF sp [OF assms(1)] ne(1) wd [OF assms(6)]])
      (simp_all add: b0 hd_append)
  also have "fields_of (?r b @ ?r v @ (?r c @ [newline])) = concat (?r v) # fields_of (?r c @ [newline])"
    by (rule fields_of_word [OF sp [OF assms(2)] ne(2) wd [OF assms(5)] disjI2 [OF c0]])
  also have "fields_of (?r c @ [newline]) = []"
    using assms(4) sp nl by (intro fields_of_spaces) auto
  finally show ?thesis by (simp add: id)
qed

text \<open>
  The command grammar: a line of the two words \<open>/agent-trail\<close> and a verb, however blanks
  surround them, is the command of that verb (addressed but unknown for any other word), whatever
  follows; and a line whose first word is another one is skipped.
\<close>

theorem command_grammar:
  assumes "blank a" "blank b" "b \<noteq> []" "blank c" "ascii_word v"
  shows "ParseCommand (a @ ''/agent-trail'' @ b @ v @ c @ newline @ rest)
      = \<lparr>Known = (v = ''run'' \<or> v = ''revise''), Addressed = True, cmd_Verb = verb_of v\<rparr>
    \<and> (CHR 0x0A \<notin> set l \<longrightarrow> (Fields (l @ newline) = [] \<or> hd (Fields (l @ newline)) \<noteq> ''/agent-trail'') \<longrightarrow>
        ParseCommand (l @ newline @ rest) = ParseCommand rest)"
proof
  let ?l = "a @ ''/agent-trail'' @ b @ v @ c"
  have nl: "CHR 0x0A \<notin> set ?l"
    using assms by (auto simp: blank_def ascii_word_def byte_def)
  have "ascii_word ''/agent-trail''" by (simp add: ascii_word_def byte_def)
  from Fields_two [OF assms this] have "Fields (?l @ newline) = [''/agent-trail'', v]"
    by (simp only: append_assoc)
  then have "command_of_line (?l @ newline) =
      Some \<lparr>Known = (v = ''run'' \<or> v = ''revise''), Addressed = True, cmd_Verb = verb_of v\<rparr>"
    by (auto simp: command_of_line_def verb_of_def Let_def)
  with Lines_Cons [OF nl, of rest]
  show "ParseCommand (a @ ''/agent-trail'' @ b @ v @ c @ newline @ rest)
      = \<lparr>Known = (v = ''run'' \<or> v = ''revise''), Addressed = True, cmd_Verb = verb_of v\<rparr>"
    by (simp add: ParseCommand_def)
  show "CHR 0x0A \<notin> set l \<longrightarrow> (Fields (l @ newline) = [] \<or> hd (Fields (l @ newline)) \<noteq> ''/agent-trail'') \<longrightarrow>
      ParseCommand (l @ newline @ rest) = ParseCommand rest"
  proof (intro impI)
    assume "CHR 0x0A \<notin> set l" "Fields (l @ newline) = [] \<or> hd (Fields (l @ newline)) \<noteq> ''/agent-trail''"
    then show "ParseCommand (l @ newline @ rest) = ParseCommand rest"
      using Lines_Cons [of l rest] by (auto simp: ParseCommand_def command_of_line_def Let_def)
  qed
qed

theorem command_grammar_witness:
  "ParseCommand ('' /agent-trail  revise'' @ newline @ ''please'')
    = \<lparr>Known = True, Addressed = True, cmd_Verb = Some VerbRevise\<rparr>"
proof -
  have "blank '' ''" "blank ''  ''" "blank []" "ascii_word ''revise''"
    by (simp_all add: blank_def ascii_word_def byte_def)
  from conjunct1 [OF command_grammar [OF this(1,2) _ this(3,4), of "''please''"]]
  show ?thesis by (simp add: verb_of_def)
qed

end
