(* ===== verification/GitManager.thy ===== *)
theory GitManager
  imports Ops GoPath GitText
begin

text \<open>
  \<open>internal/gitworkspace\<close>: mirrors, worktrees, commits and pushes, as sequences of git commands
  and file operations (\<open>gitworkspace.go\<close>, \<open>workspace.go\<close>, \<open>commit.go\<close>, \<open>push.go\<close>,
  \<open>conflictops.go\<close>, \<open>git.go\<close>). What git and the file system answer is a parameter; every
  command is in the log with its directory and its arguments. The per-repository mutex keeps other
  attempts' commands on the same mirror out; the answers allow for whatever they leave behind.
\<close>

section \<open>Git and the file system\<close>

text \<open>A finished process with exit code, output and error output, or one that never ran.\<close>

datatype git_answer = GitExit int string string | GitNotRun string string

record git_host = host +
  x_git :: "nat \<Rightarrow> string \<Rightarrow> string list \<Rightarrow> git_answer"
  x_exists :: "nat \<Rightarrow> string \<Rightarrow> bool"
  x_mkdir :: "nat \<Rightarrow> string \<Rightarrow> err + unit"
  x_remove_all :: "nat \<Rightarrow> string \<Rightarrow> err + unit"
  x_eval_symlinks :: "nat \<Rightarrow> string \<Rightarrow> err + string"
  x_root :: string

text \<open>
  \<open>([a-zA-Z][a-zA-Z0-9+.-]*://)[^/@\s]+@\<close> at the start of a text: the scheme and what follows
  the credential. The class of the scheme has no colon and that of the user info no \<open>@\<close>, so
  taking the longest runs is the match.
\<close>

definition is_letter :: "char \<Rightarrow> bool" where
  "is_letter c \<longleftrightarrow> (65 \<le> byte c \<and> byte c \<le> 90) \<or> (97 \<le> byte c \<and> byte c \<le> 122)"

definition scheme_char :: "char \<Rightarrow> bool" where
  "scheme_char c \<longleftrightarrow> is_letter c \<or> is_digit c \<or> c \<in> {CHR ''+'', CHR ''.'', CHR ''-''}"

definition userinfo_char :: "char \<Rightarrow> bool" where
  "userinfo_char c \<longleftrightarrow>
     c \<notin> {CHR ''/'', CHR ''@'', CHR 0x09, CHR 0x0A, CHR 0x0C, CHR 0x0D, CHR '' ''}"

definition credential_match :: "string \<Rightarrow> (string \<times> string) option" where
  "credential_match s =
     (let scheme = takeWhile scheme_char s; r = dropWhile scheme_char s in
      if scheme = [] \<or> \<not> is_letter (hd scheme) then None
      else case CutPrefix r ''://'' of None \<Rightarrow> None
      | Some u \<Rightarrow>
          if takeWhile userinfo_char u = [] then None
          else (case dropWhile userinfo_char u of
              c # rest \<Rightarrow> if c = CHR ''@'' then Some (scheme @ ''://'', rest) else None
            | [] \<Rightarrow> None))"

lemma credential_match_shorter: "credential_match s = Some (p, r) \<Longrightarrow> length r < length s"
proof -
  assume m: "credential_match s = Some (p, r)"
  let ?r = "dropWhile scheme_char s"
  obtain u c where u: "CutPrefix ?r ''://'' = Some u" and d: "dropWhile userinfo_char u = c # r"
    using m by (auto simp: credential_match_def Let_def split: if_splits option.splits list.splits)
  have "length r < length u" using d length_dropWhile_le [of userinfo_char u] by simp
  also have "length u \<le> length ?r" using u by (auto simp: CutPrefix_def split: if_splits)
  also have "length ?r \<le> length s" by (rule length_dropWhile_le)
  finally show ?thesis .
qed

text \<open>\<open>ReplaceAllString(s, "$1***@")\<close>.\<close>

function redact :: "string \<Rightarrow> string" where
  "redact s =
     (case credential_match s of
        Some (p, r) \<Rightarrow> p @ ''***@'' @ redact r
      | None \<Rightarrow> (case s of [] \<Rightarrow> [] | c # cs \<Rightarrow> c # redact cs))"
  by pat_completeness auto
termination
  by (relation "measure length") (auto dest: credential_match_shorter)

declare redact.simps [simp del]

definition redactSecrets :: "string \<Rightarrow> string" where
  "redactSecrets s = TrimSpace (redact s)"

definition trim_newlines :: "string \<Rightarrow> string" where
  "trim_newlines s = trim_right_char (CHR 0x0A) s"

definition command_error :: "string list \<Rightarrow> int \<Rightarrow> string \<Rightarrow> err" where
  "command_error args code stderr =
     Msg (CommandError_Error \<lparr>ce_Op = subcommand args, ce_ExitCode = code, ce_Stderr = stderr\<rparr>)"

definition git_result :: "int list \<Rightarrow> string list \<Rightarrow> git_answer \<Rightarrow> err + (string \<times> int)" where
  "git_result okExits args ans =
     (case ans of
        GitExit code out stderr \<Rightarrow>
          if code = 0 \<or> code \<in> set okExits then Inr (trim_newlines out, code)
          else Inl (command_error args code (redactSecrets stderr))
      | GitNotRun m stderr \<Rightarrow>
          Inl (command_error args (- 1) (TrimSpace (redactSecrets m @ '' '' @ redactSecrets stderr))))"

definition runExit ::
  "('m) git_host_scheme \<Rightarrow> string \<Rightarrow> int list \<Rightarrow> string list \<Rightarrow> (string \<times> int) action" where
  "runExit H dir okExits args =
     call (GitOp dir args) (\<lambda>k. git_result okExits args (x_git H k dir args))"

definition git_run :: "('m) git_host_scheme \<Rightarrow> string \<Rightarrow> string list \<Rightarrow> string action" where
  "git_run H dir args = abind (runExit H dir [] args) (\<lambda>(out, code). ret out)"

definition fs_exists :: "('m) git_host_scheme \<Rightarrow> string \<Rightarrow> bool action" where
  "fs_exists H path = call (FsOp ''stat'' path) (\<lambda>k. Inr (x_exists H k path))"

definition fs_mkdir :: "('m) git_host_scheme \<Rightarrow> string \<Rightarrow> unit action" where
  "fs_mkdir H path = call (FsOp ''mkdir'' path) (\<lambda>k. x_mkdir H k path)"

definition fs_remove_all :: "('m) git_host_scheme \<Rightarrow> string \<Rightarrow> unit action" where
  "fs_remove_all H path = call (FsOp ''remove'' path) (\<lambda>k. x_remove_all H k path)"

definition fs_eval_symlinks :: "('m) git_host_scheme \<Rightarrow> string \<Rightarrow> string action" where
  "fs_eval_symlinks H path = call (FsOp ''readlink'' path) (\<lambda>k. x_eval_symlinks H k path)"

section \<open>Mirrors\<close>

record RepoRef =
  rr_ID :: string
  rr_CloneURL :: string

record Workspace =
  ws_AttemptID :: string
  ws_Repo :: RepoRef
  ws_Path :: string
  ws_Branch :: string
  ws_BaseSHA :: string

definition reposDir :: "('m) git_host_scheme \<Rightarrow> string" where
  "reposDir H = path_join [x_root H, ''repos'']"

definition workDir :: "('m) git_host_scheme \<Rightarrow> string" where
  "workDir H = path_join [x_root H, ''workspaces'']"

definition mirror_of :: "('m) git_host_scheme \<Rightarrow> string \<Rightarrow> string" where
  "mirror_of H rid = path_join [reposDir H, rid, ''repo.git'']"

definition workspace_path :: "('m) git_host_scheme \<Rightarrow> string \<Rightarrow> string" where
  "workspace_path H aid = path_join [workDir H, aid]"

definition unsafe_id :: "string \<Rightarrow> string \<Rightarrow> err" where
  "unsafe_id what i =
     Msg (''gitworkspace: '' @ what @ '' id '' @ quote i @ '' is not a safe path component'')"

text \<open>The root of a new manager; \<open>x_root\<close> is the root of the manager the operations belong to.\<close>

definition NewManager :: "('m) git_host_scheme \<Rightarrow> string \<Rightarrow> string action" where
  "NewManager H dir =
     (if \<not> IsAbs dir then
        fail (Msg (''gitworkspace: root '' @ quote dir @ '' must be an absolute path''))
      else let top = Clean dir in
      aseq (foreach [path_join [top, ''repos''], path_join [top, ''workspaces'']]
        (\<lambda>d. awrap (''gitworkspace: create '' @ d) (fs_mkdir H d))) (ret top))"

definition EnsureMirror :: "('m) git_host_scheme \<Rightarrow> RepoRef \<Rightarrow> string action" where
  "EnsureMirror H repo =
     (if \<not> validComponent (rr_ID repo) then fail (unsafe_id ''repository'' (rr_ID repo))
      else if rr_CloneURL repo = [] then fail (Msg ''gitworkspace: repository clone url is empty'')
      else let mirror = mirror_of H (rr_ID repo) in
      abind (fs_exists H (path_join [mirror, ''HEAD''])) (\<lambda>present.
      if present then
        aseq (awrap ''gitworkspace: refresh remote url''
          (git_run H mirror [''remote'', ''set-url'', ''origin'', ''--'', rr_CloneURL repo])) (
        aseq (awrap ''gitworkspace: fetch mirror''
          (git_run H mirror [''fetch'', ''--prune'', ''--refmap='', ''origin'', ''+refs/*:refs/*'',
             ''^refs/heads/'' @ BranchPrefix @ ''*''])) (
        aseq (awrap ''gitworkspace: fetch agent branches''
          (git_run H mirror [''fetch'', ''--prune'', ''--refmap='', ''origin'',
             ''+refs/heads/'' @ BranchPrefix @ ''*:refs/remotes/origin/'' @ BranchPrefix @ ''*''])) (
        ret mirror)))
      else
        aseq (awrap ''gitworkspace: create mirror dir'' (fs_mkdir H (Dir mirror))) (
        abind (atry (git_run H [] [''clone'', ''--mirror'', ''--'', rr_CloneURL repo, mirror])) (\<lambda>r.
        case r of
          Inl e \<Rightarrow> aseq (best_effort (fs_remove_all H (Dir mirror)))
                     (fail (Wrap ''gitworkspace: clone mirror'' e))
        | Inr _ \<Rightarrow> ret mirror))))"

section \<open>Worktrees\<close>

record WorktreeParams =
  wp_Repo :: RepoRef
  wp_AttemptID :: string
  wp_BaseSHA :: string
  wp_BranchLabel :: string
  wp_RequireBranchTip :: bool

definition verifyBranchTip :: "('m) git_host_scheme \<Rightarrow> string \<Rightarrow> string \<Rightarrow> string \<Rightarrow> unit action" where
  "verifyBranchTip H mirror branch want =
     abind (awrap ''gitworkspace: resolve branch tip''
       (runExit H mirror [1] [''rev-parse'', ''--verify'', ''--quiet'',
          ''refs/remotes/origin/'' @ branch])) (\<lambda>(tip, _).
     if tip = [] then fail (Suffix (Sentinel ErrBranchTipMoved) (branch @ '' is not on origin''))
     else if tip \<noteq> want then
       fail (Suffix (Sentinel ErrBranchTipMoved)
         (branch @ '' is at '' @ tip @ '', attempt base is '' @ want))
     else ret ())"

definition verifyBaseSHA :: "('m) git_host_scheme \<Rightarrow> string \<Rightarrow> string \<Rightarrow> unit action" where
  "verifyBaseSHA H mirror sha =
     abind (atry (git_run H mirror [''rev-parse'', ''--verify'', ''--quiet'', sha @ ''^{commit}''])) (\<lambda>r.
     if r = Inr sha then ret ()
     else fail (Wrap (''gitworkspace: '' @ sha) (Sentinel ErrBaseSHANotFound)))"

definition inside_of :: "string \<Rightarrow> string \<Rightarrow> bool" where
  "inside_of base path \<longleftrightarrow> path = base \<or> HasPrefix path (base @ ''/'')"

definition assertWithinRoot :: "('m) git_host_scheme \<Rightarrow> string \<Rightarrow> unit action" where
  "assertWithinRoot H path =
     abind (awrap ''gitworkspace: resolve workspace root'' (fs_eval_symlinks H (workDir H))) (\<lambda>root.
     abind (awrap ''gitworkspace: resolve workspace path'' (fs_eval_symlinks H path)) (\<lambda>real.
     if \<not> inside_of root real then
       fail (Msg (''gitworkspace: workspace path '' @ quote path
         @ '' resolves outside the workspace root''))
     else ret ()))"

definition CreateWorktree :: "('m) git_host_scheme \<Rightarrow> WorktreeParams \<Rightarrow> Workspace action" where
  "CreateWorktree H p =
     (if \<not> validComponent (wp_AttemptID p) then fail (unsafe_id ''attempt'' (wp_AttemptID p))
      else if \<not> ValidSHA (wp_BaseSHA p) then
        fail (Msg (''gitworkspace: base sha '' @ quote (wp_BaseSHA p)
          @ '' must be a 40-character lowercase hex commit''))
      else
      abind (lift_sum (SanitizeBranch (h_lower H) (wp_BranchLabel p))) (\<lambda>branch.
      abind (EnsureMirror H (wp_Repo p)) (\<lambda>mirror.
      aseq (verifyBaseSHA H mirror (wp_BaseSHA p)) (
      aseq (if wp_RequireBranchTip p then verifyBranchTip H mirror branch (wp_BaseSHA p) else ret ()) (
      let path = workspace_path H (wp_AttemptID p) in
      if Dir path \<noteq> workDir H then
        fail (Msg (''gitworkspace: worktree path for '' @ quote (wp_AttemptID p)
          @ '' escapes the workspace root''))
      else
      abind (fs_exists H path) (\<lambda>present.
      if present then
        fail (Msg (''gitworkspace: workspace '' @ quote (wp_AttemptID p) @ '' already exists''))
      else
      aseq (awrap ''gitworkspace: add worktree''
        (git_run H mirror [''worktree'', ''add'', ''-b'', branch, path, wp_BaseSHA p])) (
      abind (atry (assertWithinRoot H path)) (\<lambda>r.
      case r of
        Inl e \<Rightarrow>
          aseq (best_effort (git_run H mirror [''worktree'', ''remove'', ''--force'', path])) (fail e)
      | Inr _ \<Rightarrow>
          ret \<lparr>ws_AttemptID = wp_AttemptID p, ws_Repo = wp_Repo p, ws_Path = path,
               ws_Branch = branch, ws_BaseSHA = wp_BaseSHA p\<rparr>))))))))"

definition outcome :: "err + 'a \<Rightarrow> err option" where
  "outcome r = (case r of Inl e \<Rightarrow> Some e | Inr _ \<Rightarrow> None)"

definition CleanupStale ::
  "('m) git_host_scheme \<Rightarrow> RepoRef \<Rightarrow> string \<Rightarrow> string \<Rightarrow> unit action" where
  "CleanupStale H repo aid branch =
     (if \<not> validComponent (rr_ID repo) then fail (unsafe_id ''repository'' (rr_ID repo))
      else if \<not> validComponent aid then fail (unsafe_id ''attempt'' aid)
      else let mirror = mirror_of H (rr_ID repo); path = workspace_path H aid in
      aseq (best_effort (git_run H mirror [''worktree'', ''remove'', ''--force'', path])) (
      abind (atry (fs_remove_all H path)) (\<lambda>removed.
      aseq (if ValidBranch branch then best_effort (git_run H mirror [''branch'', ''-D'', branch])
            else ret ()) (
      abind (atry (git_run H mirror [''worktree'', ''prune''])) (\<lambda>pruned.
      case (outcome removed, outcome pruned) of
        (None, None) \<Rightarrow> ret ()
      | (Some e, None) \<Rightarrow> fail (Wrap ''gitworkspace: remove stale workspace'' e)
      | (e, Some p) \<Rightarrow>
          fail (the (join_errs [map_option (Wrap ''gitworkspace: remove stale workspace'') e,
                                Some (Wrap ''gitworkspace: prune worktrees'' p)])))))))"

definition WorkspaceExists :: "('m) git_host_scheme \<Rightarrow> string \<Rightarrow> bool action" where
  "WorkspaceExists H aid =
     (if \<not> validComponent aid then ret False else fs_exists H (workspace_path H aid))"

definition Lookup ::
  "('m) git_host_scheme \<Rightarrow> string \<Rightarrow> RepoRef \<Rightarrow> string \<Rightarrow> string \<Rightarrow> Workspace option action" where
  "Lookup H aid repo branch baseSHA =
     (if \<not> validComponent aid then ret None
      else let path = workspace_path H aid in
      abind (fs_exists H (path_join [path, ''.git''])) (\<lambda>present.
      ret (if present then
             Some \<lparr>ws_AttemptID = aid, ws_Repo = repo, ws_Path = path, ws_Branch = branch,
                   ws_BaseSHA = baseSHA\<rparr>
           else None)))"

definition Remove :: "('m) git_host_scheme \<Rightarrow> Workspace \<Rightarrow> unit action" where
  "Remove H w =
     (let mirror = mirror_of H (rr_ID (ws_Repo w)) in
      aseq (awrap ''gitworkspace: remove worktree''
        (git_run H mirror [''worktree'', ''remove'', ''--force'', ws_Path w])) (
      aseq (best_effort (git_run H mirror [''branch'', ''-D'', ws_Branch w])) (
      aseq (awrap ''gitworkspace: prune worktrees'' (git_run H mirror [''worktree'', ''prune''])) (
      ret ()))))"

definition Prune :: "('m) git_host_scheme \<Rightarrow> RepoRef \<Rightarrow> unit action" where
  "Prune H repo =
     (if \<not> validComponent (rr_ID repo) then fail (unsafe_id ''repository'' (rr_ID repo))
      else aseq (awrap ''gitworkspace: prune worktrees''
        (git_run H (mirror_of H (rr_ID repo)) [''worktree'', ''prune''])) (ret ()))"

text \<open>The deepest existing ancestor, resolved, with the rest joined back on; \<open>fuel\<close> bounds the
  climb and the length of the path is enough, since each step drops an element.\<close>

fun resolve_from ::
  "('m) git_host_scheme \<Rightarrow> string \<Rightarrow> nat \<Rightarrow> string \<Rightarrow> string \<Rightarrow> string action" where
  "resolve_from H target 0 cur remainder =
     fail (Msg (''gitworkspace: cannot resolve '' @ quote target))"
| "resolve_from H target (Suc fuel) cur remainder =
     abind (atry (fs_eval_symlinks H cur)) (\<lambda>r.
     case r of
       Inr resolved \<Rightarrow> ret (path_join [resolved, remainder])
     | Inl _ \<Rightarrow>
         if Dir cur = cur then fail (Msg (''gitworkspace: cannot resolve '' @ quote target))
         else resolve_from H target fuel (Dir cur) (path_join [Base cur, remainder]))"

definition resolveExisting :: "('m) git_host_scheme \<Rightarrow> string \<Rightarrow> string action" where
  "resolveExisting H target =
     (if \<not> IsAbs target then
        fail (Msg (''gitworkspace: target '' @ quote target @ '' must be an absolute path''))
      else resolve_from H target (Suc (length (Clean target))) (Clean target) [])"

definition Contains :: "('m) git_host_scheme \<Rightarrow> Workspace \<Rightarrow> string \<Rightarrow> bool action" where
  "Contains H w target =
     abind (awrap ''gitworkspace: resolve workspace'' (fs_eval_symlinks H (ws_Path w))) (\<lambda>base.
     abind (resolveExisting H target) (\<lambda>resolved. ret (inside_of base resolved)))"

section \<open>Commits and pushes\<close>

definition Commit :: "('m) git_host_scheme \<Rightarrow> Workspace \<Rightarrow> CommitParams \<Rightarrow> string action" where
  "Commit H w p =
     (if TrimSpace (cp_Message p) = [] then fail (Msg ''gitworkspace: commit message is empty'')
      else
      abind (lift_sum (buildTrailers p)) (\<lambda>trailers.
      aseq (awrap ''gitworkspace: stage changes'' (git_run H (ws_Path w) [''add'', ''-A''])) (
      abind (awrap ''gitworkspace: read status''
        (git_run H (ws_Path w) [''status'', ''--porcelain''])) (\<lambda>status.
      if status = [] then fail (Sentinel ErrNothingToCommit)
      else
      aseq (awrap ''gitworkspace: commit'' (git_run H (ws_Path w)
        [''-c'', ''user.name=Agent Trail'',
         ''-c'', ''user.email=agent-trail[bot]@users.noreply.github.com'',
         ''commit'', ''-m'', cp_Message p, ''-m'', trailers])) (
      awrap ''gitworkspace: read commit sha'' (git_run H (ws_Path w) [''rev-parse'', ''HEAD'']))))))"

definition Head :: "('m) git_host_scheme \<Rightarrow> Workspace \<Rightarrow> string action" where
  "Head H w = awrap ''gitworkspace: read head'' (git_run H (ws_Path w) [''rev-parse'', ''HEAD''])"

definition DiffStats :: "('m) git_host_scheme \<Rightarrow> Workspace \<Rightarrow> Stats action" where
  "DiffStats H w =
     abind (awrap ''gitworkspace: diff stats''
       (git_run H (ws_Path w) [''diff'', ''--numstat'', ws_BaseSHA w, ''HEAD''])) (\<lambda>out.
     lift_sum (parseNumstat out))"

definition allowedRemote :: string where
  "allowedRemote = ''origin''"

record PushParams =
  pp_Remote :: string
  pp_Force :: bool

definition push_args :: "string \<Rightarrow> string \<Rightarrow> string list" where
  "push_args remote branch =
     [''-c'', ''remote.'' @ remote @ ''.mirror=false'', ''push'', remote,
      ''refs/heads/'' @ branch @ '':refs/heads/'' @ branch]"

definition Push :: "('m) git_host_scheme \<Rightarrow> Workspace \<Rightarrow> PushParams \<Rightarrow> unit action" where
  "Push H w p =
     (let remote = (if pp_Remote p = [] then allowedRemote else pp_Remote p) in
      if remote \<noteq> allowedRemote then fail (Suffix (Sentinel ErrForbiddenRemote) (quote remote))
      else if \<not> ValidBranch (ws_Branch w) then
        fail (Suffix (Sentinel ErrForbiddenBranch) (quote (ws_Branch w)))
      else if pp_Force p then fail (Sentinel ErrForcePushDenied)
      else aseq (awrap ''gitworkspace: push''
        (git_run H (ws_Path w) (push_args remote (ws_Branch w)))) (ret ()))"

section \<open>Queries on the mirror\<close>

definition mirrorPath :: "('m) git_host_scheme \<Rightarrow> RepoRef \<Rightarrow> string action" where
  "mirrorPath H repo =
     (if \<not> validComponent (rr_ID repo) then fail (unsafe_id ''repository'' (rr_ID repo))
      else let mirror = mirror_of H (rr_ID repo) in
      abind (fs_exists H (path_join [mirror, ''HEAD''])) (\<lambda>present.
      if present then ret mirror else fail (Sentinel ErrMirrorMissing)))"

definition not_full_sha :: "string \<Rightarrow> err" where
  "not_full_sha sha = Msg (''gitworkspace: '' @ quote sha @ '' is not a full commit sha'')"

definition diffTarget :: "('m) git_host_scheme \<Rightarrow> RepoRef \<Rightarrow> string \<Rightarrow> string \<Rightarrow> string action" where
  "diffTarget H repo a b =
     abind (mirrorPath H repo) (\<lambda>mirror.
     case find (\<lambda>s. \<not> ValidSHA s) [a, b] of
       Some s \<Rightarrow> fail (not_full_sha s)
     | None \<Rightarrow> ret mirror)"

definition HasCommit :: "('m) git_host_scheme \<Rightarrow> RepoRef \<Rightarrow> string \<Rightarrow> bool action" where
  "HasCommit H repo sha =
     abind (mirrorPath H repo) (\<lambda>mirror.
     if \<not> ValidSHA sha then fail (not_full_sha sha)
     else abind (awrap ''gitworkspace: check commit''
       (runExit H mirror [1, 128] [''cat-file'', ''-e'', sha @ ''^{commit}''])) (\<lambda>(_, code).
     ret (code = 0)))"

definition ChangedFiles ::
  "('m) git_host_scheme \<Rightarrow> RepoRef \<Rightarrow> string \<Rightarrow> string \<Rightarrow> string list action" where
  "ChangedFiles H repo base head =
     abind (diffTarget H repo base head) (\<lambda>mirror.
     abind (awrap ''gitworkspace: changed files''
       (git_run H mirror [''diff'', ''--name-only'', ''--no-renames'', base, head])) (\<lambda>out.
     ret (if out = [] then [] else split_at (CHR 0x0A) out)))"

definition DiffHunks ::
  "('m) git_host_scheme \<Rightarrow> RepoRef \<Rightarrow> string \<Rightarrow> string \<Rightarrow> (string \<Rightarrow> LineRange list) action" where
  "DiffHunks H repo base head =
     abind (diffTarget H repo base head) (\<lambda>mirror.
     abind (awrap ''gitworkspace: diff hunks''
       (git_run H mirror [''diff'', ''--unified=0'', ''--no-renames'', base, head])) (\<lambda>out.
     lift_sum (parseHunks out)))"

definition Diff :: "('m) git_host_scheme \<Rightarrow> RepoRef \<Rightarrow> string \<Rightarrow> string \<Rightarrow> string action" where
  "Diff H repo base head =
     abind (diffTarget H repo base head) (\<lambda>mirror.
     awrap ''gitworkspace: diff''
       (git_run H mirror [''diff'', ''--unified=3'', ''--no-renames'', base, head]))"

definition MergeTree ::
  "('m) git_host_scheme \<Rightarrow> RepoRef \<Rightarrow> string \<Rightarrow> string \<Rightarrow> (bool \<times> string list) action" where
  "MergeTree H repo a b =
     abind (diffTarget H repo a b) (\<lambda>mirror.
     abind (awrap ''gitworkspace: merge-tree'' (runExit H mirror [1]
       [''merge-tree'', ''--write-tree'', ''--no-messages'', ''--name-only'', a, b])) (\<lambda>(out, code).
     ret (if code = 0 then (True, [])
          else (False, filter (\<lambda>l. l \<noteq> []) (tl (split_at (CHR 0x0A) out))))))"

end
