(* ===== verification/PathFacts.thy ===== *)
theory PathFacts
  imports GoPath
begin

text \<open>
  Clean absolute paths as lists of plain elements: what \<open>Clean\<close>, \<open>path_join\<close> and \<open>Dir\<close> do on them.
\<close>

text \<open>The path of a list of plain elements.\<close>

definition plain_element :: "string \<Rightarrow> bool" where
  "plain_element p \<longleftrightarrow> p \<noteq> [] \<and> p \<noteq> ''.'' \<and> p \<noteq> ''..'' \<and> CHR ''/'' \<notin> set p"

definition abs_path :: "string list \<Rightarrow> string" where
  "abs_path ps = ''/'' @ join_strings ''/'' ps"

lemma clean_plain: "list_all plain_element ps \<Longrightarrow> foldl (clean_element r) kept ps = rev ps @ kept"
  by (induction ps arbitrary: kept) (simp_all add: clean_element_def plain_element_def)

lemma join_strings_append:
  "ps \<noteq> [] \<Longrightarrow> join_strings sep (ps @ [p]) = join_strings sep ps @ sep @ p"
proof (induction ps)
  case (Cons q qs)
  then show ?case by (cases qs) auto
qed simp

lemma split_join_plain:
  assumes "list_all plain_element ps" and "ps \<noteq> []"
  shows "split_at (CHR ''/'') (join_strings ''/'' ps) = ps"
  using assms
proof (induction ps)
  case (Cons p ps)
  then show ?case
    by (cases ps) (simp_all add: split_at_single split_at_line plain_element_def)
qed simp

lemma split_abs_path:
  assumes "list_all plain_element ps" and "ps \<noteq> []"
  shows "split_at (CHR ''/'') (abs_path ps) = [] # ps"
  using split_join_plain [OF assms] by (simp add: abs_path_def)

lemma Clean_abs_path:
  assumes "list_all plain_element ps" and "ps \<noteq> []"
  shows "Clean (abs_path ps) = abs_path ps"
proof -
  have "HasPrefix (abs_path ps) ''/''" by (simp add: abs_path_def HasPrefix_def)
  moreover have "foldl (clean_element True) [] ([] # ps) = rev ps"
    using clean_plain [OF assms(1), of True "[]"] by (simp add: clean_element_def)
  ultimately have "HasPrefix (abs_path ps) ''/''" and "path_elements True (abs_path ps) = ps"
    by (simp_all add: path_elements_def split_abs_path [OF assms])
  then show ?thesis by (simp add: Clean_def) (simp add: abs_path_def)
qed

lemma abs_path_snoc: "ps \<noteq> [] \<Longrightarrow> abs_path ps @ ''/'' @ p = abs_path (ps @ [p])"
  using join_strings_append [of ps "''/''" p] by (simp add: abs_path_def)

lemma abs_path_join:
  assumes "list_all plain_element ps" and "plain_element p"
  shows "path_join [abs_path ps, p] = abs_path (ps @ [p])"
proof (cases "ps = []")
  case False
  have "abs_path ps \<noteq> []" by (simp add: abs_path_def)
  then show ?thesis
    using Clean_abs_path [of "ps @ [p]"] abs_path_snoc [OF False, of p] assms by (simp add: path_join_def)
next
  case True
  have "split_at (CHR ''/'') (''//'' @ p) = [[], [], p]"
    using assms(2) by (simp add: split_at_single plain_element_def)
  then have "path_elements True (''//'' @ p) = [p]"
    using assms(2) by (simp add: path_elements_def clean_element_def plain_element_def)
  with True show ?thesis
    by (simp add: path_join_def Clean_def HasPrefix_def abs_path_def)
qed

lemma abs_path_join2:
  assumes "list_all plain_element ps" and "ps \<noteq> []" and "plain_element p" and "plain_element q"
  shows "path_join [abs_path ps, p, q] = abs_path (ps @ [p, q])"
proof -
  have "abs_path ps \<noteq> []" by (simp add: abs_path_def)
  moreover have "abs_path ps @ ''/'' @ p @ ''/'' @ q = abs_path (ps @ [p, q])"
    using abs_path_snoc [of "ps @ [p]" q] by (simp flip: abs_path_snoc [OF assms(2), of p])
  ultimately show ?thesis
    using Clean_abs_path [of "ps @ [p, q]"] assms by (simp add: path_join_def)
qed

lemma abs_path_Dir1:
  assumes "list_all plain_element ps" and "ps \<noteq> []" and "plain_element p"
  shows "Dir (abs_path (ps @ [p])) = abs_path ps"
proof -
  have last: "last_element (abs_path (ps @ [p])) = p"
    using assms by (simp add: last_element_def split_abs_path)
  have "abs_path (ps @ [p]) = (abs_path ps @ ''/'') @ p"
    using join_strings_append [OF assms(2), of "''/''" p] by (simp add: abs_path_def)
  then have "take (length (abs_path (ps @ [p])) - length p) (abs_path (ps @ [p])) = abs_path ps @ ''/''"
    by simp
  then have "Dir (abs_path (ps @ [p])) = Clean (abs_path ps @ ''/'')"
    by (simp add: Dir_def last)
  also have "\<dots> = abs_path ps"
  proof -
    have ne: "join_strings ''/'' ps @ ''/'' = join_strings ''/'' (ps @ [[]])"
      using join_strings_append [OF assms(2), of "''/''" "[]"] by simp
    have "split_at (CHR ''/'') (join_strings ''/'' (ps @ [[]])) = ps @ [[]]"
      using assms(1,2)
    proof (induction ps)
      case (Cons q qs)
      then show ?case by (cases qs) (simp_all add: split_at_line plain_element_def)
    qed simp
    then have "split_at (CHR ''/'') (abs_path ps @ ''/'') = [] # ps @ [[]]"
      by (simp add: abs_path_def flip: ne)
    moreover have "foldl (clean_element True) [] ([] # ps @ [[]]) = rev ps"
      using clean_plain [OF assms(1), of True "[]"] by (simp add: clean_element_def)
    moreover have "HasPrefix (abs_path ps @ ''/'') ''/''" by (simp add: abs_path_def HasPrefix_def)
    ultimately have "HasPrefix (abs_path ps @ ''/'') ''/''"
      and "path_elements True (abs_path ps @ ''/'') = ps"
      by (simp_all add: path_elements_def)
    then show ?thesis by (simp add: Clean_def) (simp add: abs_path_def)
  qed
  finally show ?thesis .
qed

lemma abs_path_Dir:
  assumes "list_all plain_element ps" and "plain_element p"
  shows "Dir (abs_path (ps @ [p])) = abs_path ps"
proof (cases "ps = []")
  case True
  have "last_element (abs_path [p]) = p"
    using assms(2) by (simp add: last_element_def split_abs_path)
  then have "Dir (abs_path [p]) = Clean ''/''" by (simp add: Dir_def abs_path_def)
  also have "\<dots> = abs_path []" by (simp add: abs_path_def) code_simp
  finally show ?thesis using True by simp
qed (simp add: abs_path_Dir1 assms)

lemma Dir_root: "Dir (abs_path []) = abs_path []"
  by (simp add: abs_path_def) code_simp

text \<open>Cleaning an absolute path leaves plain elements.\<close>

lemma clean_rooted_plain:
  "list_all plain_element kept \<Longrightarrow> (\<And>p. p \<in> set ps \<Longrightarrow> CHR ''/'' \<notin> set p) \<Longrightarrow>
    list_all plain_element (foldl (clean_element True) kept ps)"
proof (induction ps arbitrary: kept)
  case (Cons p ps)
  have slash: "CHR ''/'' \<notin> set p" using Cons.prems(2) by simp
  have "list_all plain_element (clean_element True kept p)"
    using Cons.prems(1) slash
    by (cases kept) (auto simp: clean_element_def plain_element_def [of p] plain_element_def [of "''..''"])
  with Cons show ?case by simp
qed simp

lemma Clean_absolute:
  assumes "IsAbs s"
  obtains ps where "list_all plain_element ps" and "Clean s = abs_path ps"
proof
  show "list_all plain_element (path_elements True s)"
    using clean_rooted_plain [of "[]" "split_at (CHR ''/'') s"] split_at_no_sep
    by (auto simp: path_elements_def list_all_iff)
  show "Clean s = abs_path (path_elements True s)"
    using assms by (simp add: Clean_def IsAbs_def) (simp add: abs_path_def)
qed

lemma length_abs_path: "list_all plain_element ps \<Longrightarrow> length ps < length (abs_path ps)"
proof (induction ps rule: rev_induct)
  case (snoc p ps)
  then have "length ps < length (abs_path ps)" and "p \<noteq> []" by (simp_all add: plain_element_def)
  then show ?case
    using arg_cong [OF abs_path_snoc [of ps p], of length]
    by (cases "ps = []"; cases p) (auto simp: abs_path_def)
qed (simp add: abs_path_def)

end
