(* ===== verification/GitConfine.thy ===== *)
theory GitConfine
  imports GitManager GitProps PathFacts DeliveryProps
begin

text \<open>
  Where the git layer works: every directory it makes, removes or hands to git lies below the
  manager's root, every branch it creates or deletes is one of the agent's, and the climb of the
  containment check ends.
\<close>

section \<open>Layout below the root\<close>

lemma validComponent_plain: "validComponent s \<Longrightarrow> plain_element s"
  by (cases s) (auto simp: validComponent_def plain_element_def list_ex_iff)

lemma yields_NewManager: "yields (NewManager H dir) r \<Longrightarrow> IsAbs dir \<and> r = Clean dir"
  by (auto simp: NewManager_def Let_def split: if_splits dest!: yields_abind)

text \<open>The directories of a manager made by \<open>NewManager\<close>.\<close>

definition laid_out :: "('m) git_host_scheme \<Rightarrow> string list \<Rightarrow> bool" where
  "laid_out H ps \<longleftrightarrow> list_all plain_element ps \<and> x_root H = abs_path ps"

lemma laid_outE:
  assumes "yields (NewManager H dir) (x_root H)"
  obtains ps where "laid_out H ps"
  using yields_NewManager [OF assms] Clean_absolute [of dir] unfolding laid_out_def by metis

lemma plain_names [simp]:
  "plain_element ''repos''" "plain_element ''workspaces''" "plain_element ''repo.git''"
  by (simp_all add: plain_element_def)

lemma layout_paths:
  assumes "laid_out H ps"
  shows reposDir_path: "reposDir H = abs_path (ps @ [''repos''])"
    and workDir_path: "workDir H = abs_path (ps @ [''workspaces''])"
  using assms by (simp_all add: laid_out_def reposDir_def workDir_def abs_path_join)

section \<open>Confined effects\<close>

text \<open>A directory of one repository or one attempt, directly below the two of the root.\<close>

definition owned_dir :: "('m) git_host_scheme \<Rightarrow> string \<Rightarrow> bool" where
  "owned_dir H path \<longleftrightarrow> Dir path = workDir H \<or> Dir path = reposDir H"

text \<open>The directories a git command makes or removes, and the branches it makes or deletes.\<close>

definition command_dirs :: "string list \<Rightarrow> string list" where
  "command_dirs args =
     (if take 1 args = [''clone''] then [Dir (last args)]
      else if take 2 args = [''worktree'', ''add''] then [args ! 4]
      else if take 2 args = [''worktree'', ''remove''] then [last args]
      else [])"

definition command_branches :: "string list \<Rightarrow> string list" where
  "command_branches args =
     (if take 2 args = [''worktree'', ''add''] then [args ! 3]
      else if take 1 args = [''branch''] then [last args]
      else [])"

definition confined :: "('m) git_host_scheme \<Rightarrow> effect \<Rightarrow> bool" where
  "confined H e = (case e of
     FsOp op path \<Rightarrow> if op = ''mkdir'' \<or> op = ''remove'' then owned_dir H path else True
   | GitOp dir args \<Rightarrow>
       (if dir = [] then take 1 args = [''clone''] else owned_dir H dir \<or> owned_dir H (Dir dir))
       \<and> list_all (owned_dir H) (command_dirs args) \<and> list_all ValidBranch (command_branches args)
   | _ \<Rightarrow> False)"

text \<open>The mirror of a repository and the worktree of an attempt.\<close>

definition repo_mirror :: "('m) git_host_scheme \<Rightarrow> string \<Rightarrow> bool" where
  "repo_mirror H m \<longleftrightarrow> m \<noteq> [] \<and> Dir (Dir m) = reposDir H"

definition attempt_dir :: "('m) git_host_scheme \<Rightarrow> string \<Rightarrow> bool" where
  "attempt_dir H m \<longleftrightarrow> m \<noteq> [] \<and> Dir m = workDir H"

lemma attempt_dir_workspace:
  assumes "laid_out H ps" and "validComponent aid"
  shows "attempt_dir H (workspace_path H aid)"
proof -
  have "workspace_path H aid = abs_path ((ps @ [''workspaces'']) @ [aid])"
    unfolding workspace_path_def workDir_path [OF assms(1)]
    using assms by (intro abs_path_join) (simp_all add: laid_out_def validComponent_plain)
  moreover have "Dir (abs_path ((ps @ [''workspaces'']) @ [aid])) = workDir H"
    unfolding workDir_path [OF assms(1)]
    using assms by (intro abs_path_Dir) (simp_all add: laid_out_def validComponent_plain)
  ultimately show ?thesis by (simp add: attempt_dir_def abs_path_def)
qed

lemma repo_mirror_mirror:
  assumes "laid_out H ps" and "validComponent rid"
  shows "repo_mirror H (mirror_of H rid)"
proof -
  have plain: "list_all plain_element ps" "plain_element rid"
    using assms by (simp_all add: laid_out_def validComponent_plain)
  have "mirror_of H rid = abs_path ((ps @ [''repos'', rid]) @ [''repo.git''])"
    unfolding mirror_of_def reposDir_path [OF assms(1)]
    using plain abs_path_join2 [of "ps @ [''repos'']" rid "''repo.git''"] by simp
  moreover have "Dir (abs_path ((ps @ [''repos'', rid]) @ [''repo.git''])) = abs_path ((ps @ [''repos'']) @ [rid])"
    using plain by (subst abs_path_Dir) simp_all
  moreover have "Dir (abs_path ((ps @ [''repos'']) @ [rid])) = reposDir H"
    unfolding reposDir_path [OF assms(1)] using plain by (intro abs_path_Dir) simp_all
  ultimately show ?thesis by (simp add: repo_mirror_def abs_path_def)
qed

section \<open>The operations\<close>

lemma confined_mirror_git:
  "repo_mirror H m \<Longrightarrow> command_dirs args = [] \<Longrightarrow> command_branches args = [] \<Longrightarrow> confined H (GitOp m args)"
  by (simp add: confined_def repo_mirror_def owned_dir_def)

lemma confined_attempt_git:
  "attempt_dir H m \<Longrightarrow> command_dirs args = [] \<Longrightarrow> command_branches args = [] \<Longrightarrow> confined H (GitOp m args)"
  by (simp add: confined_def attempt_dir_def owned_dir_def)

lemma confined_worktree:
  assumes "repo_mirror H m" and "attempt_dir H path"
  shows "ValidBranch b \<Longrightarrow> confined H (GitOp m [''worktree'', ''add'', ''-b'', b, path, sha])"
    and "confined H (GitOp m [''worktree'', ''remove'', ''--force'', path])"
    and "ValidBranch b \<Longrightarrow> confined H (GitOp m [''branch'', ''-D'', b])"
    and "confined H (FsOp ''remove'' path)" and "confined H (FsOp ''remove'' (Dir m))"
    and "confined H (FsOp ''mkdir'' (Dir m))"
    and "confined H (GitOp [] [''clone'', ''--mirror'', ''--'', url, m])"
  using assms
  by (simp_all add: confined_def command_dirs_def command_branches_def repo_mirror_def
      attempt_dir_def owned_dir_def)

lemma confined_fs_read [simp]: "confined H (FsOp ''stat'' p)" "confined H (FsOp ''readlink'' p)"
  by (simp_all add: confined_def)

lemma confined_git_run: "confined H (GitOp d args) \<Longrightarrow> runs (confined H) (git_run H d args)"
  and confined_runExit: "confined H (GitOp d args) \<Longrightarrow> runs (confined H) (runExit H d ok args)"
  by (auto simp: git_run_def runExit_def intro!: runs_intros)

lemma confined_fs:
  "runs (confined H) (fs_exists H p)" "runs (confined H) (fs_eval_symlinks H p)"
  "confined H (FsOp ''mkdir'' p) \<Longrightarrow> runs (confined H) (fs_mkdir H p)"
  "confined H (FsOp ''remove'' p) \<Longrightarrow> runs (confined H) (fs_remove_all H p)"
  by (auto simp: fs_exists_def fs_eval_symlinks_def fs_mkdir_def fs_remove_all_def intro!: runs_intros)

lemmas command_defs = command_dirs_def command_branches_def

lemma SanitizeBranch_valid: "SanitizeBranch low raw = Inr b \<Longrightarrow> ValidBranch b"
  by (auto simp: SanitizeBranch_slug slug_prefix slug_of_is_slug split: if_splits)

lemma confined_EnsureMirror:
  assumes "laid_out H ps"
  shows "runs (confined H) (EnsureMirror H repo)"
proof -
  have m: "repo_mirror H (mirror_of H (rr_ID repo))" if "validComponent (rr_ID repo)"
    using repo_mirror_mirror [OF assms that] .
  have a: "attempt_dir H (workspace_path H ''a'')" 
    by (rule attempt_dir_workspace [OF assms]) code_simp
  show ?thesis
    unfolding EnsureMirror_def Let_def
    by (intro runs_intros confined_git_run confined_fs confined_mirror_git confined_worktree [OF _ a])
      (auto simp: m command_defs)
qed

lemma yields_EnsureMirror:
  "yields (EnsureMirror H repo) m \<Longrightarrow> validComponent (rr_ID repo) \<and> m = mirror_of H (rr_ID repo)"
  by (auto simp: EnsureMirror_def Let_def split: if_splits sum.splits dest!: yields_abind)

text \<open>A workspace the manager made: its worktree, its branch and its mirror.\<close>

definition own_workspace :: "('m) git_host_scheme \<Rightarrow> Workspace \<Rightarrow> bool" where
  "own_workspace H ws \<longleftrightarrow> attempt_dir H (ws_Path ws) \<and> ValidBranch (ws_Branch ws)
     \<and> validComponent (rr_ID (ws_Repo ws))"

lemma confined_CreateWorktree:
  assumes "laid_out H ps"
  shows "runs (confined H) (CreateWorktree H p)"
proof (cases "validComponent (wp_AttemptID p)")
  case True
  note path = attempt_dir_workspace [OF assms True]
  have tip: "runs (confined H) (verifyBranchTip H m b want)"
    and base: "runs (confined H) (verifyBaseSHA H m want)" if "repo_mirror H m" for m b want
    unfolding verifyBranchTip_def verifyBaseSHA_def
    by (intro runs_intros confined_git_run confined_runExit confined_mirror_git that;
        simp add: command_defs)+
  have within: "runs (confined H) (assertWithinRoot H q)" for q
    unfolding assertWithinRoot_def by (intro runs_intros confined_fs)
  show ?thesis
    unfolding CreateWorktree_def Let_def
    apply (intro runs_if runs_fail runs_abind [OF runs_lift_sum] runs_abind [OF confined_EnsureMirror [OF assms]])
    subgoal premises got for b m
    proof -
      have b: "ValidBranch b" and m: "repo_mirror H m"
        using got yields_EnsureMirror repo_mirror_mirror [OF assms]
        by (auto dest: SanitizeBranch_valid dest!: yields_EnsureMirror)
      show ?thesis
        by (intro runs_intros tip base within confined_fs confined_git_run confined_worktree [OF m path] m b)
    qed
    done
qed (simp add: CreateWorktree_def runs_fail)

lemma yields_CreateWorktree:
  assumes "laid_out H ps" and "yields (CreateWorktree H p) ws"
  shows "own_workspace H ws" and "ws_Repo ws = wp_Repo p"
  using assms(2) attempt_dir_workspace [OF assms(1)] 
  by (auto simp: CreateWorktree_def Let_def own_workspace_def SanitizeBranch_valid
      split: if_splits sum.splits dest!: yields_abind yields_EnsureMirror)

lemma confined_CleanupStale:
  assumes "laid_out H ps"
  shows "runs (confined H) (CleanupStale H repo aid b)"
proof (cases "validComponent (rr_ID repo) \<and> validComponent aid")
  case True
  then have m: "repo_mirror H (mirror_of H (rr_ID repo))" and a: "attempt_dir H (workspace_path H aid)"
    using repo_mirror_mirror [OF assms] attempt_dir_workspace [OF assms] by blast+
  have ends: "runs (confined H) (case (r, q) of (None, None) \<Rightarrow> ret () | (Some e, None) \<Rightarrow> fail (f e)
      | (e, Some z) \<Rightarrow> fail (g e z))" for r q and f :: "err \<Rightarrow> err" and g
    by (cases r; cases q) (simp_all add: runs_ret runs_fail)
  show ?thesis
    unfolding CleanupStale_def Let_def
    by (intro runs_intros ends confined_fs confined_git_run confined_worktree [OF m a] confined_mirror_git [OF m])
      (simp_all add: command_defs)
qed (auto simp: CleanupStale_def runs_fail)

lemma confined_on_workspace:
  assumes "laid_out H ps" and ws: "own_workspace H ws"
  shows "runs (confined H) (Remove H ws)" "runs (confined H) (Commit H ws q)"
    "runs (confined H) (Head H ws)" "runs (confined H) (DiffStats H ws)" "runs (confined H) (Push H ws pp)"
proof -
  have a: "attempt_dir H (ws_Path ws)" and b: "ValidBranch (ws_Branch ws)"
    and m: "repo_mirror H (mirror_of H (rr_ID (ws_Repo ws)))"
    using ws repo_mirror_mirror [OF assms(1)] by (auto simp: own_workspace_def)
  show "runs (confined H) (Remove H ws)"
    unfolding Remove_def Let_def
    by (intro runs_intros confined_git_run confined_worktree [OF m a] confined_mirror_git [OF m] b)
      (simp_all add: command_defs)
  show "runs (confined H) (Commit H ws q)"
    unfolding Commit_def
    by (intro runs_intros confined_git_run confined_attempt_git [OF a]) (simp_all add: command_defs)
  show "runs (confined H) (Head H ws)" "runs (confined H) (DiffStats H ws)"
    "runs (confined H) (Push H ws pp)"
    unfolding Head_def DiffStats_def Push_def Let_def push_args_def
    by (intro runs_intros confined_git_run confined_attempt_git [OF a]; simp add: command_defs)+
qed

text \<open>
  C31. The git layer stays inside its root. Whatever git and the file system answer, an operation of a
  manager made by \<open>NewManager\<close> only makes or removes directories of one repository or one
  attempt right below the manager's two directories, runs git nowhere else, and creates or deletes
  only agent branches; this also holds of every operation on a workspace it created. Ids that could
  lead elsewhere are refused.
\<close>

theorem git_layer_confined:
  assumes "yields (NewManager H dir) (x_root H)"
  shows "runs (confined H) (EnsureMirror H repo) \<and> runs (confined H) (CreateWorktree H p)
    \<and> runs (confined H) (CleanupStale H repo aid b)
    \<and> (\<forall>ws. yields (CreateWorktree H p) ws \<longrightarrow>
        runs (confined H) (Remove H ws) \<and> runs (confined H) (Commit H ws q)
        \<and> runs (confined H) (Push H ws pp) \<and> runs (confined H) (DiffStats H ws))"
proof -
  obtain ps where ps: "laid_out H ps" using laid_outE [OF assms] .
  note own = yields_CreateWorktree(1) [OF ps]
  show ?thesis
    using confined_EnsureMirror [OF ps] confined_CreateWorktree [OF ps] confined_CleanupStale [OF ps]
      confined_on_workspace [OF ps own] by blast
qed

text \<open>A manager at \<open>/w\<close> whose git finds every commit, and a worktree it makes.\<close>

definition demo_git_host :: git_host where
  "demo_git_host = \<lparr>h_env = (\<lambda>k. demo_env (int k)), h_others = (\<lambda>k d. d), h_api = demo_api,
     h_lower = (\<lambda>r. r), h_other_records = (\<lambda>k r. r),
     x_git = (\<lambda>k dir args. GitExit 0 (if hd args = ''rev-parse'' then demo_sha else []) []),
     x_exists = (\<lambda>k p. False), x_mkdir = (\<lambda>k p. Inr ()), x_remove_all = (\<lambda>k p. Inr ()),
     x_eval_symlinks = (\<lambda>k p. Inr p), x_root = ''/w''\<rparr>"

definition demo_worktree :: WorktreeParams where
  "demo_worktree = \<lparr>wp_Repo = \<lparr>rr_ID = ''r'', rr_CloneURL = ''u''\<rparr>, wp_AttemptID = ''a'',
     wp_BaseSHA = demo_sha, wp_BranchLabel = ''t1'', wp_RequireBranchTip = False\<rparr>"

definition demo_workspace :: Workspace where
  "demo_workspace = \<lparr>ws_AttemptID = ''a'', ws_Repo = \<lparr>rr_ID = ''r'', rr_CloneURL = ''u''\<rparr>,
     ws_Path = ''/w/workspaces/a'', ws_Branch = ''agent-trail/t1'', ws_BaseSHA = demo_sha\<rparr>"

lemma demo_manager: "fst (NewManager demo_git_host ''/w'' (demo_world empty_db)) = Inr ''/w''"
  by code_simp

lemma demo_host_simps [simp]:
  "x_git demo_git_host k d (a # as) = GitExit 0 (if a = ''rev-parse'' then demo_sha else []) []"
  "x_exists demo_git_host k p = False" "x_mkdir demo_git_host k p = Inr ()"
  "x_eval_symlinks demo_git_host k p = Inr p" "h_lower demo_git_host = (\<lambda>r. r)"
  by (simp_all add: demo_git_host_def)

lemma demo_names:
  "validComponent ''a''" "validComponent ''r''" "ValidSHA demo_sha" "trim_newlines demo_sha = demo_sha"
  "SanitizeBranch (\<lambda>r. r) ''t1'' = Inr ''agent-trail/t1''"
  "workspace_path demo_git_host ''a'' = ''/w/workspaces/a''" "workDir demo_git_host = ''/w/workspaces''"
  "Dir ''/w/workspaces/a'' = ''/w/workspaces''"
  "inside_of ''/w/workspaces'' ''/w/workspaces/a''"
  by code_simp+

lemma demo_worktree_made:
  "\<exists>w'. CreateWorktree demo_git_host demo_worktree w = (Inr demo_workspace, w')"
  by (simp add: CreateWorktree_def EnsureMirror_def verifyBaseSHA_def assertWithinRoot_def
      fs_exists_def fs_mkdir_def fs_eval_symlinks_def git_run_def runExit_def git_result_def
      demo_worktree_def demo_workspace_def demo_names abind_def awrap_def atry_def ret_def
      lift_sum_def call_def Let_def)

theorem git_layer_confined_witness:
  "runs (confined demo_git_host) (CreateWorktree demo_git_host demo_worktree)
    \<and> yields (CreateWorktree demo_git_host demo_worktree) demo_workspace
    \<and> runs (confined demo_git_host) (Remove demo_git_host demo_workspace)"
proof -
  have root: "yields (NewManager demo_git_host ''/w'') (x_root demo_git_host)"
    unfolding yields_def using demo_manager
    by (intro exI [of _ "demo_world empty_db"]
        exI [of _ "snd (NewManager demo_git_host ''/w'' (demo_world empty_db))"])
      (simp add: prod_eq_iff demo_git_host_def)
  have ws: "yields (CreateWorktree demo_git_host demo_worktree) demo_workspace"
    using demo_worktree_made unfolding yields_def by blast
  from git_layer_confined [OF root] ws show ?thesis by blast
qed

section \<open>The containment check\<close>

text \<open>The climb ends at the root: \<open>fuel\<close> above the number of elements is never used up.\<close>

lemma resolve_from_enough:
  "list_all plain_element ps \<Longrightarrow> length ps < n \<Longrightarrow> length ps < m \<Longrightarrow>
    resolve_from H target n (abs_path ps) rest w = resolve_from H target m (abs_path ps) rest w"
proof (induction ps arbitrary: n m rest w rule: rev_induct)
  case Nil
  then obtain k j where "n = Suc k" "m = Suc j" by (cases n; cases m) auto
  moreover obtain r w1 where r: "fs_eval_symlinks H (abs_path []) w = (r, w1)"
    by (cases "fs_eval_symlinks H (abs_path []) w")
  ultimately show ?case by (cases r) (simp_all add: abind_def atry_def ret_def r Dir_root)
next
  case (snoc p ps)
  obtain k j where nm: "n = Suc k" "m = Suc j" "length ps < k" "length ps < j"
    using snoc.prems(2,3) by (cases n; cases m) auto
  have dir: "Dir (abs_path (ps @ [p])) = abs_path ps" using snoc.prems(1) by (simp add: abs_path_Dir)
  have "list_all plain_element ps" using snoc.prems(1) by simp
  note ih = snoc.IH [OF this nm(3,4)]
  obtain r w1 where r: "fs_eval_symlinks H (abs_path (ps @ [p])) w = (r, w1)"
    by (cases "fs_eval_symlinks H (abs_path (ps @ [p])) w")
  show ?case by (cases r) (simp_all add: nm(1,2) abind_def atry_def ret_def r dir ih)
qed

text \<open>
  C35. The containment check ends. For every absolute target the climb to an existing ancestor stops
  by itself, at the root at the latest: with any number of steps above the length of the cleaned
  target its answer and its effects are those of the check.
\<close>

theorem containment_check_ends:
  assumes "IsAbs target" and "length (Clean target) \<le> n"
  shows "resolve_from H target n (Clean target) [] w = resolveExisting H target w"
proof -
  obtain ps where ps: "list_all plain_element ps" "Clean target = abs_path ps"
    using Clean_absolute [OF assms(1)] .
  have "length ps < length (Clean target)" using length_abs_path [OF ps(1)] ps(2) by simp
  with assms(2) have n: "length ps < n" and m: "length ps < Suc (length (Clean target))" by simp_all
  show ?thesis
    using resolve_from_enough [OF ps(1) n m, of H target "[]" w] assms(1)
    by (simp add: resolveExisting_def ps(2))
qed

theorem containment_check_ends_witness:
  "resolve_from demo_git_host ''/w//x/../y/'' 4 ''/w/y'' [] (demo_world empty_db) =
    resolveExisting demo_git_host ''/w//x/../y/'' (demo_world empty_db)"
proof -
  have "Clean ''/w//x/../y/'' = ''/w/y''" "IsAbs ''/w//x/../y/''" by code_simp+
  with containment_check_ends [of "''/w//x/../y/''" 4 demo_git_host "demo_world empty_db"]
  show ?thesis by simp
qed

end
