(* ===== verification/RunnerOps.thy ===== *)
theory RunnerOps
  imports GitManager
begin

text \<open>
  What the executor of an attempt stands on: the surroundings of a runner, its records as actions,
  and the guarded primitives of \<open>internal/runner/executor.go\<close> that every stage is made of: the
  lease fence, a fenced transition, an appended event, a fenced failure.

  The surroundings answer by the number of the operation: whether the attempt's context has ended
  and with which cause (a deadline, a cancelled task, a shutdown, a heartbeat that lost the lease),
  whether the heartbeat goroutine has marked the lease lost, how many retries fit into a fence's
  timeout, what a select between the agent's next event and the end of the context picks. The
  test hooks of \<open>Executor\<close> are nil, as they are outside its tests.
\<close>

section \<open>Agents\<close>

datatype agent_event_type =
    EventSessionStarted | EventAssistantMessage | EventPlan | EventToolRequested
  | EventToolStarted | EventToolOutput | EventToolCompleted | EventFileRead | EventFileWritten
  | EventCostUpdate | EventWarning | EventSessionCompleted | EventSessionFailed
  | EventOther string

record AgentEvent =
  ae_Type :: agent_event_type
  ae_Payload :: json

text \<open>
  A session as its consumer sees it: the events until the channel closes, the result of \<open>Wait\<close>,
  and how stopping it went: \<open>Cancel\<close>'s error, whether the stop timeout passed, and what the
  drained session returned.
\<close>

record session =
  se_Events :: "AgentEvent list"
  se_Wait :: "err + string"
  se_Cancel :: "err + unit"
  se_StopTimedOut :: bool
  se_Drained :: "err option"

section \<open>The surroundings of a runner\<close>

record parsed_url =
  u_Scheme :: string
  u_Host :: string

record runner_host = git_host +
  x_ctx :: "nat \<Rightarrow> (err \<times> err) option"
  x_select_done :: "nat \<Rightarrow> bool"
  x_settle_done :: "nat \<Rightarrow> bool"
  x_heartbeat_lost :: "nat \<Rightarrow> bool"
  x_fence_retries :: "nat \<Rightarrow> nat"
  x_cost :: "json list \<Rightarrow> string option"
  x_yaml :: "string \<Rightarrow> err + File"
  x_files :: "nat \<Rightarrow> string \<Rightarrow> workspace_root"
  x_run_check :: "nat \<Rightarrow> string \<Rightarrow> Check \<Rightarrow> cmd_outcome"
  x_token :: "nat \<Rightarrow> int \<Rightarrow> err + string"
  x_parse_url :: "string \<Rightarrow> err + parsed_url"
  x_url_with_user :: "string \<Rightarrow> string \<Rightarrow> string \<Rightarrow> string"
  x_temp_dir :: "nat \<Rightarrow> err + string"
  x_start :: "nat \<Rightarrow> string \<Rightarrow> string \<Rightarrow> err + session"
  x_assess :: "nat \<Rightarrow> SemanticRequest \<Rightarrow> err + SemanticVerdict"

text \<open>The fields of \<open>Executor\<close> that choose what it does; nil is \<open>False\<close>.\<close>

record executor =
  ec_RunnerID :: string
  ec_Workspaces :: bool
  ec_GitHub :: bool
  ec_Repos :: bool
  ec_Conflicts :: bool
  ec_Semantic :: bool
  ec_AdapterName :: string
  ec_LeaseDuration :: time
  ec_DefaultRuntime :: time
  ec_SessionStopTimeout :: time

text \<open>\<open>ctx.Err()\<close> and \<open>context.Cause(ctx)\<close>; a live context has neither.\<close>

definition ctx_err :: "('m) runner_host_scheme \<Rightarrow> err option action" where
  "ctx_err H = (\<lambda>w. (Inr (map_option fst (x_ctx H (w_ops w))), w))"

definition ctx_cause :: "('m) runner_host_scheme \<Rightarrow> err option action" where
  "ctx_cause H = (\<lambda>w. (Inr (map_option snd (x_ctx H (w_ops w))), w))"

text \<open>The context of a settlement ends with its timeout only.\<close>

definition settle_ctx_err :: "('m) runner_host_scheme \<Rightarrow> err option action" where
  "settle_ctx_err H =
     (\<lambda>w. (Inr (if x_settle_done H (w_ops w) then Some (Sentinel ContextDeadlineExceeded) else None), w))"

text \<open>\<open>leaseOwnershipLost\<close>: the mark stays once the heartbeat or a fence has set it.\<close>

definition lease_lost :: "('m) runner_host_scheme \<Rightarrow> bool action" where
  "lease_lost H = (\<lambda>w. let l = w_lost w \<or> x_heartbeat_lost H (w_ops w) in (Inr l, w\<lparr>w_lost := l\<rparr>))"

definition markLeaseLost :: "unit action" where
  "markLeaseLost = (\<lambda>w. (Inr (), w\<lparr>w_lost := True\<rparr>))"

section \<open>The records as actions\<close>

definition op_InsertResult :: "('m) runner_host_scheme \<Rightarrow> string \<Rightarrow> Result \<Rightarrow> unit action" where
  "op_InsertResult H aid res = rec_write H (DbInsertResult aid (res_Name res))
     (\<lambda>E d r. bind_sum (InsertResult E aid res d (validation_results r)) (\<lambda>vs.
        Inr ((), r\<lparr>validation_results := vs\<rparr>)))"

definition op_ListResultsForAttempt ::
  "('m) runner_host_scheme \<Rightarrow> string \<Rightarrow> (int \<times> ValidationRow) list action" where
  "op_ListResultsForAttempt H aid =
     rec_read H (\<lambda>E d r. ListResultsForAttempt E aid d (validation_results r))"

definition op_InsertReport :: "('m) runner_host_scheme \<Rightarrow> string \<Rightarrow> Report \<Rightarrow> string \<Rightarrow> unit action"
where
  "op_InsertReport H aid rep md = rec_write H (DbInsertReport aid)
     (\<lambda>E d r. bind_sum (InsertReport E aid rep md d (evidence_reports r)) (\<lambda>es.
        Inr ((), r\<lparr>evidence_reports := es\<rparr>)))"

definition op_GetReportForAttempt ::
  "('m) runner_host_scheme \<Rightarrow> string \<Rightarrow> (int \<times> EvidenceRow) action" where
  "op_GetReportForAttempt H aid =
     rec_read H (\<lambda>E d r. GetReportForAttempt E aid d (evidence_reports r))"

definition op_ListAttemptHistory ::
  "('m) runner_host_scheme \<Rightarrow> string \<Rightarrow> AttemptHistory list action" where
  "op_ListAttemptHistory H tid =
     rec_read H (\<lambda>E d r. ListAttemptHistory (x_cost H) E tid d (validation_results r))"

definition op_ActiveSiblings ::
  "('m) runner_host_scheme \<Rightarrow> string \<Rightarrow> string \<Rightarrow> Sibling list action" where
  "op_ActiveSiblings H rid tid = db_read H (\<lambda>E. ActiveSiblings E rid tid)"

definition op_Reconcile ::
  "('m) runner_host_scheme \<Rightarrow> string \<Rightarrow> string \<Rightarrow> Detection list \<Rightarrow> unit action" where
  "op_Reconcile H rid tid dets = rec_write H (DbReconcile tid)
     (\<lambda>E d r. bind_sum (Reconcile E rid tid dets d (task_conflicts r)) (\<lambda>cs.
        Inr ((), r\<lparr>task_conflicts := cs\<rparr>)))"

definition op_Events :: "('m) runner_host_scheme \<Rightarrow> string \<Rightarrow> int \<Rightarrow> (int \<times> Event) list action" where
  "op_Events H tid n = db_read H (\<lambda>E. Events E tid n)"

definition op_AttemptStartedAt :: "('m) runner_host_scheme \<Rightarrow> string \<Rightarrow> time option action" where
  "op_AttemptStartedAt H aid = db_read H (\<lambda>E. AttemptStartedAt E aid)"

definition gh_InstallationToken :: "('m) runner_host_scheme \<Rightarrow> int \<Rightarrow> string action" where
  "gh_InstallationToken H i = call (GhRead ''InstallationToken'') (\<lambda>k. x_token H k i)"

section \<open>The fence\<close>

text \<open>
  \<open>fenceLeaseOwnership\<close> extends the lease before a guarded step, retrying an error that is not a
  lost lease as often as its timeout allows.
\<close>

fun fence_retry :: "('m) runner_host_scheme \<Rightarrow> executor \<Rightarrow> Claim \<Rightarrow> nat \<Rightarrow> unit action" where
  "fence_retry H X c n =
     abind (atry (op_ExtendLease H (k_AttemptID c) (ec_RunnerID X) (ec_LeaseDuration X))) (\<lambda>r.
     case r of
       Inr _ \<Rightarrow> ret ()
     | Inl e \<Rightarrow>
         if err_is ErrLeaseLost e then aseq markLeaseLost (fail e)
         else (case n of
             0 \<Rightarrow> fail (Join [e, Sentinel ContextDeadlineExceeded])
           | Suc m \<Rightarrow> fence_retry H X c m))"

declare fence_retry.simps [simp del]

definition fenceLeaseOwnership :: "('m) runner_host_scheme \<Rightarrow> executor \<Rightarrow> Claim \<Rightarrow> unit action" where
  "fenceLeaseOwnership H X c =
     abind (lease_lost H) (\<lambda>lost.
     if lost then fail (Sentinel ErrLeaseLost)
     else (\<lambda>w. fence_retry H X c (x_fence_retries H (w_ops w)) w))"

section \<open>Guarded steps\<close>

definition attempt_key :: "Claim \<Rightarrow> string \<Rightarrow> string" where
  "attempt_key c s = ''attempt:'' @ k_AttemptID c @ '':'' @ s"

definition runner_params :: "status \<Rightarrow> string \<Rightarrow> string \<Rightarrow> string \<Rightarrow> TransitionParams" where
  "runner_params st source reason key =
     \<lparr>p_To = st, p_Source = source, p_Reason = reason, p_FailureCode = [],
      p_FailureMessage = [], p_IdempotencyKey = key, p_ExpectedVersion = 0, p_revision = None\<rparr>"

definition transition ::
  "('m) runner_host_scheme \<Rightarrow> executor \<Rightarrow> Claim \<Rightarrow> status \<Rightarrow> string \<Rightarrow> string \<Rightarrow> status action" where
  "transition H X c st source reason =
     aseq (awrap (''fence transition to '' @ status_string st) (fenceLeaseOwnership H X c)) (
     aseq (awrap (''transition to '' @ status_string st) (op_Transition H (k_TaskID c)
       (runner_params st source reason (attempt_key c (''to:'' @ status_string st))))) (
     ret st))"

definition append_event ::
  "('m) runner_host_scheme \<Rightarrow> Claim \<Rightarrow> string \<Rightarrow> string \<Rightarrow> json \<Rightarrow> unit action" where
  "append_event H c eventType source payload =
     awrap (''append '' @ eventType) (op_AppendAttemptEvent H (k_AttemptID c) eventType source payload)"

text \<open>The error a settled failure carries.\<close>

definition attempt_failed :: "string \<Rightarrow> string \<Rightarrow> err" where
  "attempt_failed code message = Suffix (Sentinel ErrAttemptFailed) (code @ '': '' @ message)"

text \<open>\<open>failTask\<close> never returns nil: the result is the error to return.\<close>

definition failTask ::
  "('m) runner_host_scheme \<Rightarrow> executor \<Rightarrow> Claim \<Rightarrow> string \<Rightarrow> string \<Rightarrow> 'a action" where
  "failTask H X c code message =
     aseq (awrap (''fence task failure ('' @ code @ '')'') (fenceLeaseOwnership H X c)) (
     aseq (awrap (''fail task ('' @ code @ '')'') (op_Transition H (k_TaskID c)
       ((runner_params StatusFailed ''runner'' [] (attempt_key c (''fail:'' @ code)))
          \<lparr>p_FailureCode := code, p_FailureMessage := message\<rparr>))) (
     fail (attempt_failed code message)))"

definition publishFailure ::
  "('m) runner_host_scheme \<Rightarrow> executor \<Rightarrow> Claim \<Rightarrow> string \<Rightarrow> err \<Rightarrow> 'a action" where
  "publishFailure H X c step e =
     abind (ctx_err H) (\<lambda>ce.
     case ce of Some x \<Rightarrow> fail x
     | None \<Rightarrow> failTask H X c ''publish_failed'' (step @ '': '' @ err_text e))"

text \<open>\<open>if err := m; err != nil { return e.publishFailure(ctx, c, step, err) }\<close>.\<close>

definition or_publish_failure ::
  "('m) runner_host_scheme \<Rightarrow> executor \<Rightarrow> Claim \<Rightarrow> string \<Rightarrow> 'a action \<Rightarrow> 'a action" where
  "or_publish_failure H X c step m =
     abind (atry m) (\<lambda>r. case r of Inl e \<Rightarrow> publishFailure H X c step e | Inr x \<Rightarrow> ret x)"

text \<open>Run the rest, and whatever it came to, \<open>f\<close> on its error; a deferred function.\<close>

definition afterwards :: "'a action \<Rightarrow> (err option \<Rightarrow> unit action) \<Rightarrow> 'a action" where
  "afterwards m f =
     abind (atry m) (\<lambda>r. case r of
       Inl e \<Rightarrow> aseq (f (Some e)) (fail e)
     | Inr x \<Rightarrow> aseq (f None) (ret x))"

text \<open>\<open>errors.Join(retErr, err)\<close> where at least \<open>err\<close> is not nil.\<close>

definition join_err :: "err option \<Rightarrow> err \<Rightarrow> err" where
  "join_err r e = Join (case r of None \<Rightarrow> [e] | Some f \<Rightarrow> [f, e])"

text \<open>A step of a settlement: its error joins the one already there.\<close>

definition joining :: "err option \<Rightarrow> 'a action \<Rightarrow> 'a action" where
  "joining r m = (\<lambda>w. case m w of
     (Inl e, w') \<Rightarrow> (Inl (if panics e then e else join_err r e), w') | (Inr x, w') \<Rightarrow> (Inr x, w'))"

definition keep_err :: "err option \<Rightarrow> unit action" where
  "keep_err r = (case r of None \<Rightarrow> ret () | Some e \<Rightarrow> fail e)"

definition cleanup_payload :: json where
  "cleanup_payload = JObj [(''workspace'', JStr ''removed'')]"

definition lost_lease :: "err option \<Rightarrow> bool" where
  "lost_lease r = (case r of None \<Rightarrow> False | Some e \<Rightarrow> err_is ErrLeaseLost e)"

end
