(* ===== verification/Detector.thy ===== *)
theory Detector
  imports RunnerOps
begin

text \<open>
  \<open>internal/conflict/detector.go\<close>: the change of a task against those of its active siblings, on
  the repository's mirror. A semantic assessor that fails, or answers what \<open>validateVerdict\<close>
  refuses, counts for nothing.
\<close>

definition changeSet ::
  "('m) runner_host_scheme \<Rightarrow> RepoRef \<Rightarrow> string \<Rightarrow> string \<Rightarrow> ChangeSet action" where
  "changeSet H repo base final =
     abind (ChangedFiles H repo base final) (\<lambda>files.
     abind (DiffHunks H repo base final) (\<lambda>hunks.
     ret \<lparr>cs_Files = files, cs_Hunks = hunks\<rparr>))"

fun commitsPresent :: "('m) runner_host_scheme \<Rightarrow> RepoRef \<Rightarrow> string list \<Rightarrow> bool action" where
  "commitsPresent H repo [] = ret True"
| "commitsPresent H repo (sha # shas) =
     abind (HasCommit H repo sha) (\<lambda>ok. if \<not> ok then ret False else commitsPresent H repo shas)"

definition assess :: "('m) runner_host_scheme \<Rightarrow> SemanticRequest \<Rightarrow> SemanticVerdict action" where
  "assess H req =
     abind (atry (call (AgentOp ''assess'') (\<lambda>k. x_assess H k req))) (\<lambda>r.
     ret (case r of Inl _ \<Rightarrow> no_verdict
          | Inr v \<Rightarrow> (case validateVerdict v of Inl _ \<Rightarrow> no_verdict | Inr _ \<Rightarrow> v)))"

definition semantic_verdict ::
  "('m) runner_host_scheme \<Rightarrow> executor \<Rightarrow> RepoRef \<Rightarrow> string \<Rightarrow> string \<Rightarrow> string \<Rightarrow> Sibling
    \<Rightarrow> SemanticVerdict action" where
  "semantic_verdict H X repo tid title selfDiff sib =
     (if \<not> ec_Semantic X \<or> selfDiff = [] then ret no_verdict
      else
      abind (atry (Diff H repo (sib_BaseSHA sib) (sib_FinalSHA sib))) (\<lambda>r.
      case r of Inl _ \<Rightarrow> ret no_verdict
      | Inr otherDiff \<Rightarrow>
          assess H \<lparr>sq_TaskID = tid, sq_TaskTitle = title, sq_TaskDiff = selfDiff,
            sq_OtherTaskID = sib_TaskID sib, sq_OtherTaskTitle = sib_Title sib,
            sq_OtherTaskDiff = otherDiff\<rparr>))"

text \<open>The detection of one sibling from the comparisons, if any kind applies.\<close>

definition detection_of ::
  "Sibling \<Rightarrow> kind list \<times> string list \<Rightarrow> bool \<times> string list \<Rightarrow> SemanticVerdict \<Rightarrow> Detection list" where
  "detection_of sib overlap merge semantic =
     (let kinds = fst overlap @ (if fst merge then [] else [KindMergeConflict])
                    @ (if sv_Conflicts semantic then [KindSemantic] else []);
          files = (if fst merge then snd overlap else mergeSorted (snd overlap) (snd merge)) in
      if kinds = [] then []
      else [\<lparr>det_OtherTaskID = sib_TaskID sib, det_OtherTaskTitle = sib_Title sib, det_Kinds = kinds,
             det_Files = files, det_SemanticSeverity = sv_Severity semantic,
             det_SemanticExplanation = sv_Explanation semantic,
             det_SemanticEvidence = sv_Evidence semantic\<rparr>])"

fun detect_siblings ::
  "('m) runner_host_scheme \<Rightarrow> executor \<Rightarrow> RepoRef \<Rightarrow> string \<Rightarrow> string \<Rightarrow> string \<Rightarrow> ChangeSet \<Rightarrow> string
    \<Rightarrow> Sibling list \<Rightarrow> Detection list action" where
  "detect_siblings H X repo tid title final self selfDiff [] = ret []"
| "detect_siblings H X repo tid title final self selfDiff (sib # sibs) =
     abind (commitsPresent H repo [sib_BaseSHA sib, sib_FinalSHA sib]) (\<lambda>present.
     if \<not> present then detect_siblings H X repo tid title final self selfDiff sibs
     else
     abind (changeSet H repo (sib_BaseSHA sib) (sib_FinalSHA sib)) (\<lambda>other.
     abind (MergeTree H repo final (sib_FinalSHA sib)) (\<lambda>merge.
     abind (semantic_verdict H X repo tid title selfDiff sib) (\<lambda>semantic.
     abind (detect_siblings H X repo tid title final self selfDiff sibs) (\<lambda>rest.
     ret (detection_of sib (Overlap self other) merge semantic @ rest))))))"

definition self_diff ::
  "('m) runner_host_scheme \<Rightarrow> executor \<Rightarrow> RepoRef \<Rightarrow> string \<Rightarrow> string \<Rightarrow> string action" where
  "self_diff H X repo base final =
     (if \<not> ec_Semantic X then ret []
      else abind (atry (Diff H repo base final)) (\<lambda>r.
        ret (case r of Inl _ \<Rightarrow> [] | Inr d \<Rightarrow> d)))"

definition Detect ::
  "('m) runner_host_scheme \<Rightarrow> executor \<Rightarrow> RepoRef \<Rightarrow> string \<Rightarrow> string \<Rightarrow> string \<Rightarrow> string \<Rightarrow> string
    \<Rightarrow> Detection list action" where
  "Detect H X repo rid tid title base final =
     abind (op_ActiveSiblings H rid tid) (\<lambda>siblings.
     if siblings = [] then ret []
     else
     aseq (EnsureMirror H repo) (
     abind (changeSet H repo base final) (\<lambda>self.
     abind (self_diff H X repo base final) (\<lambda>selfDiff.
     abind (detect_siblings H X repo tid title final self selfDiff siblings) (\<lambda>detections.
     aseq (op_Reconcile H rid tid detections) (
     ret detections))))))"

end
