(* ===== verification/Publish.thy ===== *)
theory Publish
  imports Detector Revise
begin

text \<open>
  \<open>internal/runner/publish.go\<close>: where an attempt's work goes: the workspace it is made in, the
  commit and the push, the pull request, the check runs and the comments, and what a recovered
  owner does with what a dead one left behind. \<open>or_publish_failure\<close> is the failure every call
  of GitHub or git ends in.
\<close>

definition checkOutputLimit :: nat where
  "checkOutputLimit = 60000"

definition evidenceEventLimit :: int where
  "evidenceEventLimit = 1000"

section \<open>Where the work is published\<close>

definition publishTarget ::
  "('m) runner_host_scheme \<Rightarrow> executor \<Rightarrow> Claim \<Rightarrow> Task \<Rightarrow> RepositoryContext option action" where
  "publishTarget H X c t =
     (case t_RepositoryID t of None \<Rightarrow> ret None
      | Some rid \<Rightarrow>
          if \<not> ec_Workspaces X \<or> \<not> ec_GitHub X \<or> \<not> ec_Repos X then ret None
          else abind (atry (op_RepositoryContextByID H rid)) (\<lambda>r.
          case r of
            Inr rc \<Rightarrow> ret (Some rc)
          | Inl e \<Rightarrow>
              if err_is ErrRepositoryNotFound e \<or> err_is ErrNoInstallation e then
                failTask H X c ''publishing_unavailable'' (err_text e)
              else fail (Wrap ''resolve repository'' e)))"

definition credentialedCloneURL ::
  "('m) runner_host_scheme \<Rightarrow> string \<Rightarrow> string \<Rightarrow> err + string" where
  "credentialedCloneURL H cloneURL token =
     (case x_parse_url H cloneURL of
        Inl e \<Rightarrow> Inl (Wrap ''parse clone url'' e)
      | Inr u \<Rightarrow>
          if u_Scheme u \<noteq> ''https'' \<or> u_Host u = [] then Inr cloneURL
          else Inr (x_url_with_user H cloneURL ''x-access-token'' token))"

definition repoRef :: "('m) runner_host_scheme \<Rightarrow> RepositoryContext \<Rightarrow> RepoRef action" where
  "repoRef H rc =
     abind (awrap ''mint installation token'' (gh_InstallationToken H (rc_InstallationID rc))) (\<lambda>token.
     abind (lift_sum (credentialedCloneURL H (sr_CloneURL rc) token)) (\<lambda>cloneURL.
     ret \<lparr>rr_ID = sr_ID rc, rr_CloneURL = cloneURL\<rparr>))"

definition branchLabel :: "Task \<Rightarrow> string" where
  "branchLabel t =
     (let tid = take 8 (filter (\<lambda>c. c \<noteq> CHR ''-'') (t_ID t)); title = take 48 (t_Title t) in
      case t_SourceIssueNumber t of
        Some n \<Rightarrow> ''issue-'' @ int_string n @ ''-'' @ title @ ''-'' @ tid
      | None \<Rightarrow> ''task-'' @ title @ ''-'' @ tid)"

definition createWorktreeRetryingStale ::
  "('m) runner_host_scheme \<Rightarrow> executor \<Rightarrow> Claim \<Rightarrow> RepoRef \<Rightarrow> string \<Rightarrow> WorktreeParams
    \<Rightarrow> Workspace action" where
  "createWorktreeRetryingStale H X c repo branch p =
     abind (atry (CreateWorktree H p)) (\<lambda>r.
     case r of
       Inr ws \<Rightarrow> ret ws
     | Inl e \<Rightarrow>
         if err_is ErrBranchTipMoved e then fail e
         else
         aseq (joining (Some e) (awrap ''fence stale workspace cleanup'' (fenceLeaseOwnership H X c))) (
         aseq (joining (Some e) (CleanupStale H repo (k_AttemptID c) branch)) (
         CreateWorktree H p)))"

text \<open>A revision continues the pushed branch from the head recorded when it was asked for.\<close>

definition provisionRevision ::
  "('m) runner_host_scheme \<Rightarrow> executor \<Rightarrow> Claim \<Rightarrow> Task \<Rightarrow> RepositoryContext \<Rightarrow> Attempt
    \<Rightarrow> Workspace action" where
  "provisionRevision H X c t rc attempt =
     (case (t_WorkingBranch t, a_BaseCommitSHA attempt) of
        (Some branch, Some base) \<Rightarrow>
          abind (repoRef H rc) (\<lambda>repo.
          abind (atry (createWorktreeRetryingStale H X c repo branch
            \<lparr>wp_Repo = repo, wp_AttemptID = k_AttemptID c, wp_BaseSHA = base,
             wp_BranchLabel = TrimPrefix branch BranchPrefix, wp_RequireBranchTip = True\<rparr>)) (\<lambda>r.
          case r of
            Inr ws \<Rightarrow> ret ws
          | Inl e \<Rightarrow>
              if err_is ErrBranchTipMoved e then
                abind (ctx_cause H) (\<lambda>cause.
                case cause of Some x \<Rightarrow> fail x
                | None \<Rightarrow> failTask H X c ''base_mismatch'' (err_text e))
              else fail e))
      | _ \<Rightarrow> failTask H X c ''publish_state_missing''
               ''revision attempt has no recorded working branch or base commit'')"

definition provisionWorkspace ::
  "('m) runner_host_scheme \<Rightarrow> executor \<Rightarrow> Claim \<Rightarrow> Task \<Rightarrow> RepositoryContext \<Rightarrow> Workspace action" where
  "provisionWorkspace H X c t rc =
     abind (op_GetAttempt H (k_AttemptID c)) (\<lambda>attempt.
     if 1 < a_Number attempt then provisionRevision H X c t rc attempt
     else
     abind (if text_or (t_BaseCommitSHA t) [] = [] then
              awrap ''resolve base sha'' (gh_BranchHeadSHA H (rc_InstallationID rc) (sr_Owner rc)
                (sr_Name rc) (t_BaseBranch t))
            else ret (text_or (t_BaseCommitSHA t) [])) (\<lambda>head.
     abind (lift_sum (SanitizeBranch (h_lower H) (branchLabel t))) (\<lambda>label.
     abind (op_EnsureGitContext H (k_TaskID c) head label) (\<lambda>(base, branch).
     aseq (op_RecordAttemptBase H (k_AttemptID c) base) (
     abind (repoRef H rc) (\<lambda>repo.
     createWorktreeRetryingStale H X c repo branch
       \<lparr>wp_Repo = repo, wp_AttemptID = k_AttemptID c, wp_BaseSHA = base,
        wp_BranchLabel = TrimPrefix branch BranchPrefix, wp_RequireBranchTip = False\<rparr>))))))"

section \<open>Reports and conclusions\<close>

definition storedReport :: "('m) runner_host_scheme \<Rightarrow> string \<Rightarrow> (Report \<times> string) action" where
  "storedReport H aid =
     abind (awrap ''load evidence'' (op_GetReportForAttempt H aid)) (\<lambda>(_, stored).
     abind (awrap ''decode evidence'' (lift_sum (decode_report (ev_Report stored)))) (\<lambda>report.
     ret (report, ev_SummaryMarkdown stored)))"

definition has_status :: "CheckResult \<Rightarrow> vstatus \<Rightarrow> bool" where
  "has_status v s \<longleftrightarrow> cr_StatusText v = vstatus_string s"

text \<open>The loop of \<open>checkConclusion\<close> with what it has seen and concluded so far.\<close>

fun conclude :: "bool \<Rightarrow> string \<Rightarrow> CheckResult list \<Rightarrow> string" where
  "conclude sawTrusted conclusion [] = (if \<not> sawTrusted then ''neutral'' else conclusion)"
| "conclude sawTrusted conclusion (v # vs) =
     (if \<not> cr_TrustedExecution v then conclude sawTrusted conclusion vs
      else if has_status v VFailed then ''failure''
      else if has_status v VPassed then conclude True conclusion vs
      else conclude True ''neutral'' vs)"

definition checkConclusion :: "Report \<Rightarrow> string" where
  "checkConclusion r = conclude False ''success'' (rep_Validation r)"

definition validationOutcome :: "Report \<Rightarrow> string" where
  "validationOutcome r =
     (let trusted = filter cr_TrustedExecution (rep_Validation r);
          n = length trusted;
          passed = length (filter (\<lambda>v. has_status v VPassed) trusted);
          failed = length (filter (\<lambda>v. has_status v VFailed) trusted) in
      if n = 0 then ''no trusted checks ran''
      else if 0 < failed then
        ''failed ('' @ nat_string failed @ '' of '' @ nat_string n @ '' trusted checks failed)''
      else if passed = n then ''passed ('' @ nat_string n @ '' trusted checks)''
      else ''incomplete ('' @ nat_string passed @ '' of '' @ nat_string n @ '' trusted checks passed)'')"

definition feedback_line :: "FeedbackItem \<Rightarrow> string" where
  "feedback_line f = ''  - '' @ Label (f_Kind f) @ '' by @'' @ f_Author f @ '' at ''
     @ rfc3339 (f_PostedAt f) @ (if f_Location f \<noteq> [] then '' on '' @ f_Location f else []) @ newline"

definition revisionSummary :: "Attempt \<Rightarrow> string \<Rightarrow> Report \<Rightarrow> string" where
  "revisionSummary attempt finalSHA report =
     ''Agent Trail published revision attempt '' @ int_string (a_Number attempt) @ ''.'' @ newline @ newline
     @ ''- Final commit: `'' @ finalSHA @ ''`'' @ newline
     @ ''- Validation: '' @ validationOutcome report @ newline
     @ ''- Review feedback given: '' @ nat_string (length (a_Feedback attempt)) @ '' item(s)'' @ newline
     @ concat (map feedback_line (a_Feedback attempt))
     @ newline @ ''The pull request body carries the updated evidence report and attempts ''
     @ ''history; the `'' @ CheckRunName @ ''` check holds the verified results.''"

section \<open>Check runs\<close>

definition upsertCheckRun ::
  "('m) runner_host_scheme \<Rightarrow> executor \<Rightarrow> Claim \<Rightarrow> RepositoryContext \<Rightarrow> string \<Rightarrow> CheckRunParams
    \<Rightarrow> unit action" where
  "upsertCheckRun H X c rc sha p =
     abind (or_publish_failure H X c ''list check runs'' (gh_ListCheckRuns H (rc_InstallationID rc)
       (sr_Owner rc) (sr_Name rc) sha (crp_Name p))) (\<lambda>cruns.
     case find (\<lambda>r. cr_ExternalID r = crp_ExternalID p) cruns of
       Some run \<Rightarrow>
         aseq (or_publish_failure H X c ''update check run'' (gh_UpdateCheckRun H (rc_InstallationID rc)
           (sr_Owner rc) (sr_Name rc) (cr_ID run) p)) (
         append_event H c ''github.check_run.updated'' ''runner''
           (JObj [(''check_run_id'', JInt (cr_ID run)), (''conclusion'', JStr (crp_Conclusion p))]))
     | None \<Rightarrow>
         abind (or_publish_failure H X c ''create check run'' (gh_CreateCheckRun H (rc_InstallationID rc)
           (sr_Owner rc) (sr_Name rc) p)) (\<lambda>newid.
         append_event H c ''github.check_run.created'' ''runner''
           (JObj [(''check_run_id'', JInt newid), (''head_sha'', JStr sha),
                  (''conclusion'', JStr (crp_Conclusion p))])))"

text \<open>\<open>cx\<close> reads the error of the context the call runs under.\<close>

definition completeTriggerCheckRun ::
  "('m) runner_host_scheme \<Rightarrow> err option action \<Rightarrow> Claim \<Rightarrow> RepositoryContext \<Rightarrow> Attempt
    \<Rightarrow> CheckRunParams \<Rightarrow> unit action" where
  "completeTriggerCheckRun H cx c rc attempt p =
     (case (a_TriggerCheckRunID attempt, a_TriggerCheckRunCompletedAt attempt) of
        (Some cid, None) \<Rightarrow>
          abind (atry (gh_UpdateCheckRun H (rc_InstallationID rc) (sr_Owner rc) (sr_Name rc) cid
            (p\<lparr>crp_Name := CheckRunName, crp_Status := ''completed''\<rparr>))) (\<lambda>r.
          case r of
            Inl _ \<Rightarrow> abind cx (\<lambda>ce. case ce of Some x \<Rightarrow> fail x | None \<Rightarrow> ret ())
          | Inr _ \<Rightarrow>
              aseq (op_MarkTriggerCheckRunCompleted H (k_AttemptID c)) (
              append_event H c ''github.check_run.updated'' ''runner''
                (JObj [(''check_run_id'', JInt cid), (''conclusion'', JStr (crp_Conclusion p)),
                       (''kind'', JStr ''trigger'')])))
      | _ \<Rightarrow> ret ())"

definition evidence_check :: "Claim \<Rightarrow> string \<Rightarrow> string \<Rightarrow> string \<Rightarrow> string \<Rightarrow> CheckRunParams" where
  "evidence_check c sha conclusion title summary =
     \<lparr>crp_Name = CheckRunName, crp_HeadSHA = sha, crp_ExternalID = k_AttemptID c,
      crp_Status = ''completed'', crp_Conclusion = conclusion, crp_Title = title,
      crp_Summary = summary\<rparr>"

section \<open>Comments\<close>

definition kind_member :: "string \<Rightarrow> json \<Rightarrow> string \<Rightarrow> err + string" where
  "kind_member k j old = (if k = ''kind'' then decode_string j old else Inr old)"

definition comment_event :: "Claim \<Rightarrow> string \<Rightarrow> Event \<Rightarrow> bool" where
  "comment_event c kd e \<longleftrightarrow>
     e_TaskAttemptID e = k_AttemptID c \<and> e_EventType e = ''github.comment.posted'' \<and>
     decode_struct kind_member [] (e_Payload e) = Inr kd"

definition commentPosted :: "('m) runner_host_scheme \<Rightarrow> Claim \<Rightarrow> string \<Rightarrow> bool action" where
  "commentPosted H c kd =
     abind (awrap ''check posted comments'' (op_Events H (k_TaskID c) evidenceEventLimit)) (\<lambda>es.
     ret (list_ex (\<lambda>(_, e). comment_event c kd e) es))"

definition postRevisionSummary ::
  "('m) runner_host_scheme \<Rightarrow> executor \<Rightarrow> Claim \<Rightarrow> RepositoryContext \<Rightarrow> Attempt \<Rightarrow> int \<Rightarrow> string
    \<Rightarrow> Report \<Rightarrow> unit action" where
  "postRevisionSummary H X c rc attempt prNumber finalSHA report =
     abind (commentPosted H c ''revision_summary'') (\<lambda>posted.
     if posted then ret ()
     else
     aseq (or_publish_failure H X c ''post revision summary'' (gh_CreateIssueComment H
       (rc_InstallationID rc) (sr_Owner rc) (sr_Name rc) prNumber
       (revisionSummary attempt finalSHA report))) (
     append_event H c ''github.comment.posted'' ''runner''
       (JObj [(''kind'', JStr ''revision_summary''), (''pull_request'', JInt prNumber)])))"

section \<open>Conflicts\<close>

definition detection_payload :: "Detection \<Rightarrow> json" where
  "detection_payload det = JObj
     [(''other_task_id'', jtext (det_OtherTaskID det)),
      (''other_task_title'', jtext (det_OtherTaskTitle det)),
      (''kinds'', JArr (map (\<lambda>k. JStr (kind_string k)) (det_Kinds det))),
      (''files'', JArr (map jtext (det_Files det))),
      (''semantic_severity'', jtext (det_SemanticSeverity det)),
      (''semantic_explanation'', jtext (det_SemanticExplanation det)),
      (''semantic_evidence'', JArr (map jtext (det_SemanticEvidence det)))]"

text \<open>A failure of detection is logged, unless the context has ended.\<close>

definition unless_ctx_ended :: "('m) runner_host_scheme \<Rightarrow> unit action" where
  "unless_ctx_ended H = abind (ctx_err H) (\<lambda>ce. case ce of Some x \<Rightarrow> fail x | None \<Rightarrow> ret ())"

definition detectConflicts ::
  "('m) runner_host_scheme \<Rightarrow> executor \<Rightarrow> Claim \<Rightarrow> Task \<Rightarrow> RepositoryContext \<Rightarrow> string \<Rightarrow> string
    \<Rightarrow> unit action" where
  "detectConflicts H X c t rc baseSHA finalSHA =
     (case t_RepositoryID t of None \<Rightarrow> ret ()
      | Some rid \<Rightarrow>
          if \<not> ec_Conflicts X then ret ()
          else abind (atry (repoRef H rc)) (\<lambda>r.
          case r of Inl _ \<Rightarrow> unless_ctx_ended H
          | Inr repo \<Rightarrow>
              abind (atry (Detect H X repo rid (t_ID t) (t_Title t) baseSHA finalSHA)) (\<lambda>s.
              case s of Inl _ \<Rightarrow> unless_ctx_ended H
              | Inr dets \<Rightarrow>
                  foreach dets (\<lambda>det.
                    append_event H c ''conflict.detected'' ''runner'' (detection_payload det)))))"

section \<open>Publishing\<close>

definition publish_pull_request ::
  "('m) runner_host_scheme \<Rightarrow> executor \<Rightarrow> Claim \<Rightarrow> Task \<Rightarrow> RepositoryContext \<Rightarrow> string \<Rightarrow> string
    \<Rightarrow> int action" where
  "publish_pull_request H X c t rc branch body =
     abind (or_publish_failure H X c ''find pull request'' (gh_FindPullRequestByHead H
       (rc_InstallationID rc) (sr_Owner rc) (sr_Name rc) (sr_Owner rc) branch)) (\<lambda>found.
     abind (case found of
         None \<Rightarrow>
           abind (or_publish_failure H X c ''create pull request'' (gh_CreateDraftPullRequest H
             (rc_InstallationID rc) (sr_Owner rc) (sr_Name rc)
             \<lparr>prp_Title = t_Title t, prp_Head = branch, prp_Base = t_BaseBranch t, prp_Body = body\<rparr>)) (\<lambda>pr.
           aseq (append_event H c ''pull_request.created'' ''runner''
             (JObj [(''number'', JInt (pr_Number pr)), (''url'', jtext (pr_HTMLURL pr)),
                    (''draft'', JBool True)])) (
           ret pr))
       | Some pr \<Rightarrow>
           aseq (or_publish_failure H X c ''update pull request'' (gh_UpdatePullRequestBody H
             (rc_InstallationID rc) (sr_Owner rc) (sr_Name rc) (pr_Number pr) body)) (
           aseq (append_event H c ''pull_request.updated'' ''runner''
             (JObj [(''number'', JInt (pr_Number pr)), (''url'', jtext (pr_HTMLURL pr))])) (
           ret pr))) (\<lambda>pr.
     aseq (op_RecordPullRequest H (k_AttemptID c) (pr_Number pr)) (
     ret (pr_Number pr))))"

definition published_comment :: "int \<Rightarrow> string" where
  "published_comment n =
     ''Agent Trail opened draft pull request #'' @ int_string n @ '' for this issue. ''
     @ ''The PR body carries the evidence report; the `'' @ CheckRunName @ ''` check ''
     @ ''holds the verified results.''"

definition announce_published ::
  "('m) runner_host_scheme \<Rightarrow> executor \<Rightarrow> Claim \<Rightarrow> Task \<Rightarrow> RepositoryContext \<Rightarrow> int \<Rightarrow> unit action" where
  "announce_published H X c t rc number =
     (case t_SourceIssueNumber t of None \<Rightarrow> ret ()
      | Some issue \<Rightarrow>
          aseq (or_publish_failure H X c ''post issue comment'' (gh_CreateIssueComment H
            (rc_InstallationID rc) (sr_Owner rc) (sr_Name rc) issue (published_comment number))) (
          append_event H c ''github.comment.posted'' ''runner''
            (JObj [(''kind'', JStr ''published'')])))"

definition publishToGitHub ::
  "('m) runner_host_scheme \<Rightarrow> executor \<Rightarrow> Claim \<Rightarrow> Task \<Rightarrow> RepositoryContext \<Rightarrow> Attempt \<Rightarrow> string
    \<Rightarrow> string \<Rightarrow> string \<Rightarrow> unit action" where
  "publishToGitHub H X c t rc attempt branch baseSHA finalSHA =
     aseq (detectConflicts H X c t rc baseSHA finalSHA) (
     abind (storedReport H (k_AttemptID c)) (\<lambda>(report, markdown).
     abind (awrap ''load attempt history'' (op_ListAttemptHistory H (k_TaskID c))) (\<lambda>history.
     abind (publish_pull_request H X c t rc branch (PRBody report finalSHA history)) (\<lambda>number.
     let conclusion = checkConclusion report; summary = truncate_bytes markdown checkOutputLimit in
     aseq (upsertCheckRun H X c rc finalSHA
       (evidence_check c finalSHA conclusion ''Agent Trail evidence'' summary)) (
     aseq (completeTriggerCheckRun H (ctx_err H) c rc attempt
       (no_check_run\<lparr>crp_Conclusion := conclusion, crp_Title := ''Agent Trail evidence'',
                     crp_Summary := summary\<rparr>)) (
     if 1 < a_Number attempt then postRevisionSummary H X c rc attempt number finalSHA report
     else announce_published H X c t rc number))))))"

definition no_change_comment :: "Attempt \<Rightarrow> string \<Rightarrow> string" where
  "no_change_comment attempt explanation =
     ''Agent Trail produced no changes for revision attempt '' @ int_string (a_Number attempt)
     @ '', so the branch is unchanged: '' @ explanation @ ''.''"

definition tell_no_change_revision ::
  "('m) runner_host_scheme \<Rightarrow> executor \<Rightarrow> Claim \<Rightarrow> RepositoryContext \<Rightarrow> Attempt \<Rightarrow> string \<Rightarrow> string
    \<Rightarrow> unit action" where
  "tell_no_change_revision H X c rc attempt branch explanation =
     abind (or_publish_failure H X c ''find pull request'' (gh_FindPullRequestByHead H
       (rc_InstallationID rc) (sr_Owner rc) (sr_Name rc) (sr_Owner rc) branch)) (\<lambda>found.
     case found of None \<Rightarrow> ret ()
     | Some pr \<Rightarrow>
         aseq (op_RecordPullRequest H (k_AttemptID c) (pr_Number pr)) (
         aseq (or_publish_failure H X c ''post no-change comment'' (gh_CreateIssueComment H
           (rc_InstallationID rc) (sr_Owner rc) (sr_Name rc) (pr_Number pr)
           (no_change_comment attempt explanation))) (
         append_event H c ''github.comment.posted'' ''runner''
           (JObj [(''kind'', JStr ''no_change''), (''pull_request'', JInt (pr_Number pr))]))))"

definition tell_no_change_issue ::
  "('m) runner_host_scheme \<Rightarrow> executor \<Rightarrow> Claim \<Rightarrow> Task \<Rightarrow> RepositoryContext \<Rightarrow> string \<Rightarrow> unit action"
where
  "tell_no_change_issue H X c t rc explanation =
     (case t_SourceIssueNumber t of None \<Rightarrow> ret ()
      | Some issue \<Rightarrow>
          aseq (or_publish_failure H X c ''post no-change comment'' (gh_CreateIssueComment H
            (rc_InstallationID rc) (sr_Owner rc) (sr_Name rc) issue
            (''Agent Trail produced no changes for this issue, so no ''
             @ ''pull request was opened: '' @ explanation @ ''.''))) (
          append_event H c ''github.comment.posted'' ''runner''
            (JObj [(''kind'', JStr ''no_change'')])))"

definition publishNoChange ::
  "('m) runner_host_scheme \<Rightarrow> executor \<Rightarrow> Claim \<Rightarrow> Task \<Rightarrow> RepositoryContext \<Rightarrow> Attempt \<Rightarrow> string
    \<Rightarrow> string \<Rightarrow> 'a action" where
  "publishNoChange H X c t rc attempt baseSHA summary =
     (let explanation = ''the agent session ended without modifying the workspace''
            @ (if summary \<noteq> [] then ''; agent summary: '' @ summary else []) in
      aseq (append_event H c ''publishing.no_change'' ''runner''
        (JObj [(''reason'', jtext explanation)])) (
      aseq (upsertCheckRun H X c rc baseSHA
        (evidence_check c baseSHA ''neutral'' ''No changes produced'' explanation)) (
      aseq (completeTriggerCheckRun H (ctx_err H) c rc attempt
        (no_check_run\<lparr>crp_Conclusion := ''neutral'', crp_Title := ''No changes produced'',
                      crp_Summary := explanation\<rparr>)) (
      aseq (case t_WorkingBranch t of
          Some branch \<Rightarrow>
            if 1 < a_Number attempt then tell_no_change_revision H X c rc attempt branch explanation
            else tell_no_change_issue H X c t rc explanation
        | None \<Rightarrow> tell_no_change_issue H X c t rc explanation) (
      failTask H X c ''no_change'' explanation)))))"

definition commit_params :: "executor \<Rightarrow> Task \<Rightarrow> Attempt \<Rightarrow> CommitParams" where
  "commit_params X t attempt =
     \<lparr>cp_Message = (if 1 < a_Number attempt then
          t_Title t @ '' (attempt '' @ int_string (a_Number attempt) @ '')'' else t_Title t),
      cp_TaskID = t_ID t, cp_Provider = text_or (t_AgentProvider t) (ec_AdapterName X),
      cp_Model = text_or (t_AgentModel t) [],
      cp_RequestedBy = text_or (a_RequestedByLogin attempt) []\<rparr>"

text \<open>The commit to publish: a new one, or the one a dead owner left in the worktree.\<close>

definition commit_work ::
  "('m) runner_host_scheme \<Rightarrow> executor \<Rightarrow> Claim \<Rightarrow> Task \<Rightarrow> RepositoryContext \<Rightarrow> Attempt \<Rightarrow> Workspace
    \<Rightarrow> string \<Rightarrow> string action" where
  "commit_work H X c t rc attempt ws summary =
     abind (atry (Commit H ws (commit_params X t attempt))) (\<lambda>r.
     case r of
       Inr sha \<Rightarrow> ret sha
     | Inl e \<Rightarrow>
         if err_is ErrNothingToCommit e then
           abind (Head H ws) (\<lambda>head.
           if head = ws_BaseSHA ws then publishNoChange H X c t rc attempt (ws_BaseSHA ws) summary
           else ret head)
         else publishFailure H X c ''commit'' e)"

definition publishFromWorkspace ::
  "('m) runner_host_scheme \<Rightarrow> executor \<Rightarrow> Claim \<Rightarrow> Task \<Rightarrow> RepositoryContext \<Rightarrow> Workspace \<Rightarrow> string
    \<Rightarrow> unit action" where
  "publishFromWorkspace H X c t rc ws summary =
     abind (op_GetAttempt H (k_AttemptID c)) (\<lambda>attempt.
     if a_BaseCommitSHA attempt \<noteq> None \<and> ws_BaseSHA ws \<noteq> text_or (a_BaseCommitSHA attempt) [] then
       failTask H X c ''base_mismatch'' (''workspace base '' @ ws_BaseSHA ws
         @ '' does not match recorded base '' @ text_or (a_BaseCommitSHA attempt) [])
     else
     abind (commit_work H X c t rc attempt ws summary) (\<lambda>sha.
     aseq (op_RecordFinalCommit H (k_AttemptID c) sha) (
     aseq (append_event H c ''commit.created'' ''runner''
       (JObj [(''final_commit_sha'', jtext sha)])) (
     aseq (or_publish_failure H X c ''push'' (Push H ws \<lparr>pp_Remote = [], pp_Force = False\<rparr>)) (
     aseq (append_event H c ''branch.pushed'' ''runner'' (JObj [(''branch'', jtext (ws_Branch ws))])) (
     publishToGitHub H X c t rc attempt (ws_Branch ws) (ws_BaseSHA ws) sha))))))"

section \<open>Cleaning up\<close>

text \<open>\<open>r\<close> is the error the attempt is about to return; the action fails with what it returns.\<close>

definition cleanupGitWorkspace ::
  "('m) runner_host_scheme \<Rightarrow> executor \<Rightarrow> Claim \<Rightarrow> Workspace \<Rightarrow> err option \<Rightarrow> unit action" where
  "cleanupGitWorkspace H X c ws r =
     abind (lease_lost H) (\<lambda>lost.
     if lost_lease r \<or> lost then keep_err r
     else
     aseq (joining r (awrap ''fence workspace cleanup'' (fenceLeaseOwnership H X c))) (
     abind (if r \<noteq> None \<and> \<not> err_is ErrAttemptFailed (the r) then
              abind (atry (op_Get H (k_TaskID c))) (\<lambda>g.
              ret (case g of Inl _ \<Rightarrow> False | Inr t \<Rightarrow> Terminal (t_Status t)))
            else ret True) (\<lambda>go.
     if \<not> go then keep_err r
     else
     aseq (joining r (awrap ''workspace cleanup'' (Remove H ws))) (
     aseq (joining r (awrap ''record workspace cleanup'' (op_AppendAttemptEvent H (k_AttemptID c)
       ''cleanup.completed'' ''runner'' cleanup_payload))) (
     keep_err r)))))"

text \<open>Publish from a workspace and clean it up, once more if that failed.\<close>

definition publish_and_clean ::
  "('m) runner_host_scheme \<Rightarrow> executor \<Rightarrow> Claim \<Rightarrow> Workspace \<Rightarrow> unit action \<Rightarrow> status action" where
  "publish_and_clean H X c ws work =
     abind (atry (aseq work (cleanupGitWorkspace H X c ws None))) (\<lambda>r.
     case r of
       Inl e \<Rightarrow> aseq (cleanupGitWorkspace H X c ws (Some e)) (fail e)
     | Inr _ \<Rightarrow> transition H X c StatusAwaitingReview ''runner'' [])"

definition not_found :: "err \<Rightarrow> bool" where
  "not_found e \<longleftrightarrow> err_as (\<lambda>s. case s of APIError k \<Rightarrow> True | _ \<Rightarrow> False) e = Some (APIError 404)"

definition workspaceLost :: string where
  "workspaceLost = ''the workspace was lost before its work was pushed''"

text \<open>The recovered owner without a worktree: publish from the pushed branch.\<close>

definition publish_pushed_branch ::
  "('m) runner_host_scheme \<Rightarrow> executor \<Rightarrow> Claim \<Rightarrow> Task \<Rightarrow> RepositoryContext \<Rightarrow> Attempt \<Rightarrow> string
    \<Rightarrow> string \<Rightarrow> status action" where
  "publish_pushed_branch H X c t rc attempt branch base =
     abind (atry (gh_BranchHeadSHA H (rc_InstallationID rc) (sr_Owner rc) (sr_Name rc) branch)) (\<lambda>r.
     case r of
       Inl e \<Rightarrow>
         if not_found e then failTask H X c ''workspace_lost'' workspaceLost
         else publishFailure H X c ''resolve pushed branch'' e
     | Inr head \<Rightarrow>
         if head = base then failTask H X c ''workspace_lost'' workspaceLost
         else
         aseq (op_RecordFinalCommit H (k_AttemptID c) head) (
         aseq (publishToGitHub H X c t rc attempt branch base head) (
         transition H X c StatusAwaitingReview ''runner'' [])))"

definition publishRecovered ::
  "('m) runner_host_scheme \<Rightarrow> executor \<Rightarrow> Claim \<Rightarrow> Task \<Rightarrow> RepositoryContext \<Rightarrow> status action" where
  "publishRecovered H X c t rc =
     abind (op_GetAttempt H (k_AttemptID c)) (\<lambda>attempt.
     case (t_WorkingBranch t,
           if a_BaseCommitSHA attempt = None then t_BaseCommitSHA t else a_BaseCommitSHA attempt) of
       (Some branch, Some base) \<Rightarrow>
         abind (repoRef H rc) (\<lambda>repo.
         abind (Lookup H (k_AttemptID c) repo branch base) (\<lambda>found.
         case found of
           Some ws \<Rightarrow>
             publish_and_clean H X c ws (aseq (EnsureMirror H repo)
               (publishFromWorkspace H X c t rc ws []))
         | None \<Rightarrow> publish_pushed_branch H X c t rc attempt branch base))
     | _ \<Rightarrow> failTask H X c ''publish_state_missing''
              ''task reached publishing without a recorded branch and base commit'')"

end
