(* ===== verification/Executor.thy ===== *)
theory Executor
  imports Publish
begin

text \<open>
  \<open>internal/runner/executor.go\<close>: one owned attempt from its claim to its end. \<open>drive\<close> resumes at
  the status the claim found and runs the stages that are missing; \<open>Execute\<close> fences, drives,
  settles a timeout, the trigger check run and the workspace, and releases the lease. The heartbeat
  and the cancellation watcher are goroutines: what they do to the attempt is the context, the
  mark of a lost lease and the others' steps of the surroundings.
\<close>

section \<open>Runtime\<close>

definition fallbackRuntime :: time where
  "fallbackRuntime = 45 * 60 * second"

definition taskRuntime :: "executor \<Rightarrow> Task \<Rightarrow> time" where
  "taskRuntime X t =
     (case t_MaxRuntimeSeconds t of
        Some n \<Rightarrow> n * second
      | None \<Rightarrow> if ec_DefaultRuntime X \<le> 0 then fallbackRuntime else ec_DefaultRuntime X)"

definition runtimeDeadline ::
  "('m) runner_host_scheme \<Rightarrow> executor \<Rightarrow> Claim \<Rightarrow> (time \<times> time) action" where
  "runtimeDeadline H X c =
     abind (op_Get H (k_TaskID c)) (\<lambda>t.
     abind (op_AttemptStartedAt H (k_AttemptID c)) (\<lambda>startedAt.
     abind (time_now H) (\<lambda>now.
     ret (taskRuntime X t,
          (case startedAt of Some s \<Rightarrow> s | None \<Rightarrow> now) + taskRuntime X t))))"

definition sessionCancelTimeout :: time where
  "sessionCancelTimeout = 5 * second"

definition sessionStopTimeout :: "executor \<Rightarrow> time" where
  "sessionStopTimeout X =
     (if 0 < ec_SessionStopTimeout X then ec_SessionStopTimeout X else sessionCancelTimeout)"

text \<open>\<open>timeoutTask\<close> never returns nil: the action fails with the error it returns.\<close>

definition timeoutTask ::
  "('m) runner_host_scheme \<Rightarrow> executor \<Rightarrow> Claim \<Rightarrow> time \<Rightarrow> unit action" where
  "timeoutTask H X c runtime =
     aseq (awrap ''fence timeout settlement'' (fenceLeaseOwnership H X c)) (
     abind (awrap ''read task after timeout'' (op_Get H (k_TaskID c))) (\<lambda>current.
     if t_Status current = StatusCancelled then fail (Sentinel ContextCanceled)
     else if Terminal (t_Status current) then
       fail (Suffix (Sentinel ErrAttemptFailed) (''task already '' @ status_string (t_Status current)))
     else
       let message = ''task exceeded runtime limit of '' @ duration_string runtime in
       aseq (awrap ''time out task'' (op_Transition H (k_TaskID c)
         ((runner_params StatusTimedOut ''runner'' [] (attempt_key c ''timeout''))
            \<lparr>p_FailureCode := ''task_runtime_exceeded'', p_FailureMessage := message\<rparr>))) (
       fail (attempt_failed ''task_runtime_exceeded'' message))))"

section \<open>The agent session\<close>

text \<open>\<open>agentEventTypes\<close>, and \<open>"agent." + type\<close> for a type it does not know.\<close>

fun agentEventType :: "agent_event_type \<Rightarrow> string" where
  "agentEventType EventSessionStarted = ''agent.started''"
| "agentEventType EventAssistantMessage = ''agent.message''"
| "agentEventType EventPlan = ''plan.created''"
| "agentEventType EventToolRequested = ''command.requested''"
| "agentEventType EventToolStarted = ''command.started''"
| "agentEventType EventToolOutput = ''command.output''"
| "agentEventType EventToolCompleted = ''command.completed''"
| "agentEventType EventFileRead = ''file.read''"
| "agentEventType EventFileWritten = ''file.changed''"
| "agentEventType EventCostUpdate = ''agent.cost_update''"
| "agentEventType EventWarning = ''agent.warning''"
| "agentEventType EventSessionCompleted = ''agent.completed''"
| "agentEventType EventSessionFailed = ''agent.failed''"
| "agentEventType (EventOther s) = ''agent.'' @ s"

definition stop_errors :: "session \<Rightarrow> time \<Rightarrow> err option" where
  "stop_errors se timeout = join_errs
     [if se_StopTimedOut se then
        Some (Suffix (Sentinel ErrSessionStopFailed)
          (''session did not stop within '' @ duration_string timeout))
      else None,
      (case se_Cancel se of Inl e \<Rightarrow> Some (Wrap ''cancel session'' e) | Inr _ \<Rightarrow> None),
      (case se_Drained se of None \<Rightarrow> None
       | Some e \<Rightarrow> if err_is ContextCanceled e \<or> err_is ContextDeadlineExceeded e then None
                 else Some (Wrap ''wait for stopped session'' e))]"

text \<open>\<open>errors.Join(err, stopSession(...))\<close>: the provider is stopped and drained first.\<close>

definition abort_session :: "executor \<Rightarrow> session \<Rightarrow> err \<Rightarrow> 'a action" where
  "abort_session X se e =
     aseq (call (AgentOp ''cancel'') (\<lambda>k. Inr ())) (
     fail (the (join_errs [Some e, stop_errors se (sessionStopTimeout X)])))"

definition or_abort :: "executor \<Rightarrow> session \<Rightarrow> 'a action \<Rightarrow> 'a action" where
  "or_abort X se m =
     abind (atry m) (\<lambda>r. case r of Inl e \<Rightarrow> abort_session X se e | Inr x \<Rightarrow> ret x)"

text \<open>The cause a select picks when the context has ended, though an event may wait too.\<close>

definition select_done :: "('m) runner_host_scheme \<Rightarrow> err option action" where
  "select_done H = (\<lambda>w.
     (Inr (if x_select_done H (w_ops w) then map_option snd (x_ctx H (w_ops w)) else None), w))"

fun session_loop ::
  "('m) runner_host_scheme \<Rightarrow> executor \<Rightarrow> Claim \<Rightarrow> session \<Rightarrow> AgentEvent list \<Rightarrow> status \<Rightarrow> status action"
where
  "session_loop H X c se [] st =
     abind (select_done H) (\<lambda>cause.
     case cause of Some e \<Rightarrow> abort_session X se e | None \<Rightarrow> ret st)"
| "session_loop H X c se (ev # evs) st =
     abind (select_done H) (\<lambda>cause.
     case cause of Some e \<Rightarrow> abort_session X se e
     | None \<Rightarrow>
         aseq (or_abort X se
           (append_event H c (agentEventType (ae_Type ev)) ''agent'' (ae_Payload ev))) (
         abind (if ae_Type ev = EventPlan \<and> st = StatusPlanning then
                  or_abort X se (transition H X c StatusExecuting ''runner'' [])
                else ret st)
           (session_loop H X c se evs)))"

section \<open>Trusted validation\<close>

definition workspaceLostNote :: string where
  "workspaceLostNote = ''the workspace was lost before trusted validation completed''"

definition check_payload :: "Result \<Rightarrow> json" where
  "check_payload r = JObj
     ([(''name'', jtext (res_Name r)), (''category'', jtext (res_Category r)),
       (''status'', JStr (vstatus_string (res_Status r))), (''duration_ms'', JInt (res_DurationMS r)),
       (''trusted_execution'', JBool True), (''summary'', jtext (res_Summary r))]
      @ omit_ptr ''exit_code'' (res_ExitCode r))"

definition record_check ::
  "('m) runner_host_scheme \<Rightarrow> Claim \<Rightarrow> Result \<Rightarrow> unit action" where
  "record_check H c r =
     aseq (op_InsertResult H (k_AttemptID c) r)
       (append_event H c ''validation.check.completed'' ''runner'' (check_payload r))"

text \<open>
  \<open>Runner.Run\<close> with its observer: the checks in order until the context ends; after an error of
  the observer the checks still run, unrecorded. The second component is that error.
\<close>

fun run_checks ::
  "('m) runner_host_scheme \<Rightarrow> Claim \<Rightarrow> string \<Rightarrow> err option \<Rightarrow> Check list
    \<Rightarrow> (Result list \<times> err option) action" where
  "run_checks H c dir failed [] = ret ([], failed)"
| "run_checks H c dir failed (k # ks) =
     abind (ctx_err H) (\<lambda>ce.
     if ce \<noteq> None then ret ([], failed)
     else
     abind (call (RunCheck dir (k_Command k)) (\<lambda>i. Inr (runCheck k (x_run_check H i dir k)))) (\<lambda>r.
     abind (if failed \<noteq> None then ret failed
            else abind (atry (record_check H c r)) (\<lambda>s. ret (outcome s))) (\<lambda>failed'.
     abind (run_checks H c dir failed' ks) (\<lambda>(rs, f). ret (r # rs, f)))))"

definition count_status :: "vstatus \<Rightarrow> Result list \<Rightarrow> nat" where
  "count_status s rs = length (filter (\<lambda>r. res_Status r = s) rs)"

definition overall_status :: "Result list \<Rightarrow> vstatus" where
  "overall_status rs =
     (if 0 < count_status VFailed rs then VFailed
      else if length rs \<noteq> count_status VPassed rs then VError
      else VPassed)"

definition completed_payload :: "Result list \<Rightarrow> json" where
  "completed_payload rs = JObj
     [(''status'', JStr (vstatus_string (overall_status rs))), (''trusted_execution'', JBool True),
      (''checks'', JInt (int (length rs))), (''passed'', JInt (int (count_status VPassed rs))),
      (''failed'', JInt (int (count_status VFailed rs))),
      (''timed_out'', JInt (int (count_status VTimedOut rs))),
      (''errors'', JInt (int (count_status VError rs)))]"

text \<open>The note is empty when the checks ran.\<close>

definition runTrustedValidation ::
  "('m) runner_host_scheme \<Rightarrow> Claim \<Rightarrow> string \<Rightarrow> string action" where
  "runTrustedValidation H c dir =
     aseq (append_event H c ''validation.started'' ''runner''
       (JObj [(''trusted_execution'', JBool True)])) (
     abind (call (FsOp ''load'' dir) (\<lambda>k. Inr (Load (x_yaml H) (x_files H k dir)))) (\<lambda>(loaded, found).
     case loaded of
       Inl e \<Rightarrow>
         let note = ''invalid validation file: '' @ err_text e in
         aseq (append_event H c ''validation.completed'' ''runner''
           (JObj [(''status'', JStr (vstatus_string VError)), (''reason'', jtext note)])) (
         ret note)
     | Inr file \<Rightarrow>
         if \<not> found then
           let note = ''no validation file at '' @ FileName in
           aseq (append_event H c ''validation.completed'' ''runner''
             (JObj [(''status'', JStr ''skipped''), (''reason'', jtext note)])) (
           ret note)
         else
         abind (run_checks H c dir None (vf_Validation file)) (\<lambda>(results, failed).
         case failed of Some e \<Rightarrow> fail e
         | None \<Rightarrow>
             abind (ctx_cause H) (\<lambda>cause.
             case cause of Some e \<Rightarrow> fail e
             | None \<Rightarrow>
                 aseq (append_event H c ''validation.completed'' ''runner''
                   (completed_payload results)) (
                 ret [])))))"

section \<open>Evidence\<close>

text \<open>\<open>^\s*\d+[.)]\s*\<close> at the start of a line.\<close>

definition re_space :: "char \<Rightarrow> bool" where
  "re_space c \<longleftrightarrow> c \<in> {CHR 0x09, CHR 0x0A, CHR 0x0C, CHR 0x0D, CHR '' ''}"

definition drop_step_number :: "string \<Rightarrow> string" where
  "drop_step_number line =
     (let s = dropWhile re_space line in
      if takeWhile is_digit s = [] then line
      else (case dropWhile is_digit s of
          d # rest \<Rightarrow> if d = CHR ''.'' \<or> d = CHR '')'' then dropWhile re_space rest else line
        | [] \<Rightarrow> line))"

definition planSteps :: "string \<Rightarrow> string list" where
  "planSteps text =
     filter (\<lambda>l. l \<noteq> []) (map (TrimSpace \<circ> drop_step_number) (split_at (CHR 0x0A) text))"

definition text_member :: "string \<Rightarrow> string \<Rightarrow> json \<Rightarrow> string \<Rightarrow> err + string" where
  "text_member name k j old = (if k = name then decode_string j old else Inr old)"

definition command_member ::
  "string \<Rightarrow> json \<Rightarrow> string \<times> int option \<Rightarrow> err + (string \<times> int option)" where
  "command_member k j p =
     (if k = ''command'' then bind_sum (decode_string j (fst p)) (\<lambda>s. Inr (s, snd p))
      else if k = ''exit_code'' then bind_sum (decode_int_ptr j) (\<lambda>v. Inr (fst p, v))
      else Inr p)"

record claims =
  cl_Plan :: "string list"
  cl_Files :: "string list"
  cl_Claimed :: "CheckResult list"

definition claimed_status :: "int option \<Rightarrow> string" where
  "claimed_status v =
     (case v of None \<Rightarrow> ''unknown''
      | Some n \<Rightarrow> if n = 0 then vstatus_string VPassed else vstatus_string VFailed)"

definition claimed_check :: "string \<Rightarrow> int option \<Rightarrow> CheckResult" where
  "claimed_check command code =
     \<lparr>cr_Name = command, cr_Category = ''custom'', cr_StatusText = claimed_status code,
      cr_TrustedExecution = False, cr_ExitCode = code, cr_DurationMS = 0, cr_Summary = []\<rparr>"

text \<open>What one event of the agent adds to the claims of the attempt.\<close>

definition claim_event :: "Claim \<Rightarrow> Event \<Rightarrow> claims \<Rightarrow> claims" where
  "claim_event c ev cl =
     (if e_TaskAttemptID ev \<noteq> k_AttemptID c \<or> e_Source ev \<noteq> ''agent'' then cl
      else if e_EventType ev = ''plan.created'' then
        (case decode_struct (text_member ''plan'') [] (e_Payload ev) of
           Inr plan \<Rightarrow> if plan \<noteq> [] then cl\<lparr>cl_Plan := planSteps plan\<rparr> else cl
         | Inl _ \<Rightarrow> cl)
      else if e_EventType ev = ''file.changed'' then
        (case decode_struct (text_member ''path'') [] (e_Payload ev) of
           Inr path \<Rightarrow> if path \<noteq> [] \<and> path \<notin> set (cl_Files cl) then
                         cl\<lparr>cl_Files := cl_Files cl @ [path]\<rparr> else cl
         | Inl _ \<Rightarrow> cl)
      else if e_EventType ev = ''command.completed'' then
        (case decode_struct command_member ([], None) (e_Payload ev) of
           Inr (command, code) \<Rightarrow> if command \<noteq> [] then
                         cl\<lparr>cl_Claimed := cl_Claimed cl @ [claimed_check command code]\<rparr> else cl
         | Inl _ \<Rightarrow> cl)
      else cl)"

definition agent_claims :: "Claim \<Rightarrow> (int \<times> Event) list \<Rightarrow> claims" where
  "agent_claims c es =
     fold (\<lambda>(_, ev). claim_event c ev) es \<lparr>cl_Plan = [], cl_Files = [], cl_Claimed = []\<rparr>"

definition truncation_note :: "(int \<times> Event) list \<Rightarrow> string list" where
  "truncation_note es =
     (if int (length es) = evidenceEventLimit then
        [''event stream truncated at '' @ int_string evidenceEventLimit
          @ '' events; plan, file, and command claims may be incomplete'']
      else [])"

definition report_params ::
  "executor \<Rightarrow> Claim \<Rightarrow> Task \<Rightarrow> Attempt \<Rightarrow> (int \<times> ValidationRow) list \<Rightarrow> (int \<times> Event) list
    \<Rightarrow> int option \<Rightarrow> string \<Rightarrow> ReportParams" where
  "report_params X c t attempt trusted es duration note =
     (let cl = agent_claims c es in
      \<lparr>gp_Task = t, gp_BaseCommit = text_or (a_BaseCommitSHA attempt) [],
       gp_AgentProvider = text_or (t_AgentProvider t) (ec_AdapterName X),
       gp_DurationSeconds = duration, gp_Plan = cl_Plan cl, gp_FilesChanged = cl_Files cl,
       gp_Trusted = trusted, gp_AgentReported = cl_Claimed cl, gp_ValidationNote = note,
       gp_Unverified = truncation_note es\<rparr>)"

definition generateEvidence ::
  "('m) runner_host_scheme \<Rightarrow> executor \<Rightarrow> Claim \<Rightarrow> string \<Rightarrow> unit action" where
  "generateEvidence H X c note =
     abind (awrap ''evidence'' (op_Get H (k_TaskID c))) (\<lambda>t.
     abind (awrap ''evidence'' (op_ListResultsForAttempt H (k_AttemptID c))) (\<lambda>trusted.
     abind (awrap ''evidence'' (op_Events H (k_TaskID c) evidenceEventLimit)) (\<lambda>es.
     abind (awrap ''evidence'' (op_AttemptStartedAt H (k_AttemptID c))) (\<lambda>startedAt.
     abind (time_now H) (\<lambda>now.
     abind (awrap ''evidence'' (op_GetAttempt H (k_AttemptID c))) (\<lambda>attempt.
     let duration = map_option (\<lambda>s. sgn (now - s) * (\<bar>now - s\<bar> div second)) startedAt;
         report = Generate (report_params X c t attempt trusted es duration note) in
     aseq (awrap ''evidence'' (op_InsertReport H (k_AttemptID c) report (Markdown report))) (
     append_event H c ''evidence.generated'' ''runner''
       (JObj [(''schema_version'', JInt (rep_SchemaVersion report)),
              (''trusted_checks'', JInt (int (length trusted)))]))))))))"

section \<open>The stages that need a workspace\<close>

definition advance_from ::
  "('m) runner_host_scheme \<Rightarrow> executor \<Rightarrow> Claim \<Rightarrow> status \<Rightarrow> status \<Rightarrow> status \<Rightarrow> status action" where
  "advance_from H X c from next st =
     (if st = from then transition H X c next ''runner'' [] else ret st)"

text \<open>The session from its start to its result, with the status it left.\<close>

definition agent_session ::
  "('m) runner_host_scheme \<Rightarrow> executor \<Rightarrow> Claim \<Rightarrow> string \<Rightarrow> status \<Rightarrow> (status \<times> string) action" where
  "agent_session H X c dir st =
     abind (atry (call (AgentOp ''start'') (\<lambda>k. x_start H k dir (k_Instructions c)))) (\<lambda>started.
     case started of
       Inl e \<Rightarrow> failTask H X c ''agent_start_failed'' (err_text e)
     | Inr se \<Rightarrow>
         abind (session_loop H X c se (se_Events se) st) (\<lambda>st.
         abind (atry (call (AgentOp ''wait'') (\<lambda>k. se_Wait se))) (\<lambda>waited.
         case waited of
           Inl e \<Rightarrow>
             abind (ctx_cause H) (\<lambda>cause.
             case cause of Some x \<Rightarrow> fail x
             | None \<Rightarrow> failTask H X c ''agent_failed'' (err_text e))
         | Inr summary \<Rightarrow> ret (st, summary))))"

definition validate_work ::
  "('m) runner_host_scheme \<Rightarrow> executor \<Rightarrow> Claim \<Rightarrow> string \<Rightarrow> status \<Rightarrow> unit action" where
  "validate_work H X c dir st =
     abind (advance_from H X c StatusPlanning StatusExecuting st) (\<lambda>st.
     abind (advance_from H X c StatusExecuting StatusValidating st) (\<lambda>_.
     abind (runTrustedValidation H c dir) (\<lambda>note.
     aseq (generateEvidence H X c note) (
     aseq (transition H X c StatusPublishing ''runner'' []) (
     ret ())))))"

text \<open>From the ready workspace to the status publishing: agent, validation, evidence.\<close>

definition agent_stages ::
  "('m) runner_host_scheme \<Rightarrow> executor \<Rightarrow> Claim \<Rightarrow> string \<Rightarrow> status \<Rightarrow> string action" where
  "agent_stages H X c dir st =
     aseq (append_event H c ''workspace.ready'' ''runner'' JNull) (
     abind (advance_from H X c StatusProvisioning StatusPlanning st) (\<lambda>st.
     abind (agent_session H X c dir st) (\<lambda>(st, summary).
     aseq (validate_work H X c dir st) (
     ret summary))))"

definition remove_temp_dir ::
  "('m) runner_host_scheme \<Rightarrow> Claim \<Rightarrow> string \<Rightarrow> err option \<Rightarrow> unit action" where
  "remove_temp_dir H c dir r =
     aseq (joining r (awrap ''workspace cleanup'' (fs_remove_all H dir))) (
     aseq (joining r (awrap ''record workspace cleanup'' (op_AppendAttemptEvent H (k_AttemptID c)
       ''cleanup.completed'' ''runner'' cleanup_payload))) (
     keep_err r))"

definition provision_failed ::
  "('m) runner_host_scheme \<Rightarrow> executor \<Rightarrow> Claim \<Rightarrow> err \<Rightarrow> 'a action" where
  "provision_failed H X c e =
     abind (ctx_cause H) (\<lambda>cause.
     case cause of Some x \<Rightarrow> fail x
     | None \<Rightarrow> if err_is ErrAttemptFailed e then fail e
              else failTask H X c ''workspace_failed'' (err_text e))"

definition runAgentStages ::
  "('m) runner_host_scheme \<Rightarrow> executor \<Rightarrow> Claim \<Rightarrow> Task \<Rightarrow> RepositoryContext option \<Rightarrow> status
    \<Rightarrow> status action" where
  "runAgentStages H X c t pub st =
     aseq (append_event H c ''workspace.provisioning'' ''runner'' JNull) (
     case pub of
       Some rc \<Rightarrow>
         abind (atry (provisionWorkspace H X c t rc)) (\<lambda>r.
         case r of
           Inl e \<Rightarrow> provision_failed H X c e
         | Inr ws \<Rightarrow>
             publish_and_clean H X c ws (abind (agent_stages H X c (ws_Path ws) st)
               (publishFromWorkspace H X c t rc ws)))
     | None \<Rightarrow>
         abind (atry (call (FsOp ''mkdirtemp'' []) (x_temp_dir H))) (\<lambda>r.
         case r of
           Inl e \<Rightarrow> failTask H X c ''workspace_failed'' (err_text e)
         | Inr dir \<Rightarrow>
             aseq (afterwards (agent_stages H X c dir st) (remove_temp_dir H c dir))
               (ret StatusPublishing)))"

section \<open>An attempt\<close>

definition validating_recovery :: "('m) runner_host_scheme \<Rightarrow> executor \<Rightarrow> Claim \<Rightarrow> status action" where
  "validating_recovery H X c =
     aseq (append_event H c ''validation.completed'' ''runner''
       (JObj [(''status'', JStr (vstatus_string VError)), (''reason'', JStr workspaceLostNote)])) (
     aseq (generateEvidence H X c workspaceLostNote) (
     transition H X c StatusPublishing ''runner'' []))"

definition skip_publishing :: "('m) runner_host_scheme \<Rightarrow> executor \<Rightarrow> Claim \<Rightarrow> status action" where
  "skip_publishing H X c =
     aseq (append_event H c ''publishing.skipped'' ''runner''
       (JObj [(''reason'', JStr ''task has no repository or publishing is not configured'')])) (
     transition H X c StatusAwaitingReview ''runner'' [])"

definition auto_complete :: "('m) runner_host_scheme \<Rightarrow> executor \<Rightarrow> Claim \<Rightarrow> unit action" where
  "auto_complete H X c =
     aseq (transition H X c StatusCompleted ''system''
       ''fake attempt auto-completed; nothing was published to review'') (ret ())"

definition drive :: "('m) runner_host_scheme \<Rightarrow> executor \<Rightarrow> Claim \<Rightarrow> unit action" where
  "drive H X c =
     abind (advance_from H X c StatusQueued StatusProvisioning (k_TaskStatus c)) (\<lambda>st.
     abind (op_Get H (k_TaskID c)) (\<lambda>t.
     abind (publishTarget H X c t) (\<lambda>pub.
     abind (if st \<in> {StatusProvisioning, StatusPlanning, StatusExecuting}
            then runAgentStages H X c t pub st else ret st) (\<lambda>st.
     abind (if st = StatusValidating then validating_recovery H X c else ret st) (\<lambda>st.
     abind (if st = StatusPublishing then
              (case pub of None \<Rightarrow> skip_publishing H X c
               | Some rc \<Rightarrow> publishRecovered H X c t rc)
            else ret st) (\<lambda>st.
     if st = StatusAwaitingReview \<and> pub = None then auto_complete H X c else ret ()))))))"

section \<open>Settlement\<close>

definition terminalCheckConclusion :: "status \<Rightarrow> (string \<times> string) option" where
  "terminalCheckConclusion st =
     (if st = StatusFailed then Some (''failure'', ''Agent Trail task failed'')
      else if st = StatusCancelled then Some (''cancelled'', ''Agent Trail task cancelled'')
      else if st = StatusTimedOut then Some (''timed_out'', ''Agent Trail task timed out'')
      else None)"

text \<open>\<open>r\<close> is the error so far; the action fails with the error returned, if any.\<close>

definition complete_settled ::
  "('m) runner_host_scheme \<Rightarrow> executor \<Rightarrow> Claim \<Rightarrow> Attempt \<Rightarrow> Task \<Rightarrow> string \<Rightarrow> string \<Rightarrow> string
    \<Rightarrow> err option \<Rightarrow> unit action" where
  "complete_settled H X c attempt t rid conclusion title r =
     abind (atry (op_RepositoryContextByID H rid)) (\<lambda>found.
     case found of
       Inl _ \<Rightarrow> keep_err r
     | Inr rc \<Rightarrow>
         aseq (joining r (awrap ''fence trigger check run completion'' (fenceLeaseOwnership H X c))) (
         aseq (joining r (completeTriggerCheckRun H (settle_ctx_err H) c rc attempt
           (no_check_run\<lparr>crp_Conclusion := conclusion, crp_Title := title,
              crp_Summary := (case t_FailureMessage t of Some m \<Rightarrow> truncate_bytes m checkOutputLimit
                              | None \<Rightarrow> title)\<rparr>))) (
         keep_err r)))"

definition settleTriggerCheckRun ::
  "('m) runner_host_scheme \<Rightarrow> executor \<Rightarrow> Claim \<Rightarrow> err option \<Rightarrow> unit action" where
  "settleTriggerCheckRun H X c r =
     abind (lease_lost H) (\<lambda>lost.
     if \<not> ec_GitHub X \<or> \<not> ec_Repos X \<or> lost_lease r \<or> lost then keep_err r
     else
     abind (joining r (awrap ''read attempt for trigger check run''
       (op_GetAttempt H (k_AttemptID c)))) (\<lambda>attempt.
     if a_TriggerCheckRunID attempt = None \<or> a_TriggerCheckRunCompletedAt attempt \<noteq> None then keep_err r
     else
     abind (joining r (awrap ''read task for trigger check run'' (op_Get H (k_TaskID c)))) (\<lambda>t.
     case (terminalCheckConclusion (t_Status t), t_RepositoryID t) of
       (Some (conclusion, title), Some rid) \<Rightarrow>
         complete_settled H X c attempt t rid conclusion title r
     | _ \<Rightarrow> keep_err r)))"

definition cleanupTerminalRecovery ::
  "('m) runner_host_scheme \<Rightarrow> executor \<Rightarrow> Claim \<Rightarrow> err option \<Rightarrow> unit action" where
  "cleanupTerminalRecovery H X c r =
     abind (lease_lost H) (\<lambda>lost.
     if \<not> ec_Workspaces X \<or> lost_lease r \<or> lost then keep_err r
     else
     aseq (joining r (awrap ''fence recovery cleanup'' (fenceLeaseOwnership H X c))) (
     abind (joining r (awrap ''read task for recovery cleanup'' (op_Get H (k_TaskID c)))) (\<lambda>t.
     case (t_RepositoryID t, t_WorkingBranch t) of
       (Some rid, Some branch) \<Rightarrow>
         if \<not> Terminal (t_Status t) then keep_err r
         else
         abind (WorkspaceExists H (k_AttemptID c)) (\<lambda>present.
         if \<not> present then keep_err r
         else
         aseq (joining r (awrap ''workspace cleanup''
           (CleanupStale H \<lparr>rr_ID = rid, rr_CloneURL = []\<rparr> (k_AttemptID c) branch))) (
         aseq (joining r (awrap ''record workspace cleanup'' (op_AppendAttemptEvent H (k_AttemptID c)
           ''cleanup.completed'' ''runner'' cleanup_payload))) (
         keep_err r)))
     | _ \<Rightarrow> keep_err r)))"

definition release_lease ::
  "('m) runner_host_scheme \<Rightarrow> executor \<Rightarrow> Claim \<Rightarrow> err option \<Rightarrow> unit action" where
  "release_lease H X c r =
     (if lost_lease r then keep_err r
      else
      abind (atry (op_ReleaseLease H (k_AttemptID c) (ec_RunnerID X))) (\<lambda>s.
      case s of
        Inl e \<Rightarrow> if err_is ErrLeaseLost e then keep_err r
                 else fail (join_err r (Wrap ''release lease'' e))
      | Inr _ \<Rightarrow> keep_err r))"

text \<open>\<open>errors.Is(err, target)\<close> for a target that is itself a chain.\<close>

fun err_has :: "err \<Rightarrow> err \<Rightarrow> bool" where
  "err_has target (Wrap l e) = (target = Wrap l e \<or> err_has target e)"
| "err_has target (Suffix e m) = (target = Suffix e m \<or> err_has target e)"
| "err_has target (Join es) = (target = Join es \<or> list_ex (err_has target) es)"
| "err_has target e = (target = e)"

definition add_err :: "err option \<Rightarrow> err \<Rightarrow> err option" where
  "add_err r e = Some (join_err r e)"

text \<open>The error of the drive with the lost lease and the cause of the context joined on.\<close>

definition with_cause :: "bool \<Rightarrow> err option \<Rightarrow> err option \<Rightarrow> err option" where
  "with_cause lost cause r =
     (let r1 = (if lost then add_err r (Sentinel ErrLeaseLost) else r) in
      case cause of
        Some e \<Rightarrow> if r1 \<noteq> None \<and> err_has e (the r1) then r1 else add_err r1 e
      | None \<Rightarrow> r1)"

definition timed_out :: "bool \<Rightarrow> err option \<Rightarrow> err option \<Rightarrow> bool" where
  "timed_out lost cause r \<longleftrightarrow>
     r \<noteq> None \<and> \<not> lost \<and>
     (case cause of Some e \<Rightarrow> err_is ContextDeadlineExceeded e | None \<Rightarrow> False) \<and>
     \<not> err_is ErrAttemptFailed (the r)"

text \<open>The error of a step as a value; steps that follow run whatever it is.\<close>

definition result_of :: "unit action \<Rightarrow> err option action" where
  "result_of m = abind (atry m) (\<lambda>s. ret (outcome s))"

definition settle ::
  "('m) runner_host_scheme \<Rightarrow> executor \<Rightarrow> Claim \<Rightarrow> time \<Rightarrow> unit action" where
  "settle H X c runtime =
     abind (result_of (drive H X c)) (\<lambda>r0.
     abind (ctx_cause H) (\<lambda>cause.
     abind (lease_lost H) (\<lambda>lost.
     let r1 = with_cause lost cause r0 in
     abind (if timed_out lost cause r1 then
              abind (result_of (timeoutTask H X c runtime)) (\<lambda>t. ret (join_errs [t, r1]))
            else ret r1) (\<lambda>r2.
     abind (result_of (settleTriggerCheckRun H X c r2)) (\<lambda>r3.
     abind (result_of (cleanupTerminalRecovery H X c r3)) (\<lambda>r4.
     release_lease H X c r4))))))"

definition Execute :: "('m) runner_host_scheme \<Rightarrow> executor \<Rightarrow> Claim \<Rightarrow> unit action" where
  "Execute H X c =
     abind (time_now H) (\<lambda>now.
     if k_LeaseExpiresAt c - now \<le> 0 then fail (Sentinel ErrLeaseLost)
     else
     aseq (op_ExtendLease H (k_AttemptID c) (ec_RunnerID X) (ec_LeaseDuration X)) (
     abind (atry (runtimeDeadline H X c)) (\<lambda>r.
     case r of
       Inl e \<Rightarrow>
         abind (result_of (op_ReleaseLease H (k_AttemptID c) (ec_RunnerID X))) (\<lambda>rel.
         fail (the (join_errs [Some e, rel])))
     | Inr (runtime, deadline) \<Rightarrow> settle H X c runtime)))"

end
