(* ===== verification/ExecutorRuns.thy ===== *)
theory ExecutorRuns
  imports Executor
begin

text \<open>
  What an executor may do: every function of the runner is a run of the platform whose effects
  are the attempt's own, with pushes as the policy allows. One rule per function, in the order of
  the code, so that the rules for \<open>Execute\<close> are consequences.
\<close>

section \<open>The effects of one attempt\<close>

text \<open>The subcommand of a git command, past its \<open>-c\<close> options.\<close>

fun git_verb :: "string list \<Rightarrow> string" where
  "git_verb (a # v # args) = (if a = ''-c'' then git_verb args else a)"
| "git_verb [a] = a"
| "git_verb [] = []"

definition push_allowed :: "string list \<Rightarrow> bool" where
  "push_allowed args \<longleftrightarrow>
     (if git_verb args = ''push'' then \<exists>b. ValidBranch b \<and> args = push_args ''origin'' b else True)"

text \<open>Everything but a transition.\<close>

definition work_effect :: "executor \<Rightarrow> Claim \<Rightarrow> effect \<Rightarrow> bool" where
  "work_effect X c e = (case e of
     DbEnsureGitContext tid base br \<Rightarrow> tid = k_TaskID c
   | DbMarkTriggerCheckRunCompleted aid \<Rightarrow> aid = k_AttemptID c
   | DbAppendAttemptEvent aid ty \<Rightarrow> aid = k_AttemptID c \<and> \<not> transition_type ty
   | DbRecordAttemptBase aid sha \<Rightarrow> aid = k_AttemptID c
   | DbRecordFinalCommit aid sha \<Rightarrow> aid = k_AttemptID c
   | DbRecordPullRequest aid n \<Rightarrow> aid = k_AttemptID c
   | DbExtendLease aid rid \<Rightarrow> aid = k_AttemptID c \<and> rid = ec_RunnerID X
   | DbReleaseLease aid rid \<Rightarrow> aid = k_AttemptID c \<and> rid = ec_RunnerID X
   | DbInsertResult aid n \<Rightarrow> aid = k_AttemptID c
   | DbInsertReport aid \<Rightarrow> aid = k_AttemptID c
   | DbReconcile tid \<Rightarrow> tid = pg_uuid (k_TaskID c)
   | GhRead n \<Rightarrow> True
   | GhCreateIssueComment i ow r n b \<Rightarrow> True
   | GhCreateCheckRun i ow r p \<Rightarrow> crp_ExternalID p = k_AttemptID c
   | GhUpdateCheckRun i ow r n p \<Rightarrow> True
   | GhCreateDraftPullRequest i ow r p \<Rightarrow> True
   | GhUpdatePullRequestBody i ow r n b \<Rightarrow> True
   | GitOp dir args \<Rightarrow> push_allowed args
   | FsOp name path \<Rightarrow> True | AgentOp name \<Rightarrow> True | RunCheck dir args \<Rightarrow> True
   | _ \<Rightarrow> False)"

definition is_transition :: "effect \<Rightarrow> bool" where
  "is_transition e = (case e of DbTransition tid p \<Rightarrow> True | _ \<Rightarrow> False)"

text \<open>A transition of the claim's task under a key of the claim's attempt.\<close>

definition own_transition :: "Claim \<Rightarrow> effect \<Rightarrow> bool" where
  "own_transition c e = (case e of
     DbTransition tid p \<Rightarrow> tid = k_TaskID c \<and> (\<exists>s. p_IdempotencyKey p = attempt_key c s)
   | _ \<Rightarrow> False)"

definition own_effect :: "executor \<Rightarrow> Claim \<Rightarrow> effect \<Rightarrow> bool" where
  "own_effect X c e \<longleftrightarrow> work_effect X c e \<or> own_transition c e"

lemma work_not_transition: "work_effect X c e \<Longrightarrow> \<not> is_transition e"
  by (cases e) (simp_all add: work_effect_def is_transition_def)

lemma own_transition_simps [simp]:
  "own_transition c (DbTransition (k_TaskID c) (runner_params st src reason (attempt_key c s)))"
  "own_transition c (DbTransition (k_TaskID c) ((runner_params st src reason (attempt_key c s))
     \<lparr>p_FailureCode := code, p_FailureMessage := m\<rparr>))"
  by (auto simp: own_transition_def runner_params_def)

lemma not_transition_type: "take 5 ty \<noteq> ''task.'' \<Longrightarrow> \<not> transition_type ty"
  by (auto simp: transition_type_def TransitionEventType_def)

lemma agentEventType_prefix [simp]: "take 5 (agentEventType ty) \<noteq> ''task.''"
  by (cases ty) simp_all

lemma work_effect_simps [simp]:
  "work_effect X c (DbEnsureGitContext tid base br) \<longleftrightarrow> tid = k_TaskID c"
  "work_effect X c (DbMarkTriggerCheckRunCompleted aid) \<longleftrightarrow> aid = k_AttemptID c"
  "work_effect X c (DbAppendAttemptEvent aid ty) \<longleftrightarrow> aid = k_AttemptID c \<and> \<not> transition_type ty"
  "work_effect X c (DbRecordAttemptBase aid sha) \<longleftrightarrow> aid = k_AttemptID c"
  "work_effect X c (DbRecordFinalCommit aid sha) \<longleftrightarrow> aid = k_AttemptID c"
  "work_effect X c (DbRecordPullRequest aid n) \<longleftrightarrow> aid = k_AttemptID c"
  "work_effect X c (DbExtendLease aid rid) \<longleftrightarrow> aid = k_AttemptID c \<and> rid = ec_RunnerID X"
  "work_effect X c (DbReleaseLease aid rid) \<longleftrightarrow> aid = k_AttemptID c \<and> rid = ec_RunnerID X"
  "work_effect X c (DbInsertResult aid s) \<longleftrightarrow> aid = k_AttemptID c"
  "work_effect X c (DbInsertReport aid) \<longleftrightarrow> aid = k_AttemptID c"
  "work_effect X c (DbReconcile tid) \<longleftrightarrow> tid = pg_uuid (k_TaskID c)"
  "work_effect X c (GhRead s)" "work_effect X c (GhCreateIssueComment i ow r n b)"
  "work_effect X c (GhCreateCheckRun i ow r p) \<longleftrightarrow> crp_ExternalID p = k_AttemptID c"
  "work_effect X c (GhUpdateCheckRun i ow r n p)"
  "work_effect X c (GhCreateDraftPullRequest i ow r q)"
  "work_effect X c (GhUpdatePullRequestBody i ow r n b)"
  "work_effect X c (GitOp dir args) \<longleftrightarrow> push_allowed args"
  "work_effect X c (FsOp s dir)" "work_effect X c (AgentOp s)" "work_effect X c (RunCheck dir args)"
  by (simp_all add: work_effect_def)

section \<open>Primitives\<close>

lemma runs_ctx [runs_intros]:
  "runs A (ctx_err H)" "runs A (ctx_cause H)" "runs A (settle_ctx_err H)" "runs A (lease_lost H)"
  "runs A markLeaseLost" "runs A (select_done H)"
  by (simp_all add: runs_def ctx_err_def ctx_cause_def settle_ctx_err_def lease_lost_def
      markLeaseLost_def select_done_def Let_def)

lemma runs_joining [runs_intros]: "runs A m \<Longrightarrow> runs A (joining r m)"
  by (erule runs_same_world) (auto simp: joining_def split: prod.splits sum.splits)

lemma runs_keep_err [runs_intros]: "runs A (keep_err r)"
  unfolding keep_err_def by (intro runs_intros)

lemma runs_afterwards [runs_intros]:
  "runs A m \<Longrightarrow> (\<And>r. runs A (f r)) \<Longrightarrow> runs A (afterwards m f)"
  unfolding afterwards_def by (intro runs_intros)

lemma runs_result_of [runs_intros]: "runs A m \<Longrightarrow> runs A (result_of m)"
  unfolding result_of_def by (intro runs_intros)

lemma runs_records [runs_intros]:
  assumes "others_ok H"
  shows "A (DbInsertResult aid (res_Name res)) \<Longrightarrow> runs A (op_InsertResult H aid res)"
    and "runs A (op_ListResultsForAttempt H aid)"
    and "A (DbInsertReport aid) \<Longrightarrow> runs A (op_InsertReport H aid rep md)"
    and "runs A (op_GetReportForAttempt H aid)" and "runs A (op_ListAttemptHistory H tid)"
    and "runs A (op_ActiveSiblings H rid tid)" and "runs A (op_Events H tid n)"
    and "A (DbReconcile tid) \<Longrightarrow> runs A (op_Reconcile H rid tid dets)"
    and "runs A (op_AttemptStartedAt H aid)"
  unfolding op_InsertResult_def op_ListResultsForAttempt_def op_InsertReport_def
    op_GetReportForAttempt_def op_ListAttemptHistory_def op_ActiveSiblings_def op_Events_def
    op_Reconcile_def op_AttemptStartedAt_def
  using assms by (auto intro!: runs_intros)

lemma runs_token [runs_intros]: "(\<And>n. A (GhRead n)) \<Longrightarrow> runs A (gh_InstallationToken H i)"
  unfolding gh_InstallationToken_def by (intro runs_intros)

lemma runs_indexed: "(\<And>n. runs A (f n)) \<Longrightarrow> runs A (\<lambda>w. f (g w) w)"
  unfolding runs_def by blast

lemma runs_fence_retry:
  assumes "others_ok H" and "A (DbExtendLease (k_AttemptID c) (ec_RunnerID X))"
  shows "runs A (fence_retry H X c n)"
proof (induction n)
  case 0
  show ?case by (subst fence_retry.simps) (auto intro!: runs_intros assms)
next
  case (Suc n)
  then show ?case by (subst fence_retry.simps) (auto intro!: runs_intros assms)
qed

lemma runs_fence [runs_intros]:
  assumes "others_ok H" and "\<And>e. work_effect X c e \<Longrightarrow> A e"
  shows "runs A (fenceLeaseOwnership H X c)"
proof -
  have "runs A (\<lambda>w. fence_retry H X c (x_fence_retries H (w_ops w)) w)"
    by (rule runs_indexed [of A "fence_retry H X c"], rule runs_fence_retry) (simp_all add: assms)
  then show ?thesis unfolding fenceLeaseOwnership_def by (intro runs_intros)
qed

lemma runs_append [runs_intros]:
  assumes "others_ok H" and "\<And>e. work_effect X c e \<Longrightarrow> A e" and "take 5 ty \<noteq> ''task.''"
  shows "runs A (append_event H c ty src pl)"
  unfolding append_event_def
  by (intro runs_intros assms(1,2)) (simp_all add: not_transition_type [OF assms(3)])

lemma runs_attempt_event [runs_intros]:
  assumes "others_ok H" and "\<And>e. work_effect X c e \<Longrightarrow> A e" and "take 5 ty \<noteq> ''task.''"
  shows "runs A (op_AppendAttemptEvent H (k_AttemptID c) ty src pl)"
  by (intro runs_intros assms(1,2)) (simp_all add: not_transition_type [OF assms(3)])

section \<open>Git\<close>

lemma runs_git [runs_intros]:
  "A (GitOp dir args) \<Longrightarrow> runs A (runExit H dir ok args)"
  "A (GitOp dir args) \<Longrightarrow> runs A (git_run H dir args)"
  "(\<And>s p. A (FsOp s p)) \<Longrightarrow> runs A (fs_exists H path)"
  "(\<And>s p. A (FsOp s p)) \<Longrightarrow> runs A (fs_mkdir H path)"
  "(\<And>s p. A (FsOp s p)) \<Longrightarrow> runs A (fs_remove_all H path)"
  "(\<And>s p. A (FsOp s p)) \<Longrightarrow> runs A (fs_eval_symlinks H path)"
  unfolding runExit_def git_run_def fs_exists_def fs_mkdir_def fs_remove_all_def fs_eval_symlinks_def
  by (auto intro!: runs_intros)

text \<open>Commands other than a push are allowed whatever their arguments.\<close>

lemma push_allowed_simps [simp]:
  "a \<noteq> ''-c'' \<Longrightarrow> a \<noteq> ''push'' \<Longrightarrow> push_allowed (a # args)"
  "push_allowed [''-c'', u, ''-c'', v, ''commit'', ''-m'', m, ''-m'', t]"
  "ValidBranch b \<Longrightarrow> push_allowed (push_args ''origin'' b)"
  by (cases args; simp add: push_allowed_def) (auto simp: push_allowed_def push_args_def)

lemma runs_mirror [runs_intros]:
  assumes "\<And>s p. A (FsOp s p)" and "\<And>dir args. push_allowed args \<Longrightarrow> A (GitOp dir args)"
  shows "runs A (EnsureMirror H repo)" and "runs A (verifyBranchTip H mirror branch want)"
    and "runs A (verifyBaseSHA H mirror sha)" and "runs A (assertWithinRoot H path)"
    and "runs A (CleanupStale H repo aid branch)" and "runs A (WorkspaceExists H aid)"
    and "runs A (Lookup H aid repo branch base)" and "runs A (Remove H ws)"
    and "runs A (Commit H ws cp)" and "runs A (Head H ws)" and "runs A (Push H ws pp)"
    and "runs A (diffTarget H repo a b)" and "runs A (HasCommit H repo sha)"
    and "runs A (ChangedFiles H repo a b)" and "runs A (DiffHunks H repo a b)"
    and "runs A (Diff H repo a b)" and "runs A (MergeTree H repo a b)"
  unfolding EnsureMirror_def verifyBranchTip_def verifyBaseSHA_def assertWithinRoot_def
    CleanupStale_def WorkspaceExists_def Lookup_def Remove_def Commit_def Head_def Push_def
    diffTarget_def HasCommit_def ChangedFiles_def DiffHunks_def Diff_def MergeTree_def
    mirrorPath_def Let_def
  by (intro runs_intros assms; simp add: allowedRemote_def)+

lemma runs_CreateWorktree [runs_intros]:
  assumes "\<And>s p. A (FsOp s p)" and "\<And>dir args. push_allowed args \<Longrightarrow> A (GitOp dir args)"
  shows "runs A (CreateWorktree H p)"
  unfolding CreateWorktree_def Let_def by (intro runs_intros assms) simp_all

section \<open>Work without transitions\<close>

text \<open>
  The rules below take the surroundings and the permission for every work effect; the conclusion
  of one feeds the next.
\<close>

lemma runs_credentials [runs_intros]:
  assumes "\<And>e. work_effect X c e \<Longrightarrow> A e"
  shows "runs A (repoRef H rc)"
  unfolding repoRef_def by (intro runs_intros assms) simp

lemma runs_detect [runs_intros]:
  assumes "others_ok H" and "\<And>e. work_effect X c e \<Longrightarrow> A e" and "tid = pg_uuid (k_TaskID c)"
  shows "runs A (Detect H X' repo rid tid title base final)"
proof -
  have present: "runs A (commitsPresent H repo shas)" for shas
    by (induction shas) (auto intro!: runs_intros assms(2))
  have change: "runs A (changeSet H repo b f)" for b f
    unfolding changeSet_def by (intro runs_intros assms(2)) simp_all
  have verdict: "runs A (semantic_verdict H X' repo tid title d sib)" for d sib
    unfolding semantic_verdict_def assess_def by (intro runs_intros assms(2)) simp_all
  have siblings: "runs A (detect_siblings H X' repo tid title f self d sibs)" for f self d sibs
    by (induction sibs) (auto intro!: runs_intros present change verdict assms(2))
  show ?thesis
    unfolding Detect_def self_diff_def
    by (intro runs_intros siblings change assms(1,2)) (simp_all add: assms(3))
qed

lemma runs_detectConflicts [runs_intros]:
  assumes "others_ok H" and "\<And>e. work_effect X c e \<Longrightarrow> A e" and "t_ID t = pg_uuid (k_TaskID c)"
  shows "runs A (detectConflicts H X c t rc base final)"
  unfolding detectConflicts_def unless_ctx_ended_def
  by (intro runs_intros assms(1,2)) (simp_all add: assms(3))

lemma runs_storedReport [runs_intros]: "others_ok H \<Longrightarrow> runs A (storedReport H aid)"
  unfolding storedReport_def by (intro runs_intros)

lemma runs_commentPosted [runs_intros]: "others_ok H \<Longrightarrow> runs A (commentPosted H c kd)"
  unfolding commentPosted_def by (intro runs_intros)

lemma runs_completeTriggerCheckRun [runs_intros]:
  assumes "others_ok H" and "\<And>e. work_effect X c e \<Longrightarrow> A e" and "runs A cx"
  shows "runs A (completeTriggerCheckRun H cx c rc attempt p)"
  unfolding completeTriggerCheckRun_def
  by (intro runs_intros assms) simp_all

lemma runs_createWorktreeRetryingStale [runs_intros]:
  assumes "others_ok H" and "\<And>e. work_effect X c e \<Longrightarrow> A e"
  shows "runs A (createWorktreeRetryingStale H X c repo branch p)"
  unfolding createWorktreeRetryingStale_def
  by (intro runs_intros assms) simp_all

lemma runs_cleanupGitWorkspace [runs_intros]:
  assumes "others_ok H" and "\<And>e. work_effect X c e \<Longrightarrow> A e"
  shows "runs A (cleanupGitWorkspace H X c ws r)"
  unfolding cleanupGitWorkspace_def
  by (intro runs_intros assms) simp_all

lemma runs_abort_session [runs_intros]:
  "(\<And>e. work_effect X c e \<Longrightarrow> A e) \<Longrightarrow> runs A (abort_session X' se e)"
  unfolding abort_session_def by (intro runs_intros) simp

lemma runs_run_checks:
  assumes "others_ok H" and "\<And>e. work_effect X c e \<Longrightarrow> A e"
  shows "runs A (run_checks H c dir failed ks)"
proof (induction ks arbitrary: failed)
  case (Cons k ks)
  have "runs A (record_check H c r)" for r
    unfolding record_check_def by (intro runs_intros assms) simp_all
  with Cons show ?case by (auto intro!: runs_intros assms(2))
qed (simp add: runs_intros)

lemma runs_runTrustedValidation [runs_intros]:
  assumes "others_ok H" and "\<And>e. work_effect X c e \<Longrightarrow> A e"
  shows "runs A (runTrustedValidation H c dir)"
  unfolding runTrustedValidation_def Let_def
  by (intro runs_intros runs_run_checks assms) simp_all

lemma runs_generateEvidence [runs_intros]:
  assumes "others_ok H" and "\<And>e. work_effect X c e \<Longrightarrow> A e"
  shows "runs A (generateEvidence H X c note)"
  unfolding generateEvidence_def Let_def
  by (intro runs_intros assms) simp_all

lemma runs_remove_temp_dir [runs_intros]:
  assumes "others_ok H" and "\<And>e. work_effect X c e \<Longrightarrow> A e"
  shows "runs A (remove_temp_dir H c dir r)"
  unfolding remove_temp_dir_def by (intro runs_intros assms) simp_all

lemma runs_settlement [runs_intros]:
  assumes "others_ok H" and "\<And>e. work_effect X c e \<Longrightarrow> A e"
  shows "runs A (settleTriggerCheckRun H X c r)" and "runs A (cleanupTerminalRecovery H X c r)"
    and "runs A (release_lease H X c r)" and "runs A (runtimeDeadline H X c)"
  unfolding settleTriggerCheckRun_def complete_settled_def cleanupTerminalRecovery_def
    release_lease_def runtimeDeadline_def
  by (intro runs_intros assms; simp)+

end
