(* ===== verification/ExecutorStages.thy ===== *)
theory ExecutorStages
  imports ExecutorRuns
begin

text \<open>
  The executor against the task state machine. \<open>staged X c s m g\<close>: started at stage \<open>s\<close>, the
  action is a run of the platform, its effects are the attempt's own, each transition it asks for
  follows a fence, and the transitions walk the machine from \<open>s\<close>, to \<open>g x\<close> when it returns \<open>x\<close>.
  A stage is a status, or \<open>None\<close> once a failure or a timeout was asked for; nothing advances
  from there.
\<close>

section \<open>Walks\<close>

definition stage_step :: "status option \<Rightarrow> status \<Rightarrow> status option option" where
  "stage_step s t =
     (if t = StatusFailed \<or> t = StatusTimedOut then Some None
      else case s of None \<Rightarrow> None
      | Some st \<Rightarrow> if CanTransition st t then Some (Some t) else None)"

fun walk :: "status option \<Rightarrow> status list \<Rightarrow> status option option" where
  "walk s [] = Some s"
| "walk s (t # ts) = (case stage_step s t of None \<Rightarrow> None | Some s' \<Rightarrow> walk s' ts)"

lemma walk_append: "walk s (ts @ us) = (case walk s ts of None \<Rightarrow> None | Some s' \<Rightarrow> walk s' us)"
  by (induction s ts rule: walk.induct) (auto split: option.splits)

text \<open>The targets of the transitions in a list of effects.\<close>

fun targets :: "effect list \<Rightarrow> status list" where
  "targets [] = []"
| "targets (e # es) = (case e of DbTransition tid p \<Rightarrow> p_To p # targets es | _ \<Rightarrow> targets es)"

lemma targets_append [simp]: "targets (es @ fs) = targets es @ targets fs"
  by (induction es) (auto split: effect.splits)

lemma targets_none: "list_all (\<lambda>e. \<not> is_transition e) es \<Longrightarrow> targets es = []"
  by (induction es) (auto simp: is_transition_def split: effect.splits)

definition is_fence :: "effect \<Rightarrow> bool" where
  "is_fence e = (case e of DbExtendLease aid rid \<Rightarrow> True | _ \<Rightarrow> False)"

text \<open>Every transition comes right after a fence.\<close>

fun fenced_from :: "bool \<Rightarrow> effect list \<Rightarrow> bool" where
  "fenced_from b [] = True"
| "fenced_from b (e # es) = ((if is_transition e then b else True) \<and> fenced_from (is_fence e) es)"

abbreviation fenced :: "effect list \<Rightarrow> bool" where
  "fenced \<equiv> fenced_from False"

lemma fenced_mono: "fenced es \<Longrightarrow> fenced_from b es"
  by (cases es) (auto split: if_splits)

lemma fenced_append: "fenced_from b es \<Longrightarrow> fenced fs \<Longrightarrow> fenced_from b (es @ fs)"
  by (induction b es rule: fenced_from.induct) (auto intro: fenced_mono split: if_splits)

lemma fenced_no_transition: "list_all (\<lambda>e. \<not> is_transition e) es \<Longrightarrow> fenced_from b es"
  by (induction b es rule: fenced_from.induct) auto

lemma fenced_before:
  "fenced_from b (us @ DbTransition tid p # vs) \<Longrightarrow> (us \<noteq> [] \<longrightarrow> is_fence (last us)) \<and> (us = [] \<longrightarrow> b)"
  by (induction b us rule: fenced_from.induct) (auto simp: is_transition_def split: if_splits)

section \<open>The calculus\<close>

text \<open>What happened between two worlds: own, fenced effects that walk from \<open>s\<close> to \<open>s'\<close>.\<close>

definition reached ::
  "executor \<Rightarrow> Claim \<Rightarrow> status option \<Rightarrow> world \<Rightarrow> world \<Rightarrow> status option \<Rightarrow> bool" where
  "reached X c s w w' s' \<longleftrightarrow> platform_step\<^sup>*\<^sup>* (w_db w) (w_db w') \<and>
     (\<exists>es. w_log w' = w_log w @ es \<and> list_all (own_effect X c) es \<and> fenced es
        \<and> walk s (targets es) = Some s')"

lemma reached_refl: "reached X c s w w s"
  by (simp add: reached_def)

lemma reached_trans:
  assumes "reached X c s w w1 s1" and "reached X c s1 w1 w2 s2"
  shows "reached X c s w w2 s2"
proof -
  from assms obtain es fs where es: "w_log w1 = w_log w @ es" "list_all (own_effect X c) es"
      "fenced es" "walk s (targets es) = Some s1"
    and fs: "w_log w2 = w_log w1 @ fs" "list_all (own_effect X c) fs" "fenced fs"
      "walk s1 (targets fs) = Some s2"
    unfolding reached_def by blast
  then have "w_log w2 = w_log w @ (es @ fs) \<and> list_all (own_effect X c) (es @ fs)
      \<and> fenced (es @ fs) \<and> walk s (targets (es @ fs)) = Some s2"
    by (simp add: walk_append fenced_append)
  with assms show ?thesis unfolding reached_def by (blast intro: rtranclp_trans)
qed

definition staged ::
  "executor \<Rightarrow> Claim \<Rightarrow> status option \<Rightarrow> 'a action \<Rightarrow> ('a \<Rightarrow> status option) \<Rightarrow> bool" where
  "staged X c s m g \<longleftrightarrow> (\<forall>w r w'. m w = (r, w') \<longrightarrow>
     (\<exists>s'. reached X c s w w' s' \<and> (\<forall>x. r = Inr x \<longrightarrow> s' = g x)))"

lemma stagedI:
  assumes "\<And>w r w'. m w = (r, w') \<Longrightarrow> \<exists>s'. reached X c s w w' s' \<and> (\<forall>x. r = Inr x \<longrightarrow> s' = g x)"
  shows "staged X c s m g"
  using assms unfolding staged_def by blast

lemma stagedD:
  assumes "staged X c s m g" and "m w = (r, w')"
  shows "\<exists>s'. reached X c s w w' s' \<and> (\<forall>x. r = Inr x \<longrightarrow> s' = g x)"
  using assms(1) [unfolded staged_def, rule_format, OF assms(2)] .

lemma staged_ret: "g x = s \<Longrightarrow> staged X c s (ret x) g"
  and staged_fail: "staged X c s (fail e) g"
  by (auto simp: staged_def ret_def fail_def intro: reached_refl)

text \<open>Work without transitions stays at its stage.\<close>

lemma reached_work:
  assumes "runs (work_effect X c) m" and "m w = (r, w')"
  shows "reached X c s w w' s"
proof -
  from runsD(2) [OF assms] obtain es
    where es: "w_log w' = w_log w @ es" "list_all (work_effect X c) es" by blast
  then have "list_all (\<lambda>e. \<not> is_transition e) es" "list_all (own_effect X c) es"
    by (auto simp: list_all_iff own_effect_def dest: work_not_transition)
  with es(1) runsD(1) [OF assms] show ?thesis
    by (auto simp: reached_def targets_none fenced_no_transition)
qed

lemma staged_work: "runs (work_effect X c) m \<Longrightarrow> staged X c s m (\<lambda>_. s)"
  by (rule stagedI) (auto dest: reached_work)

lemma staged_bind:
  assumes m: "staged X c s m g" and f: "\<And>x. staged X c (g x) (f x) h"
  shows "staged X c s (abind m f) h"
proof (rule stagedI)
  fix w r w' assume run: "abind m f w = (r, w')"
  obtain q w1 where q: "m w = (q, w1)" by (cases "m w")
  obtain s1 where s1: "reached X c s w w1 s1" and g: "\<forall>x. q = Inr x \<longrightarrow> s1 = g x"
    using stagedD [OF m q] by auto
  show "\<exists>s'. reached X c s w w' s' \<and> (\<forall>x. r = Inr x \<longrightarrow> s' = h x)"
  proof (cases q)
    case (Inl e)
    with run q s1 show ?thesis by (auto simp: abind_def)
  next
    case (Inr x)
    with run q have eq: "f x w1 = (r, w')" by (simp add: abind_def)
    have st: "staged X c s1 (f x) h" using f g Inr by simp
    obtain s2 where "reached X c s1 w1 w' s2" "\<forall>y. r = Inr y \<longrightarrow> s2 = h y"
      using stagedD [OF st eq] by auto
    then show ?thesis using reached_trans [OF s1] by auto
  qed
qed

text \<open>After a caught error the stage is whatever was reached.\<close>

lemma staged_try:
  assumes m: "staged X c s m g"
    and ok: "\<And>x. staged X c (g x) (f (Inr x)) h" and err: "\<And>e s'. staged X c s' (f (Inl e)) h"
  shows "staged X c s (abind (atry m) f) h"
proof (rule stagedI)
  fix w r w' assume run: "abind (atry m) f w = (r, w')"
  obtain q w1 where q: "m w = (q, w1)" by (cases "m w")
  obtain s1 where s1: "reached X c s w w1 s1" and g: "\<forall>x. q = Inr x \<longrightarrow> s1 = g x"
    using stagedD [OF m q] by auto
  have rest: "\<exists>s'. reached X c s w w' s' \<and> (\<forall>x. r = Inr x \<longrightarrow> s' = h x)"
    if st: "staged X c s1 (f q) h" and eq: "f q w1 = (r, w')"
  proof -
    obtain s2 where "reached X c s1 w1 w' s2" "\<forall>y. r = Inr y \<longrightarrow> s2 = h y"
      using stagedD [OF st eq] by auto
    then show ?thesis using reached_trans [OF s1] by auto
  qed
  show "\<exists>s'. reached X c s w w' s' \<and> (\<forall>x. r = Inr x \<longrightarrow> s' = h x)"
  proof (cases "\<exists>e. q = Inl e \<and> panics e")
    case True
    with run q s1 show ?thesis by (auto simp: abind_def atry_def)
  next
    case False
    with run q have "f q w1 = (r, w')" by (cases q) (simp_all add: abind_def atry_def)
    moreover have "staged X c s1 (f q) h" using ok err g by (cases q) auto
    ultimately show ?thesis by (rule rest [rotated])
  qed
qed

lemma staged_awrap: "staged X c s m g \<Longrightarrow> staged X c s (awrap l m) g"
proof (rule stagedI)
  fix w r w' assume m: "staged X c s m g" and run: "awrap l m w = (r, w')"
  obtain q where q: "m w = (q, w')" and "\<forall>x. r = Inr x \<longrightarrow> q = Inr x"
    using run by (cases "m w") (auto simp: awrap_def split: sum.splits)
  with stagedD [OF m q] show "\<exists>s'. reached X c s w w' s' \<and> (\<forall>x. r = Inr x \<longrightarrow> s' = g x)"
    by auto
qed

lemma staged_if:
  "(b \<Longrightarrow> staged X c s m g) \<Longrightarrow> (\<not> b \<Longrightarrow> staged X c s n g) \<Longrightarrow> staged X c s (if b then m else n) g"
  and staged_option: "(z = None \<Longrightarrow> staged X c s m g) \<Longrightarrow> (\<And>y. z = Some y \<Longrightarrow> staged X c s (f y) g) \<Longrightarrow>
    staged X c s (case z of None \<Rightarrow> m | Some y \<Rightarrow> f y) g"
  and staged_prod: "(\<And>a b. v = (a, b) \<Longrightarrow> staged X c s (k a b) g) \<Longrightarrow>
    staged X c s (case v of (a, b) \<Rightarrow> k a b) g"
  by (simp_all split: option.splits prod.splits)

section \<open>Fenced transitions\<close>

text \<open>A fence that returns has just extended the lease.\<close>

lemma is_fence_simps [simp]: "is_fence (DbExtendLease aid rid)"
  by (simp add: is_fence_def)

lemma op_ExtendLease_log:
  "op_ExtendLease H aid rid dur w = (r, w') \<Longrightarrow> w_log w' = w_log w @ [DbExtendLease aid rid]"
  by (auto simp: op_ExtendLease_def db_write_def Let_def split: sum.splits prod.splits)

lemma fence_retry_last:
  "fence_retry H X c n w = (Inr (), w') \<Longrightarrow> w_log w' \<noteq> [] \<and> is_fence (last (w_log w'))"
proof (induction n arbitrary: w)
  case 0
  obtain r w1 where r: "op_ExtendLease H (k_AttemptID c) (ec_RunnerID X) (ec_LeaseDuration X) w = (r, w1)"
    by (cases "op_ExtendLease H (k_AttemptID c) (ec_RunnerID X) (ec_LeaseDuration X) w")
  with 0 op_ExtendLease_log [OF r] show ?case
    by (subst (asm) fence_retry.simps)
      (auto simp: abind_def atry_def fail_def ret_def markLeaseLost_def split: sum.splits if_splits)
next
  case (Suc n)
  obtain r w1 where r: "op_ExtendLease H (k_AttemptID c) (ec_RunnerID X) (ec_LeaseDuration X) w = (r, w1)"
    by (cases "op_ExtendLease H (k_AttemptID c) (ec_RunnerID X) (ec_LeaseDuration X) w")
  with Suc.prems op_ExtendLease_log [OF r] show ?case
    by (subst (asm) fence_retry.simps)
      (auto simp: abind_def atry_def fail_def ret_def markLeaseLost_def
        split: sum.splits if_splits dest: Suc.IH)
qed

lemma fence_retry_grows:
  "fence_retry H X c n w = (Inr (), w') \<Longrightarrow> \<exists>fs. fs \<noteq> [] \<and> w_log w' = w_log w @ fs"
proof (induction n arbitrary: w)
  case 0
  obtain r w1 where r: "op_ExtendLease H (k_AttemptID c) (ec_RunnerID X) (ec_LeaseDuration X) w = (r, w1)"
    by (cases "op_ExtendLease H (k_AttemptID c) (ec_RunnerID X) (ec_LeaseDuration X) w")
  with 0 op_ExtendLease_log [OF r] show ?case
    by (subst (asm) fence_retry.simps)
      (auto simp: abind_def atry_def fail_def ret_def markLeaseLost_def split: sum.splits if_splits)
next
  case (Suc n)
  obtain r w1 where r: "op_ExtendLease H (k_AttemptID c) (ec_RunnerID X) (ec_LeaseDuration X) w = (r, w1)"
    by (cases "op_ExtendLease H (k_AttemptID c) (ec_RunnerID X) (ec_LeaseDuration X) w")
  with Suc.prems op_ExtendLease_log [OF r] show ?case
    by (subst (asm) fence_retry.simps)
      (auto simp: abind_def atry_def fail_def ret_def markLeaseLost_def
        split: sum.splits if_splits dest!: Suc.IH)
qed

lemma fence_last:
  "fenceLeaseOwnership H X c w = (Inr (), w') \<Longrightarrow> w_log w' \<noteq> [] \<and> is_fence (last (w_log w'))"
  by (auto simp: fenceLeaseOwnership_def abind_def lease_lost_def Let_def fail_def
      split: if_splits dest: fence_retry_last)

lemma fenced_then_transition:
  "list_all (\<lambda>e. \<not> is_transition e) es \<Longrightarrow> es \<noteq> [] \<Longrightarrow> is_fence (last es) \<Longrightarrow> is_transition t \<Longrightarrow>
    fenced_from b (es @ [t])"
proof (induction es arbitrary: b)
  case (Cons e es)
  then show ?case by (cases es) simp_all
qed simp

lemma own_transition_is: "own_transition c t \<Longrightarrow> is_transition t"
  by (cases t) (simp_all add: own_transition_def is_transition_def)

lemma op_Transition_log:
  "op_Transition H tid p w = (r, w') \<Longrightarrow> w_log w' = w_log w @ [DbTransition tid p]"
  by (auto simp: op_Transition_def db_write_def Let_def split: sum.splits prod.splits)

text \<open>A fence, reads, one own transition the stage allows, and the rest.\<close>

lemma reached_transition:
  assumes "others_ok H" and own: "own_transition c (DbTransition (k_TaskID c) p)"
    and step: "stage_step s (p_To p) = Some s1"
    and fence: "fenceLeaseOwnership H X c w = (Inr (), w1)"
    and quiet: "w_log wq = w_log w1" "platform_step\<^sup>*\<^sup>* (w_db w1) (w_db wq)"
    and trans: "op_Transition H (k_TaskID c) p wq = (r, w2)"
  shows "reached X c s w w2 s1"
proof -
  have "runs (work_effect X c) (fenceLeaseOwnership H X c)" by (intro runs_intros assms(1))
  from runsD [OF this fence] obtain es where es: "platform_step\<^sup>*\<^sup>* (w_db w) (w_db w1)"
    "w_log w1 = w_log w @ es" "list_all (work_effect X c) es" by blast
  then have work: "list_all (\<lambda>e. \<not> is_transition e) es" "list_all (own_effect X c) es"
    by (auto simp: list_all_iff own_effect_def dest: work_not_transition)
  have "\<exists>fs. fs \<noteq> [] \<and> w_log w1 = w_log w @ fs"
    using fence by (auto simp: fenceLeaseOwnership_def abind_def lease_lost_def Let_def fail_def
        split: if_splits dest!: fence_retry_grows)
  then have ne: "es \<noteq> []" using es(2) by simp
  then have "is_fence (last es)" using fence_last [OF fence] es(2) by simp
  then have "fenced (es @ [DbTransition (k_TaskID c) p])"
    by (intro fenced_then_transition work ne own_transition_is [OF own])
  moreover have "walk s (targets (es @ [DbTransition (k_TaskID c) p])) = Some s1"
    using step targets_none [OF work(1)] by simp
  moreover have "list_all (own_effect X c) (es @ [DbTransition (k_TaskID c) p])"
    using work(2) own by (simp add: own_effect_def)
  moreover have "w_log w2 = w_log w @ (es @ [DbTransition (k_TaskID c) p])"
    using op_Transition_log [OF trans] es(2) quiet(1) by simp
  moreover have "platform_step\<^sup>*\<^sup>* (w_db w) (w_db w2)"
  proof (rule rtranclp_trans [OF rtranclp_trans [OF es(1) quiet(2)]])
    have "runs (\<lambda>e. True) (op_Transition H (k_TaskID c) p)" by (intro runs_intros assms(1) TrueI)
    then show "platform_step\<^sup>*\<^sup>* (w_db wq) (w_db w2)" using trans by (rule runsD(1))
  qed
  ultimately show ?thesis unfolding reached_def by blast
qed

lemma staged_fenced:
  assumes "others_ok H" and own: "own_transition c (DbTransition (k_TaskID c) p)"
    and step: "stage_step s (p_To p) = Some s1" and rest: "staged X c s1 n g"
  shows "staged X c s (aseq (awrap l (fenceLeaseOwnership H X c))
    (aseq (awrap l' (op_Transition H (k_TaskID c) p)) n)) g"
proof (rule stagedI)
  fix w r w'
  assume run: "aseq (awrap l (fenceLeaseOwnership H X c))
    (aseq (awrap l' (op_Transition H (k_TaskID c) p)) n) w = (r, w')"
  obtain q w1 where q: "fenceLeaseOwnership H X c w = (q, w1)" by (cases "fenceLeaseOwnership H X c w")
  obtain q2 w2 where q2: "op_Transition H (k_TaskID c) p w1 = (q2, w2)"
    by (cases "op_Transition H (k_TaskID c) p w1")
  have quiet: "runs (work_effect X c) (fenceLeaseOwnership H X c)" by (intro runs_intros assms(1))
  show "\<exists>s'. reached X c s w w' s' \<and> (\<forall>x. r = Inr x \<longrightarrow> s' = g x)"
  proof (cases q)
    case (Inl e)
    with run q reached_work [OF quiet q] show ?thesis by (auto simp: abind_def awrap_def)
  next
    case (Inr u)
    with q have "fenceLeaseOwnership H X c w = (Inr (), w1)" by simp
    note there = reached_transition [OF assms(1) own step this refl rtranclp.rtrancl_refl q2]
    show ?thesis
    proof (cases q2)
      case (Inl e)
      with run q q2 \<open>q = Inr u\<close> there show ?thesis by (auto simp: abind_def awrap_def)
    next
      case (Inr v)
      with run q q2 \<open>q = Inr u\<close> have eq: "n w2 = (r, w')" by (simp add: abind_def awrap_def)
      obtain s2 where "reached X c s1 w2 w' s2" "\<forall>y. r = Inr y \<longrightarrow> s2 = g y"
        using stagedD [OF rest eq] by auto
      then show ?thesis using reached_trans [OF there] by auto
    qed
  qed
qed

section \<open>Steps that stay, steps that fail\<close>

definition steady :: "executor \<Rightarrow> Claim \<Rightarrow> 'a action \<Rightarrow> bool" where
  "steady X c m \<longleftrightarrow> (\<forall>s. staged X c s m (\<lambda>_. s))"

definition fails :: "executor \<Rightarrow> Claim \<Rightarrow> 'a action \<Rightarrow> bool" where
  "fails X c m \<longleftrightarrow> (\<forall>s g. staged X c s m g)"

named_theorems steady_intros "rules for steady and fails"

lemma steady_quiet: "runs (work_effect X c) m \<Longrightarrow> steady X c m"
  by (simp add: steady_def staged_work)

lemma steadyD: "steady X c m \<Longrightarrow> staged X c s m (\<lambda>_. s)"
  and failsD: "fails X c m \<Longrightarrow> staged X c s m g"
  by (simp_all add: steady_def fails_def)

lemma fails_steady: "fails X c m \<Longrightarrow> steady X c m"
  by (simp add: steady_def fails_def)

lemma steady_ret [steady_intros]: "steady X c (ret x)"
  by (simp add: steady_def staged_ret)

lemma steady_try [steady_intros]:
  "steady X c m \<Longrightarrow> (\<And>e. fails X c (g e)) \<Longrightarrow> (\<And>x. steady X c (h x)) \<Longrightarrow>
    steady X c (abind (atry m) (\<lambda>r. case r of Inl e \<Rightarrow> g e | Inr x \<Rightarrow> h x))"
  unfolding steady_def by (intro allI, rule staged_try) (auto simp: failsD)

lemma fails_try [steady_intros]:
  "steady X c m \<Longrightarrow> (\<And>e. fails X c (g e)) \<Longrightarrow> (\<And>x. fails X c (h x)) \<Longrightarrow>
    fails X c (abind (atry m) (\<lambda>r. case r of Inl e \<Rightarrow> g e | Inr x \<Rightarrow> h x))"
  unfolding steady_def fails_def by (intro allI, rule staged_try) auto

lemma steady_bind [steady_intros]:
  "steady X c m \<Longrightarrow> (\<And>x. steady X c (f x)) \<Longrightarrow> steady X c (abind m f)"
  unfolding steady_def by (auto intro: staged_bind)

lemma fails_bind [steady_intros]:
  "steady X c m \<Longrightarrow> (\<And>x. fails X c (f x)) \<Longrightarrow> fails X c (abind m f)"
  unfolding fails_def steady_def by (auto intro: staged_bind)

lemma fails_fail [steady_intros]: "fails X c (fail e)"
  by (simp add: fails_def staged_fail)

lemma steady_fail [steady_intros]: "steady X c (fail e)"
  by (rule fails_steady) (rule fails_fail)

lemma steady_if [steady_intros]:
  "(b \<Longrightarrow> steady X c m) \<Longrightarrow> (\<not> b \<Longrightarrow> steady X c n) \<Longrightarrow> steady X c (if b then m else n)"
  and fails_if [steady_intros]:
  "(b \<Longrightarrow> fails X c m) \<Longrightarrow> (\<not> b \<Longrightarrow> fails X c n) \<Longrightarrow> fails X c (if b then m else n)"
  and steady_option [steady_intros]:
  "(z = None \<Longrightarrow> steady X c m) \<Longrightarrow> (\<And>y. z = Some y \<Longrightarrow> steady X c (f y)) \<Longrightarrow>
    steady X c (case z of None \<Rightarrow> m | Some y \<Rightarrow> f y)"
  and fails_option [steady_intros]:
  "(z = None \<Longrightarrow> fails X c m) \<Longrightarrow> (\<And>y. z = Some y \<Longrightarrow> fails X c (f y)) \<Longrightarrow>
    fails X c (case z of None \<Rightarrow> m | Some y \<Rightarrow> f y)"
  and steady_prod [steady_intros]:
  "(\<And>a b. v = (a, b) \<Longrightarrow> steady X c (k a b)) \<Longrightarrow> steady X c (case v of (a, b) \<Rightarrow> k a b)"
  by (simp_all split: option.splits prod.splits)

lemma fails_failTask [steady_intros]: "others_ok H \<Longrightarrow> fails X c (failTask H X c code m)"
  unfolding fails_def failTask_def
  by (intro allI staged_fenced [where ?s1.0 = None] staged_fail)
    (auto simp: stage_step_def runner_params_def own_transition_def)

lemma fails_publishFailure [steady_intros]:
  "others_ok H \<Longrightarrow> fails X c (publishFailure H X c step e)"
  unfolding publishFailure_def
  by (intro steady_intros; (assumption | (rule steady_quiet, intro runs_intros)))

lemma steady_failTask [steady_intros]: "others_ok H \<Longrightarrow> steady X c (failTask H X c code m)"
  by (intro fails_steady steady_intros)

lemma steady_or_publish_failure [steady_intros]:
  "others_ok H \<Longrightarrow> steady X c m \<Longrightarrow> steady X c (or_publish_failure H X c step m)"
  unfolding or_publish_failure_def by (intro steady_intros)

section \<open>Publishing stays at its stage\<close>

lemma steady_publishTarget [steady_intros]:
  assumes "others_ok H"
  shows "steady X c (publishTarget H X c t)"
  unfolding publishTarget_def
  by (intro steady_intros assms; (rule steady_quiet, intro runs_intros assms))

lemma steady_provisionRevision [steady_intros]:
  assumes "others_ok H"
  shows "steady X c (provisionRevision H X c t rc attempt)"
proof -
  have moved: "fails X c (abind (ctx_cause H) (\<lambda>cause. case cause of Some x \<Rightarrow> fail x
      | None \<Rightarrow> failTask H X c code m))" for code m
    by (intro steady_intros assms; (rule steady_quiet, intro runs_intros))
  show ?thesis unfolding provisionRevision_def
    by (intro steady_intros assms moved; (rule steady_quiet, intro runs_intros assms; simp))
qed

lemma steady_provisionWorkspace [steady_intros]:
  assumes "others_ok H"
  shows "steady X c (provisionWorkspace H X c t rc)"
  unfolding provisionWorkspace_def
  by (intro steady_intros assms; (rule steady_quiet, intro runs_intros assms; simp))

lemma steady_upsertCheckRun [steady_intros]:
  assumes "others_ok H"
  shows "steady X c (upsertCheckRun H X c rc sha (evidence_check c s k title sm))"
  unfolding upsertCheckRun_def
  by (intro steady_intros assms;
      (rule steady_quiet, intro runs_intros assms; simp add: evidence_check_def))

lemma steady_postRevisionSummary [steady_intros]:
  assumes "others_ok H"
  shows "steady X c (postRevisionSummary H X c rc attempt n sha report)"
  unfolding postRevisionSummary_def
  by (intro steady_intros assms; (rule steady_quiet, intro runs_intros assms; simp))

lemma steady_publish_pull_request [steady_intros]:
  assumes "others_ok H"
  shows "steady X c (publish_pull_request H X c t rc branch body)"
  unfolding publish_pull_request_def
  by (intro steady_intros assms; (rule steady_quiet, intro runs_intros assms; simp))

lemma steady_comments [steady_intros]:
  assumes "others_ok H"
  shows "steady X c (announce_published H X c t rc n)"
    and "steady X c (tell_no_change_revision H X c rc attempt branch expl)"
    and "steady X c (tell_no_change_issue H X c t rc expl)"
  unfolding announce_published_def tell_no_change_revision_def tell_no_change_issue_def
  by (intro steady_intros assms; (rule steady_quiet, intro runs_intros assms; simp))+

lemma steady_publishToGitHub [steady_intros]:
  assumes "others_ok H" and "t_ID t = pg_uuid (k_TaskID c)"
  shows "steady X c (publishToGitHub H X c t rc attempt branch base final)"
  unfolding publishToGitHub_def Let_def
  by (intro steady_intros assms(1); (rule steady_quiet, intro runs_intros assms; simp))

lemma fails_publishNoChange [steady_intros]:
  assumes "others_ok H"
  shows "fails X c (publishNoChange H X c t rc attempt base summary)"
  unfolding publishNoChange_def Let_def
  by (intro steady_intros assms; (rule steady_quiet, intro runs_intros assms; simp))

lemma steady_commit_work [steady_intros]:
  assumes "others_ok H"
  shows "steady X c (commit_work H X c t rc attempt ws summary)"
proof -
  have work: "runs (work_effect X c) (atry (Commit H ws cp))" "runs (work_effect X c) (Head H ws)" for cp
    by (intro runs_intros; simp)+
  show ?thesis unfolding commit_work_def
    apply (rule steady_bind [OF steady_quiet [OF work(1)]])
    subgoal for r
      by (cases r) (auto intro!: steady_intros steady_quiet [OF work(2)] assms
          fails_steady [OF fails_publishNoChange] fails_steady [OF fails_publishFailure])
    done
qed

lemma steady_publishFromWorkspace [steady_intros]:
  assumes "others_ok H" and "t_ID t = pg_uuid (k_TaskID c)"
  shows "steady X c (publishFromWorkspace H X c t rc ws summary)"
  unfolding publishFromWorkspace_def
  by (intro steady_intros assms; (rule steady_quiet, intro runs_intros assms; simp))

end
