(* ===== verification/ExecutorDrive.thy ===== *)
theory ExecutorDrive
  imports ExecutorStages
begin

text \<open>
  The executor from its claim to its end, in the calculus of \<open>ExecutorStages\<close>: where each of
  the stages of \<open>drive\<close> leads, and what of that is left once \<open>Execute\<close> has settled the attempt.
  \<open>reaches X c s m Q\<close> is the general form: when the action returns \<open>x\<close> at stage \<open>s'\<close>,
  \<open>Q x s'\<close> holds.
\<close>

section \<open>Reaching\<close>

definition reaches ::
  "executor \<Rightarrow> Claim \<Rightarrow> status option \<Rightarrow> 'a action \<Rightarrow> ('a \<Rightarrow> status option \<Rightarrow> bool) \<Rightarrow> bool" where
  "reaches X c s m Q \<longleftrightarrow> (\<forall>w r w'. m w = (r, w') \<longrightarrow>
     (\<exists>s'. reached X c s w w' s' \<and> (\<forall>x. r = Inr x \<longrightarrow> Q x s')))"

lemma reachesI:
  assumes "\<And>w r w'. m w = (r, w') \<Longrightarrow> \<exists>s'. reached X c s w w' s' \<and> (\<forall>x. r = Inr x \<longrightarrow> Q x s')"
  shows "reaches X c s m Q"
  using assms unfolding reaches_def by blast

lemma reachesD:
  assumes "reaches X c s m Q" and "m w = (r, w')"
  shows "\<exists>s'. reached X c s w w' s' \<and> (\<forall>x. r = Inr x \<longrightarrow> Q x s')"
  using assms(1) [unfolded reaches_def, rule_format, OF assms(2)] .

lemma staged_reaches: "staged X c s m g \<Longrightarrow> (\<And>x. Q x (g x)) \<Longrightarrow> reaches X c s m Q"
  unfolding staged_def reaches_def by metis

lemma reaches_staged: "reaches X c s m (\<lambda>x s'. s' = g x) \<Longrightarrow> staged X c s m g"
  unfolding staged_def reaches_def .

lemma reaches_mono:
  assumes "reaches X c s m Q" and "\<And>x s'. Q x s' \<Longrightarrow> R x s'"
  shows "reaches X c s m R"
proof (rule reachesI)
  fix w r w' assume run: "m w = (r, w')"
  obtain s' where "reached X c s w w' s'" "\<forall>x. r = Inr x \<longrightarrow> Q x s'"
    using reachesD [OF assms(1) run] by auto
  then show "\<exists>s'. reached X c s w w' s' \<and> (\<forall>x. r = Inr x \<longrightarrow> R x s')" using assms(2) by auto
qed

lemma reaches_bind:
  assumes m: "reaches X c s m Q" and f: "\<And>x s'. yields m x \<Longrightarrow> Q x s' \<Longrightarrow> reaches X c s' (f x) R"
  shows "reaches X c s (abind m f) R"
proof (rule reachesI)
  fix w r w' assume run: "abind m f w = (r, w')"
  obtain q w1 where q: "m w = (q, w1)" by (cases "m w")
  obtain s1 where s1: "reached X c s w w1 s1" and Q: "\<forall>x. q = Inr x \<longrightarrow> Q x s1"
    using reachesD [OF m q] by auto
  show "\<exists>s'. reached X c s w w' s' \<and> (\<forall>x. r = Inr x \<longrightarrow> R x s')"
  proof (cases q)
    case (Inl e)
    with run q s1 show ?thesis by (auto simp: abind_def)
  next
    case (Inr x)
    with run q have eq: "f x w1 = (r, w')" by (simp add: abind_def)
    have "yields m x" using q Inr by (auto simp: yields_def)
    then have st: "reaches X c s1 (f x) R" using f Q Inr by simp
    obtain s2 where "reached X c s1 w1 w' s2" "\<forall>y. r = Inr y \<longrightarrow> R y s2"
      using reachesD [OF st eq] by auto
    then show ?thesis using reached_trans [OF s1] by auto
  qed
qed

text \<open>A caught error may be reached at any stage.\<close>

lemma reaches_atry:
  assumes "reaches X c s m Q"
  shows "reaches X c s (atry m) (\<lambda>y s'. case y of Inl e \<Rightarrow> True | Inr x \<Rightarrow> Q x s')"
proof (rule reachesI)
  fix w r w' assume run: "atry m w = (r, w')"
  obtain q where q: "m w = (q, w')" "\<forall>y. r = Inr (Inr y) \<longrightarrow> q = Inr y"
    using run by (cases "m w") (auto simp: atry_def split: sum.splits if_splits)
  obtain s' where s': "reached X c s w w' s'" "\<forall>x. q = Inr x \<longrightarrow> Q x s'"
    using reachesD [OF assms q(1)] by auto
  then have "\<forall>y. r = Inr y \<longrightarrow> (case y of Inl e \<Rightarrow> True | Inr x \<Rightarrow> Q x s')"
    using q(2) by (auto split: sum.splits)
  with s'(1) show "\<exists>s'. reached X c s w w' s' \<and>
      (\<forall>y. r = Inr y \<longrightarrow> (case y of Inl e \<Rightarrow> True | Inr x \<Rightarrow> Q x s'))" by blast
qed

lemma reaches_steady: "steady X c m \<Longrightarrow> reaches X c s m (\<lambda>_ s'. s' = s)"
  by (rule staged_reaches [OF steadyD]) simp_all

lemma reaches_fails: "fails X c m \<Longrightarrow> reaches X c s m Q"
proof (rule reachesI)
  fix w r w' assume f: "fails X c m" and run: "m w = (r, w')"
  obtain s1 s2 where s1: "reached X c s w w' s1" "\<forall>x. r = Inr x \<longrightarrow> s1 = None"
    and s2: "reached X c s w w' s2" "\<forall>x. r = Inr x \<longrightarrow> s2 = Some StatusDraft"
    using stagedD [OF failsD [OF f, where g = "\<lambda>_. None"] run]
      stagedD [OF failsD [OF f, where g = "\<lambda>_. Some StatusDraft"] run] by metis
  have "s1 = s2"
    using s1(1) s2(1) unfolding reached_def by auto
  with s1 s2 show "\<exists>s'. reached X c s w w' s' \<and> (\<forall>x. r = Inr x \<longrightarrow> Q x s')" by auto
qed

lemma reaches_ret: "Q x s \<Longrightarrow> reaches X c s (ret x) Q"
  by (auto intro: reachesI reached_refl simp: reaches_def ret_def)

section \<open>Transitions and the agent\<close>

text \<open>Functions that return the status they reached are staged by \<open>Some\<close>.\<close>

lemma staged_transition:
  assumes "others_ok H" and "stage_step s st = Some (Some st)"
  shows "staged X c s (transition H X c st source reason) Some"
  unfolding transition_def
  by (rule staged_fenced [OF assms(1) own_transition_simps(1) _ staged_ret])
    (simp_all add: assms(2) runner_params_def)

lemma stage_step_can:
  "CanTransition st t \<Longrightarrow> t \<noteq> StatusFailed \<Longrightarrow> t \<noteq> StatusTimedOut \<Longrightarrow>
    stage_step (Some st) t = Some (Some t)"
  by (simp add: stage_step_def)

lemma staged_advance_from:
  assumes "others_ok H" and "CanTransition a b" and "b \<noteq> StatusFailed" and "b \<noteq> StatusTimedOut"
  shows "staged X c (Some st) (advance_from H X c a b st) Some"
  unfolding advance_from_def
  by (intro staged_if staged_ret staged_transition assms(1)) (simp_all add: stage_step_can assms)

lemma yields_transition: "yields (transition H X c st source reason) x \<Longrightarrow> x = st"
  unfolding transition_def by (auto dest!: yields_abind)

lemma yields_advance_from:
  "yields (advance_from H X c a b st) x \<Longrightarrow> x = (if st = a then b else st)"
  by (auto simp: advance_from_def dest: yields_transition split: if_splits)

lemma fails_abort_session [steady_intros]: "fails X c (abort_session X se e)"
  unfolding abort_session_def by (intro steady_intros steady_quiet runs_intros) simp

lemma staged_or_abort:
  "staged X c s m g \<Longrightarrow> staged X c s (or_abort X se m) g"
  unfolding or_abort_def
  by (erule staged_try) (auto intro: staged_ret failsD [OF fails_abort_session])

lemma yields_or_abort: "yields (or_abort X se m) x \<Longrightarrow> yields m x"
  unfolding or_abort_def abort_session_def
  by (auto dest!: yields_abind yields_atry split: sum.splits)

lemma staged_session_loop:
  assumes "others_ok H"
  shows "staged X c (Some st) (session_loop H X c se evs st) Some"
proof (induction evs arbitrary: st)
  case Nil
  show ?case
    by (auto intro!: staged_bind [OF steadyD [OF steady_quiet]] runs_intros staged_ret
        failsD [OF fails_abort_session] split: option.splits)
next
  case (Cons ev evs)
  have plan: "staged X c (Some st) (if ae_Type ev = EventPlan \<and> st = StatusPlanning
      then or_abort X se (transition H X c StatusExecuting ''runner'' []) else ret st) Some"
    by (intro staged_if staged_ret staged_or_abort staged_transition assms)
      (auto simp: stage_step_def CanTransition_def)
  have event: "staged X c (Some st) (or_abort X se
      (append_event H c (agentEventType (ae_Type ev)) ''agent'' (ae_Payload ev))) (\<lambda>_. Some st)"
    by (intro staged_or_abort staged_work runs_intros assms; simp)
  show ?case unfolding session_loop.simps
    by (rule staged_bind [OF steadyD [OF steady_quiet]], intro runs_intros, rule staged_option,
        rule staged_bind [OF event], rule staged_bind [OF plan], rule Cons,
        rule failsD [OF fails_abort_session])
qed

lemma yields_session_loop:
  "yields (session_loop H X c se evs st) x \<Longrightarrow> x = st \<or> st = StatusPlanning \<and> x = StatusExecuting"
proof (induction evs arbitrary: st)
  case Nil
  then show ?case
    by (auto simp: abort_session_def dest!: yields_abind split: option.splits)
next
  case (Cons ev evs)
  then obtain st' where rest: "yields (session_loop H X c se evs st') x"
    and st': "st' = st \<or> st = StatusPlanning \<and> st' = StatusExecuting"
    by (auto simp: abort_session_def dest!: yields_abind yields_or_abort yields_transition
        split: option.splits if_splits)
  from Cons.IH [OF rest] st' show ?case by auto
qed

section \<open>The stages\<close>

text \<open>Actions whose success leaves the task at one status.\<close>

abbreviation leads ::
  "executor \<Rightarrow> Claim \<Rightarrow> status \<Rightarrow> 'a action \<Rightarrow> status \<Rightarrow> bool" where
  "leads X c st m st' \<equiv> staged X c (Some st) m (\<lambda>_. Some st')"

lemma staged_steady_then:
  "steady X c m \<Longrightarrow> (\<And>x. staged X c s (f x) g) \<Longrightarrow> staged X c s (abind m f) g"
  by (rule staged_bind [OF steadyD])

lemma staged_abind:
  assumes "staged X c s m g" and "\<And>x. yields m x \<Longrightarrow> staged X c (g x) (f x) h"
  shows "staged X c s (abind m f) h"
  by (rule reaches_staged, rule reaches_bind [OF staged_reaches [OF assms(1), where Q = "\<lambda>x s'. s' = g x"]])
    (auto intro: staged_reaches [OF assms(2)])

lemma staged_transition_then:
  assumes "others_ok H" and "CanTransition st t" and "t \<noteq> StatusFailed" and "t \<noteq> StatusTimedOut"
  shows "staged X c (Some st) (transition H X c t source reason) Some"
  by (intro staged_transition stage_step_can assms)

lemma steady_runTrustedValidation [steady_intros]:
  "others_ok H \<Longrightarrow> steady X c (runTrustedValidation H c dir)"
  and steady_generateEvidence [steady_intros]: "others_ok H \<Longrightarrow> steady X c (generateEvidence H X c note)"
  and steady_append_event: "others_ok H \<Longrightarrow> take 5 ty \<noteq> ''task.'' \<Longrightarrow> steady X c (append_event H c ty src pl)"
  by (auto intro!: steady_quiet runs_intros)

lemma staged_case_sum:
  "(\<And>e. v = Inl e \<Longrightarrow> staged X c s (f e) g) \<Longrightarrow> (\<And>x. v = Inr x \<Longrightarrow> staged X c s (h x) g) \<Longrightarrow>
    staged X c s (case v of Inl e \<Rightarrow> f e | Inr x \<Rightarrow> h x) g"
  by (cases v) simp_all

lemma steady_agent_calls [steady_intros]:
  "steady X c (atry (call (AgentOp s) k))" "steady X c (ctx_cause H)" "steady X c (ctx_err H)"
  by (intro steady_quiet runs_intros; simp)+

lemma staged_failTask: "others_ok H \<Longrightarrow> staged X c s (failTask H X c code m) g"
  by (intro failsD fails_failTask)

lemma staged_cause_or_fail:
  assumes "others_ok H"
  shows "staged X c s (abind (ctx_cause H) (\<lambda>cause.
    case cause of Some x \<Rightarrow> fail x | None \<Rightarrow> failTask H X c code m)) g"
  by (intro staged_steady_then steady_agent_calls staged_option staged_fail staged_failTask assms)

text \<open>The status a session leaves.\<close>

lemma staged_agent_session:
  assumes "others_ok H"
  shows "staged X c (Some st) (agent_session H X c dir st) (\<lambda>(st', _). Some st')"
  unfolding agent_session_def
  by (rule staged_steady_then [OF steady_agent_calls(1)], rule staged_case_sum,
      rule staged_failTask [OF assms], rule staged_bind [OF staged_session_loop [OF assms]],
      rule staged_steady_then [OF steady_agent_calls(1)], rule staged_case_sum,
      rule staged_cause_or_fail [OF assms], rule staged_ret, simp)

lemma yields_failTask [simp]: "\<not> yields (failTask H X c code m) x"
  unfolding failTask_def by (auto dest!: yields_abind)

lemma yields_agent_session:
  "yields (agent_session H X c dir st) p \<Longrightarrow>
    fst p = st \<or> st = StatusPlanning \<and> fst p = StatusExecuting"
  unfolding agent_session_def
  by (auto dest!: yields_abind yields_session_loop split: sum.splits option.splits)

lemma to_validate_work:
  assumes "others_ok H" and "st = StatusPlanning \<or> st = StatusExecuting"
  shows "leads X c st (validate_work H X c dir st) StatusPublishing"
  unfolding validate_work_def
proof (rule staged_abind [OF staged_advance_from [OF assms(1)]])
  fix st1 assume "yields (advance_from H X c StatusPlanning StatusExecuting st) st1"
  with assms(2) have st1: "st1 = StatusExecuting" by (auto dest: yields_advance_from)
  show "staged X c (Some st1) (abind (advance_from H X c StatusExecuting StatusValidating st1) (\<lambda>_.
     abind (runTrustedValidation H c dir) (\<lambda>note.
     aseq (generateEvidence H X c note) (
     aseq (transition H X c StatusPublishing ''runner'' []) (
     ret ()))))) (\<lambda>_. Some StatusPublishing)"
  proof (rule staged_abind [OF staged_advance_from [OF assms(1)]])
    fix st2 assume "yields (advance_from H X c StatusExecuting StatusValidating st1) st2"
    with st1 have st2: "st2 = StatusValidating" by (auto dest: yields_advance_from)
    have publish: "leads X c StatusValidating (aseq (transition H X c StatusPublishing ''runner'' []) (
        ret ())) StatusPublishing"
      by (rule staged_abind [OF staged_transition_then [OF assms(1)]])
        (auto simp: CanTransition_def staged_ret dest: yields_transition)
    show "staged X c (Some st2) (abind (runTrustedValidation H c dir) (\<lambda>note.
       aseq (generateEvidence H X c note) (
       aseq (transition H X c StatusPublishing ''runner'' []) (
       ret ())))) (\<lambda>_. Some StatusPublishing)"
      unfolding st2 by (intro staged_steady_then steady_intros assms(1) publish)
  qed (simp_all add: CanTransition_def)
qed (simp_all add: CanTransition_def)

abbreviation agent_statuses :: "status set" where
  "agent_statuses \<equiv> {StatusProvisioning, StatusPlanning, StatusExecuting}"

lemma to_agent_stages:
  assumes "others_ok H" and "st \<in> agent_statuses"
  shows "leads X c st (agent_stages H X c dir st) StatusPublishing"
proof -
  have rest: "leads X c st1 (abind (agent_session H X c dir st1) (\<lambda>(st, summary).
      aseq (validate_work H X c dir st) (ret summary))) StatusPublishing"
    if st1: "st1 = StatusPlanning \<or> st1 = StatusExecuting" for st1
  proof (rule staged_abind [OF staged_agent_session [OF assms(1)]], rule staged_prod)
    fix p st2 summary
    assume "yields (agent_session H X c dir st1) p" and p: "p = (st2, summary)"
    with st1 have "st2 = StatusPlanning \<or> st2 = StatusExecuting" by (auto dest: yields_agent_session)
    note finish = to_validate_work [OF assms(1) this]
    show "staged X c (case p of (st', _) \<Rightarrow> Some st') (aseq (validate_work H X c dir st2) (ret summary))
        (\<lambda>_. Some StatusPublishing)"
      unfolding p prod.case by (rule staged_bind [OF finish staged_ret]) simp
  qed
  have advance: "staged X c (Some st) (abind (advance_from H X c StatusProvisioning StatusPlanning st)
      (\<lambda>st. abind (agent_session H X c dir st) (\<lambda>(st, summary).
        aseq (validate_work H X c dir st) (ret summary)))) (\<lambda>_. Some StatusPublishing)"
    by (rule staged_abind [OF staged_advance_from [OF assms(1)]], simp_all add: CanTransition_def)
      (rule rest, use assms(2) in \<open>auto dest: yields_advance_from split: if_splits\<close>)
  show ?thesis unfolding agent_stages_def
    by (rule staged_steady_then [OF steady_append_event [OF assms(1)] advance]) simp
qed

section \<open>Publishing\<close>

lemma to_awaiting_review:
  "others_ok H \<Longrightarrow> staged X c (Some StatusPublishing)
    (transition H X c StatusAwaitingReview source reason) Some"
  by (rule staged_transition_then) (simp_all add: CanTransition_def)

lemma steady_cleanupGitWorkspace: "others_ok H \<Longrightarrow> steady X c (cleanupGitWorkspace H X c ws r)"
  by (intro steady_quiet runs_intros)

lemma staged_publish_and_clean:
  assumes "others_ok H" and "staged X c s work (\<lambda>_. Some StatusPublishing)"
  shows "staged X c s (publish_and_clean H X c ws work) Some"
  unfolding publish_and_clean_def
  by (rule staged_try [where g = "\<lambda>_. Some StatusPublishing"])
    (auto intro: staged_bind [OF assms(2)] staged_steady_then steady_cleanupGitWorkspace [OF assms(1)]
      to_awaiting_review [OF assms(1)] staged_fail steadyD)

lemma staged_publishFailure: "others_ok H \<Longrightarrow> staged X c s (publishFailure H X c step e) g"
  by (intro failsD fails_publishFailure)

lemma steady_gh_read [steady_intros]:
  "steady X c (atry (gh_BranchHeadSHA H i ow r b))" "steady X c (repoRef H rc)"
  by (intro steady_quiet runs_intros; simp)+

lemma staged_publish_pushed_branch:
  assumes "others_ok H" and "t_ID t = pg_uuid (k_TaskID c)"
  shows "staged X c (Some StatusPublishing) (publish_pushed_branch H X c t rc attempt branch base) Some"
proof -
  have rec: "steady X c (op_RecordFinalCommit H (k_AttemptID c) head)" for head
    by (intro steady_quiet runs_intros assms(1)) simp
  show ?thesis unfolding publish_pushed_branch_def
    by (intro staged_steady_then steady_gh_read staged_case_sum staged_if staged_failTask
        staged_publishFailure to_awaiting_review rec steady_publishToGitHub assms)
qed

lemma staged_publishRecovered:
  assumes "others_ok H" and "t_ID t = pg_uuid (k_TaskID c)"
  shows "staged X c (Some StatusPublishing) (publishRecovered H X c t rc) Some"
proof -
  have reads: "steady X c (op_GetAttempt H (k_AttemptID c))"
    "steady X c (Lookup H (k_AttemptID c) repo branch base)" "steady X c (EnsureMirror H repo)"
    for repo branch base
    by (intro steady_quiet runs_intros assms(1); simp)+
  show ?thesis unfolding publishRecovered_def
    by (intro staged_steady_then reads steady_gh_read staged_prod staged_option staged_failTask
        staged_publish_and_clean staged_publish_pushed_branch steady_intros steadyD
        steady_publishFromWorkspace assms)
qed

section \<open>The drive\<close>

lemma fails_provision_failed: "others_ok H \<Longrightarrow> fails X c (provision_failed H X c e)"
  unfolding provision_failed_def by (intro steady_intros)

lemma staged_afterwards:
  assumes "staged X c s m g" and "\<And>r. steady X c (f r)"
  shows "staged X c s (afterwards m f) g"
  unfolding afterwards_def
  by (rule staged_try [OF assms(1)])
    (auto intro!: staged_steady_then [OF assms(2)] staged_ret staged_fail)

lemma staged_runAgentStages:
  assumes "others_ok H" and "t_ID t = pg_uuid (k_TaskID c)" and "st \<in> agent_statuses"
  shows "staged X c (Some st) (runAgentStages H X c t pub st) Some"
proof -
  have event: "steady X c (append_event H c ''workspace.provisioning'' ''runner'' JNull)"
    by (rule steady_append_event [OF assms(1)]) simp
  have temp: "steady X c (atry (call (FsOp ''mkdirtemp'' []) (x_temp_dir H)))"
    by (intro steady_quiet runs_intros) simp
  have clean: "steady X c (remove_temp_dir H c dir r)" for dir r
    by (intro steady_quiet runs_intros assms(1))
  have attempt: "staged X c (Some st) (publish_and_clean H X c ws
      (abind (agent_stages H X c (ws_Path ws) st) (publishFromWorkspace H X c t rc ws))) Some" for ws rc
    by (intro staged_publish_and_clean assms(1) staged_bind [OF to_agent_stages [OF assms(1,3)]]
        steadyD steady_publishFromWorkspace assms(2))
  have workspace: "staged X c (Some st) (abind (atry (provisionWorkspace H X c t rc)) (\<lambda>r.
      case r of
        Inl e \<Rightarrow> provision_failed H X c e
      | Inr ws \<Rightarrow> publish_and_clean H X c ws (abind (agent_stages H X c (ws_Path ws) st)
          (publishFromWorkspace H X c t rc ws)))) Some" for rc
    by (rule staged_try [OF steadyD [OF steady_provisionWorkspace [OF assms(1)]]])
      (simp_all add: attempt failsD [OF fails_provision_failed [OF assms(1)]])
  have unpublished: "staged X c (Some st) (aseq (afterwards (agent_stages H X c dir st)
      (remove_temp_dir H c dir)) (ret StatusPublishing)) Some" for dir
    by (rule staged_bind [OF staged_afterwards [OF to_agent_stages [OF assms(1,3)] clean]])
      (rule staged_ret, simp)
  show ?thesis unfolding runAgentStages_def
    by (intro staged_steady_then event temp staged_option staged_case_sum
        staged_failTask [OF assms(1)] workspace unpublished)
qed

lemma yields_op_Get: "yields (op_Get H tid) t \<Longrightarrow> t_ID t = pg_uuid tid"
  unfolding op_Get_def
  by (auto dest!: yields_db_read find_task_Some simp: Get_def bind_sum_Inr_iff split: if_splits option.splits)

lemma staged_stage:
  assumes "st = a \<Longrightarrow> staged X c (Some a) m Some"
  shows "staged X c (Some st) (if st = a then m else ret st) Some"
  by (auto intro: staged_if staged_ret assms)

abbreviation drive_statuses :: "status set" where
  "drive_statuses \<equiv> set claimableStatuses \<union> {StatusAwaitingReview}"

text \<open>After the drive the task awaits review, or it was completed at once.\<close>

definition driven :: "status option \<Rightarrow> bool" where
  "driven s \<longleftrightarrow> s = Some StatusAwaitingReview \<or> s = Some StatusCompleted"

lemma yields_publish_and_clean:
  "yields (publish_and_clean H X c ws work) x \<Longrightarrow> x = StatusAwaitingReview"
  unfolding publish_and_clean_def
  by (auto dest!: yields_abind dest: yields_transition split: sum.splits)

lemma yields_publishFailure [simp]: "\<not> yields (publishFailure H X c step e) x"
  unfolding publishFailure_def by (auto dest!: yields_abind split: option.splits)

lemma yields_runAgentStages:
  "yields (runAgentStages H X c t pub st) x \<Longrightarrow> x = StatusPublishing \<or> x = StatusAwaitingReview"
  unfolding runAgentStages_def provision_failed_def
  by (auto dest!: yields_abind yields_publish_and_clean split: sum.splits option.splits if_splits)

lemma yields_publishRecovered:
  "yields (publishRecovered H X c t rc) x \<Longrightarrow> x = StatusAwaitingReview"
  unfolding publishRecovered_def publish_pushed_branch_def
  by (auto dest!: yields_abind yields_publish_and_clean yields_transition
      split: sum.splits option.splits if_splits prod.splits)

lemma staged_validating_recovery:
  assumes "others_ok H"
  shows "staged X c (Some StatusValidating) (validating_recovery H X c) Some"
proof -
  have event: "steady X c (append_event H c ''validation.completed'' ''runner'' pl)" for pl
    by (rule steady_append_event [OF assms]) simp
  show ?thesis unfolding validating_recovery_def
    by (intro staged_steady_then event steady_generateEvidence staged_transition assms)
      (simp add: stage_step_def CanTransition_def)
qed

lemma staged_skip_publishing:
  assumes "others_ok H"
  shows "staged X c (Some StatusPublishing) (skip_publishing H X c) Some"
proof -
  have event: "steady X c (append_event H c ''publishing.skipped'' ''runner'' pl)" for pl
    by (rule steady_append_event [OF assms]) simp
  show ?thesis unfolding skip_publishing_def
    by (intro staged_steady_then event to_awaiting_review assms)
qed

lemma staged_auto_complete:
  assumes "others_ok H"
  shows "staged X c (Some StatusAwaitingReview) (auto_complete H X c) (\<lambda>_. Some StatusCompleted)"
  unfolding auto_complete_def
  by (rule staged_abind [OF staged_transition [OF assms]])
    (auto simp: stage_step_def CanTransition_def staged_ret dest: yields_transition)

lemma reaches_abind:
  assumes "staged X c s m g" and "\<And>x. yields m x \<Longrightarrow> reaches X c (g x) (f x) R"
  shows "reaches X c s (abind m f) R"
  by (rule reaches_bind [OF staged_reaches [OF assms(1), where Q = "\<lambda>x s'. s' = g x"]])
    (simp_all add: assms(2))

lemma reaches_drive:
  assumes "others_ok H" and "k_TaskStatus c \<in> drive_statuses"
  shows "reaches X c (Some (k_TaskStatus c)) (drive H X c) (\<lambda>_. driven)"
  unfolding drive_def
proof (rule reaches_abind [OF staged_advance_from [OF assms(1)]])
  fix st1 assume "yields (advance_from H X c StatusQueued StatusProvisioning (k_TaskStatus c)) st1"
  with assms(2) have st1: "st1 \<in> agent_statuses \<or>
      st1 = StatusValidating \<or> st1 = StatusPublishing \<or> st1 = StatusAwaitingReview"
    by (auto simp: claimableStatuses_def dest!: yields_advance_from)
  have get: "steady X c (op_Get H (k_TaskID c))" by (intro steady_quiet runs_intros assms(1))
  show "reaches X c (Some st1) (abind (op_Get H (k_TaskID c)) (\<lambda>t.
     abind (publishTarget H X c t) (\<lambda>pub.
     abind (if st1 \<in> agent_statuses then runAgentStages H X c t pub st1 else ret st1) (\<lambda>st.
     abind (if st = StatusValidating then validating_recovery H X c else ret st) (\<lambda>st.
     abind (if st = StatusPublishing then
              (case pub of None \<Rightarrow> skip_publishing H X c
               | Some rc \<Rightarrow> publishRecovered H X c t rc)
            else ret st) (\<lambda>st.
     if st = StatusAwaitingReview \<and> pub = None then auto_complete H X c else ret ())))))) (\<lambda>_. driven)"
  proof (rule reaches_abind [OF steadyD [OF get]],
      rule reaches_abind [OF steadyD [OF steady_publishTarget [OF assms(1)]]], rule reaches_abind)
    fix t pub
    assume "yields (op_Get H (k_TaskID c)) t"
    then have t: "t_ID t = pg_uuid (k_TaskID c)" by (rule yields_op_Get)
    show "staged X c (Some st1)
        (if st1 \<in> agent_statuses then runAgentStages H X c t pub st1 else ret st1) Some"
      by (intro staged_if staged_runAgentStages assms(1) t staged_ret) simp_all
    fix st2
    assume "yields (if st1 \<in> agent_statuses then runAgentStages H X c t pub st1 else ret st1) st2"
    with st1 have st2: "st2 = StatusValidating \<or> st2 = StatusPublishing \<or> st2 = StatusAwaitingReview"
      by (auto dest: yields_runAgentStages split: if_splits)
    show "reaches X c (Some st2)
        (abind (if st2 = StatusValidating then validating_recovery H X c else ret st2) (\<lambda>st.
         abind (if st = StatusPublishing then
              (case pub of None \<Rightarrow> skip_publishing H X c
               | Some rc \<Rightarrow> publishRecovered H X c t rc)
            else ret st) (\<lambda>st.
         if st = StatusAwaitingReview \<and> pub = None then auto_complete H X c else ret ()))) (\<lambda>_. driven)"
    proof (rule reaches_abind [OF staged_stage [OF staged_validating_recovery [OF assms(1)]]],
        rule reaches_abind [OF staged_stage])
      fix st3
      assume "yields (if st2 = StatusValidating then validating_recovery H X c else ret st2) st3"
      with st2 have st3: "st3 = StatusPublishing \<or> st3 = StatusAwaitingReview"
        by (auto simp: validating_recovery_def dest!: yields_abind dest: yields_transition
            split: if_splits)
      show "staged X c (Some StatusPublishing) (case pub of None \<Rightarrow> skip_publishing H X c
          | Some rc \<Rightarrow> publishRecovered H X c t rc) Some"
        by (intro staged_option staged_skip_publishing staged_publishRecovered assms(1) t)
      fix st4
      assume "yields (if st3 = StatusPublishing then (case pub of None \<Rightarrow> skip_publishing H X c
          | Some rc \<Rightarrow> publishRecovered H X c t rc) else ret st3) st4"
      with st3 have st4: "st4 = StatusAwaitingReview"
        by (auto simp: skip_publishing_def dest!: yields_abind
            dest: yields_transition yields_publishRecovered split: if_splits option.splits)
      show "reaches X c (Some st4)
          (if st4 = StatusAwaitingReview \<and> pub = None then auto_complete H X c else ret ()) (\<lambda>_. driven)"
        using st4 by (auto simp: driven_def intro!: reaches_ret
            staged_reaches [OF staged_auto_complete [OF assms(1)]])
    qed
  qed
qed (simp_all add: CanTransition_def)

section \<open>Settlement\<close>

text \<open>\<open>keeps r m\<close>: the action only succeeds when there was no error before it.\<close>

definition keeps :: "err option \<Rightarrow> 'a action \<Rightarrow> bool" where
  "keeps r m \<longleftrightarrow> (\<forall>x. yields m x \<longrightarrow> r = None)"

lemma keeps_keep_err: "keeps r (keep_err r)"
  and keeps_fail: "keeps r (fail e)"
  by (auto simp: keeps_def keep_err_def split: option.splits)

lemma keeps_bind: "(\<And>x. keeps r (f x)) \<Longrightarrow> keeps r (abind m f)"
  unfolding keeps_def by (meson yields_abind)

lemma keeps_if: "keeps r m \<Longrightarrow> keeps r n \<Longrightarrow> keeps r (if b then m else n)"
  and keeps_option: "keeps r m \<Longrightarrow> (\<And>y. keeps r (f y)) \<Longrightarrow> keeps r (case z of None \<Rightarrow> m | Some y \<Rightarrow> f y)"
  and keeps_sum: "(\<And>e. keeps r (g e)) \<Longrightarrow> (\<And>y. keeps r (h y)) \<Longrightarrow>
    keeps r (case v of Inl e \<Rightarrow> g e | Inr y \<Rightarrow> h y)"
  by (simp_all split: option.splits sum.splits)

lemmas keeps_intros = keeps_keep_err keeps_fail keeps_bind keeps_if keeps_option keeps_sum

lemma keeps_settlement:
  "keeps r (settleTriggerCheckRun H X c r)" "keeps r (cleanupTerminalRecovery H X c r)"
  "keeps r (release_lease H X c r)"
  unfolding settleTriggerCheckRun_def complete_settled_def cleanupTerminalRecovery_def
    release_lease_def case_prod_beta
  by (intro keeps_intros)+

lemma steady_settlement:
  assumes "others_ok H"
  shows "steady X c (settleTriggerCheckRun H X c r)" and "steady X c (cleanupTerminalRecovery H X c r)"
    and "steady X c (release_lease H X c r)"
  by (simp_all add: steady_quiet runs_settlement [OF assms])

text \<open>The transition of a timeout comes after a fence and a read.\<close>

lemma op_Get_quiet:
  assumes "others_ok H" and "op_Get H tid w = (r, w')"
  shows "w_log w' = w_log w" and "platform_step\<^sup>*\<^sup>* (w_db w) (w_db w')"
  using assms by (auto simp: op_Get_def db_read_def others_ok_def Let_def)

lemma reached_fence:
  assumes "others_ok H" and "fenceLeaseOwnership H X c w = (r, w1)"
  shows "reached X c s w w1 s"
proof -
  have "runs (work_effect X c) (fenceLeaseOwnership H X c)" by (intro runs_intros assms(1))
  then show ?thesis using assms(2) by (rule reached_work)
qed

lemma reached_quiet:
  "reached X c s w w1 s' \<Longrightarrow> w_log w2 = w_log w1 \<Longrightarrow> platform_step\<^sup>*\<^sup>* (w_db w1) (w_db w2) \<Longrightarrow>
    reached X c s w w2 s'"
  unfolding reached_def by (auto intro: rtranclp_trans)

lemma fails_timeoutTask:
  assumes "others_ok H"
  shows "fails X c (timeoutTask H X c runtime)"
  unfolding fails_def
proof (intro allI stagedI)
  fix s :: "status option" and g and w r w'
  assume run: "timeoutTask H X c runtime w = (r, w')"
  obtain q w1 where q: "fenceLeaseOwnership H X c w = (q, w1)" by (cases "fenceLeaseOwnership H X c w")
  obtain q2 w2 where q2: "op_Get H (k_TaskID c) w1 = (q2, w2)" by (cases "op_Get H (k_TaskID c) w1")
  note fence = reached_fence [OF assms q, where s = s] and get = op_Get_quiet [OF assms q2]
  let ?p = "(runner_params StatusTimedOut ''runner'' [] (attempt_key c ''timeout''))
    \<lparr>p_FailureCode := ''task_runtime_exceeded'',
     p_FailureMessage := ''task exceeded runtime limit of '' @ duration_string runtime\<rparr>"
  obtain q3 w3 where q3: "op_Transition H (k_TaskID c) ?p w2 = (q3, w3)"
    by (cases "op_Transition H (k_TaskID c) ?p w2")
  have three: "\<exists>e. r = Inl e" "w' = w1 \<or> w' = w2 \<or> (w' = w3 \<and> q = Inr ())"
    using run q q2 q3 unfolding timeoutTask_def abind_def awrap_def fail_def Let_def
    by (auto split: sum.splits if_splits)
  have late: "q = Inr () \<longrightarrow> reached X c s w w3 None"
    using q reached_transition [OF assms own_transition_simps(2) _ _ get q3, where s = s and ?s1.0 = None and w = w]
    by (simp add: stage_step_def runner_params_def)
  have "\<exists>s'. reached X c s w w' s'"
    using three(2) late fence reached_quiet [OF fence get] by blast
  with three(1) show "\<exists>s'. reached X c s w w' s' \<and> (\<forall>x. r = Inr x \<longrightarrow> s' = g x)" by auto
qed

section \<open>Execute\<close>

text \<open>The error of a step as a value: without one the step reached what it promises.\<close>

lemma reaches_result_of:
  assumes "reaches X c s m (\<lambda>_. Q)"
  shows "reaches X c s (result_of m) (\<lambda>r s'. r = None \<longrightarrow> Q s')"
  unfolding result_of_def
  by (rule reaches_bind [OF reaches_atry [OF assms]])
    (auto intro!: reaches_ret simp: outcome_def split: sum.splits)

lemma reaches_result_steady:
  assumes "steady X c m" and "keeps r m" and "r = None \<longrightarrow> Q s"
  shows "reaches X c s (result_of m) (\<lambda>r' s'. r' = None \<longrightarrow> Q s')"
  unfolding result_of_def
proof (rule reaches_bind [OF reaches_atry [OF reaches_steady [OF assms(1)]]], rule reaches_ret)
  fix y s'
  assume y: "yields (atry m) y" and s': "case y of Inl e \<Rightarrow> True | Inr x \<Rightarrow> s' = s"
  show "outcome y = None \<longrightarrow> Q s'"
  proof (cases y)
    case (Inr x)
    with y have "yields m x" by (auto dest: yields_atry)
    with assms(2,3) s' Inr show ?thesis by (auto simp: keeps_def)
  qed (simp add: outcome_def)
qed

lemma with_cause_None: "with_cause lost cause r = None \<Longrightarrow> r = None"
  by (auto simp: with_cause_def add_err_def Let_def split: if_splits option.splits)

lemma join_errs_Some [simp]: "join_errs [t, Some e] \<noteq> None"
  by (cases t) (simp_all add: join_errs_def)

lemma steady_reads:
  "steady X c (ctx_cause H)" "steady X c (lease_lost H)"
  by (intro steady_quiet runs_intros)+

lemma reaches_settle:
  assumes "others_ok H" and "k_TaskStatus c \<in> drive_statuses"
  shows "reaches X c (Some (k_TaskStatus c)) (settle H X c runtime) (\<lambda>_. driven)"
proof -
  have timeout: "reaches X c s (result_of (timeoutTask H X c runtime)) (\<lambda>t s'. t = None \<longrightarrow> driven s')" for s
    by (intro reaches_result_of reaches_fails fails_timeoutTask assms(1))
  have settled: "reaches X c s (abind (result_of (settleTriggerCheckRun H X c r2)) (\<lambda>r3.
     abind (result_of (cleanupTerminalRecovery H X c r3)) (\<lambda>r4. release_lease H X c r4))) (\<lambda>_. driven)"
    if "r2 = None \<longrightarrow> driven s" for s r2
  proof (rule reaches_bind [OF reaches_result_steady [where Q = driven,
          OF steady_settlement(1) [OF assms(1)] keeps_settlement(1) that]],
      rule reaches_bind [OF reaches_result_steady [where Q = driven,
          OF steady_settlement(2) [OF assms(1)] keeps_settlement(2)]], assumption)
    fix r4 :: "err option" and s' :: "status option"
    assume "r4 = None \<longrightarrow> driven s'"
    then have "yields (release_lease H X c r4) x \<Longrightarrow> driven s'" for x
      using keeps_settlement(3) [of r4 H X c] by (auto simp: keeps_def)
    then show "reaches X c s' (release_lease H X c r4) (\<lambda>_. driven)"
      using reaches_steady [OF steady_settlement(3) [OF assms(1)]]
      unfolding reaches_def yields_def by metis
  qed
  show ?thesis unfolding settle_def Let_def
  proof (rule reaches_bind [OF reaches_result_of [OF reaches_drive [OF assms]]],
      rule reaches_bind [OF reaches_steady [OF steady_reads(1)]],
      rule reaches_bind [OF reaches_steady [OF steady_reads(2)]])
    fix r0 cause :: "err option" and s s1 s2 :: "status option" and lost
    assume r0: "r0 = None \<longrightarrow> driven s" and s: "s1 = s" "s2 = s1"
    let ?r1 = "with_cause lost cause r0"
    have ok: "?r1 = None \<longrightarrow> driven s2" using r0 s by (auto dest: with_cause_None)
    have first: "reaches X c s2 (if timed_out lost cause ?r1 then
        abind (result_of (timeoutTask H X c runtime)) (\<lambda>t. ret (join_errs [t, ?r1])) else ret ?r1)
        (\<lambda>r2 s'. r2 = None \<longrightarrow> driven s')"
    proof (cases "timed_out lost cause ?r1")
      case True
      then obtain e where e: "?r1 = Some e" by (auto simp: timed_out_def)
      show ?thesis unfolding if_P [OF True]
        by (rule reaches_bind [OF timeout], rule reaches_ret) (simp add: e)
    qed (simp add: reaches_ret ok)
    show "reaches X c s2 (abind (if timed_out lost cause ?r1 then
        abind (result_of (timeoutTask H X c runtime)) (\<lambda>t. ret (join_errs [t, ?r1])) else ret ?r1) (\<lambda>r2.
      abind (result_of (settleTriggerCheckRun H X c r2)) (\<lambda>r3.
      abind (result_of (cleanupTerminalRecovery H X c r3)) (\<lambda>r4. release_lease H X c r4)))) (\<lambda>_. driven)"
      by (rule reaches_bind [OF first settled])
  qed
qed

lemma reaches_Execute:
  assumes "others_ok H" and "k_TaskStatus c \<in> drive_statuses"
  shows "reaches X c (Some (k_TaskStatus c)) (Execute H X c) (\<lambda>_. driven)"
proof -
  have extend: "steady X c (op_ExtendLease H (k_AttemptID c) (ec_RunnerID X) (ec_LeaseDuration X))"
    and startup: "steady X c (atry (runtimeDeadline H X c))"
    by (auto intro!: steady_quiet runs_intros assms(1))
  have give_up: "fails X c (abind (result_of (op_ReleaseLease H (k_AttemptID c) (ec_RunnerID X)))
      (\<lambda>rel. fail (the (join_errs [Some e, rel]))))" for e
    by (intro steady_intros steady_quiet runs_intros assms(1)) simp
  have "reaches X c s (time_now H) (\<lambda>_ s'. s' = s)" for s
    by (intro reaches_steady steady_quiet runs_intros)
  then show ?thesis unfolding Execute_def
    by (rule reaches_bind)
      (auto intro!: reaches_fails [OF fails_fail] reaches_bind [OF reaches_steady [OF extend]]
        reaches_bind [OF reaches_steady [OF startup]] reaches_fails [OF give_up] reaches_settle assms
        split: sum.splits)
qed

end
