(* ===== verification/ExecutorProps.thy ===== *)
theory ExecutorProps
  imports ExecutorDrive DeliveryProps
begin

text \<open>
  The properties of the executor: what an attempt may do, that its transitions are fenced and walk
  the task state machine, and what a lost lease leaves alone. Last the attempt on which their
  witnesses run.
\<close>

section \<open>An attempt to run\<close>

definition demo_session :: session where
  "demo_session = \<lparr>se_Events = [\<lparr>ae_Type = EventPlan, ae_Payload = JNull\<rparr>], se_Wait = Inr ''done'',
     se_Cancel = Inr (), se_StopTimedOut = False, se_Drained = None\<rparr>"

definition demo_outcome :: cmd_outcome where
  "demo_outcome = \<lparr>co_Writes = [], co_DurationMS = 5, co_Error = None, co_Deadline = False,
     co_Cancelled = False\<rparr>"

definition demo_runner_host :: runner_host where
  "demo_runner_host = \<lparr>h_env = (\<lambda>k. demo_env (int k)), h_others = (\<lambda>k d. d),
     h_api = demo_api, h_lower = (\<lambda>r. r), h_other_records = (\<lambda>k r. r), x_git = (\<lambda>k dir args. GitExit 0 [] []),
     x_exists = (\<lambda>k p. False), x_mkdir = (\<lambda>k p. Inr ()), x_remove_all = (\<lambda>k p. Inr ()),
     x_eval_symlinks = (\<lambda>k p. Inr p), x_root = ''/w'',
     x_ctx = (\<lambda>k. None), x_select_done = (\<lambda>k. False), x_settle_done = (\<lambda>k. False),
     x_heartbeat_lost = (\<lambda>k. False), x_fence_retries = (\<lambda>k. 0),
     x_cost = (\<lambda>es. None), x_yaml = (\<lambda>s. Inr \<lparr>vf_Version = 1, vf_Validation = []\<rparr>),
     x_files = (\<lambda>k d. \<lparr>wr_Open = Inr (), wr_Lstat = NotExist, wr_Read = Inr []\<rparr>),
     x_run_check = (\<lambda>k d c. demo_outcome), x_token = (\<lambda>k i. Inr ''t''),
     x_parse_url = (\<lambda>u. Inr \<lparr>u_Scheme = ''https'', u_Host = ''h''\<rparr>),
     x_url_with_user = (\<lambda>u n p. u), x_temp_dir = (\<lambda>k. Inr ''/tmp/a''),
     x_start = (\<lambda>k d i. Inr demo_session), x_assess = (\<lambda>k r. Inl (Sentinel ErrLeaseLost))\<rparr>"

lemma demo_runner_others_ok [simp]: "others_ok demo_runner_host"
  by (simp add: others_ok_def demo_runner_host_def)

definition demo_executor :: executor where
  "demo_executor = \<lparr>ec_RunnerID = ''r'', ec_Workspaces = False, ec_GitHub = False, ec_Repos = False,
     ec_Conflicts = False, ec_Semantic = False, ec_AdapterName = ''fake'', ec_LeaseDuration = 60,
     ec_DefaultRuntime = 0, ec_SessionStopTimeout = 0\<rparr>"

lemma demo_executor_simps [simp]:
  "ec_RunnerID demo_executor = ''r''" "ec_Workspaces demo_executor = False"
  "ec_GitHub demo_executor = False" "ec_LeaseDuration demo_executor = 60"
  by (simp_all add: demo_executor_def)

text \<open>A task without a repository whose work awaits review, its lease taken at instant \<open>k\<close>.\<close>

definition demo_attempt :: "time \<Rightarrow> Attempt" where
  "demo_attempt k = lease_row (demo_env k) ''r'' 60 (bare_attempt (demo_env 1) ''a'' demo_tid 1)"

definition demo_leased :: "time \<Rightarrow> db" where
  "demo_leased k = demo_review\<lparr>attempts := [demo_attempt k]\<rparr>"

definition demo_claim :: Claim where
  "demo_claim = claim_of (demo_attempt 0) (demo_task StatusAwaitingReview 8) 60"

definition demo_completed :: TransitionParams where
  "demo_completed = runner_params StatusCompleted ''system''
     ''fake attempt auto-completed; nothing was published to review''
     (attempt_key demo_claim (''to:'' @ status_string StatusCompleted))"

definition demo_transition :: "err + (Task \<times> db)" where
  "demo_transition = Transition (demo_env 5) demo_tid demo_completed (demo_leased 4)"

lemma demo_calls:
  "ExtendLease (demo_env 0) ''a'' ''r'' 60 (demo_leased 0) = Inr (demo_leased 0)"
  "ExtendLease (demo_env 4) ''a'' ''r'' 60 (demo_leased 0) = Inr (demo_leased 4)"
  "Get (demo_env 1) demo_tid (demo_leased 0) = Inr (demo_task StatusAwaitingReview 8)"
  "Get (demo_env 3) demo_tid (demo_leased 0) = Inr (demo_task StatusAwaitingReview 8)"
  "AttemptStartedAt (demo_env 2) ''a'' (demo_leased 0) = Inr None"
  by code_simp+

lemma demo_transition_done: "is_ok demo_transition"
  by code_simp

lemma demo_release: "is_ok (bind_sum demo_transition (\<lambda>(t, d). ReleaseLease (demo_env 6) ''a'' ''r'' d))"
  by code_simp

lemma demo_claim_simps [simp]:
  "k_AttemptID demo_claim = ''a''" "k_TaskID demo_claim = demo_tid"
  "k_TaskStatus demo_claim = StatusAwaitingReview" "k_LeaseExpiresAt demo_claim = 60"
  by (simp_all add: demo_claim_def claim_of_def demo_attempt_def lease_row_def bare_attempt_def
      demo_task_def)

lemma demo_task_simps [simp]:
  "t_RepositoryID (demo_task s v) = None" "t_MaxRuntimeSeconds (demo_task s v) = None"
  by (simp_all add: demo_task_def created_task_def create_defaults_def demo_create_def)

lemma demo_runner_simps [simp]:
  "h_env demo_runner_host k = demo_env (int k)" "h_others demo_runner_host k d = d"
  "x_ctx demo_runner_host k = None" "x_heartbeat_lost demo_runner_host k = False"
  "x_fence_retries demo_runner_host k = 0"
  by (simp_all add: demo_runner_host_def)

definition demo_at :: "db \<Rightarrow> nat \<Rightarrow> effect list \<Rightarrow> world" where
  "demo_at d n es = \<lparr>w_db = d, w_ops = n, w_log = es, w_records = no_records, w_lost = False\<rparr>"

lemma demo_world_at: "demo_world d = demo_at d 0 []"
  by (simp add: demo_world_def demo_at_def)

lemma demo_at_simps [simp]: "w_ops (demo_at d n es) = n" "env_now (demo_env k) = k"
  by (simp_all add: demo_at_def demo_env_def)

lemma demo_extends:
  "op_ExtendLease demo_runner_host ''a'' ''r'' 60 (demo_at (demo_leased 0) 0 es) =
    (Inr (), demo_at (demo_leased 0) 1 (es @ [DbExtendLease ''a'' ''r'']))"
  "op_ExtendLease demo_runner_host ''a'' ''r'' 60 (demo_at (demo_leased 0) 4 es) =
    (Inr (), demo_at (demo_leased 4) 5 (es @ [DbExtendLease ''a'' ''r'']))"
  by (simp_all add: op_ExtendLease_def db_write_def unit_op_def demo_at_def demo_calls)

lemma demo_reads:
  "op_Get demo_runner_host demo_tid (demo_at (demo_leased 0) (Suc 0) es) =
    (Inr (demo_task StatusAwaitingReview 8), demo_at (demo_leased 0) 2 es)"
  "op_Get demo_runner_host demo_tid (demo_at (demo_leased 0) 3 es) =
    (Inr (demo_task StatusAwaitingReview 8), demo_at (demo_leased 0) 4 es)"
  "op_AttemptStartedAt demo_runner_host ''a'' (demo_at (demo_leased 0) 2 es) =
    (Inr None, demo_at (demo_leased 0) 3 es)"
  by (simp_all add: op_Get_def op_AttemptStartedAt_def db_read_def demo_at_def demo_calls)

lemma demo_contexts [simp]:
  "lease_lost demo_runner_host (demo_at d n es) = (Inr False, demo_at d n es)"
  "ctx_cause demo_runner_host w = (Inr None, w)"
  by (simp_all add: lease_lost_def ctx_cause_def demo_at_def)

lemma demo_fence:
  "fenceLeaseOwnership demo_runner_host demo_executor demo_claim (demo_at (demo_leased 0) 4 es) =
    (Inr (), demo_at (demo_leased 4) 5 (es @ [DbExtendLease ''a'' ''r'']))"
  by (simp add: fenceLeaseOwnership_def fence_retry.simps abind_def atry_def ret_def
      demo_extends)

lemma demo_params: "runner_params StatusCompleted ''system''
     ''fake attempt auto-completed; nothing was published to review''
     (attempt_key demo_claim ''to:completed'') = demo_completed"
  by (simp add: demo_completed_def)

lemma demo_completes:
  assumes "demo_transition = Inr (t, d)"
  shows "transition demo_runner_host demo_executor demo_claim StatusCompleted ''system''
      ''fake attempt auto-completed; nothing was published to review'' (demo_at (demo_leased 0) 4 es) =
    (Inr StatusCompleted, demo_at d 6
      (es @ [DbExtendLease ''a'' ''r'', DbTransition demo_tid demo_completed]))"
proof -
  have "op_Transition demo_runner_host demo_tid demo_completed (demo_at (demo_leased 4) 5 es) =
      (Inr t, demo_at d 6 (es @ [DbTransition demo_tid demo_completed]))" for es
    using assms by (simp add: op_Transition_def db_write_def demo_at_def demo_transition_def)
  then show ?thesis
    by (simp add: transition_def abind_def awrap_def ret_def demo_fence demo_params)
qed

lemma demo_run_succeeds:
  "fst (Execute demo_runner_host demo_executor demo_claim (demo_world (demo_leased 0))) = Inr ()"
proof -
  obtain t d where T: "demo_transition = Inr (t, d)"
    using demo_transition_done by (auto simp: is_ok_iff)
  obtain d' where R: "ReleaseLease (demo_env 6) ''a'' ''r'' d = Inr d'"
    using demo_release by (auto simp: is_ok_iff T)
  have drive: "drive demo_runner_host demo_executor demo_claim (demo_at (demo_leased 0) 3 es) =
      (Inr (), demo_at d 6 (es @ [DbExtendLease ''a'' ''r'', DbTransition demo_tid demo_completed]))" for es
    by (simp add: drive_def advance_from_def abind_def ret_def demo_reads publishTarget_def
        auto_complete_def demo_completes [OF T])
  have release: "op_ReleaseLease demo_runner_host ''a'' ''r'' (demo_at d 6 es) =
      (Inr (), demo_at d' 7 (es @ [DbReleaseLease ''a'' ''r'']))" for es
    by (simp add: op_ReleaseLease_def db_write_def unit_op_def demo_at_def R)
  have settle: "fst (settle demo_runner_host demo_executor demo_claim rt (demo_at (demo_leased 0) 3 es)) = Inr ()"
    for rt es
    by (simp add: settle_def result_of_def abind_def atry_def ret_def drive outcome_def with_cause_def
        timed_out_def settleTriggerCheckRun_def cleanupTerminalRecovery_def release_lease_def
        keep_err_def lost_lease_def release)
  show ?thesis
    by (simp add: Execute_def runtimeDeadline_def time_now_def abind_def atry_def ret_def demo_world_at
        demo_extends demo_reads settle)
qed

section \<open>What an attempt may do\<close>

lemma ExecuteE:
  assumes "others_ok H" and "k_TaskStatus c \<in> drive_statuses" and "Execute H X c w = (r, w')"
  obtains es s' where "platform_step\<^sup>*\<^sup>* (w_db w) (w_db w')" and "w_log w' = w_log w @ es"
    and "list_all (own_effect X c) es" and "fenced es"
    and "walk (Some (k_TaskStatus c)) (targets es) = Some s'" and "r = Inr () \<Longrightarrow> driven s'"
  using reachesD [OF reaches_Execute [OF assms(1,2)] assms(3)] unfolding reached_def by auto

lemma own_cases:
  assumes "own_effect X c e"
  shows "case e of
      DbTransition tid p \<Rightarrow> tid = k_TaskID c \<and> (\<exists>s. p_IdempotencyKey p = attempt_key c s)
    | DbEnsureGitContext tid base br \<Rightarrow> tid = k_TaskID c
    | DbReconcile tid \<Rightarrow> tid = pg_uuid (k_TaskID c)
    | DbAppendAttemptEvent aid ty \<Rightarrow> aid = k_AttemptID c \<and> \<not> transition_type ty
    | GitOp dir args \<Rightarrow> git_verb args = ''push'' \<longrightarrow>
        (\<exists>b. ValidBranch b \<and> args = push_args ''origin'' b)
    | DbCreate p \<Rightarrow> False | DbRequestRevision tid p \<Rightarrow> False | DbCancel tid m \<Rightarrow> False
    | _ \<Rightarrow> True"
  using assms by (cases e) (auto simp: own_effect_def work_effect_def own_transition_def push_allowed_def)


text \<open>A fence lets its caller pass where the runner owns the lease of the attempt.\<close>

definition leased_to :: "string \<Rightarrow> string \<Rightarrow> db \<Rightarrow> bool" where
  "leased_to aid rid d \<longleftrightarrow>
     list_ex (\<lambda>a. a_ID a = pg_uuid aid \<and> a_LeaseOwner a = Some (pg_uuid rid)) (attempts d)"

lemma ExtendLease_leased: "ExtendLease E aid rid dur d = Inr d' \<Longrightarrow> leased_to aid rid d'"
proof -
  let ?p = "\<lambda>a. a_ID a = pg_uuid aid \<and> holds_lease (env_now E) (pg_uuid rid) a"
  assume "ExtendLease E aid rid dur d = Inr d'"
  then have "filter ?p (attempts d) \<noteq> []" and d': "d' = d\<lparr>attempts := update_where ?p (extend_row E dur) (attempts d)\<rparr>"
    by (auto simp: ExtendLease_def update_leased_def bind_sum_Inr_iff exec_Inr split: if_splits)
  then obtain a where "a \<in> set (attempts d)" "?p a" by (auto simp: filter_empty_conv)
  then have "extend_row E dur a \<in> set (attempts d')"
    and "a_ID (extend_row E dur a) = pg_uuid aid \<and> a_LeaseOwner (extend_row E dur a) = Some (pg_uuid rid)"
    by (force simp: d' update_where_def, simp add: extend_row_def holds_lease_def)
  then show ?thesis unfolding leased_to_def list_ex_iff by blast
qed

lemma op_ExtendLease_leased:
  "op_ExtendLease H aid rid dur w = (Inr x, w') \<Longrightarrow> leased_to aid rid (w_db w')"
  by (auto simp: op_ExtendLease_def db_write_def Let_def unit_op_Inr ExtendLease_leased split: sum.splits)

lemma fence_retry_leased:
  "fence_retry H X c n w = (Inr (), w') \<Longrightarrow> leased_to (k_AttemptID c) (ec_RunnerID X) (w_db w')"
proof (induction n arbitrary: w)
  case 0
  obtain r w1 where r: "op_ExtendLease H (k_AttemptID c) (ec_RunnerID X) (ec_LeaseDuration X) w = (r, w1)"
    by (cases "op_ExtendLease H (k_AttemptID c) (ec_RunnerID X) (ec_LeaseDuration X) w")
  with 0 show ?case
    by (subst (asm) fence_retry.simps)
      (auto simp: abind_def atry_def fail_def ret_def markLeaseLost_def op_ExtendLease_leased
        split: sum.splits if_splits)
next
  case (Suc n)
  obtain r w1 where r: "op_ExtendLease H (k_AttemptID c) (ec_RunnerID X) (ec_LeaseDuration X) w = (r, w1)"
    by (cases "op_ExtendLease H (k_AttemptID c) (ec_RunnerID X) (ec_LeaseDuration X) w")
  with Suc.prems show ?case
    by (subst (asm) fence_retry.simps)
      (auto simp: abind_def atry_def fail_def ret_def markLeaseLost_def op_ExtendLease_leased
        split: sum.splits if_splits dest: Suc.IH)
qed

lemma fence_leased:
  "fenceLeaseOwnership H X c w = (Inr (), w') \<Longrightarrow> leased_to (k_AttemptID c) (ec_RunnerID X) (w_db w')"
  by (auto simp: fenceLeaseOwnership_def abind_def lease_lost_def Let_def fail_def
      split: if_splits dest: fence_retry_leased)

text \<open>
  C5. No stale owner moves a task: in every execution of a claim each transition the attempt asks
  for comes directly after the fence's extension of its lease, with no effect in between; and the
  fence returns only from a database in which the runner owns the attempt's lease.
\<close>

theorem transitions_are_fenced:
  assumes "others_ok H" and "k_TaskStatus c \<in> drive_statuses" and "Execute H X c w = (r, w')"
  shows "(\<exists>es. w_log w' = w_log w @ es \<and>
      (\<forall>us tid p vs. es = us @ DbTransition tid p # vs \<longrightarrow>
         (\<exists>us'. us = us' @ [DbExtendLease (k_AttemptID c) (ec_RunnerID X)]))) \<and>
    (\<forall>v v'. fenceLeaseOwnership H X c v = (Inr (), v') \<longrightarrow>
       leased_to (k_AttemptID c) (ec_RunnerID X) (w_db v'))"
proof (rule ExecuteE [OF assms])
  fix es assume es: "w_log w' = w_log w @ es" "list_all (own_effect X c) es" "fenced es"
  have "\<exists>us'. us = us' @ [DbExtendLease (k_AttemptID c) (ec_RunnerID X)]"
    if split: "es = us @ DbTransition tid p # vs" for us tid p vs
  proof -
    have "us \<noteq> [] \<and> is_fence (last us)" using es(3) fenced_before unfolding split by blast
    moreover from this have "own_effect X c (last us)" using es(2) split by (simp add: list_all_iff)
    ultimately obtain e where "last us = e" "own_effect X c e" "is_fence e" by blast
    then have "last us = DbExtendLease (k_AttemptID c) (ec_RunnerID X)"
      by (cases e) (auto simp: own_effect_def work_effect_def own_transition_def is_fence_def)
    then show ?thesis using \<open>us \<noteq> [] \<and> is_fence (last us)\<close> by (metis append_butlast_last_id)
  qed
  with es(1) fence_leased show ?thesis by blast
qed


lemma with_cause_lost:
  "\<exists>e. with_cause True cause r = Some e \<and> err_is ErrLeaseLost e \<and> \<not> panics e"
  by (cases r; cases cause)
    (auto simp: with_cause_def add_err_def join_err_def Let_def panics_def)

text \<open>
  C10. What another runner owns is left to it: when the attempt's lease is known to be lost as its
  drive ends, whether a fence or the heartbeat found out, the rest of the execution writes nothing:
  no timeout, no check run, no workspace cleanup, no lease release, no effect and no change of the
  database; and the execution ends with \<open>ErrLeaseLost\<close> among its errors.
\<close>

theorem lost_lease_settles_nothing:
  assumes "drive H X c w = (r, w1)" and "w_lost w1 \<or> x_heartbeat_lost H (w_ops w1)"
    and "\<forall>e. r = Inl e \<longrightarrow> \<not> panics e" and "settle H X c runtime w = (r', w')"
  shows "w_log w' = w_log w1 \<and> w_db w' = w_db w1 \<and> w_records w' = w_records w1 \<and>
    (\<exists>e. r' = Inl e \<and> err_is ErrLeaseLost e)"
proof -
  define w2 where "w2 = w1\<lparr>w_lost := True\<rparr>"
  have lost: "lease_lost H w1 = (Inr True, w2)" "lease_lost H w2 = (Inr True, w2)"
    using assms(2) by (auto simp: lease_lost_def w2_def Let_def)
  have drove: "result_of (drive H X c) w = (Inr (outcome r), w1)"
    using assms(1,3) by (cases r) (auto simp: result_of_def abind_def atry_def ret_def)
  obtain e where e: "with_cause True (map_option snd (x_ctx H (w_ops w1))) (outcome r) = Some e"
    and le: "err_is ErrLeaseLost e" and np: "\<not> panics e" using with_cause_lost by blast
  have left: "result_of (settleTriggerCheckRun H X c (Some e)) w2 = (Inr (Some e), w2)"
    "result_of (cleanupTerminalRecovery H X c (Some e)) w2 = (Inr (Some e), w2)"
    "release_lease H X c (Some e) w2 = (Inl e, w2)"
    using np by (simp_all add: settleTriggerCheckRun_def cleanupTerminalRecovery_def release_lease_def
        result_of_def abind_def atry_def ret_def lost keep_err_def fail_def outcome_def lost_lease_def le)
  have "settle H X c runtime w = (Inl e, w2)"
    by (simp add: settle_def abind_def drove ctx_cause_def lost e timed_out_def ret_def left)
  with assms(4) le show ?thesis by (auto simp: w2_def)
qed


theorem transitions_are_fenced_witness:
  "\<exists>w'. Execute demo_runner_host demo_executor demo_claim (demo_world (demo_leased 0)) = (Inr (), w')
    \<and> (\<forall>us tid p vs. w_log w' = us @ DbTransition tid p # vs \<longrightarrow>
        (\<exists>us'. us = us' @ [DbExtendLease ''a'' ''r'']))"
proof -
  obtain w' where run: "Execute demo_runner_host demo_executor demo_claim (demo_world (demo_leased 0))
      = (Inr (), w')"
    using demo_run_succeeds by (metis prod.collapse)
  from transitions_are_fenced [OF demo_runner_others_ok _ run] run show ?thesis by auto
qed


theorem lost_lease_settles_nothing_witness:
  "\<exists>e w'. settle demo_runner_host demo_executor demo_claim 60
      ((demo_at (demo_leased 0) 3 [])\<lparr>w_lost := True\<rparr>) = (Inl e, w')
    \<and> err_is ErrLeaseLost e \<and> w_log w' = [] \<and> w_db w' = demo_leased 0"
proof -
  let ?w = "(demo_at (demo_leased 0) 3 [])\<lparr>w_lost := True\<rparr>"
  let ?w1 = "(demo_at (demo_leased 0) 4 [])\<lparr>w_lost := True\<rparr>"
  have lost: "lease_lost demo_runner_host ?w1 = (Inr True, ?w1)"
    by (simp add: lease_lost_def demo_at_def)
  have get: "op_Get demo_runner_host demo_tid ?w = (Inr (demo_task StatusAwaitingReview 8), ?w1)"
    by (simp add: op_Get_def db_read_def demo_at_def demo_calls)
  have drive: "drive demo_runner_host demo_executor demo_claim ?w =
      (Inl (Wrap ''fence transition to completed'' (Sentinel ErrLeaseLost)), ?w1)"
    by (simp add: drive_def advance_from_def abind_def ret_def get publishTarget_def auto_complete_def
        transition_def awrap_def fenceLeaseOwnership_def lost fail_def panics_def)
  obtain r' w' where run: "settle demo_runner_host demo_executor demo_claim 60 ?w = (r', w')"
    by (cases "settle demo_runner_host demo_executor demo_claim 60 ?w")
  from lost_lease_settles_nothing [OF drive _ _ run] run show ?thesis
    by (auto simp: panics_def demo_at_def)
qed

end
