(* ===== verification/CheckProps.thy ===== *)
theory CheckProps
  imports Executor Scenario
begin

text \<open>
  The properties of checks and evidence: results of checks fit the schema whatever a command
  prints, verdicts rest on what the platform executed, reports survive storage.
\<close>

section \<open>Valid text\<close>

lemma one_rune_runes: "valid_string s \<Longrightarrow> r \<in> set (runes s) \<Longrightarrow> one_rune r"
proof (induction s rule: runes.induct)
  case (2 c cs)
  let ?n = "max 1 (rune_len (c # cs))"
  have pos: "0 < rune_len (c # cs)" and rest: "valid_string (drop ?n (c # cs))"
    using 2(2) unfolding valid_string.simps(2) by blast+
  have "one_rune (take (rune_len (c # cs)) (c # cs))"
    using pos rune_len_le [of "c # cs"] rune_len_take [OF pos]
    by (simp add: one_rune_def min_def del: rune_len.simps)
  with 2(1) [OF rest] 2(3) pos show ?case
    by (auto simp: runes.simps(2) max_def simp del: rune_len.simps split: if_splits)
qed simp

lemma valid_string_iff: "valid_string s \<longleftrightarrow> list_all one_rune (runes s)"
  using one_rune_runes valid_string_concat [of "runes s"]
  by (auto simp: list_all_iff concat_runes)

lemma valid_string_append: "valid_string s \<Longrightarrow> valid_string t \<Longrightarrow> valid_string (s @ t)"
proof -
  assume "valid_string s" "valid_string t"
  then have "valid_string (concat (runes s @ runes t))"
    by (intro valid_string_concat) (auto dest: one_rune_runes)
  then show ?thesis by (simp add: concat_runes)
qed

lemma valid_TrimSpace: "valid_string s \<Longrightarrow> valid_string (TrimSpace s)"
  unfolding TrimSpace_def trim_runes_def
  by (rule valid_string_concat)
    (auto dest!: set_dropWhile_subset [THEN subsetD] intro: one_rune_runes)

lemma set_TrimSpace: "set (TrimSpace s) \<subseteq> set s"
proof -
  have "set (trim_runes p rs) \<subseteq> set rs" for p and rs :: "string list"
    unfolding trim_runes_def by (auto dest!: set_dropWhile_subset [THEN subsetD])
  then have "set (concat (trim_runes is_space (runes s))) \<subseteq> set (concat (runes s))"
    unfolding set_concat by blast
  then show ?thesis by (simp add: TrimSpace_def concat_runes)
qed

text \<open>Splitting at an ASCII byte keeps runes whole.\<close>

lemma split_at_append:
  "sep \<notin> set r \<Longrightarrow> split_at sep (r @ s) = (r @ hd (split_at sep s)) # tl (split_at sep s)"
  by (induction r) (auto simp: split: list.splits)

lemma one_rune_bytes:
  assumes "one_rune r" and "ascii c" and "c \<in> set r"
  shows "r = [c]"
proof -
  obtain b cs where r: "r = b # cs" using assms(1) by (cases r) (simp_all add: one_rune_def)
  have cont: "\<not> cont c" "\<not> second_ok n c" if "128 \<le> n" for n
    using assms(2) by (auto simp: ascii_iff cont_def second_ok_def)
  show ?thesis
    using assms cont unfolding r one_rune_def
    by (auto simp: Let_def ascii_iff split: if_splits list.splits)
qed

lemma valid_split_at:
  assumes "valid_string s" and "ascii sep" and "l \<in> set (split_at sep s)"
  shows "valid_string l"
proof -
  have "list_all valid_string (split_at sep (concat rs))" if "list_all one_rune rs" for rs
    using that
  proof (induction rs)
    case (Cons r rs)
    show ?case
    proof (cases "sep \<in> set r")
      case True
      then have "r = [sep]" using Cons.prems assms(2) one_rune_bytes by auto
      with Cons show ?thesis by (simp add: list_all_iff)
    next
      case False
      have "split_at sep (concat rs) \<noteq> []" by simp
      then obtain l ls where ls: "split_at sep (concat rs) = l # ls" by (meson list.exhaust)
      with Cons have "valid_string l" "list_all valid_string ls" by simp_all
      moreover have "valid_string (r @ l)"
        using Cons.prems \<open>valid_string l\<close> valid_string_one_rune by simp
      ultimately show ?thesis using split_at_append [OF False] ls by simp
    qed
  qed simp
  from this [of "runes s"] assms(1,3) show ?thesis
    by (simp add: valid_string_iff concat_runes list_all_iff)
qed

lemma marshal_text_no_NUL: "CHR 0x00 \<notin> set s \<Longrightarrow> CHR 0x00 \<notin> set (marshal_text s)"
proof -
  assume "CHR 0x00 \<notin> set s"
  then have "CHR 0x00 \<notin> set r" if "r \<in> set (runes s)" for r
    using that concat_runes [of s] by (metis UN_I set_concat)
  then have "CHR 0x00 \<notin> set (encode_rune r)" if "r \<in> set (runes s)" for r
    using that by (auto simp: encode_rune_def rune_error_def)
  then show ?thesis by (auto simp: marshal_text_def)
qed

section \<open>Results fit their table\<close>

lemma sanitize_pg: "pg_text (sanitize s)"
  unfolding sanitize_def pg_text_def by (simp add: ToValidUTF8_valid ToValidUTF8_no_NUL)

lemma trim_invalid_set: "set (trim_invalid s) \<subseteq> set s"
  by (rule set_mono_prefix) (rule trim_invalid_prefix)

lemma truncate_dots_pg: "pg_text s \<Longrightarrow> pg_text (truncate_dots s n)"
proof -
  assume s: "pg_text s"
  have "CHR 0x00 \<notin> set (trim_invalid (take n s))"
    using s trim_invalid_set [of "take n s"] set_take_subset [of n s] by (auto simp: pg_text_def)
  moreover have "valid_string ''...''" by code_simp
  ultimately show ?thesis using s trim_invalid_valid [of "take n s"]
    by (auto simp: truncate_dots_def pg_text_def intro: valid_string_append)
qed

lemma find_in: "find p xs = Some x \<Longrightarrow> x \<in> set xs"
  by (induction xs) (auto split: if_splits)

lemma set_split_at: "l \<in> set (split_at sep s) \<Longrightarrow> set l \<subseteq> set s"
  by (induction s arbitrary: l) (fastforce split: if_splits list.splits)+

lemma summarize_pg: "pg_text (summarize out fallback)"
proof (cases "find (\<lambda>l. l \<noteq> []) (rev (map TrimSpace (split_at (CHR 0x0A) (TrimSpace (sanitize out)))))")
  case None
  then show ?thesis by (simp add: summarize_def truncate_dots_pg sanitize_pg)
next
  case (Some line)
  then have "line \<in> set (map TrimSpace (split_at (CHR 0x0A) (TrimSpace (sanitize out))))"
    by (auto dest!: find_in)
  then obtain l where l: "l \<in> set (split_at (CHR 0x0A) (TrimSpace (sanitize out)))"
    and line: "line = TrimSpace l" by auto
  have whole: "pg_text (TrimSpace (sanitize out))"
    using sanitize_pg [of out] set_TrimSpace [of "sanitize out"]
    by (auto simp: pg_text_def intro: valid_TrimSpace)
  have "CHR 0x00 \<notin> set l" using whole set_split_at [OF l] by (auto simp: pg_text_def)
  moreover have "valid_string l"
    using whole l by (intro valid_split_at [OF _ _ l]) (auto simp: pg_text_def ascii_iff byte_def)
  ultimately have "pg_text line"
    using set_TrimSpace [of l] by (auto simp: line pg_text_def intro: valid_TrimSpace)
  with Some show ?thesis by (simp add: summarize_def truncate_dots_pg)
qed

definition plain :: "char \<Rightarrow> bool" where
  "plain c \<longleftrightarrow> ascii c \<and> c \<noteq> CHR 0x00"

lemma plain_pg: "list_all plain s \<Longrightarrow> pg_text s"
proof -
  assume s: "list_all plain s"
  then have "list_all ascii s" by (rule list.pred_mono_strong) (simp add: plain_def)
  moreover have "CHR 0x00 \<notin> set s" using s by (auto simp: list_all_iff plain_def)
  ultimately show ?thesis by (simp add: pg_text_def valid_string_ascii)
qed

lemma byte_NUL: "byte (CHR 0x00) = 0"
  by (simp add: byte_def)

lemma plain_bytes: "0 < byte c \<Longrightarrow> byte c < 128 \<Longrightarrow> plain c"
  by (auto simp: plain_def ascii_iff byte_NUL)

lemma plain_digit: "is_digit c \<Longrightarrow> plain c"
  by (rule plain_bytes) (simp_all add: is_digit_def)

lemma plain_int_string: "list_all plain (int_string k)"
  using nat_string_digits [of "nat \<bar>k\<bar>"] plain_digit
  by (simp add: int_string_def list_all_iff plain_def)

lemma plain_fraction_text: "list_all plain (fraction_text n v)"
proof -
  have "list_all plain (zero_pad n k)" if "0 \<le> k" for k
  proof -
    have "plain (CHR ''0'')" by (simp add: plain_def)
    then have "list_all plain (replicate m (CHR ''0''))" for m by (simp add: list_all_iff)
    with that plain_int_string [of k] show ?thesis by (simp add: zero_pad_def Let_def)
  qed
  then have "list_all plain (zero_pad n (v mod 10 ^ n))" by simp
  then show ?thesis
    using trim_right_char_set [of "CHR ''0''" "zero_pad n (v mod 10 ^ n)"]
    by (simp add: fraction_text_def Let_def list_all_iff subset_iff) (simp add: plain_def)
qed

lemma duration_seconds_pg:
  assumes "second \<le> d"
  shows "pg_text (''timed out after '' @ duration_string d)"
  by (rule plain_pg, use assms in
    \<open>simp add: duration_string_def Let_def second_def plain_int_string plain_fraction_text plain_def\<close>)

lemma runCheck_pg:
  assumes "0 \<le> k_TimeoutSeconds k"
  shows "pg_text (res_Summary (runCheck k o'))"
proof -
  have "second \<le> EffectiveTimeoutSeconds k * second"
    using assms by (auto simp: EffectiveTimeoutSeconds_def DefaultTimeoutSeconds_def second_def)
  from duration_seconds_pg [OF this] show ?thesis
    by (simp add: runCheck_def Let_def summarize_pg truncate_dots_pg sanitize_pg
        split: option.split cmd_error.split)
qed

section \<open>What Parse lets through\<close>

definition check_ok :: "Check \<Rightarrow> bool" where
  "check_ok k \<longleftrightarrow> check_name_ok (k_Name k) \<and> k_Category k \<in> set Categories \<and>
     1 \<le> length (k_Command k) \<and> length (k_Command k) \<le> MaxCommandArgs \<and>
     1 \<le> EffectiveTimeoutSeconds k \<and> EffectiveTimeoutSeconds k \<le> MaxTimeoutSeconds \<and>
     0 \<le> k_TimeoutSeconds k"

lemma validate_check_head:
  "validate_checks i seen tot (k # ks) = Inr tot' \<Longrightarrow>
    check_ok k \<and> k_Name k \<notin> set seen \<and>
    validate_checks (i + 1) (seen @ [k_Name k]) (tot + EffectiveTimeoutSeconds k) ks = Inr tot'"
  by (cases "k_Command k")
    (simp_all add: check_ok_def EffectiveTimeoutSeconds_def DefaultTimeoutSeconds_def
      MaxTimeoutSeconds_def split: if_splits)

lemma validate_checks_sound:
  "validate_checks i seen tot ks = Inr tot' \<Longrightarrow>
    list_all check_ok ks \<and> distinct (map k_Name ks) \<and> set (map k_Name ks) \<inter> set seen = {} \<and>
    tot' = tot + sum_list (map EffectiveTimeoutSeconds ks)"
proof (induction i seen tot ks rule: validate_checks.induct)
  case (2 i seen tot k ks)
  have "check_ok k" and "k_Name k \<notin> set seen"
    and rest: "validate_checks (i + 1) (seen @ [k_Name k]) (tot + EffectiveTimeoutSeconds k) ks = Inr tot'"
    using 2(2) validate_check_head by blast+
  moreover have "list_all check_ok ks \<and> distinct (map k_Name ks)
      \<and> set (map k_Name ks) \<inter> set (seen @ [k_Name k]) = {}
      \<and> tot' = tot + EffectiveTimeoutSeconds k + sum_list (map EffectiveTimeoutSeconds ks)"
    using 2(1,2) rest by (simp split: if_splits)
  ultimately show ?case by auto
qed simp

lemma name_char: "is_alnum c \<Longrightarrow> plain c"
  "c \<in> {CHR ''.'', CHR ''_'', CHR ''-''} \<Longrightarrow> plain c"
  by (auto simp: is_alnum_def plain_digit intro: plain_bytes) (simp_all add: plain_def)

lemma name_length:
  assumes "check_name_ok s"
  shows "text_between 1 100 s"
proof -
  obtain c cs where s: "s = c # cs" using assms by (auto simp: check_name_ok_def split: list.splits)
  have plain: "list_all plain s"
    using assms unfolding s
    by (auto simp: check_name_ok_def elim!: list.pred_mono_strong intro: name_char)
  then have "list_all ascii s" by (auto simp: list_all_iff plain_def)
  then have "rune_count s = length s" by (simp add: rune_count_def runes_ascii)
  with plain_pg [OF plain] assms show ?thesis
    by (auto simp: text_between_def s check_name_ok_def)
qed

text \<open>
  C28. Whatever a repository's check prints, its result can be recorded. A validation file that
  \<open>Parse\<close> accepts has between 1 and 20 checks of different names, commands of 1 to 64 words and
  timeouts of 1 second to 30 minutes, at most an hour together; and running any of its
  checks, whatever bytes it writes, however it ends, gives a row that satisfies the constraints of
  \<open>validation_results\<close>, provided its arguments have no NUL byte.
\<close>

theorem checks_are_storable:
  assumes "Parse yaml bytes = Inr f"
  shows "1 \<le> length (vf_Validation f) \<and> length (vf_Validation f) \<le> MaxChecks \<and>
    distinct (map k_Name (vf_Validation f)) \<and>
    sum_list (map EffectiveTimeoutSeconds (vf_Validation f)) \<le> MaxTotalTimeoutSeconds \<and>
    (\<forall>k\<in>set (vf_Validation f). 1 \<le> length (k_Command k) \<and> length (k_Command k) \<le> MaxCommandArgs \<and>
       1 \<le> EffectiveTimeoutSeconds k \<and> EffectiveTimeoutSeconds k \<le> MaxTimeoutSeconds \<and>
       (\<forall>E n aid o'. 0 \<le> co_DurationMS o' \<longrightarrow> list_all (\<lambda>a. CHR 0x00 \<notin> set a) (k_Command k) \<longrightarrow>
          validation_row_ok (result_row E n aid (runCheck k o'))))"
proof -
  obtain tot where ks: "validate_checks 0 [] 0 (vf_Validation f) = Inr tot"
    and size: "vf_Validation f \<noteq> []" "length (vf_Validation f) \<le> MaxChecks" "tot \<le> MaxTotalTimeoutSeconds"
    using assms by (auto simp: Parse_def validate_file_def bind_sum_Inr_iff split: if_splits)
  note ok = validate_checks_sound [OF ks]
  have row: "validation_row_ok (result_row E n aid (runCheck k o'))"
    if k: "check_ok k" and "0 \<le> co_DurationMS o'" and nul: "list_all (\<lambda>a. CHR 0x00 \<notin> set a) (k_Command k)"
    for k E n aid o'
  proof -
    have res: "res_Name (runCheck k o') = k_Name k" "res_Category (runCheck k o') = k_Category k"
      "res_Command (runCheck k o') = k_Command k" "res_DurationMS (runCheck k o') = co_DurationMS o'"
      by (simp_all add: runCheck_def Let_def split: option.split cmd_error.split)
    have "CHR 0x00 \<notin> set (marshal_text a)" if "CHR 0x00 \<notin> set a" for a
      using that by (rule marshal_text_no_NUL)
    then have "json_ok (JArr (map (\<lambda>s. JStr (marshal_text s)) (k_Command k)))"
      using nul by (auto simp: list_all_iff)
    with that res show ?thesis
      by (simp add: validation_row_ok_def result_row_def check_ok_def name_length runCheck_pg)
  qed
  from ok size row show ?thesis
    by (auto simp: list_all_iff check_ok_def Suc_le_eq)
qed

definition demo_check :: Check where
  "demo_check = \<lparr>k_Name = ''unit'', k_Category = ''unit_test'', k_Command = [''go'', ''test''],
     k_TimeoutSeconds = 0\<rparr>"

definition demo_file :: File where
  "demo_file = \<lparr>vf_Version = 1, vf_Validation = [demo_check]\<rparr>"

text \<open>A command that fails after writing invalid UTF-8 and a NUL byte.\<close>

definition demo_failure :: cmd_outcome where
  "demo_failure = \<lparr>co_Writes = [[CHR ''b'', CHR 0xFF, CHR 0x00]], co_DurationMS = 3,
     co_Error = Some (ExitError 1 ''exit status 1''), co_Deadline = False, co_Cancelled = False\<rparr>"

theorem checks_are_storable_witness:
  "Parse (\<lambda>_. Inr demo_file) ''y'' = Inr demo_file \<and>
    validation_row_ok (result_row (demo_env 1) 0 ''a'' (runCheck demo_check demo_failure))"
proof -
  have parse: "Parse (\<lambda>_. Inr demo_file) ''y'' = Inr demo_file" by code_simp
  have "demo_check \<in> set (vf_Validation demo_file)" "0 \<le> co_DurationMS demo_failure"
    "list_all (\<lambda>a. CHR 0x00 \<notin> set a) (k_Command demo_check)"
    by (simp_all add: demo_file_def demo_failure_def demo_check_def)
  with checks_are_storable [OF parse] parse show ?thesis by blast
qed

section \<open>Verdicts\<close>

lemma conclude_exact:
  "conclude saw con vs =
    (if list_ex (\<lambda>v. cr_TrustedExecution v \<and> has_status v VFailed) vs then ''failure''
     else if \<not> saw \<and> \<not> list_ex cr_TrustedExecution vs then ''neutral''
     else if list_all (\<lambda>v. cr_TrustedExecution v \<longrightarrow> has_status v VPassed) vs then con
     else ''neutral'')"
  by (induction saw con vs rule: conclude.induct) (auto simp: has_status_def)

text \<open>The statuses of the trusted rows of an attempt.\<close>

definition trusted_statuses :: "(int \<times> ValidationRow) list \<Rightarrow> vstatus list" where
  "trusted_statuses rows = map v_Status (filter v_TrustedExecution (map snd rows))"

lemma claimed_untrusted:
  "list_all (\<lambda>v. \<not> cr_TrustedExecution v) (cl_Claimed cl) \<Longrightarrow>
    list_all (\<lambda>v. \<not> cr_TrustedExecution v) (cl_Claimed (claim_event c ev cl))"
  by (auto simp: claim_event_def claimed_check_def split: sum.splits)

lemma agent_claims_untrusted: "list_all (\<lambda>v. \<not> cr_TrustedExecution v) (cl_Claimed (agent_claims c es))"
proof -
  have "list_all (\<lambda>v. \<not> cr_TrustedExecution v) (cl_Claimed (fold (\<lambda>(_, ev). claim_event c ev) es cl))"
    if "list_all (\<lambda>v. \<not> cr_TrustedExecution v) (cl_Claimed cl)" for cl
    using that by (induction es arbitrary: cl) (auto dest: claimed_untrusted)
  then show ?thesis by (simp add: agent_claims_def)
qed

lemma generated_validation:
  "filter cr_TrustedExecution (rep_Validation (Generate (report_params X c t attempt rows es dur note))) =
    map trusted_result (filter v_TrustedExecution (map snd rows))"
proof -
  have "filter cr_TrustedExecution (cl_Claimed (agent_claims c es)) = []"
    using agent_claims_untrusted [of c es] by (simp add: filter_empty_conv list_all_iff)
  then show ?thesis
    by (simp add: Generate_def report_params_def Let_def filter_map comp_def trusted_result_def)
qed

lemma trusted_has_status:
  "has_status (trusted_result v) s \<longleftrightarrow> v_Status v = s"
  "cr_TrustedExecution (trusted_result v) = v_TrustedExecution v"
  by (simp_all add: has_status_def trusted_result_def)

lemma conclude_filter: "conclude saw con vs = conclude saw con (filter cr_TrustedExecution vs)"
  by (simp add: conclude_exact list_ex_iff list_all_iff) blast

lemma conclude_trusted:
  assumes "list_all v_TrustedExecution vs"
  shows "conclude False ''success'' (map trusted_result vs) =
    (if VFailed \<in> set (map v_Status vs) then ''failure''
     else if map v_Status vs \<noteq> [] \<and> set (map v_Status vs) = {VPassed} then ''success'' else ''neutral'')"
proof -
  have "list_ex (\<lambda>v. cr_TrustedExecution v \<and> has_status v VFailed) (map trusted_result vs)
      \<longleftrightarrow> VFailed \<in> set (map v_Status vs)"
    using assms by (simp add: list_ex_iff list_all_iff trusted_has_status image_iff) metis
  moreover have "list_ex cr_TrustedExecution (map trusted_result vs) \<longleftrightarrow> vs \<noteq> []"
    using assms by (cases vs) (auto simp: trusted_has_status)
  moreover have "list_all (\<lambda>v. cr_TrustedExecution v \<longrightarrow> has_status v VPassed) (map trusted_result vs)
      \<longleftrightarrow> set (map v_Status vs) \<subseteq> {VPassed}"
    using assms by (auto simp: list_all_iff trusted_has_status)
  moreover have "set (map v_Status vs) \<noteq> {}" if "vs \<noteq> []" using that by simp
  ultimately show ?thesis by (auto simp: conclude_exact subset_singleton_iff)
qed

lemma count_filter:
  "0 < length (filter P xs) \<longleftrightarrow> (\<exists>x\<in>set xs. P x)"
  "length (filter P xs) = length xs \<longleftrightarrow> (\<forall>x\<in>set xs. P x)"
proof -
  show "0 < length (filter P xs) \<longleftrightarrow> (\<exists>x\<in>set xs. P x)"
    by (simp add: filter_empty_conv)
  have "length (filter P xs) + length (filter (\<lambda>x. \<not> P x) xs) = length xs"
    by (rule sum_length_filter_compl)
  then have "length (filter P xs) = length xs \<longleftrightarrow> filter (\<lambda>x. \<not> P x) xs = []" by auto
  then show "length (filter P xs) = length xs \<longleftrightarrow> (\<forall>x\<in>set xs. P x)"
    by (simp add: filter_empty_conv)
qed

text \<open>
  C27. The conclusion of the check run rests on what the platform executed and nothing else:
  whatever the agent reported in its events, the report of an attempt concludes \<open>failure\<close> when one
  of the attempt's trusted results failed, \<open>success\<close> when there are some and all passed, and
  \<open>neutral\<close> otherwise.
\<close>

theorem conclusion_rests_on_trusted_checks:
  "checkConclusion (Generate (report_params X c t attempt rows es duration note)) =
    (let ss = trusted_statuses rows in
     if VFailed \<in> set ss then ''failure''
     else if ss \<noteq> [] \<and> set ss = {VPassed} then ''success'' else ''neutral'')"
proof -
  let ?vs = "filter v_TrustedExecution (map snd rows)"
  have all: "list_all v_TrustedExecution ?vs" by (simp add: list_all_iff)
  have "checkConclusion (Generate (report_params X c t attempt rows es duration note)) =
      conclude False ''success'' (map trusted_result ?vs)"
    unfolding checkConclusion_def by (subst conclude_filter) (simp only: generated_validation)
  then show ?thesis by (simp add: conclude_trusted [OF all] trusted_statuses_def Let_def)
qed

text \<open>
  C29. The three verdicts on an attempt agree: the conclusion of its check run, the line of its
  revision summary and the outcome in the attempt history, computed by three different pieces of
  code (the last one by the database), are all a failure, all a success, or none of both.
\<close>

theorem verdicts_agree:
  "let report = Generate (report_params X c t attempt rows es duration note);
       history = trusted_outcome (filter v_TrustedExecution (map snd rows)) in
    (checkConclusion report = ''failure'' \<longleftrightarrow> history = ''failed'') \<and>
    (checkConclusion report = ''success'' \<longleftrightarrow> history = ''passed'') \<and>
    (HasPrefix (validationOutcome report) ''failed'' \<longleftrightarrow> history = ''failed'') \<and>
    (HasPrefix (validationOutcome report) ''passed'' \<longleftrightarrow> history = ''passed'') \<and>
    (validationOutcome report = ''no trusted checks ran'' \<longleftrightarrow> history = [])"
proof -
  define vs where "vs = filter v_TrustedExecution (map snd rows)"
  let ?r = "Generate (report_params X c t attempt rows es duration note)"
  have all: "list_all v_TrustedExecution vs" by (simp add: vs_def list_all_iff)
  have verdict: "checkConclusion ?r = conclude False ''success'' (map trusted_result vs)"
    unfolding checkConclusion_def vs_def by (subst conclude_filter) (simp only: generated_validation)
  have kept: "filter cr_TrustedExecution (rep_Validation ?r) = map trusted_result vs"
    unfolding vs_def by (rule generated_validation)
  have counts: "0 < length (filter (\<lambda>v. has_status v VFailed) (map trusted_result vs))
      \<longleftrightarrow> (\<exists>v\<in>set vs. v_Status v = VFailed)"
    "length (filter (\<lambda>v. has_status v VPassed) (map trusted_result vs)) = length vs
      \<longleftrightarrow> (\<forall>v\<in>set vs. v_Status v = VPassed)"
    using count_filter(1) [of "\<lambda>v. has_status v VFailed" "map trusted_result vs"]
      count_filter(2) [of "\<lambda>v. has_status v VPassed" "map trusted_result vs"]
    by (simp_all add: trusted_has_status)
  have outcome: "validationOutcome ?r =
     (if vs = [] then ''no trusted checks ran''
      else if \<exists>v\<in>set vs. v_Status v = VFailed then
        ''failed ('' @ nat_string (length (filter (\<lambda>v. has_status v VFailed) (map trusted_result vs)))
          @ '' of '' @ nat_string (length vs) @ '' trusted checks failed)''
      else if \<forall>v\<in>set vs. v_Status v = VPassed then
        ''passed ('' @ nat_string (length vs) @ '' trusted checks)''
      else ''incomplete ('' @ nat_string (length (filter (\<lambda>v. has_status v VPassed) (map trusted_result vs)))
          @ '' of '' @ nat_string (length vs) @ '' trusted checks passed)'')"
    using counts by (simp add: validationOutcome_def kept Let_def)
  have failed: "VFailed \<in> set (map v_Status vs) \<longleftrightarrow> (\<exists>v\<in>set vs. v_Status v = VFailed)"
    by (simp add: image_iff) metis
  have passed: "set (map v_Status vs) = {VPassed} \<longleftrightarrow> vs \<noteq> [] \<and> (\<forall>v\<in>set vs. v_Status v = VPassed)"
    by (cases vs) auto
  show ?thesis
    unfolding Let_def verdict conclude_trusted [OF all] outcome passed failed vs_def [symmetric]
    by (cases "vs = []"; cases "\<exists>v\<in>set vs. v_Status v = VFailed";
        cases "\<forall>v\<in>set vs. v_Status v = VPassed")
      (auto simp: trusted_outcome_def HasPrefix_def)
qed

section \<open>Reports survive storage\<close>

text \<open>What a report needs to come back as it was: valid text and 64-bit numbers.\<close>

definition int64 :: "int \<Rightarrow> bool" where
  "int64 i \<longleftrightarrow> - (2 ^ 63) \<le> i \<and> i < 2 ^ 63"

definition int64_ptr :: "int option \<Rightarrow> bool" where
  "int64_ptr v = (case v of None \<Rightarrow> True | Some i \<Rightarrow> int64 i)"

definition check_fits :: "CheckResult \<Rightarrow> bool" where
  "check_fits c \<longleftrightarrow> list_all valid_string [cr_Name c, cr_Category c, cr_StatusText c, cr_Summary c]
     \<and> int64_ptr (cr_ExitCode c) \<and> int64 (cr_DurationMS c)"

definition report_fits :: "Report \<Rightarrow> bool" where
  "report_fits r \<longleftrightarrow>
     (let t = rep_Task r; e = rep_Execution r; ch = rep_Changes r in
      int64 (rep_SchemaVersion r) \<and> list_all valid_string [ti_ID t, ti_Title t, ti_RequestedBy t]
      \<and> int64_ptr (ti_SourceIssue t)
      \<and> list_all valid_string
          [ex_AgentProvider e, ex_AgentModel e, ex_BaseCommit e, ex_FinalCommit e]
      \<and> int64_ptr (ex_DurationSeconds e) \<and> int64 (ch_FilesChanged ch)
      \<and> list_all valid_string (ch_Files ch) \<and> list_all valid_string (rep_Plan r)
      \<and> list_all check_fits (rep_Validation r)
      \<and> list_all valid_string (rep_Risks r) \<and> list_all valid_string (rep_Unverified r))"

lemma marshal_valid: "valid_string s \<Longrightarrow> marshal_text s = s"
proof -
  assume "valid_string s"
  then have "map encode_rune (runes s) = runes s"
    by (intro map_idI) (auto dest: one_rune_runes simp: encode_rune_def one_rune_def)
  then show ?thesis by (simp add: marshal_text_def concat_runes)
qed

lemma decode_int_fits [simp]:
  "int64 i \<Longrightarrow> decode_int_ptr (JInt i) = Inr (Some i)" "int64 i \<Longrightarrow> decode_int (JInt i) old = Inr i"
  by (simp_all add: int64_def)

lemma decode_texts: "list_all valid_string ss \<Longrightarrow>
    decode_slice decode_text (JArr (map (\<lambda>s. jtext s) ss)) = Inr ss"
  by (rule decode_slice_map) (auto simp: decode_text_def marshal_valid list_all_iff)

lemmas omit_defs = omit_text_def omit_int_def omit_ptr_def omit_texts_def

lemma fold_names:
  "fold_name ''name'' = ''name''" "fold_name ''category'' = ''category''"
  "fold_name ''status'' = ''status''" "fold_name ''trusted_execution'' = ''trusted_execution''"
  "fold_name ''exit_code'' = ''exit_code''" "fold_name ''duration_ms'' = ''duration_ms''"
  "fold_name ''summary'' = ''summary''" "fold_name ''id'' = ''id''"
  "fold_name ''source_issue'' = ''source_issue''" "fold_name ''title'' = ''title''"
  "fold_name ''requested_by'' = ''requested_by''" "fold_name ''agent_provider'' = ''agent_provider''"
  "fold_name ''agent_model'' = ''agent_model''" "fold_name ''base_commit'' = ''base_commit''"
  "fold_name ''final_commit'' = ''final_commit''"
  "fold_name ''duration_seconds'' = ''duration_seconds''"
  "fold_name ''files_changed'' = ''files_changed''" "fold_name ''files'' = ''files''"
  "fold_name ''schema_version'' = ''schema_version''" "fold_name ''task'' = ''task''"
  "fold_name ''execution'' = ''execution''" "fold_name ''plan'' = ''plan''"
  "fold_name ''changes'' = ''changes''" "fold_name ''validation'' = ''validation''"
  "fold_name ''risks'' = ''risks''" "fold_name ''unverified'' = ''unverified''"
  by code_simp+

text \<open>Members of an object in order, optional ones with the value they have when left out.\<close>

lemma decode_members:
  "decode_fields f ((k, j) # kvs) x = bind_sum (f (fold_name k) j x) (decode_fields f kvs)"
  "f (fold_name k) (jtext s) x = Inr y \<Longrightarrow> (s = [] \<Longrightarrow> y = x) \<Longrightarrow>
    decode_fields f (omit_text k s @ kvs) x = decode_fields f kvs y"
  "f (fold_name k) (JInt n) x = Inr y \<Longrightarrow> (n = 0 \<Longrightarrow> y = x) \<Longrightarrow>
    decode_fields f (omit_int k n @ kvs) x = decode_fields f kvs y"
  "decode_fields f (omit_ptr k None @ kvs) x = decode_fields f kvs x"
  "f (fold_name k) (JInt n) x = Inr y \<Longrightarrow>
    decode_fields f (omit_ptr k (Some n) @ kvs) x = decode_fields f kvs y"
  "f (fold_name k) (JArr (map (\<lambda>s. jtext s) ss)) x = Inr y \<Longrightarrow> (ss = [] \<Longrightarrow> y = x) \<Longrightarrow>
    decode_fields f (omit_texts k ss @ kvs) x = decode_fields f kvs y"
  by (auto simp: omit_defs decode_fields.simps split: option.splits)

lemma decode_last:
  "f (fold_name k) (jtext s) x = Inr y \<Longrightarrow> (s = [] \<Longrightarrow> y = x) \<Longrightarrow>
    decode_fields f (omit_text k s) x = Inr y"
  "decode_fields f (omit_ptr k None) x = Inr x"
  "f (fold_name k) (JInt n) x = Inr y \<Longrightarrow> decode_fields f (omit_ptr k (Some n)) x = Inr y"
  "f (fold_name k) (JArr (map (\<lambda>s. jtext s) ss)) x = Inr y \<Longrightarrow> (ss = [] \<Longrightarrow> y = x) \<Longrightarrow>
    decode_fields f (omit_texts k ss) x = Inr y"
  by (auto simp: omit_defs decode_fields.simps split: option.splits)

declare fold_name.simps [simp del] decode_fields.simps [simp del]

lemma check_members:
  "check_member ''name'' (JStr s) c = Inr (c\<lparr>cr_Name := s\<rparr>)"
  "check_member ''category'' (JStr s) c = Inr (c\<lparr>cr_Category := s\<rparr>)"
  "check_member ''status'' (JStr s) c = Inr (c\<lparr>cr_StatusText := s\<rparr>)"
  "check_member ''trusted_execution'' (JBool b) c = Inr (c\<lparr>cr_TrustedExecution := b\<rparr>)"
  "int64 n \<Longrightarrow> check_member ''exit_code'' (JInt n) c = Inr (c\<lparr>cr_ExitCode := Some n\<rparr>)"
  "int64 n \<Longrightarrow> check_member ''duration_ms'' (JInt n) c = Inr (c\<lparr>cr_DurationMS := n\<rparr>)"
  "check_member ''summary'' (JStr s) c = Inr (c\<lparr>cr_Summary := s\<rparr>)"
  by (simp_all add: check_member_def)

lemma task_members:
  "task_member ''id'' (JStr s) t = Inr (t\<lparr>ti_ID := s\<rparr>)"
  "int64 n \<Longrightarrow> task_member ''source_issue'' (JInt n) t = Inr (t\<lparr>ti_SourceIssue := Some n\<rparr>)"
  "task_member ''title'' (JStr s) t = Inr (t\<lparr>ti_Title := s\<rparr>)"
  "task_member ''requested_by'' (JStr s) t = Inr (t\<lparr>ti_RequestedBy := s\<rparr>)"
  by (simp_all add: task_member_def)

lemma execution_members:
  "execution_member ''agent_provider'' (JStr s) e = Inr (e\<lparr>ex_AgentProvider := s\<rparr>)"
  "execution_member ''agent_model'' (JStr s) e = Inr (e\<lparr>ex_AgentModel := s\<rparr>)"
  "execution_member ''base_commit'' (JStr s) e = Inr (e\<lparr>ex_BaseCommit := s\<rparr>)"
  "execution_member ''final_commit'' (JStr s) e = Inr (e\<lparr>ex_FinalCommit := s\<rparr>)"
  "int64 n \<Longrightarrow> execution_member ''duration_seconds'' (JInt n) e = Inr (e\<lparr>ex_DurationSeconds := Some n\<rparr>)"
  by (simp_all add: execution_member_def)

lemma changes_members:
  "int64 n \<Longrightarrow> changes_member ''files_changed'' (JInt n) c = Inr (c\<lparr>ch_FilesChanged := n\<rparr>)"
  "list_all valid_string ss \<Longrightarrow>
    changes_member ''files'' (JArr (map (\<lambda>s. jtext s) ss)) c = Inr (c\<lparr>ch_Files := ss\<rparr>)"
  by (simp_all add: changes_member_def decode_texts)

lemmas decode_rules = decode_members decode_last fold_names marshal_valid int64_ptr_def decode_struct_def

lemma check_roundtrip: "check_fits c \<Longrightarrow> decode_struct check_member no_check (check_json c) = Inr c"
  by (cases c; cases "cr_ExitCode c")
    (simp_all add: decode_rules check_members check_fits_def check_json_def no_check_def)

lemma task_roundtrip:
  assumes "list_all valid_string [ti_ID t, ti_Title t, ti_RequestedBy t]" and "int64_ptr (ti_SourceIssue t)"
  shows "decode_struct task_member (rep_Task no_report) (task_json t) = Inr t"
  using assms
  by (cases t; cases "ti_SourceIssue t")
    (simp_all add: decode_rules task_members task_json_def no_report_def)

lemma execution_roundtrip:
  assumes "list_all valid_string [ex_AgentProvider e, ex_AgentModel e, ex_BaseCommit e, ex_FinalCommit e]"
    and "int64_ptr (ex_DurationSeconds e)"
  shows "decode_struct execution_member (rep_Execution no_report) (execution_json e) = Inr e"
  using assms
  by (cases e; cases "ex_DurationSeconds e")
    (simp_all add: decode_rules execution_members execution_json_def no_report_def)

lemma changes_roundtrip:
  assumes "int64 (ch_FilesChanged c)" and "list_all valid_string (ch_Files c)"
  shows "decode_struct changes_member (rep_Changes no_report) (changes_json c) = Inr c"
  using assms
  by (cases c) (simp add: decode_rules changes_members changes_json_def no_report_def)

lemma report_members:
  "int64 n \<Longrightarrow> report_member ''schema_version'' (JInt n) r = Inr (r\<lparr>rep_SchemaVersion := n\<rparr>)"
  "decode_struct task_member (rep_Task r) j = Inr t \<Longrightarrow>
    report_member ''task'' j r = Inr (r\<lparr>rep_Task := t\<rparr>)"
  "decode_struct execution_member (rep_Execution r) j = Inr e \<Longrightarrow>
    report_member ''execution'' j r = Inr (r\<lparr>rep_Execution := e\<rparr>)"
  "decode_struct changes_member (rep_Changes r) j = Inr c \<Longrightarrow>
    report_member ''changes'' j r = Inr (r\<lparr>rep_Changes := c\<rparr>)"
  "list_all check_fits cs \<Longrightarrow> report_member ''validation'' (JArr (map check_json cs)) r
    = Inr (r\<lparr>rep_Validation := cs\<rparr>)"
  "list_all valid_string ss \<Longrightarrow>
    report_member ''plan'' (JArr (map (\<lambda>s. jtext s) ss)) r = Inr (r\<lparr>rep_Plan := ss\<rparr>)"
  "list_all valid_string ss \<Longrightarrow>
    report_member ''risks'' (JArr (map (\<lambda>s. jtext s) ss)) r = Inr (r\<lparr>rep_Risks := ss\<rparr>)"
  "list_all valid_string ss \<Longrightarrow>
    report_member ''unverified'' (JArr (map (\<lambda>s. jtext s) ss)) r = Inr (r\<lparr>rep_Unverified := ss\<rparr>)"
proof -
  assume cs: "list_all check_fits cs"
  then have "decode_slice (decode_struct check_member no_check) (JArr (map check_json cs)) = Inr cs"
    by (intro decode_slice_map) (auto simp: list_all_iff check_roundtrip)
  then show "report_member ''validation'' (JArr (map check_json cs)) r = Inr (r\<lparr>rep_Validation := cs\<rparr>)"
    by (simp add: report_member_def)
qed (simp_all add: report_member_def decode_texts)

text \<open>
  C34. The evidence of an attempt survives storage: the JSON document of a report, read back
  by the publisher, is the same report, every optional member, every list and every check result
  included, when its texts are valid UTF-8 and its numbers fit 64 bits.
\<close>

theorem report_roundtrip:
  assumes "report_fits r"
  shows "decode_report (report_json r) = Inr r"
proof -
  obtain version task execution plan changes validation risks unverified where
    r: "r = \<lparr>rep_SchemaVersion = version, rep_Task = task, rep_Execution = execution, rep_Plan = plan,
      rep_Changes = changes, rep_Validation = validation, rep_Risks = risks, rep_Unverified = unverified\<rparr>"
    by (cases r)
  note fits = assms [unfolded r report_fits_def Let_def Report.simps]
  have t: "decode_struct task_member (rep_Task no_report) (task_json task) = Inr task"
    and e: "decode_struct execution_member (rep_Execution no_report) (execution_json execution) = Inr execution"
    and c: "decode_struct changes_member (rep_Changes no_report) (changes_json changes) = Inr changes"
    using fits by (simp_all add: task_roundtrip execution_roundtrip changes_roundtrip)
  note steps = t [unfolded no_report_def Report.simps] e [unfolded no_report_def Report.simps]
    c [unfolded no_report_def Report.simps]
  have "decode_fields report_member
      ([(''schema_version'', JInt version), (''task'', task_json task), (''execution'', execution_json execution)]
       @ omit_texts ''plan'' plan
       @ [(''changes'', changes_json changes), (''validation'', JArr (map check_json validation))]
       @ omit_texts ''risks'' risks @ omit_texts ''unverified'' unverified) no_report = Inr r"
    using fits by (simp add: decode_members decode_last fold_names report_members steps no_report_def r)
  then show ?thesis by (simp add: decode_report_def report_json_def decode_struct_def r)
qed

definition demo_report :: Report where
  "demo_report = \<lparr>rep_SchemaVersion = 1,
     rep_Task = \<lparr>ti_ID = ''t'', ti_SourceIssue = Some 7, ti_Title = ''Fix'', ti_RequestedBy = []\<rparr>,
     rep_Execution = \<lparr>ex_AgentProvider = ''fake'', ex_AgentModel = [], ex_BaseCommit = ''b'',
       ex_FinalCommit = [], ex_DurationSeconds = Some 3\<rparr>,
     rep_Plan = [''one'', ''two''], rep_Changes = \<lparr>ch_FilesChanged = 1, ch_Files = [''a.go'']\<rparr>,
     rep_Validation = [\<lparr>cr_Name = ''unit'', cr_Category = ''unit_test'', cr_StatusText = ''passed'',
       cr_TrustedExecution = True, cr_ExitCode = Some 0, cr_DurationMS = 12, cr_Summary = []\<rparr>],
     rep_Risks = [], rep_Unverified = []\<rparr>"

theorem report_roundtrip_witness: "decode_report (report_json demo_report) = Inr demo_report"
  by (rule report_roundtrip) code_simp

end
