(* ===== verification/ConflictProps.thy ===== *)
theory ConflictProps
  imports Detector Scenario
begin

text \<open>
  The properties of conflict detection: what the store keeps of a detection, and that overlap
  does not depend on which of the two tasks asks.
\<close>

section \<open>The stored pairs\<close>

definition pair_of :: "ConflictRow \<Rightarrow> string \<times> string" where
  "pair_of c = (tc_TaskA c, tc_TaskB c)"

text \<open>What the constraints of the table keep: ordered pairs, each once.\<close>

definition conflicts_ok :: "ConflictRow list \<Rightarrow> bool" where
  "conflicts_ok cs \<longleftrightarrow> list_all (\<lambda>c. tc_TaskA c < tc_TaskB c) cs \<and> distinct (map pair_of cs)"

text \<open>The tasks a task conflicts with.\<close>

definition partners :: "string \<Rightarrow> ConflictRow list \<Rightarrow> string set" where
  "partners x cs = other_task x ` set (filter (involves x) cs)"

lemma update_conflict_pair [simp]:
  "pair_of (update_conflict v c) = pair_of c" "tc_TaskA (update_conflict v c) = tc_TaskA c"
  "tc_TaskB (update_conflict v c) = tc_TaskB c" "involves x (update_conflict v c) = involves x c"
  "other_task x (update_conflict v c) = other_task x c"
  by (simp_all add: update_conflict_def pair_of_def involves_def other_task_def)

lemma partners_update: "partners x (update_where p (update_conflict v) cs) = partners x cs"
  unfolding partners_def by (induction cs) (auto simp: update_where_def)

lemma partners_append: "partners x (cs @ ds) = partners x cs \<union> partners x ds"
  by (simp add: partners_def image_Un)

lemma upsert_effect:
  assumes run: "upsert_conflict E rid tid d det cs = Inr cs'" and ok: "conflicts_ok cs"
    and id: "pg_uuid (det_OtherTaskID det) = det_OtherTaskID det"
  shows "conflicts_ok cs'" and "partners (pg_uuid tid) cs' = insert (det_OtherTaskID det) (partners (pg_uuid tid) cs)"
    and "filter (\<lambda>c. \<not> involves (pg_uuid tid) c) cs' = filter (\<lambda>c. \<not> involves (pg_uuid tid) c) cs"
proof -
  define x where "x = pg_uuid tid"
  define y where "y = det_OtherTaskID det"
  define v where "v = detection_row E (env_uuid E (length cs)) rid tid det"
  have v: "tc_TaskA v = min x y" "tc_TaskB v = max x y"
    by (simp_all add: v_def detection_row_def Let_def x_def y_def id)
  let ?same = "is_pair (tc_TaskA v) (tc_TaskB v)"
  have lt: "tc_TaskA v < tc_TaskB v"
    and cs': "if list_ex ?same cs then cs' = update_where ?same (update_conflict v) cs else cs' = cs @ [v]"
    using run by (auto simp: upsert_conflict_def Let_def bind_sum_Inr_iff v_def conflict_row_ok_def split: if_splits)
  have xy: "x \<noteq> y" using lt v by auto
  have same: "?same c \<longleftrightarrow> pair_of c = pair_of v" for c
    using lt by (auto simp: is_pair_def pair_of_def min_def max_def)
  have vx: "involves x v" "other_task x v = y" using v xy by (auto simp: involves_def other_task_def min_def max_def)
  have samex: "involves x c \<and> other_task x c = y" if "?same c" for c
    using that vx unfolding same by (auto simp: pair_of_def involves_def other_task_def)
  show "conflicts_ok cs'"
  proof (cases "list_ex ?same cs")
    case True
    then have "map pair_of cs' = map pair_of cs" "list_all (\<lambda>c. tc_TaskA c < tc_TaskB c) cs'"
      using cs' ok by (auto simp: update_where_def conflicts_ok_def list_all_iff)
    with ok show ?thesis by (simp add: conflicts_ok_def)
  next
    case False
    then have "pair_of v \<notin> set (map pair_of cs)" by (auto simp: list_ex_iff same)
    with False cs' ok lt show ?thesis by (auto simp: conflicts_ok_def)
  qed
  show "partners (pg_uuid tid) cs' = insert (det_OtherTaskID det) (partners (pg_uuid tid) cs)"
    unfolding x_def [symmetric] y_def [symmetric]
  proof (cases "list_ex ?same cs")
    case True
    then obtain c where "c \<in> set cs" "?same c" by (auto simp: list_ex_iff)
    with samex have "y \<in> partners x cs" by (force simp: partners_def)
    with True cs' show "partners x cs' = insert y (partners x cs)" by (auto simp: partners_update)
  next
    case False
    with cs' vx show "partners x cs' = insert y (partners x cs)"
      by (simp add: partners_append) (simp add: partners_def)
  qed
  show "filter (\<lambda>c. \<not> involves (pg_uuid tid) c) cs' = filter (\<lambda>c. \<not> involves (pg_uuid tid) c) cs"
    unfolding x_def [symmetric]
  proof (cases "list_ex ?same cs")
    case True
    have "filter (\<lambda>c. \<not> involves x c) (update_where ?same (update_conflict v) ds) =
        filter (\<lambda>c. \<not> involves x c) ds" for ds
      using samex by (induction ds) (auto simp: update_where_def)
    with True cs' show "filter (\<lambda>c. \<not> involves x c) cs' = filter (\<lambda>c. \<not> involves x c) cs" by simp
  next
    case False
    with cs' vx show "filter (\<lambda>c. \<not> involves x c) cs' = filter (\<lambda>c. \<not> involves x c) cs" by simp
  qed
qed

lemma upsert_all_effect:
  assumes "upsert_all E rid tid d dets cs = Inr cs'" and "conflicts_ok cs"
    and "list_all (\<lambda>det. pg_uuid (det_OtherTaskID det) = det_OtherTaskID det) dets"
  shows "conflicts_ok cs' \<and> partners (pg_uuid tid) cs' =
      set (map det_OtherTaskID dets) \<union> partners (pg_uuid tid) cs \<and>
    filter (\<lambda>c. \<not> involves (pg_uuid tid) c) cs' = filter (\<lambda>c. \<not> involves (pg_uuid tid) c) cs"
  using assms
proof (induction dets arbitrary: cs)
  case (Cons det dets)
  then obtain cs1 where one: "upsert_conflict E rid tid d det cs = Inr cs1"
    and rest: "upsert_all E rid tid d dets cs1 = Inr cs'"
    by (auto simp: bind_sum_Inr_iff)
  from Cons.prems(3) have id: "pg_uuid (det_OtherTaskID det) = det_OtherTaskID det" by simp
  note step = upsert_effect [OF one Cons.prems(2) id]
  from Cons.IH [OF rest step(1)] Cons.prems(3) step(2,3) show ?case by auto
qed simp

lemma set_desired:
  "set (map det_OtherTaskID (desired dets)) = set (map det_OtherTaskID dets)"
  "set (desired dets) \<subseteq> set dets"
proof -
  let ?pick = "\<lambda>i. last (filter (\<lambda>x. det_OtherTaskID x = i) dets)"
  have pick: "det_OtherTaskID (?pick i) = i \<and> ?pick i \<in> set dets" if "i \<in> set (map det_OtherTaskID dets)" for i
  proof -
    have "filter (\<lambda>x. det_OtherTaskID x = i) dets \<noteq> []" using that by (auto simp: filter_empty_conv)
    then have "?pick i \<in> set (filter (\<lambda>x. det_OtherTaskID x = i) dets)" by (rule last_in_set)
    then show ?thesis by simp
  qed
  then show "set (map det_OtherTaskID (desired dets)) = set (map det_OtherTaskID dets)"
    and "set (desired dets) \<subseteq> set dets"
    by (auto simp: desired_def image_iff)
qed


text \<open>Three tasks of a repository: the first stops conflicting with the second and starts to
  conflict with the third.\<close>

definition demo_peer :: "char \<Rightarrow> string" where
  "demo_peer c = ''00000000-0000-4000-8000-00000000000'' @ [c]"

definition demo_peers :: db where
  "demo_peers = demo_issue\<lparr>tasks :=
     map (\<lambda>c. demo_issue_task\<lparr>t_ID := demo_peer c\<rparr>) [CHR ''1'', CHR ''2'', CHR ''3'']\<rparr>"

definition demo_detection :: "char \<Rightarrow> Detection" where
  "demo_detection c = \<lparr>det_OtherTaskID = demo_peer c, det_OtherTaskTitle = ''t'',
     det_Kinds = [KindFileOverlap], det_Files = [''a.go''], det_SemanticSeverity = [],
     det_SemanticExplanation = [], det_SemanticEvidence = []\<rparr>"

definition demo_conflicts :: "ConflictRow list" where
  "demo_conflicts =
     [detection_row (demo_env 1) ''x'' demo_repo (demo_peer (CHR ''1'')) (demo_detection (CHR ''2'')),
      detection_row (demo_env 1) ''y'' demo_repo (demo_peer (CHR ''2'')) (demo_detection (CHR ''3''))]"

lemma demo_reconcile_ok: "is_ok (Reconcile (demo_env 2) demo_repo (demo_peer (CHR ''1''))
    [demo_detection (CHR ''3'')] demo_peers demo_conflicts)"
  by code_simp

lemma demo_conflicts_ok: "conflicts_ok demo_conflicts"
  by code_simp


section \<open>Overlap\<close>

lemma shared_paths_set: "set (shared_paths A fs) = A \<inter> set fs"
  by (induction A fs rule: shared_paths.induct) auto

lemma shared_paths_distinct: "distinct (shared_paths A fs)"
  by (induction A fs rule: shared_paths.induct) (simp_all add: shared_paths_set)

lemma sort_distinct_eq:
  assumes "set xs = set ys" and "distinct xs" and "distinct ys"
  shows "sort xs = sort (ys :: string list)"
  using assms by (intro sorted_distinct_set_unique) simp_all

lemma intersect_commute: "intersect a b = intersect b a"
  unfolding intersect_def
  by (rule sort_distinct_eq) (auto simp: shared_paths_set shared_paths_distinct)

lemma rangesAdjacent_commute: "rangesAdjacent a b = rangesAdjacent b a"
  by (auto simp: rangesAdjacent_def list_ex_iff ranges_close_def)

text \<open>
  Overlap does not depend on who asks: two change sets overlap in the same ways and in the
  same files in either order, whatever their files and hunks are, so the two tasks of a pair record
  the same conflict.
\<close>

theorem overlap_symmetric: "Overlap a b = Overlap b a"
proof -
  have adjacent: "(\<lambda>f. rangesAdjacent (cs_Hunks a f) (cs_Hunks b f)) =
      (\<lambda>f. rangesAdjacent (cs_Hunks b f) (cs_Hunks a f))"
    by (auto simp: rangesAdjacent_commute)
  show ?thesis
    unfolding Overlap_def Let_def intersect_commute [of "cs_Files a"] adjacent
    by (auto intro!: sort_distinct_eq)
qed

end
