(* ===== verification/RunnerHost.thy ===== *)
theory RunnerHost
  imports Executor
begin

text \<open>
  \<open>internal/runner/host.go\<close>: a runner process. It registers, claims attempts and executes them
  one after the other until its context ends, it has executed its cap or idled long enough, and
  goes offline; a second goroutine beats its heart and reports runners that stopped beating. The
  two meet in the database only, so the steps of either are among the others' steps of the other.
\<close>

section \<open>The surroundings of a host\<close>

text \<open>The rows other transactions have locked, and whether the host's own context has ended.\<close>

record host_host = runner_host +
  y_locked :: "nat \<Rightarrow> string \<Rightarrow> bool"
  y_stopped :: "nat \<Rightarrow> bool"

text \<open>\<open>Host\<close>; the zero values of \<open>MaxTasks\<close> and \<open>IdleExit\<close> are no limit.\<close>

record Host =
  ho_RunnerType :: string
  ho_HostnameOrPod :: string
  ho_AttemptID :: string
  ho_Lease :: time
  ho_LostAfter :: time
  ho_MaxTasks :: int
  ho_IdleExit :: time
  ho_Executor :: executor

definition stopped :: "('m) host_host_scheme \<Rightarrow> bool action" where
  "stopped H = (\<lambda>w. (Inr (y_stopped H (w_ops w)), w))"

section \<open>The runner store\<close>

definition op_Register :: "('m) host_scheme \<Rightarrow> RegisterParams \<Rightarrow> Runner action" where
  "op_Register H p = db_write H (DbRegister (reg_HostnameOrPod p)) (\<lambda>E. Register E p)"

definition op_MarkOffline :: "('m) host_scheme \<Rightarrow> string \<Rightarrow> unit action" where
  "op_MarkOffline H rid = db_write H (DbMarkOffline rid) (unit_op (\<lambda>E. MarkOffline E rid))"

definition op_Heartbeat :: "('m) host_scheme \<Rightarrow> string \<Rightarrow> unit action" where
  "op_Heartbeat H rid = db_write H (DbHeartbeat rid) (unit_op (\<lambda>E. Heartbeat E rid))"

definition op_MarkLost :: "('m) host_scheme \<Rightarrow> time \<Rightarrow> Runner list action" where
  "op_MarkLost H threshold = db_write H DbMarkLost (\<lambda>E. MarkLost E threshold)"

definition op_LeasedAttemptIDs :: "('m) host_scheme \<Rightarrow> string \<Rightarrow> string list action" where
  "op_LeasedAttemptIDs H rid = db_read H (\<lambda>E. LeasedAttemptIDs E rid)"

definition op_ClaimNext :: "('m) host_host_scheme \<Rightarrow> string \<Rightarrow> time \<Rightarrow> Claim option action" where
  "op_ClaimNext H rid dur = (\<lambda>w.
     db_write H (DbClaim rid) (\<lambda>E. ClaimNext E (y_locked H (w_ops w)) rid dur) w)"

definition op_ClaimAttempt ::
  "('m) host_host_scheme \<Rightarrow> string \<Rightarrow> string \<Rightarrow> time \<Rightarrow> Claim option action" where
  "op_ClaimAttempt H rid aid dur = (\<lambda>w.
     db_write H (DbClaim rid) (\<lambda>E. ClaimAttempt E (y_locked H (w_ops w)) rid aid dur) w)"

section \<open>Executing\<close>

definition host_claim :: "('m) host_host_scheme \<Rightarrow> Host \<Rightarrow> string \<Rightarrow> Claim option action" where
  "host_claim H h rid =
     (if ho_AttemptID h = [] then op_ClaimNext H rid (ho_Lease h)
      else op_ClaimAttempt H rid (ho_AttemptID h) (ho_Lease h))"

text \<open>
  The loop of \<open>Run\<close>: the number of attempts executed when it ends, or \<open>None\<close> when it has not ended
  within \<open>n\<close> rounds. An error of an execution is only logged.
\<close>

fun host_loop :: "('m) host_host_scheme \<Rightarrow> Host \<Rightarrow> string \<Rightarrow> nat \<Rightarrow> int \<Rightarrow> time \<Rightarrow> int option action" where
  "host_loop H h rid 0 executed idleSince = ret None"
| "host_loop H h rid (Suc n) executed idleSince =
     abind (stopped H) (\<lambda>ended.
     if ended then ret (Some executed)
     else
     abind (atry (host_claim H h rid)) (\<lambda>r.
     case r of
       Inl e \<Rightarrow>
         abind (stopped H) (\<lambda>ended.
         if ended then ret (Some executed) else host_loop H h rid n executed idleSince)
     | Inr None \<Rightarrow>
         if ho_AttemptID h \<noteq> [] then ret (Some executed)
         else
         abind (time_now H) (\<lambda>now.
         if 0 < ho_IdleExit h \<and> ho_IdleExit h \<le> now - idleSince then ret (Some executed)
         else host_loop H h rid n executed idleSince)
     | Inr (Some c) \<Rightarrow>
         abind (time_now H) (\<lambda>now.
         aseq (atry (Execute H ((ho_Executor h)\<lparr>ec_RunnerID := rid\<rparr>) c)) (
         if 0 < ho_MaxTasks h \<and> ho_MaxTasks h \<le> executed + 1 then ret (Some (executed + 1))
         else host_loop H h rid n (executed + 1) now))))"

text \<open>\<open>Run\<close>, with at most \<open>n\<close> rounds of the loop.\<close>

definition host_run :: "('m) host_host_scheme \<Rightarrow> Host \<Rightarrow> nat \<Rightarrow> int option action" where
  "host_run H h n =
     abind (op_Register H \<lparr>reg_Type = ho_RunnerType h, reg_HostnameOrPod = ho_HostnameOrPod h,
       reg_Capacity = 0, reg_Labels = []\<rparr>) (\<lambda>self.
     abind (time_now H) (\<lambda>now.
     abind (host_loop H h (r_ID self) n 0 now) (\<lambda>executed.
     case executed of
       None \<Rightarrow> ret None
     | Some k \<Rightarrow> aseq (op_MarkOffline H (r_ID self)) (ret (Some k)))))"

section \<open>Heartbeats\<close>

definition lost_payload :: "Runner \<Rightarrow> json" where
  "lost_payload r = JObj [(''hostname_or_pod'', jtext (r_HostnameOrPod r)),
     (''last_heartbeat_at'', jtext (rfc3339 (r_LastHeartbeatAt r))), (''runner_id'', jtext (r_ID r))]"

definition reportLoss :: "('m) host_scheme \<Rightarrow> Runner \<Rightarrow> unit action" where
  "reportLoss H r =
     abind (atry (op_LeasedAttemptIDs H (r_ID r))) (\<lambda>res.
     case res of
       Inl e \<Rightarrow> ret ()
     | Inr ids \<Rightarrow> foreach ids (\<lambda>aid. best_effort
         (op_AppendAttemptEvent H aid ''runner.lost'' ''system'' (lost_payload r))))"

text \<open>One tick of \<open>beatAndReap\<close>.\<close>

definition beat_tick :: "('m) host_scheme \<Rightarrow> Host \<Rightarrow> string \<Rightarrow> unit action" where
  "beat_tick H h rid =
     aseq (best_effort (op_Heartbeat H rid)) (
     abind (atry (op_MarkLost H (ho_LostAfter h))) (\<lambda>res.
     case res of
       Inl e \<Rightarrow> ret ()
     | Inr lost \<Rightarrow> foreach lost (reportLoss H)))"

end
