(* ===== verification/HostProps.thy ===== *)
theory HostProps
  imports ExecutorProps RunnerHost
begin

text \<open>
  What a runner process does with the attempts it claims: between its registration and its going
  offline there is nothing but claims and, after each that found an attempt, the execution of it.
\<close>

section \<open>Claims of a host\<close>

text \<open>A claim the host's runner got from a database the platform reaches from \<open>d0\<close>.\<close>

definition claimed :: "Host \<Rightarrow> string \<Rightarrow> db \<Rightarrow> Claim \<Rightarrow> bool" where
  "claimed h rid d0 c \<longleftrightarrow> (\<exists>E locked d d'. platform_step\<^sup>*\<^sup>* d0 d \<and>
     claim E locked rid (ho_Lease h) (ho_AttemptID h) d = Inr (Some c, d'))"

lemma claimed_later: "claimed h rid d1 c \<Longrightarrow> platform_step\<^sup>*\<^sup>* d0 d1 \<Longrightarrow> claimed h rid d0 c"
  unfolding claimed_def by (meson rtranclp_trans)

lemma claimed_facts:
  assumes "claimed h rid d0 c"
  shows "k_TaskStatus c \<in> drive_statuses"
    and "ho_AttemptID h \<noteq> [] \<longrightarrow> k_AttemptID c = pg_uuid (ho_AttemptID h)"
proof -
  obtain E locked d d' where C: "claim E locked rid (ho_Lease h) (ho_AttemptID h) d = Inr (Some c, d')"
    using assms by (auto simp: claimed_def)
  then show "k_TaskStatus c \<in> drive_statuses"
    by (rule claim_InrE) (auto simp: dispatchable_rows_def claimable_def claim_of_def)
  from C show "ho_AttemptID h \<noteq> [] \<longrightarrow> k_AttemptID c = pg_uuid (ho_AttemptID h)"
    by (rule claim_InrE) (auto simp: claim_of_def)
qed

abbreviation host_executor :: "Host \<Rightarrow> string \<Rightarrow> executor" where
  "host_executor h rid \<equiv> (ho_Executor h)\<lparr>ec_RunnerID := rid\<rparr>"

text \<open>
  \<open>serving h rid d0 es k\<close>: the effects \<open>es\<close> are those of claims and of \<open>k\<close> executions, each of
  an attempt claimed just before it.
\<close>

inductive serving :: "Host \<Rightarrow> string \<Rightarrow> db \<Rightarrow> effect list \<Rightarrow> nat \<Rightarrow> bool" where
  done_serving: "serving h rid d0 [] 0"
| idle: "serving h rid d0 es k \<Longrightarrow> serving h rid d0 (DbClaim rid # es) k"
| served: "claimed h rid d0 c \<Longrightarrow> list_all (own_effect (host_executor h rid) c) vs \<Longrightarrow> fenced vs \<Longrightarrow>
    walk (Some (k_TaskStatus c)) (targets vs) \<noteq> None \<Longrightarrow> serving h rid d0 es k \<Longrightarrow>
    serving h rid d0 (DbClaim rid # vs @ es) (Suc k)"

lemma serving_later: "serving h rid d1 es k \<Longrightarrow> platform_step\<^sup>*\<^sup>* d0 d1 \<Longrightarrow> serving h rid d0 es k"
  by (induction rule: serving.induct) (auto intro: serving.intros claimed_later)

lemma serving_pinned:
  assumes "serving h rid d0 es k" and "ho_AttemptID h \<noteq> []" and "e \<in> set es" and "e \<noteq> DbClaim rid"
  shows "\<exists>c. k_AttemptID c = pg_uuid (ho_AttemptID h) \<and> own_effect (host_executor h rid) c e"
  using assms
  by (induction rule: serving.induct) (auto simp: list_all_iff dest: claimed_facts(2))

section \<open>The loop\<close>

lemma host_claim_result:
  assumes "others_ok H" and "host_claim H h rid w = (r, w')"
  shows "w_log w' = w_log w @ [DbClaim rid]" and "platform_step\<^sup>*\<^sup>* (w_db w) (w_db w')"
    and "r = Inr (Some c) \<Longrightarrow> claimed h rid (w_db w) c"
proof -
  let ?E = "h_env H (w_ops w)" and ?d = "h_others H (w_ops w) (w_db w)"
  have others: "platform_step\<^sup>*\<^sup>* (w_db w) ?d" using assms(1) by (simp add: others_ok_def)
  note run = assms(2) [unfolded host_claim_def op_ClaimNext_def op_ClaimAttempt_def db_write_def Let_def]
  show "w_log w' = w_log w @ [DbClaim rid]" using run by (auto split: if_splits sum.splits prod.splits)
  have "w_db w' = ?d \<or> platform_step ?d (w_db w')"
  proof (cases "ho_AttemptID h = []")
    case True
    then show ?thesis using run
      by (auto split: sum.splits prod.splits intro: platform_step.claim_next)
  next
    case False
    then show ?thesis using run
      by (auto split: sum.splits prod.splits intro: platform_step.claim_attempt)
  qed
  then show "platform_step\<^sup>*\<^sup>* (w_db w) (w_db w')" using others by (auto intro: rtranclp.rtrancl_into_rtrancl)
  show "claimed h rid (w_db w) c" if "r = Inr (Some c)"
  proof -
    have "\<exists>d'. claim ?E (y_locked H (w_ops w)) rid (ho_Lease h) (ho_AttemptID h) ?d = Inr (Some c, d')"
      using run that
      by (auto simp: ClaimNext_def ClaimAttempt_def split: if_splits sum.splits prod.splits)
    then show ?thesis using others unfolding claimed_def by blast
  qed
qed

definition loop_result ::
  "Host \<Rightarrow> string \<Rightarrow> int \<Rightarrow> world \<Rightarrow> (err + int option) \<times> world \<Rightarrow> bool" where
  "loop_result h rid executed w out = (case out of (r, w') \<Rightarrow>
     platform_step\<^sup>*\<^sup>* (w_db w) (w_db w') \<and> (\<exists>es k. w_log w' = w_log w @ es \<and>
       serving h rid (w_db w) es k \<and> (0 < ho_MaxTasks h \<longrightarrow> executed + int k \<le> ho_MaxTasks h) \<and>
       (\<forall>j. r = Inr (Some j) \<longrightarrow> j = executed + int k)))"

lemma loop_result_stop:
  assumes "0 < ho_MaxTasks h \<longrightarrow> executed \<le> ho_MaxTasks h" and "r = Inr None \<or> r = Inr (Some executed)"
  shows "loop_result h rid executed w (r, w)"
  using assms unfolding loop_result_def by (auto intro!: exI [of _ "0::nat"] serving.intros)

lemma loop_result_idle:
  assumes "w_log w1 = w_log w @ [DbClaim rid]" and "platform_step\<^sup>*\<^sup>* (w_db w) (w_db w1)"
    and "loop_result h rid executed w1 out"
  shows "loop_result h rid executed w out"
proof -
  obtain r w' es k where out: "out = (r, w')" and p: "platform_step\<^sup>*\<^sup>* (w_db w1) (w_db w')"
    and l: "w_log w' = w_log w1 @ es" "serving h rid (w_db w1) es k"
    and m: "0 < ho_MaxTasks h \<longrightarrow> executed + int k \<le> ho_MaxTasks h"
      "\<forall>j. r = Inr (Some j) \<longrightarrow> j = executed + int k"
    using assms(3) unfolding loop_result_def by (cases out) auto
  have "serving h rid (w_db w) (DbClaim rid # es) k"
    using serving_later [OF l(2) assms(2)] by (rule serving.idle)
  moreover have "w_log w' = w_log w @ DbClaim rid # es" using l(1) assms(1) by simp
  ultimately show ?thesis
    unfolding loop_result_def out using rtranclp_trans [OF assms(2) p] m by auto
qed

text \<open>After a claim: the execution, and what follows it.\<close>

lemma loop_result_served:
  assumes "others_ok H" and log: "w_log w1 = w_log w @ [DbClaim rid]"
    and step: "platform_step\<^sup>*\<^sup>* (w_db w) (w_db w1)" and c: "claimed h rid (w_db w) c"
    and run: "Execute H (host_executor h rid) c w1 = (x, w2)"
    and rest: "loop_result h rid (executed + 1) w2 out"
  shows "loop_result h rid executed w out"
proof (rule ExecuteE [OF assms(1) claimed_facts(1) [OF c] run])
  fix vs s' assume p1: "platform_step\<^sup>*\<^sup>* (w_db w1) (w_db w2)" and l1: "w_log w2 = w_log w1 @ vs"
    and own: "list_all (own_effect (host_executor h rid) c) vs" "fenced vs"
      "walk (Some (k_TaskStatus c)) (targets vs) = Some s'"
  obtain r w' es k where out: "out = (r, w')" and p: "platform_step\<^sup>*\<^sup>* (w_db w2) (w_db w')"
    and l: "w_log w' = w_log w2 @ es" "serving h rid (w_db w2) es k"
    and m: "0 < ho_MaxTasks h \<longrightarrow> executed + 1 + int k \<le> ho_MaxTasks h"
      "\<forall>j. r = Inr (Some j) \<longrightarrow> j = executed + 1 + int k"
    using rest unfolding loop_result_def by (cases out) auto
  have p2: "platform_step\<^sup>*\<^sup>* (w_db w) (w_db w2)" using step p1 by (rule rtranclp_trans)
  have "serving h rid (w_db w) (DbClaim rid # vs @ es) (Suc k)"
    using c own by (intro serving.served serving_later [OF l(2) p2]) auto
  moreover have "w_log w' = w_log w @ DbClaim rid # vs @ es" using l(1) l1 log by simp
  ultimately show "loop_result h rid executed w out"
    unfolding loop_result_def out using rtranclp_trans [OF p2 p] m by force
qed

lemma stopped_same [simp]: "stopped H w = (Inr (y_stopped H (w_ops w)), w)"
  by (simp add: stopped_def)

lemma host_loop_result:
  assumes "others_ok H"
  shows "0 < ho_MaxTasks h \<longrightarrow> executed < ho_MaxTasks h \<Longrightarrow>
    loop_result h rid executed w (host_loop H h rid n executed since w)"
proof (induction n arbitrary: executed since w)
  case 0
  then show ?case by (auto simp: ret_def intro: loop_result_stop)
next
  case (Suc n)
  have stop: "loop_result h rid executed v (Inr (Some executed), v)" for v
    using Suc.prems by (intro loop_result_stop) auto
  obtain r w1 where C: "host_claim H h rid w = (r, w1)" by (cases "host_claim H h rid w")
  note claim = host_claim_result [OF assms C]
  note idle = loop_result_idle [OF claim(1,2)]
  have panic: "loop_result h rid executed w (Inl e, w1)" for e
    by (rule idle) (use Suc.prems in \<open>auto simp: loop_result_def intro!: exI [of _ "0::nat"] serving.intros\<close>)
  show ?case
  proof (cases "y_stopped H (w_ops w)")
    case True
    then show ?thesis using stop by (simp add: abind_def ret_def)
  next
    case False
    note go = this C
    show ?thesis
    proof (cases r)
      case (Inl e)
      then show ?thesis using go panic stop Suc
        by (auto simp: abind_def atry_def ret_def intro!: idle)
    next
      case (Inr found)
      show ?thesis
      proof (cases found)
        case None
        then show ?thesis using go Inr stop Suc
          by (auto simp: abind_def atry_def ret_def time_now_def intro!: idle)
      next
        case (Some c)
        obtain x w2 where X: "Execute H (host_executor h rid) c w1 = (x, w2)"
          by (cases "Execute H (host_executor h rid) c w1")
        note served = loop_result_served [OF assms claim(1,2) claim(3) [OF Inr [unfolded Some]] X]
        have one: "loop_result h rid (executed + 1) w2 (q, w2)"
          if "\<And>j. q = Inr (Some j) \<Longrightarrow> j = executed + 1" for q
          using Suc.prems that by (auto simp: loop_result_def intro!: exI [of _ "0::nat"] serving.intros)
        show ?thesis using go Inr Some X Suc one
          by (auto simp: abind_def atry_def ret_def time_now_def split: sum.splits intro!: served one)
      qed
    qed
  qed
qed

section \<open>A run of the host\<close>

lemma op_Register_result:
  assumes "others_ok H" and "op_Register H p w = (x, w1)"
  shows "w_log w1 = w_log w @ [DbRegister (reg_HostnameOrPod p)]"
    and "platform_step\<^sup>*\<^sup>* (w_db w) (w_db w1)"
proof -
  have "runs (\<lambda>e. e = DbRegister (reg_HostnameOrPod p)) (op_Register H p)"
    unfolding op_Register_def by (auto intro!: runs_intros assms(1) platform_step.register)
  from runsD(1) [OF this assms(2)] show "platform_step\<^sup>*\<^sup>* (w_db w) (w_db w1)" .
  show "w_log w1 = w_log w @ [DbRegister (reg_HostnameOrPod p)]"
    using assms(2) by (auto simp: op_Register_def db_write_def Let_def split: sum.splits prod.splits)
qed

lemma op_MarkOffline_result:
  assumes "others_ok H" and "op_MarkOffline H rid w = (x, w1)"
  shows "w_log w1 = w_log w @ [DbMarkOffline rid]" and "platform_step\<^sup>*\<^sup>* (w_db w) (w_db w1)"
proof -
  have "runs (\<lambda>e. e = DbMarkOffline rid) (op_MarkOffline H rid)"
    unfolding op_MarkOffline_def
    by (auto simp: unit_op_Inr intro!: runs_intros assms(1) platform_step.mark_offline)
  from runsD(1) [OF this assms(2)] show "platform_step\<^sup>*\<^sup>* (w_db w) (w_db w1)" .
  show "w_log w1 = w_log w @ [DbMarkOffline rid]"
    using assms(2) by (auto simp: op_MarkOffline_def db_write_def Let_def split: sum.splits prod.splits)
qed

text \<open>
  C7. A runner process does nothing but serve its claims: whatever the database, GitHub, git, the
  agent and the other processes answer, what it asks for between its registration and its going
  offline is claims and, directly after a claim that found an attempt, the effects of executing
  that attempt, fenced and along the task state machine; it never starts more attempts than its
  cap, a process pinned to one attempt touches only that attempt, and a run that ends without an
  error goes offline last.
\<close>

theorem host_serves_claims:
  assumes "others_ok H" and "host_run H h n w = (r, w')"
  shows "platform_step\<^sup>*\<^sup>* (w_db w) (w_db w') \<and>
    (\<exists>rid es k off. w_log w' = w_log w @ DbRegister (ho_HostnameOrPod h) # es @ off \<and>
      serving h rid (w_db w) es k \<and> (0 < ho_MaxTasks h \<longrightarrow> int k \<le> ho_MaxTasks h) \<and>
      (ho_AttemptID h \<noteq> [] \<longrightarrow> (\<forall>e\<in>set es. e = DbClaim rid \<or>
        (\<exists>c. k_AttemptID c = pg_uuid (ho_AttemptID h) \<and> own_effect (host_executor h rid) c e))) \<and>
      (off = [] \<or> off = [DbMarkOffline rid]) \<and>
      (\<forall>j. r = Inr (Some j) \<longrightarrow> j = int k \<and> off = [DbMarkOffline rid]))"
proof -
  let ?reg = "\<lparr>reg_Type = ho_RunnerType h, reg_HostnameOrPod = ho_HostnameOrPod h,
       reg_Capacity = 0, reg_Labels = []\<rparr>"
  obtain x w1 where R: "op_Register H ?reg w = (x, w1)" by (cases "op_Register H ?reg w")
  note reg = op_Register_result [OF assms(1) R]
  show ?thesis
  proof (cases x)
    case (Inl e)
    then have "w' = w1" "r = Inl e" using assms(2) R by (auto simp: host_run_def abind_def)
    then show ?thesis using reg by (auto intro!: exI [of _ "0::nat"] exI [of _ "[] :: effect list"] done_serving)
  next
    case (Inr self)
    let ?rid = "r_ID self" and ?now = "env_now (h_env H (w_ops w1))"
    obtain y w2 where L: "host_loop H h ?rid n 0 ?now w1 = (y, w2)"
      by (cases "host_loop H h ?rid n 0 ?now w1")
    have "loop_result h ?rid 0 w1 (y, w2)"
      using host_loop_result [OF assms(1), of h 0 ?rid w1 n ?now] L by simp
    then obtain es k where p: "platform_step\<^sup>*\<^sup>* (w_db w1) (w_db w2)" and l: "w_log w2 = w_log w1 @ es"
      and s1: "serving h ?rid (w_db w1) es k" and m: "0 < ho_MaxTasks h \<longrightarrow> int k \<le> ho_MaxTasks h"
      and j: "\<And>j. y = Inr (Some j) \<Longrightarrow> j = int k"
      by (auto simp: loop_result_def)
    note s = serving_later [OF s1 reg(2)]
    have go: "host_run H h n w = (case y of Inl e \<Rightarrow> (Inl e, w2) | Inr None \<Rightarrow> (Inr None, w2)
      | Inr (Some i) \<Rightarrow> aseq (op_MarkOffline H ?rid) (ret (Some i)) w2)"
      by (simp add: host_run_def abind_def time_now_def ret_def R Inr L split: sum.splits option.splits)
    obtain z w3 where O: "op_MarkOffline H ?rid w2 = (z, w3)" by (cases "op_MarkOffline H ?rid w2")
    note off = op_MarkOffline_result [OF assms(1) O]
    have pinned: "ho_AttemptID h \<noteq> [] \<longrightarrow> (\<forall>e\<in>set es. e = DbClaim ?rid \<or>
        (\<exists>c. k_AttemptID c = pg_uuid (ho_AttemptID h) \<and> own_effect (host_executor h ?rid) c e))"
      using serving_pinned [OF s] by blast
    show ?thesis
    proof (cases "\<exists>i. y = Inr (Some i)")
      case True
      then obtain i where i: "y = Inr (Some i)" by blast
      have "host_run H h n w = (case z of Inl e \<Rightarrow> (Inl e, w3) | Inr _ \<Rightarrow> (Inr (Some i), w3))"
        unfolding go i by (simp add: abind_def ret_def O)
      then have "w' = w3" and "\<forall>i. r = Inr (Some i) \<longrightarrow> i = int k"
        using assms(2) j [OF i] by (cases z; simp)+
      moreover have "platform_step\<^sup>*\<^sup>* (w_db w) (w_db w3)"
        using rtranclp_trans [OF reg(2) rtranclp_trans [OF p off(2)]] .
      moreover have "w_log w3 = w_log w @ DbRegister (ho_HostnameOrPod h) # es @ [DbMarkOffline ?rid]"
        using l reg(1) off(1) by simp
      ultimately show ?thesis using s m pinned by blast
    next
      case False
      then have "w' = w2" "\<forall>i. r \<noteq> Inr (Some i)"
        using assms(2) go by (cases y; cases "projr y"; auto)+
      moreover have "platform_step\<^sup>*\<^sup>* (w_db w) (w_db w2)" using rtranclp_trans [OF reg(2) p] .
      moreover have "w_log w2 = w_log w @ DbRegister (ho_HostnameOrPod h) # es @ []"
        using l reg(1) by simp
      ultimately show ?thesis using s m pinned by blast
    qed
  qed
qed

definition demo_host_host :: host_host where
  "demo_host_host = runner_host.extend demo_runner_host
     (host_host.fields (\<lambda>k aid. False) (\<lambda>k. 20 < k))"

definition demo_process :: Host where
  "demo_process = \<lparr>ho_RunnerType = ''kubernetes'', ho_HostnameOrPod = ''pod'', ho_AttemptID = demo_tid,
     ho_Lease = 60, ho_LostAfter = 60, ho_MaxTasks = 1, ho_IdleExit = 0, ho_Executor = demo_executor\<rparr>"

theorem host_serves_claims_witness:
  "\<exists>r w' rid es k off. host_run demo_host_host demo_process 3 (demo_world (demo_leased 0)) = (r, w')
    \<and> w_log w' = DbRegister ''pod'' # es @ off \<and> serving demo_process rid (demo_leased 0) es k \<and> int k \<le> 1"
proof -
  obtain r w' where run: "host_run demo_host_host demo_process 3 (demo_world (demo_leased 0)) = (r, w')"
    by (cases "host_run demo_host_host demo_process 3 (demo_world (demo_leased 0))")
  have "others_ok demo_host_host"
    by (simp add: others_ok_def demo_host_host_def demo_runner_host_def runner_host.defs)
  from host_serves_claims [OF this run] run show ?thesis
    by (auto simp: demo_process_def demo_world_def)
qed

end
