(* ===== verification/GoReplace.thy ===== *)
theory GoReplace
  imports GoText
begin

text \<open>\<open>strings.ReplaceAll\<close>, and when it leaves nothing of what it replaces.\<close>

text \<open>\<open>strings.ReplaceAll\<close> of a non-empty text.\<close>

function replace_all :: "string \<Rightarrow> string \<Rightarrow> string \<Rightarrow> string" where
  "replace_all old new s =
     (if s = [] then []
      else if old \<noteq> [] \<and> HasPrefix s old then new @ replace_all old new (drop (length old) s)
      else hd s # replace_all old new (tl s))"
  by pat_completeness auto
termination
  by (relation "measure (\<lambda>(old, new, s). length s)") (auto simp: neq_Nil_conv)

declare replace_all.simps [simp del]

lemma replace_all_cases:
  "replace_all old new [] = []"
  "old \<noteq> [] \<Longrightarrow> HasPrefix s old \<Longrightarrow> replace_all old new s = new @ replace_all old new (drop (length old) s)"
  "\<not> HasPrefix (c # s) old \<Longrightarrow> replace_all old new (c # s) = c # replace_all old new s"
proof -
  show "replace_all old new [] = []" by (subst replace_all.simps) simp
  show "replace_all old new s = new @ replace_all old new (drop (length old) s)"
    if "old \<noteq> []" "HasPrefix s old"
    using that by (subst replace_all.simps) (auto simp: HasPrefix_def)
  show "replace_all old new (c # s) = c # replace_all old new s" if "\<not> HasPrefix (c # s) old"
    using that by (subst replace_all.simps) simp
qed

lemma replace_all_found: "old \<noteq> [] \<Longrightarrow> replace_all old new (old @ s) = new @ replace_all old new s"
  by (simp add: replace_all_cases(2) HasPrefix_def)

section \<open>What is left after replacing\<close>

lemma contains_iff: "contains_string p s \<longleftrightarrow> (\<exists>a b. s = a @ p @ b)"
proof (induction s)
  case (Cons c s)
  have "HasPrefix (c # s) p \<longleftrightarrow> (\<exists>b. c # s = p @ b)"
    unfolding HasPrefix_def by (metis append_eq_conv_conj append_take_drop_id)
  then show ?case using Cons by (auto simp: Cons_eq_append_conv)
qed auto

lemma contains_mono: "contains_string p s \<Longrightarrow> contains_string p (a @ s @ b)"
  unfolding contains_iff by (metis append.assoc)

lemma replace_induct [case_names Nil found skipped]:
  assumes "P []" and "\<And>s. P s \<Longrightarrow> P (old @ s)"
    and "\<And>c s. \<not> HasPrefix (c # s) old \<Longrightarrow> P s \<Longrightarrow> P (c # s)" and "old \<noteq> []"
  shows "P s"
proof (induction s rule: length_induct)
  case (1 s)
  show ?case
  proof (cases "HasPrefix s old")
    case True
    then have s: "s = old @ drop (length old) s" unfolding HasPrefix_def by (metis append_take_drop_id)
    then have "length (drop (length old) s) < length s"
      using assms(4) by (metis length_0_conv length_append less_add_same_cancel2 neq0_conv)
    with 1 have "P (drop (length old) s)" by blast
    then show ?thesis using assms(2) s by metis
  next
    case False
    with 1 assms(1,3) show ?thesis by (cases s) auto
  qed
qed

lemma HasPrefix_Cons: "HasPrefix (c # s) p \<longleftrightarrow> p = [] \<or> hd p = c \<and> HasPrefix s (tl p)"
  by (cases p) (auto simp: HasPrefix_def)

text \<open>A prefix that shares no byte with the replacement was there before.\<close>

lemma replaced_prefix:
  assumes "old \<noteq> []" and "new \<noteq> []" and "set new \<inter> set p = {}"
    and "HasPrefix (replace_all old new s) p"
  shows "HasPrefix s p"
  using assms(3,4)
proof (induction s arbitrary: p rule: replace_induct [where old = old])
  case (found s)
  then have "HasPrefix (new @ replace_all old new s) p" using assms(1) by (simp add: replace_all_found)
  moreover obtain c cs where "new = c # cs" using assms(2) by (cases new) auto
  ultimately have "p = []" using found.prems(1) by (cases p) (auto simp: HasPrefix_def)
  then show ?case by (simp add: HasPrefix_def)
next
  case (skipped c s)
  have "set new \<inter> set (tl p) = {}" using skipped.prems(1) by (cases p) auto
  with skipped show ?case by (auto simp: replace_all_cases HasPrefix_Cons)
qed (auto simp: replace_all_cases assms(1))

lemma contains_prepend:
  "p \<noteq> [] \<Longrightarrow> set p \<inter> set q = {} \<Longrightarrow> contains_string p (q @ s) \<longleftrightarrow> contains_string p s"
  by (induction q) (auto simp: HasPrefix_Cons neq_Nil_conv)

lemma replaced_contains:
  assumes "old \<noteq> []" and "new \<noteq> []" and "set new \<inter> set p = {}" and "p \<noteq> []"
    and "contains_string p (replace_all old new s)"
  shows "contains_string p s \<and> p \<noteq> old"
  using assms(5)
proof (induction s rule: replace_induct [where old = old])
  case Nil
  then show ?case using assms(4) by (simp add: replace_all_cases)
next
  case (found s)
  then have "contains_string p (replace_all old new s)"
    using assms(1,3,4) by (simp add: replace_all_found contains_prepend Int_commute)
  with found.IH show ?case using contains_mono [of p s old "[]"] by simp
next
  case (skipped c s)
  then have "HasPrefix (replace_all old new (c # s)) p \<or> contains_string p (replace_all old new s)"
    by (simp add: replace_all_cases)
  then show ?case
  proof
    assume "HasPrefix (replace_all old new (c # s)) p"
    then have "HasPrefix (c # s) p" by (rule replaced_prefix [OF assms(1-3)])
    with skipped(1) show ?thesis by auto
  next
    assume "contains_string p (replace_all old new s)"
    with skipped(2) show ?thesis by simp
  qed
qed (rule assms(1))

end
