(* ===== verification/Kubernetes.thy ===== *)
theory Kubernetes
  imports RunnerHost GoReplace
begin

text \<open>
  \<open>internal/runner/kubernetes_backend.go\<close>: one Job per dispatchable attempt, and an event for each
  state a Job is seen in. The Kubernetes API, the YAML parser and the order in which Go ranges over
  a map are parameters; the map of states already seen is passed along, since it survives errors.
\<close>

section \<open>Jobs\<close>

record JobCondition =
  jc_Type :: string
  jc_Status :: string
  jc_Reason :: string

text \<open>The parts of a \<open>batch/v1\<close> Job the backend reads; no label is the empty string.\<close>

record Job =
  j_Name :: string
  j_Namespace :: string
  j_AttemptID :: string
  j_Conditions :: "JobCondition list"
  j_Active :: int

datatype create_answer = JobCreated string | JobAlreadyExists | JobRefused err

datatype delete_answer = JobDeleted | JobNotFound | JobNotDeleted err

text \<open>What a watch delivers until it ends; an object that is no Job is passed over.\<close>

datatype watch_event = WatchJob Job | WatchOther | WatchError

record k8s_host = host +
  z_list :: "nat \<Rightarrow> err + Job list"
  z_create :: "nat \<Rightarrow> Job \<Rightarrow> create_answer"
  z_delete :: "nat \<Rightarrow> string \<Rightarrow> delete_answer"
  z_watch :: "nat \<Rightarrow> err + watch_event list"
  z_decode_job :: "string \<Rightarrow> err + Job"
  z_range :: "nat \<Rightarrow> nat list"
  z_stopped :: "nat \<Rightarrow> bool"

record KubernetesBackend =
  kb_Template :: string
  kb_Namespace :: string
  kb_RunnerImage :: string
  kb_JobTTL :: time
  kb_DefaultRuntime :: time
  kb_Poll :: time
  kb_WorkerIdleExit :: time
  kb_AgentProvider :: string
  kb_AgentCLIPath :: string
  kb_AgentModel :: string
  kb_PermissionMode :: string
  kb_AgentCLIVersion :: string
  kb_ConflictLLMEnabled :: bool
  kb_ConflictLLMProvider :: string
  kb_ConflictLLMModel :: string
  kb_OTLPEndpoint :: string
  kb_GitHubAPIBase :: string

text \<open>\<open>validate\<close>; the client, the stores and the logger are there.\<close>

definition validate_backend :: "KubernetesBackend \<Rightarrow> err + unit" where
  "validate_backend B =
     (if kb_Template B = [] then Inl (Msg ''kubernetes backend requires a Job template'')
      else if kb_Namespace B = [] then Inl (Msg ''kubernetes backend requires a namespace'')
      else if kb_RunnerImage B = [] then Inl (Msg ''kubernetes backend requires a runner image'')
      else if kb_JobTTL B \<le> 0 \<or> kb_DefaultRuntime B \<le> 0 \<or> kb_Poll B \<le> 0 then
        Inl (Msg ''kubernetes backend durations must be positive'')
      else Inr ())"

section \<open>The state of a Job\<close>

fun condition_state :: "JobCondition list \<Rightarrow> (string \<times> string) option" where
  "condition_state [] = None"
| "condition_state (c # cs) =
     (if jc_Status c \<noteq> ''True'' then condition_state cs
      else if jc_Type c = ''Complete'' then Some (''completed'', jc_Reason c)
      else if jc_Type c = ''Failed'' then Some (''failed'', jc_Reason c)
      else condition_state cs)"

definition jobState :: "Job \<Rightarrow> string \<times> string" where
  "jobState j =
     (case condition_state (j_Conditions j) of
        Some s \<Rightarrow> s
      | None \<Rightarrow> if 0 < j_Active j then (''running'', []) else (''pending'', []))"

type_synonym seen = "string \<Rightarrow> string option"

definition job_payload :: "Job \<Rightarrow> string \<Rightarrow> string \<Rightarrow> json" where
  "job_payload j state reason = JObj ([(''job'', jtext (j_Name j))]
     @ (if reason = [] then [] else [(''reason'', jtext reason)]) @ [(''status'', jtext state)])"

definition delete_job :: "('m) k8s_host_scheme \<Rightarrow> string \<Rightarrow> delete_answer action" where
  "delete_job K name = call (JobDelete name) (\<lambda>k. Inr (z_delete K k name))"

definition observe :: "('m) k8s_host_scheme \<Rightarrow> seen \<Rightarrow> Job \<Rightarrow> seen action" where
  "observe K seen j =
     (case jobState j of (state, reason) \<Rightarrow>
      if state = ''pending'' \<or> seen (j_Name j) = Some state then ret seen
      else let seen' = seen(j_Name j \<mapsto> state) in
      if j_AttemptID j = [] then ret seen'
      else
      aseq (best_effort (op_AppendAttemptEvent K (j_AttemptID j) (''runner.job_'' @ state) ''system''
        (job_payload j state reason))) (
      if state = ''failed'' then aseq (delete_job K (j_Name j)) (ret seen') else ret seen'))"

fun observe_all :: "('m) k8s_host_scheme \<Rightarrow> seen \<Rightarrow> Job list \<Rightarrow> seen action" where
  "observe_all K seen [] = ret seen"
| "observe_all K seen (j # js) = abind (observe K seen j) (\<lambda>seen'. observe_all K seen' js)"

section \<open>The Job of an attempt\<close>

definition jobName :: "(string \<Rightarrow> string) \<Rightarrow> string \<Rightarrow> string" where
  "jobName low aid = ''agent-trail-'' @ ToLower low aid"

text \<open>The part of a text from the first occurrence of \<open>p\<close> on.\<close>

fun find_text :: "string \<Rightarrow> string \<Rightarrow> string option" where
  "find_text p [] = (if p = [] then Some [] else None)"
| "find_text p (c # cs) = (if HasPrefix (c # cs) p then Some (c # cs) else find_text p cs)"

record templateValue =
  tv_Value :: string
  tv_Numeric :: bool

definition replacement :: "templateValue \<Rightarrow> string" where
  "replacement v = (if tv_Numeric v then tv_Value v else quote (tv_Value v))"

definition placeholder :: "string \<Rightarrow> string" where
  "placeholder key = ''${'' @ key @ ''}''"

fun substitute :: "(string \<times> templateValue) list \<Rightarrow> string \<Rightarrow> string" where
  "substitute [] s = s"
| "substitute ((key, v) # vs) s = substitute vs (replace_all (placeholder key) (replacement v) s)"

text \<open>\<open>values\<close> in the order the map is ranged over.\<close>

definition renderJobTemplate :: "string \<Rightarrow> (string \<times> templateValue) list \<Rightarrow> err + string" where
  "renderJobTemplate template values =
     (let rendered = substitute values template in
      case find_text ''${'' rendered of
        None \<Rightarrow> Inr rendered
      | Some rest \<Rightarrow>
          (case find_text ''}'' rest of
             Some after \<Rightarrow> Inl (Msg (''runner Job template variable ''
               @ take (length rest - length after + 1) rest @ '' is unset''))
           | None \<Rightarrow> Inl (Msg ''runner Job template has an unterminated variable'')))"

definition textual :: "string \<Rightarrow> templateValue" where
  "textual s = \<lparr>tv_Value = s, tv_Numeric = False\<rparr>"

definition numeric :: "int \<Rightarrow> templateValue" where
  "numeric n = \<lparr>tv_Value = int_string n, tv_Numeric = True\<rparr>"

text \<open>\<open>int64(d / time.Second)\<close>, which cuts off towards zero.\<close>

definition job_values ::
  "(string \<Rightarrow> string) \<Rightarrow> KubernetesBackend \<Rightarrow> DispatchAttempt \<Rightarrow> (string \<times> templateValue) list" where
  "job_values low B attempt =
     (let runtime = (if da_MaxRuntime attempt \<le> 0 then kb_DefaultRuntime B else da_MaxRuntime attempt) in
      [(''JOB_NAME'', textual (jobName low (da_AttemptID attempt))),
       (''TASK_ATTEMPT_ID'', textual (da_AttemptID attempt)),
       (''RUNNER_IMAGE'', textual (kb_RunnerImage B)),
       (''TTL_SECONDS'', numeric (whole_seconds (kb_JobTTL B))),
       (''ACTIVE_DEADLINE_SECONDS'', numeric (whole_seconds (wrap64 (runtime + 60 * second)))),
       (''WORKER_IDLE_EXIT_SECONDS'', textual (int_string (whole_seconds (kb_WorkerIdleExit B)))),
       (''AGENT_PROVIDER'', textual (kb_AgentProvider B)),
       (''AGENT_CLI_PATH'', textual (kb_AgentCLIPath B)),
       (''AGENT_MODEL'', textual (kb_AgentModel B)),
       (''AGENT_PERMISSION_MODE'', textual (kb_PermissionMode B)),
       (''AGENT_CLI_VERSION'', textual (kb_AgentCLIVersion B)),
       (''CONFLICT_LLM_ENABLED'', textual (if kb_ConflictLLMEnabled B then ''true'' else ''false'')),
       (''CONFLICT_LLM_PROVIDER'', textual (kb_ConflictLLMProvider B)),
       (''CONFLICT_LLM_MODEL'', textual (kb_ConflictLLMModel B)),
       (''OTEL_EXPORTER_OTLP_ENDPOINT'', textual (kb_OTLPEndpoint B)),
       (''GITHUB_API_BASE_URL'', textual (kb_GitHubAPIBase B))])"

text \<open>The elements of a list at the given positions, then the ones left out: any order of a map.\<close>

definition ranged :: "nat list \<Rightarrow> 'a list \<Rightarrow> 'a list" where
  "ranged order xs =
     (let first = filter (\<lambda>i. i < length xs) (remdups order) in
      map ((!) xs) (first @ filter (\<lambda>i. i \<notin> set first) [0..<length xs]))"

definition jobFor :: "('m) k8s_host_scheme \<Rightarrow> KubernetesBackend \<Rightarrow> nat \<Rightarrow> DispatchAttempt \<Rightarrow> err + Job" where
  "jobFor K B k attempt =
     bind_sum (renderJobTemplate (kb_Template B)
       (ranged (z_range K k) (job_values (h_lower K) B attempt))) (\<lambda>rendered.
     bind_sum (z_decode_job K rendered) (\<lambda>job. Inr (job\<lparr>j_Namespace := kb_Namespace B\<rparr>)))"

section \<open>Dispatch\<close>

definition list_jobs :: "('m) k8s_host_scheme \<Rightarrow> Job list action" where
  "list_jobs K = call (JobRead ''list'') (\<lambda>k. z_list K k)"

definition create_job :: "('m) k8s_host_scheme \<Rightarrow> string \<Rightarrow> Job \<Rightarrow> create_answer action" where
  "create_job K aid job = call (JobCreate aid) (\<lambda>k. Inr (z_create K k job))"

definition op_DispatchableAttempts :: "('m) host_scheme \<Rightarrow> time \<Rightarrow> int \<Rightarrow> DispatchAttempt list action" where
  "op_DispatchableAttempts H dur n = db_read H (\<lambda>E. DispatchableAttempts E dur n)"

text \<open>The attempts that have no Job yet, one after the other; \<open>existing\<close> grows with each Job made.\<close>

fun create_jobs ::
  "('m) k8s_host_scheme \<Rightarrow> KubernetesBackend \<Rightarrow> string set \<Rightarrow> DispatchAttempt list \<Rightarrow> unit action" where
  "create_jobs K B existing [] = ret ()"
| "create_jobs K B existing (x # xs) =
     (if da_AttemptID x \<in> existing then create_jobs K B existing xs
      else
      abind (\<lambda>w. lift_sum (jobFor K B (w_ops w) x) w) (\<lambda>job.
      abind (create_job K (da_AttemptID x) job) (\<lambda>answer.
      case answer of
        JobAlreadyExists \<Rightarrow> create_jobs K B existing xs
      | JobRefused e \<Rightarrow> fail (Wrap (''create runner Job for attempt '' @ da_AttemptID x) e)
      | JobCreated name \<Rightarrow>
          aseq (best_effort (op_AppendAttemptEvent K (da_AttemptID x) ''runner.job_created'' ''system''
            (JObj [(''job'', jtext name)]))) (
          create_jobs K B (insert (da_AttemptID x) existing) xs))))"

text \<open>\<open>dispatch\<close>: the states seen and the error, if any.\<close>

definition dispatch ::
  "('m) k8s_host_scheme \<Rightarrow> KubernetesBackend \<Rightarrow> seen \<Rightarrow> (seen \<times> err option) action" where
  "dispatch K B seen =
     abind (atry (awrap ''list runner Jobs'' (list_jobs K))) (\<lambda>r.
     case r of
       Inl e \<Rightarrow> ret (seen, Some e)
     | Inr jobs \<Rightarrow>
         abind (observe_all K seen jobs) (\<lambda>seen'.
         let existing = set (filter (\<lambda>i. i \<noteq> []) (map j_AttemptID jobs)) in
         abind (atry (abind (op_DispatchableAttempts K (kb_DefaultRuntime B) 100)
           (create_jobs K B existing))) (\<lambda>r.
         ret (seen', case r of Inl e \<Rightarrow> Some e | Inr _ \<Rightarrow> None))))"

section \<open>Watching\<close>

fun watch_events ::
  "('m) k8s_host_scheme \<Rightarrow> seen \<Rightarrow> watch_event list \<Rightarrow> (seen \<times> err option) action" where
  "watch_events K seen [] = ret (seen, None)"
| "watch_events K seen (WatchError # es) =
     ret (seen, Some (Msg ''runner Job watch returned an error event''))"
| "watch_events K seen (WatchOther # es) = watch_events K seen es"
| "watch_events K seen (WatchJob j # es) =
     abind (observe K seen j) (\<lambda>seen'. watch_events K seen' es)"

definition watchOnce :: "('m) k8s_host_scheme \<Rightarrow> seen \<Rightarrow> (seen \<times> err option) action" where
  "watchOnce K seen =
     abind (atry (awrap ''watch runner Jobs'' (call (JobRead ''watch'') (z_watch K)))) (\<lambda>r.
     case r of
       Inl e \<Rightarrow> ret (seen, Some e)
     | Inr es \<Rightarrow> watch_events K seen es)"

text \<open>The loop of \<open>Run\<close>, at most \<open>n\<close> rounds; \<open>False\<close> when it has not ended. Sleeps take no effect.\<close>

fun backend_loop :: "('m) k8s_host_scheme \<Rightarrow> KubernetesBackend \<Rightarrow> nat \<Rightarrow> seen \<Rightarrow> bool action" where
  "backend_loop K B 0 seen = ret False"
| "backend_loop K B (Suc n) seen =
     abind (\<lambda>w. (Inr (z_stopped K (w_ops w)), w)) (\<lambda>ended.
     if ended then ret True
     else
     abind (dispatch K B seen) (\<lambda>(seen', e).
     if e \<noteq> None then backend_loop K B n seen'
     else abind (watchOnce K seen') (\<lambda>(seen'', e). backend_loop K B n seen'')))"

definition backend_run :: "('m) k8s_host_scheme \<Rightarrow> KubernetesBackend \<Rightarrow> nat \<Rightarrow> bool action" where
  "backend_run K B n = aseq (lift_sum (validate_backend B)) (backend_loop K B n Map.empty)"

end
