(* ===== verification/KubeProps.thy ===== *)
theory KubeProps
  imports DeliveryProps ExecutorRuns Kubernetes "HOL-Library.Multiset"
begin

text \<open>
  The Jobs of the Kubernetes backend: one per attempt, and the text of a Job does not depend on the
  order Go ranges over the template's variables in, as long as no value holds a dollar sign.
\<close>

section \<open>The template rendered in one pass\<close>

text \<open>The variable a text starts with.\<close>

definition variable_at ::
  "(string \<times> templateValue) list \<Rightarrow> string \<Rightarrow> (string \<times> templateValue) option" where
  "variable_at vs s = find (\<lambda>(key, v). HasPrefix s (placeholder key)) vs"

text \<open>From left to right, without looking again at what was put in.\<close>

function render_once :: "(string \<times> templateValue) list \<Rightarrow> string \<Rightarrow> string" where
  "render_once vs s =
     (if s = [] then []
      else case variable_at vs s of
        Some (key, v) \<Rightarrow> replacement v @ render_once vs (drop (length (placeholder key)) s)
      | None \<Rightarrow> hd s # render_once vs (tl s))"
  by pat_completeness auto
termination
  by (relation "measure (\<lambda>(vs, s). length s)") (auto simp: placeholder_def neq_Nil_conv)

declare render_once.simps [simp del]

text \<open>Names of variables are capitals and underscores; a plain value neither has a dollar nor starts
  like the rest of a variable.\<close>

definition name_char :: "char \<Rightarrow> bool" where
  "name_char c \<longleftrightarrow> c = CHR ''_'' \<or> (65 \<le> byte c \<and> byte c \<le> 90)"

definition plain_text :: "string \<Rightarrow> bool" where
  "plain_text r \<longleftrightarrow> r \<noteq> [] \<and> CHR ''$'' \<notin> set r \<and>
     \<not> name_char (hd r) \<and> hd r \<noteq> CHR ''{'' \<and> hd r \<noteq> CHR ''}''"

lemma name_char_not [simp]:
  "\<not> name_char (CHR ''$'')" "\<not> name_char (CHR ''{'')" "\<not> name_char (CHR ''}'')"
  by (simp_all add: name_char_def byte_def)

lemma placeholder_cons: "placeholder key = CHR ''$'' # CHR ''{'' # key @ ''}''"
  by (simp add: placeholder_def)

lemma HasPrefix_cons [simp]: "HasPrefix (c # s) (x # p) \<longleftrightarrow> c = x \<and> HasPrefix s p"
  by (simp add: HasPrefix_def)

lemma HasPrefix_nil [simp]: "HasPrefix s []" "HasPrefix [] p \<longleftrightarrow> p = []"
  by (auto simp: HasPrefix_def)

text \<open>Past a variable that is being put in, other texts without a dollar stay what they were.\<close>

lemma replace_all_prefix:
  assumes "plain_text r" and "CHR ''$'' \<notin> set q" and "hd r \<notin> set q"
  shows "HasPrefix (replace_all (placeholder key) r t) q = HasPrefix t q"
    and "HasPrefix t q \<Longrightarrow> drop (length q) (replace_all (placeholder key) r t) =
      replace_all (placeholder key) r (drop (length q) t)"
proof -
  have "HasPrefix (replace_all (placeholder key) r t) q = HasPrefix t q \<and>
     (HasPrefix t q \<longrightarrow> drop (length q) (replace_all (placeholder key) r t) =
       replace_all (placeholder key) r (drop (length q) t))"
    using assms(2,3)
  proof (induction q arbitrary: t)
    case (Cons x q)
    show ?case
    proof (cases t)
      case Nil
      then show ?thesis by (simp add: replace_all_cases)
    next
      case t: (Cons c u)
      show ?thesis
      proof (cases "HasPrefix t (placeholder key)")
        case True
        obtain h r' where r: "r = h # r'" using assms(1) by (cases r) (auto simp: plain_text_def)
        have "c = CHR ''$''" using True t by (simp add: placeholder_cons)
        then show ?thesis using Cons.prems True t r by (auto simp: replace_all_cases placeholder_cons)
      next
        case False
        then have step: "replace_all (placeholder key) r t = c # replace_all (placeholder key) r u"
          unfolding t by (rule replace_all_cases(3))
        show ?thesis unfolding step using Cons t by simp
      qed
    qed
  qed simp
  then show "HasPrefix (replace_all (placeholder key) r t) q = HasPrefix t q"
    and "HasPrefix t q \<Longrightarrow> drop (length q) (replace_all (placeholder key) r t) =
      replace_all (placeholder key) r (drop (length q) t)" by blast+
qed

definition names_ok :: "(string \<times> templateValue) list \<Rightarrow> bool" where
  "names_ok vs \<longleftrightarrow> distinct (map fst vs) \<and>
     list_all (\<lambda>(key, v). list_all name_char key \<and> plain_text (replacement v)) vs"

lemma variable_at_Nil [simp]: "variable_at vs [] = None"
  by (auto simp: variable_at_def find_None_iff placeholder_cons)

lemma render_once_cases:
  "render_once vs [] = []"
  "variable_at vs (c # s) = None \<Longrightarrow> render_once vs (c # s) = c # render_once vs s"
  "variable_at vs s = Some (key, v) \<Longrightarrow>
    render_once vs s = replacement v @ render_once vs (drop (length (placeholder key)) s)"
  by (subst render_once.simps; cases s; simp)+

lemma variable_at_no_dollar: "c \<noteq> CHR ''$'' \<Longrightarrow> variable_at vs (c # s) = None"
  by (auto simp: variable_at_def find_None_iff placeholder_cons)

lemma render_once_plain: "CHR ''$'' \<notin> set r \<Longrightarrow> render_once vs (r @ t) = r @ render_once vs t"
proof (induction r)
  case (Cons c r)
  then have "variable_at vs (c # r @ t) = None" by (auto intro: variable_at_no_dollar)
  then show ?case using Cons by (subst render_once.simps) auto
qed simp

lemma find_cong_in: "(\<And>x. x \<in> set xs \<Longrightarrow> p x = q x) \<Longrightarrow> find p xs = find q xs"
  by (induction xs) auto

lemma render_replaced:
  assumes "names_ok ((key, v) # vs)"
  shows "render_once vs (replace_all (placeholder key) (replacement v) s) = render_once ((key, v) # vs) s"
proof (induction s rule: length_induct)
  case (1 s)
  let ?rep = "replace_all (placeholder key) (replacement v)"
  have plain: "plain_text (replacement v)" and names: "list_all (\<lambda>(k, u). list_all name_char k) vs"
    using assms by (auto simp: names_ok_def list_all_iff)
  have ne [simp]: "placeholder key \<noteq> []" by (simp add: placeholder_cons)
  show ?case
  proof (cases s)
    case Nil
    then show ?thesis by (simp add: replace_all_cases render_once.simps)
  next
    case s: (Cons c t)
    show ?thesis
    proof (cases "HasPrefix s (placeholder key)")
      case True
      let ?rest = "drop (length (placeholder key)) s"
      have "length ?rest < length s" using s by (simp add: placeholder_cons)
      then have IH: "render_once vs (?rep ?rest) = render_once ((key, v) # vs) ?rest"
        using 1 by blast
      have "render_once ((key, v) # vs) s = replacement v @ render_once ((key, v) # vs) ?rest"
        using True s by (subst render_once.simps) (simp add: variable_at_def)
      moreover have "CHR ''$'' \<notin> set (replacement v)" using plain by (simp add: plain_text_def)
      ultimately show ?thesis using True IH by (simp add: replace_all_cases render_once_plain)
    next
      case False
      have rep: "?rep s = c # ?rep t" using False s by (simp add: replace_all_cases)
      have skip: "variable_at ((key, v) # vs) s = variable_at vs s" using False by (simp add: variable_at_def)
      have same: "HasPrefix (c # ?rep t) (placeholder k) = HasPrefix s (placeholder k)"
        and moved: "HasPrefix s (placeholder k) \<Longrightarrow> drop (length (placeholder k)) (c # ?rep t) =
          ?rep (drop (length (placeholder k)) s)" if "list_all name_char k" for k
      proof -
        have q: "CHR ''$'' \<notin> set (CHR ''{'' # k @ ''}'')" "hd (replacement v) \<notin> set (CHR ''{'' # k @ ''}'')"
          using that plain by (auto simp: plain_text_def list_all_iff)
        note prefix = replace_all_prefix [OF plain q, where key = key and t = t]
        show "HasPrefix (c # ?rep t) (placeholder k) = HasPrefix s (placeholder k)"
          using prefix(1) unfolding s placeholder_cons HasPrefix_cons by blast
        assume "HasPrefix s (placeholder k)"
        then show "drop (length (placeholder k)) (c # ?rep t) = ?rep (drop (length (placeholder k)) s)"
          using prefix(2) unfolding s placeholder_cons [of k] HasPrefix_cons by simp
      qed
      have at: "variable_at vs (c # ?rep t) = variable_at vs s"
        unfolding variable_at_def using names same by (intro find_cong_in) (auto simp: list_all_iff)
      show ?thesis
      proof (cases "variable_at vs s")
        case None
        have "render_once vs (?rep t) = render_once ((key, v) # vs) t" using 1 s by simp
        then show ?thesis unfolding rep using at skip None
          by (simp add: render_once_cases(2) s)
      next
        case (Some p)
        obtain k u where p: "p = (k, u)" by (cases p)
        have mem: "(k, u) \<in> set vs" and pre: "HasPrefix s (placeholder k)"
          using Some p by (auto simp: variable_at_def find_Some_iff dest: nth_mem)
        then have nk: "list_all name_char k" using names by (auto simp: list_all_iff)
        let ?rest = "drop (length (placeholder k)) s"
        have "length ?rest < length s" using s by (simp add: placeholder_cons)
        then have "render_once vs (?rep ?rest) = render_once ((key, v) # vs) ?rest" using 1 by blast
        then show ?thesis unfolding rep using moved [OF nk pre] at skip Some p
          by (simp add: render_once_cases(3))
      qed
    qed
  qed
qed

lemma render_once_none: "render_once [] s = s"
  by (induction s) (simp_all add: render_once.simps variable_at_def)

lemma substitute_once: "names_ok vs \<Longrightarrow> substitute vs s = render_once vs s"
proof (induction vs s rule: substitute.induct)
  case (1 s)
  show ?case by (simp add: render_once_none)
next
  case (2 key v vs s)
  have "names_ok vs" using "2.prems" by (auto simp: names_ok_def)
  then show ?case using "2.IH" render_replaced [OF "2.prems"] by simp
qed

text \<open>At most one variable starts at a place, so their order is of no consequence.\<close>

lemma placeholder_unique:
  assumes "HasPrefix s (placeholder j)" and "HasPrefix s (placeholder k)"
    and "list_all name_char j" and "list_all name_char k"
  shows "j = k"
proof -
  obtain t where t: "s = placeholder j @ t" using assms(1) by (auto simp: HasPrefix_iff)
  obtain u where u: "s = placeholder k @ u" using assms(2) by (auto simp: HasPrefix_iff)
  from t u have eq: "j @ ''}'' @ t = k @ ''}'' @ u" by (simp add: placeholder_cons)
  have name: "takeWhile name_char (x @ ''}'' @ y) = x" if "list_all name_char x" for x y
    using that by (simp add: list_all_iff takeWhile_append2)
  show ?thesis using arg_cong [OF eq, of "takeWhile name_char"]
    unfolding name [OF assms(3)] name [OF assms(4)] .
qed

lemma find_by_name: "x \<in> set xs \<Longrightarrow> p x \<Longrightarrow> (\<And>y. y \<in> set xs \<Longrightarrow> p y \<Longrightarrow> y = x) \<Longrightarrow> find p xs = Some x"
proof -
  assume x: "x \<in> set xs" "p x" and only: "\<And>y. y \<in> set xs \<Longrightarrow> p y \<Longrightarrow> y = x"
  obtain y where y: "find p xs = Some y" using x by (cases "find p xs") (auto simp: find_None_iff)
  then have "y \<in> set xs" "p y" by (auto simp: find_Some_iff dest: nth_mem)
  with only y show ?thesis by simp
qed

lemma variable_at_set:
  assumes "names_ok vs" and "set ws = set vs"
  shows "variable_at ws s = variable_at vs s"
proof (cases "variable_at vs s")
  case None
  then have "variable_at ws s = None" using assms(2) by (auto simp: variable_at_def find_None_iff)
  with None show ?thesis by simp
next
  case (Some p)
  obtain k v where p: "p = (k, v)" by (cases p)
  have mem: "(k, v) \<in> set vs" and pre: "HasPrefix s (placeholder k)"
    using Some p by (auto simp: variable_at_def find_Some_iff dest: nth_mem)
  have only: "(j, u) = (k, v)" if "(j, u) \<in> set vs" "HasPrefix s (placeholder j)" for j u
  proof -
    have names: "list_all name_char j" "list_all name_char k"
      using assms(1) that(1) mem unfolding names_ok_def list_all_iff by blast+
    have "j = k" by (rule placeholder_unique [OF that(2) pre names])
    moreover have "distinct (map fst vs)" using assms(1) by (simp add: names_ok_def)
    ultimately show ?thesis using eq_key_imp_eq_value that(1) mem by fast
  qed
  have "variable_at ws s = Some (k, v)" unfolding variable_at_def
  proof (rule find_by_name)
    fix y assume "y \<in> set ws" and "case y of (key, v) \<Rightarrow> HasPrefix s (placeholder key)"
    then show "y = (k, v)" using only [of "fst y" "snd y"] assms(2) by (simp add: case_prod_beta)
  qed (simp_all add: mem pre assms(2))
  with Some p show ?thesis by simp
qed

lemma render_once_set:
  assumes "names_ok vs" and "set ws = set vs"
  shows "render_once ws s = render_once vs s"
proof (induction s rule: length_induct)
  case (1 s)
  have shorter: "length (drop (length (placeholder k)) s) < length s" if "s \<noteq> []" for k
    using that by (simp add: placeholder_cons)
  note at = variable_at_set [OF assms, of s]
  show ?case
  proof (cases "variable_at vs s")
    case None
    then show ?thesis using 1 at by (cases s) (simp_all add: render_once_cases)
  next
    case (Some p)
    then have "s \<noteq> []" by auto
    with Some shorter 1 at show ?thesis by (cases p) (simp add: render_once_cases(3))
  qed
qed

section \<open>The Job of an attempt\<close>

lemma plain_int: "CHR ''$'' \<notin> set (int_string n) \<Longrightarrow> plain_text (int_string n)"
proof -
  have digit: "\<not> name_char c \<and> c \<noteq> CHR ''{'' \<and> c \<noteq> CHR ''}''" if "is_digit c" for c
    using that by (auto simp: is_digit_def name_char_def byte_def)
  have "nat_string m \<noteq> [] \<and> is_digit (hd (nat_string m))" for m
    using nat_string_digits [of m] by (cases "nat_string m") (auto simp: nat_string.simps [of m] split: if_splits)
  moreover assume "CHR ''$'' \<notin> set (int_string n)"
  ultimately show ?thesis using digit by (auto simp: int_string_def plain_text_def name_char_def byte_def)
qed

lemma hex_digit_dollar: "n < 16 \<Longrightarrow> GoText.hex_digit n \<noteq> CHR ''$''"
proof
  assume "n < 16" and "GoText.hex_digit n = CHR ''$''"
  then have "of_char (GoText.hex_digit n) = (36::nat)" by simp
  with \<open>n < 16\<close> show False by (auto simp: GoText.hex_digit_def split: if_splits)
qed

lemma quote_byte_dollar:
  assumes "CHR ''$'' \<noteq> c" "GoText.hex_digit (byte c div 16) \<noteq> CHR ''$''"
    "GoText.hex_digit (byte c mod 16) \<noteq> CHR ''$''"
  shows "CHR ''$'' \<notin> set (quote_rune [c])"
proof -
  have branch: "CHR ''$'' \<notin> set (if b then xs else ys)"
    if "CHR ''$'' \<notin> set xs" "CHR ''$'' \<notin> set ys" for b xs ys
    using that by simp
  show ?thesis unfolding quote_rune_def list.case
    by (intro branch) (use assms(1) not_sym [OF assms(2)] not_sym [OF assms(3)] in simp_all)
qed

lemma plain_quote:
  assumes "CHR ''$'' \<notin> set s"
  shows "plain_text (quote s)"
proof -
  have "CHR ''$'' \<notin> set (quote_rune r)" if "r \<in> set (runes s)" for r
  proof -
    have r: "CHR ''$'' \<notin> set r" using assms that concat_runes [of s] by (metis UN_I set_concat)
    show ?thesis
    proof (cases "length r = 1")
      case True
      then obtain c where c: "r = [c]" by (auto simp: length_Suc_conv)
      have "byte c < 256" unfolding byte_def by (rule nat_of_char_less_256)
      then have "byte c div 16 < 16" by (intro less_mult_imp_div_less) simp
      then have "GoText.hex_digit (byte c div 16) \<noteq> CHR ''$''" by (rule hex_digit_dollar)
      moreover have "GoText.hex_digit (byte c mod 16) \<noteq> CHR ''$''" by (rule hex_digit_dollar) simp
      ultimately show ?thesis using r quote_byte_dollar [of c] by (simp add: c)
    next
      case False
      then have "r = [] \<or> (\<exists>x y ys. r = x # y # ys)"
        by (metis One_nat_def length_Cons list.exhaust list.size(3))
      then have "quote_rune r = r" by (elim disjE exE) (simp_all add: quote_rune_def)
      with r show ?thesis by simp
    qed
  qed
  then show ?thesis by (auto simp: quote_def plain_text_def name_char_def byte_def)
qed

lemma names_ok_job_values:
  assumes "\<forall>(key, v)\<in>set (job_values low B x). CHR ''$'' \<notin> set (tv_Value v)"
  shows "names_ok (job_values low B x)"
  unfolding names_ok_def
proof
  show "distinct (map fst (job_values low B x))" by (simp add: job_values_def Let_def)
  have name: "\<forall>key\<in>set (map fst (job_values low B x)). list_all name_char key"
    by (simp add: job_values_def Let_def name_char_def byte_def)
  have number: "\<forall>v\<in>set (map snd (job_values low B x)). tv_Numeric v \<longrightarrow> (\<exists>n. tv_Value v = int_string n)"
    by (auto simp: job_values_def Let_def textual_def numeric_def)
  show "list_all (\<lambda>(key, v). list_all name_char key \<and> plain_text (replacement v)) (job_values low B x)"
    unfolding list_all_iff
  proof (intro ballI, clarify)
    fix key v assume mem: "(key, v) \<in> set (job_values low B x)"
    then have "list_all name_char key" using name by force
    moreover have "CHR ''$'' \<notin> set (tv_Value v)" using mem assms by blast
    moreover have "tv_Numeric v \<Longrightarrow> \<exists>n. tv_Value v = int_string n" using mem number by force
    ultimately show "(\<forall>c\<in>set key. name_char c) \<and> plain_text (replacement v)"
      using plain_quote plain_int by (auto simp: replacement_def list_all_iff)
  qed
qed

lemma mset_ranged: "mset (ranged order xs) = mset xs"
proof -
  let ?first = "filter (\<lambda>i. i < length xs) (remdups order)"
  let ?idx = "?first @ filter (\<lambda>i. i \<notin> set ?first) [0..<length xs]"
  have "mset ?idx = mset [0..<length xs]"
    by (subst set_eq_iff_mset_eq_distinct [symmetric]) auto
  then have "image_mset ((!) xs) (mset ?idx) = image_mset ((!) xs) (mset [0..<length xs])" by simp
  then have "mset (map ((!) xs) ?idx) = mset (map ((!) xs) [0..<length xs])" by (simp only: mset_map)
  then show ?thesis by (simp add: ranged_def Let_def map_nth)
qed

lemma names_ok_mset: "mset ws = mset vs \<Longrightarrow> names_ok vs \<Longrightarrow> names_ok ws"
proof -
  assume eq: "mset ws = mset vs" and ok: "names_ok vs"
  have "mset (map fst ws) = mset (map fst vs)" using eq by simp
  then have "distinct (map fst ws) = distinct (map fst vs)" by (rule mset_eq_imp_distinct_iff)
  with ok mset_eq_setD [OF eq] show "names_ok ws" by (simp add: names_ok_def list_all_iff)
qed

text \<open>
  C30. The text of a Job does not depend on the order in which Go ranges over the map of template
  variables: as long as no value holds a dollar sign, any two orders render and decode the same
  Job, and it is the one of a single pass over the template.
\<close>

theorem job_order_free:
  assumes "\<forall>(key, v)\<in>set (job_values (h_lower K) B x). CHR ''$'' \<notin> set (tv_Value v)"
  shows "jobFor K B k x = jobFor K B j x \<and>
    substitute (ranged order (job_values (h_lower K) B x)) s = render_once (job_values (h_lower K) B x) s"
proof -
  let ?vs = "job_values (h_lower K) B x"
  note names = names_ok_job_values [OF assms]
  have once: "substitute (ranged order ?vs) s = render_once ?vs s" for order s
    using substitute_once [OF names_ok_mset [OF mset_ranged names]]
      render_once_set [OF names mset_eq_setD [OF mset_ranged]] by simp
  then show ?thesis by (simp add: jobFor_def renderJobTemplate_def)
qed

text \<open>A value that does hold one is expanded or not as the order has it.\<close>

lemma value_with_variable:
  "renderJobTemplate ''${A}'' [(''A'', textual ''${B}''), (''B'', textual ''x'')] = Inr [CHR 0x22, CHR 0x22, CHR ''x'', CHR 0x22, CHR 0x22]"
  "\<not> is_ok (renderJobTemplate ''${A}'' [(''B'', textual ''x''), (''A'', textual ''${B}'')])"
  by code_simp+

section \<open>Dispatch\<close>

definition created :: "effect list \<Rightarrow> string list" where
  "created es = concat (map (\<lambda>e. case e of JobCreate aid \<Rightarrow> [aid] | _ \<Rightarrow> []) es)"

lemma created_simps [simp]:
  "created [] = []" "created (es @ fs) = created es @ created fs"
  "created (e # es) = (case e of JobCreate aid \<Rightarrow> [aid] | _ \<Rightarrow> []) @ created es"
  by (simp_all add: created_def)

text \<open>What the backend does beside creating Jobs: events of its own kind and deletions.\<close>

definition job_note :: "effect \<Rightarrow> bool" where
  "job_note e = (case e of JobRead s \<Rightarrow> True | JobDelete s \<Rightarrow> True
     | DbAppendAttemptEvent aid ty \<Rightarrow> take 11 ty = ''runner.job_'' | _ \<Rightarrow> False)"

lemma created_notes: "list_all job_note es \<Longrightarrow> created es = []"
proof (induction es)
  case (Cons e es)
  then show ?case by (cases e) (auto simp: job_note_def)
qed simp

lemma runs_job_event:
  assumes "others_ok K" and "take 11 ty = ''runner.job_''"
  shows "runs job_note (best_effort (op_AppendAttemptEvent K aid ty src pl))"
proof -
  have "take 5 (take 11 ty) = take 5 ''runner.job_''" by (simp only: assms(2))
  then have "take 5 ty \<noteq> ''task.''" by simp
  then have "\<not> transition_type ty" by (rule not_transition_type)
  then show ?thesis
    using assms by (intro runs_best_effort runs_events(2)) (simp_all add: job_note_def)
qed

lemma runs_observe:
  assumes "others_ok K"
  shows "runs job_note (observe K seen j)"
proof (cases "jobState j")
  case (Pair state reason)
  then show ?thesis unfolding observe_def Let_def delete_job_def
    by (auto intro!: runs_if runs_bind runs_ret runs_call runs_job_event assms simp: Pair job_note_def)
qed

lemma runs_observe_all: "others_ok K \<Longrightarrow> runs job_note (observe_all K seen js)"
  by (induction K seen js rule: observe_all.induct) (auto intro!: runs_intros runs_observe)

text \<open>Creating: each attempt without a Job is asked for once.\<close>

definition makes :: "string list \<Rightarrow> world \<Rightarrow> world \<Rightarrow> bool" where
  "makes ids w w' \<longleftrightarrow> platform_step\<^sup>*\<^sup>* (w_db w) (w_db w') \<and> (\<exists>es. w_log w' = w_log w @ es \<and>
     created es = ids)"

lemma makes_trans: "makes xs w v \<Longrightarrow> makes ys v u \<Longrightarrow> makes (xs @ ys) w u"
  unfolding makes_def by (auto intro: rtranclp_trans)

lemma makes_none: "runs job_note m \<Longrightarrow> m w = (r, w') \<Longrightarrow> makes [] w w'"
  using created_notes by (auto simp: makes_def dest: runsD)

lemma makes_refl: "makes [] w w"
  by (simp add: makes_def)

lemma create_jobs_makes:
  assumes "others_ok K"
  shows "distinct (map da_AttemptID xs) \<Longrightarrow> create_jobs K B existing xs w = (r, w') \<Longrightarrow>
    \<exists>ids. makes ids w w' \<and> distinct ids \<and> set ids \<subseteq> set (map da_AttemptID xs) - existing"
proof (induction xs arbitrary: existing w)
  case Nil
  then show ?case by (auto simp: ret_def intro: makes_refl)
next
  case (Cons x xs)
  let ?aid = "da_AttemptID x"
  show ?case
  proof (cases "?aid \<in> existing")
    case True
    then show ?thesis using Cons.IH [of existing w] Cons.prems by fastforce
  next
    case False
    show ?thesis
    proof (cases "jobFor K B (w_ops w) x")
      case (Inl e)
      then have "w' = w" using Cons.prems(2) False by (simp add: abind_def lift_sum_def fail_def)
      then show ?thesis using makes_refl [of w] by (intro exI [of _ "[]"]) simp
    next
      case (Inr job)
      let ?answer = "z_create K (w_ops w) job"
      obtain a w1 where C: "create_job K ?aid job w = (a, w1)" by (cases "create_job K ?aid job w")
      have a: "a = Inr ?answer" and one: "makes [?aid] w w1"
        using C by (auto simp: create_job_def call_def makes_def)
      have go: "create_jobs K B existing (x # xs) w = (case ?answer of
          JobAlreadyExists \<Rightarrow> create_jobs K B existing xs w1
        | JobRefused e \<Rightarrow> fail (Wrap (''create runner Job for attempt '' @ ?aid) e) w1
        | JobCreated name \<Rightarrow> aseq (best_effort (op_AppendAttemptEvent K ?aid ''runner.job_created'' ''system''
            (JObj [(''job'', jtext name)]))) (create_jobs K B (insert ?aid existing) xs) w1)"
        using False Inr C a by (simp add: abind_def lift_sum_def ret_def split: create_answer.splits)
      have rest: ?thesis if "makes ids w1 w'" "distinct ids" "set ids \<subseteq> set (map da_AttemptID xs) - existing" for ids
      proof -
        have "makes (?aid # ids) w w'" using makes_trans [OF one that(1)] by simp
        moreover have "distinct (?aid # ids)" using that Cons.prems(1) by auto
        moreover have "set (?aid # ids) \<subseteq> set (map da_AttemptID (x # xs)) - existing" using that(3) False by auto
        ultimately show ?thesis by blast
      qed
      have xs: "distinct (map da_AttemptID xs)" using Cons.prems(1) by simp
      show ?thesis
      proof (cases ?answer)
        case (JobRefused e)
        then have "w' = w1" using Cons.prems(2) go by (simp add: fail_def)
        then show ?thesis using rest [of "[]"] makes_refl by simp
      next
        case JobAlreadyExists
        then have run: "create_jobs K B existing xs w1 = (r, w')" using Cons.prems(2) go by simp
        show ?thesis using Cons.IH [OF xs run] rest by blast
      next
        case (JobCreated name)
        let ?note = "best_effort (op_AppendAttemptEvent K ?aid ''runner.job_created'' ''system'' (JObj [(''job'', jtext name)]))"
        obtain b w2 where N: "?note w1 = (b, w2)" by (cases "?note w1")
        have two: "makes [] w1 w2"
          by (rule makes_none [OF runs_job_event [OF assms] N]) simp
        show ?thesis
        proof (cases b)
          case (Inl e)
          then have "w' = w2" using Cons.prems(2) go JobCreated N by (simp add: abind_def)
          then show ?thesis using rest [of "[]"] two by simp
        next
          case (Inr u)
          then have run: "create_jobs K B (insert ?aid existing) xs w2 = (r, w')"
            using Cons.prems(2) go JobCreated N by (simp add: abind_def)
          obtain ids where ids: "makes ids w2 w'" "distinct ids"
              "set ids \<subseteq> set (map da_AttemptID xs) - insert ?aid existing"
            using Cons.IH [OF xs run] by blast
          have "makes ids w1 w'" using makes_trans [OF two ids(1)] by simp
          then show ?thesis using rest [of ids] ids(2,3) by blast
        qed
      qed
    qed
  qed
qed

lemma concat_map_if: "concat (map (\<lambda>t. if P t then [f t] else []) ts) = map f (filter P ts)"
  by (induction ts) auto

lemma filter_key_short:
  "distinct (map k ts) \<Longrightarrow> length (filter (\<lambda>t. k t = x \<and> Q t) ts) \<le> 1"
proof (induction ts)
  case (Cons t ts)
  show ?case
  proof (cases "k t = x")
    case True
    then have "filter (\<lambda>t. k t = x \<and> Q t) ts = []"
      using Cons.prems unfolding filter_empty_conv by (metis distinct.simps(2) image_eqI list.set_map list.simps(9))
    then show ?thesis by simp
  next
    case False
    then show ?thesis using Cons by simp
  qed
qed simp

lemma distinct_joined:
  assumes "distinct (map k as)" and "\<And>a. length (filter (P a) ts) \<le> 1"
  shows "distinct (map (\<lambda>(a, t). k a) (concat (map (\<lambda>a. map (Pair a) (filter (P a) ts)) as)))"
  using assms(1)
proof (induction as)
  case (Cons a as)
  have "distinct (map (\<lambda>(a, t). k a) (map (Pair a) (filter (P a) ts)))"
    using assms(2) [of a] by (cases "filter (P a) ts") auto
  then show ?case using Cons by fastforce
qed simp

lemma dispatchable_ids:
  assumes "schema_ok d"
  shows "distinct (map (\<lambda>(a, t). a_ID a) (dispatchable_rows now d))"
proof -
  have "dispatchable_rows now d = concat (map (\<lambda>a. map (Pair a) (filter (\<lambda>t. t_ID t = a_TaskID a \<and>
      (a_Status a = AttemptActive \<and> lease_free now a \<and> claimable t)) (tasks d))) (attempts d))"
    unfolding dispatchable_rows_def concat_map_if ..
  then show ?thesis
    using distinct_joined [OF schema_ok_attemptD(2) [OF assms] filter_key_short [OF schema_ok_taskD(2) [OF assms]]]
    by simp
qed

lemma DispatchableAttempts_ids:
  assumes "DispatchableAttempts E dur n d = Inr xs" and "schema_ok d"
  shows "distinct (map da_AttemptID xs)"
    and "\<forall>x\<in>set xs. \<exists>(a, t)\<in>set (dispatchable_rows (env_now E) d). a_ID a = da_AttemptID x"
    and "length xs \<le> nat (if n \<le> 0 then 100 else n)"
proof -
  let ?rows = "dispatchable_rows (env_now E) d" and ?n = "nat (if n \<le> 0 then 100 else n)"
  let ?taken = "take ?n (dispatch_order ?rows)"
  have ids: "map da_AttemptID xs = map (\<lambda>(a, t). a_ID a) ?taken" and len: "length xs = length ?taken"
    using assms(1) by (auto simp: DispatchableAttempts_def Let_def bind_sum_Inr_iff)
  have "distinct (map (\<lambda>(a, t). a_ID a) (dispatch_order ?rows))"
    using dispatchable_ids [OF assms(2), of "env_now E"] by (simp add: distinct_map dispatch_order_def)
  then have "distinct (map (\<lambda>(a, t). a_ID a) ?taken)" by (simp only: take_map [symmetric] distinct_take)
  then show "distinct (map da_AttemptID xs)" by (simp only: ids)
  have sub: "set ?taken \<subseteq> set ?rows" by (auto simp: dispatch_order_def dest: in_set_takeD)
  show "\<forall>x\<in>set xs. \<exists>(a, t)\<in>set ?rows. a_ID a = da_AttemptID x"
  proof
    fix x assume "x \<in> set xs"
    then have "da_AttemptID x \<in> set (map (\<lambda>(a, t). a_ID a) ?taken)" unfolding ids [symmetric] by simp
    then show "\<exists>(a, t)\<in>set ?rows. a_ID a = da_AttemptID x" using sub by fastforce
  qed
  show "length xs \<le> ?n" using len by simp
qed

text \<open>
  C18. An attempt gets one Job: in a round of \<open>dispatch\<close>, over any answers of the Kubernetes API and
  the database, each attempt is asked a Job for at most once, never one a listed Job already
  belongs to, at most a hundred of them, and each of them is due in a database the platform
  reaches meanwhile; the round is a run of platform operations.
\<close>

theorem one_job_per_attempt:
  assumes "others_ok K" and "db_inv (w_db w)" and "dispatch K B seen w = (r, w')"
  shows "platform_step\<^sup>*\<^sup>* (w_db w) (w_db w') \<and> (\<exists>es. w_log w' = w_log w @ es \<and>
    distinct (created es) \<and> length (created es) \<le> 100 \<and>
    (\<forall>aid\<in>set (created es).
      (aid \<noteq> [] \<longrightarrow> (\<forall>jobs. z_list K (w_ops w) = Inr jobs \<longrightarrow> aid \<notin> set (map j_AttemptID jobs))) \<and>
      (\<exists>d now a t. platform_step\<^sup>*\<^sup>* (w_db w) d \<and> (a, t) \<in> set (dispatchable_rows now d) \<and> a_ID a = aid)))"
    (is "_ \<and> ?creates")
proof -
  have none: ?thesis if "makes [] w w'" using that by (auto simp: makes_def)
  let ?w1 = "w\<lparr>w_ops := w_ops w + 1, w_log := w_log w @ [JobRead ''list'']\<rparr>"
  have one: "makes [] w ?w1" by (simp add: makes_def)
  show ?thesis
  proof (cases "z_list K (w_ops w)")
    case (Inl e)
    then have "w' = ?w1" using assms(3)
      by (auto simp: dispatch_def list_jobs_def call_def awrap_def atry_def abind_def ret_def split: if_splits)
    then show ?thesis using none one by simp
  next
    case (Inr jobs)
    obtain s w2 where O: "observe_all K seen jobs ?w1 = (s, w2)" by (cases "observe_all K seen jobs ?w1")
    have two: "makes [] w w2"
      using makes_trans [OF one makes_none [OF runs_observe_all [OF assms(1)] O]] by simp
    let ?d = "h_others K (w_ops w2) (w_db w2)" and ?E = "h_env K (w_ops w2)"
    let ?w3 = "w2\<lparr>w_db := ?d, w_ops := w_ops w2 + 1\<rparr>"
    let ?existing = "set (filter (\<lambda>i. i \<noteq> []) (map j_AttemptID jobs))"
    have three: "makes [] w ?w3" and steps: "platform_step\<^sup>*\<^sup>* (w_db w) ?d"
      using two assms(1) by (auto simp: makes_def others_ok_def intro: rtranclp_trans)
    have ok: "schema_ok ?d" using platform.run_inv [OF steps assms(2)] by (rule db_invD(1))
    have go: "w' = (case s of Inl e \<Rightarrow> w2 | Inr seen' \<Rightarrow>
        (case DispatchableAttempts ?E (kb_DefaultRuntime B) 100 ?d of Inl e \<Rightarrow> ?w3
         | Inr xs \<Rightarrow> snd (create_jobs K B ?existing xs ?w3)))"
      using assms(3) Inr O
      by (auto simp: dispatch_def list_jobs_def call_def awrap_def atry_def abind_def ret_def
          op_DispatchableAttempts_def db_read_def Let_def split: sum.splits prod.splits if_splits)
    show ?thesis
    proof (cases "\<exists>seen' xs. s = Inr seen' \<and> DispatchableAttempts ?E (kb_DefaultRuntime B) 100 ?d = Inr xs")
      case False
      then have "w' = w2 \<or> w' = ?w3" unfolding go by (auto split: sum.splits)
      then show ?thesis using none two three by auto
    next
      case True
      then obtain seen' xs where s: "s = Inr seen'" and xs: "DispatchableAttempts ?E (kb_DefaultRuntime B) 100 ?d = Inr xs"
        by blast
      obtain q where run: "create_jobs K B ?existing xs ?w3 = (q, w')"
        using go s xs by (cases "create_jobs K B ?existing xs ?w3") simp
      note ids = DispatchableAttempts_ids [OF xs ok]
      obtain js where js: "makes js ?w3 w'" "distinct js" "set js \<subseteq> set (map da_AttemptID xs) - ?existing"
        using create_jobs_makes [OF assms(1) ids(1) run] by blast
      have "makes js w w'" using makes_trans [OF three js(1)] by simp
      moreover have "length js \<le> 100"
      proof -
        have "set js \<subseteq> set (map da_AttemptID xs)" using js(3) by blast
        then have "length js \<le> card (set (map da_AttemptID xs))"
          using card_mono [of "set (map da_AttemptID xs)" "set js"] distinct_card [OF js(2)] by simp
        also have "\<dots> \<le> length (map da_AttemptID xs)" by (rule card_length)
        finally show ?thesis using ids(3) by simp
      qed
      moreover have "\<exists>a t. (a, t) \<in> set (dispatchable_rows (env_now ?E) ?d) \<and> a_ID a = aid" if "aid \<in> set js" for aid
        using js(3) ids(2) that by fastforce
      ultimately show ?thesis using js(2,3) Inr steps unfolding makes_def by fastforce
    qed
  qed
qed

section \<open>A round that creates a Job\<close>

definition demo_job :: Job where
  "demo_job = \<lparr>j_Name = ''agent-trail-a'', j_Namespace = ''default'', j_AttemptID = ''a'',
     j_Conditions = [], j_Active = 0\<rparr>"

definition demo_kube :: k8s_host where
  "demo_kube = \<lparr>h_env = (\<lambda>k. demo_env (int k)), h_others = (\<lambda>k d. d), h_api = demo_api,
     h_lower = (\<lambda>r. r), h_other_records = (\<lambda>k r. r), z_list = (\<lambda>k. Inr []),
     z_create = (\<lambda>k j. JobCreated (j_Name j)), z_delete = (\<lambda>k n. JobDeleted),
     z_watch = (\<lambda>k. Inr []), z_decode_job = (\<lambda>s. Inr (demo_job\<lparr>j_Name := s\<rparr>)),
     z_range = (\<lambda>k. if k = 0 then [] else [15, 3]), z_stopped = (\<lambda>k. 5 < k)\<rparr>"

definition demo_backend :: KubernetesBackend where
  "demo_backend = \<lparr>kb_Template = ''${JOB_NAME} ${TTL_SECONDS}'', kb_Namespace = ''default'',
     kb_RunnerImage = ''img'', kb_JobTTL = second, kb_DefaultRuntime = second, kb_Poll = second,
     kb_WorkerIdleExit = 0, kb_AgentProvider = ''fake'', kb_AgentCLIPath = [], kb_AgentModel = [],
     kb_PermissionMode = [], kb_AgentCLIVersion = [], kb_ConflictLLMEnabled = False,
     kb_ConflictLLMProvider = [], kb_ConflictLLMModel = [], kb_OTLPEndpoint = [], kb_GitHubAPIBase = []\<rparr>"

definition demo_dispatch :: DispatchAttempt where
  "demo_dispatch = \<lparr>da_AttemptID = ''a'', da_TaskID = demo_tid, da_MaxRuntime = second\<rparr>"

lemma demo_kube_others_ok: "others_ok demo_kube"
  by (simp add: others_ok_def demo_kube_def)

theorem job_order_free_witness:
  "jobFor demo_kube demo_backend 0 demo_dispatch = jobFor demo_kube demo_backend 7 demo_dispatch"
proof -
  have "list_all (\<lambda>(key, v). CHR ''$'' \<notin> set (tv_Value v)) (job_values (h_lower demo_kube) demo_backend demo_dispatch)"
    by code_simp
  then have "\<forall>(key, v)\<in>set (job_values (h_lower demo_kube) demo_backend demo_dispatch). CHR ''$'' \<notin> set (tv_Value v)"
    by (simp only: list_all_iff)
  then show ?thesis using job_order_free by blast
qed

lemma demo_dispatchable:
  "DispatchableAttempts (demo_env 1) second 100 demo_queued = Inr [demo_dispatch]"
  "is_ok (jobFor demo_kube demo_backend 2 demo_dispatch)"
  by code_simp+

theorem one_job_per_attempt_witness:
  "\<exists>r w'. dispatch demo_kube demo_backend Map.empty (demo_world demo_queued) = (r, w')
    \<and> created (w_log w') = [''a''] \<and> platform_step\<^sup>*\<^sup>* demo_queued (w_db w')"
proof -
  let ?w = "demo_world demo_queued"
  obtain r w' where run: "dispatch demo_kube demo_backend Map.empty ?w = (r, w')"
    by (cases "dispatch demo_kube demo_backend Map.empty ?w")
  obtain job where job: "jobFor demo_kube demo_backend 2 demo_dispatch = Inr job"
    using demo_dispatchable(2) by (auto simp: is_ok_iff)
  have simps: "h_others demo_kube k d = d" "h_env demo_kube k = demo_env (int k)" "z_list demo_kube k = Inr []"
    "z_create demo_kube k j = JobCreated (j_Name j)" "kb_DefaultRuntime demo_backend = second" for k d j
    by (simp_all add: demo_kube_def demo_backend_def)
  have "created (w_log (snd (dispatch demo_kube demo_backend Map.empty ?w))) = [''a'']"
    using demo_dispatchable(1) job
    by (auto simp: simps dispatch_def list_jobs_def call_def awrap_def atry_def abind_def ret_def panics_def
        op_DispatchableAttempts_def db_read_def Let_def create_job_def lift_sum_def demo_world_def
        best_effort_def op_AppendAttemptEvent_def db_write_def demo_dispatch_def numeral_2_eq_2
        split: sum.splits prod.splits)
  then show ?thesis using run one_job_per_attempt [OF demo_kube_others_ok _ run] demo_queued_inv by auto
qed

end
