(* ===== verification/AuthService.thy ===== *)
theory AuthService
  imports Ops
begin

text \<open>
  \<open>internal/auth/oauth.go\<close> and \<open>service.go\<close>: the login with GitHub and the sessions of the
  dashboard. SHA-256, the random source, \<open>url.QueryEscape\<close> and the decoded answers of GitHub are
  parameters; an answer is an error where the request, its status or its body fails. Requests of
  the login are logged as reads of the GitHub API.
\<close>

section \<open>The surroundings\<close>

record oauth_token =
  ot_AccessToken :: string
  ot_Error :: string

record api_host = host +
  a_sha256 :: "string \<Rightarrow> string"
  a_random :: "nat \<Rightarrow> err + string"
  a_escape :: "string \<Rightarrow> string"
  a_decode_body :: "string \<Rightarrow> err + json"
  a_parse_float :: "string \<Rightarrow> rat option"
  a_token :: "nat \<Rightarrow> string \<Rightarrow> string \<Rightarrow> err + oauth_token"
  a_user :: "nat \<Rightarrow> string \<Rightarrow> err + GitHubUser"
  a_installations :: "nat \<Rightarrow> string \<Rightarrow> nat \<Rightarrow> err + InstallationAccount list"

section \<open>The OAuth client\<close>

record OAuthClient =
  oc_ClientID :: string
  oc_OAuthBaseURL :: string

text \<open>\<open>url.Values.Encode\<close> writes the three keys in their order.\<close>

definition AuthorizeURL :: "('m) api_host_scheme \<Rightarrow> OAuthClient \<Rightarrow> string \<Rightarrow> string \<Rightarrow> string" where
  "AuthorizeURL H oc st redirectURI =
     oc_OAuthBaseURL oc @ ''/login/oauth/authorize?client_id='' @ a_escape H (oc_ClientID oc)
       @ ''&redirect_uri='' @ a_escape H redirectURI @ ''&state='' @ a_escape H st"

definition ExchangeCode :: "('m) api_host_scheme \<Rightarrow> string \<Rightarrow> string \<Rightarrow> string action" where
  "ExchangeCode H code redirectURI =
     abind (call (GhRead ''access_token'') (\<lambda>k. a_token H k code redirectURI)) (\<lambda>resp.
     if ot_Error resp \<noteq> [] then fail (Msg (''auth: code exchange rejected: '' @ ot_Error resp))
     else if ot_AccessToken resp = [] then fail (Msg ''auth: code exchange returned no token'')
     else ret (ot_AccessToken resp))"

definition GetUser :: "('m) api_host_scheme \<Rightarrow> string \<Rightarrow> GitHubUser action" where
  "GetUser H token =
     abind (call (GhRead ''user'') (\<lambda>k. a_user H k token)) (\<lambda>user.
     if gu_ID user \<le> 0 \<or> gu_Login user = [] then
       fail (Msg ''auth: user response missing id or login'')
     else ret user)"

definition installations_per_page :: nat where
  "installations_per_page = 100"

text \<open>
  The pages of \<open>InstallationAccounts\<close>, at most \<open>n\<close> of them; \<open>None\<close> when the last one read was
  still full.
\<close>

fun installation_pages ::
  "('m) api_host_scheme \<Rightarrow> string \<Rightarrow> nat \<Rightarrow> nat \<Rightarrow> InstallationAccount list \<Rightarrow>
    InstallationAccount list option action" where
  "installation_pages H token 0 page found = ret None"
| "installation_pages H token (Suc n) page found =
     abind (call (GhRead ''installations'') (\<lambda>k. a_installations H k token page)) (\<lambda>accounts.
     if length accounts < installations_per_page then ret (Some (found @ accounts))
     else installation_pages H token n (page + 1) (found @ accounts))"

definition InstallationAccounts ::
  "('m) api_host_scheme \<Rightarrow> nat \<Rightarrow> string \<Rightarrow> InstallationAccount list option action" where
  "InstallationAccounts H n token = installation_pages H token n 1 []"

section \<open>The store\<close>

definition auth_write ::
  "('m) host_scheme \<Rightarrow> effect \<Rightarrow> (env \<Rightarrow> db \<Rightarrow> auth_db \<Rightarrow> err + ('a \<times> auth_db)) \<Rightarrow> 'a action" where
  "auth_write H eff op = rec_write H eff (\<lambda>E d r.
     bind_sum (op E d (auth_rows r)) (\<lambda>(x, a). Inr (x, r\<lparr>auth_rows := a\<rparr>)))"

definition auth_unit :: "err + auth_db \<Rightarrow> err + (unit \<times> auth_db)" where
  "auth_unit r = bind_sum r (\<lambda>a. Inr ((), a))"

definition op_UpsertUser :: "('m) host_scheme \<Rightarrow> GitHubUser \<Rightarrow> User action" where
  "op_UpsertUser H gh = auth_write H (DbUpsertUser (gu_ID gh)) (\<lambda>E d. UpsertUser E gh)"

definition op_SyncMemberships ::
  "('m) host_scheme \<Rightarrow> string \<Rightarrow> InstallationAccount list \<Rightarrow> unit action" where
  "op_SyncMemberships H uid accounts = auth_write H (DbSyncMemberships uid)
     (\<lambda>E d a. auth_unit (SyncMemberships E uid accounts d a))"

text \<open>\<open>CreateSession\<close>: the token goes to the caller, its hash to the table.\<close>

definition CreateSession :: "('m) api_host_scheme \<Rightarrow> string \<Rightarrow> time \<Rightarrow> string action" where
  "CreateSession H uid ttl =
     abind (\<lambda>w. (wrap ''create session'' (a_random H (w_ops w)), w)) (\<lambda>raw.
     let token = base64url raw in
     aseq (auth_write H DbReapSessions (\<lambda>E d a. auth_unit (ReapSessions E a)))
     (aseq (auth_write H (DbCreateSession uid)
       (\<lambda>E d a. auth_unit (InsertSession E uid (hashToken (a_sha256 H) token) ttl a)))
     (ret token)))"

definition op_SessionUser :: "('m) api_host_scheme \<Rightarrow> string \<Rightarrow> User action" where
  "op_SessionUser H token = rec_read H (\<lambda>E d r. SessionUser (a_sha256 H) E token (auth_rows r))"

definition op_MemberOfRepository :: "('m) host_scheme \<Rightarrow> string \<Rightarrow> string \<Rightarrow> bool action" where
  "op_MemberOfRepository H uid rid = rec_read H (\<lambda>E d r. MemberOfRepository E uid rid d (auth_rows r))"

section \<open>The service\<close>

definition SessionTTL :: time where
  "SessionTTL = 30 * 24 * 3600 * second"

text \<open>\<open>Logout\<close>.\<close>

definition Logout :: "('m) api_host_scheme \<Rightarrow> string \<Rightarrow> unit action" where
  "Logout H token = auth_write H DbDeleteSession (\<lambda>E d a. auth_unit (DeleteSession (a_sha256 H) E token a))"

text \<open>
  \<open>CompleteLogin\<close>, reading at most \<open>n\<close> pages of installations; \<open>None\<close> when it is still reading them.
  A failure to read or store the memberships is only logged.
\<close>

definition CompleteLogin ::
  "('m) api_host_scheme \<Rightarrow> nat \<Rightarrow> string \<Rightarrow> string \<Rightarrow> (User \<times> string) option action" where
  "CompleteLogin H n code redirectURI =
     abind (ExchangeCode H code redirectURI) (\<lambda>token.
     abind (GetUser H token) (\<lambda>gh.
     abind (op_UpsertUser H gh) (\<lambda>user.
     abind (atry (InstallationAccounts H n token)) (\<lambda>r.
     if r = Inr None then ret None
     else
     aseq (case r of
         Inl e \<Rightarrow> ret ()
       | Inr accounts \<Rightarrow> best_effort (op_SyncMemberships H (su_ID user) (the accounts)))
     (abind (CreateSession H (su_ID user) SessionTTL) (\<lambda>session. ret (Some (user, session))))))))"

end
