(* ===== verification/DashboardReads.thy ===== *)
theory DashboardReads
  imports DashboardStore RunnerStore Effects
begin

text \<open>
  The read side of \<open>internal/dashboard/store.go\<close>: lists and details of organizations, repositories
  and runners. The collation key of the database (of a lower-cased text) and \<open>strconv.ParseFloat\<close>
  are parameters; the aggregates are exact where the database rounds to a double.
\<close>

section \<open>Organizations and repositories\<close>

definition ListOrganizations :: "(string \<Rightarrow> string) \<Rightarrow> env \<Rightarrow> db \<Rightarrow> err + OrganizationView list" where
  "ListOrganizations collate E d =
     bind_sum (wrap ''list organizations'' (driver E ''list organizations'')) (\<lambda>_.
       Inr (map (scan_organization d)
         (sort_key (\<lambda>x. (collate (o_Name x), o_ID x)) (organizations d))))"

definition repository_limit :: "int \<Rightarrow> int" where
  "repository_limit n = (let l = (if n \<le> 0 then 20 else n) in if 200 < l then 200 else l)"

fun scan_all :: "('a \<Rightarrow> err + 'b) \<Rightarrow> 'a list \<Rightarrow> err + 'b list" where
  "scan_all f [] = Inr []"
| "scan_all f (x # xs) = bind_sum (f x) (\<lambda>y. bind_sum (scan_all f xs) (\<lambda>ys. Inr (y # ys)))"

text \<open>\<open>ListRepositories\<close>; the empty organization is every organization.\<close>

definition ListRepositories ::
  "(string \<Rightarrow> string) \<Rightarrow> env \<Rightarrow> string \<Rightarrow> int \<Rightarrow> db \<Rightarrow> err + RepositoryView list" where
  "ListRepositories collate E oid n d =
     bind_sum (wrap ''list repositories'' (driver E ''list repositories'')) (\<lambda>_.
       scan_all (\<lambda>g. wrap ''scan repository'' (scanRepository E d g))
         (take (nat (repository_limit n))
           (sort_key (\<lambda>g. (- g_UpdatedAt g, collate (g_FullName g), g_ID g))
             (filter (\<lambda>g. oid = [] \<or> g_OrganizationID g = pg_uuid oid) (repositories d)))))"

section \<open>Metrics\<close>

record RepositoryMetrics =
  rm_TotalTasks :: int
  rm_ActiveTasks :: int
  rm_CompletedTasks :: int
  rm_FailedTasks :: int
  rm_CompletionRate :: "rat option"
  rm_MedianRuntimeMillis :: "int option"

definition count_tasks :: "(Task \<Rightarrow> bool) \<Rightarrow> Task list \<Rightarrow> int" where
  "count_tasks p ts = int (length (filter p ts))"

text \<open>\<open>percentile_cont(0.5)\<close>: the middle, or half way between the two in the middle.\<close>

definition median :: "int list \<Rightarrow> rat option" where
  "median xs =
     (let ys = sort xs; n = length ys in
      if n = 0 then None
      else Some (of_int (ys ! ((n - 1) div 2) + ys ! (n div 2)) / 2))"

definition runtimes :: "Task list \<Rightarrow> int list" where
  "runtimes ts = concat (map (\<lambda>t. case (t_StartedAt t, t_CompletedAt t) of
     (Some s, Some c) \<Rightarrow> [c - s] | _ \<Rightarrow> []) ts)"

text \<open>Instants count nanoseconds; \<open>int64\<close> of a double cuts off towards zero.\<close>

definition truncate_rat :: "rat \<Rightarrow> int" where
  "truncate_rat q = (if 0 \<le> q then floor q else ceiling q)"

definition repositoryMetrics :: "env \<Rightarrow> string \<Rightarrow> db \<Rightarrow> err + RepositoryMetrics" where
  "repositoryMetrics E rid d =
     bind_sum (wrap ''repository metrics'' (driver E ''repository metrics'')) (\<lambda>_.
     let ts = repository_tasks d (pg_uuid rid);
         completed = count_tasks (\<lambda>t. t_Status t = StatusCompleted) ts;
         ended = count_tasks (\<lambda>t. t_Phase t = PhaseTerminal) ts in
     Inr \<lparr>rm_TotalTasks = int (length ts),
       rm_ActiveTasks = count_tasks (\<lambda>t. t_Phase t \<noteq> PhaseTerminal) ts,
       rm_CompletedTasks = completed,
       rm_FailedTasks = count_tasks (\<lambda>t. t_Status t = StatusFailed \<or> t_Status t = StatusTimedOut) ts,
       rm_CompletionRate = (if ended = 0 then None else Some (of_int completed / of_int ended)),
       rm_MedianRuntimeMillis = map_option (\<lambda>q. truncate_rat (q / 1000000)) (median (runtimes ts))\<rparr>)"

section \<open>Tasks\<close>

record TaskSummary =
  ts_ID :: string
  ts_Title :: string
  ts_Status :: status
  ts_Phase :: phase
  ts_SourceIssueNumber :: "int option"
  ts_StartedAt :: "time option"
  ts_CompletedAt :: "time option"
  ts_FailureMessage :: "string option"
  ts_StatusReason :: "string option"
  ts_CreatedAt :: time
  ts_UpdatedAt :: time

definition task_summary :: "Task \<Rightarrow> TaskSummary" where
  "task_summary t = \<lparr>ts_ID = t_ID t, ts_Title = t_Title t, ts_Status = t_Status t,
     ts_Phase = t_Phase t, ts_SourceIssueNumber = t_SourceIssueNumber t,
     ts_StartedAt = t_StartedAt t, ts_CompletedAt = t_CompletedAt t,
     ts_FailureMessage = t_FailureMessage t, ts_StatusReason = t_StatusReason t,
     ts_CreatedAt = t_CreatedAt t, ts_UpdatedAt = t_UpdatedAt t\<rparr>"

text \<open>\<open>ORDER BY updated_at DESC, id DESC LIMIT 10\<close>, then \<open>scanTasks\<close>.\<close>

definition scanTasks :: "Task list \<Rightarrow> TaskSummary list" where
  "scanTasks ts = map task_summary (take 10 (rev (sort_key (\<lambda>t. (t_UpdatedAt t, t_ID t)) ts)))"

definition repositoryTasks :: "env \<Rightarrow> string \<Rightarrow> bool \<Rightarrow> db \<Rightarrow> err + TaskSummary list" where
  "repositoryTasks E rid active d =
     bind_sum (wrap ''repository tasks'' (driver E ''repository tasks'')) (\<lambda>_.
       Inr (scanTasks (filter (\<lambda>t. active \<longrightarrow> t_Phase t \<noteq> PhaseTerminal)
         (repository_tasks d (pg_uuid rid)))))"

record RepositoryDetail =
  rd_Repository :: RepositoryView
  rd_Metrics :: RepositoryMetrics
  rd_ActiveTasks :: "TaskSummary list"
  rd_RecentTasks :: "TaskSummary list"

text \<open>The first of the four queries of \<open>GetRepository\<close>.\<close>

definition get_repository :: "env \<Rightarrow> string \<Rightarrow> db \<Rightarrow> err + RepositoryView" where
  "get_repository E rid d =
     bind_sum (wrap ''get repository'' (driver E ''get repository'')) (\<lambda>_.
     case find_repository d rid of
       None \<Rightarrow> Inl (Sentinel ErrRepositoryMissing)
     | Some g \<Rightarrow> wrap ''get repository'' (scanRepository E d g))"

text \<open>Other processes may write between the queries.\<close>

definition GetRepository :: "('m) host_scheme \<Rightarrow> string \<Rightarrow> RepositoryDetail action" where
  "GetRepository H rid =
     abind (db_read H (\<lambda>E. get_repository E rid)) (\<lambda>v.
     abind (db_read H (\<lambda>E. repositoryMetrics E rid)) (\<lambda>m.
     abind (db_read H (\<lambda>E. repositoryTasks E rid True)) (\<lambda>active.
     abind (db_read H (\<lambda>E. repositoryTasks E rid False)) (\<lambda>recent.
     ret \<lparr>rd_Repository = v, rd_Metrics = m, rd_ActiveTasks = active, rd_RecentTasks = recent\<rparr>))))"

section \<open>Runners\<close>

abbreviation ErrRunnerMissing :: sentinel where
  "ErrRunnerMissing \<equiv> ResourceNotFound ''runner not found''"

text \<open>What \<open>strconv.ParseFloat\<close> returns; an infinity is a number outside the range of a percentage.\<close>

datatype go_float = NaN | Number rat

record ResourceUsage =
  ru_CPUPercent :: "go_float option"
  ru_MemoryPercent :: "go_float option"
  ru_DiskPercent :: "go_float option"

record RunnerView =
  rw_ID :: string
  rw_Type :: string
  rw_HostnameOrPod :: string
  rw_Status :: runner_status
  rw_Capacity :: int
  rw_ActiveTaskCount :: int
  rw_Labels :: "(string \<times> string) list"
  rw_Resources :: ResourceUsage
  rw_LastHeartbeatAt :: time
  rw_CreatedAt :: time
  rw_UpdatedAt :: time

text \<open>A number below 0 or above 100 is not shown; NaN is neither.\<close>

definition percent :: "(string \<Rightarrow> go_float option) \<Rightarrow> string \<Rightarrow> go_float option" where
  "percent parse value =
     (case parse value of
        None \<Rightarrow> None
      | Some NaN \<Rightarrow> Some NaN
      | Some (Number q) \<Rightarrow> if q < 0 \<or> 100 < q then None else Some (Number q))"

definition label_of :: "(string \<times> string) list \<Rightarrow> string \<Rightarrow> string" where
  "label_of labels k = (case map_of labels k of None \<Rightarrow> [] | Some v \<Rightarrow> v)"

definition resourceUsage :: "(string \<Rightarrow> go_float option) \<Rightarrow> (string \<times> string) list \<Rightarrow> ResourceUsage" where
  "resourceUsage parse labels =
     \<lparr>ru_CPUPercent = percent parse (label_of labels ''cpu_percent''),
      ru_MemoryPercent = percent parse (label_of labels ''memory_percent''),
      ru_DiskPercent = percent parse (label_of labels ''disk_percent'')\<rparr>"

definition scanRunner :: "(string \<Rightarrow> go_float option) \<Rightarrow> db \<Rightarrow> Runner \<Rightarrow> RunnerView" where
  "scanRunner parse d r =
     \<lparr>rw_ID = r_ID r, rw_Type = r_Type r, rw_HostnameOrPod = r_HostnameOrPod r,
      rw_Status = r_Status r, rw_Capacity = r_Capacity r,
      rw_ActiveTaskCount = int (length (filter (\<lambda>a. a_LeaseOwner a = Some (r_ID r)
        \<and> a_Status a = AttemptActive) (attempts d))),
      rw_Labels = r_Labels r, rw_Resources = resourceUsage parse (r_Labels r),
      rw_LastHeartbeatAt = r_LastHeartbeatAt r, rw_CreatedAt = r_CreatedAt r,
      rw_UpdatedAt = r_UpdatedAt r\<rparr>"

definition ListRunners :: "(string \<Rightarrow> go_float option) \<Rightarrow> env \<Rightarrow> db \<Rightarrow> err + RunnerView list" where
  "ListRunners parse E d =
     bind_sum (wrap ''list runners'' (driver E ''list runners'')) (\<lambda>_.
       Inr (map (scanRunner parse d) (sort_key (\<lambda>r. (- r_LastHeartbeatAt r, r_ID r)) (runners d))))"

definition runnerTasks :: "env \<Rightarrow> string \<Rightarrow> bool \<Rightarrow> db \<Rightarrow> err + TaskSummary list" where
  "runnerTasks E rid current d =
     bind_sum (wrap ''runner tasks'' (driver E ''runner tasks'')) (\<lambda>_.
       Inr (scanTasks (filter (\<lambda>t. list_ex (\<lambda>a. a_TaskID a = t_ID t \<and>
         (if current then a_LeaseOwner a = Some (pg_uuid rid) \<and> a_Status a = AttemptActive
          else a_RunnerID a = Some (pg_uuid rid) \<and>
            (t_Status t = StatusFailed \<or> t_Status t = StatusTimedOut))) (attempts d)) (tasks d))))"

record RunnerDetail =
  nd_Runner :: RunnerView
  nd_CurrentTasks :: "TaskSummary list"
  nd_RecentFailures :: "TaskSummary list"

definition get_runner :: "(string \<Rightarrow> go_float option) \<Rightarrow> env \<Rightarrow> string \<Rightarrow> db \<Rightarrow> err + RunnerView" where
  "get_runner parse E rid d =
     bind_sum (wrap ''get runner'' (driver E ''get runner'')) (\<lambda>_.
     case find (\<lambda>r. r_ID r = pg_uuid rid) (runners d) of
       None \<Rightarrow> Inl (Sentinel ErrRunnerMissing)
     | Some r \<Rightarrow> Inr (scanRunner parse d r))"

definition GetRunner ::
  "('m) host_scheme \<Rightarrow> (string \<Rightarrow> go_float option) \<Rightarrow> string \<Rightarrow> RunnerDetail action" where
  "GetRunner H parse rid =
     abind (db_read H (\<lambda>E. get_runner parse E rid)) (\<lambda>r.
     abind (db_read H (\<lambda>E. runnerTasks E rid True)) (\<lambda>current.
     abind (db_read H (\<lambda>E. runnerTasks E rid False)) (\<lambda>failures.
     ret \<lparr>nd_Runner = r, nd_CurrentTasks = current, nd_RecentFailures = failures\<rparr>)))"

end
