(* ===== verification/HttpApi.thy ===== *)
theory HttpApi
  imports AuthService DashboardReads Webhook EventStream
begin

text \<open>
  \<open>internal/httpapi\<close>: the routes of the API and their handlers, over the stores and the login. A
  response is its status, its body before it is encoded, the cookies it sets and where it redirects
  to. Logs, metrics and the middleware around the routes are left out.
\<close>

section \<open>Requests and responses\<close>

text \<open>
  The path is cut at its slashes; cookies and query values are parsed. \<open>hq_ContentLength\<close> is -1
  for a body of unknown length.
\<close>

record http_request =
  hq_Method :: string
  hq_Path :: "string list"
  hq_Query :: "(string \<times> string) list"
  hq_Cookies :: "(string \<times> string) list"
  hq_LastEventID :: string
  hq_ContentLength :: int
  hq_Body :: string

datatype reply_body =
    NoBody | ErrorBody string | StatusBody "(string \<times> string) list"
  | TaskBody Task | TasksBody "Task list" | EventsBody "(int \<times> Event) list"
  | AttemptsBody "Attempt list" | ValidationsBody "(int \<times> ValidationRow) list"
  | EvidenceBody "int \<times> EvidenceRow" | ConflictsBody "(ConflictRow \<times> Task) list"
  | TraceBody json | InsightsBody json | StreamBody streamCursor
  | OrganizationsBody "OrganizationView list" | OrganizationBody OrganizationView
  | RepositoriesBody "RepositoryView list" | RepositoryBody RepositoryView
  | RepositoryDetailBody RepositoryDetail | SettingsBody Settings
  | RunnersBody "RunnerView list" | RunnerBody RunnerDetail
  | MeBody User string

record set_cookie =
  ck_Name :: string
  ck_Value :: string
  ck_MaxAge :: int
  ck_Secure :: bool

record http_response =
  hs_Status :: nat
  hs_Body :: reply_body
  hs_SetCookies :: "set_cookie list"
  hs_Location :: string

definition writeJSON :: "nat \<Rightarrow> reply_body \<Rightarrow> http_response" where
  "writeJSON code body = \<lparr>hs_Status = code, hs_Body = body, hs_SetCookies = [], hs_Location = []\<rparr>"

definition writeError :: "nat \<Rightarrow> string \<Rightarrow> http_response" where
  "writeError code msg = writeJSON code (ErrorBody msg)"

definition redirect :: "string \<Rightarrow> http_response" where
  "redirect loc = \<lparr>hs_Status = 302, hs_Body = NoBody, hs_SetCookies = [], hs_Location = loc\<rparr>"

definition with_cookie :: "set_cookie \<Rightarrow> http_response \<Rightarrow> http_response" where
  "with_cookie c resp = resp\<lparr>hs_SetCookies := c # hs_SetCookies resp\<rparr>"

definition query_get :: "http_request \<Rightarrow> string \<Rightarrow> string" where
  "query_get rq k = (case map_of (hq_Query rq) k of None \<Rightarrow> [] | Some v \<Rightarrow> v)"

definition cookie :: "http_request \<Rightarrow> string \<Rightarrow> string option" where
  "cookie rq name = map_of (hq_Cookies rq) name"

section \<open>The server\<close>

text \<open>\<open>Server\<close>: which services are configured, and the handlers it is given.\<close>

record server =
  sv_DB :: bool
  sv_Tasks :: bool
  sv_Validations :: bool
  sv_Evidence :: bool
  sv_Dashboard :: bool
  sv_Conflicts :: bool
  sv_Traces :: bool
  sv_Insights :: bool
  sv_Auth :: bool
  sv_CancelObserver :: bool
  sv_OAuth :: OAuthClient
  sv_InstallURL :: string
  sv_PublicOrigin :: string
  sv_CookieSecure :: bool
  sv_Pages :: nat

record http_host = api_host +
  b_ping :: "nat \<Rightarrow> err + unit"
  b_webhook :: "(http_request \<Rightarrow> http_response action) option"
  b_metrics :: "(http_request \<Rightarrow> http_response action) option"
  b_trace :: "nat \<Rightarrow> string \<Rightarrow> int \<Rightarrow> err + json"
  b_insights :: "nat \<Rightarrow> string \<Rightarrow> err + json"
  b_collate :: "string \<Rightarrow> string"
  b_parse_float :: "string \<Rightarrow> go_float option"

definition maxBodyBytes :: nat where
  "maxBodyBytes = 2 ^ 20"

text \<open>
  \<open>decodeJSON\<close>: the first document within the limit, into a struct without unknown members;
  \<open>unmarshal\<close> is the decoder of the struct.
\<close>

definition decodeJSON ::
  "('m) api_host_scheme \<Rightarrow> http_request \<Rightarrow> (json \<Rightarrow> err + 'a) \<Rightarrow> http_response + 'a" where
  "decodeJSON H rq unmarshal =
     (case bind_sum (a_decode_body H (take maxBodyBytes (hq_Body rq))) unmarshal of
        Inl e \<Rightarrow> Inl (writeError 400 (''invalid JSON body: '' @ err_text e))
      | Inr x \<Rightarrow> Inr x)"

definition unknown_field :: "string \<Rightarrow> err" where
  "unknown_field k = Msg (''json: unknown field '' @ quote k)"

section \<open>Errors\<close>

definition conflict_error :: "sentinel \<Rightarrow> bool" where
  "conflict_error s = (case s of InvalidTransitionError a b \<Rightarrow> True
     | VersionConflictError a b \<Rightarrow> True | _ \<Rightarrow> False)"

definition writeTaskError :: "err \<Rightarrow> http_response" where
  "writeTaskError e =
     (if err_is ErrNotFound e then writeError 404 ''task not found''
      else if err_is ErrAttemptNotFound e then writeError 404 ''task attempt not found''
      else if err_as conflict_error e \<noteq> None then writeError 409 (err_text e)
      else writeError 500 ''internal error'')"

definition writeTasksUnavailable :: http_response where
  "writeTasksUnavailable = writeError 503 ''task API unavailable: database not configured''"

definition writeDashboardError :: "err \<Rightarrow> http_response" where
  "writeDashboardError e =
     (if err_is ErrOrganizationNotFound e then writeError 404 ''organization not found''
      else if err_is ErrRepositoryMissing e then writeError 404 ''repository not found''
      else if err_is ErrRunnerMissing e then writeError 404 ''runner not found''
      else if err_is ErrInvalidSettings e then writeError 400 (err_text e)
      else writeError 500 ''internal error'')"

definition dashboard_unavailable :: http_response where
  "dashboard_unavailable = writeError 503 ''dashboard API unavailable: database not configured''"

text \<open>A service call whose error becomes a response.\<close>

definition reply ::
  "(err \<Rightarrow> http_response) \<Rightarrow> 'a action \<Rightarrow> ('a \<Rightarrow> http_response action) \<Rightarrow> http_response action" where
  "reply on_error m f =
     abind (atry m) (\<lambda>r. case r of Inl e \<Rightarrow> ret (on_error e) | Inr x \<Rightarrow> f x)"

text \<open>A read of a service that is not modelled.\<close>

definition service_read :: "(nat \<Rightarrow> err + 'a) \<Rightarrow> 'a action" where
  "service_read answer = (\<lambda>w. (answer (w_ops w), w\<lparr>w_ops := w_ops w + 1\<rparr>))"

section \<open>Parameters of requests\<close>

definition queryLimit :: "http_request \<Rightarrow> int \<Rightarrow> http_response + int" where
  "queryLimit rq maxLimit =
     (let v = query_get rq ''limit'' in
      if v = [] then Inr 0
      else case Atoi v of
        None \<Rightarrow> Inl (writeError 400 (''limit must be an integer between 1 and '' @ int_string maxLimit))
      | Some n \<Rightarrow>
          if n < 1 \<or> maxLimit < n then
            Inl (writeError 400 (''limit must be an integer between 1 and '' @ int_string maxLimit))
          else Inr n)"

definition queryAttempt :: "http_request \<Rightarrow> http_response + int" where
  "queryAttempt rq =
     (let v = query_get rq ''attempt''; bad = Inl (writeError 400 ''attempt must be an integer between 1 and 2147483647'') in
      if v = [] then Inr 0
      else case Atoi v of
        None \<Rightarrow> bad
      | Some n \<Rightarrow> if n < 1 \<or> 2147483647 < n then bad else Inr n)"

text \<open>\<open>pathUUID\<close>, and \<open>pathTaskID\<close> for \<open>taskId\<close>.\<close>

definition pathUUID :: "string \<Rightarrow> string \<Rightarrow> (string \<Rightarrow> http_response action) \<Rightarrow> http_response action" where
  "pathUUID name v f =
     (if \<not> IsUUID v then ret (writeError 400 (name @ '' must be a UUID'')) else f v)"

abbreviation pathTaskID :: "string \<Rightarrow> (string \<Rightarrow> http_response action) \<Rightarrow> http_response action" where
  "pathTaskID v f \<equiv> pathUUID ''taskId'' v f"

definition checked :: "http_response + 'a \<Rightarrow> ('a \<Rightarrow> http_response action) \<Rightarrow> http_response action" where
  "checked r f = (case r of Inl resp \<Rightarrow> ret resp | Inr x \<Rightarrow> f x)"

end
