(* ===== verification/HttpHandlers.thy ===== *)
theory HttpHandlers
  imports HttpApi
begin

text \<open>
  The handlers of \<open>internal/httpapi\<close>: \<open>tasks.go\<close>, \<open>conflicts.go\<close>, \<open>traces.go\<close>, \<open>insights.go\<close>, the start
  of \<open>stream.go\<close>, \<open>dashboard.go\<close>, \<open>auth.go\<close>, and the routes of \<open>server.go\<close>. A handler under
  \<open>requireSession\<close> is given the user of the session, \<open>None\<close> where no login is configured.
\<close>

section \<open>Tasks\<close>

record createTaskRequest =
  cq_Title :: string
  cq_Instructions :: string
  cq_Priority :: int
  cq_BaseBranch :: string
  cq_MaxRuntimeSeconds :: "int option"
  cq_MaxCostUSD :: "rat option"

definition no_create_request :: createTaskRequest where
  "no_create_request = \<lparr>cq_Title = [], cq_Instructions = [], cq_Priority = 0, cq_BaseBranch = [],
     cq_MaxRuntimeSeconds = None, cq_MaxCostUSD = None\<rparr>"

definition decode_float_ptr :: "(string \<Rightarrow> rat option) \<Rightarrow> json \<Rightarrow> err + rat option" where
  "decode_float_ptr parse j =
     (case j of
        JNum lit \<Rightarrow> (case parse lit of
           Some q \<Rightarrow> Inr (Some q)
         | None \<Rightarrow> Inl (Msg ''json: cannot unmarshal number into Go struct field of type float64''))
      | JNull \<Rightarrow> Inr None
      | _ \<Rightarrow> Inl (Msg ''json: cannot unmarshal into Go struct field of type float64''))"

definition create_member ::
  "(string \<Rightarrow> rat option) \<Rightarrow> string \<Rightarrow> json \<Rightarrow> createTaskRequest \<Rightarrow> err + createTaskRequest" where
  "create_member parse k j r =
     (if k = ''title'' then
        bind_sum (decode_string j (cq_Title r)) (\<lambda>s. Inr (r\<lparr>cq_Title := s\<rparr>))
      else if k = ''instructions'' then
        bind_sum (decode_string j (cq_Instructions r)) (\<lambda>s. Inr (r\<lparr>cq_Instructions := s\<rparr>))
      else if k = ''priority'' then
        bind_sum (decode_int j (cq_Priority r)) (\<lambda>n. Inr (r\<lparr>cq_Priority := n\<rparr>))
      else if k = ''base_branch'' then
        bind_sum (decode_string j (cq_BaseBranch r)) (\<lambda>s. Inr (r\<lparr>cq_BaseBranch := s\<rparr>))
      else if k = ''max_runtime_seconds'' then
        bind_sum (decode_int_ptr j) (\<lambda>n. Inr (r\<lparr>cq_MaxRuntimeSeconds := n\<rparr>))
      else if k = ''max_cost_usd'' then
        bind_sum (decode_float_ptr parse j) (\<lambda>q. Inr (r\<lparr>cq_MaxCostUSD := q\<rparr>))
      else Inl (unknown_field k))"

definition validate_request :: "createTaskRequest \<Rightarrow> err + unit" where
  "validate_request r =
     (if TrimSpace (cq_Title r) = [] \<or> 500 < length (cq_Title r) then
        Inl (Msg ''title is required and must be at most 500 characters'')
      else if TrimSpace (cq_Instructions r) = [] \<or> 100000 < length (cq_Instructions r) then
        Inl (Msg ''instructions are required and must be at most 100000 characters'')
      else if cq_Priority r < -100 \<or> 100 < cq_Priority r then
        Inl (Msg ''priority must be between -100 and 100'')
      else if 255 < length (cq_BaseBranch r) \<or>
          list_ex (\<lambda>c. c = CHR '' '' \<or> c = CHR 0x09 \<or> c = CHR 0x0A) (cq_BaseBranch r) then
        Inl (Msg ''base_branch must be at most 255 characters with no whitespace'')
      else if (case cq_MaxRuntimeSeconds r of None \<Rightarrow> False | Some n \<Rightarrow> n < 1 \<or> 86400 < n) then
        Inl (Msg ''max_runtime_seconds must be between 1 and 86400'')
      else if (case cq_MaxCostUSD r of None \<Rightarrow> False | Some q \<Rightarrow> q < 0 \<or> 100000 < q) then
        Inl (Msg ''max_cost_usd must be between 0 and 100000'')
      else Inr ())"

definition request_params :: "createTaskRequest \<Rightarrow> CreateParams" where
  "request_params r = \<lparr>c_Title = TrimSpace (cq_Title r), c_Instructions = cq_Instructions r,
     c_Priority = cq_Priority r, c_BaseBranch = cq_BaseBranch r,
     c_MaxRuntimeSeconds = cq_MaxRuntimeSeconds r, c_MaxCostUSD = cq_MaxCostUSD r,
     c_SourceType = [], c_SourceIssueNumber = None, c_SourceCommentID = None,
     c_OrganizationID = None, c_RepositoryID = None, c_RequestedByLogin = []\<rparr>"

definition handleCreateTask :: "('m) http_host_scheme \<Rightarrow> server \<Rightarrow> http_request \<Rightarrow> http_response action" where
  "handleCreateTask H S rq =
     (if \<not> sv_Tasks S then ret writeTasksUnavailable
      else checked (decodeJSON H rq (decode_struct (create_member (a_parse_float H)) no_create_request)) (\<lambda>req.
      case validate_request req of
        Inl e \<Rightarrow> ret (writeError 400 (err_text e))
      | Inr _ \<Rightarrow> reply writeTaskError (op_Create H (request_params req)) (\<lambda>t.
          ret (writeJSON 201 (TaskBody t)))))"

definition status_of :: "string \<Rightarrow> status" where
  "status_of v = (case find (\<lambda>s. status_string s = v) AllStatuses of
     Some s \<Rightarrow> s | None \<Rightarrow> StatusOther v)"

definition handleListTasks :: "('m) http_host_scheme \<Rightarrow> server \<Rightarrow> http_request \<Rightarrow> http_response action" where
  "handleListTasks H S rq =
     (if \<not> sv_Tasks S then ret writeTasksUnavailable
      else let v = query_get rq ''status'' in
      if v \<noteq> [] \<and> \<not> Valid (status_of v) then ret (writeError 400 (''unknown status '' @ quote v))
      else checked (queryLimit rq 200) (\<lambda>limit.
        reply writeTaskError (db_read H (\<lambda>E. ListTasks E (status_of v) limit)) (\<lambda>ts.
        ret (writeJSON 200 (TasksBody ts)))))"

definition handleGetTask :: "('m) http_host_scheme \<Rightarrow> server \<Rightarrow> string \<Rightarrow> http_response action" where
  "handleGetTask H S tid =
     (if \<not> sv_Tasks S then ret writeTasksUnavailable
      else pathTaskID tid (\<lambda>tid.
        reply writeTaskError (op_Get H tid) (\<lambda>t. ret (writeJSON 200 (TaskBody t)))))"

definition cancel_member :: "string \<Rightarrow> json \<Rightarrow> string \<Rightarrow> err + string" where
  "cancel_member k j r = (if k = ''reason'' then decode_string j r else Inl (unknown_field k))"

definition handleCancelTask ::
  "('m) http_host_scheme \<Rightarrow> server \<Rightarrow> http_request \<Rightarrow> string \<Rightarrow> http_response action" where
  "handleCancelTask H S rq tid =
     (if \<not> sv_Tasks S then ret writeTasksUnavailable
      else pathTaskID tid (\<lambda>tid.
        checked (if hq_ContentLength rq \<noteq> 0 then decodeJSON H rq (decode_struct cancel_member []) else Inr [])
          (\<lambda>reason.
        if 1000 < length reason then ret (writeError 400 ''reason must be at most 1000 characters'')
        else reply writeTaskError (db_write H (DbCancel tid reason) (\<lambda>E. Cancel E tid reason)) (\<lambda>t.
        aseq (if sv_CancelObserver S \<and> t_Status t = StatusCancelled then TaskCancelled H t else ret ())
          (ret (writeJSON 200 (TaskBody t)))))))"

definition handleTaskEvents ::
  "('m) http_host_scheme \<Rightarrow> server \<Rightarrow> http_request \<Rightarrow> string \<Rightarrow> http_response action" where
  "handleTaskEvents H S rq tid =
     (if \<not> sv_Tasks S then ret writeTasksUnavailable
      else pathTaskID tid (\<lambda>tid. checked (queryLimit rq 1000) (\<lambda>limit.
        reply writeTaskError (db_read H (\<lambda>E. Events E tid limit)) (\<lambda>es.
        ret (writeJSON 200 (EventsBody es))))))"

definition handleTaskAttempts :: "('m) http_host_scheme \<Rightarrow> server \<Rightarrow> string \<Rightarrow> http_response action" where
  "handleTaskAttempts H S tid =
     (if \<not> sv_Tasks S then ret writeTasksUnavailable
      else pathTaskID tid (\<lambda>tid.
        reply writeTaskError (op_Attempts H tid) (\<lambda>as. ret (writeJSON 200 (AttemptsBody as)))))"

definition handleTaskValidations :: "('m) http_host_scheme \<Rightarrow> server \<Rightarrow> string \<Rightarrow> http_response action" where
  "handleTaskValidations H S tid =
     (if \<not> sv_Validations S then ret writeTasksUnavailable
      else pathTaskID tid (\<lambda>tid.
        reply writeTaskError (rec_read H (\<lambda>E d r. ListResultsForTask E tid d (validation_results r))) (\<lambda>vs.
        ret (writeJSON 200 (ValidationsBody vs)))))"

definition evidence_error :: "err \<Rightarrow> http_response" where
  "evidence_error e =
     (if err_is ErrNoReport e then writeError 404 ''no evidence report for task'' else writeTaskError e)"

definition handleTaskEvidence ::
  "('m) http_host_scheme \<Rightarrow> server \<Rightarrow> http_request \<Rightarrow> string \<Rightarrow> http_response action" where
  "handleTaskEvidence H S rq tid =
     (if \<not> sv_Evidence S then ret writeTasksUnavailable
      else pathTaskID tid (\<lambda>tid. checked (queryAttempt rq) (\<lambda>attempt.
        reply evidence_error (rec_read H (\<lambda>E d r.
          if attempt = 0 then GetReportForTask E tid d (evidence_reports r)
          else GetReportForTaskAttempt E tid attempt d (evidence_reports r))) (\<lambda>st.
        ret (writeJSON 200 (EvidenceBody st))))))"

definition handleTaskConflicts :: "('m) http_host_scheme \<Rightarrow> server \<Rightarrow> string \<Rightarrow> http_response action" where
  "handleTaskConflicts H S tid =
     (if \<not> sv_Conflicts S then ret writeTasksUnavailable
      else pathTaskID tid (\<lambda>tid.
        reply writeTaskError (rec_read H (\<lambda>E d r. ListConflicts E tid d (task_conflicts r))) (\<lambda>cs.
        ret (writeJSON 200 (ConflictsBody cs)))))"

definition handleTaskTrace ::
  "('m) http_host_scheme \<Rightarrow> server \<Rightarrow> http_request \<Rightarrow> string \<Rightarrow> http_response action" where
  "handleTaskTrace H S rq tid =
     (if \<not> sv_Tasks S \<or> \<not> sv_Traces S then ret writeTasksUnavailable
      else pathTaskID tid (\<lambda>tid. checked (queryAttempt rq) (\<lambda>attempt.
        reply writeTaskError (op_Get H tid) (\<lambda>t.
        reply writeTaskError (service_read (\<lambda>k. b_trace H k tid attempt)) (\<lambda>trace.
        ret (writeJSON 200 (TraceBody trace)))))))"

definition handleTaskInsights :: "('m) http_host_scheme \<Rightarrow> server \<Rightarrow> string \<Rightarrow> http_response action" where
  "handleTaskInsights H S tid =
     (if \<not> sv_Insights S then ret writeTasksUnavailable
      else pathTaskID tid (\<lambda>tid.
        reply writeTaskError (service_read (\<lambda>k. b_insights H k tid)) (\<lambda>result.
        ret (writeJSON 200 (InsightsBody result)))))"

text \<open>\<open>handleTaskStream\<close> up to its headers; what it then writes is \<open>StreamLoop\<close>'s.\<close>

definition handleTaskStream ::
  "('m) http_host_scheme \<Rightarrow> server \<Rightarrow> http_request \<Rightarrow> string \<Rightarrow> http_response action" where
  "handleTaskStream H S rq tid =
     (if \<not> sv_Tasks S then ret writeTasksUnavailable
      else pathTaskID tid (\<lambda>tid.
        case requestCursor (hq_LastEventID rq) (query_get rq ''last_event_id'') of
          Inl e \<Rightarrow> ret (writeError 400 (err_text e))
        | Inr cursor \<Rightarrow> reply writeTaskError (op_Get H tid) (\<lambda>t.
            ret (writeJSON 200 (StreamBody cursor)))))"

section \<open>The dashboard\<close>

definition dashboard_reply ::
  "server \<Rightarrow> 'a action \<Rightarrow> ('a \<Rightarrow> reply_body) \<Rightarrow> http_response action" where
  "dashboard_reply S m body =
     reply writeDashboardError m (\<lambda>x. ret (writeJSON 200 (body x)))"

definition with_dashboard :: "server \<Rightarrow> http_response action \<Rightarrow> http_response action" where
  "with_dashboard S m = (if \<not> sv_Dashboard S then ret dashboard_unavailable else m)"

definition handleListOrganizations :: "('m) http_host_scheme \<Rightarrow> server \<Rightarrow> http_response action" where
  "handleListOrganizations H S =
     with_dashboard S (dashboard_reply S (db_read H (ListOrganizations (b_collate H))) OrganizationsBody)"

definition handleGetOrganization :: "('m) http_host_scheme \<Rightarrow> server \<Rightarrow> string \<Rightarrow> http_response action" where
  "handleGetOrganization H S oid =
     with_dashboard S (pathUUID ''organizationId'' oid (\<lambda>oid.
       dashboard_reply S (db_read H (\<lambda>E. GetOrganization E oid)) OrganizationBody))"

definition handleOrganizationRepositories ::
  "('m) http_host_scheme \<Rightarrow> server \<Rightarrow> http_request \<Rightarrow> string \<Rightarrow> http_response action" where
  "handleOrganizationRepositories H S rq oid =
     with_dashboard S (pathUUID ''organizationId'' oid (\<lambda>oid.
       reply writeDashboardError (db_read H (\<lambda>E. GetOrganization E oid)) (\<lambda>_.
       checked (queryLimit rq 200) (\<lambda>limit.
       dashboard_reply S (db_read H (\<lambda>E. ListRepositories (b_collate H) E oid limit)) RepositoriesBody))))"

definition handleListRepositories ::
  "('m) http_host_scheme \<Rightarrow> server \<Rightarrow> http_request \<Rightarrow> http_response action" where
  "handleListRepositories H S rq =
     with_dashboard S (checked (queryLimit rq 200) (\<lambda>limit.
       dashboard_reply S (db_read H (\<lambda>E. ListRepositories (b_collate H) E [] limit)) RepositoriesBody))"

definition handleGetRepository :: "('m) http_host_scheme \<Rightarrow> server \<Rightarrow> string \<Rightarrow> http_response action" where
  "handleGetRepository H S rid =
     with_dashboard S (pathUUID ''repositoryId'' rid (\<lambda>rid.
       dashboard_reply S (GetRepository H rid) RepositoryDetailBody))"

definition handleRepositorySettings :: "('m) http_host_scheme \<Rightarrow> server \<Rightarrow> string \<Rightarrow> http_response action" where
  "handleRepositorySettings H S rid =
     with_dashboard S (pathUUID ''repositoryId'' rid (\<lambda>rid.
       dashboard_reply S (db_read H (\<lambda>E. GetRepositorySettings E rid)) SettingsBody))"

definition handleListRunners :: "('m) http_host_scheme \<Rightarrow> server \<Rightarrow> http_response action" where
  "handleListRunners H S =
     with_dashboard S (dashboard_reply S (db_read H (ListRunners (b_parse_float H))) RunnersBody)"

definition handleGetRunner :: "('m) http_host_scheme \<Rightarrow> server \<Rightarrow> string \<Rightarrow> http_response action" where
  "handleGetRunner H S rid =
     with_dashboard S (pathUUID ''runnerId'' rid (\<lambda>rid.
       dashboard_reply S (GetRunner H (b_parse_float H) rid) RunnerBody))"

section \<open>Changes of a repository\<close>

text \<open>\<open>authorizeRepositoryMember\<close>; without a login everyone may.\<close>

definition authorizeRepositoryMember ::
  "('m) http_host_scheme \<Rightarrow> server \<Rightarrow> User option \<Rightarrow> string \<Rightarrow> http_response action \<Rightarrow>
    http_response action" where
  "authorizeRepositoryMember H S user rid allowed =
     (if \<not> sv_Auth S then allowed
      else case user of
        None \<Rightarrow> ret (writeError 401 ''authentication required'')
      | Some u \<Rightarrow>
          reply writeDashboardError (op_MemberOfRepository H (su_ID u) rid) (\<lambda>member.
          if \<not> member then ret (writeError 403 (''not a member of this repository'' @ [CHR 0x27] @ ''s organization''))
          else allowed))"

definition settings_member :: "string \<Rightarrow> json \<Rightarrow> int option \<Rightarrow> err + int option" where
  "settings_member k j r =
     (if k = ''max_attempts'' then decode_int_ptr j else Inl (unknown_field k))"

definition handleUpdateRepositorySettings ::
  "('m) http_host_scheme \<Rightarrow> server \<Rightarrow> User option \<Rightarrow> http_request \<Rightarrow> string \<Rightarrow> http_response action" where
  "handleUpdateRepositorySettings H S user rq rid =
     with_dashboard S (pathUUID ''repositoryId'' rid (\<lambda>rid.
       authorizeRepositoryMember H S user rid (
       checked (decodeJSON H rq (decode_struct settings_member None)) (\<lambda>req.
       case req of
         None \<Rightarrow> ret (writeError 400 ''max_attempts is required'')
       | Some n \<Rightarrow>
           (case ValidateMaxAttempts n of
              Inl e \<Rightarrow> ret (writeError 400 (err_text e))
            | Inr _ \<Rightarrow> dashboard_reply S (db_write H (DbUpdateSettings rid)
                (\<lambda>E. UpdateRepositorySettings E rid (Some n))) SettingsBody)))))"

definition setRepositoryEnabled ::
  "('m) http_host_scheme \<Rightarrow> server \<Rightarrow> User option \<Rightarrow> string \<Rightarrow> bool \<Rightarrow> http_response action" where
  "setRepositoryEnabled H S user rid enabled =
     with_dashboard S (pathUUID ''repositoryId'' rid (\<lambda>rid.
       authorizeRepositoryMember H S user rid (
       dashboard_reply S (db_write H (DbSetRepositoryEnabled rid enabled)
         (\<lambda>E. SetRepositoryEnabled E rid enabled)) RepositoryBody)))"

section \<open>Login\<close>

definition sessionCookieName :: string where
  "sessionCookieName = ''agent_trail_session''"

definition stateCookieName :: string where
  "stateCookieName = ''agent_trail_oauth_state''"

definition callbackPath :: string where
  "callbackPath = ''/backend/auth/github/callback''"

definition fresh_cookie :: "server \<Rightarrow> string \<Rightarrow> string \<Rightarrow> time \<Rightarrow> set_cookie" where
  "fresh_cookie S name v age = \<lparr>ck_Name = name, ck_Value = v, ck_MaxAge = age div second,
     ck_Secure = sv_CookieSecure S\<rparr>"

definition clearCookie :: "server \<Rightarrow> string \<Rightarrow> set_cookie" where
  "clearCookie S name = \<lparr>ck_Name = name, ck_Value = [], ck_MaxAge = -1, ck_Secure = sv_CookieSecure S\<rparr>"

definition auth_unavailable :: http_response where
  "auth_unavailable = writeError 503 ''authentication is not configured''"

definition handleAuthStart :: "('m) http_host_scheme \<Rightarrow> server \<Rightarrow> http_response action" where
  "handleAuthStart H S =
     (if \<not> sv_Auth S then ret auth_unavailable
      else abind (atry (\<lambda>w. (a_random H (w_ops w), w))) (\<lambda>r.
      case r of
        Inl e \<Rightarrow> ret (writeError 500 ''internal error'')
      | Inr raw \<Rightarrow>
          let st = hex_encode raw in
          ret (with_cookie (fresh_cookie S stateCookieName st (600 * second))
            (redirect (AuthorizeURL H (sv_OAuth S) st (sv_PublicOrigin S @ callbackPath))))))"

definition redirectLoginError :: "('m) http_host_scheme \<Rightarrow> server \<Rightarrow> string \<Rightarrow> http_response" where
  "redirectLoginError H S code =
     with_cookie (clearCookie S stateCookieName)
       (redirect (sv_PublicOrigin S @ ''/login?error='' @ a_escape H code))"

text \<open>\<open>None\<close> when the login is still reading the user's installations.\<close>

definition handleAuthCallback ::
  "('m) http_host_scheme \<Rightarrow> server \<Rightarrow> http_request \<Rightarrow> http_response option action" where
  "handleAuthCallback H S rq =
     (if \<not> sv_Auth S then ret (Some auth_unavailable)
      else if query_get rq ''error'' \<noteq> [] then ret (Some (redirectLoginError H S ''github_denied''))
      else if cookie rq stateCookieName = None \<or> cookie rq stateCookieName = Some [] \<or>
          cookie rq stateCookieName \<noteq> Some (query_get rq ''state'') then
        ret (Some (redirectLoginError H S ''state_mismatch''))
      else if query_get rq ''code'' = [] then ret (Some (redirectLoginError H S ''missing_code''))
      else
      abind (atry (CompleteLogin H (sv_Pages S) (query_get rq ''code'') (sv_PublicOrigin S @ callbackPath))) (\<lambda>r.
      case r of
        Inl e \<Rightarrow> ret (Some (redirectLoginError H S ''login_failed''))
      | Inr None \<Rightarrow> ret None
      | Inr (Some (user, session)) \<Rightarrow>
          ret (Some (with_cookie (clearCookie S stateCookieName)
            (with_cookie (fresh_cookie S sessionCookieName session SessionTTL)
              (redirect (sv_PublicOrigin S @ ''/'')))))))"

definition handleAuthLogout :: "('m) http_host_scheme \<Rightarrow> server \<Rightarrow> http_request \<Rightarrow> http_response action" where
  "handleAuthLogout H S rq =
     (if \<not> sv_Auth S then ret auth_unavailable
      else
      let gone = with_cookie (clearCookie S sessionCookieName) (writeJSON 204 NoBody) in
      case cookie rq sessionCookieName of
        None \<Rightarrow> ret gone
      | Some token \<Rightarrow> reply (\<lambda>_. writeError 500 ''internal error'') (Logout H token) (\<lambda>_. ret gone))"

definition handleMe :: "server \<Rightarrow> User option \<Rightarrow> http_response action" where
  "handleMe S user =
     (case user of
        None \<Rightarrow> ret (writeError 401 ''authentication required'')
      | Some u \<Rightarrow> ret (writeJSON 200 (MeBody u (sv_InstallURL S))))"

section \<open>Routes\<close>

definition requireSession ::
  "('m) http_host_scheme \<Rightarrow> http_request \<Rightarrow> (User option \<Rightarrow> http_response action) \<Rightarrow>
    http_response action" where
  "requireSession H rq next =
     (case cookie rq sessionCookieName of
        None \<Rightarrow> ret (writeError 401 ''authentication required'')
      | Some token \<Rightarrow>
          reply (\<lambda>e. if err_is ErrNoSession e then writeError 401 ''authentication required''
                     else writeError 500 ''internal error'')
            (op_SessionUser H token) (\<lambda>user. next (Some user)))"

definition no_route :: http_response where
  "no_route = writeJSON 404 NoBody"

definition method_not_allowed :: http_response where
  "method_not_allowed = writeJSON 405 NoBody"

text \<open>A route of one method; \<open>GET\<close> serves \<open>HEAD\<close> too.\<close>

definition on_method :: "http_request \<Rightarrow> string \<Rightarrow> http_response action \<Rightarrow> http_response action" where
  "on_method rq m h =
     (if hq_Method rq = m \<or> m = ''GET'' \<and> hq_Method rq = ''HEAD'' then h else ret method_not_allowed)"

text \<open>The routes of one task.\<close>

definition task_route ::
  "('m) http_host_scheme \<Rightarrow> server \<Rightarrow> http_request \<Rightarrow> string \<Rightarrow> string \<Rightarrow> http_response action" where
  "task_route H S rq tid what =
     (if what = ''cancel'' then on_method rq ''POST'' (handleCancelTask H S rq tid)
      else if what = ''events'' then on_method rq ''GET'' (handleTaskEvents H S rq tid)
      else if what = ''attempts'' then on_method rq ''GET'' (handleTaskAttempts H S tid)
      else if what = ''stream'' then on_method rq ''GET'' (handleTaskStream H S rq tid)
      else if what = ''validations'' then on_method rq ''GET'' (handleTaskValidations H S tid)
      else if what = ''evidence'' then on_method rq ''GET'' (handleTaskEvidence H S rq tid)
      else if what = ''conflicts'' then on_method rq ''GET'' (handleTaskConflicts H S tid)
      else if what = ''trace'' then on_method rq ''GET'' (handleTaskTrace H S rq tid)
      else if what = ''insights'' then on_method rq ''GET'' (handleTaskInsights H S tid)
      else ret no_route)"

definition repository_route ::
  "('m) http_host_scheme \<Rightarrow> server \<Rightarrow> User option \<Rightarrow> http_request \<Rightarrow> string \<Rightarrow> string \<Rightarrow>
    http_response action" where
  "repository_route H S user rq rid what =
     (if what = ''settings'' then
        (if hq_Method rq = ''PUT'' then handleUpdateRepositorySettings H S user rq rid
         else on_method rq ''GET'' (handleRepositorySettings H S rid))
      else if what = ''enable'' then on_method rq ''POST'' (setRepositoryEnabled H S user rid True)
      else if what = ''disable'' then on_method rq ''POST'' (setRepositoryEnabled H S user rid False)
      else ret no_route)"

text \<open>The mux under \<open>/api/v1/\<close>, on the path below it. A path parameter is not empty.\<close>

definition api_route ::
  "('m) http_host_scheme \<Rightarrow> server \<Rightarrow> User option \<Rightarrow> http_request \<Rightarrow> string list \<Rightarrow>
    http_response action" where
  "api_route H S user rq path =
     (case path of
        [a] \<Rightarrow>
          if a = ''tasks'' then
            (if hq_Method rq = ''POST'' then handleCreateTask H S rq
             else on_method rq ''GET'' (handleListTasks H S rq))
          else if a = ''organizations'' then on_method rq ''GET'' (handleListOrganizations H S)
          else if a = ''repositories'' then on_method rq ''GET'' (handleListRepositories H S rq)
          else if a = ''runners'' then on_method rq ''GET'' (handleListRunners H S)
          else ret no_route
      | [a, x] \<Rightarrow>
          if x = [] then ret no_route
          else if a = ''tasks'' then on_method rq ''GET'' (handleGetTask H S x)
          else if a = ''organizations'' then on_method rq ''GET'' (handleGetOrganization H S x)
          else if a = ''repositories'' then on_method rq ''GET'' (handleGetRepository H S x)
          else if a = ''runners'' then on_method rq ''GET'' (handleGetRunner H S x)
          else ret no_route
      | [a, x, what] \<Rightarrow>
          if x = [] then ret no_route
          else if a = ''tasks'' then task_route H S rq x what
          else if a = ''organizations'' \<and> what = ''repositories'' then
            on_method rq ''GET'' (handleOrganizationRepositories H S rq x)
          else if a = ''repositories'' then repository_route H S user rq x what
          else ret no_route
      | _ \<Rightarrow> ret no_route)"

definition guarded ::
  "('m) http_host_scheme \<Rightarrow> server \<Rightarrow> http_request \<Rightarrow> (User option \<Rightarrow> http_response action) \<Rightarrow>
    http_response action" where
  "guarded H S rq next = (if sv_Auth S then requireSession H rq next else next None)"

definition handleReadyz :: "('m) http_host_scheme \<Rightarrow> server \<Rightarrow> http_response action" where
  "handleReadyz H S =
     (if \<not> sv_DB S then
        ret (writeJSON 200 (StatusBody [(''status'', ''ok''), (''database'', ''not_configured'')]))
      else reply (\<lambda>_. writeJSON 503 (StatusBody [(''status'', ''unavailable''), (''database'', ''unreachable'')]))
        (service_read (b_ping H)) (\<lambda>_.
        ret (writeJSON 200 (StatusBody [(''status'', ''ok''), (''database'', ''ok'')]))))"

definition handleWebhook :: "('m) http_host_scheme \<Rightarrow> http_request \<Rightarrow> http_response action" where
  "handleWebhook H rq =
     (case b_webhook H of
        None \<Rightarrow> ret (writeError 503 ''github integration is not configured'')
      | Some h \<Rightarrow> h rq)"

text \<open>\<open>Handler\<close>: the outer mux. A \<open>None\<close> is a login still under way.\<close>

definition serve :: "('m) http_host_scheme \<Rightarrow> server \<Rightarrow> http_request \<Rightarrow> http_response option action" where
  "serve H S rq =
     (let path = hq_Path rq; answer = (\<lambda>m. abind m (\<lambda>resp. ret (Some resp))) in
      if take 2 path = [''api'', ''v1''] \<and> 2 < length path then
        answer (guarded H S rq (\<lambda>user. api_route H S user rq (drop 2 path)))
      else if path = [''me''] then
        answer (on_method rq ''GET''
          (if sv_Auth S then requireSession H rq (handleMe S) else ret auth_unavailable))
      else if path = [''healthz''] then answer (on_method rq ''GET'' (ret (writeJSON 200 (StatusBody [(''status'', ''ok'')]))))
      else if path = [''readyz''] then answer (on_method rq ''GET'' (handleReadyz H S))
      else if path = [''auth'', ''github'', ''start''] then answer (on_method rq ''GET'' (handleAuthStart H S))
      else if path = [''auth'', ''github'', ''callback''] then
        (if hq_Method rq = ''GET'' \<or> hq_Method rq = ''HEAD'' then handleAuthCallback H S rq
         else answer (ret method_not_allowed))
      else if path = [''auth'', ''logout''] then answer (on_method rq ''POST'' (handleAuthLogout H S rq))
      else if path = [''webhooks'', ''github''] then answer (on_method rq ''POST'' (handleWebhook H rq))
      else if path = [''metrics''] \<and> b_metrics H \<noteq> None then
        answer (on_method rq ''GET'' (the (b_metrics H) rq))
      else answer (ret no_route))"

end
