(* ===== verification/AuthProps.thy ===== *)
theory AuthProps
  imports AuthService GithubStore Scenario
begin

text \<open>
  Sessions and memberships: a session lasts from its creation until its expiry or its logout and
  belongs to the user it was created for; after a login a user's memberships are exactly those the
  installations of the login give.
\<close>

section \<open>Sessions\<close>

lemma driver_free: "fault_free E \<Longrightarrow> driver E l = Inr ()"
  by (simp add: driver_def fault_free_def)

lemma fault_free_session:
  "fault_free E \<Longrightarrow> SessionUser sha E token a = (case session_rows E (hashToken sha token) a of
     [] \<Rightarrow> Inl (Sentinel ErrNoSession) | u # _ \<Rightarrow> Inr (scan_user u))"
  by (simp add: SessionUser_def driver_free)

lemma InsertSession_InrD:
  assumes "InsertSession E uid hash ttl a = Inr a'"
  shows "a' = a\<lparr>auth_sessions := auth_sessions a @ [new_session E uid hash ttl a]\<rparr>"
    and "hash \<notin> set (map ss_TokenHash (auth_sessions a))"
    and "pg_uuid uid \<in> set (map us_ID (auth_users a))"
  using assms by (auto simp: InsertSession_def Let_def bind_sum_Inr_iff split: if_splits)

lemma session_rows_new:
  assumes "InsertSession E uid hash ttl a = Inr a'"
  shows "session_rows E' hash a' = (if env_now E' < env_now E + ttl
      then filter (\<lambda>u. us_ID u = pg_uuid uid) (auth_users a) else [])"
    and "h \<noteq> hash \<Longrightarrow> session_rows E' h a' = session_rows E' h a"
proof -
  note D = InsertSession_InrD [OF assms]
  have "filter (\<lambda>s. ss_TokenHash s = hash \<and> live E' s) (auth_sessions a) = []"
    using D(2) by (auto simp: filter_empty_conv)
  then show "session_rows E' hash a' = (if env_now E' < env_now E + ttl
      then filter (\<lambda>u. us_ID u = pg_uuid uid) (auth_users a) else [])"
    by (simp add: session_rows_def D(1) new_session_def live_def)
  show "h \<noteq> hash \<Longrightarrow> session_rows E' h a' = session_rows E' h a"
    by (simp add: session_rows_def D(1) new_session_def)
qed

lemma session_rows_deleted:
  assumes "DeleteSession sha E token a = Inr a'"
  shows "session_rows E' (hashToken sha token) a' = []"
    and "h \<noteq> hashToken sha token \<Longrightarrow> session_rows E' h a' = session_rows E' h a"
proof -
  have a': "a' = a\<lparr>auth_sessions := filter (\<lambda>s. ss_TokenHash s \<noteq> hashToken sha token) (auth_sessions a)\<rparr>"
    using assms by (auto simp: DeleteSession_def bind_sum_Inr_iff)
  show "session_rows E' (hashToken sha token) a' = []"
    by (simp add: session_rows_def a' filter_empty_conv)
  show "h \<noteq> hashToken sha token \<Longrightarrow> session_rows E' h a' = session_rows E' h a"
    by (auto simp: session_rows_def a' intro!: arg_cong [where f = concat] map_cong filter_cong)
qed

text \<open>
  The life of a session: from its creation on its token stands for the user it was created
  for, until the instant it expires or its logout, after either of which the token is refused; the
  sessions of tokens with other hashes are what they were throughout.
\<close>

theorem session_lifecycle:
  assumes "InsertSession E uid (hashToken sha token) ttl a = Inr a'"
  shows "(\<forall>E'. fault_free E' \<longrightarrow> env_now E' < env_now E + ttl \<longrightarrow>
      (\<exists>u\<in>set (auth_users a). us_ID u = pg_uuid uid \<and> SessionUser sha E' token a' = Inr (scan_user u))) \<and>
    (\<forall>E'. fault_free E' \<longrightarrow> env_now E + ttl \<le> env_now E' \<longrightarrow>
      SessionUser sha E' token a' = Inl (Sentinel ErrNoSession)) \<and>
    (\<forall>E' E'' a''. DeleteSession sha E' token a' = Inr a'' \<longrightarrow> fault_free E'' \<longrightarrow>
      SessionUser sha E'' token a'' = Inl (Sentinel ErrNoSession)) \<and>
    (\<forall>E' other. hashToken sha other \<noteq> hashToken sha token \<longrightarrow>
      SessionUser sha E' other a' = SessionUser sha E' other a)"
proof (intro conjI allI impI)
  fix E' assume "fault_free E'" "env_now E' < env_now E + ttl"
  moreover from InsertSession_InrD(3) [OF assms]
  obtain u us where "filter (\<lambda>u. us_ID u = pg_uuid uid) (auth_users a) = u # us"
    by (cases "filter (\<lambda>u. us_ID u = pg_uuid uid) (auth_users a)") (auto simp: filter_empty_conv)
  moreover from this have "u \<in> set (filter (\<lambda>u. us_ID u = pg_uuid uid) (auth_users a))" by simp
  then have "u \<in> set (auth_users a)" "us_ID u = pg_uuid uid" by simp_all
  ultimately show "\<exists>u\<in>set (auth_users a). us_ID u = pg_uuid uid
      \<and> SessionUser sha E' token a' = Inr (scan_user u)"
    by (auto simp: fault_free_session session_rows_new(1) [OF assms])
next
  fix E' assume "fault_free E'" "env_now E + ttl \<le> env_now E'"
  then show "SessionUser sha E' token a' = Inl (Sentinel ErrNoSession)"
    by (simp add: fault_free_session session_rows_new(1) [OF assms])
next
  fix E' E'' a'' assume "DeleteSession sha E' token a' = Inr a''" "fault_free E''"
  then show "SessionUser sha E'' token a'' = Inl (Sentinel ErrNoSession)"
    by (simp add: fault_free_session session_rows_deleted(1))
next
  fix E' other assume "hashToken sha other \<noteq> hashToken sha token"
  then show "SessionUser sha E' other a' = SessionUser sha E' other a"
    by (simp add: SessionUser_def session_rows_new(2) [OF assms])
qed

section \<open>Memberships\<close>

lemma member_of_append [simp]:
  "member_of uid oid (ms @ ns) \<longleftrightarrow> member_of uid oid ms \<or> member_of uid oid ns"
  by (simp add: member_of_def)

lemma member_of_new [simp]:
  "member_of uid' oid' [new_membership E uid oid] \<longleftrightarrow> oid' = oid \<and> uid' = pg_uuid uid"
  by (auto simp: member_of_def new_membership_def)

lemma find_account:
  assumes "distinct (map o_AccountID os)"
  shows "(case find (\<lambda>x. o_AccountID x = k) os of None \<Rightarrow> False | Some x \<Rightarrow> o_ID x = oid)
    \<longleftrightarrow> (\<exists>x\<in>set os. o_AccountID x = k \<and> o_ID x = oid)"
  using assms
proof (induction os)
  case (Cons x os)
  show ?case
  proof (cases "o_AccountID x = k")
    case True
    then have "\<forall>y\<in>set os. o_AccountID y \<noteq> k" using Cons.prems
      by (metis distinct.simps(2) image_eqI list.set_map list.simps(9))
    with True show ?thesis by auto
  next
    case False
    then show ?thesis using Cons by auto
  qed
qed simp

lemma join_organization_members:
  assumes "join_organization E uid account d a = Inr a'" and "distinct (map o_AccountID (organizations d))"
  shows "member_of uid' oid (auth_memberships a') \<longleftrightarrow> member_of uid' oid (auth_memberships a) \<or>
      uid' = pg_uuid uid \<and> (\<exists>x\<in>set (organizations d). o_AccountID x = ia_ID account \<and> o_ID x = oid)"
    and "auth_users a' = auth_users a" and "auth_sessions a' = auth_sessions a"
proof -
  note found = find_account [OF assms(2), where k = "ia_ID account" and oid = oid, symmetric]
  show "member_of uid' oid (auth_memberships a') \<longleftrightarrow> member_of uid' oid (auth_memberships a) \<or>
      uid' = pg_uuid uid \<and> (\<exists>x\<in>set (organizations d). o_AccountID x = ia_ID account \<and> o_ID x = oid)"
    using assms(1) unfolding found
    by (auto simp: join_organization_def split: option.splits if_splits)
  show "auth_users a' = auth_users a" and "auth_sessions a' = auth_sessions a"
    using assms(1) by (auto simp: join_organization_def split: option.splits if_splits)
qed

lemma join_all_members:
  assumes "distinct (map o_AccountID (organizations d))"
  shows "join_all E uid accounts d a = Inr a' \<Longrightarrow>
    auth_users a' = auth_users a \<and> auth_sessions a' = auth_sessions a \<and>
    (\<forall>uid' oid. member_of uid' oid (auth_memberships a') \<longleftrightarrow> member_of uid' oid (auth_memberships a) \<or>
      uid' = pg_uuid uid \<and> (\<exists>x\<in>set (organizations d). o_AccountID x \<in> ia_ID ` set accounts \<and> o_ID x = oid))"
proof (induction accounts arbitrary: a)
  case (Cons account accounts)
  then obtain a1 where one: "join_organization E uid account d a = Inr a1"
    and rest: "join_all E uid accounts d a1 = Inr a'"
    by (auto simp: bind_sum_Inr_iff)
  note m = join_organization_members [OF one assms]
  from Cons.IH [OF rest] m show ?case by auto
qed simp

text \<open>
  C26. After a login's synchronisation a user is a member of exactly the organizations whose GitHub
  account is among the login's installations, whatever the memberships were before; nobody else's
  memberships, no user and no session change; and from then on the user may change exactly the
  repositories of those organizations.
\<close>

theorem memberships_synced:
  assumes "schema_ok d" and "SyncMemberships E uid accounts d a = Inr a'"
  shows "auth_users a' = auth_users a \<and> auth_sessions a' = auth_sessions a \<and>
    (\<forall>oid. member_of (pg_uuid uid) oid (auth_memberships a') \<longleftrightarrow>
      (\<exists>x\<in>set (organizations d). o_AccountID x \<in> ia_ID ` set accounts \<and> o_ID x = oid)) \<and>
    (\<forall>oid other. other \<noteq> pg_uuid uid \<longrightarrow>
      member_of other oid (auth_memberships a') = member_of other oid (auth_memberships a)) \<and>
    (\<forall>E' rid. fault_free E' \<longrightarrow> MemberOfRepository E' uid rid d a' = Inr (\<exists>g\<in>set (repositories d).
      g_ID g = pg_uuid rid \<and> (\<exists>x\<in>set (organizations d). o_AccountID x \<in> ia_ID ` set accounts
        \<and> o_ID x = g_OrganizationID g)))"
proof -
  let ?cleared = "a\<lparr>auth_memberships := filter (\<lambda>m. mb_UserID m \<noteq> pg_uuid uid) (auth_memberships a)\<rparr>"
  have dist: "distinct (map o_AccountID (organizations d))"
    using assms(1) by (simp add: schema_ok_iff github_constraints_def)
  have "join_all E uid accounts d ?cleared = Inr a'"
    using assms(2) by (auto simp: SyncMemberships_def Let_def bind_sum_Inr_iff)
  note m = join_all_members [OF dist this]
  have cleared: "member_of other oid (auth_memberships ?cleared) \<longleftrightarrow>
      other \<noteq> pg_uuid uid \<and> member_of other oid (auth_memberships a)" for other oid
    by (auto simp: member_of_def list_ex_iff)
  have own: "member_of (pg_uuid uid) oid (auth_memberships a') \<longleftrightarrow>
      (\<exists>x\<in>set (organizations d). o_AccountID x \<in> ia_ID ` set accounts \<and> o_ID x = oid)" for oid
    using m cleared by blast
  have "other \<noteq> pg_uuid uid \<longrightarrow>
      member_of other oid (auth_memberships a') = member_of other oid (auth_memberships a)" for oid other
    using m cleared by blast
  moreover have "fault_free E' \<longrightarrow> MemberOfRepository E' uid rid d a' = Inr (\<exists>g\<in>set (repositories d).
      g_ID g = pg_uuid rid \<and> (\<exists>x\<in>set (organizations d). o_AccountID x \<in> ia_ID ` set accounts
        \<and> o_ID x = g_OrganizationID g))" for E' rid
    by (simp add: MemberOfRepository_def driver_free own list_ex_iff)
  ultimately show ?thesis using m own by simp
qed

section \<open>A login\<close>

definition demo_user :: UserRow where
  "demo_user = \<lparr>us_ID = ''u'', us_GitHubUserID = 7, us_GitHubLogin = ''ada'', us_DisplayName = None,
     us_AvatarURL = None, us_CreatedAt = 1, us_LastLoginAt = 1\<rparr>"

definition demo_digest :: "string \<Rightarrow> string" where
  "demo_digest s = take 32 (s @ replicate 32 (CHR ''a''))"

definition demo_auth :: auth_db where
  "demo_auth = no_auth\<lparr>auth_users := [demo_user]\<rparr>"

lemma demo_session: "is_ok (InsertSession (demo_env 1) ''u'' (hashToken demo_digest ''t'') 60 demo_auth)"
  by code_simp

theorem session_lifecycle_witness:
  "\<exists>a'. InsertSession (demo_env 1) ''u'' (hashToken demo_digest ''t'') 60 demo_auth = Inr a' \<and>
    SessionUser demo_digest (demo_env 60) ''t'' a' = Inr (scan_user demo_user) \<and>
    SessionUser demo_digest (demo_env 61) ''t'' a' = Inl (Sentinel ErrNoSession)"
proof -
  obtain a' where a': "InsertSession (demo_env 1) ''u'' (hashToken demo_digest ''t'') 60 demo_auth = Inr a'"
    using demo_session by (auto simp: is_ok_iff)
  have "auth_users demo_auth = [demo_user]" by (simp add: demo_auth_def)
  moreover have "env_now (demo_env t) = t" for t by (simp add: demo_env_def)
  ultimately show ?thesis using session_lifecycle [OF a'] a' demo_env_fault_free by auto
qed

lemma demo_sync: "is_ok (SyncMemberships (demo_env 1) ''u'' [\<lparr>ia_ID = 1, ia_Login = ''acme'', ia_Type = ''User''\<rparr>]
    demo_issue demo_auth)"
  by code_simp

theorem memberships_synced_witness:
  "\<exists>a'. SyncMemberships (demo_env 1) ''u'' [\<lparr>ia_ID = 1, ia_Login = ''acme'', ia_Type = ''User''\<rparr>]
      demo_issue demo_auth = Inr a' \<and> auth_users a' = [demo_user] \<and>
    member_of ''u'' ''o'' (auth_memberships a')"
proof -
  obtain a' where a': "SyncMemberships (demo_env 1) ''u'' [\<lparr>ia_ID = 1, ia_Login = ''acme'', ia_Type = ''User''\<rparr>]
      demo_issue demo_auth = Inr a'"
    using demo_sync by (auto simp: is_ok_iff)
  have "auth_users demo_auth = [demo_user]" by (simp add: demo_auth_def)
  moreover have "pg_uuid ''u'' = ''u''" by code_simp
  moreover have "\<exists>x\<in>set (organizations demo_issue). o_AccountID x = 1 \<and> o_ID x = ''o''"
    by (simp add: demo_issue_def)
  ultimately show ?thesis
    using memberships_synced [OF db_invD(1) [OF demo_issue_inv] a'] a' by simp
qed

end
