(* ===== verification/HttpProps.thy ===== *)
theory HttpProps
  imports HttpHandlers AuthProps DeliveryProps
begin

text \<open>
  What the API lets through: without a live session nothing under it is reached, only a member
  changes a repository, a login needs the state it started with, and what a client sends is
  checked before anything is asked of the stores.
\<close>

section \<open>Requests without a session\<close>

text \<open>The user of the request's session, as the first query of the request finds it.\<close>

definition session_user :: "('m) http_host_scheme \<Rightarrow> http_request \<Rightarrow> world \<Rightarrow> User option" where
  "session_user H rq w = (case cookie rq sessionCookieName of
     None \<Rightarrow> None
   | Some token \<Rightarrow> (case SessionUser (a_sha256 H) (h_env H (w_ops w)) token
       (auth_rows (h_other_records H (w_ops w) (w_records w))) of Inl e \<Rightarrow> None | Inr u \<Rightarrow> Some u))"

definition api_path :: "http_request \<Rightarrow> bool" where
  "api_path rq \<longleftrightarrow> take 2 (hq_Path rq) = [''api'', ''v1''] \<and> 2 < length (hq_Path rq)"

text \<open>The world after the query of the session.\<close>

definition after_session :: "('m) http_host_scheme \<Rightarrow> world \<Rightarrow> world" where
  "after_session H w = w\<lparr>w_db := h_others H (w_ops w) (w_db w),
     w_records := h_other_records H (w_ops w) (w_records w), w_ops := w_ops w + 1\<rparr>"

lemma not_panics_session: "SessionUser sha E token a = Inl e \<Longrightarrow> \<not> panics e"
  by (auto simp: SessionUser_def panics_def wrap_Inl_iff bind_sum_def split: sum.splits list.splits)

lemma requireSession_passes:
  "session_user H rq w = Some u \<Longrightarrow> requireSession H rq inner w = inner (Some u) (after_session H w)"
  by (auto simp: requireSession_def session_user_def reply_def op_SessionUser_def rec_read_def Let_def
      abind_def atry_def after_session_def split: option.splits sum.splits)

definition refused :: "('m) http_host_scheme \<Rightarrow> world \<Rightarrow> (err + http_response) \<times> world \<Rightarrow> bool" where
  "refused H w out \<longleftrightarrow> (\<exists>resp w'. out = (Inr resp, w') \<and> hs_Status resp \<in> {401, 500} \<and>
     hs_SetCookies resp = [] \<and> w_log w' = w_log w \<and> (w' = w \<or> w' = after_session H w))"

lemma requireSession_refuses:
  assumes "session_user H rq w = None"
  shows "refused H w (requireSession H rq inner w)"
proof (cases "cookie rq sessionCookieName")
  case None
  then show ?thesis by (simp add: requireSession_def refused_def ret_def writeError_def writeJSON_def)
next
  case (Some token)
  let ?r = "SessionUser (a_sha256 H) (h_env H (w_ops w)) token
      (auth_rows (h_other_records H (w_ops w) (w_records w)))"
  obtain e where e: "?r = Inl e" using assms Some by (auto simp: session_user_def split: sum.splits)
  have "atry (op_SessionUser H token) w = (Inr (Inl e), after_session H w)"
    using e not_panics_session [OF e]
    by (simp add: atry_def op_SessionUser_def rec_read_def Let_def after_session_def)
  then have "requireSession H rq inner w = (Inr (if err_is ErrNoSession e then writeError 401 ''authentication required''
      else writeError 500 ''internal error''), after_session H w)"
    by (simp add: requireSession_def Some reply_def abind_def ret_def)
  then show ?thesis by (simp add: refused_def writeError_def writeJSON_def after_session_def)
qed

text \<open>
  C22. No session, no API: where a login is configured, a request below \<open>/api/v1/\<close> or for \<open>/me\<close>
  whose cookie names no live session at the time is answered 401, or 500 when the session could not
  be looked up (405 for another method of \<open>/me\<close>), and asks for no effect; the stores are left as
  other processes made them.
\<close>

theorem session_required:
  assumes "sv_Auth S" and "api_path rq \<or> hq_Path rq = [''me'']" and "session_user H rq w = None"
  shows "\<exists>resp w'. serve H S rq w = (Inr (Some resp), w') \<and> hs_Status resp \<in> {401, 405, 500} \<and>
    (hs_Status resp = 405 \<longrightarrow> hq_Path rq = [''me'']) \<and> hs_SetCookies resp = [] \<and>
    w_log w' = w_log w \<and> (w' = w \<or> w' = after_session H w)"
proof -
  let ?answer = "\<lambda>m. abind m (\<lambda>resp. ret (Some resp))"
  have refusal: "\<exists>resp w'. ?answer (requireSession H rq inner) w = (Inr (Some resp), w') \<and>
      hs_Status resp \<in> {401, 500} \<and> hs_SetCookies resp = [] \<and> w_log w' = w_log w \<and>
      (w' = w \<or> w' = after_session H w)" for inner
    using requireSession_refuses [OF assms(3), of inner] unfolding refused_def
    by (auto simp: abind_def ret_def)
  show ?thesis
  proof (cases "api_path rq")
    case True
    then have "serve H S rq = ?answer (requireSession H rq (\<lambda>user. api_route H S user rq (drop 2 (hq_Path rq))))"
      using assms(1) by (simp add: serve_def api_path_def guarded_def)
    then show ?thesis using refusal by fastforce
  next
    case False
    then have me: "hq_Path rq = [''me'']" using assms(2) by blast
    show ?thesis
    proof (cases "hq_Method rq = ''GET'' \<or> hq_Method rq = ''HEAD''")
      case True
      then have "serve H S rq = ?answer (requireSession H rq (handleMe S))"
        using assms(1) me by (simp add: serve_def on_method_def)
      then show ?thesis using refusal by fastforce
    next
      case False
      then have "serve H S rq w = (Inr (Some method_not_allowed), w)"
        using assms(1) me by (simp add: serve_def on_method_def abind_def ret_def)
      then show ?thesis by (simp add: me method_not_allowed_def writeJSON_def)
    qed
  qed
qed

section \<open>Changes of repositories\<close>

definition changes_repository :: "effect \<Rightarrow> bool" where
  "changes_repository e = (case e of DbSetRepositoryEnabled rid b \<Rightarrow> True
     | DbUpdateSettings rid \<Rightarrow> True | _ \<Rightarrow> False)"

abbreviation unchanging :: "'a action \<Rightarrow> bool" where
  "unchanging \<equiv> runs (\<lambda>e. \<not> changes_repository e)"

lemma runs_http [runs_intros]:
  "runs A m \<Longrightarrow> (\<And>x. runs A (f x)) \<Longrightarrow> runs A (reply on_error m f)"
  "(\<And>x. runs A (f x)) \<Longrightarrow> runs A (checked c f)"
  "(\<And>x. runs A (g x)) \<Longrightarrow> runs A (pathUUID name v g)"
  "runs A n \<Longrightarrow> runs A (with_dashboard S n)"
  "runs A n \<Longrightarrow> runs A (on_method rq meth n)"
  "runs A k \<Longrightarrow> runs A (dashboard_reply S k body)"
  "runs A (service_read answer)"
  by (auto simp: reply_def checked_def pathUUID_def with_dashboard_def on_method_def dashboard_reply_def
      intro!: runs_intros split: sum.splits)
    (simp add: runs_def service_read_def)

lemma quiet_writes:
  assumes "others_ok H"
  shows "unchanging (op_Create H p)" and "unchanging (db_write H (DbCancel tid reason) (\<lambda>E. Cancel E tid reason))"
    and "unchanging (TaskCancelled H t)"
  using assms unfolding TaskCancelled_def op_Create_def gh_UpdateCheckRun_def
  by (auto intro!: runs_intros simp: changes_repository_def transition_type_def TransitionEventType_def
      intro: platform_step.create platform_step.cancel)

lemma quiet_tasks:
  assumes "others_ok H"
  shows "unchanging (handleCreateTask H S rq)" "unchanging (handleListTasks H S rq)" "unchanging (handleGetTask H S tid)"
    "unchanging (task_route H S rq tid what)"
  using assms
  unfolding handleCreateTask_def handleListTasks_def handleGetTask_def task_route_def handleCancelTask_def
    handleTaskEvents_def handleTaskAttempts_def handleTaskStream_def handleTaskValidations_def
    handleTaskEvidence_def handleTaskConflicts_def handleTaskTrace_def handleTaskInsights_def Let_def
    op_Get_def op_Attempts_def
  by (auto intro!: runs_intros quiet_writes)

lemma quiet_reads:
  assumes "others_ok H"
  shows "unchanging (handleListOrganizations H S)" "unchanging (handleGetOrganization H S oid)"
    "unchanging (handleOrganizationRepositories H S rq oid)" "unchanging (handleListRepositories H S rq)"
    "unchanging (handleGetRepository H S rid)" "unchanging (handleRepositorySettings H S rid)"
    "unchanging (handleListRunners H S)" "unchanging (handleGetRunner H S rid)"
  using assms
  unfolding handleListOrganizations_def handleGetOrganization_def handleOrganizationRepositories_def
    handleListRepositories_def handleGetRepository_def handleRepositorySettings_def handleListRunners_def
    handleGetRunner_def GetRepository_def GetRunner_def
  by (auto intro!: runs_intros)

lemma runs_auth_write [runs_intros]: "others_ok H \<Longrightarrow> A eff \<Longrightarrow> runs A (auth_write H eff op)"
  unfolding auth_write_def by (intro runs_intros)

lemma runs_installations [runs_intros]:
  "(\<And>s. A (GhRead s)) \<Longrightarrow> runs A (installation_pages H token n page found)"
  by (induction n arbitrary: page found) (auto intro!: runs_intros)

lemma runs_random [runs_intros]: "runs A (\<lambda>w. (f (w_ops w), w))"
  by (simp add: runs_def)

lemma quiet_login:
  assumes "others_ok H"
  shows "unchanging (handleAuthStart H S)" "unchanging (handleAuthCallback H S rq)" "unchanging (handleAuthLogout H S rq)"
    "unchanging (handleReadyz H S)" "unchanging (requireSession H rq (handleMe S))"
  using assms
  unfolding handleAuthStart_def handleAuthCallback_def handleAuthLogout_def handleReadyz_def
    requireSession_def handleMe_def CompleteLogin_def ExchangeCode_def GetUser_def op_UpsertUser_def
    InstallationAccounts_def op_SyncMemberships_def CreateSession_def Logout_def op_SessionUser_def Let_def
  by (auto intro!: runs_intros simp: changes_repository_def)

text \<open>The repository a change is of.\<close>

definition changed_in :: "string \<Rightarrow> effect \<Rightarrow> bool" where
  "changed_in rid e = (case e of DbSetRepositoryEnabled r b \<Rightarrow> r = rid | DbUpdateSettings r \<Rightarrow> r = rid | _ \<Rightarrow> False)"

text \<open>The query of \<open>MemberOfRepository\<close>, the second of its request.\<close>

definition member_then :: "('m) http_host_scheme \<Rightarrow> string \<Rightarrow> string \<Rightarrow> world \<Rightarrow> bool" where
  "member_then H uid rid w \<longleftrightarrow> (let w' = after_session H w in
     MemberOfRepository (h_env H (w_ops w)) uid rid (w_db w') (auth_rows (w_records w')) = Inr True)"

lemma not_panics_member: "MemberOfRepository E uid rid d a = Inl e \<Longrightarrow> \<not> panics e"
  by (auto simp: MemberOfRepository_def panics_def wrap_Inl_iff bind_sum_def driver_def
      split: sum.splits option.splits)

lemma authorize_cases:
  assumes "sv_Auth S"
  shows "member_then H (su_ID u) rid w \<and>
      authorizeRepositoryMember H S (Some u) rid allowed w = allowed (after_session H w)
    \<or> w_log (snd (authorizeRepositoryMember H S (Some u) rid allowed w)) = w_log w"
proof -
  let ?w = "after_session H w"
  let ?r = "MemberOfRepository (h_env H (w_ops w)) (su_ID u) rid (w_db ?w) (auth_rows (w_records ?w))"
  have query: "op_MemberOfRepository H (su_ID u) rid w = (?r, ?w)"
    by (simp add: op_MemberOfRepository_def rec_read_def Let_def after_session_def)
  have log: "w_log ?w = w_log w" by (simp add: after_session_def)
  show ?thesis
  proof (cases ?r)
    case (Inl e)
    with query not_panics_member [OF this] assms log show ?thesis
      by (simp add: authorizeRepositoryMember_def reply_def abind_def atry_def ret_def)
  next
    case (Inr member)
    with query assms log show ?thesis
      by (cases member) (simp_all add: authorizeRepositoryMember_def reply_def abind_def atry_def
          ret_def member_then_def Let_def)
  qed
qed

text \<open>A handler behind \<open>authorizeRepositoryMember\<close> that only changes its repository.\<close>

lemma member_guards:
  assumes auth: "sv_Auth S" and inner: "runs (changed_in rid) allowed"
    and run: "authorizeRepositoryMember H S (Some u) rid allowed w = (r, w')"
    and log: "w_log w' = w_log w @ es" and e: "e \<in> set es"
  shows "member_then H (su_ID u) rid w \<and> changed_in rid e"
proof -
  from e have "es \<noteq> []" by auto
  with authorize_cases [OF auth, of H u rid w allowed] run log
  have member: "member_then H (su_ID u) rid w" and run': "allowed (after_session H w) = (r, w')" by auto
  from runsD(2) [OF inner run'] log have "list_all (changed_in rid) es" by (simp add: after_session_def)
  with member e show ?thesis by (simp add: list_all_iff)
qed

lemma changing_handlers:
  assumes "others_ok H"
  shows "runs (changed_in rid) (dashboard_reply S (db_write H (DbSetRepositoryEnabled rid b)
      (\<lambda>E. SetRepositoryEnabled E rid b)) RepositoryBody)"
    and "runs (changed_in rid) (checked x (\<lambda>req. case req of
         None \<Rightarrow> ret (writeError 400 ''max_attempts is required'')
       | Some n \<Rightarrow> (case ValidateMaxAttempts n of
              Inl e \<Rightarrow> ret (writeError 400 (err_text e))
            | Inr _ \<Rightarrow> dashboard_reply S (db_write H (DbUpdateSettings rid)
                (\<lambda>E. UpdateRepositorySettings E rid (Some n))) SettingsBody)))"
  using assms
  by (auto intro!: runs_intros simp: changed_in_def split: sum.splits option.splits
      intro: platform_step.set_enabled platform_step.update_settings)

lemma repository_route_guarded:
  assumes ok: "others_ok H" and auth: "sv_Auth S"
    and run: "repository_route H S (Some u) rq rid what w = (r, w')"
    and log: "w_log w' = w_log w @ es" and e: "e \<in> set es" "changes_repository e"
  shows "member_then H (su_ID u) rid w \<and> changed_in rid e"
proof -
  have unchanging: False if "unchanging m" and "m w = (r, w')" for m :: "http_response action"
    using runsD(2) [OF that] log e by (auto simp: list_all_iff)
  have reads: "unchanging (on_method rq ''GET'' (handleRepositorySettings H S rid))"
    using ok by (intro runs_intros quiet_reads)
  have change: ?thesis if run: "with_dashboard S (pathUUID ''repositoryId'' rid (\<lambda>rid.
      authorizeRepositoryMember H S (Some u) rid (m rid))) w = (r, w')" and m: "runs (changed_in rid) (m rid)" for m
    using run log e member_guards [OF auth m _ log e(1)]
    by (auto simp: with_dashboard_def pathUUID_def ret_def split: if_splits)
  have switch: ?thesis if "setRepositoryEnabled H S (Some u) rid b w = (r, w')" for b
    by (rule change [OF that [unfolded setRepositoryEnabled_def] changing_handlers(1) [OF ok]])
  have settings: ?thesis if "handleUpdateRepositorySettings H S (Some u) rq rid w = (r, w')"
    by (rule change [OF that [unfolded handleUpdateRepositorySettings_def] changing_handlers(2) [OF ok]])
  have "unchanging (repository_route H S (Some u) rq rid what)"
    if "\<not> (what = ''settings'' \<and> hq_Method rq = ''PUT'')"
      "\<not> (what \<in> {''enable'', ''disable''} \<and> hq_Method rq = ''POST'')"
    using that reads by (auto simp: repository_route_def on_method_def intro: runs_ret)
  then consider "what = ''settings''" "hq_Method rq = ''PUT''" | "what = ''enable''" "hq_Method rq = ''POST''"
    | "what = ''disable''" "hq_Method rq = ''POST''"
    using unchanging run by blast
  then show ?thesis
    using run settings switch by cases (simp_all add: repository_route_def on_method_def)
qed

lemma quiet_api_route:
  assumes ok: "others_ok H" and other: "\<nexists>rid what. path = [''repositories'', rid, what]"
  shows "unchanging (api_route H S user rq path)"
proof -
  have ret: "unchanging (ret no_route)" by (rule runs_ret)
  have routed: "unchanging (on_method rq meth m)" if "unchanging m" for meth m using that by (rule runs_http(5))
  note quiets = ret routed quiet_tasks [OF ok] quiet_reads [OF ok]
  consider "path = []" | a where "path = [a]" | a x where "path = [a, x]"
    | a x what where "path = [a, x, what]" | a x y z p where "path = a # x # y # z # p"
    by (metis list.exhaust)
  then show ?thesis
  proof cases
    case 2
    then show ?thesis by (simp add: api_route_def quiets)
  next
    case 3
    then show ?thesis by (simp add: api_route_def quiets)
  next
    case 4
    with other have "a \<noteq> ''repositories''" by blast
    with 4 show ?thesis by (simp add: api_route_def quiets)
  qed (simp_all add: api_route_def ret)
qed

text \<open>
  C20. Only members change a repository: where a login is configured, the API enables or disables a
  repository or asks to change its settings only in a request to a route of that repository, made
  with a live session, and after the query of the memberships found the session's user to be a
  member of the repository's organization.
\<close>

theorem only_members_change_repositories:
  assumes "others_ok H" and "sv_Auth S"
    and "hq_Path rq \<noteq> [''webhooks'', ''github'']" and "hq_Path rq \<noteq> [''metrics'']"
    and "serve H S rq w = (r, w')" and "w_log w' = w_log w @ es"
    and "e \<in> set es" and "changes_repository e"
  shows "\<exists>u rid what. session_user H rq w = Some u \<and>
    hq_Path rq = [''api'', ''v1'', ''repositories'', rid, what] \<and> changed_in rid e \<and>
    member_then H (su_ID u) rid (after_session H w)"
proof -
  have unchanging: False if "unchanging m" and "m w = (r, w')" for m :: "http_response option action"
    using runsD(2) [OF that] assms(6-8) by (auto simp: list_all_iff)
  have api: "api_path rq"
  proof (rule ccontr)
    assume "\<not> api_path rq"
    then have "unchanging (serve H S rq)"
      using assms(1-4)
      by (auto simp: serve_def api_path_def Let_def intro!: runs_intros quiet_login)
    from unchanging [OF this assms(5)] show False .
  qed
  let ?inner = "\<lambda>user. api_route H S user rq (drop 2 (hq_Path rq))"
  have serve: "serve H S rq = abind (requireSession H rq ?inner) (\<lambda>resp. ret (Some resp))"
    using api assms(2) by (simp add: serve_def api_path_def guarded_def)
  show ?thesis
  proof (cases "session_user H rq w")
    case None
    from requireSession_refuses [OF None, of ?inner] assms(5-7) show ?thesis
      by (auto simp: refused_def serve abind_def ret_def)
  next
    case (Some u)
    obtain r1 w1 where run: "?inner (Some u) (after_session H w) = (r1, w1)" by fastforce
    with assms(5) have "w1 = w'"
      by (auto simp: serve abind_def ret_def requireSession_passes [OF Some] split: sum.splits)
    note run = run [unfolded this]
    have log: "w_log w' = w_log (after_session H w) @ es" using assms(6) by (simp add: after_session_def)
    have "\<not> unchanging (?inner (Some u))"
      using runsD(2) [where m = "?inner (Some u)", OF _ run] log assms(7,8) by (fastforce simp: list_all_iff)
    then obtain rid what where path: "drop 2 (hq_Path rq) = [''repositories'', rid, what]"
      using quiet_api_route [OF assms(1)] by blast
    have "take 2 (hq_Path rq) = [''api'', ''v1'']" using api by (simp add: api_path_def)
    then have full: "hq_Path rq = [''api'', ''v1'', ''repositories'', rid, what]"
      using append_take_drop_id [of 2 "hq_Path rq"] path by simp
    have "repository_route H S (Some u) rq rid what (after_session H w) = (r1, w')"
    proof (cases "rid = []")
      case True
      with run path log assms(7) show ?thesis by (auto simp: api_route_def ret_def)
    next
      case False
      with run path show ?thesis by (simp add: api_route_def)
    qed
    from repository_route_guarded [OF assms(1,2) this log assms(7,8)] Some full show ?thesis by blast
  qed
qed

section \<open>An API at work\<close>

definition demo_members :: auth_db where
  "demo_members = demo_auth\<lparr>auth_sessions := [\<lparr>ss_ID = ''s'', ss_UserID = ''u'',
       ss_TokenHash = hashToken demo_digest ''t'', ss_CreatedAt = 0, ss_ExpiresAt = 1000\<rparr>],
     auth_memberships := [\<lparr>mb_OrganizationID = ''o'', mb_UserID = ''u'', mb_Role = ''member'', mb_CreatedAt = 0\<rparr>]\<rparr>"

definition demo_http :: http_host where
  "demo_http = \<lparr>h_env = h_env demo_host, h_others = (\<lambda>k d. d), h_api = demo_api, h_lower = (\<lambda>r. r),
     h_other_records = (\<lambda>k r. r), a_sha256 = demo_digest, a_random = (\<lambda>k. Inr (replicate 32 (CHR ''q''))),
     a_escape = (\<lambda>s. s),
     a_decode_body = (\<lambda>s. Inr (JObj [(''title'', JStr '' Fix ''), (''instructions'', JStr ''Do'')])),
     a_parse_float = (\<lambda>s. None), a_token = (\<lambda>k code uri. Inr \<lparr>ot_AccessToken = ''at'', ot_Error = []\<rparr>),
     a_user = (\<lambda>k token. Inr \<lparr>gu_ID = 7, gu_Login = ''ada'', gu_Name = [], gu_AvatarURL = []\<rparr>),
     a_installations = (\<lambda>k token page. Inr []), b_ping = (\<lambda>k. Inr ()), b_webhook = None, b_metrics = None,
     b_trace = (\<lambda>k tid n. Inr JNull), b_insights = (\<lambda>k tid. Inr JNull), b_collate = (\<lambda>s. s),
     b_parse_float = (\<lambda>s. None)\<rparr>"

lemma demo_http_ok: "others_ok demo_http"
  by (simp add: others_ok_def demo_http_def)

definition demo_server :: server where
  "demo_server = \<lparr>sv_DB = True, sv_Tasks = True, sv_Validations = True, sv_Evidence = True,
     sv_Dashboard = True, sv_Conflicts = True, sv_Traces = True, sv_Insights = True, sv_Auth = True,
     sv_CancelObserver = True, sv_OAuth = \<lparr>oc_ClientID = ''c'', oc_OAuthBaseURL = ''https://github.com''\<rparr>,
     sv_InstallURL = [], sv_PublicOrigin = ''https://a'', sv_CookieSecure = True, sv_Pages = 5\<rparr>"

definition demo_rq :: "string \<Rightarrow> string list \<Rightarrow> http_request" where
  "demo_rq meth path = \<lparr>hq_Method = meth, hq_Path = path, hq_Query = [], hq_Cookies = [],
     hq_LastEventID = [], hq_ContentLength = 0, hq_Body = []\<rparr>"

definition demo_enable :: http_request where
  "demo_enable = (demo_rq ''POST'' [''api'', ''v1'', ''repositories'', demo_repo, ''enable''])
     \<lparr>hq_Cookies := [(sessionCookieName, ''t'')]\<rparr>"

definition demo_members_world :: world where
  "demo_members_world = (demo_world demo_issue)\<lparr>w_records := no_records\<lparr>auth_rows := demo_members\<rparr>\<rparr>"

theorem session_required_witness:
  "\<exists>resp w'. serve demo_http demo_server (demo_rq ''GET'' [''api'', ''v1'', ''tasks'']) demo_members_world
      = (Inr (Some resp), w') \<and> hs_Status resp \<in> {401, 405, 500} \<and> w_log w' = []"
proof -
  let ?rq = "demo_rq ''GET'' [''api'', ''v1'', ''tasks'']"
  have auth: "sv_Auth demo_server" by (simp add: demo_server_def)
  have path: "api_path ?rq \<or> hq_Path ?rq = [''me'']" by (simp add: api_path_def demo_rq_def)
  have none: "session_user demo_http ?rq demo_members_world = None"
    by (simp add: session_user_def cookie_def demo_rq_def)
  have "w_log demo_members_world = []" by (simp add: demo_members_world_def)
  with session_required [OF auth path none] show ?thesis by metis
qed

lemma demo_env_at: "h_env demo_http k = (demo_env (int k))\<lparr>env_uuid := demo_uuid\<rparr>"
  by (simp add: demo_http_def demo_host_def)

lemma demo_member_answers:
  "SessionUser demo_digest (demo_env 0) ''t'' demo_members = Inr (scan_user demo_user)"
  "MemberOfRepository (demo_env 1) ''u'' demo_repo demo_issue demo_members = Inr True"
  "IsUUID demo_repo"
  by code_simp+

lemma demo_session_user: "session_user demo_http demo_enable demo_members_world = Some (scan_user demo_user)"
proof -
  have "SessionUser demo_digest ((demo_env 0)\<lparr>env_uuid := demo_uuid\<rparr>) ''t'' demo_members = Inr (scan_user demo_user)"
    using demo_member_answers(1) by (simp add: SessionUser_def driver_def session_rows_def live_def)
  moreover have "cookie demo_enable sessionCookieName = Some ''t''" by (simp add: cookie_def demo_enable_def)
  moreover have "a_sha256 demo_http = demo_digest" "h_other_records demo_http k r = r" for k r
    by (simp_all add: demo_http_def)
  ultimately show ?thesis by (simp add: session_user_def demo_env_at demo_members_world_def demo_world_def)
qed

lemma snd_answer: "snd (abind m (\<lambda>resp. ret (f resp)) w) = snd (m w)"
  by (simp add: abind_def ret_def split: prod.splits sum.splits)

lemma write_logged: "w_log (snd (dashboard_reply S (db_write H eff op) body w)) = w_log w @ [eff]"
  by (simp add: dashboard_reply_def reply_def abind_def atry_def ret_def db_write_def Let_def
      split: prod.splits sum.splits)

theorem only_members_change_repositories_witness:
  "\<exists>w'. w_log w' = [DbSetRepositoryEnabled demo_repo True] \<and>
    (\<exists>r. serve demo_http demo_server demo_enable demo_members_world = (r, w')) \<and>
    (\<exists>u. session_user demo_http demo_enable demo_members_world = Some u \<and>
      member_then demo_http (su_ID u) demo_repo (after_session demo_http demo_members_world))"
proof -
  let ?w = "demo_members_world"
  let ?w1 = "after_session demo_http ?w"
  obtain r w' where run: "serve demo_http demo_server demo_enable ?w = (r, w')" by fastforce
  have auth: "sv_Auth demo_server" and dash: "sv_Dashboard demo_server" by (simp_all add: demo_server_def)
  have path: "hq_Path demo_enable = [''api'', ''v1'', ''repositories'', demo_repo, ''enable'']"
    "hq_Method demo_enable = ''POST''" by (simp_all add: demo_enable_def demo_rq_def)
  have "MemberOfRepository ((demo_env 1)\<lparr>env_uuid := demo_uuid\<rparr>) ''u'' demo_repo demo_issue demo_members = Inr True"
    using demo_member_answers(2) by (simp add: MemberOfRepository_def driver_def)
  then have member: "op_MemberOfRepository demo_http ''u'' demo_repo ?w1 = (Inr True, after_session demo_http ?w1)"
    by (simp add: op_MemberOfRepository_def rec_read_def Let_def after_session_def demo_env_at)
      (simp add: demo_members_world_def demo_world_def demo_http_def)
  let ?enable = "dashboard_reply demo_server (db_write demo_http (DbSetRepositoryEnabled demo_repo True)
      (\<lambda>E. SetRepositoryEnabled E demo_repo True)) RepositoryBody"
  let ?route = "api_route demo_http demo_server (Some (scan_user demo_user)) demo_enable
      (drop 2 (hq_Path demo_enable))"
  have user: "su_ID (scan_user demo_user) = ''u''" by (simp add: scan_user_def demo_user_def)
  have repo: "demo_repo \<noteq> []" by (simp add: demo_repo_def)
  have "?route = authorizeRepositoryMember demo_http demo_server (Some (scan_user demo_user)) demo_repo ?enable"
    using repo demo_member_answers(3) dash
    by (simp add: path api_route_def repository_route_def on_method_def setRepositoryEnabled_def
        with_dashboard_def pathUUID_def)
  moreover have "authorizeRepositoryMember demo_http demo_server (Some (scan_user demo_user)) demo_repo ?enable ?w1
      = ?enable (after_session demo_http ?w1)"
    unfolding authorizeRepositoryMember_def user
    using auth member by (simp add: reply_def abind_def atry_def user)
  moreover have "serve demo_http demo_server demo_enable ?w =
      abind (requireSession demo_http demo_enable (\<lambda>user. api_route demo_http demo_server user demo_enable
        (drop 2 (hq_Path demo_enable)))) (\<lambda>resp. ret (Some resp)) ?w"
    using auth by (simp add: serve_def path guarded_def)
  ultimately have "snd (serve demo_http demo_server demo_enable ?w) = snd (?enable (after_session demo_http ?w1))"
    by (simp only: snd_answer requireSession_passes [OF demo_session_user])
  then have log: "w_log w' = w_log ?w @ [DbSetRepositoryEnabled demo_repo True]"
    using run by (simp add: write_logged after_session_def)
  have [simp]: "w_log ?w = []" by (simp add: demo_members_world_def)
  have "changes_repository (DbSetRepositoryEnabled demo_repo True)" by (simp add: changes_repository_def)
  from only_members_change_repositories [OF demo_http_ok auth _ _ run log _ this] log run path
  show ?thesis by (auto simp: changed_in_def)
qed

end
