(* ===== verification/LoginProps.thy ===== *)
theory LoginProps
  imports HttpProps
begin

text \<open>
  A login, from the callback's request to the session it sets: the state of the browser that
  started it is needed before anything is asked of GitHub, and the session belongs to the GitHub
  user the code was exchanged for.
\<close>

section \<open>Rows of users\<close>

text \<open>PostgreSQL's \<open>uuid\<close> columns: distinct as a primary key, printed in one form.\<close>

definition users_fit :: "auth_db \<Rightarrow> bool" where
  "users_fit a \<longleftrightarrow> distinct (map us_ID (auth_users a)) \<and> list_all (\<lambda>i. pg_uuid i = i) (map us_ID (auth_users a))"

definition user_row :: "string \<Rightarrow> int \<Rightarrow> auth_db \<Rightarrow> bool" where
  "user_row uid g a \<longleftrightarrow> users_fit a \<and> list_ex (\<lambda>u. us_ID u = uid \<and> us_GitHubUserID u = g) (auth_users a)"

text \<open>Other processes neither delete a user nor change the account one stands for.\<close>

definition users_kept :: "('m) host_scheme \<Rightarrow> bool" where
  "users_kept H \<longleftrightarrow> (\<forall>k r. users_fit (auth_rows r) \<longrightarrow> users_fit (auth_rows (h_other_records H k r)) \<and>
     (\<forall>uid g. user_row uid g (auth_rows r) \<longrightarrow> user_row uid g (auth_rows (h_other_records H k r))))"

lemma UpsertUser_row:
  assumes "UpsertUser E gh a = Inr (user, a')" and "users_fit a"
    and "\<And>n. pg_uuid (env_uuid E n) = env_uuid E n"
  shows "user_row (su_ID user) (gu_ID gh) a'"
proof (cases "find (\<lambda>u. us_GitHubUserID u = gu_ID gh) (auth_users a)")
  case None
  then show ?thesis
    using assms
    by (auto simp: UpsertUser_def Let_def bind_sum_Inr_iff user_row_def users_fit_def scan_user_def
        new_user_def split: if_splits)
next
  case (Some u)
  let ?v = "update_user E (new_user E gh a)"
  let ?same = "\<lambda>u. us_GitHubUserID u = gu_ID gh"
  have u: "u \<in> set (auth_users a)" "?same u" using Some by (auto simp: find_Some_iff)
  have a': "a' = a\<lparr>auth_users := update_where ?same ?v (auth_users a)\<rparr>" and user: "user = scan_user (?v u)"
    using assms(1) Some by (auto simp: UpsertUser_def Let_def bind_sum_Inr_iff split: if_splits)
  have ids: "map us_ID (auth_users a') = map us_ID (auth_users a)"
    by (simp add: a' update_where_def update_user_def comp_def if_distrib cong: if_cong)
  have "?v u \<in> set (auth_users a')" using u by (auto simp: a' update_where_def)
  moreover have "us_ID (?v u) = us_ID u" "us_GitHubUserID (?v u) = gu_ID gh"
    using u(2) by (simp_all add: update_user_def)
  moreover have "users_fit a'" using assms(2) by (simp only: users_fit_def ids)
  ultimately show ?thesis by (auto simp: user_row_def user scan_user_def list_ex_iff)
qed

lemma join_all_users: "join_all E uid accounts d a = Inr a' \<Longrightarrow> auth_users a' = auth_users a"
proof (induction accounts arbitrary: a)
  case (Cons x accounts)
  then obtain a1 where "join_organization E uid x d a = Inr a1" "join_all E uid accounts d a1 = Inr a'"
    by (auto simp: bind_sum_Inr_iff)
  moreover from this(1) have "auth_users a1 = auth_users a"
    by (auto simp: join_organization_def split: option.splits if_splits)
  ultimately show ?case using Cons.IH by simp
qed simp

section \<open>Actions that keep a user\<close>

definition keeps_user :: "string \<Rightarrow> int \<Rightarrow> 'a action \<Rightarrow> bool" where
  "keeps_user uid g m \<longleftrightarrow> (\<forall>w. user_row uid g (auth_rows (w_records w)) \<longrightarrow>
     user_row uid g (auth_rows (w_records (snd (m w)))))"

lemma snd_atry: "snd (atry m w) = snd (m w)"
  by (simp add: atry_def split: prod.splits sum.splits)

lemma keeps_simple:
  "keeps_user uid g (ret x)" "keeps_user uid g (call eff answer)"
  "keeps_user uid g m \<Longrightarrow> (\<And>x. keeps_user uid g (f x)) \<Longrightarrow> keeps_user uid g (abind m f)"
  "keeps_user uid g m \<Longrightarrow> keeps_user uid g (atry m)"
  "keeps_user uid g m \<Longrightarrow> keeps_user uid g (best_effort m)"
proof -
  show "keeps_user uid g (ret x)" "keeps_user uid g (call eff answer)"
    by (simp_all add: keeps_user_def ret_def call_def)
  show bind: "keeps_user uid g (abind m f)" if "keeps_user uid g m" "\<And>x. keeps_user uid g (f x)"
    for m :: "'c action" and f :: "'c \<Rightarrow> 'd action"
    unfolding keeps_user_def
  proof (intro allI impI)
    fix w :: world assume row: "user_row uid g (auth_rows (w_records w))"
    obtain r w1 where m: "m w = (r, w1)" by fastforce
    have "user_row uid g (auth_rows (w_records w1))" using that(1) row m unfolding keeps_user_def by (metis snd_conv)
    then show "user_row uid g (auth_rows (w_records (snd (abind m f w))))"
      using that(2) by (cases r) (auto simp: abind_def m keeps_user_def)
  qed
  show "keeps_user uid g (atry m)" if "keeps_user uid g m" for m :: "'e action"
    using that by (simp add: keeps_user_def snd_atry)
  show "keeps_user uid g (best_effort m)" if "keeps_user uid g m" for m :: "'f action"
    using that by (simp add: keeps_user_def best_effort_def snd_answer snd_atry)
qed

lemma keeps_auth_write:
  assumes "users_kept H" and "\<And>E d a x a'. op E d a = Inr (x, a') \<Longrightarrow> auth_users a' = auth_users a"
  shows "keeps_user uid g (auth_write H eff op)"
  unfolding keeps_user_def
proof (intro allI impI)
  fix w :: world assume "user_row uid g (auth_rows (w_records w))"
  then have row: "user_row uid g (auth_rows (h_other_records H (w_ops w) (w_records w)))"
    using assms(1) unfolding users_kept_def user_row_def by blast
  show "user_row uid g (auth_rows (w_records (snd (auth_write H eff op w))))"
  proof (cases "op (h_env H (w_ops w)) (h_others H (w_ops w) (w_db w))
      (auth_rows (h_other_records H (w_ops w) (w_records w)))")
    case (Inl e)
    with row show ?thesis by (simp add: auth_write_def rec_write_def Let_def)
  next
    case (Inr p)
    obtain x a' where p: "p = (x, a')" by fastforce
    have "auth_users a' = auth_users (auth_rows (h_other_records H (w_ops w) (w_records w)))"
      using assms(2) Inr p by blast
    then have "user_row uid g a'" using row by (simp add: user_row_def users_fit_def)
    with Inr p show ?thesis by (simp add: auth_write_def rec_write_def Let_def)
  qed
qed

lemma keeps_installations: "keeps_user uid g (installation_pages H token n page found)"
  by (induction n arbitrary: page found) (auto intro!: keeps_simple)

lemma keeps_sync: "users_kept H \<Longrightarrow> keeps_user uid g (op_SyncMemberships H u accounts)"
  unfolding op_SyncMemberships_def
  by (rule keeps_auth_write)
    (auto simp: auth_unit_def SyncMemberships_def Let_def bind_sum_Inr_iff dest: join_all_users)

section \<open>From the code to the session\<close>

lemma abind_InrE:
  assumes "abind m f w = (Inr y, w')"
  obtains x w1 where "m w = (Inr x, w1)" and "f x w1 = (Inr y, w')"
  using assms by (auto simp: abind_def split: prod.splits sum.splits)

lemma auth_write_InrE:
  assumes "auth_write H eff op w = (Inr x, w')"
  obtains a' where
    "op (h_env H (w_ops w)) (h_others H (w_ops w) (w_db w))
      (auth_rows (h_other_records H (w_ops w) (w_records w))) = Inr (x, a')"
    and "auth_rows (w_records w') = a'" and "w_ops w' = w_ops w + 1"
  using assms by (auto simp: auth_write_def rec_write_def Let_def bind_sum_Inr_iff split: sum.splits)

lemma keepsD:
  "keeps_user uid g m \<Longrightarrow> m w = (r, w') \<Longrightarrow> user_row uid g (auth_rows (w_records w)) \<Longrightarrow>
    user_row uid g (auth_rows (w_records w'))"
  unfolding keeps_user_def by (metis snd_conv)

lemma user_row_others:
  "users_kept H \<Longrightarrow> user_row uid g (auth_rows r) \<Longrightarrow> user_row uid g (auth_rows (h_other_records H k r))"
  unfolding users_kept_def user_row_def by blast

lemma CreateSession_for:
  assumes kept: "users_kept H" and row: "user_row uid g (auth_rows (w_records w))"
    and run: "CreateSession H uid ttl w = (Inr token, w')"
    and E: "fault_free E" "env_now E < env_now (h_env H (w_ops w' - 1)) + ttl"
  shows "\<exists>u. SessionUser (a_sha256 H) E token (auth_rows (w_records w')) = Inr u \<and> su_GitHubUserID u = g"
proof -
  from run obtain w1 where
    reap: "auth_write H DbReapSessions (\<lambda>E d a. auth_unit (ReapSessions E a)) w = (Inr (), w1)"
    and insert: "auth_write H (DbCreateSession uid)
      (\<lambda>E d a. auth_unit (InsertSession E uid (hashToken (a_sha256 H) token) ttl a)) w1 = (Inr (), w')"
    by (auto simp: CreateSession_def Let_def ret_def elim!: abind_InrE)
  have "user_row uid g (auth_rows (w_records w1))"
    by (rule keepsD [OF keeps_auth_write [OF kept] reap row])
      (auto simp: auth_unit_def ReapSessions_def bind_sum_Inr_iff)
  then have row': "user_row uid g (auth_rows (h_other_records H (w_ops w1) (w_records w1)))"
    by (rule user_row_others [OF kept])
  let ?a = "auth_rows (h_other_records H (w_ops w1) (w_records w1))" and ?a' = "auth_rows (w_records w')"
  from insert have ins: "InsertSession (h_env H (w_ops w1)) uid (hashToken (a_sha256 H) token) ttl ?a = Inr ?a'"
    and ops: "w_ops w' = w_ops w1 + 1"
    by (auto simp: auth_unit_def bind_sum_Inr_iff elim!: auth_write_InrE)
  from row' obtain u where u: "u \<in> set (auth_users ?a)" "us_ID u = uid" "us_GitHubUserID u = g"
    and fit: "users_fit ?a"
    by (auto simp: user_row_def list_ex_iff)
  have uid: "pg_uuid uid = uid" using u(1,2) fit by (auto simp: users_fit_def list_all_iff)
  have only: "v = u" if "v \<in> set (auth_users ?a)" "us_ID v = uid" for v
    using fit u(1,2) that by (auto simp: users_fit_def dest: distinct_map_eq)
  have rows: "session_rows E (hashToken (a_sha256 H) token) ?a' = filter (\<lambda>u. us_ID u = uid) (auth_users ?a)"
    using E(2) by (simp add: session_rows_new(1) [OF ins] uid ops)
  obtain v vs where vs: "filter (\<lambda>u. us_ID u = uid) (auth_users ?a) = v # vs"
    using u(1,2) by (cases "filter (\<lambda>u. us_ID u = uid) (auth_users ?a)") (auto simp: filter_empty_conv)
  then have "v \<in> set (filter (\<lambda>u. us_ID u = uid) (auth_users ?a))" by simp
  then have "v = u" by (intro only) auto
  then show ?thesis
    using u(3) by (simp add: fault_free_session [OF E(1)] rows vs scan_user_def)
qed

definition uuids_canonical :: "('m) host_scheme \<Rightarrow> bool" where
  "uuids_canonical H \<longleftrightarrow> (\<forall>k n. pg_uuid (env_uuid (h_env H k) n) = env_uuid (h_env H k) n)"

text \<open>The GitHub user a code stands for: the token it is exchanged for, and the user of the token.\<close>

definition code_user :: "('m) api_host_scheme \<Rightarrow> nat \<Rightarrow> string \<Rightarrow> string \<Rightarrow> GitHubUser \<Rightarrow> bool" where
  "code_user H k code uri gh \<longleftrightarrow> (\<exists>tok. a_token H k code uri = Inr tok \<and> ot_Error tok = [] \<and>
     a_user H (k + 1) (ot_AccessToken tok) = Inr gh)"

lemma CompleteLogin_session:
  assumes kept: "users_kept H" and ids: "uuids_canonical H" and fit: "users_fit (auth_rows (w_records w))"
    and run: "CompleteLogin H n code uri w = (Inr (Some (user, session)), w')"
  shows "\<exists>gh. code_user H (w_ops w) code uri gh \<and>
    (\<forall>E. fault_free E \<longrightarrow> env_now E < env_now (h_env H (w_ops w' - 1)) + SessionTTL \<longrightarrow>
      (\<exists>u. SessionUser (a_sha256 H) E session (auth_rows (w_records w')) = Inr u \<and>
        su_GitHubUserID u = gu_ID gh))"
proof -
  from run obtain tok w1 gh w2 user' w3 r w4 w5 where
    token: "ExchangeCode H code uri w = (Inr tok, w1)" and gh: "GetUser H tok w1 = (Inr gh, w2)"
    and user: "op_UpsertUser H gh w2 = (Inr user', w3)"
    and pages: "atry (InstallationAccounts H n tok) w3 = (Inr r, w4)"
    and sync: "(case r of Inl e \<Rightarrow> ret ()
       | Inr accounts \<Rightarrow> best_effort (op_SyncMemberships H (su_ID user') (the accounts))) w4 = (Inr (), w5)"
    and create: "CreateSession H (su_ID user') SessionTTL w5 = (Inr session, w')"
    by (auto simp: CompleteLogin_def ret_def elim!: abind_InrE split: if_splits)
  have w1: "w_records w1 = w_records w" "w_ops w1 = w_ops w + 1"
    and w2: "w_records w2 = w_records w1"
    using token gh by (auto simp: ExchangeCode_def GetUser_def call_def ret_def fail_def elim!: abind_InrE split: if_splits)
  have code: "code_user H (w_ops w) code uri gh"
    using token gh w1
    by (auto simp: code_user_def ExchangeCode_def GetUser_def call_def ret_def fail_def elim!: abind_InrE
        split: if_splits)
  let ?a = "auth_rows (h_other_records H (w_ops w2) (w_records w2))"
  have fit2: "users_fit ?a" using kept fit by (simp add: users_kept_def w1 w2)
  have "user_row (su_ID user') (gu_ID gh) (auth_rows (w_records w3))"
    using user UpsertUser_row [OF _ fit2] ids
    by (auto simp: op_UpsertUser_def uuids_canonical_def elim!: auth_write_InrE)
  then have "user_row (su_ID user') (gu_ID gh) (auth_rows (w_records w4))"
    by (rule keepsD [OF keeps_simple(4) [OF keeps_installations] pages [unfolded InstallationAccounts_def]])
  moreover have "keeps_user (su_ID user') (gu_ID gh) (case r of Inl e \<Rightarrow> ret ()
       | Inr accounts \<Rightarrow> best_effort (op_SyncMemberships H (su_ID user') (the accounts)))"
    by (cases r) (auto intro!: keeps_simple keeps_sync kept)
  ultimately have row: "user_row (su_ID user') (gu_ID gh) (auth_rows (w_records w5))"
    using keepsD sync by blast
  show ?thesis using code CreateSession_for [OF kept row create] by blast
qed

text \<open>
  Fuel for the pages: one more than the number of full pages is enough, so a user with a page that
  is not full, or an error there, is not read forever.
\<close>

lemma installation_pages_end:
  assumes "\<And>k accounts. a_installations H k token (page + m) = Inr accounts \<Longrightarrow>
    length accounts < installations_per_page"
  shows "fst (installation_pages H token (Suc m) page found w) \<noteq> Inr None"
  using assms
proof (induction m arbitrary: page found w)
  case 0
  then show ?case by (simp add: abind_def call_def ret_def split: sum.splits)
next
  case (Suc m)
  have "fst (installation_pages H token (Suc m) (page + 1) found' w') \<noteq> Inr None" for found' w'
    by (rule Suc.IH) (use Suc.prems in simp)
  then show ?case
    by (subst installation_pages.simps) (simp add: abind_def call_def ret_def split: sum.splits
        del: installation_pages.simps)
qed

text \<open>What the callback asks of a request before it goes to GitHub.\<close>

definition login_allowed :: "server \<Rightarrow> http_request \<Rightarrow> bool" where
  "login_allowed S rq \<longleftrightarrow> sv_Auth S \<and> query_get rq ''error'' = [] \<and> query_get rq ''state'' \<noteq> [] \<and>
     cookie rq stateCookieName = Some (query_get rq ''state'') \<and> query_get rq ''code'' \<noteq> []"

text \<open>
  C21. A login is one the browser started, and its session is its GitHub user's: the callback asks
  for no effect and sets no session cookie unless its request carries a code and the state of the
  browser's own cookie; and the token of the session cookie it sets stands, until it expires,
  for the user with the GitHub account that the code was exchanged for. Other processes are taken
  to keep the rows of users and the database to print its identifiers in one form.
\<close>

theorem login_session:
  assumes "users_kept H" and "uuids_canonical H" and "users_fit (auth_rows (w_records w))"
    and "handleAuthCallback H S rq w = (Inr (Some resp), w')"
  shows "(w_log w' \<noteq> w_log w \<longrightarrow> login_allowed S rq) \<and>
    (\<forall>c\<in>set (hs_SetCookies resp). ck_Name c = sessionCookieName \<longrightarrow> login_allowed S rq \<and>
      (\<exists>gh. code_user H (w_ops w) (query_get rq ''code'') (sv_PublicOrigin S @ callbackPath) gh \<and>
        (\<forall>E. fault_free E \<longrightarrow> env_now E < env_now (h_env H (w_ops w' - 1)) + SessionTTL \<longrightarrow>
          (\<exists>u. SessionUser (a_sha256 H) E (ck_Value c) (auth_rows (w_records w')) = Inr u \<and>
            su_GitHubUserID u = gu_ID gh))))"
proof (cases "login_allowed S rq")
  case False
  have "stateCookieName \<noteq> sessionCookieName" by (simp add: stateCookieName_def sessionCookieName_def)
  then show ?thesis
    using assms(4) False
    by (auto simp: handleAuthCallback_def login_allowed_def ret_def auth_unavailable_def writeError_def
        writeJSON_def redirectLoginError_def with_cookie_def clearCookie_def redirect_def split: if_splits)
next
  case True
  have cookies: "stateCookieName \<noteq> sessionCookieName" by (simp add: stateCookieName_def sessionCookieName_def)
  let ?login = "CompleteLogin H (sv_Pages S) (query_get rq ''code'') (sv_PublicOrigin S @ callbackPath)"
  show ?thesis
  proof (cases "fst (?login w)")
    case (Inl e)
    then have "\<forall>c\<in>set (hs_SetCookies resp). ck_Name c \<noteq> sessionCookieName"
      using assms(4) True cookies
      by (auto simp: handleAuthCallback_def login_allowed_def atry_def abind_def ret_def
          redirectLoginError_def with_cookie_def clearCookie_def redirect_def split: if_splits prod.splits)
    with True show ?thesis by auto
  next
    case (Inr result)
    then obtain user session where run: "?login w = (Inr (Some (user, session)), w')"
      and resp: "resp = with_cookie (clearCookie S stateCookieName)
            (with_cookie (fresh_cookie S sessionCookieName session SessionTTL)
              (redirect (sv_PublicOrigin S @ ''/'')))"
      using assms(4) True
      by (auto simp: handleAuthCallback_def login_allowed_def atry_def abind_def ret_def
          split: if_splits prod.splits option.splits)
    have "ck_Value c = session" if "c \<in> set (hs_SetCookies resp)" "ck_Name c = sessionCookieName" for c
      using that cookies by (auto simp: resp with_cookie_def clearCookie_def fresh_cookie_def redirect_def)
    with True CompleteLogin_session [OF assms(1-3) run] show ?thesis by auto
  qed
qed

definition demo_callback :: http_request where
  "demo_callback = (demo_rq ''GET'' [''auth'', ''github'', ''callback''])
     \<lparr>hq_Query := [(''code'', ''k''), (''state'', ''x'')], hq_Cookies := [(stateCookieName, ''x'')]\<rparr>"

definition demo_login_env :: env where
  "demo_login_env = (demo_env 1)\<lparr>env_uuid := (\<lambda>n. replicate (Suc n) (CHR ''z''))\<rparr>"

definition demo_hash :: "string \<Rightarrow> string" where
  "demo_hash s = replicate 32 (CHR ''b'')"

definition demo_login :: http_host where
  "demo_login = demo_http\<lparr>h_env := (\<lambda>k. demo_login_env), a_sha256 := demo_hash\<rparr>"

definition demo_gh :: GitHubUser where
  "demo_gh = \<lparr>gu_ID = 7, gu_Login = ''ada'', gu_Name = [], gu_AvatarURL = []\<rparr>"

definition demo_token :: string where
  "demo_token = base64url (replicate 32 (CHR ''q''))"

lemma demo_login_rows:
  "is_ok (bind_sum (UpsertUser demo_login_env demo_gh demo_members) (\<lambda>(u, a1).
     bind_sum (SyncMemberships demo_login_env (su_ID u) [] demo_issue a1) (\<lambda>a2.
     bind_sum (ReapSessions demo_login_env a2) (\<lambda>a3.
     InsertSession demo_login_env (su_ID u) (hashToken demo_hash demo_token) SessionTTL a3))))"
proof -
  have "hashToken demo_hash demo_token = hashToken demo_hash []"
    by (simp add: hashToken_def demo_hash_def)
  moreover have "is_ok (bind_sum (UpsertUser demo_login_env demo_gh demo_members) (\<lambda>(u, a1).
     bind_sum (SyncMemberships demo_login_env (su_ID u) [] demo_issue a1) (\<lambda>a2.
     bind_sum (ReapSessions demo_login_env a2) (\<lambda>a3.
     InsertSession demo_login_env (su_ID u) (hashToken demo_hash []) SessionTTL a3))))"
    by code_simp
  ultimately show ?thesis by simp
qed

lemma demo_login_simps:
  "h_env demo_login k = demo_login_env" "h_others demo_login k d = d" "h_other_records demo_login k r = r"
  "a_sha256 demo_login = demo_hash" "a_random demo_login k = Inr (replicate 32 (CHR ''q''))"
  "a_token demo_login k code uri = Inr \<lparr>ot_AccessToken = ''at'', ot_Error = []\<rparr>"
  "a_user demo_login k token = Inr demo_gh" "a_installations demo_login k token page = Inr []"
  by (simp_all add: demo_login_def demo_http_def demo_gh_def)

lemma demo_login_ok:
  "users_kept demo_login" "uuids_canonical demo_login" "users_fit (auth_rows (w_records demo_members_world))"
proof -
  show "users_kept demo_login" by (simp add: users_kept_def demo_login_simps)
  have "lower_byte (CHR ''z'') = CHR ''z''" by code_simp
  then show "uuids_canonical demo_login"
    by (simp add: uuids_canonical_def demo_login_simps demo_login_env_def pg_uuid_def)
  have "users_fit demo_members" by code_simp
  then show "users_fit (auth_rows (w_records demo_members_world))" by (simp add: demo_members_world_def)
qed

lemma demo_login_write:
  "auth_write demo_login eff op w = (case op demo_login_env (w_db w) (auth_rows (w_records w)) of
      Inl e \<Rightarrow> (Inl e, w\<lparr>w_ops := w_ops w + 1, w_log := w_log w @ [eff]\<rparr>)
    | Inr (x, a) \<Rightarrow> (Inr x, w\<lparr>w_ops := w_ops w + 1, w_log := w_log w @ [eff],
        w_records := (w_records w)\<lparr>auth_rows := a\<rparr>\<rparr>))"
  by (simp add: auth_write_def rec_write_def Let_def demo_login_simps bind_sum_def
      split: sum.splits prod.splits)

lemma demo_login_runs:
  "\<exists>u w'. CompleteLogin demo_login 5 code uri demo_members_world = (Inr (Some (u, demo_token)), w') \<and>
    w_ops w' = 7"
proof -
  obtain u a1 a2 a3 a4 where rows:
    "UpsertUser demo_login_env demo_gh demo_members = Inr (u, a1)"
    "SyncMemberships demo_login_env (su_ID u) [] demo_issue a1 = Inr a2"
    "ReapSessions demo_login_env a2 = Inr a3"
    "InsertSession demo_login_env (su_ID u) (hashToken demo_hash demo_token) SessionTTL a3 = Inr a4"
    using demo_login_rows by (auto simp: is_ok_iff bind_sum_Inr_iff)
  have gh: "0 < gu_ID demo_gh" "gu_Login demo_gh \<noteq> []" by (simp_all add: demo_gh_def)
  note run = abind_def ret_def call_def atry_def demo_login_simps
  have token: "ExchangeCode demo_login code uri w = (Inr ''at'', w\<lparr>w_ops := w_ops w + 1,
      w_log := w_log w @ [GhRead ''access_token'']\<rparr>)" for w
    by (simp add: ExchangeCode_def run)
  have account: "GetUser demo_login t w = (Inr demo_gh, w\<lparr>w_ops := w_ops w + 1,
      w_log := w_log w @ [GhRead ''user'']\<rparr>)" for t w
    using gh by (simp add: GetUser_def run)
  have "installation_pages demo_login t (Suc n) page found w = (Inr (Some (found @ [])),
      w\<lparr>w_ops := w_ops w + 1, w_log := w_log w @ [GhRead ''installations'']\<rparr>)" for t n page found w
    by (simp add: run installations_per_page_def)
  from this [where n = 4] have pages: "InstallationAccounts demo_login 5 t w = (Inr (Some []),
      w\<lparr>w_ops := w_ops w + 1, w_log := w_log w @ [GhRead ''installations'']\<rparr>)" for t w
    by (simp add: InstallationAccounts_def)
  have world: "w_db demo_members_world = demo_issue" "auth_rows (w_records demo_members_world) = demo_members"
    "w_ops demo_members_world = 0"
    by (simp_all add: demo_members_world_def demo_world_def)
  have "a_random demo_login k = Inr (replicate 32 (CHR ''q''))" for k by (rule demo_login_simps)
  then show ?thesis
    using rows
    by (simp add: CompleteLogin_def token account pages demo_login_write world op_UpsertUser_def
        op_SyncMemberships_def CreateSession_def atry_def best_effort_def abind_def ret_def
        auth_unit_def demo_token_def [symmetric] Let_def demo_login_simps(4))
qed

theorem login_session_witness:
  "\<exists>resp w' c u. handleAuthCallback demo_login demo_server demo_callback demo_members_world
      = (Inr (Some resp), w') \<and>
    c \<in> set (hs_SetCookies resp) \<and> ck_Name c = sessionCookieName \<and>
    SessionUser demo_hash (demo_env 60) (ck_Value c) (auth_rows (w_records w')) = Inr u \<and>
    su_GitHubUserID u = 7"
proof -
  let ?uri = "sv_PublicOrigin demo_server @ callbackPath"
  have server: "sv_Auth demo_server" "sv_Pages demo_server = 5" by (simp_all add: demo_server_def)
  have rq: "query_get demo_callback ''error'' = []" "query_get demo_callback ''state'' = ''x''"
    "query_get demo_callback ''code'' = ''k''" "cookie demo_callback stateCookieName = Some ''x''"
    by (simp_all add: query_get_def cookie_def demo_callback_def)
  obtain u w' where login: "CompleteLogin demo_login 5 ''k'' ?uri demo_members_world
      = (Inr (Some (u, demo_token)), w')" and ops: "w_ops w' = 7"
    using demo_login_runs by blast
  let ?c = "fresh_cookie demo_server sessionCookieName demo_token SessionTTL"
  obtain resp where run: "handleAuthCallback demo_login demo_server demo_callback demo_members_world
      = (Inr (Some resp), w')" and c: "?c \<in> set (hs_SetCookies resp)"
    using login rq
    by (auto simp: handleAuthCallback_def server abind_def atry_def ret_def with_cookie_def)
  have "env_now (demo_env 60) < env_now (h_env demo_login (w_ops w' - 1)) + SessionTTL"
    by (simp add: demo_login_simps demo_login_env_def demo_env_def SessionTTL_def second_def)
  note live = this
  have name: "ck_Name ?c = sessionCookieName" by (simp add: fresh_cookie_def)
  have "\<exists>gh. code_user demo_login (w_ops demo_members_world) (query_get demo_callback ''code'') ?uri gh \<and>
      (\<forall>E. fault_free E \<longrightarrow> env_now E < env_now (h_env demo_login (w_ops w' - 1)) + SessionTTL \<longrightarrow>
        (\<exists>u. SessionUser (a_sha256 demo_login) E (ck_Value ?c) (auth_rows (w_records w')) = Inr u \<and>
          su_GitHubUserID u = gu_ID gh))"
    using login_session [OF demo_login_ok run] c name by blast
  then obtain gh u where
    gh: "code_user demo_login (w_ops demo_members_world) (query_get demo_callback ''code'') ?uri gh"
    and u: "SessionUser (a_sha256 demo_login) (demo_env 60) (ck_Value ?c) (auth_rows (w_records w')) = Inr u"
      "su_GitHubUserID u = gu_ID gh"
    using live demo_env_fault_free [of 60] by blast
  have "gu_ID gh = 7" using gh by (auto simp: code_user_def demo_login_simps) (simp add: demo_gh_def)
  with u have "SessionUser demo_hash (demo_env 60) (ck_Value ?c) (auth_rows (w_records w')) = Inr u"
    "su_GitHubUserID u = 7" by (simp_all add: demo_login_simps(4))
  with run c name show ?thesis by blast
qed

end
