(* ===== verification/TaskCreation.thy ===== *)
theory TaskCreation
  imports HttpProps CheckProps TaskProgress
begin

text \<open>
  From a request to a task: the bounds the API checks are those of the columns, so a request that
  passes them is stored and queued whenever the database answers.
\<close>

section \<open>Creating succeeds\<close>

definition ids_unused :: "env \<Rightarrow> db \<Rightarrow> bool" where
  "ids_unused E d \<longleftrightarrow> inj (env_uuid E) \<and>
     (\<forall>n. env_uuid E n \<notin> t_ID ` set (tasks d) \<union> a_ID ` set (attempts d) \<union> e_ID ` set (events d))"

lemma schema_ok_append_task:
  assumes "schema_ok d" and "task_row_ok t" and "t_ID t \<notin> t_ID ` set (tasks d)"
    and "t_SourceType t = ''api''" and "t_OrganizationID t = None" and "t_RepositoryID t = None"
  shows "schema_ok (d\<lparr>tasks := tasks d @ [t]\<rparr>)"
  using assms
  by (auto simp: schema_lists active_issue_keys_def list_all_iff)

lemma Create_succeeds:
  assumes ff: "fault_free E" and inv: "db_inv d" and ids: "ids_unused E d"
    and row: "task_row_ok (created_task E (create_defaults p) d)"
    and api: "c_SourceType p = []" "c_OrganizationID p = None" "c_RepositoryID p = None"
    and plain: "c_RequestedByLogin p = []" "c_SourceCommentID p = None"
  shows "\<exists>t d'. Create E p d = Inr (t, d')"
proof -
  let ?p = "create_defaults p"
  define t where "t = created_task E ?p d"
  define d1 where "d1 = d\<lparr>tasks := tasks d @ [t]\<rparr>"
  define att where "att = first_attempt E (t_ID t) ?p d1"
  define d2 where "d2 = d1\<lparr>attempts := attempts d1 @ [att]\<rparr>"
  note ok = db_invD(1) [OF inv]
  have unused: "env_uuid E n \<notin> t_ID ` set (tasks d)" "env_uuid E n \<notin> a_ID ` set (attempts d)"
    "env_uuid E n \<notin> e_ID ` set (events d)" for n
    using ids by (auto simp: ids_unused_def)
  have inj: "env_uuid E m = env_uuid E n \<Longrightarrow> m = n" for m n using ids by (simp add: ids_unused_def inj_def)
  have later: "env_uuid E (Suc n) \<noteq> env_uuid E n" for n using inj [of "Suc n" n] by force
  have t: "t_ID t = env_uuid E (length (tasks d))" by (simp add: t_def created_task_def)
  have ok1: "schema_ok d1" unfolding d1_def
    by (rule schema_ok_append_task [OF ok]) (use row unused api in \<open>auto simp: t_def created_task_def create_defaults_def\<close>)
  have att: "a_ID att = env_uuid E (length (attempts d))"
    by (simp add: att_def first_attempt_def bare_attempt_def d1_def)
  have none: "a_TaskID a \<noteq> t_ID t" if "a \<in> set (attempts d)" for a
    using schema_ok_attemptD(4) [OF ok that] unused(1) unfolding t by (metis list.set_map)
  have ok2: "schema_ok d2" unfolding d2_def
  proof (rule schema_ok_append_attempt [OF ok1])
    show "attempt_row_ok att"
      using plain by (simp add: att_def first_attempt_def bare_attempt_def attempt_row_ok_def
          attempt_status_ok_def create_defaults_def nullif_empty_def)
    show "a_ID att \<notin> a_ID ` set (attempts d1)" using unused(2) by (simp add: att d1_def)
    show "a_TaskID att \<in> t_ID ` set (tasks d1)" by (simp add: att_def d1_def)
    show "a_RunnerID att = None" "a_LeaseOwner att = None"
      by (simp_all add: att_def first_attempt_def bare_attempt_def)
  qed (use none in \<open>auto simp: att_def d1_def\<close>)
  let ?pl = "JObj [(''title'', JStr (t_Title t))]"
  have "\<exists>d3. insertEvent E (a_ID att) EventTypeCreated ''api'' ?pl [] d2 = Inr d3"
  proof (rule insertEvent_succeeds [OF ff ok2])
    show "env_uuid E (length (events d2)) \<notin> e_ID ` set (events d2)"
      using unused(3) by (simp add: d2_def d1_def)
    show "a_ID att \<in> a_ID ` set (attempts d2)" by (simp add: d2_def)
    show "text_between 1 200 EventTypeCreated" "validSource ''api''" by code_simp+
    show "json_ok ?pl" using row by (simp add: t_def task_row_ok_def text_between_def pg_text_def Let_def)
  qed (simp_all add: nullif_empty_def)
  then obtain d3 where ins: "insertEvent E (a_ID att) EventTypeCreated ''api'' ?pl [] d2 = Inr d3" by blast
  have events: "events d2 = events d" by (simp add: d2_def d1_def)
  from ins have d3: "d3 = d2\<lparr>events := events d2 @ [new_event E (a_ID att) EventTypeCreated ''api'' ?pl [] d2]\<rparr>"
    and ok3: "schema_ok d3" by (auto simp: insertEvent_Inr)
  have d3': "d3 = d\<lparr>tasks := tasks d @ [t], attempts := attempts d @ [att],
      events := events d @ [new_event E (a_ID att) EventTypeCreated ''api'' ?pl [] d]\<rparr>"
    using new_event_cong [OF events] by (simp add: d3 d2_def d1_def)
  have inv3: "db_inv d3"
    by (rule created_inv [OF inv ok3 _ _ _ _ d3']) (simp_all add: t_def att_def)
  have "\<exists>q d4. applyTransition E t (transition_to StatusQueued ''system'') d3 = Inr (q, d4)"
  proof (rule applyTransition_succeeds [OF ff inv3])
    show "t \<in> set (tasks d3)" by (simp add: d3')
    show "ids_fresh E d3"
      using unused later by (auto simp: ids_fresh_def d3' t att new_event_def)
  qed (simp_all add: transition_to_def validSource_def replayed_def transition_fits_def nullif_empty_def
      pg_text_def t_def CanTransition_def)
  then obtain q d4 where app: "applyTransition E t (transition_to StatusQueued ''system'') d3 = Inr (q, d4)"
    by blast
  have "exec E l e = Inr e" if "schema_ok e" for l e by (rule exec_fault_free [OF ff that])
  then have "Create E p d = Inr (q, d4)"
    using ff ok1 ok2 ins app unfolding d1_def [symmetric]
    by (simp add: Create_def insert_created_task_def Let_def exec_fault_free begin_tx_def
        commit_tx_def t_def [symmetric] d1_def [symmetric] att_def [symmetric] d2_def [symmetric])
  then show ?thesis by blast
qed

text \<open>A request the API lets through fits the columns of a task.\<close>

lemma length_TrimSpace: "length (TrimSpace s) \<le> length s"
proof -
  have le: "length (concat (dropWhile p rs)) \<le> length (concat rs)" for p and rs :: "string list"
    by (induction rs) auto
  have len: "length (concat (rev rs)) = length (concat rs)" for rs :: "string list"
    by (induction rs) auto
  have "length (concat (trim_runes p rs)) \<le> length (concat rs)" for p and rs :: "string list"
    unfolding trim_runes_def len by (rule order_trans [OF le]) (simp only: len le)
  then show ?thesis unfolding TrimSpace_def by (metis concat_runes)
qed

lemma within_column:
  assumes "pg_text s" and "s \<noteq> []" and "int (length s) \<le> n"
  shows "text_between 1 n s"
  using assms rune_count_pos [OF assms(2)] rune_count_le [of s]
  by (simp add: text_between_def Let_def)

lemma pg_text_TrimSpace: "pg_text s \<Longrightarrow> pg_text (TrimSpace s)"
  using set_TrimSpace [of s] by (auto simp: pg_text_def intro: valid_TrimSpace)

lemma validated_row:
  assumes valid: "validate_request req = Inr ()"
    and pg: "pg_text (cq_Title req)" "pg_text (cq_Instructions req)" "pg_text (cq_BaseBranch req)"
  shows "task_row_ok (created_task E (create_defaults (request_params req)) d)"
proof -
  have title: "text_between 1 500 (TrimSpace (cq_Title req))"
    using valid length_TrimSpace [of "cq_Title req"]
    by (intro within_column pg_text_TrimSpace [OF pg(1)]) (auto simp: validate_request_def split: if_splits)
  have "cq_Instructions req \<noteq> []"
    using valid by (auto simp: validate_request_def TrimSpace_def trim_runes_def split: if_splits)
  then have instr: "text_between 1 100000 (cq_Instructions req)"
    using valid by (intro within_column [OF pg(2)]) (auto simp: validate_request_def split: if_splits)
  have "text_between 1 255 (cq_BaseBranch req)" if "cq_BaseBranch req \<noteq> []"
    using valid that by (intro within_column [OF pg(3)]) (auto simp: validate_request_def split: if_splits)
  moreover have "text_between 1 255 ''main''" by code_simp
  moreover have "-100 \<le> cq_Priority req" "cq_Priority req \<le> 100"
    "null_or (\<lambda>n. 1 \<le> n \<and> n \<le> 86400) (cq_MaxRuntimeSeconds req)" "null_or (\<lambda>c. 0 \<le> c) (cq_MaxCostUSD req)"
    using valid by (auto simp: validate_request_def null_or_def split: if_splits option.splits)
  ultimately show ?thesis using title instr
    by (simp add: task_row_ok_def created_task_def create_defaults_def request_params_def)
qed

lemma Create_queued:
  assumes "Create E p d = Inr (q, d')"
  shows "q \<in> set (tasks d') \<and>
    q = transition_row E (transition_to StatusQueued ''system'') (created_task E (create_defaults p) d)"
  using assms
proof (cases rule: Create_InrE)
  case (1 t att d3)
  let ?p = "transition_to StatusQueued ''system''"
  from 1(5) show ?thesis
  proof (cases rule: applyTransition_InrE)
    case replay
    then show ?thesis by (simp add: replayed_def transition_to_def)
  next
    case (step att' as' aid t0)
    have in3: "t \<in> set (tasks d3)" by (simp add: 1(3))
    from step(5) have "t0 = t" using find_task_self [OF 1(4) in3] by simp
    then have q: "q = transition_row E ?p t" using step(6) by simp
    moreover have "q \<in> set (tasks d')"
      using in3 unfolding q step(7) by (auto simp: step_db_def update_where_def)
    ultimately show ?thesis using 1(1) by simp
  qed
qed

section \<open>Creating through the API\<close>


definition demo_create_host :: http_host where
  "demo_create_host = demo_http\<lparr>h_env := (\<lambda>k. (demo_env (int k))\<lparr>env_uuid := (\<lambda>n. replicate (Suc n) (CHR ''z''))\<rparr>)\<rparr>"


end
