(* ===== verification/ClaudeAgent.thy ===== *)
theory ClaudeAgent
  imports RunnerOps GoReplace
begin

text \<open>
  \<open>internal/agent\<close>: the adapters behind a session. \<open>claude.go\<close> runs the command line agent and turns
  the lines it prints into events and a result; \<open>fake.go\<close> is the agent without a model; \<open>new.go\<close>
  chooses between them. A session is what it emits until it closes and what \<open>Wait\<close> returns then.
\<close>

section \<open>The surroundings of an agent\<close>

text \<open>
  What a started process did: the lines it printed, how reading them and the process ended, what it
  wrote to its standard error, and the error of the context when it had ended.
\<close>

record claude_process =
  cp_Lines :: "string list"
  cp_ScanErr :: "string option"
  cp_WaitErr :: "string option"
  cp_CtxErr :: "sentinel option"
  cp_Stderr :: string

text \<open>
  \<open>cz_unmarshal\<close> is the syntax of \<open>json.Unmarshal\<close>, \<open>cz_float\<close> the literal of the \<open>float64\<close> that a
  number literal is read as, none when it is out of range.
\<close>

record claude_host =
  cz_look :: "string \<Rightarrow> err + string"
  cz_version :: "string \<Rightarrow> err + string"
  cz_stat :: "string \<Rightarrow> err + bool"
  cz_start :: "string list \<Rightarrow> string list \<Rightarrow> string \<Rightarrow> err + claude_process"
  cz_getenv :: "string \<Rightarrow> string"
  cz_unmarshal :: "string \<Rightarrow> json option"
  cz_float :: "string \<Rightarrow> string option"

record ClaudeCodeOptions =
  co_CLIPath :: string
  co_Model :: string
  co_PermissionMode :: string
  co_PinnedVersion :: string

definition ClaudeProvider :: string where
  "ClaudeProvider = ''claude-code''"

definition NewClaudeCode :: "ClaudeCodeOptions \<Rightarrow> ClaudeCodeOptions" where
  "NewClaudeCode o1 = o1
     \<lparr>co_CLIPath := (if co_CLIPath o1 = [] then ''claude'' else co_CLIPath o1),
      co_PermissionMode := (if co_PermissionMode o1 = [] then ''acceptEdits'' else co_PermissionMode o1)\<rparr>"

section \<open>Configuration\<close>

text \<open>\<open>strings.FieldsFunc\<close> for separators of one byte.\<close>

function fields_func :: "(char \<Rightarrow> bool) \<Rightarrow> string \<Rightarrow> string list" where
  "fields_func p s =
     (let t = dropWhile p s in
      if t = [] then []
      else takeWhile (\<lambda>c. \<not> p c) t # fields_func p (dropWhile (\<lambda>c. \<not> p c) t))"
  by pat_completeness auto
termination
proof (relation "measure (\<lambda>(p, s). length s)")
  fix p s t assume t: "t = dropWhile p s" "t \<noteq> []"
  then have "\<not> p (hd t)" by (metis hd_dropWhile)
  then have "length (dropWhile (\<lambda>c. \<not> p c) t) < length t"
    using t(2) length_dropWhile_le [of "\<lambda>c. \<not> p c" "tl t"] by (cases t) auto
  also have "length t \<le> length s" unfolding t(1) by (rule length_dropWhile_le)
  finally show "((p, dropWhile (\<lambda>c. \<not> p c) t), p, s) \<in> measure (\<lambda>(p, s). length s)" by simp
qed simp

declare fields_func.simps [simp del]

definition pinMatches :: "string \<Rightarrow> string \<Rightarrow> bool" where
  "pinMatches version pinned \<longleftrightarrow>
     pinned \<in> set (fields_func (\<lambda>c. c = CHR '' '' \<or> c = CHR ''('' \<or> c = CHR '')'') version)"

definition ValidateConfiguration :: "claude_host \<Rightarrow> ClaudeCodeOptions \<Rightarrow> err + unit" where
  "ValidateConfiguration Z o1 =
     bind_sum (wrap (''claude-code: CLI '' @ quote (co_CLIPath o1) @ '' not found on PATH'')
       (cz_look Z (co_CLIPath o1))) (\<lambda>path.
     bind_sum (wrap (''claude-code: '' @ quote path @ '' --version failed'') (cz_version Z path)) (\<lambda>out.
     let version = TrimSpace out in
     if co_PinnedVersion o1 \<noteq> [] \<and> \<not> pinMatches version (co_PinnedVersion o1) then
       Inl (Msg (''claude-code: CLI version '' @ quote version @ '' does not match pinned ''
         @ quote (co_PinnedVersion o1)))
     else Inr ()))"

definition credentialEnv :: "string list" where
  "credentialEnv = [''ANTHROPIC_API_KEY'', ''CLAUDE_CODE_OAUTH_TOKEN'']"

definition claudeEnv :: "(string \<Rightarrow> string) \<Rightarrow> string list" where
  "claudeEnv getenv =
     [''PATH='' @ getenv ''PATH'', ''HOME='' @ getenv ''HOME'', ''CI=1'', ''TERM=dumb'',
      ''DISABLE_AUTOUPDATER=1'', ''DISABLE_TELEMETRY=1'', ''CLAUDE_CODE_DISABLE_NONESSENTIAL_TRAFFIC=1'']
     @ map (\<lambda>k. k @ ''='' @ getenv k)
         (filter (\<lambda>k. getenv k \<noteq> []) (''ANTHROPIC_BASE_URL'' # credentialEnv))"

definition claude_args :: "ClaudeCodeOptions \<Rightarrow> string \<Rightarrow> string list" where
  "claude_args o1 instructions =
     [''--print'', instructions, ''--output-format'', ''stream-json'', ''--verbose'',
      ''--permission-mode'', co_PermissionMode o1]
     @ (if co_Model o1 = [] then [] else [''--model'', co_Model o1])"

section \<open>The state of a session\<close>

record claude_state =
  cse_Events :: "AgentEvent list"
  cse_Tools :: "(string \<times> string) list"
  cse_Files :: "string list"
  cse_Summary :: string
  cse_Failed :: bool
  cse_Err :: "err option"
  cse_SawResult :: bool

definition no_claude_state :: claude_state where
  "no_claude_state = \<lparr>cse_Events = [], cse_Tools = [], cse_Files = [], cse_Summary = [],
     cse_Failed = False, cse_Err = None, cse_SawResult = False\<rparr>"

definition emit :: "agent_event_type \<Rightarrow> json \<Rightarrow> claude_state \<Rightarrow> claude_state" where
  "emit ty payload st = st\<lparr>cse_Events := cse_Events st @ [\<lparr>ae_Type = ty, ae_Payload = payload\<rparr>]\<rparr>"

text \<open>The name a tool was requested under; the last request with an id counts.\<close>

definition tool_name :: "claude_state \<Rightarrow> string \<Rightarrow> string" where
  "tool_name st i = (case map_of (cse_Tools st) i of None \<Rightarrow> [] | Some n \<Rightarrow> n)"

section \<open>Redaction\<close>

definition cut_detail :: "string \<Rightarrow> string" where
  "cut_detail s = (if 4096 < length s then take 4096 s @ ''...'' else s)"

definition redact_value :: "(string \<Rightarrow> string) \<Rightarrow> string \<Rightarrow> string \<Rightarrow> string" where
  "redact_value getenv k msg =
     (if getenv k = [] then msg else replace_all (getenv k) ''***'' msg)"

definition redact_detail :: "(string \<Rightarrow> string) \<Rightarrow> string \<Rightarrow> string" where
  "redact_detail getenv msg =
     TrimSpace (cut_detail (fold (redact_value getenv) credentialEnv (redact msg)))"

definition fail_session :: "(string \<Rightarrow> string) \<Rightarrow> string \<Rightarrow> string \<Rightarrow> claude_state \<Rightarrow> claude_state" where
  "fail_session getenv reason detail st =
     (emit EventSessionFailed
        (JObj [(''detail'', jtext (redact_detail getenv detail)), (''reason'', jtext reason)]) st)
     \<lparr>cse_Err := (case cse_Err st of None \<Rightarrow> Some (Msg (''claude-code: '' @ reason)) | Some e \<Rightarrow> Some e),
      cse_Failed := True\<rparr>"

section \<open>Lines\<close>

record claudeLine =
  cl_Type :: string
  cl_Subtype :: string
  cl_Model :: string
  cl_SessionID :: string
  cl_Message :: "json option"
  cl_Result :: string
  cl_IsError :: bool
  cl_TotalCostUSD :: "string option"
  cl_DurationMS :: int
  cl_NumTurns :: int
  cl_Usage :: "json option"

definition no_line :: claudeLine where
  "no_line = \<lparr>cl_Type = [], cl_Subtype = [], cl_Model = [], cl_SessionID = [], cl_Message = None,
     cl_Result = [], cl_IsError = False, cl_TotalCostUSD = None, cl_DurationMS = 0, cl_NumTurns = 0,
     cl_Usage = None\<rparr>"

record claudeBlock =
  cb_Type :: string
  cb_Text :: string
  cb_ID :: string
  cb_Name :: string
  cb_Input :: "json option"
  cb_ToolUseID :: string
  cb_Content :: "json option"
  cb_IsError :: bool

definition no_block :: claudeBlock where
  "no_block = \<lparr>cb_Type = [], cb_Text = [], cb_ID = [], cb_Name = [], cb_Input = None,
     cb_ToolUseID = [], cb_Content = None, cb_IsError = False\<rparr>"

definition decode_float_text :: "(string \<Rightarrow> string option) \<Rightarrow> json \<Rightarrow> err + string option" where
  "decode_float_text float j =
     (case j of
        JNum lit \<Rightarrow> (case float lit of
           Some q \<Rightarrow> Inr (Some q)
         | None \<Rightarrow> Inl (Msg ''json: cannot unmarshal number into Go struct field of type float64''))
      | JNull \<Rightarrow> Inr None
      | _ \<Rightarrow> Inl (Msg ''json: cannot unmarshal into Go struct field of type float64''))"

definition line_member :: "(string \<Rightarrow> string option) \<Rightarrow> string \<Rightarrow> json \<Rightarrow> claudeLine \<Rightarrow> err + claudeLine" where
  "line_member float k j l =
     (if k = ''type'' then bind_sum (decode_string j (cl_Type l)) (\<lambda>s. Inr (l\<lparr>cl_Type := s\<rparr>))
      else if k = ''subtype'' then bind_sum (decode_string j (cl_Subtype l)) (\<lambda>s. Inr (l\<lparr>cl_Subtype := s\<rparr>))
      else if k = ''model'' then bind_sum (decode_string j (cl_Model l)) (\<lambda>s. Inr (l\<lparr>cl_Model := s\<rparr>))
      else if k = ''session_id'' then
        bind_sum (decode_string j (cl_SessionID l)) (\<lambda>s. Inr (l\<lparr>cl_SessionID := s\<rparr>))
      else if k = ''message'' then Inr (l\<lparr>cl_Message := Some j\<rparr>)
      else if k = ''result'' then bind_sum (decode_string j (cl_Result l)) (\<lambda>s. Inr (l\<lparr>cl_Result := s\<rparr>))
      else if k = ''is_error'' then bind_sum (decode_bool j (cl_IsError l)) (\<lambda>b. Inr (l\<lparr>cl_IsError := b\<rparr>))
      else if k = ''total_cost_usd'' then
        bind_sum (decode_float_text float j) (\<lambda>q. Inr (l\<lparr>cl_TotalCostUSD := q\<rparr>))
      else if k = ''duration_ms'' then
        bind_sum (decode_int j (cl_DurationMS l)) (\<lambda>n. Inr (l\<lparr>cl_DurationMS := n\<rparr>))
      else if k = ''num_turns'' then
        bind_sum (decode_int j (cl_NumTurns l)) (\<lambda>n. Inr (l\<lparr>cl_NumTurns := n\<rparr>))
      else if k = ''usage'' then Inr (l\<lparr>cl_Usage := Some j\<rparr>)
      else Inr l)"

definition block_member :: "string \<Rightarrow> json \<Rightarrow> claudeBlock \<Rightarrow> err + claudeBlock" where
  "block_member k j b =
     (if k = ''type'' then bind_sum (decode_string j (cb_Type b)) (\<lambda>s. Inr (b\<lparr>cb_Type := s\<rparr>))
      else if k = ''text'' then bind_sum (decode_string j (cb_Text b)) (\<lambda>s. Inr (b\<lparr>cb_Text := s\<rparr>))
      else if k = ''id'' then bind_sum (decode_string j (cb_ID b)) (\<lambda>s. Inr (b\<lparr>cb_ID := s\<rparr>))
      else if k = ''name'' then bind_sum (decode_string j (cb_Name b)) (\<lambda>s. Inr (b\<lparr>cb_Name := s\<rparr>))
      else if k = ''input'' then Inr (b\<lparr>cb_Input := Some j\<rparr>)
      else if k = ''tool_use_id'' then
        bind_sum (decode_string j (cb_ToolUseID b)) (\<lambda>s. Inr (b\<lparr>cb_ToolUseID := s\<rparr>))
      else if k = ''content'' then Inr (b\<lparr>cb_Content := Some j\<rparr>)
      else if k = ''is_error'' then bind_sum (decode_bool j (cb_IsError b)) (\<lambda>x. Inr (b\<lparr>cb_IsError := x\<rparr>))
      else Inr b)"

definition content_member :: "string \<Rightarrow> json \<Rightarrow> claudeBlock list \<Rightarrow> err + claudeBlock list" where
  "content_member k j bs =
     (if k = ''content'' then decode_slice (decode_struct block_member no_block) j else Inr bs)"

section \<open>Tools\<close>

definition rawOrNull :: "json option \<Rightarrow> json" where
  "rawOrNull r = (case r of None \<Rightarrow> JNull | Some j \<Rightarrow> j)"

text \<open>\<open>m[k].(string)\<close> on a decoded map, where the last of two equal keys counts.\<close>

definition text_at :: "(string \<times> json) list \<Rightarrow> string \<Rightarrow> string" where
  "text_at kvs k = (case map_of (rev kvs) k of Some (JStr s) \<Rightarrow> s | _ \<Rightarrow> [])"

definition toolFilePath :: "json option \<Rightarrow> string" where
  "toolFilePath input =
     (case input of
        Some (JObj kvs) \<Rightarrow>
          (case filter (\<lambda>s. s \<noteq> []) (map (text_at kvs) [''file_path'', ''path'', ''notebook_path'']) of
             [] \<Rightarrow> [] | s # _ \<Rightarrow> s)
      | _ \<Rightarrow> [])"

definition planTools :: "string list" where
  "planTools = [''ExitPlanMode'', ''TodoWrite'']"

definition fileReadTools :: "string list" where
  "fileReadTools = [''Read'']"

definition fileWriteTools :: "string list" where
  "fileWriteTools = [''Write'', ''Edit'', ''MultiEdit'', ''NotebookEdit'']"

definition path_payload :: "string \<Rightarrow> json" where
  "path_payload path = JObj [(''path'', jtext path)]"

definition emitToolUse :: "claudeBlock \<Rightarrow> claude_state \<Rightarrow> claude_state" where
  "emitToolUse b st =
     (if cb_Name b \<in> set planTools then
        emit EventPlan (JObj [(''plan'', rawOrNull (cb_Input b)), (''tool'', jtext (cb_Name b))]) st
      else
      let st1 = emit EventToolRequested (JObj [(''input'', rawOrNull (cb_Input b)),
            (''tool'', jtext (cb_Name b)), (''tool_use_id'', jtext (cb_ID b))]) st;
          path = toolFilePath (cb_Input b) in
      if path = [] then st1
      else if cb_Name b \<in> set fileReadTools then emit EventFileRead (path_payload path) st1
      else if cb_Name b \<in> set fileWriteTools then
        (emit EventFileWritten (path_payload path) st1)\<lparr>cse_Files := List.insert path (cse_Files st)\<rparr>
      else st1)"

definition emitToolResult :: "claudeBlock \<Rightarrow> claude_state \<Rightarrow> claude_state" where
  "emitToolResult b st =
     (let name = jtext (tool_name st (cb_ToolUseID b)); use = jtext (cb_ToolUseID b);
          st1 = (case cb_Content b of
             None \<Rightarrow> st
           | Some out \<Rightarrow> emit EventToolOutput
               (JObj [(''output'', out), (''tool'', name), (''tool_use_id'', use)]) st) in
      emit EventToolCompleted
        (JObj [(''is_error'', JBool (cb_IsError b)), (''tool'', name), (''tool_use_id'', use)]) st1)"

definition normalize_block :: "claudeBlock \<Rightarrow> claude_state \<Rightarrow> claude_state" where
  "normalize_block b st =
     (if cb_Type b = ''text'' then
        (if TrimSpace (cb_Text b) = [] then st
         else emit EventAssistantMessage (JObj [(''message'', jtext (cb_Text b))]) st)
      else if cb_Type b = ''tool_use'' then
        emitToolUse b (st\<lparr>cse_Tools := (cb_ID b, cb_Name b) # cse_Tools st\<rparr>)
      else if cb_Type b = ''tool_result'' then emitToolResult b st
      else st)"

definition normalizeContent :: "json option \<Rightarrow> claude_state \<Rightarrow> claude_state" where
  "normalizeContent raw st =
     (case raw of
        None \<Rightarrow> st
      | Some j \<Rightarrow>
          (case decode_struct content_member [] j of
             Inl e \<Rightarrow> st
           | Inr bs \<Rightarrow> fold normalize_block bs st))"

section \<open>Sessions\<close>

definition cost_payload :: "claudeLine \<Rightarrow> json" where
  "cost_payload l =
     JObj ([(''duration_ms'', JInt (cl_DurationMS l)), (''num_turns'', JInt (cl_NumTurns l))]
       @ (case cl_TotalCostUSD l of None \<Rightarrow> [] | Some q \<Rightarrow> [(''total_cost_usd'', JNum q)])
       @ [(''usage'', rawOrNull (cl_Usage l))])"

definition normalize :: "claude_host \<Rightarrow> string \<Rightarrow> claude_state \<Rightarrow> claude_state" where
  "normalize Z line st =
     (case (case cz_unmarshal Z line of None \<Rightarrow> Inl (Msg ''invalid JSON'')
        | Some j \<Rightarrow> decode_struct (line_member (cz_float Z)) no_line j) of
        Inl e \<Rightarrow> emit EventWarning (JObj [(''reason'', jtext ''unparsable provider line'')]) st
      | Inr l \<Rightarrow>
          if cl_Type l = ''system'' then
            (if cl_Subtype l = ''init'' then
               emit EventSessionStarted (JObj [(''adapter'', jtext ClaudeProvider),
                 (''model'', jtext (cl_Model l)), (''session_id'', jtext (cl_SessionID l))]) st
             else st)
          else if cl_Type l = ''assistant'' \<or> cl_Type l = ''user'' then normalizeContent (cl_Message l) st
          else if cl_Type l = ''rate_limit_event'' then st
          else if cl_Type l = ''result'' then
            (let st1 = (emit EventCostUpdate (cost_payload l) st)
                 \<lparr>cse_SawResult := True, cse_Summary := cl_Result l\<rparr> in
             if cl_IsError l \<or> (cl_Subtype l \<noteq> [] \<and> cl_Subtype l \<noteq> ''success'') then
               fail_session (cz_getenv Z) (if cl_Subtype l = [] then ''error'' else cl_Subtype l)
                 (cl_Result l) st1
             else emit EventSessionCompleted (JObj [(''summary'', jtext (cl_Result l))]) st1)
          else emit EventWarning (JObj [(''unhandled_type'', jtext (cl_Type l))]) st)"

text \<open>The loop over the lines, which \<open>TrimSpace\<close> may leave empty.\<close>

definition read_lines :: "claude_host \<Rightarrow> string list \<Rightarrow> claude_state \<Rightarrow> claude_state" where
  "read_lines Z lines st =
     fold (normalize Z) (filter (\<lambda>l. l \<noteq> []) (map TrimSpace lines)) st"

record AgentResult =
  ar_Summary :: string
  ar_FilesChanged :: "string list"

text \<open>\<open>finish\<close>: the events of the session, its result and its error.\<close>

definition finish ::
  "claude_host \<Rightarrow> claude_process \<Rightarrow> claude_state \<Rightarrow> AgentEvent list \<times> AgentResult \<times> err option" where
  "finish Z p st =
     (let found = \<lparr>ar_Summary = cse_Summary st, ar_FilesChanged = sort (cse_Files st)\<rparr> in
      if cp_CtxErr p \<noteq> None \<and> \<not> cse_Failed st then
        (let reason = (if cp_CtxErr p = Some ContextDeadlineExceeded then ''timeout'' else ''cancelled'') in
         (cse_Events (emit EventSessionFailed (JObj [(''reason'', jtext reason)]) st),
          \<lparr>ar_Summary = [], ar_FilesChanged = []\<rparr>, map_option Sentinel (cp_CtxErr p)))
      else if cse_Failed st then (cse_Events st, found, cse_Err st)
      else if \<not> cse_SawResult st \<or> cp_ScanErr p \<noteq> None \<or> cp_WaitErr p \<noteq> None then
        (let reason = (if cp_WaitErr p = None then ''cli exited without a result'' else ''cli process error'');
             detail = (case cp_WaitErr p of
                Some m \<Rightarrow> TrimSpace (m @ '' '' @ cp_Stderr p)
              | None \<Rightarrow> (case cp_ScanErr p of None \<Rightarrow> [] | Some m \<Rightarrow> m)) in
         (cse_Events (emit EventSessionFailed (JObj [(''detail'', jtext (redact_detail (cz_getenv Z) detail)),
            (''reason'', jtext reason)]) st), found, Some (Msg (''claude-code: '' @ reason))))
      else (cse_Events st, found, cse_Err st))"

definition claude_run :: "claude_host \<Rightarrow> claude_process \<Rightarrow> AgentEvent list \<times> AgentResult \<times> err option" where
  "claude_run Z p = finish Z p (read_lines Z (cp_Lines p) no_claude_state)"

text \<open>\<open>Start\<close>, then the whole session.\<close>

definition claude_session ::
  "claude_host \<Rightarrow> ClaudeCodeOptions \<Rightarrow> string \<Rightarrow> string \<Rightarrow>
    err + (AgentEvent list \<times> AgentResult \<times> err option)" where
  "claude_session Z o1 dir instructions =
     (if dir = [] then Inl (Msg ''claude-code: workspace dir required'')
      else bind_sum (wrap ''claude-code: workspace'' (cz_stat Z dir)) (\<lambda>is_dir.
      if \<not> is_dir then Inl (Msg (''claude-code: workspace '' @ quote dir @ '' is not a directory''))
      else bind_sum (wrap ''claude-code: start CLI''
        (cz_start Z (co_CLIPath o1 # claude_args o1 instructions) (claudeEnv (cz_getenv Z)) dir)) (\<lambda>p.
      Inr (claude_run Z p))))"

section \<open>The agent without a model\<close>

definition FixtureFile :: string where
  "FixtureFile = ''AGENT_NOTES.md''"

text \<open>
  Its surroundings: the clock's text, whether it was told to stop when it looks for the n-th time,
  and the file system's answers.
\<close>

record fake_host =
  fk_stat :: "string \<Rightarrow> err + bool"
  fk_now :: string
  fk_stopped :: "nat \<Rightarrow> bool"
  fk_append :: "string \<Rightarrow> string \<Rightarrow> err + unit"
  fk_mkdir :: "string \<Rightarrow> err + unit"
  fk_write :: "string \<Rightarrow> string \<Rightarrow> err + unit"

definition fake_event :: "agent_event_type \<Rightarrow> (string \<times> json) list \<Rightarrow> AgentEvent" where
  "fake_event ty kvs = \<lparr>ae_Type = ty, ae_Payload = JObj kvs\<rparr>"

definition fake_fail :: "AgentEvent list \<Rightarrow> string \<Rightarrow> AgentEvent list \<times> AgentResult \<times> err option" where
  "fake_fail es reason = (es @ [fake_event EventSessionFailed [(''reason'', jtext reason)]],
     \<lparr>ar_Summary = [], ar_FilesChanged = []\<rparr>, Some (Msg (''fake adapter: '' @ reason)))"

definition newline_text :: string where
  "newline_text = [CHR 0x0A]"

definition fixtureValidationFile :: string where
  "fixtureValidationFile = concat (map (\<lambda>l. l @ newline_text)
     [''version: 1'', [], ''validation:'', ''  - name: smoke'', ''    category: custom'',
      ''    command: ['' @ [CHR 0x22] @ ''true'' @ [CHR 0x22] @ '']'', ''    timeout_seconds: 60''])"

definition fake_summary :: string where
  "fake_summary = ''Fake agent recorded the instructions in '' @ FixtureFile
     @ '' and simulated one verification command.''"

definition fake_plan :: string where
  "fake_plan = ''1. Read the task instructions'' @ newline_text @ ''2. Record them in '' @ FixtureFile
     @ newline_text @ ''3. Run a verification command'' @ newline_text @ ''4. Summarize the result''"

definition fake_tool_events :: "AgentEvent list" where
  "fake_tool_events =
     (let command = [(''args'', JArr [jtext ''fake agent validation'']), (''command'', jtext ''echo'')] in
      [fake_event EventToolRequested command, fake_event EventToolStarted command,
       fake_event EventToolOutput [(''chunk'', jtext ''fake agent validation''), (''stream'', jtext ''stdout'')],
       fake_event EventToolCompleted [(''command'', jtext ''echo''), (''exit_code'', JInt 0),
         (''simulated'', JBool True)]])"

definition fake_run :: "fake_host \<Rightarrow> string \<Rightarrow> string \<Rightarrow> AgentEvent list \<times> AgentResult \<times> err option" where
  "fake_run F dir instructions =
     (let e1 = [fake_event EventSessionStarted [(''adapter'', jtext ''fake'')],
                fake_event EventPlan [(''plan'', jtext fake_plan)]];
          fixture = path_join [dir, FixtureFile]; vfile = path_join [dir, FileName];
          note = ''## Fake agent run '' @ fk_now F @ newline_text @ newline_text @ ''Instructions:''
            @ newline_text @ instructions @ newline_text;
          written = (\<lambda>f. fake_event EventFileWritten [(''path'', jtext f)]) in
      if fk_stopped F 0 then fake_fail e1 ''cancelled''
      else case fk_append F fixture note of
        Inl e \<Rightarrow> fake_fail e1 (''edit fixture: '' @ err_text e)
      | Inr _ \<Rightarrow>
      let e2 = e1 @ [written FixtureFile] in
      if fk_stopped F 1 then fake_fail e2 ''cancelled''
      else case bind_sum (fk_mkdir F (Dir vfile)) (\<lambda>_. fk_write F vfile fixtureValidationFile) of
        Inl e \<Rightarrow> fake_fail e2 (''write validation file: '' @ err_text e)
      | Inr _ \<Rightarrow>
      let e3 = e2 @ [written FileName] in
      if fk_stopped F 2 then fake_fail e3 ''cancelled''
      else
      let e4 = e3 @ fake_tool_events in
      if fk_stopped F 3 then fake_fail e4 ''cancelled''
      else (e4 @ [fake_event EventAssistantMessage [(''message'', jtext fake_summary)],
          fake_event EventSessionCompleted [(''summary'', jtext fake_summary)]],
        \<lparr>ar_Summary = fake_summary, ar_FilesChanged = [FixtureFile, FileName]\<rparr>, None))"

definition fake_session ::
  "fake_host \<Rightarrow> string \<Rightarrow> string \<Rightarrow> err + (AgentEvent list \<times> AgentResult \<times> err option)" where
  "fake_session F dir instructions =
     (if dir = [] then Inl (Msg ''fake adapter: workspace dir required'')
      else bind_sum (wrap ''fake adapter: workspace'' (fk_stat F dir)) (\<lambda>is_dir.
      if \<not> is_dir then Inl (Msg (''fake adapter: workspace '' @ quote dir @ '' is not a directory''))
      else Inr (fake_run F dir instructions)))"

section \<open>The choice of an agent\<close>

datatype adapter = FakeAdapter | ClaudeAdapter ClaudeCodeOptions

definition NewAdapter :: "string \<Rightarrow> ClaudeCodeOptions \<Rightarrow> err + adapter" where
  "NewAdapter provider o1 =
     (if provider = ''fake'' \<or> provider = [] then Inr FakeAdapter
      else if provider = ClaudeProvider then Inr (ClaudeAdapter (NewClaudeCode o1))
      else Inl (Msg (''agent: unknown provider '' @ quote provider)))"

text \<open>The session a consumer sees; how stopping it goes is the consumer's side.\<close>

definition as_session ::
  "err + unit \<Rightarrow> bool \<Rightarrow> err option \<Rightarrow> AgentEvent list \<times> AgentResult \<times> err option \<Rightarrow> session" where
  "as_session cancelled timed_out drained r =
     (case r of (es, found, e) \<Rightarrow>
        \<lparr>se_Events = es, se_Wait = (case e of None \<Rightarrow> Inr (ar_Summary found) | Some x \<Rightarrow> Inl x),
         se_Cancel = cancelled, se_StopTimedOut = timed_out, se_Drained = drained\<rparr>)"

end
