(* ===== verification/AgentProps.thy ===== *)
theory AgentProps
  imports ClaudeAgent
begin

text \<open>
  What an agent session reports and what \<open>Wait\<close> returns agree, and a failure shows no credential.
\<close>

section \<open>Outcomes\<close>

definition of_type :: "agent_event_type \<Rightarrow> AgentEvent list \<Rightarrow> AgentEvent list" where
  "of_type ty es = filter (\<lambda>x. ae_Type x = ty) es"

lemma of_type_simps [simp]:
  "of_type ty [] = []" "of_type ty (es @ fs) = of_type ty es @ of_type ty fs"
  "of_type ty (x # es) = (if ae_Type x = ty then x # of_type ty es else of_type ty es)"
  by (simp_all add: of_type_def)

text \<open>What holds of a session after each of its lines.\<close>

definition told :: "claude_state \<Rightarrow> bool" where
  "told st \<longleftrightarrow>
     (cse_Failed st \<longleftrightarrow> of_type EventSessionFailed (cse_Events st) \<noteq> []) \<and>
     (cse_Failed st \<longleftrightarrow> cse_Err st \<noteq> None) \<and>
     (cse_SawResult st \<longrightarrow> cse_Failed st \<or> of_type EventSessionCompleted (cse_Events st) \<noteq> []) \<and>
     distinct (cse_Files st) \<and>
     set (map path_payload (cse_Files st)) = set (map ae_Payload (of_type EventFileWritten (cse_Events st)))"

lemma told_emit:
  "told st \<Longrightarrow> ty \<notin> {EventSessionFailed, EventFileWritten} \<Longrightarrow> told (emit ty payload st)"
  by (auto simp: told_def emit_def)

lemma told_fail: "told st \<Longrightarrow> told (fail_session getenv reason detail st)"
  by (auto simp: told_def emit_def fail_session_def split: option.splits)

lemma told_tools: "told (st\<lparr>cse_Tools := ts\<rparr>) = told st"
  by (simp add: told_def)

lemma told_block: "told st \<Longrightarrow> told (normalize_block b st)"
proof -
  assume told: "told st"
  have use: "told (emitToolUse b s)" if "told s" for s
    using that told_emit [OF that]
    by (auto simp: emitToolUse_def Let_def intro!: told_emit)
      (auto simp: told_def emit_def)
  have result: "told (emitToolResult b st)"
    using told by (auto simp: emitToolResult_def Let_def split: option.splits intro!: told_emit)
  have "told (st\<lparr>cse_Tools := ts\<rparr>)" for ts using told told_tools by blast
  with told use result show ?thesis by (auto simp: normalize_block_def intro!: told_emit)
qed

lemma told_fold: "told st \<Longrightarrow> (\<And>x s. told s \<Longrightarrow> told (f x s)) \<Longrightarrow> told (fold f xs st)"
  by (induction xs arbitrary: st) auto

lemma told_content: "told st \<Longrightarrow> told (normalizeContent raw st)"
  by (auto simp: normalizeContent_def split: option.splits sum.splits intro!: told_fold told_block)

lemma told_normalize: "told st \<Longrightarrow> told (normalize Z line st)"
proof -
  assume told: "told st"
  have cost: "told (emit ty payload ((emit EventCostUpdate c st)\<lparr>cse_SawResult := True, cse_Summary := m\<rparr>))"
    if "ty = EventSessionCompleted" for ty payload c m
    using told that by (auto simp: told_def emit_def)
  have failed: "told (fail_session (cz_getenv Z) r d ((emit EventCostUpdate c st)\<lparr>cse_SawResult := True, cse_Summary := m\<rparr>))"
    for r d c m
    using told by (auto simp: told_def emit_def fail_session_def split: option.splits)
  show ?thesis
    unfolding normalize_def Let_def
    by (auto split: sum.splits intro!: cost failed told_content [OF told] told_emit [OF told] told)
qed

lemma told_lines: "told (read_lines Z lines no_claude_state)"
  unfolding read_lines_def
  by (intro told_fold told_normalize) (auto simp: told_def no_claude_state_def)

text \<open>
  C9. The session an agent reports is the one it returns: whatever the command line agent prints and
  however its process and context end, \<open>Wait\<close> returns an error exactly where the session has
  emitted a failure; where it returns none, a completion was emitted, and the files it names are
  those whose writing was emitted, each once and in order.
\<close>

theorem session_outcome:
  assumes "claude_run Z p = (es, found, e)"
  shows "(e \<noteq> None \<longleftrightarrow> of_type EventSessionFailed es \<noteq> []) \<and>
    (e = None \<longrightarrow> of_type EventSessionCompleted es \<noteq> [] \<and>
      sorted (ar_FilesChanged found) \<and> distinct (ar_FilesChanged found) \<and>
      set (map path_payload (ar_FilesChanged found)) = set (map ae_Payload (of_type EventFileWritten es)))"
proof -
  let ?st = "read_lines Z (cp_Lines p) no_claude_state"
  from told_lines [of Z "cp_Lines p"] assms show ?thesis
    by (auto simp: claude_run_def finish_def told_def emit_def Let_def split: if_splits)
qed

section \<open>Redaction\<close>

lemma contains_cut:
  assumes "contains_string p (cut_detail s)" and "CHR ''.'' \<notin> set p" and "p \<noteq> []"
  shows "contains_string p s"
proof (cases "4096 < length s")
  case True
  let ?t = "take 4096 s"
  from True obtain a b where ab: "?t @ ''...'' = a @ p @ b"
    using assms(1) by (auto simp: cut_detail_def contains_iff)
  let ?n = "length (a @ p) - 1"
  have "(xs @ b) ! (length xs - 1) = last xs" if "xs \<noteq> []" for xs :: string
    using that by (simp add: nth_append last_conv_nth)
  from this [of "a @ p"] have "(a @ p @ b) ! ?n = last p" using assms(3) by simp
  moreover have "(?t @ ''...'') ! ?n \<in> set ''...''" if "length ?t \<le> ?n"
  proof -
    have "?n < length (?t @ ''...'')" unfolding ab using assms(3) by (cases p) simp_all
    with that have "?n - length ?t < length ''...''" by (simp del: length_take)
    then have "''...'' ! (?n - length ?t) \<in> set ''...''" by (rule nth_mem)
    with that show ?thesis by (simp only: nth_append not_less [symmetric] if_False)
  qed
  ultimately have "\<not> length ?t \<le> ?n"
    using assms(2) ab last_in_set [OF assms(3)] by (metis empty_iff insert_iff list.set)
  then have "length (a @ p) \<le> length ?t" by linarith
  moreover have "?t = take (length ?t) (a @ p @ b)" unfolding ab [symmetric]
    by (simp only: take_append take_all order_refl diff_self_eq_0 take_0 append_Nil2)
  ultimately obtain c where "?t = (a @ p) @ c" by (auto simp del: length_take)
  then have "s = a @ p @ (c @ drop 4096 s)" using append_take_drop_id [of 4096 s] by simp
  then show ?thesis unfolding contains_iff by blast
next
  case False
  with assms(1) show ?thesis by (simp add: cut_detail_def)
qed

lemma TrimSpace_part: "\<exists>a b. s = a @ TrimSpace s @ b"
proof -
  have "\<exists>a b. rs = a @ trim_runes p rs @ b" for p and rs :: "string list"
  proof -
    let ?m = "dropWhile p rs"
    have "?m = rev (dropWhile p (rev ?m)) @ rev (takeWhile p (rev ?m))"
      by (metis rev_append rev_rev_ident takeWhile_dropWhile_id)
    then show ?thesis unfolding trim_runes_def by (metis takeWhile_dropWhile_id)
  qed
  then obtain a b where "runes s = a @ trim_runes is_space (runes s) @ b" by blast
  then have "concat (runes s) = concat a @ TrimSpace s @ concat b"
    unfolding TrimSpace_def by (metis concat_append)
  then show ?thesis unfolding concat_runes by blast
qed

lemma contains_trim: "contains_string p (TrimSpace s) \<Longrightarrow> contains_string p s"
  using TrimSpace_part [of s] contains_mono by metis

text \<open>Values that the marks of a redaction cannot make again.\<close>

definition plain_value :: "string \<Rightarrow> bool" where
  "plain_value v \<longleftrightarrow> v \<noteq> [] \<and> CHR ''*'' \<notin> set v \<and> CHR ''.'' \<notin> set v"

lemma redacted_value:
  assumes "plain_value v" and "contains_string v (redact_value getenv k s)"
  shows "contains_string v s \<and> v \<noteq> getenv k"
proof (cases "getenv k = []")
  case True
  with assms show ?thesis by (auto simp: redact_value_def plain_value_def)
next
  case False
  with assms replaced_contains [of "getenv k" "''***''" v s] show ?thesis
    by (auto simp: redact_value_def plain_value_def)
qed

lemma redact_detail_hides:
  assumes "k \<in> set credentialEnv" and "plain_value (getenv k)"
  shows "\<not> contains_string (getenv k) (redact_detail getenv msg)"
proof
  assume "contains_string (getenv k) (redact_detail getenv msg)"
  then have "contains_string (getenv k) (fold (redact_value getenv) credentialEnv (redact msg))"
    using contains_trim contains_cut assms(2) unfolding redact_detail_def plain_value_def by blast
  then have "contains_string (getenv k) (redact_value getenv ''CLAUDE_CODE_OAUTH_TOKEN''
      (redact_value getenv ''ANTHROPIC_API_KEY'' (redact msg)))" by (simp add: credentialEnv_def)
  from redacted_value [OF assms(2) this] redacted_value [OF assms(2), where k = "''ANTHROPIC_API_KEY''"]
  have "getenv k \<noteq> getenv ''CLAUDE_CODE_OAUTH_TOKEN''" "getenv k \<noteq> getenv ''ANTHROPIC_API_KEY''" by blast+
  with assms(1) show False by (auto simp: credentialEnv_def)
qed

text \<open>The events of a failure carry a redacted detail, or none.\<close>

definition detailed :: "(string \<Rightarrow> string) \<Rightarrow> AgentEvent list \<Rightarrow> bool" where
  "detailed getenv es \<longleftrightarrow> (\<forall>x\<in>set (of_type EventSessionFailed es). \<exists>reason.
     ae_Payload x = JObj [(''reason'', reason)] \<or>
     (\<exists>msg. ae_Payload x = JObj [(''detail'', jtext (redact_detail getenv msg)), (''reason'', reason)]))"

lemma detailed_emit: "detailed getenv (cse_Events st) \<Longrightarrow> ty \<noteq> EventSessionFailed \<Longrightarrow>
    detailed getenv (cse_Events (emit ty payload st))"
  by (auto simp: detailed_def emit_def)

lemma detailed_block:
  "detailed getenv (cse_Events st) \<Longrightarrow> detailed getenv (cse_Events (normalize_block b st))"
  by (auto simp: normalize_block_def emitToolUse_def emitToolResult_def Let_def detailed_def emit_def
      split: option.splits)

lemma detailed_fold: "detailed getenv (cse_Events st) \<Longrightarrow>
    (\<And>x s. detailed getenv (cse_Events s) \<Longrightarrow> detailed getenv (cse_Events (f x s))) \<Longrightarrow>
    detailed getenv (cse_Events (fold f xs st))"
  by (induction xs arbitrary: st) auto

lemma detailed_fail: "detailed getenv (cse_Events st) \<Longrightarrow>
    detailed getenv (cse_Events (fail_session getenv reason msg st))"
  by (auto simp: detailed_def emit_def fail_session_def)

lemma detailed_normalize: "detailed (cz_getenv Z) (cse_Events st) \<Longrightarrow>
    detailed (cz_getenv Z) (cse_Events (normalize Z line st))"
  unfolding normalize_def Let_def normalizeContent_def
  by (auto split: sum.splits option.splits intro!: detailed_emit detailed_fail detailed_fold detailed_block)

lemma detailed_failed:
  "detailed getenv (cse_Events st) \<Longrightarrow>
    detailed getenv (cse_Events (emit EventSessionFailed (JObj [(''reason'', r)]) st))"
  "detailed getenv (cse_Events st) \<Longrightarrow> detailed getenv (cse_Events
    (emit EventSessionFailed (JObj [(''detail'', jtext (redact_detail getenv msg)), (''reason'', r)]) st))"
  by (auto simp: detailed_def emit_def)

lemma detailed_lines: "detailed (cz_getenv Z) (cse_Events (read_lines Z lines no_claude_state))"
  unfolding read_lines_def
  by (intro detailed_fold detailed_normalize) (auto simp: detailed_def no_claude_state_def)


section \<open>A session\<close>

definition demo_claude :: claude_host where
  "demo_claude = \<lparr>cz_look = Inr, cz_version = (\<lambda>p. Inr ''1.0''), cz_stat = (\<lambda>d. Inr True),
     cz_start = (\<lambda>args env dir. Inl (Msg ''none'')),
     cz_getenv = (\<lambda>k. if k = ''ANTHROPIC_API_KEY'' then ''sk-1'' else []),
     cz_unmarshal = (\<lambda>l. Some (JObj [(''type'', JStr ''result''), (''result'', JStr ''ok''), (''is_error'', JBool (l = ''bad''))])),
     cz_float = (\<lambda>s. None)\<rparr>"

definition demo_claude_process :: "string \<Rightarrow> claude_process" where
  "demo_claude_process line = \<lparr>cp_Lines = [line], cp_ScanErr = None, cp_WaitErr = None, cp_CtxErr = None,
     cp_Stderr = []\<rparr>"

lemma demo_claude_runs:
  "snd (snd (claude_run demo_claude (demo_claude_process ''ok''))) = None"
  "list_ex (\<lambda>x. ae_Type x = EventSessionFailed) (fst (claude_run demo_claude (demo_claude_process ''bad'')))"
  by code_simp+

theorem session_outcome_witness:
  "\<exists>es found. claude_run demo_claude (demo_claude_process ''ok'') = (es, found, None) \<and>
    of_type EventSessionFailed es = [] \<and> of_type EventSessionCompleted es \<noteq> []"
proof -
  obtain es found e where run: "claude_run demo_claude (demo_claude_process ''ok'') = (es, found, e)"
    using prod_cases3 by blast
  with demo_claude_runs(1) have "e = None" by simp
  with session_outcome [OF run] run show ?thesis by blast
qed


end
