(* ===== verification/StreamLoop.thy ===== *)
theory StreamLoop
  imports EventStream
begin

text \<open>
  \<open>handleTaskStream\<close> of \<open>internal/httpapi/stream.go\<close> after its headers: drains, heartbeats and
  refreshes of the task in turn, until the client is gone, a query fails or a settled task has been
  drained. What it writes is a list of frames; a client that stops reading has a prefix of them.
\<close>

section \<open>The loop\<close>

datatype frame =
    RetryFrame
  | EventFrame "int \<times> Event"
  | HeartbeatFrame
  | DoneFrame status

text \<open>What ends the wait between two drains.\<close>

datatype stream_tick = ClientGone | HeartbeatTick | PollTick

text \<open>The databases the queries of a drain see, the tick after it, and the database of the refresh.\<close>

record stream_round =
  sr_Reads :: "db list"
  sr_Tick :: stream_tick
  sr_Refresh :: db

datatype stream_end = StreamOpen | StreamGone | StreamFailed err | StreamDone

definition tick_frames :: "stream_tick \<Rightarrow> frame list" where
  "tick_frames t = (if t = HeartbeatTick then [HeartbeatFrame] else [])"

fun stream_rounds ::
  "env \<Rightarrow> string \<Rightarrow> stream_round list \<Rightarrow> status \<Rightarrow> streamCursor \<Rightarrow> frame list \<times> stream_end" where
  "stream_rounds E tid [] st c = ([], StreamOpen)"
| "stream_rounds E tid (r # rs) st c =
     (case streamDrain E tid (sr_Reads r) c of
        None \<Rightarrow> ([], StreamOpen)
      | Some (Some e, c', es) \<Rightarrow> (map EventFrame es, StreamFailed e)
      | Some (None, c', es) \<Rightarrow>
          if Terminal st \<and> es = [] then ([DoneFrame st], StreamDone)
          else if sr_Tick r = ClientGone then (map EventFrame es, StreamGone)
          else
            (case Get E tid (sr_Refresh r) of
               Inl e \<Rightarrow> (map EventFrame es @ tick_frames (sr_Tick r), StreamFailed e)
             | Inr t \<Rightarrow>
                 (case stream_rounds E tid rs (t_Status t) c' of (fs, z) \<Rightarrow>
                    (map EventFrame es @ tick_frames (sr_Tick r) @ fs, z))))"

definition task_stream ::
  "env \<Rightarrow> string \<Rightarrow> stream_round list \<Rightarrow> status \<Rightarrow> streamCursor \<Rightarrow> frame list \<times> stream_end" where
  "task_stream E tid rs st c =
     (case stream_rounds E tid rs st c of (fs, z) \<Rightarrow> (RetryFrame # fs, z))"

text \<open>The bytes of a frame; the JSON of an event is \<open>encode\<close>, a line of its own.\<close>

definition frame_line :: "string \<Rightarrow> string" where
  "frame_line s = s @ [CHR 0x0A]"

definition writeSSEEvent :: "(int \<times> Event \<Rightarrow> string) \<Rightarrow> int \<times> Event \<Rightarrow> string" where
  "writeSSEEvent encode x =
     frame_line (''id: '' @ cursor_string (event_cursor x)) @ frame_line (''data: '' @ encode x) @ frame_line []"

fun frame_text :: "(int \<times> Event \<Rightarrow> string) \<Rightarrow> frame \<Rightarrow> string" where
  "frame_text encode RetryFrame = frame_line ''retry: 2000'' @ frame_line []"
| "frame_text encode (EventFrame x) = writeSSEEvent encode x"
| "frame_text encode HeartbeatFrame = frame_line '': heartbeat'' @ frame_line []"
| "frame_text encode (DoneFrame st) =
     frame_line ''event: done''
     @ frame_line (''data: {'' @ [CHR 0x22] @ ''status'' @ [CHR 0x22] @ '':'' @ [CHR 0x22]
         @ status_string st @ [CHR 0x22] @ ''}'')
     @ frame_line []"

section \<open>What a drain writes\<close>

abbreviation cursor_key :: "streamCursor \<Rightarrow> int \<times> int" where
  "cursor_key c \<equiv> (cur_attempt c, cur_sequence c)"

text \<open>Strictly increasing keys after a start.\<close>

lemma increasing_le_last:
  fixes k :: "'a::linorder"
  assumes "sorted_wrt (<) (k # xs)" and "x \<in> set (k # xs)"
  shows "x \<le> last (k # xs)"
proof -
  let ?l = "k # xs"
  have l: "?l = butlast ?l @ [last ?l]" by simp
  have "sorted_wrt (<) (butlast ?l @ [last ?l])" using assms(1) by (subst (asm) l)
  then have "\<forall>y\<in>set (butlast ?l). y < last ?l" by (simp only: sorted_wrt_append) simp
  moreover have "x \<in> set (butlast ?l) \<or> x = last ?l" using assms(2) by (subst (asm) l) (simp only: set_append, auto)
  ultimately show ?thesis by (auto intro: less_imp_le)
qed

lemma increasing_append:
  fixes k :: "'a::linorder"
  assumes "sorted_wrt (<) (k # xs)" and "sorted_wrt (<) (last (k # xs) # ys)"
  shows "sorted_wrt (<) (k # xs @ ys)"
proof -
  have "x < y" if "x \<in> set (k # xs)" "y \<in> set ys" for x y
    using increasing_le_last [OF assms(1) that(1)] assms(2) that(2) by (auto intro: le_less_trans)
  with assms show ?thesis by (auto simp: sorted_wrt_append)
qed

definition written_after :: "streamCursor \<Rightarrow> (int \<times> Event) list \<Rightarrow> bool" where
  "written_after c es \<longleftrightarrow> sorted_wrt (<) (cursor_key c # map event_key es)"

lemma cursor_key_next: "cursor_key (next_cursor c es) = last (cursor_key c # map event_key es)"
  by (simp add: next_cursor_def event_cursor_def last_map)

lemma written_after_nil [simp]: "written_after c []"
  by (simp add: written_after_def)

lemma written_after_append:
  "written_after c es \<Longrightarrow> written_after (next_cursor c es) fs \<Longrightarrow> written_after c (es @ fs)"
  unfolding written_after_def cursor_key_next map_append by (rule increasing_append)

lemma written_after_last:
  "written_after c es \<Longrightarrow> x \<in> set es \<Longrightarrow> event_key x \<le> cursor_key (next_cursor c es)"
  unfolding written_after_def cursor_key_next by (rule increasing_le_last) auto

lemma next_cursor_append: "next_cursor (next_cursor c es) fs = next_cursor c (es @ fs)"
  by (simp add: next_cursor_def)

lemma EventsAfter_Inr:
  assumes "EventsAfter E tid m s n d = Inr es"
  shows "es = take (nat (event_limit n)) (filter (\<lambda>r. (m, s) < event_key r) (ordered_events d (pg_uuid tid)))"
    and "find_task d (pg_uuid tid) \<noteq> None"
  using assms by (auto simp: EventsAfter_def Let_def case_prod_unfold bind_sum_Inr_iff split: if_splits)

lemma page_after:
  assumes "EventsAfter E tid (cur_attempt c) (cur_sequence c) streamBatchLimit d = Inr es" and "db_inv d"
  shows "written_after c es \<and> set es \<subseteq> set (ordered_events d (pg_uuid tid)) \<and>
    (int (length es) < streamBatchLimit \<longrightarrow>
      filter (\<lambda>r. cursor_key (next_cursor c es) < event_key r) (ordered_events d (pg_uuid tid)) = [])"
proof -
  let ?all = "ordered_events d (pg_uuid tid)"
  let ?rest = "filter (\<lambda>r. cursor_key c < event_key r) ?all"
  note es = EventsAfter_Inr [OF assms(1)]
  then obtain t where "find_task d (pg_uuid tid) = Some t" by auto
  then have "sorted_wrt (<) (map event_key ?all)"
    using ordered_events_strict [OF assms(2)] find_task_Some by blast
  then have "sorted_wrt (<) (map event_key ?rest)"
    by (simp only: sorted_wrt_map sorted_wrt_filter)
  then have "sorted_wrt (<) (map event_key es)"
    unfolding es(1) take_map [symmetric] by (rule sorted_wrt_take)
  moreover have part: "set es \<subseteq> set ?rest" unfolding es(1) by (rule set_take_subset)
  ultimately have after: "written_after c es"
    unfolding written_after_def by (simp only: sorted_wrt.simps) auto
  have "filter (\<lambda>r. cursor_key (next_cursor c es) < event_key r) ?all = []"
    if "int (length es) < streamBatchLimit"
  proof -
    from that have all: "es = ?rest"
      unfolding es(1) by (auto simp: streamBatchLimit_def event_limit_def min_def split: if_splits)
    have "cursor_key c \<le> cursor_key (next_cursor c es)"
      using after unfolding written_after_def cursor_key_next by (rule increasing_le_last) simp
    moreover have "event_key x \<le> cursor_key (next_cursor c es)" if "x \<in> set ?all" "cursor_key c < event_key x" for x
      using written_after_last [OF after] that by (subst (asm) all) simp
    ultimately show ?thesis unfolding filter_empty_conv by (meson leD le_less_trans)
  qed
  with after part show ?thesis by (auto simp del: less_prod_simp)
qed

text \<open>A drain writes events of the task after the cursor, and leaves none it could have read.\<close>

lemma drain_written:
  assumes "streamDrain E tid ds c = Some (r, c', es)" and "\<forall>d\<in>set ds. db_inv d"
  shows "c' = next_cursor c es \<and> written_after c es \<and>
    (\<forall>x\<in>set es. \<exists>d\<in>set ds. x \<in> set (ordered_events d (pg_uuid tid))) \<and>
    (r = None \<longrightarrow> (\<exists>d\<in>set ds. filter (\<lambda>x. cursor_key c' < event_key x) (ordered_events d (pg_uuid tid)) = []))"
  using assms
proof (induction ds arbitrary: c r c' es)
  case (Cons d ds)
  show ?case
  proof (cases "EventsAfter E tid (cur_attempt c) (cur_sequence c) streamBatchLimit d")
    case (Inl e)
    with Cons.prems(1) show ?thesis by (auto simp: next_cursor_def written_after_def)
  next
    case (Inr page)
    with Cons.prems(2) page_after [OF Inr] have page: "written_after c page"
      "set page \<subseteq> set (ordered_events d (pg_uuid tid))"
      "int (length page) < streamBatchLimit \<longrightarrow>
        filter (\<lambda>r. cursor_key (next_cursor c page) < event_key r) (ordered_events d (pg_uuid tid)) = []" by auto
    show ?thesis
    proof (cases "int (length page) < streamBatchLimit")
      case True
      with Cons.prems(1) Inr page show ?thesis by (auto simp: Let_def)
    next
      case False
      with Cons.prems(1) Inr obtain fs where
        more: "streamDrain E tid ds (next_cursor c page) = Some (r, c', fs)" "es = page @ fs"
        by (auto simp: Let_def)
      from Cons.IH [OF more(1)] Cons.prems(2)
      have "c' = next_cursor (next_cursor c page) fs" "written_after (next_cursor c page) fs"
        "\<forall>x\<in>set fs. \<exists>d\<in>set ds. x \<in> set (ordered_events d (pg_uuid tid))"
        "r = None \<longrightarrow> (\<exists>d\<in>set ds. filter (\<lambda>x. cursor_key c' < event_key x) (ordered_events d (pg_uuid tid)) = [])"
        by auto
      with page more(2) written_after_append [OF page(1)] show ?thesis
        by (auto simp: next_cursor_append)
    qed
  qed
qed simp

section \<open>What a stream writes\<close>

fun stream_events :: "frame list \<Rightarrow> (int \<times> Event) list" where
  "stream_events [] = []"
| "stream_events (EventFrame x # fs) = x # stream_events fs"
| "stream_events (_ # fs) = stream_events fs"

lemma stream_events_append [simp]: "stream_events (fs @ gs) = stream_events fs @ stream_events gs"
  by (induction fs rule: stream_events.induct) simp_all

lemma stream_events_map [simp]: "stream_events (map EventFrame es) = es"
  by (induction es) simp_all

lemma stream_events_tick [simp]: "stream_events (tick_frames t) = []"
  by (simp add: tick_frames_def)

lemma no_done [simp]: "DoneFrame s \<notin> EventFrame ` A" "DoneFrame s \<notin> set (tick_frames t)"
  by (auto simp: tick_frames_def)

definition stream_reads :: "stream_round list \<Rightarrow> db set" where
  "stream_reads rs = (\<Union>r\<in>set rs. set (sr_Reads r))"

text \<open>A finished stream: its last frame is the one that says so, for a settled task without further events.\<close>

definition finished :: "string \<Rightarrow> db set \<Rightarrow> streamCursor \<Rightarrow> frame list \<Rightarrow> bool" where
  "finished tid D c fs \<longleftrightarrow> (\<exists>st gs. fs = gs @ [DoneFrame st] \<and> Terminal st \<and> (\<forall>s. DoneFrame s \<notin> set gs) \<and>
     (\<exists>d\<in>D. filter (\<lambda>x. cursor_key (next_cursor c (stream_events fs)) < event_key x)
       (ordered_events d (pg_uuid tid)) = []))"

lemma rounds_written:
  assumes "stream_rounds E tid rs st c = (fs, z)" and "\<forall>d\<in>stream_reads rs. db_inv d"
  shows "written_after c (stream_events fs) \<and>
    (\<forall>x\<in>set (stream_events fs). \<exists>d\<in>stream_reads rs. x \<in> set (ordered_events d (pg_uuid tid))) \<and>
    (if z = StreamDone then finished tid (stream_reads rs) c fs else \<forall>s. DoneFrame s \<notin> set fs)"
  using assms
proof (induction rs arbitrary: st c fs z)
  case Nil
  then show ?case by (auto simp: written_after_def)
next
  case (Cons r rs)
  have reads: "stream_reads (r # rs) = set (sr_Reads r) \<union> stream_reads rs" by (simp add: stream_reads_def)
  show ?case
  proof (cases "streamDrain E tid (sr_Reads r) c")
    case None
    with Cons.prems(1) show ?thesis by (auto simp: written_after_def)
  next
    case (Some drained)
    then obtain e c' es where drain: "streamDrain E tid (sr_Reads r) c = Some (e, c', es)"
      by (cases drained) auto
    have w: "c' = next_cursor c es" "written_after c es"
      "\<forall>x\<in>set es. \<exists>d\<in>set (sr_Reads r). x \<in> set (ordered_events d (pg_uuid tid))"
      "e = None \<longrightarrow> (\<exists>d\<in>set (sr_Reads r).
        filter (\<lambda>x. cursor_key c' < event_key x) (ordered_events d (pg_uuid tid)) = [])"
      using drain_written [OF drain] Cons.prems(2) by (auto simp: reads)
    have here: ?thesis if "stream_events fs = es" "z \<noteq> StreamDone" "\<forall>s. DoneFrame s \<notin> set fs"
      using that w(2,3) by (auto simp: reads)
    show ?thesis
    proof (cases "e = None \<and> \<not> (Terminal st \<and> es = []) \<and> sr_Tick r \<noteq> ClientGone \<and>
        (\<exists>t. Get E tid (sr_Refresh r) = Inr t)")
      case True
      then obtain t where t: "Get E tid (sr_Refresh r) = Inr t" by blast
      obtain gs z' where gs: "stream_rounds E tid rs (t_Status t) c' = (gs, z')" by fastforce
      have fs: "fs = map EventFrame es @ tick_frames (sr_Tick r) @ gs" and "z' = z"
        using Cons.prems(1) drain True t gs by auto
      then have more: "stream_rounds E tid rs (t_Status t) c' = (gs, z)" using gs by simp
      have "\<forall>d\<in>stream_reads rs. db_inv d" using Cons.prems(2) by (simp add: reads)
      note IH = Cons.IH [OF more this]
      have events: "stream_events fs = es @ stream_events gs" by (simp add: fs)
      have "finished tid (stream_reads (r # rs)) c fs" if "finished tid (stream_reads rs) c' gs"
        using that unfolding finished_def events w(1) next_cursor_append fs by (auto simp: reads)
      with IH w(2,3) written_after_append [OF w(2)] show ?thesis
        unfolding events w(1) by (auto simp: reads fs)
    next
      case False
      show ?thesis
      proof (cases "e = None \<and> Terminal st \<and> es = []")
        case True
        then have "fs = [DoneFrame st]" "z = StreamDone" using Cons.prems(1) drain by auto
        with True w show ?thesis
          by (auto simp: finished_def reads written_after_def next_cursor_def)
      next
        case ended: False
        then show ?thesis
          using False Cons.prems(1) drain
          by (intro here) (auto split: if_splits sum.splits option.splits)
      qed
    qed
  qed
qed


section \<open>A stream\<close>

definition demo_round :: "stream_tick \<Rightarrow> stream_round" where
  "demo_round t = \<lparr>sr_Reads = [demo_queued], sr_Tick = t, sr_Refresh = demo_queued\<rparr>"


end
