(* ===== verification/Traces.thy ===== *)
theory Traces
  imports TaskProgress "HOL-Library.List_Lexorder" "HOL-Library.Char_ord"
begin

text \<open>
  \<open>internal/observability/trace_store.go\<close>: the spans of tasks, with the table of migration 9. The
  exporter writes a batch in one transaction, a span again replaces its row; the reads list the
  spans of a task or of one attempt. A span is what the SDK's \<open>ReadOnlySpan\<close> returns.
\<close>

section \<open>Spans\<close>

text \<open>The value of an attribute: JSON, or one \<open>json.Marshal\<close> refuses with its message.\<close>

datatype attribute = Attribute json | Unmarshalable string

record ReadOnlySpan =
  ro_Attributes :: "(string \<times> attribute) list"
  ro_TraceID :: string
  ro_SpanID :: string
  ro_Parent :: "string option"
  ro_Name :: string
  ro_Kind :: string
  ro_StartTime :: time
  ro_EndTime :: time
  ro_StatusCode :: string
  ro_StatusMessage :: string

record SpanRow =
  sp_TaskID :: string
  sp_TaskAttemptID :: "string option"
  sp_TraceID :: string
  sp_SpanID :: string
  sp_ParentSpanID :: "string option"
  sp_Name :: string
  sp_Kind :: string
  sp_StartTime :: time
  sp_EndTime :: time
  sp_Attributes :: "(string \<times> json) list"
  sp_StatusCode :: string
  sp_StatusMessage :: string

definition hex_id :: "nat \<Rightarrow> string \<Rightarrow> bool" where
  "hex_id n s \<longleftrightarrow> length s = n \<and> list_all is_lower_hex s"

definition span_row_ok :: "SpanRow \<Rightarrow> bool" where
  "span_row_ok r \<longleftrightarrow>
     hex_id 32 (sp_TraceID r) \<and> hex_id 16 (sp_SpanID r) \<and> null_or (hex_id 16) (sp_ParentSpanID r) \<and>
     text_between 1 500 (sp_Name r) \<and> text_between 1 50 (sp_Kind r) \<and>
     json_ok (JObj (sp_Attributes r)) \<and> sp_StatusCode r \<in> {''Unset'', ''Error'', ''Ok''} \<and>
     pg_text (sp_StatusMessage r) \<and> sp_StartTime r \<le> sp_EndTime r"

definition span_key :: "SpanRow \<Rightarrow> string \<times> string \<times> string" where
  "span_key r = (sp_TaskID r, sp_TraceID r, sp_SpanID r)"

text \<open>The foreign keys, the second on both columns where the attempt is not NULL.\<close>

definition span_refers :: "db \<Rightarrow> SpanRow \<Rightarrow> bool" where
  "span_refers d r \<longleftrightarrow> sp_TaskID r \<in> set (map t_ID (tasks d)) \<and>
     null_or (\<lambda>aid. \<exists>a\<in>set (attempts d). a_ID a = aid \<and> a_TaskID a = sp_TaskID r) (sp_TaskAttemptID r)"

section \<open>Export\<close>

text \<open>\<open>attributes[k].(string)\<close>, empty where it is missing or not a string; the last of two keys counts.\<close>

definition attribute_text :: "(string \<times> attribute) list \<Rightarrow> string \<Rightarrow> string" where
  "attribute_text kvs k = (case map_of (rev kvs) k of Some (Attribute (JStr s)) \<Rightarrow> s | _ \<Rightarrow> [])"

fun marshal_members :: "(string \<times> attribute) list \<Rightarrow> err + (string \<times> json) list" where
  "marshal_members [] = Inr []"
| "marshal_members ((k, Unmarshalable m) # kvs) = Inl (Msg m)"
| "marshal_members ((k, Attribute j) # kvs) = bind_sum (marshal_members kvs) (\<lambda>js. Inr ((k, j) # js))"

text \<open>The map of the attributes, in the order \<open>json.Marshal\<close> writes its keys.\<close>

definition attribute_map :: "(string \<times> attribute) list \<Rightarrow> (string \<times> attribute) list" where
  "attribute_map kvs = map (\<lambda>k. (k, the (map_of (rev kvs) k))) (sort (remdups (map fst kvs)))"

text \<open>A timestamp of the driver has microseconds.\<close>

definition micros :: "time \<Rightarrow> time" where
  "micros t = t div 1000 * 1000"

definition span_row :: "ReadOnlySpan \<Rightarrow> (string \<times> json) list \<Rightarrow> SpanRow" where
  "span_row s attrs =
     (let aid = attribute_text (ro_Attributes s) ''task.attempt_id'' in
      \<lparr>sp_TaskID = pg_uuid (attribute_text (ro_Attributes s) ''task.id''),
       sp_TaskAttemptID = (if aid = [] then None else Some (pg_uuid aid)),
       sp_TraceID = ro_TraceID s, sp_SpanID = ro_SpanID s, sp_ParentSpanID = ro_Parent s,
       sp_Name = ro_Name s, sp_Kind = ro_Kind s, sp_StartTime = micros (ro_StartTime s),
       sp_EndTime = micros (ro_EndTime s), sp_Attributes = attrs, sp_StatusCode = ro_StatusCode s,
       sp_StatusMessage = ro_StatusMessage s\<rparr>)"

text \<open>
  A text PostgreSQL reads as a UUID, in the spelling the platform writes; the other spellings it
  reads are left out.
\<close>

definition uuid_column :: "string \<Rightarrow> bool" where
  "uuid_column s \<longleftrightarrow> s = [] \<or> IsUUID s"

text \<open>\<open>INSERT ... ON CONFLICT DO UPDATE\<close>: the new values in the place of the row with the same key.\<close>

definition upsert_span :: "SpanRow \<Rightarrow> SpanRow list \<Rightarrow> SpanRow list" where
  "upsert_span r rs =
     (if span_key r \<in> set (map span_key rs) then map (\<lambda>x. if span_key x = span_key r then r else x) rs
      else rs @ [r])"

definition store_span :: "env \<Rightarrow> db \<Rightarrow> ReadOnlySpan \<Rightarrow> SpanRow list \<Rightarrow> err + SpanRow list" where
  "store_span E d s rs =
     (let tid = attribute_text (ro_Attributes s) ''task.id''; aid = attribute_text (ro_Attributes s) ''task.attempt_id'' in
      if tid = [] then Inr rs
      else bind_sum (wrap ''marshal span attributes'' (marshal_members (attribute_map (ro_Attributes s)))) (\<lambda>attrs.
      wrap (''store span '' @ ro_Name s) (
        bind_sum (driver E (''store span '' @ ro_Name s)) (\<lambda>_.
        if \<not> IsUUID tid \<or> \<not> uuid_column aid then Inl (Msg ''invalid input syntax for type uuid'')
        else if \<not> span_row_ok (span_row s attrs) then
          Inl (Sentinel (PgError (CheckViolation ''task_spans'')))
        else if \<not> span_refers d (span_row s attrs) then
          Inl (Sentinel (PgError (ForeignKeyViolation
            (if sp_TaskID (span_row s attrs) \<in> set (map t_ID (tasks d))
             then ''task_spans_task_attempt_id_task_id_fkey'' else ''task_spans_task_id_fkey''))))
        else Inr (upsert_span (span_row s attrs) rs)))))"

fun store_spans :: "env \<Rightarrow> db \<Rightarrow> ReadOnlySpan list \<Rightarrow> SpanRow list \<Rightarrow> err + SpanRow list" where
  "store_spans E d [] rs = Inr rs"
| "store_spans E d (s # ss) rs = bind_sum (store_span E d s rs) (store_spans E d ss)"

definition ExportSpans :: "env \<Rightarrow> db \<Rightarrow> ReadOnlySpan list \<Rightarrow> SpanRow list \<Rightarrow> err + SpanRow list" where
  "ExportSpans E d ss rs =
     bind_sum (wrap ''begin span export'' (driver E ''begin span export'')) (\<lambda>_.
     bind_sum (store_spans E d ss rs) (\<lambda>rs'.
     bind_sum (wrap ''commit span export'' (driver E ''commit span export'')) (\<lambda>_. Inr rs')))"

section \<open>Reads\<close>

definition span_order :: "SpanRow \<Rightarrow> time \<times> string \<times> string" where
  "span_order r = (sp_StartTime r, sp_TraceID r, sp_SpanID r)"

definition ListTaskSpans :: "env \<Rightarrow> string \<Rightarrow> SpanRow list \<Rightarrow> err + SpanRow list" where
  "ListTaskSpans E tid rs =
     bind_sum (wrap ''list task spans'' (driver E ''list task spans'')) (\<lambda>_.
       Inr (sort_key span_order (filter (\<lambda>r. sp_TaskID r = pg_uuid tid) rs)))"

definition ListTaskAttemptSpans :: "env \<Rightarrow> string \<Rightarrow> int \<Rightarrow> db \<Rightarrow> SpanRow list \<Rightarrow> err + SpanRow list" where
  "ListTaskAttemptSpans E tid n d rs =
     bind_sum (wrap ''resolve attempt'' (driver E ''resolve attempt'')) (\<lambda>_.
     case filter (\<lambda>a. a_TaskID a = pg_uuid tid \<and> a_Number a = n) (attempts d) of
       [] \<Rightarrow> Inl (Sentinel ErrAttemptNotFound)
     | a # _ \<Rightarrow>
         bind_sum (wrap ''list task attempt spans'' (driver E ''list task attempt spans'')) (\<lambda>_.
         Inr (sort_key span_order
           (filter (\<lambda>r. sp_TaskID r = pg_uuid tid \<and> sp_TaskAttemptID r = Some (a_ID a)) rs))))"

section \<open>The table\<close>

text \<open>What the constraints of the table guarantee.\<close>

definition spans_ok :: "db \<Rightarrow> SpanRow list \<Rightarrow> bool" where
  "spans_ok d rs \<longleftrightarrow> distinct (map span_key rs) \<and> (\<forall>r\<in>set rs. span_row_ok r \<and> span_refers d r)"

lemma upsert_keys: "map span_key (upsert_span r rs) =
    (if span_key r \<in> set (map span_key rs) then map span_key rs else map span_key rs @ [span_key r])"
  by (auto simp: upsert_span_def)

lemma upsert_rows: "set (upsert_span r rs) = insert r {x \<in> set rs. span_key x \<noteq> span_key r}"
  by (auto simp: upsert_span_def image_iff)

lemma upsert_ok: "spans_ok d rs \<Longrightarrow> span_row_ok r \<Longrightarrow> span_refers d r \<Longrightarrow> spans_ok d (upsert_span r rs)"
  unfolding spans_ok_def upsert_keys upsert_rows by auto

lemma store_span_Inr:
  assumes "store_span E d s rs = Inr rs'"
  obtains (skipped) "attribute_text (ro_Attributes s) ''task.id'' = []" "rs' = rs"
  | (stored) attrs where "attribute_text (ro_Attributes s) ''task.id'' \<noteq> []"
      "span_row_ok (span_row s attrs)" "span_refers d (span_row s attrs)"
      "marshal_members (attribute_map (ro_Attributes s)) = Inr attrs"
      "rs' = upsert_span (span_row s attrs) rs"
  using assms by (auto simp: store_span_def Let_def bind_sum_Inr_iff wrap_def split: sum.splits if_splits)

text \<open>The row of a span of the batch, where it belongs to a task.\<close>

definition row_of :: "ReadOnlySpan \<Rightarrow> SpanRow option" where
  "row_of s =
     (if attribute_text (ro_Attributes s) ''task.id'' = [] then None
      else case marshal_members (attribute_map (ro_Attributes s)) of
        Inl e \<Rightarrow> None | Inr attrs \<Rightarrow> Some (span_row s attrs))"

text \<open>The last row of a batch with a key.\<close>

definition last_row :: "ReadOnlySpan list \<Rightarrow> string \<times> string \<times> string \<Rightarrow> SpanRow option" where
  "last_row ss k = find (\<lambda>r. span_key r = k) (rev (List.map_filter row_of ss))"

lemma last_row_snoc: "last_row (ss @ [s]) k =
    (case row_of s of None \<Rightarrow> last_row ss k
     | Some r \<Rightarrow> if span_key r = k then Some r else last_row ss k)"
  by (auto simp: last_row_def List.map_filter_def split: option.splits)

lemma store_spans_snoc: "store_spans E d (ss @ [s]) rs = bind_sum (store_spans E d ss rs) (store_span E d s)"
proof (induction ss arbitrary: rs)
  case Nil
  then show ?case by (cases "store_span E d s rs") simp_all
next
  case (Cons x xs)
  then show ?case by (cases "store_span E d x rs") simp_all
qed

lemma stored_rows:
  assumes "store_spans E d ss rs = Inr rs'" and "spans_ok d rs"
  shows "spans_ok d rs' \<and> (\<forall>x. x \<in> set rs' \<longleftrightarrow>
    last_row ss (span_key x) = Some x \<or> last_row ss (span_key x) = None \<and> x \<in> set rs)"
  using assms
proof (induction ss arbitrary: rs' rule: rev_induct)
  case Nil
  then show ?case by (simp add: last_row_def List.map_filter_def)
next
  case (snoc s ss)
  then obtain mid where mid: "store_spans E d ss rs = Inr mid" "store_span E d s mid = Inr rs'"
    by (auto simp: store_spans_snoc bind_sum_Inr_iff)
  note IH = snoc.IH [OF mid(1) snoc.prems(2)]
  from mid(2) show ?case
  proof (cases rule: store_span_Inr)
    case skipped
    with IH show ?thesis by (simp add: last_row_snoc row_of_def)
  next
    case (stored attrs)
    then have "row_of s = Some (span_row s attrs)" by (simp add: row_of_def)
    with IH stored show ?thesis
      by (auto simp: last_row_snoc upsert_rows intro: upsert_ok)
  qed
qed

lemma ExportSpans_Inr: "ExportSpans E d ss rs = Inr rs' \<Longrightarrow> store_spans E d ss rs = Inr rs'"
  by (auto simp: ExportSpans_def bind_sum_Inr_iff)

text \<open>
  A batch of spans that is exported leaves, for each span it names, its last row of the batch,
  and every other row as it was: exporting the batch again changes nothing, the trace of a task is
  the rows of its spans by start, and the table keeps its constraints.
\<close>

theorem export_is_upsert:
  assumes "ExportSpans E d ss rs = Inr rs'" and "spans_ok d rs"
  shows "spans_ok d rs' \<and>
    (\<forall>x. x \<in> set rs' \<longleftrightarrow> last_row ss (span_key x) = Some x \<or> last_row ss (span_key x) = None \<and> x \<in> set rs) \<and>
    (\<forall>E' rs''. ExportSpans E' d ss rs' = Inr rs'' \<longrightarrow> set rs'' = set rs') \<and>
    (\<forall>E' tid xs. ListTaskSpans E' tid rs' = Inr xs \<longrightarrow>
       sorted (map span_order xs) \<and> distinct xs \<and> set xs = {r \<in> set rs'. sp_TaskID r = pg_uuid tid})"
proof -
  have first: "store_spans E d ss rs = Inr rs'"
    by (rule ExportSpans_Inr [OF assms(1)])
  note rows = stored_rows [OF first assms(2)]
  have again: "set rs'' = set rs'" if "ExportSpans E' d ss rs' = Inr rs''" for E' rs''
  proof -
    from stored_rows [OF ExportSpans_Inr [OF that]] rows show ?thesis by blast
  qed
  have "distinct rs'" using rows by (auto simp: spans_ok_def distinct_map)
  then have listed: "sorted (map span_order xs) \<and> distinct xs \<and> set xs = {r \<in> set rs'. sp_TaskID r = pg_uuid tid}"
    if "ListTaskSpans E' tid rs' = Inr xs" for E' tid xs
    using that by (auto simp: ListTaskSpans_def bind_sum_Inr_iff)
  from rows again listed show ?thesis by blast
qed

end
