(* ===== verification/Insights.thy ===== *)
theory Insights
  imports Traces EvidenceStore TaskInvariants Scenario GitText
begin

text \<open>
  \<open>internal/insights\<close>: what a task's attempts took, from the rows of one snapshot: attempts, spans,
  events, results and the costs the agent reported. Doubles are the rationals they stand for; reading
  one and adding two are parameters.
\<close>

section \<open>Data\<close>

text \<open>\<open>fo_parse\<close> reads a JSON number, none when it is out of the range of a double.\<close>

record float_ops =
  fo_parse :: "string \<Rightarrow> rat option"
  fo_add :: "rat \<Rightarrow> rat \<Rightarrow> rat"

record ValidationSummary =
  vm_Total :: int
  vm_Passed :: int
  vm_Failed :: int
  vm_TimedOut :: int
  vm_Error :: int
  vm_Trusted :: int

record CostSummary =
  cs_TotalUSD :: rat
  cs_UpdateCount :: int

record AttemptInsight =
  ai_AttemptID :: string
  ai_AttemptNumber :: int
  ai_Status :: string
  ai_StartedAt :: "time option"
  ai_CompletedAt :: "time option"
  ai_FailureCode :: "string option"
  ai_QueueWaitMS :: "int option"
  ai_ProvisioningMS :: "int option"
  ai_AgentSessionMS :: "int option"
  ai_ValidationMS :: "int option"
  ai_PublishingMS :: "int option"
  ai_TotalRuntimeMS :: "int option"
  ai_EventCount :: int
  ai_Validation :: "ValidationSummary option"
  ai_Cost :: "CostSummary option"

record OverallInsight =
  oi_AttemptCount :: int
  oi_TotalRuntimeMS :: "int option"
  oi_EventCount :: int
  oi_Validation :: "ValidationSummary option"
  oi_Cost :: "CostSummary option"

record TaskInsights =
  in_TaskID :: string
  in_TaskStatus :: status
  in_Overall :: OverallInsight
  in_Attempts :: "AttemptInsight list"

definition no_validation :: ValidationSummary where
  "no_validation = \<lparr>vm_Total = 0, vm_Passed = 0, vm_Failed = 0, vm_TimedOut = 0, vm_Error = 0, vm_Trusted = 0\<rparr>"

definition no_cost :: CostSummary where
  "no_cost = \<lparr>cs_TotalUSD = 0, cs_UpdateCount = 0\<rparr>"

section \<open>Costs\<close>

text \<open>A document decodes into \<open>map[string]any\<close> only if it is an object whose numbers are doubles.\<close>

fun doubles_only :: "(string \<Rightarrow> rat option) \<Rightarrow> json \<Rightarrow> bool" where
  "doubles_only p (JNum lit) = (p lit \<noteq> None)"
| "doubles_only p (JArr js) = list_all (doubles_only p) js"
| "doubles_only p (JObj kvs) = list_all (\<lambda>(k, j). doubles_only p j) kvs"
| "doubles_only p j = True"

definition nonNegativeNumber :: "float_ops \<Rightarrow> json option \<Rightarrow> rat option" where
  "nonNegativeNumber F v =
     (case v of
        Some (JNum lit) \<Rightarrow> (case fo_parse F lit of Some q \<Rightarrow> if q < 0 then None else Some q | None \<Rightarrow> None)
      | _ \<Rightarrow> None)"

definition cost_step :: "float_ops \<Rightarrow> json \<Rightarrow> CostSummary \<Rightarrow> CostSummary" where
  "cost_step F payload s =
     (case payload of
        JObj kvs \<Rightarrow>
          (let cumulative = nonNegativeNumber F (map_of (rev kvs) ''total_cost_usd'');
               increment = nonNegativeNumber F (map_of (rev kvs) ''cost_usd'') in
           if \<not> doubles_only (fo_parse F) payload then s
           else case (cumulative, increment) of
             (None, None) \<Rightarrow> s
           | (Some q, _) \<Rightarrow> s\<lparr>cs_TotalUSD := q, cs_UpdateCount := cs_UpdateCount s + 1\<rparr>
           | (None, Some q) \<Rightarrow> s\<lparr>cs_TotalUSD := fo_add F (cs_TotalUSD s) q, cs_UpdateCount := cs_UpdateCount s + 1\<rparr>)
      | _ \<Rightarrow> s)"

definition AggregateCost :: "float_ops \<Rightarrow> json list \<Rightarrow> CostSummary option" where
  "AggregateCost F payloads =
     (let s = fold (cost_step F) payloads no_cost in if cs_UpdateCount s = 0 then None else Some s)"

section \<open>Attempts\<close>

definition millis :: "time \<Rightarrow> int" where
  "millis d = d div 1000000"

definition loadAttempt :: "Attempt \<Rightarrow> AttemptInsight" where
  "loadAttempt a =
     \<lparr>ai_AttemptID = a_ID a, ai_AttemptNumber = a_Number a, ai_Status = attempt_status_string (a_Status a),
      ai_StartedAt = a_StartedAt a, ai_CompletedAt = a_CompletedAt a, ai_FailureCode = a_FailureCode a,
      ai_QueueWaitMS = (case a_StartedAt a of None \<Rightarrow> None
        | Some s \<Rightarrow> if s < a_CreatedAt a then None else Some (millis (s - a_CreatedAt a))),
      ai_ProvisioningMS = None, ai_AgentSessionMS = None, ai_ValidationMS = None, ai_PublishingMS = None,
      ai_TotalRuntimeMS = None, ai_EventCount = 0, ai_Validation = None, ai_Cost = None\<rparr>"

definition loadAttempts :: "string \<Rightarrow> db \<Rightarrow> AttemptInsight list" where
  "loadAttempts tid d = map loadAttempt (sort_key a_Number (task_attempts d tid))"

text \<open>The group of an attempt and a name, none without rows; \<open>round\<close> takes halves away from zero.\<close>

definition round_millis :: "time \<Rightarrow> int" where
  "round_millis t = (if 0 \<le> t then (t + 500000) div 1000000 else - ((500000 - t) div 1000000))"

definition span_sum :: "SpanRow list \<Rightarrow> string \<Rightarrow> string \<Rightarrow> string \<Rightarrow> int option" where
  "span_sum rs tid aid name =
     (let group = filter (\<lambda>r. sp_TaskID r = tid \<and> sp_TaskAttemptID r = Some aid \<and> sp_Name r = name) rs in
      if group = [] then None
      else Some (round_millis (sum_list (map (\<lambda>r. sp_EndTime r - sp_StartTime r) group))))"

definition applySpanDurations :: "string \<Rightarrow> status \<Rightarrow> SpanRow list \<Rightarrow> AttemptInsight \<Rightarrow> AttemptInsight" where
  "applySpanDurations tid st rs i =
     (let ms = span_sum rs tid (ai_AttemptID i) in
      i\<lparr>ai_TotalRuntimeMS :=
          (if ai_Status i \<noteq> ''active'' \<or> st = StatusAwaitingReview \<or> st = StatusRevisionRequested
           then ms ''runner.attempt'' else None),
        ai_ProvisioningMS := ms ''runner.provisioning'', ai_AgentSessionMS := ms ''agent.session'',
        ai_ValidationMS := ms ''validation.run''\<rparr>)"

definition first_at :: "string \<Rightarrow> Event list \<Rightarrow> time option" where
  "first_at ty es =
     (case map e_Timestamp (filter (\<lambda>e. e_EventType e = ty) es) of
        [] \<Rightarrow> None | t # ts \<Rightarrow> Some (fold min ts t))"

definition applyEvents :: "db \<Rightarrow> AttemptInsight \<Rightarrow> AttemptInsight" where
  "applyEvents d i =
     (let es = attempt_events d (ai_AttemptID i) in
      i\<lparr>ai_EventCount := int (length es),
        ai_PublishingMS :=
          (case (first_at ''task.publishing'' es, first_at ''task.awaiting_review'' es) of
             (Some p, Some r) \<Rightarrow> if r < p then None else Some (millis (r - p))
           | _ \<Rightarrow> None)\<rparr>)"

definition addValidation :: "vstatus \<times> bool \<Rightarrow> int \<Rightarrow> ValidationSummary \<Rightarrow> ValidationSummary" where
  "addValidation k n s =
     (case k of (st, trusted) \<Rightarrow>
        s\<lparr>vm_Total := vm_Total s + n,
          vm_Trusted := vm_Trusted s + (if trusted then n else 0),
          vm_Passed := vm_Passed s + (if st = VPassed then n else 0),
          vm_Failed := vm_Failed s + (if st = VFailed then n else 0),
          vm_TimedOut := vm_TimedOut s + (if st = VTimedOut then n else 0),
          vm_Error := vm_Error s + (if st = VError then n else 0)\<rparr>)"

text \<open>The groups of an attempt's results by status and trust, with their sizes.\<close>

definition result_key :: "ValidationRow \<Rightarrow> vstatus \<times> bool" where
  "result_key v = (v_Status v, v_TrustedExecution v)"

definition result_groups :: "ValidationRow list \<Rightarrow> ((vstatus \<times> bool) \<times> int) list" where
  "result_groups vs =
     map (\<lambda>k. (k, int (length (filter (\<lambda>v. result_key v = k) vs)))) (remdups (map result_key vs))"

definition applyValidations :: "ValidationRow list \<Rightarrow> AttemptInsight \<Rightarrow> AttemptInsight" where
  "applyValidations vs i =
     (let groups = result_groups (filter (\<lambda>v. v_TaskAttemptID v = ai_AttemptID i) vs) in
      i\<lparr>ai_Validation := (if groups = [] then None
          else Some (fold (\<lambda>(k, n). addValidation k n) groups no_validation))\<rparr>)"

definition applyCost :: "float_ops \<Rightarrow> db \<Rightarrow> AttemptInsight \<Rightarrow> AttemptInsight" where
  "applyCost F d i =
     i\<lparr>ai_Cost := AggregateCost F (map e_Payload
        (filter (\<lambda>e. e_EventType e = ''agent.cost_update'')
          (sort_key e_SequenceNumber (attempt_events d (ai_AttemptID i)))))\<rparr>"

section \<open>The task\<close>

definition add_summaries :: "ValidationSummary \<Rightarrow> ValidationSummary \<Rightarrow> ValidationSummary" where
  "add_summaries a b =
     \<lparr>vm_Total = vm_Total a + vm_Total b, vm_Passed = vm_Passed a + vm_Passed b,
      vm_Failed = vm_Failed a + vm_Failed b, vm_TimedOut = vm_TimedOut a + vm_TimedOut b,
      vm_Error = vm_Error a + vm_Error b, vm_Trusted = vm_Trusted a + vm_Trusted b\<rparr>"

definition or_zero :: "'a \<Rightarrow> 'a option \<Rightarrow> 'a" where
  "or_zero z v = (case v of None \<Rightarrow> z | Some x \<Rightarrow> x)"

text \<open>One round of the loop of \<open>summarize\<close>; the sum of runtimes, and whether each attempt has one.\<close>

definition summarize_step ::
  "float_ops \<Rightarrow> AttemptInsight \<Rightarrow> OverallInsight \<times> int \<times> bool \<Rightarrow> OverallInsight \<times> int \<times> bool" where
  "summarize_step F a acc =
     (case acc of (o1, runtime, full) \<Rightarrow>
       (o1\<lparr>oi_EventCount := oi_EventCount o1 + ai_EventCount a,
          oi_Validation := (case ai_Validation a of None \<Rightarrow> oi_Validation o1
            | Some v \<Rightarrow> Some (add_summaries (or_zero no_validation (oi_Validation o1)) v)),
          oi_Cost := (case ai_Cost a of None \<Rightarrow> oi_Cost o1
            | Some c \<Rightarrow> (let b = or_zero no_cost (oi_Cost o1) in
                Some \<lparr>cs_TotalUSD = fo_add F (cs_TotalUSD b) (cs_TotalUSD c),
                  cs_UpdateCount = cs_UpdateCount b + cs_UpdateCount c\<rparr>))\<rparr>,
        (case ai_TotalRuntimeMS a of None \<Rightarrow> runtime | Some n \<Rightarrow> wrap64 (runtime + n)),
        full \<and> ai_TotalRuntimeMS a \<noteq> None))"

definition summarizeAttempts :: "float_ops \<Rightarrow> AttemptInsight list \<Rightarrow> OverallInsight" where
  "summarizeAttempts F as =
     (case fold (summarize_step F) as
        (\<lparr>oi_AttemptCount = int (length as), oi_TotalRuntimeMS = None, oi_EventCount = 0,
          oi_Validation = None, oi_Cost = None\<rparr>, 0, as \<noteq> []) of
        (o1, runtime, full) \<Rightarrow>
          if full then o1\<lparr>oi_TotalRuntimeMS := Some runtime\<rparr> else o1)"

definition attempt_insights ::
  "float_ops \<Rightarrow> string \<Rightarrow> status \<Rightarrow> db \<Rightarrow> ValidationRow list \<Rightarrow> SpanRow list \<Rightarrow> AttemptInsight list" where
  "attempt_insights F tid st d vs rs =
     map (applyCost F d \<circ> applyValidations vs \<circ> applyEvents d \<circ> applySpanDurations tid st rs)
       (loadAttempts tid d)"

fun statements :: "env \<Rightarrow> string list \<Rightarrow> err + unit" where
  "statements E [] = Inr ()"
| "statements E (l # ls) = bind_sum (wrap l (driver E l)) (\<lambda>_. statements E ls)"

definition GetTaskInsights ::
  "float_ops \<Rightarrow> env \<Rightarrow> string \<Rightarrow> db \<Rightarrow> ValidationRow list \<Rightarrow> SpanRow list \<Rightarrow> err + TaskInsights" where
  "GetTaskInsights F E tid d vs rs =
     (if \<not> IsUUID tid then Inl (Sentinel ErrNotFound)
      else bind_sum (statements E [''begin insights read'', ''load task'']) (\<lambda>_.
      case find_task d (pg_uuid tid) of
        None \<Rightarrow> Inl (Sentinel ErrNotFound)
      | Some t \<Rightarrow>
          bind_sum (statements E [''list attempts'', ''sum task spans'', ''count attempt events'',
            ''count validation results'', ''list cost events'', ''commit insights read'']) (\<lambda>_.
          let as = attempt_insights F (pg_uuid tid) (t_Status t) d vs rs in
          Inr \<lparr>in_TaskID = tid, in_TaskStatus = t_Status t, in_Overall = summarizeAttempts F as,
            in_Attempts = as\<rparr>)))"

section \<open>What the numbers count\<close>

text \<open>The sizes of groups with different keys are the size of what has one of the keys.\<close>

lemma grouped_count:
  assumes "distinct ks"
  shows "sum_list (map (\<lambda>k. int (length (filter (\<lambda>x. f x = k) xs))) ks)
    = int (length (filter (\<lambda>x. f x \<in> set ks) xs))"
proof (induction xs)
  case (Cons x xs)
  have one: "sum_list (map (\<lambda>k. if f x = k then 1 else 0 :: int) ks) = (if f x \<in> set ks then 1 else 0)"
    using assms by (induction ks) auto
  have "sum_list (map (\<lambda>k. int (length (filter (\<lambda>x. f x = k) (x # xs)))) ks) =
      sum_list (map (\<lambda>k. (if f x = k then 1 else 0) + int (length (filter (\<lambda>x. f x = k) xs))) ks)"
    by (intro arg_cong [of _ _ sum_list] map_cong) auto
  with Cons one show ?case by (simp add: sum_list_addf)
qed (induction ks, auto)

definition outcomes_add_up :: "ValidationSummary \<Rightarrow> bool" where
  "outcomes_add_up s \<longleftrightarrow> vm_Total s = vm_Passed s + vm_Failed s + vm_TimedOut s + vm_Error s"

lemma add_one_group:
  "vm_Total (addValidation k n s) = vm_Total s + n"
  "outcomes_add_up s \<Longrightarrow> outcomes_add_up (addValidation k n s)"
  by (cases k; cases "fst k"; simp add: addValidation_def outcomes_add_up_def)+

lemma addValidation_total:
  "vm_Total (fold (\<lambda>(k, n). addValidation k n) gs s) = vm_Total s + sum_list (map snd gs)"
  by (induction gs arbitrary: s) (auto simp: add_one_group)

lemma addValidation_outcomes:
  "outcomes_add_up s \<Longrightarrow> outcomes_add_up (fold (\<lambda>(k, n). addValidation k n) gs s)"
  by (induction gs arbitrary: s) (auto simp: add_one_group)

lemma result_groups_total: "sum_list (map snd (result_groups vs)) = int (length vs)"
proof -
  have "filter (\<lambda>v. result_key v \<in> set (remdups (map result_key vs))) vs = vs"
    by (simp add: filter_id_conv)
  with grouped_count [of "remdups (map result_key vs)" result_key vs] show ?thesis
    by (simp add: result_groups_def o_def)
qed

definition summary_of :: "int \<Rightarrow> ValidationSummary option \<Rightarrow> bool" where
  "summary_of n v \<longleftrightarrow> (case v of None \<Rightarrow> n = 0 | Some s \<Rightarrow> 0 < n \<and> vm_Total s = n \<and> outcomes_add_up s)"

lemma applied_validations:
  "summary_of (int (length (filter (\<lambda>v. v_TaskAttemptID v = ai_AttemptID i) vs)))
    (ai_Validation (applyValidations vs i))"
proof -
  let ?vs = "filter (\<lambda>v. v_TaskAttemptID v = ai_AttemptID i) vs"
  have "result_groups ?vs = [] \<longleftrightarrow> ?vs = []" by (simp add: result_groups_def)
  moreover have "outcomes_add_up no_validation" by (simp add: outcomes_add_up_def no_validation_def)
  ultimately show ?thesis
    using addValidation_outcomes [of no_validation "result_groups ?vs"]
    by (auto simp: applyValidations_def summary_of_def Let_def addValidation_total result_groups_total
        no_validation_def filter_empty_conv)
qed

lemma summarize_fold:
  assumes "fold (summarize_step F) as (o1, r, c) = (o2, r', c')" and "summary_of n (oi_Validation o1)"
    and "list_all2 (\<lambda>m a. summary_of m (ai_Validation a)) ns as"
    and "0 \<le> n" "list_all (\<lambda>m. 0 \<le> m) ns"
  shows "oi_EventCount o2 = oi_EventCount o1 + sum_list (map ai_EventCount as) \<and>
    summary_of (n + sum_list ns) (oi_Validation o2) \<and>
    (c' \<longleftrightarrow> c \<and> list_all (\<lambda>a. ai_TotalRuntimeMS a \<noteq> None) as) \<and>
    oi_AttemptCount o2 = oi_AttemptCount o1 \<and> oi_TotalRuntimeMS o2 = oi_TotalRuntimeMS o1"
  using assms
proof (induction as arbitrary: o1 r c n ns)
  case (Cons a as)
  obtain m ms where ns: "ns = m # ms" "summary_of m (ai_Validation a)"
    "list_all2 (\<lambda>m a. summary_of m (ai_Validation a)) ms as"
    using Cons.prems(3) by (cases ns) auto
  obtain o1' r1 c1 where s: "summarize_step F a (o1, r, c) = (o1', r1, c1)" by (metis surj_pair)
  have v: "summary_of (n + m) (oi_Validation o1')"
    using s ns Cons.prems(2,4,5)
    by (auto simp: summarize_step_def summary_of_def outcomes_add_up_def add_summaries_def or_zero_def
        no_validation_def split: option.splits)
  have "fold (summarize_step F) as (o1', r1, c1) = (o2, r', c')" using Cons.prems(1) s by simp
  from Cons.IH [OF this v ns(3)] Cons.prems(4,5) s show ?case
    by (auto simp: ns(1) summarize_step_def add.assoc)
qed auto

lemma summarized:
  assumes "list_all2 (\<lambda>m a. summary_of m (ai_Validation a)) ns as" and "list_all (\<lambda>m. 0 \<le> m) ns"
  shows "oi_AttemptCount (summarizeAttempts F as) = int (length as) \<and>
    oi_EventCount (summarizeAttempts F as) = sum_list (map ai_EventCount as) \<and>
    summary_of (sum_list ns) (oi_Validation (summarizeAttempts F as)) \<and>
    (oi_TotalRuntimeMS (summarizeAttempts F as) \<noteq> None \<longleftrightarrow>
      as \<noteq> [] \<and> list_all (\<lambda>a. ai_TotalRuntimeMS a \<noteq> None) as)"
proof -
  let ?start = "\<lparr>oi_AttemptCount = int (length as), oi_TotalRuntimeMS = None, oi_EventCount = 0,
    oi_Validation = None, oi_Cost = None\<rparr>"
  obtain o2 r c where run: "fold (summarize_step F) as (?start, 0, as \<noteq> []) = (o2, r, c)" by (metis surj_pair)
  have "summary_of 0 (oi_Validation ?start)" by (simp add: summary_of_def)
  from summarize_fold [OF run this assms(1) _ assms(2)] run show ?thesis
    by (simp add: summarizeAttempts_def)
qed

section \<open>The attempts of a task\<close>

lemma insight_of_attempt:
  assumes "i = applyCost F d (applyValidations vs (applyEvents d (applySpanDurations tid st rs (loadAttempt a))))"
  shows "ai_AttemptID i = a_ID a" "ai_AttemptNumber i = a_Number a"
    "ai_EventCount i = int (length (attempt_events d (a_ID a)))"
    "summary_of (int (length (filter (\<lambda>v. v_TaskAttemptID v = a_ID a) vs))) (ai_Validation i)"
proof -
  let ?i = "applyEvents d (applySpanDurations tid st rs (loadAttempt a))"
  have id: "ai_AttemptID ?i = a_ID a"
    by (simp add: loadAttempt_def applySpanDurations_def applyEvents_def Let_def)
  from applied_validations [of ?i vs] show "summary_of (int (length (filter (\<lambda>v. v_TaskAttemptID v = a_ID a) vs)))
      (ai_Validation i)"
    unfolding assms id by (simp add: applyCost_def)
qed (simp_all add: assms loadAttempt_def applySpanDurations_def applyEvents_def applyValidations_def
  applyCost_def Let_def)

lemma span_sum_nonneg:
  assumes "spans_ok d rs" and "span_sum rs tid aid name = Some n"
  shows "0 \<le> n"
proof -
  let ?g = "filter (\<lambda>r. sp_TaskID r = tid \<and> sp_TaskAttemptID r = Some aid \<and> sp_Name r = name) rs"
  have "0 \<le> sum_list (map (\<lambda>r. sp_EndTime r - sp_StartTime r) ?g)"
    using assms(1) by (intro sum_list_nonneg) (auto simp: spans_ok_def span_row_ok_def)
  with assms(2) show ?thesis
    by (auto simp: span_sum_def Let_def round_millis_def split: if_splits)
qed

definition durations :: "AttemptInsight \<Rightarrow> int option list" where
  "durations i = [ai_QueueWaitMS i, ai_ProvisioningMS i, ai_AgentSessionMS i, ai_ValidationMS i,
     ai_PublishingMS i, ai_TotalRuntimeMS i]"

lemma durations_nonneg:
  assumes "spans_ok d' rs"
    and "i = applyCost F d (applyValidations vs (applyEvents d (applySpanDurations tid st rs (loadAttempt a))))"
  shows "list_all (null_or (\<lambda>n. 0 \<le> n)) (durations i)"
proof -
  have sums: "null_or (\<lambda>n. 0 \<le> n) (span_sum rs tid aid name)" for aid name
    using span_sum_nonneg [OF assms(1)] by (cases "span_sum rs tid aid name") auto
  show ?thesis
    unfolding assms(2) by (auto simp: durations_def loadAttempt_def applySpanDurations_def applyEvents_def
        applyValidations_def applyCost_def millis_def Let_def sums split: option.splits)
qed

lemma numbered_sorted: "numbered (map f xs) \<Longrightarrow> sort_key f xs = xs"
  by (intro sort_key_id_if_sorted) (simp add: numbered_def sorted_map sorted_wrt_upt
      sorted_wrt_mono_rel [OF _ sorted_wrt_upt] del: upt_Suc)

lemma insights_served:
  assumes "fault_free E" and "IsUUID tid" and "find_task d (pg_uuid tid) \<noteq> None"
  shows "\<exists>r. GetTaskInsights F E tid d vs rs = Inr r"
  using assms by (auto simp: GetTaskInsights_def Let_def)

text \<open>
  C39. The numbers of a task account for its rows: its attempts are all there, from the first on; its
  events are all counted, and so are the results of its checks, each with one outcome; a total
  runtime is given exactly when every attempt has one, and no duration is negative.
\<close>

theorem insights_account:
  assumes "GetTaskInsights F E tid d vs rs = Inr r" and "db_inv d" and "spans_ok d rs"
  shows "map ai_AttemptNumber (in_Attempts r) = map int [1..<Suc (length (in_Attempts r))] \<and>
    map ai_AttemptID (in_Attempts r) = map a_ID (task_attempts d (pg_uuid tid)) \<and>
    oi_AttemptCount (in_Overall r) = int (length (task_attempts d (pg_uuid tid))) \<and>
    oi_EventCount (in_Overall r) = int (length (task_events d (pg_uuid tid))) \<and>
    summary_of (int (length (filter (\<lambda>v. v_TaskAttemptID v \<in> set (map ai_AttemptID (in_Attempts r))) vs)))
      (oi_Validation (in_Overall r)) \<and>
    (oi_TotalRuntimeMS (in_Overall r) \<noteq> None \<longleftrightarrow>
      in_Attempts r \<noteq> [] \<and> list_all (\<lambda>a. ai_TotalRuntimeMS a \<noteq> None) (in_Attempts r)) \<and>
    (\<forall>a\<in>set (in_Attempts r). list_all (null_or (\<lambda>n. 0 \<le> n)) (durations a))"
proof -
  obtain t where t: "find_task d (pg_uuid tid) = Some t"
    and r: "in_Attempts r = attempt_insights F (pg_uuid tid) (t_Status t) d vs rs"
      "in_Overall r = summarizeAttempts F (in_Attempts r)"
    using assms(1) by (auto simp: GetTaskInsights_def bind_sum_Inr_iff Let_def split: if_splits option.splits)
  let ?as = "task_attempts d (pg_uuid tid)"
  let ?ns = "map (\<lambda>k. int (length (filter (\<lambda>v. v_TaskAttemptID v = k) vs))) (map a_ID ?as)"
  have num: "numbered (map a_Number ?as)"
    using db_invD(3) [OF assms(2), of t] find_task_Some [OF t] by (auto simp: attempts_wf_def Let_def)
  define f where "f a = applyCost F d (applyValidations vs (applyEvents d
    (applySpanDurations (pg_uuid tid) (t_Status t) rs (loadAttempt a))))" for a
  have all: "in_Attempts r = map f ?as"
    unfolding r(1) attempt_insights_def loadAttempts_def numbered_sorted [OF num] by (simp add: f_def)
  note one = insight_of_attempt [OF f_def]
  have ids: "map ai_AttemptID (in_Attempts r) = map a_ID ?as" by (simp add: all one(1) cong: map_cong)
  have "distinct (map a_ID ?as)" by (rule distinct_task_attempt_IDs [OF db_invD(1) [OF assms(2)]])
  note grouped = grouped_count [OF this]
  have "list_all2 (\<lambda>m a. summary_of m (ai_Validation a)) ?ns (in_Attempts r)"
    unfolding all list.map_comp by (simp add: list_all2_map1 list_all2_map2 one(4) list_all2_refl)
  moreover have "list_all (\<lambda>m. 0 \<le> m) ?ns" by (simp add: list_all_iff)
  ultimately have sums: "oi_AttemptCount (in_Overall r) = int (length (in_Attempts r)) \<and>
    oi_EventCount (in_Overall r) = sum_list (map ai_EventCount (in_Attempts r)) \<and>
    summary_of (sum_list ?ns) (oi_Validation (in_Overall r)) \<and>
    (oi_TotalRuntimeMS (in_Overall r) \<noteq> None \<longleftrightarrow>
      in_Attempts r \<noteq> [] \<and> list_all (\<lambda>a. ai_TotalRuntimeMS a \<noteq> None) (in_Attempts r))"
    unfolding r(2) by (rule summarized)
  have "sum_list (map ai_EventCount (in_Attempts r)) = int (length (task_events d (pg_uuid tid)))"
    using grouped [of e_TaskAttemptID "events d"]
    by (simp add: all one(3) task_events_def attempt_events_def o_def cong: map_cong)
  moreover have "\<forall>a\<in>set (in_Attempts r). list_all (null_or (\<lambda>n. 0 \<le> n)) (durations a)"
    unfolding all using durations_nonneg [OF assms(3) f_def] by auto
  moreover have "map ai_AttemptNumber (in_Attempts r) = map int [1..<Suc (length (in_Attempts r))]"
    using num by (simp add: all one(2) numbered_def cong: map_cong)
  ultimately show ?thesis using sums grouped [of v_TaskAttemptID vs] ids by (simp add: all)
qed

section \<open>A span and what it counts\<close>

definition demo_span :: "string \<Rightarrow> ReadOnlySpan" where
  "demo_span name = \<lparr>ro_Attributes = [(''task.id'', Attribute (JStr demo_tid)),
       (''task.attempt_id'', Attribute (JStr demo_aid))],
     ro_TraceID = replicate 32 (CHR ''a''), ro_SpanID = replicate 16 (CHR ''b''), ro_Parent = None,
     ro_Name = name, ro_Kind = ''internal'', ro_StartTime = 1000000, ro_EndTime = 3000000,
     ro_StatusCode = ''Ok'', ro_StatusMessage = []\<rparr>"

definition demo_floats :: float_ops where
  "demo_floats = \<lparr>fo_parse = (\<lambda>s. None), fo_add = (+)\<rparr>"

definition demo_spans :: "SpanRow list" where
  "demo_spans = (case ExportSpans (demo_env 3) demo_revised [demo_span ''runner.attempt'', demo_span ''agent.session''] [] of
     Inl e \<Rightarrow> [] | Inr rs \<Rightarrow> rs)"

lemma demo_spans_export:
  "ExportSpans (demo_env 3) demo_revised [demo_span ''runner.attempt'', demo_span ''agent.session''] [] = Inr demo_spans"
proof -
  have "(case ExportSpans (demo_env 3) demo_revised [demo_span ''runner.attempt'', demo_span ''agent.session''] [] of
     Inl e \<Rightarrow> False | Inr rs \<Rightarrow> True)" by code_simp
  then show "ExportSpans (demo_env 3) demo_revised [demo_span ''runner.attempt'', demo_span ''agent.session''] [] = Inr demo_spans"
    by (auto simp: demo_spans_def split: sum.splits)
qed

theorem export_is_upsert_witness:
  "spans_ok demo_revised demo_spans \<and> (\<forall>E' rs''. ExportSpans E' demo_revised
     [demo_span ''runner.attempt'', demo_span ''agent.session''] demo_spans = Inr rs'' \<longrightarrow> set rs'' = set demo_spans)"
proof -
  have "spans_ok demo_revised []" by (simp add: spans_ok_def)
  from export_is_upsert [OF demo_spans_export this] show ?thesis by blast
qed

theorem insights_account_witness:
  "\<exists>r. GetTaskInsights demo_floats (demo_env 3) demo_tid demo_revised [] demo_spans = Inr r \<and>
     oi_AttemptCount (in_Overall r) = 2 \<and> oi_Validation (in_Overall r) = None"
proof -
  have "spans_ok demo_revised []" by (simp add: spans_ok_def)
  from stored_rows [OF ExportSpans_Inr [OF demo_spans_export] this]
  have spans: "spans_ok demo_revised demo_spans" by (rule conjunct1)
  have "IsUUID demo_tid" by code_simp
  moreover have "find_task demo_revised (pg_uuid demo_tid) \<noteq> None" by code_simp
  ultimately obtain r where
    r: "GetTaskInsights demo_floats (demo_env 3) demo_tid demo_revised [] demo_spans = Inr r"
    using insights_served [OF demo_env_fault_free] by blast
  have two: "length (task_attempts demo_revised (pg_uuid demo_tid)) = 2" by code_simp
  note account = insights_account [OF r demo_revised_inv spans]
  have "summary_of 0 (oi_Validation (in_Overall r))" using account by (simp only: filter.simps list.size of_nat_0)
  then have "oi_Validation (in_Overall r) = None" by (simp add: summary_of_def split: option.splits)
  moreover have "oi_AttemptCount (in_Overall r) = 2" using account by (simp only: two)
  ultimately show ?thesis using r by blast
qed

end
