(* ===== verification/Configuration.thy ===== *)
theory Configuration
  imports TaskStore GoPath GoTime GitText
begin

text \<open>
  \<open>internal/config\<close>: what a process reads from its environment before it starts, and what it refuses.
  The environment, \<open>url.Parse\<close> and the lower case of a rune outside ASCII are parameters.
\<close>

section \<open>Data\<close>

datatype log_level = LevelDebug | LevelInfo | LevelWarn | LevelError

text \<open>The parts of a parsed URL the checks look at.\<close>

record url_parts =
  up_Scheme :: string
  up_Host :: string
  up_Path :: string
  up_RawQuery :: string
  up_Fragment :: string

record process_env =
  pe_getenv :: "string \<Rightarrow> string"
  pe_url :: "string \<Rightarrow> url_parts option"
  pe_lower :: "string \<Rightarrow> string"

record Config =
  cfg_APIAddr :: string
  cfg_DatabaseURL :: string
  cfg_LogLevel :: log_level
  cfg_RunnerLease :: time
  cfg_RunnerHeartbeat :: time
  cfg_RunnerLostAfter :: time
  cfg_WorkerPoll :: time
  cfg_DefaultTaskRuntime :: time
  cfg_RunnerType :: string
  cfg_TaskAttemptID :: string
  cfg_RunnerImage :: string
  cfg_RunnerJobTemplate :: string
  cfg_RunnerNamespace :: string
  cfg_RunnerJobTTL :: time
  cfg_WorkerMaxTasks :: int
  cfg_WorkerIdleExit :: time
  cfg_WorkspaceRoot :: string
  cfg_GitHubWebhookSecret :: string
  cfg_GitHubAppID :: string
  cfg_GitHubAppPrivateKeyPath :: string
  cfg_GitHubAPIBaseURL :: string
  cfg_GitHubOAuthClientID :: string
  cfg_GitHubOAuthClientSecret :: string
  cfg_GitHubOAuthBaseURL :: string
  cfg_GitHubAppSlug :: string
  cfg_AuthPublicOrigin :: string
  cfg_AuthCookieSecure :: bool
  cfg_AgentProvider :: string
  cfg_AgentCLIPath :: string
  cfg_AgentModel :: string
  cfg_AgentPermissionMode :: string
  cfg_AgentCLIVersion :: string
  cfg_ConflictLLMEnabled :: bool
  cfg_ConflictLLMProvider :: string
  cfg_ConflictLLMModel :: string
  cfg_AnthropicAPIKey :: string
  cfg_OTLPEndpoint :: string

definition GitHubEnabled :: "Config \<Rightarrow> bool" where
  "GitHubEnabled c \<longleftrightarrow> cfg_GitHubWebhookSecret c \<noteq> []"

definition AuthEnabled :: "Config \<Rightarrow> bool" where
  "AuthEnabled c \<longleftrightarrow> cfg_GitHubOAuthClientID c \<noteq> []"

section \<open>Variables\<close>

definition envOr :: "process_env \<Rightarrow> string \<Rightarrow> string \<Rightarrow> string" where
  "envOr P key fallback = (if pe_getenv P key = [] then fallback else pe_getenv P key)"

definition envNonNegativeInt :: "process_env \<Rightarrow> string \<Rightarrow> int \<Rightarrow> err + int" where
  "envNonNegativeInt P key fallback =
     (let raw = envOr P key (int_string fallback) in
      case Atoi raw of
        None \<Rightarrow> Inl (Msg (key @ '' '' @ quote raw @ '': want an integer >= 0''))
      | Some n \<Rightarrow>
          if n < 0 then Inl (Msg (key @ '' '' @ quote raw @ '': want an integer >= 0'')) else Inr n)"

text \<open>\<open>time.Duration(n) * time.Second\<close> wraps.\<close>

definition envSeconds :: "process_env \<Rightarrow> string \<Rightarrow> int \<Rightarrow> err + time" where
  "envSeconds P key fallback =
     (let raw = envOr P key (int_string fallback) in
      case Atoi raw of
        None \<Rightarrow> Inl (Msg (key @ '' '' @ quote raw @ '': want a positive integer of seconds''))
      | Some n \<Rightarrow>
          if n \<le> 0 then Inl (Msg (key @ '' '' @ quote raw @ '': want a positive integer of seconds''))
          else Inr (wrap64 (n * second)))"

definition envBool :: "process_env \<Rightarrow> string \<Rightarrow> bool \<Rightarrow> err + bool" where
  "envBool P key fallback =
     (let raw = pe_getenv P key in
      if raw = [] then Inr fallback
      else if raw = ''true'' then Inr True
      else if raw = ''false'' then Inr False
      else Inl (Msg (key @ '' '' @ quote raw @ '': want true or false'')))"

definition parseLogLevel :: "process_env \<Rightarrow> string \<Rightarrow> err + log_level" where
  "parseLogLevel P s =
     (let l = ToLower (pe_lower P) s in
      if l = ''debug'' then Inr LevelDebug
      else if l = ''info'' then Inr LevelInfo
      else if l = ''warn'' then Inr LevelWarn
      else if l = ''error'' then Inr LevelError
      else Inl (Msg (''LOG_LEVEL '' @ quote s @ '': want debug, info, warn, or error'')))"

section \<open>Checks\<close>

text \<open>\<open>net.SplitHostPort\<close>: the port is what follows the last colon.\<close>

definition addr_error :: "string \<Rightarrow> string \<Rightarrow> err + 'a" where
  "addr_error addr why = Inl (Msg ((if addr = [] then [] else ''address '' @ addr @ '': '') @ why))"

definition SplitHostPort :: "string \<Rightarrow> err + string \<times> string" where
  "SplitHostPort addr =
     (let host = rev (tl (dropWhile (\<lambda>c. c \<noteq> CHR '':'') (rev addr)));
          port = rev (takeWhile (\<lambda>c. c \<noteq> CHR '':'') (rev addr));
          inside = takeWhile (\<lambda>c. c \<noteq> CHR '']'') addr;
          after = dropWhile (\<lambda>c. c \<noteq> CHR '']'') addr in
      if CHR '':'' \<notin> set addr then addr_error addr ''missing port in address''
      else if hd addr = CHR ''['' then
        (if after = [] then addr_error addr (''missing '' @ [CHR 0x27] @ '']'' @ [CHR 0x27] @ '' in address'')
         else if tl after = [] then addr_error addr ''missing port in address''
         else if host \<noteq> inside @ '']'' then
           (if hd (tl after) = CHR '':'' then addr_error addr ''too many colons in address''
            else addr_error addr ''missing port in address'')
         else if CHR ''['' \<in> set (tl addr) then
           addr_error addr (''unexpected '' @ [CHR 0x27] @ ''['' @ [CHR 0x27] @ '' in address'')
         else if CHR '']'' \<in> set (tl after) then
           addr_error addr (''unexpected '' @ [CHR 0x27] @ '']'' @ [CHR 0x27] @ '' in address'')
         else Inr (tl inside, port))
      else if CHR '':'' \<in> set host then addr_error addr ''too many colons in address''
      else if CHR ''['' \<in> set addr then
        addr_error addr (''unexpected '' @ [CHR 0x27] @ ''['' @ [CHR 0x27] @ '' in address'')
      else if CHR '']'' \<in> set addr then
        addr_error addr (''unexpected '' @ [CHR 0x27] @ '']'' @ [CHR 0x27] @ '' in address'')
      else Inr (host, port))"

definition validateAddr :: "string \<Rightarrow> err + unit" where
  "validateAddr addr =
     bind_sum (wrap (''API_ADDR '' @ quote addr) (SplitHostPort addr)) (\<lambda>(host, port).
     case Atoi port of
       None \<Rightarrow> Inl (Msg (''API_ADDR '' @ quote addr @ '': port must be 0-65535''))
     | Some n \<Rightarrow>
         if n < 0 \<or> 65535 < n then Inl (Msg (''API_ADDR '' @ quote addr @ '': port must be 0-65535''))
         else Inr ())"

definition validateGitHub :: "Config \<Rightarrow> err + unit" where
  "validateGitHub c =
     (let given = length (filter (\<lambda>v. v \<noteq> [])
        [cfg_GitHubWebhookSecret c, cfg_GitHubAppID c, cfg_GitHubAppPrivateKeyPath c]) in
      if given \<noteq> 0 \<and> given \<noteq> 3 then
        Inl (Msg ''GITHUB_WEBHOOK_SECRET, GITHUB_APP_ID, and GITHUB_APP_PRIVATE_KEY_PATH must be set together'')
      else Inr ())"

definition origin_ok :: "url_parts option \<Rightarrow> bool" where
  "origin_ok u \<longleftrightarrow> (case u of None \<Rightarrow> False
     | Some p \<Rightarrow> up_Scheme p \<noteq> [] \<and> up_Host p \<noteq> [] \<and> up_Path p = [] \<and> up_RawQuery p = [] \<and> up_Fragment p = [])"

definition validateAuth :: "process_env \<Rightarrow> Config \<Rightarrow> err + unit" where
  "validateAuth P c =
     (if (cfg_GitHubOAuthClientID c \<noteq> []) \<noteq> (cfg_GitHubOAuthClientSecret c \<noteq> []) then
        Inl (Msg ''GITHUB_OAUTH_CLIENT_ID and GITHUB_OAUTH_CLIENT_SECRET must be set together'')
      else if \<not> origin_ok (pe_url P (cfg_AuthPublicOrigin c)) then
        Inl (Msg (''AUTH_PUBLIC_ORIGIN '' @ quote (cfg_AuthPublicOrigin c)
          @ '': want scheme://host[:port] with no path''))
      else Inr ())"

definition require :: "bool \<Rightarrow> string \<Rightarrow> err + unit" where
  "require ok m = (if ok then Inr () else Inl (Msg m))"

section \<open>Loading\<close>

text \<open>The fields taken from the environment as they are; the others are still zero.\<close>

definition plain_config :: "process_env \<Rightarrow> Config" where
  "plain_config P =
     \<lparr>cfg_APIAddr = envOr P ''API_ADDR'' '':8080'', cfg_DatabaseURL = pe_getenv P ''DATABASE_URL'',
      cfg_LogLevel = LevelInfo, cfg_RunnerLease = 0, cfg_RunnerHeartbeat = 0, cfg_RunnerLostAfter = 0,
      cfg_WorkerPoll = 0, cfg_DefaultTaskRuntime = 0,
      cfg_RunnerType = envOr P ''RUNNER_TYPE'' ''process'',
      cfg_TaskAttemptID = pe_getenv P ''TASK_ATTEMPT_ID'', cfg_RunnerImage = pe_getenv P ''RUNNER_IMAGE'',
      cfg_RunnerJobTemplate = envOr P ''RUNNER_JOB_TEMPLATE'' ''/etc/agent-trail/runner-job.yaml'',
      cfg_RunnerNamespace = ''agent-trail-runners'', cfg_RunnerJobTTL = 0, cfg_WorkerMaxTasks = 0,
      cfg_WorkerIdleExit = 0, cfg_WorkspaceRoot = envOr P ''WORKSPACE_ROOT'' ''/var/lib/agent-trail'',
      cfg_GitHubWebhookSecret = pe_getenv P ''GITHUB_WEBHOOK_SECRET'',
      cfg_GitHubAppID = pe_getenv P ''GITHUB_APP_ID'',
      cfg_GitHubAppPrivateKeyPath = pe_getenv P ''GITHUB_APP_PRIVATE_KEY_PATH'',
      cfg_GitHubAPIBaseURL = pe_getenv P ''GITHUB_API_BASE_URL'',
      cfg_GitHubOAuthClientID = pe_getenv P ''GITHUB_OAUTH_CLIENT_ID'',
      cfg_GitHubOAuthClientSecret = pe_getenv P ''GITHUB_OAUTH_CLIENT_SECRET'',
      cfg_GitHubOAuthBaseURL = pe_getenv P ''GITHUB_OAUTH_BASE_URL'',
      cfg_GitHubAppSlug = pe_getenv P ''GITHUB_APP_SLUG'',
      cfg_AuthPublicOrigin = envOr P ''AUTH_PUBLIC_ORIGIN'' ''http://localhost:3000'',
      cfg_AuthCookieSecure = False, cfg_AgentProvider = envOr P ''AGENT_PROVIDER'' ''fake'',
      cfg_AgentCLIPath = envOr P ''AGENT_CLI_PATH'' ''claude'', cfg_AgentModel = pe_getenv P ''AGENT_MODEL'',
      cfg_AgentPermissionMode = envOr P ''AGENT_PERMISSION_MODE'' ''acceptEdits'',
      cfg_AgentCLIVersion = pe_getenv P ''AGENT_CLI_VERSION'', cfg_ConflictLLMEnabled = False,
      cfg_ConflictLLMProvider = envOr P ''CONFLICT_LLM_PROVIDER'' ''fake'',
      cfg_ConflictLLMModel = envOr P ''CONFLICT_LLM_MODEL'' ''claude-sonnet-4-6'',
      cfg_AnthropicAPIKey = pe_getenv P ''ANTHROPIC_API_KEY'',
      cfg_OTLPEndpoint = envOr P ''OTEL_EXPORTER_OTLP_ENDPOINT'' ''localhost:4317''\<rparr>"

definition load_durations :: "process_env \<Rightarrow> Config \<Rightarrow> err + Config" where
  "load_durations P c =
     bind_sum (envSeconds P ''RUNNER_LEASE_SECONDS'' 60) (\<lambda>lease.
     bind_sum (envSeconds P ''RUNNER_HEARTBEAT_SECONDS'' 10) (\<lambda>beat.
     bind_sum (envSeconds P ''RUNNER_LOST_AFTER_SECONDS'' 30) (\<lambda>lost.
     bind_sum (envSeconds P ''WORKER_POLL_SECONDS'' 2) (\<lambda>poll.
     bind_sum (envSeconds P ''AGENT_TIMEOUT_SECONDS'' 2700) (\<lambda>runtime.
     bind_sum (require (beat < lost) (''RUNNER_LOST_AFTER_SECONDS ('' @ duration_string lost
       @ '') must exceed RUNNER_HEARTBEAT_SECONDS ('' @ duration_string beat @ '')'')) (\<lambda>_.
     Inr (c\<lparr>cfg_RunnerLease := lease, cfg_RunnerHeartbeat := beat, cfg_RunnerLostAfter := lost,
       cfg_WorkerPoll := poll, cfg_DefaultTaskRuntime := runtime\<rparr>)))))))"

definition LoadConfig :: "process_env \<Rightarrow> err + Config" where
  "LoadConfig P =
     (let c = plain_config P in
      bind_sum (validateAddr (cfg_APIAddr c)) (\<lambda>_.
      bind_sum (require (IsAbs (cfg_WorkspaceRoot c)) (''WORKSPACE_ROOT '' @ quote (cfg_WorkspaceRoot c)
        @ '' must be an absolute path'')) (\<lambda>_.
      bind_sum (validateGitHub c) (\<lambda>_.
      bind_sum (validateAuth P c) (\<lambda>_.
      bind_sum (envBool P ''AUTH_COOKIE_SECURE'' False) (\<lambda>secure.
      bind_sum (envBool P ''CONFLICT_LLM_ENABLED'' False) (\<lambda>llm.
      bind_sum (require (cfg_RunnerType c \<in> {''process'', ''kubernetes''}) (''RUNNER_TYPE ''
        @ quote (cfg_RunnerType c) @ '': want process or kubernetes'')) (\<lambda>_.
      bind_sum (require (\<not> (cfg_RunnerType c = ''kubernetes'' \<and> cfg_TaskAttemptID c = []
        \<and> cfg_RunnerImage c = [])) ''RUNNER_IMAGE is required for the kubernetes controller'') (\<lambda>_.
      bind_sum (require (cfg_TaskAttemptID c = [] \<or> IsUUID (cfg_TaskAttemptID c))
        ''TASK_ATTEMPT_ID must be a UUID'') (\<lambda>_.
      bind_sum (envSeconds P ''RUNNER_TTL_SECONDS'' 300) (\<lambda>ttl.
      bind_sum (envNonNegativeInt P ''WORKER_MAX_TASKS'' 0) (\<lambda>maxTasks.
      bind_sum (envNonNegativeInt P ''WORKER_IDLE_EXIT_SECONDS'' 0) (\<lambda>idleExit.
      bind_sum (require (cfg_AgentProvider c \<in> {''fake'', ''claude-code''}) (''AGENT_PROVIDER ''
        @ quote (cfg_AgentProvider c) @ '': want fake or claude-code'')) (\<lambda>_.
      bind_sum (require (cfg_ConflictLLMProvider c \<in> {''fake'', ''anthropic''}) (''CONFLICT_LLM_PROVIDER ''
        @ quote (cfg_ConflictLLMProvider c) @ '': want fake or anthropic'')) (\<lambda>_.
      bind_sum (require (cfg_AgentPermissionMode c \<in> {''default'', ''acceptEdits'', ''plan'', ''bypassPermissions''})
        (''AGENT_PERMISSION_MODE '' @ quote (cfg_AgentPermissionMode c)
          @ '': want default, acceptEdits, plan, or bypassPermissions'')) (\<lambda>_.
      bind_sum (parseLogLevel P (envOr P ''LOG_LEVEL'' ''info'')) (\<lambda>level.
      load_durations P (c\<lparr>cfg_AuthCookieSecure := secure, cfg_ConflictLLMEnabled := llm,
        cfg_RunnerJobTTL := ttl, cfg_WorkerMaxTasks := maxTasks,
        cfg_WorkerIdleExit := wrap64 (idleExit * second), cfg_LogLevel := level\<rparr>))))))))))))))))))"

section \<open>What a process starts with\<close>

text \<open>A variable in seconds that fits its nanoseconds in 64 bits.\<close>

definition seconds_fit :: "process_env \<Rightarrow> string \<Rightarrow> bool" where
  "seconds_fit P key \<longleftrightarrow> (\<forall>n. Atoi (pe_getenv P key) = Some n \<longrightarrow> n \<le> 9223372036)"

lemma envSeconds_positive:
  assumes "envSeconds P key fallback = Inr d" and "seconds_fit P key"
    and "0 < fallback" "fallback \<le> 9223372036"
  shows "0 < d"
proof -
  obtain n where n: "Atoi (envOr P key (int_string fallback)) = Some n" "0 < n" "d = wrap64 (n * second)"
    using assms(1) by (auto simp: envSeconds_def Let_def split: option.splits if_splits)
  have "n \<le> 9223372036"
  proof (cases "pe_getenv P key = []")
    case True
    then have "Atoi (int_string fallback) = Some n" using n(1) by (simp add: envOr_def)
    then show ?thesis using assms(3,4) by (simp add: Atoi_int_string_signed)
  next
    case False
    with n(1) assms(2) show ?thesis by (auto simp: envOr_def seconds_fit_def)
  qed
  with n(2,3) show ?thesis by (simp add: wrap64_def second_def)
qed


text \<open>Every check a configuration has passed.\<close>

lemma require_Inr [simp]: "require ok m = Inr u \<longleftrightarrow> ok"
  by (simp add: require_def)

lemma load_durations_Inr:
  assumes "load_durations P c = Inr d"
  obtains lease beat lost poll runtime where
    "envSeconds P ''RUNNER_LEASE_SECONDS'' 60 = Inr lease"
    "envSeconds P ''RUNNER_HEARTBEAT_SECONDS'' 10 = Inr beat"
    "envSeconds P ''RUNNER_LOST_AFTER_SECONDS'' 30 = Inr lost"
    "envSeconds P ''WORKER_POLL_SECONDS'' 2 = Inr poll"
    "envSeconds P ''AGENT_TIMEOUT_SECONDS'' 2700 = Inr runtime" "beat < lost"
    "d = c\<lparr>cfg_RunnerLease := lease, cfg_RunnerHeartbeat := beat, cfg_RunnerLostAfter := lost,
      cfg_WorkerPoll := poll, cfg_DefaultTaskRuntime := runtime\<rparr>"
  using assms that unfolding load_durations_def bind_sum_Inr_iff require_Inr by blast

lemma LoadConfig_Inr:
  assumes "LoadConfig P = Inr d"
  obtains secure llm ttl n idle level where
    "validateAddr (cfg_APIAddr (plain_config P)) = Inr ()"
    "IsAbs (cfg_WorkspaceRoot (plain_config P))"
    "validateGitHub (plain_config P) = Inr ()" "validateAuth P (plain_config P) = Inr ()"
    "cfg_RunnerType (plain_config P) \<in> {''process'', ''kubernetes''}"
    "\<not> (cfg_RunnerType (plain_config P) = ''kubernetes'' \<and> cfg_TaskAttemptID (plain_config P) = []
      \<and> cfg_RunnerImage (plain_config P) = [])"
    "cfg_TaskAttemptID (plain_config P) = [] \<or> IsUUID (cfg_TaskAttemptID (plain_config P))"
    "envSeconds P ''RUNNER_TTL_SECONDS'' 300 = Inr ttl"
    "envNonNegativeInt P ''WORKER_MAX_TASKS'' 0 = Inr n"
    "cfg_AgentProvider (plain_config P) \<in> {''fake'', ''claude-code''}"
    "cfg_ConflictLLMProvider (plain_config P) \<in> {''fake'', ''anthropic''}"
    "cfg_AgentPermissionMode (plain_config P) \<in> {''default'', ''acceptEdits'', ''plan'', ''bypassPermissions''}"
    "load_durations P ((plain_config P)\<lparr>cfg_AuthCookieSecure := secure, cfg_ConflictLLMEnabled := llm,
      cfg_RunnerJobTTL := ttl, cfg_WorkerMaxTasks := n, cfg_WorkerIdleExit := idle, cfg_LogLevel := level\<rparr>) = Inr d"
  using assms that unfolding LoadConfig_def Let_def bind_sum_Inr_iff require_Inr by (metis old.unit.exhaust)

lemma validateGitHub_Inr:
  "validateGitHub c = Inr u \<longleftrightarrow>
    (GitHubEnabled c \<longleftrightarrow> cfg_GitHubAppID c \<noteq> []) \<and>
    (GitHubEnabled c \<longleftrightarrow> cfg_GitHubAppPrivateKeyPath c \<noteq> [])"
  by (simp add: validateGitHub_def GitHubEnabled_def Let_def)

lemma validateAuth_Inr:
  "validateAuth P c = Inr u \<longleftrightarrow>
    (AuthEnabled c \<longleftrightarrow> cfg_GitHubOAuthClientSecret c \<noteq> []) \<and> origin_ok (pe_url P (cfg_AuthPublicOrigin c))"
  by (simp add: validateAuth_def AuthEnabled_def)

text \<open>An address the process may listen on.\<close>

definition listen_addr :: "string \<Rightarrow> bool" where
  "listen_addr a \<longleftrightarrow> (case SplitHostPort a of Inl _ \<Rightarrow> False
     | Inr (_, port) \<Rightarrow> (case Atoi port of None \<Rightarrow> False | Some n \<Rightarrow> 0 \<le> n \<and> n \<le> 65535))"

lemma validateAddr_Inr: "validateAddr a = Inr u \<longleftrightarrow> listen_addr a"
  by (auto simp: validateAddr_def listen_addr_def bind_sum_def wrap_def split: sum.splits option.splits if_splits)

lemma envNonNegativeInt_Inr: "envNonNegativeInt P key fallback = Inr n \<Longrightarrow> 0 \<le> n"
  by (auto simp: envNonNegativeInt_def Let_def split: option.splits if_splits)

definition duration_variables :: "string list" where
  "duration_variables = [''RUNNER_LEASE_SECONDS'', ''RUNNER_HEARTBEAT_SECONDS'',
     ''RUNNER_LOST_AFTER_SECONDS'', ''WORKER_POLL_SECONDS'', ''AGENT_TIMEOUT_SECONDS'', ''RUNNER_TTL_SECONDS'']"

text \<open>
  C40. A process that starts has a sound configuration: its port, its workspace root, its runner
  type, agent, permission mode and assessor are among those the code handles, a pinned attempt is
  a UUID, a controller has an image, the GitHub App and the login are configured completely or not
  at all, a runner is lost only after more than a heartbeat, and, as long as the variables in
  seconds fit, every duration is positive.
\<close>

theorem loaded_config_sound:
  assumes "LoadConfig P = Inr c"
  shows "listen_addr (cfg_APIAddr c) \<and> IsAbs (cfg_WorkspaceRoot c) \<and>
    cfg_RunnerType c \<in> {''process'', ''kubernetes''} \<and>
    cfg_AgentProvider c \<in> {''fake'', ''claude-code''} \<and>
    cfg_AgentPermissionMode c \<in> {''default'', ''acceptEdits'', ''plan'', ''bypassPermissions''} \<and>
    cfg_ConflictLLMProvider c \<in> {''fake'', ''anthropic''} \<and>
    (cfg_TaskAttemptID c = [] \<or> IsUUID (cfg_TaskAttemptID c)) \<and>
    \<not> (cfg_RunnerType c = ''kubernetes'' \<and> cfg_TaskAttemptID c = [] \<and> cfg_RunnerImage c = []) \<and>
    (GitHubEnabled c \<longleftrightarrow> cfg_GitHubAppID c \<noteq> []) \<and>
    (GitHubEnabled c \<longleftrightarrow> cfg_GitHubAppPrivateKeyPath c \<noteq> []) \<and>
    (AuthEnabled c \<longleftrightarrow> cfg_GitHubOAuthClientSecret c \<noteq> []) \<and>
    origin_ok (pe_url P (cfg_AuthPublicOrigin c)) \<and>
    0 \<le> cfg_WorkerMaxTasks c \<and> cfg_RunnerHeartbeat c < cfg_RunnerLostAfter c \<and>
    (list_all (seconds_fit P) duration_variables \<longrightarrow>
      0 < cfg_RunnerLease c \<and> 0 < cfg_RunnerHeartbeat c \<and> 0 < cfg_WorkerPoll c \<and>
      0 < cfg_DefaultTaskRuntime c \<and> 0 < cfg_RunnerJobTTL c)"
proof -
  note [simp] = GitHubEnabled_def AuthEnabled_def
  obtain secure llm ttl n idle level where l: "validateAddr (cfg_APIAddr (plain_config P)) = Inr ()"
    "IsAbs (cfg_WorkspaceRoot (plain_config P))"
    "validateGitHub (plain_config P) = Inr ()" "validateAuth P (plain_config P) = Inr ()"
    "cfg_RunnerType (plain_config P) \<in> {''process'', ''kubernetes''}"
    "\<not> (cfg_RunnerType (plain_config P) = ''kubernetes'' \<and> cfg_TaskAttemptID (plain_config P) = []
      \<and> cfg_RunnerImage (plain_config P) = [])"
    "cfg_TaskAttemptID (plain_config P) = [] \<or> IsUUID (cfg_TaskAttemptID (plain_config P))"
    and ttl: "envSeconds P ''RUNNER_TTL_SECONDS'' 300 = Inr ttl"
    and n: "envNonNegativeInt P ''WORKER_MAX_TASKS'' 0 = Inr n"
    and m: "cfg_AgentProvider (plain_config P) \<in> {''fake'', ''claude-code''}"
    "cfg_ConflictLLMProvider (plain_config P) \<in> {''fake'', ''anthropic''}"
    "cfg_AgentPermissionMode (plain_config P) \<in> {''default'', ''acceptEdits'', ''plan'', ''bypassPermissions''}"
    and d: "load_durations P ((plain_config P)\<lparr>cfg_AuthCookieSecure := secure, cfg_ConflictLLMEnabled := llm,
      cfg_RunnerJobTTL := ttl, cfg_WorkerMaxTasks := n, cfg_WorkerIdleExit := idle, cfg_LogLevel := level\<rparr>) = Inr c"
    using assms by (rule LoadConfig_Inr)
  show ?thesis
  proof (rule load_durations_Inr [OF d], goal_cases)
    case (1 lease beat lost poll runtime)
    have "list_all (seconds_fit P) duration_variables \<longrightarrow> 0 < lease \<and> 0 < beat \<and> 0 < poll \<and> 0 < runtime \<and> 0 < ttl"
      using 1(1-5) ttl by (auto simp: duration_variables_def intro: envSeconds_positive)
    with 1(6) l m envNonNegativeInt_Inr [OF n] show ?case
      unfolding 1(7) by (simp add: validateAddr_Inr validateGitHub_Inr validateAuth_Inr) blast
  qed
qed

text \<open>A variable that does not fit is accepted as a negative duration.\<close>

lemma seconds_overflow:
  assumes "pe_getenv P key = int_string 9223372037"
  shows "envSeconds P key n = Inr (- 9223372036709551616)"
proof -
  have "Atoi (int_string 9223372037) = Some 9223372037" by (simp add: Atoi_int_string_signed)
  moreover have "int_string 9223372037 \<noteq> []" by (simp add: int_string_def)
  ultimately show ?thesis using assms by (simp add: envSeconds_def envOr_def Let_def wrap64_def second_def)
qed

text \<open>The environment of a runner inside a Job.\<close>

definition demo_process_env :: process_env where
  "demo_process_env = \<lparr>pe_getenv = (\<lambda>k. if k = ''RUNNER_TYPE'' then ''kubernetes''
       else if k = ''RUNNER_IMAGE'' then ''runner:1'' else if k = ''WORKER_MAX_TASKS'' then ''1'' else []),
     pe_url = (\<lambda>u. Some \<lparr>up_Scheme = ''http'', up_Host = ''localhost:3000'', up_Path = [],
       up_RawQuery = [], up_Fragment = []\<rparr>),
     pe_lower = id\<rparr>"

theorem loaded_config_sound_witness:
  "(case LoadConfig demo_process_env of Inl _ \<Rightarrow> False | Inr c \<Rightarrow>
      listen_addr (cfg_APIAddr c) \<and> cfg_RunnerHeartbeat c < cfg_RunnerLostAfter c \<and> 0 < cfg_RunnerJobTTL c)"
proof -
  have "(case LoadConfig demo_process_env of Inl _ \<Rightarrow> False | Inr _ \<Rightarrow> True)" by code_simp
  then obtain c where c: "LoadConfig demo_process_env = Inr c" by (auto split: sum.splits)
  have "list_all (seconds_fit demo_process_env) duration_variables"
    by (simp add: duration_variables_def seconds_fit_def demo_process_env_def Atoi_def)
  then show ?thesis using loaded_config_sound [OF c] by (simp add: c)
qed

end
