(* ===== verification/Spec2Isabelle.thy ===== *)
theory Spec2Isabelle
  imports TaskProps EventStream Leases GithubStore Settings DeliveryProps GitProps GitConfine ExecutorProps
    CheckProps ConflictProps HostProps KubeProps LoginProps TaskCreation AgentProps StreamLoop Insights
    Configuration Assessors
begin

text \<open>
  A verification development of agent-trail's control plane and runner
  (\<open>apps/api/internal\<close>, written in Go on PostgreSQL).

  The program. A GitHub App receives webhooks; a comment \<open>/agent-trail run\<close> on an issue of an
  enabled repository creates a task, \<open>/agent-trail revise\<close> on its pull request asks for another
  attempt. Tasks, attempts, events, leases, deliveries, repositories, checks, reports and conflicts
  are rows of one database. Runners poll it, take the lease of a due attempt and execute it: they
  make a git worktree, run the agent in it, run the repository's trusted checks, commit, push an
  agent branch, open a draft pull request with the evidence and settle the task; whoever takes
  over an expired lease continues where the task stands. A runner is a process of its own or a
  Kubernetes Job that a backend makes for a due attempt. A dashboard reads all of it through an HTTP
  API, behind a login with GitHub; a stream endpoint follows the events of a task.

  How it is modelled. The database is the record \<open>db\<close> of \<open>Schema\<close>, one list of rows per
  table, with the columns and the constraints of \<open>apps/api/migrations/*.sql\<close>; a statement is
  computed on it and refused with PostgreSQL's error where a constraint would be violated
  (\<open>exec\<close>). A function of a store is a HOL function from the driver's answers (\<open>env\<close>: the
  clock, generated ids, faults), its arguments and the database to an error or the result with the
  new database: a transaction that fails leaves the database as it was. Errors are values of
  \<open>err\<close> (\<open>GoErrors\<close>): sentinels, \<open>%w\<close> wraps and joins, so \<open>errors.Is\<close> is a function.
  Strings are lists of bytes, as in Go, with UTF-8 decoding written out (\<open>GoStrings\<close>);
  64-bit arithmetic wraps where it can overflow (\<open>wrap64\<close>). Code that calls out (handlers, the
  git layer, the executor) is an \<open>action\<close> of \<open>Effects\<close>: it takes a world (database, number of
  operations so far, log of effects, records, lost-lease mark) to a result and the next world. At
  every operation the surroundings (\<open>host\<close> and its extensions \<open>git_host\<close>, \<open>runner_host\<close>,
  \<open>host_host\<close>, \<open>k8s_host\<close>, \<open>api_host\<close>, \<open>http_host\<close>)
  give the answer for that operation number, and other processes may take steps of the platform
  before it (\<open>h_others\<close>), so a theorem about an action holds for every interleaving.

  The parts.
    \<^item> \<open>Prelude\<close>, \<open>GoStrings\<close>, \<open>GoErrors\<close>, \<open>GoText\<close>, \<open>GoTime\<close>, \<open>GoJson\<close>, \<open>GoPath\<close>,
      \<open>PathFacts\<close>: what the code uses of Go's standard library, and the lemmas shared by the rest.
    \<^item> \<open>TaskStatus\<close> (\<open>task/status.go\<close>), \<open>Schema\<close> (the tables of \<open>task/task.go\<close> and the
      migrations), \<open>TaskStore\<close> (\<open>task/store.go\<close>), \<open>RunnerStore\<close> (\<open>runner/store.go\<close>),
      \<open>GithubStore\<close> (\<open>github/store.go\<close>), \<open>Settings\<close> (\<open>reposettings\<close>).
    \<^item> \<open>TaskInvariants\<close>, \<open>TaskSteps\<close>: the invariant \<open>db_inv\<close> of the task tables and that
      each operation keeps it; \<open>History\<close>: the order \<open>db_le\<close> in which a database only grows, and
      that each operation respects it; \<open>TaskProgress\<close>: when an operation succeeds.
    \<^item> \<open>Systems\<close>: the locales \<open>invariant_system\<close> and \<open>growing_system\<close> of a step relation with
      an invariant and a history order; \<open>Platform\<close> interprets them on \<open>platform_step\<close>, one
      committed operation of any store. \<open>Leases\<close>: the locale \<open>lease_service\<close>, its exclusion
      theorem, and the interpretation on the runner store.
    \<^item> \<open>TaskProps\<close>, \<open>Scenario\<close>: the properties of the task store and concrete databases on which
      witnesses run. \<open>EventStream\<close>, \<open>StreamLoop\<close> (\<open>httpapi/stream.go\<close>,
      \<open>EventsAfter\<close>): cursors, drains and the stream around them.
    \<^item> \<open>GithubTypes\<close>, \<open>Ops\<close>, \<open>Command\<close>, \<open>Revise\<close>, \<open>Process\<close>, \<open>Webhook\<close>:
      \<open>github/client.go\<close> (its values), \<open>command.go\<close>, \<open>revise.go\<close>, \<open>process.go\<close>,
      \<open>checkrun.go\<close>, \<open>webhook.go\<close>, \<open>signature.go\<close>. \<open>HandlerProps\<close>, \<open>DeliveryProps\<close>: runs of
      handlers as runs of the platform, comments per delivery, final statuses, authorisation.
    \<^item> \<open>GitText\<close>, \<open>GitManager\<close>: \<open>gitworkspace\<close>: branch names, diffs and trailers as texts,
      and every operation of the manager as git commands and file operations. \<open>GitProps\<close>,
      \<open>GitConfine\<close>: their properties.
    \<^item> \<open>Validation\<close>, \<open>Evidence\<close>, \<open>EvidenceStore\<close>, \<open>Conflict\<close>, \<open>Detector\<close>, \<open>Records\<close>:
      \<open>validation\<close>, \<open>evidence\<close>, \<open>conflict\<close>. \<open>CheckProps\<close>, \<open>ConflictProps\<close>: their properties.
      \<open>Assessors\<close>: the assessors \<open>conflict\<close> asks about two changes.
    \<^item> \<open>ClaudeAgent\<close> (\<open>agent/claude.go\<close>, \<open>fake.go\<close>, \<open>new.go\<close>): sessions from the lines an agent
      prints and how it ends. \<open>AgentProps\<close>: outcomes and redaction; \<open>GoReplace\<close>: \<open>strings.ReplaceAll\<close>.
    \<^item> \<open>RunnerOps\<close>, \<open>Publish\<close>, \<open>Executor\<close>: \<open>runner/executor.go\<close>, \<open>runner/publish.go\<close> and
      the sessions of \<open>agent/agent.go\<close>. \<open>ExecutorRuns\<close>: every effect of an execution is its
      attempt's own (\<open>runs\<close>); \<open>ExecutorStages\<close>, \<open>ExecutorDrive\<close>: a calculus in which an
      action walks the task state machine from stage to stage (\<open>staged\<close>, \<open>reaches\<close>), applied to
      every function of the executor; \<open>ExecutorProps\<close>: the properties.
    \<^item> \<open>RunnerHost\<close> (\<open>runner/host.go\<close>), \<open>Kubernetes\<close> (\<open>runner/kubernetes_backend.go\<close>): the two
      ways of running attempts. \<open>HostProps\<close>, \<open>KubeProps\<close>: what a process and a backend ask for,
      and the rendering of Jobs.
    \<^item> \<open>AuthStore\<close>, \<open>AuthService\<close> (\<open>auth/store.go\<close>, \<open>auth/oauth.go\<close>, \<open>auth/service.go\<close>): users,
      sessions, memberships, the login. \<open>AuthProps\<close>: their properties. \<open>DashboardStore\<close>,
      \<open>DashboardReads\<close> (\<open>dashboard\<close>): writes and reads of the dashboard.
    \<^item> \<open>HttpApi\<close>, \<open>HttpHandlers\<close> (\<open>httpapi\<close>): requests, responses, parameters, every handler and
      the routes. \<open>HttpProps\<close>: what a request may change and for whom; \<open>LoginProps\<close>: from a
      callback to its session; \<open>TaskCreation\<close>: from a request to a task.
    \<^item> \<open>Traces\<close> (\<open>observability/trace_store.go\<close>), \<open>Insights\<close> (\<open>insights\<close>): recorded spans, and what
      a task's attempts took and counted. \<open>Configuration\<close> (\<open>config/config.go\<close>): what a process reads
      from its environment and refuses.

  What the properties show. The database is consistent in every reachable state and only grows;
  transitions are legal, exactly once under a key, and succeed where they may; revisions stay within
  their limit; a lease is exclusive and work is served in order. A command needs write access,
  a delivery is dispatched once, answered at most once and gets its final status. An execution, whatever its
  surroundings answer, does only what is its own, fences every transition, refines the task state
  machine and leaves alone what it lost. Branches, diffs, trailers, commands, signatures, settings,
  cursors and reports are parsed and printed without loss; the git layer stays below its root; checks
  are bounded and storable, verdicts rest on trusted results only and agree; conflicts are
  symmetric and stored once. A runner process serves its claims and nothing else; the backend asks
  for one Job per due attempt, whose text does not depend on the order of a map. The API lets nobody
  in without a session, only members change a repository, a login is its browser's own and its
  session its user's; a task asked for within the bounds of the API is created. A stream writes
  the timeline once and in order and ends where it says; insights account for every row; an agent's
  session returns what it reported and its failures show no credential; a process that starts has a
  sound configuration.

  Bounds and fuel. \<open>resolve_from\<close> climbs with fuel, the length of the path plus one, which is
  never used up (\<open>containment_check_ends\<close>). \<open>fence_retry\<close> makes as many retries as the host
  says its timeout allows, any number. The drain of a stream takes its number of batches as an
  argument, and \<open>drain_complete\<close> says how many are enough; the stream around it runs as many rounds
  as it is given, up to the one that ends it. The loops of a runner process and of the
  backend end with their context: \<open>host_loop\<close> and \<open>backend_loop\<close> take a number of rounds, and their
  properties hold for any. The pages of a user's installations are read until one is not full:
  \<open>sv_Pages\<close> is any number, and \<open>installation_pages_end\<close> says that one more than the full pages is
  enough. All other loops are structural or have a termination proof.

  Not modelled. Goroutines as such: the heartbeat and the cancellation watcher are surroundings that
  may end the context or mark the lease lost at any operation; the ticks of the heartbeat of a
  process are steps of its own (\<open>beat_tick\<close>). Of HTTP, the parsing of requests, the encoding of
  bodies, the mux's redirects and the middleware; the network side of the OAuth, GitHub and language
  model clients and JWT signing; the processes and pipes of the command line agent. The answers of
  \<open>Insights\<close> and \<open>Traces\<close>, the sessions of \<open>ClaudeAgent\<close> and the verdicts of \<open>Assessors\<close> are arguments
  of the API, the executor and the detector, whose theorems hold for any. Logging, metrics, the
  set-up of tracing, fixtures and the binaries' wiring have no state of the platform. The hashes,
  random bytes, collation keys, the YAML and JSON decoders of foreign documents, the parsers of
  floats, the environment, the git binary, the file system, the Kubernetes API and the checks'
  processes are parameters too.
\<close>

end
